(* ===== verification/WabtPrelude.thy ===== *)
theory WabtPrelude
  imports Main "HOL-Library.Word"
begin

text \<open>
  Shared vocabulary of the development: the machine types of the C++ code, the two-valued
  \<open>wabt::Result\<close> of \<^verbatim>\<open>src/result.h\<close>, the outcome of a runtime call, generic lemmas on
  words and lists, and the generic locales (byte codecs, step systems with an invariant)
  that the components interpret.
\<close>

unbundle bit_operations_syntax

type_synonym u8 = "8 word"
type_synonym u16 = "16 word"
type_synonym u32 = "32 word"
type_synonym u64 = "64 word"

type_synonym bytes = "u8 list"

named_theorems wabt_defs "definitions unfolded when a component is evaluated on a concrete input"

section \<open>Results\<close>

text \<open>\<open>wabt::Result\<close>: a success flag; the code accumulates it with \<open>|=\<close>.\<close>

datatype Result = Result_Ok | Result_Error

definition result_or :: "Result \<Rightarrow> Result \<Rightarrow> Result" where
  "result_or lhs rhs =
     (if lhs = Result_Error \<or> rhs = Result_Error then Result_Error else Result_Ok)"

definition Succeeded :: "Result \<Rightarrow> bool" where
  "Succeeded r \<longleftrightarrow> r = Result_Ok"

definition Failed :: "Result \<Rightarrow> bool" where
  "Failed r \<longleftrightarrow> r = Result_Error"

lemma result_or_Ok [simp]:
  "result_or a b = Result_Ok \<longleftrightarrow> a = Result_Ok \<and> b = Result_Ok"
  by (cases a; cases b) (auto simp: result_or_def)

lemma result_or_left [simp]: "result_or Result_Ok b = b"
  by (cases b) (auto simp: result_or_def)

lemma result_or_right [simp]: "result_or a Result_Ok = a"
  by (cases a) (auto simp: result_or_def)

lemma result_or_Error [simp]:
  "result_or Result_Error b = Result_Error" "result_or a Result_Error = Result_Error"
  by (auto simp: result_or_def)

lemma Failed_iff [simp]: "Failed r \<longleftrightarrow> r \<noteq> Result_Ok"
  by (cases r) (auto simp: Failed_def)

lemma Succeeded_iff [simp]: "Succeeded r \<longleftrightarrow> r = Result_Ok"
  by (simp add: Succeeded_def)

section \<open>Words\<close>

lemma and_or_split: "(w AND mask n) OR push_bit n (drop_bit n w) = (w :: 'a::len word)"
proof (rule bit_word_eqI)
  fix m assume "m < LENGTH('a)"
  then show "bit ((w AND mask n) OR push_bit n (drop_bit n w)) m = bit w m"
    by (cases "m < n") (auto simp: bit_simps)
qed

lemma signed_split:
  "(w AND mask n) OR push_bit n (signed_drop_bit n w) = (w :: 'a::len word)"
proof (rule bit_word_eqI)
  fix m assume "m < LENGTH('a)"
  then show "bit ((w AND mask n) OR push_bit n (signed_drop_bit n w)) m = bit w m"
    by (cases "m < n") (auto simp: bit_simps)
qed

lemma mask_7: "(0x7f :: 'a::len word) = mask 7"
  by (simp add: mask_eq_exp_minus_1)

section \<open>Byte codecs\<close>

text \<open>
  The contract between a writer of a value and the reader of the same encoding: the reader
  consumes exactly the written bytes whatever follows them, and the writer never produces
  more bytes than its buffer holds. The reader returns the number of bytes consumed and
  the value it stored through its out parameter, if it stored one.
\<close>

locale byte_codec =
  fixes enc :: "'v \<Rightarrow> bytes"
    and dec :: "bytes \<Rightarrow> nat \<times> 'v option"
    and max_len :: nat
  assumes dec_enc: "dec (enc v @ rest) = (length (enc v), Some v)"
    and enc_nonempty: "enc v \<noteq> []"
    and enc_bound: "length (enc v) \<le> max_len"
begin

lemma enc_inj: "enc v @ r = enc w @ s \<Longrightarrow> v = w \<and> r = s"
  using dec_enc [of v r] dec_enc [of w s] by auto

lemma enc_prefix_free: "enc v @ r = enc w \<Longrightarrow> r = []"
  using enc_inj [of v r w "[]"] by simp

end

section \<open>Step systems\<close>

text \<open>
  A component whose operations all keep an invariant: one step for each operation, a run
  for a sequence of operations.
\<close>

locale step_system =
  fixes step :: "'op \<Rightarrow> 's \<Rightarrow> 's"
    and inv :: "'s \<Rightarrow> bool"
  assumes inv_step: "inv s \<Longrightarrow> inv (step x s)"
begin

lemma inv_fold: "inv s \<Longrightarrow> inv (fold step xs s)"
  by (induction xs arbitrary: s) (auto intro: inv_step)

end

end
