(* ===== verification/Leb128.thy ===== *)
theory Leb128
  imports WabtPrelude
begin

text \<open>
  LEB128 integers (\<^verbatim>\<open>src/leb128.cc\<close>). The writers are the \<open>LEB128_LOOP_UNTIL\<close> loops,
  as recursion on the shrinking value; the readers are the unrolled branches of
  \<open>ReadU32Leb128\<close>, \<open>ReadS32Leb128\<close>, \<open>ReadS64Leb128\<close>. A pointer pair
  \<open>p\<close>, \<open>end\<close> is the list of bytes from \<open>p\<close> to \<open>end\<close>.
\<close>

section \<open>Writers\<close>

definition MAX_U32_LEB128_BYTES :: nat where "MAX_U32_LEB128_BYTES = 5"
definition MAX_U64_LEB128_BYTES :: nat where "MAX_U64_LEB128_BYTES = 10"

function U32Leb128Length_loop :: "u32 \<Rightarrow> u32 \<Rightarrow> u32" where
  "U32Leb128Length_loop value sz =
     (let value' = drop_bit 7 value; sz' = sz + 1
      in if value' \<noteq> 0 then U32Leb128Length_loop value' sz' else sz')"
  by pat_completeness auto

lemma unat_drop_7_less: "drop_bit 7 (v :: 'a::len word) \<noteq> 0 \<Longrightarrow> unat (drop_bit 7 v) < unat v"
  by (cases "v = 0") (auto simp: unat_drop_bit_eq drop_bit_nat_def unat_gt_0 simp del: drop_bit_eq_div)

termination U32Leb128Length_loop
  by (relation "measure (\<lambda>(v, s). unat v)") (auto intro: unat_drop_7_less)

definition U32Leb128Length :: "u32 \<Rightarrow> u32" where
  "U32Leb128Length value = U32Leb128Length_loop value 0"

text \<open>\<open>LEB128_LOOP_UNTIL(value == 0)\<close>, the loop of the unsigned writers.\<close>

function leb_u32_loop :: "u32 \<Rightarrow> bytes" where
  "leb_u32_loop value =
     (let byte = ucast (value AND 0x7f) :: u8; value' = drop_bit 7 value
      in if value' = 0 then [byte] else (byte OR 0x80) # leb_u32_loop value')"
  by pat_completeness auto
termination
  by (relation "measure unat") (auto intro: unat_drop_7_less)

declare leb_u32_loop.simps [simp del]
declare U32Leb128Length_loop.simps [simp del]

definition WriteU32Leb128 :: "u32 \<Rightarrow> bytes" where
  "WriteU32Leb128 value = leb_u32_loop value"

text \<open>
  The loops of the signed writers. The code tests the sign once, before the loop, and picks
  one of two end conditions; an arithmetic shift keeps the sign, so testing it in each
  iteration picks the same one. The 32-bit and the 64-bit writer are two copies of the
  same text on \<open>int32_t\<close> and \<open>int64_t\<close>: masking and arithmetic shift never leave the
  width, so one loop on the signed value models both.
\<close>

definition leb_s_end :: "int \<Rightarrow> u8 \<Rightarrow> int \<Rightarrow> bool" where
  "leb_s_end value byte value' \<longleftrightarrow>
     (if value < 0 then value' = - 1 \<and> byte AND 0x40 \<noteq> 0
      else value' = 0 \<and> \<not> (byte AND 0x40 \<noteq> 0))"

function leb_s_loop :: "int \<Rightarrow> bytes" where
  "leb_s_loop value =
     (let byte = word_of_int (value AND 0x7f) :: u8; value' = drop_bit 7 value
      in if leb_s_end value byte value' then [byte] else (byte OR 0x80) # leb_s_loop value')"
  by pat_completeness auto

lemma byte_bit6: "(b :: u8) AND 0x40 \<noteq> 0 \<longleftrightarrow> bit b 6"
  using and_exp_eq_0_iff_not_bit [of b 6] by simp

lemma byte_bit7: "(b :: u8) AND 0x80 = 0 \<longleftrightarrow> \<not> bit b 7"
  using and_exp_eq_0_iff_not_bit [of b 7] by simp

lemma leb_s_measure:
  assumes "\<not> leb_s_end value (word_of_int (value AND 0x7f)) (drop_bit 7 value)"
  shows "\<bar>2 * drop_bit 7 value + 1\<bar> < \<bar>2 * value + 1\<bar>"
proof -
  have "value \<noteq> 0" using assms by (auto simp: leb_s_end_def)
  moreover have "value \<noteq> - 1" using assms by (auto simp: leb_s_end_def)
  ultimately show ?thesis by (simp add: drop_bit_eq_div)
qed

termination leb_s_loop
  by (relation "measure (\<lambda>v. nat \<bar>2 * v + 1\<bar>)") (auto intro: leb_s_measure, presburger)

declare leb_s_loop.simps [simp del]

definition WriteS32Leb128 :: "u32 \<Rightarrow> bytes" where
  "WriteS32Leb128 value = leb_s_loop (sint value)"

definition WriteS64Leb128 :: "u64 \<Rightarrow> bytes" where
  "WriteS64Leb128 value = leb_s_loop (sint value)"

text \<open>
  \<open>WriteFixedU32Leb128Raw\<close> fills a buffer of at least five bytes and returns the length
  it used, or 0 and no byte written when the buffer is shorter.
\<close>

definition WriteFixedU32Leb128Raw :: "nat \<Rightarrow> u32 \<Rightarrow> bytes" where
  "WriteFixedU32Leb128Raw room value =
     (if room < MAX_U32_LEB128_BYTES then []
      else [ucast (value AND 0x7f) OR 0x80,
            ucast (drop_bit 7 value AND 0x7f) OR 0x80,
            ucast (drop_bit 14 value AND 0x7f) OR 0x80,
            ucast (drop_bit 21 value AND 0x7f) OR 0x80,
            ucast (drop_bit 28 value AND 0x0f)])"

definition WriteFixedU32Leb128 :: "u32 \<Rightarrow> bytes" where
  "WriteFixedU32Leb128 value = WriteFixedU32Leb128Raw MAX_U32_LEB128_BYTES value"

section \<open>Readers\<close>

definition BYTE_AT :: "bytes \<Rightarrow> nat \<Rightarrow> nat \<Rightarrow> 'a::len word" where
  "BYTE_AT p i shift = push_bit shift ((ucast (p ! i) :: 'a word) AND 0x7f)"

text \<open>\<open>LEB128_1\<close> to \<open>LEB128_10\<close>: the macro for \<open>k\<close> bytes.\<close>

primrec LEB128_n :: "nat \<Rightarrow> bytes \<Rightarrow> 'a::len word" where
  "LEB128_n 0 p = 0"
| "LEB128_n (Suc k) p = BYTE_AT p k (7 * k) OR LEB128_n k p"

definition SIGN_EXTEND :: "'a::len word \<Rightarrow> nat \<Rightarrow> 'a word" where
  "SIGN_EXTEND value sign_bit =
     (let shift_amount = LENGTH('a) - 1 - sign_bit
      in signed_drop_bit shift_amount (push_bit shift_amount value))"

text \<open>The guard of each branch: \<open>p + i < end && (p[i] & 0x80) == 0\<close>.\<close>

definition last_at :: "bytes \<Rightarrow> nat \<Rightarrow> bool" where
  "last_at p i \<longleftrightarrow> i < length p \<and> (p ! i) AND 0x80 = 0"

text \<open>
  A reader returns the number of bytes it consumed (0 for a malformed number) and what it
  stored through \<open>out_value\<close>, \<open>None\<close> where it returns without storing.
\<close>

definition ReadU32Leb128 :: "bytes \<Rightarrow> nat \<times> u32 option" where
  "ReadU32Leb128 p =
     (if last_at p 0 then (1, Some (LEB128_n 1 p))
      else if last_at p 1 then (2, Some (LEB128_n 2 p))
      else if last_at p 2 then (3, Some (LEB128_n 3 p))
      else if last_at p 3 then (4, Some (LEB128_n 4 p))
      else if last_at p 4 then
        (if (p ! 4) AND 0xf0 \<noteq> 0 then (0, None) else (5, Some (LEB128_n 5 p)))
      else (0, Some 0))"

definition ReadS32Leb128 :: "bytes \<Rightarrow> nat \<times> u32 option" where
  "ReadS32Leb128 p =
     (if last_at p 0 then (1, Some (SIGN_EXTEND (LEB128_n 1 p) 6))
      else if last_at p 1 then (2, Some (SIGN_EXTEND (LEB128_n 2 p) 13))
      else if last_at p 2 then (3, Some (SIGN_EXTEND (LEB128_n 3 p) 20))
      else if last_at p 3 then (4, Some (SIGN_EXTEND (LEB128_n 4 p) 27))
      else if last_at p 4 then
        (let sign_bit_set = ((p ! 4) AND 0x8 \<noteq> 0); top_bits = (p ! 4) AND 0xf0
         in if (sign_bit_set \<and> top_bits \<noteq> 0x70) \<or> (\<not> sign_bit_set \<and> top_bits \<noteq> 0)
            then (0, None) else (5, Some (LEB128_n 5 p)))
      else (0, None))"

definition ReadS64Leb128 :: "bytes \<Rightarrow> nat \<times> u64 option" where
  "ReadS64Leb128 p =
     (if last_at p 0 then (1, Some (SIGN_EXTEND (LEB128_n 1 p) 6))
      else if last_at p 1 then (2, Some (SIGN_EXTEND (LEB128_n 2 p) 13))
      else if last_at p 2 then (3, Some (SIGN_EXTEND (LEB128_n 3 p) 20))
      else if last_at p 3 then (4, Some (SIGN_EXTEND (LEB128_n 4 p) 27))
      else if last_at p 4 then (5, Some (SIGN_EXTEND (LEB128_n 5 p) 34))
      else if last_at p 5 then (6, Some (SIGN_EXTEND (LEB128_n 6 p) 41))
      else if last_at p 6 then (7, Some (SIGN_EXTEND (LEB128_n 7 p) 48))
      else if last_at p 7 then (8, Some (SIGN_EXTEND (LEB128_n 8 p) 55))
      else if last_at p 8 then (9, Some (SIGN_EXTEND (LEB128_n 9 p) 62))
      else if last_at p 9 then
        (let sign_bit_set = ((p ! 9) AND 0x1 \<noteq> 0); top_bits = (p ! 9) AND 0xfe
         in if (sign_bit_set \<and> top_bits \<noteq> 0x7e) \<or> (\<not> sign_bit_set \<and> top_bits \<noteq> 0)
            then (0, None) else (10, Some (LEB128_n 10 p)))
      else (0, None))"



section \<open>The value of a byte sequence\<close>

primrec leb_word :: "bytes \<Rightarrow> 'a::len word" where
  "leb_word [] = 0"
| "leb_word (b # bs) = (ucast b AND mask 7) OR push_bit 7 (leb_word bs)"

fun leb_sval :: "bytes \<Rightarrow> int" where
  "leb_sval [] = 0"
| "leb_sval [b] = signed_take_bit 6 (uint b)"
| "leb_sval (b # bs) = (uint b AND mask 7) OR push_bit 7 (leb_sval bs)"

lemma leb_word_snoc:
  "leb_word (bs @ [b]) = leb_word bs OR push_bit (7 * length bs) (ucast b AND mask 7)"
  by (induction bs) (auto simp: push_bit_or or.assoc push_bit_push_bit)

lemma LEB128_n_leb_word: "k \<le> length p \<Longrightarrow> LEB128_n k p = leb_word (take k p)"
  by (induction k)
    (auto simp: take_Suc_conv_app_nth leb_word_snoc BYTE_AT_def mask_7 or.commute min_def)

lemma leb_word_bit:
  "bit (leb_word bs :: 'a::len word) n \<longleftrightarrow>
     n < LENGTH('a) \<and> n < 7 * length bs \<and> bit (bs ! (n div 7)) (n mod 7)"
proof (induction bs arbitrary: n)
  case (Cons b bs)
  show ?case
  proof (cases "n < 7")
    case True
    then show ?thesis by (simp add: bit_simps) (auto dest: bit_imp_le_length)
  next
    case False
    then have n: "n div 7 = Suc ((n - 7) div 7)" "n mod 7 = (n - 7) mod 7"
      by (auto simp: le_div_geq le_mod_geq not_less)
    have "bit (leb_word (b # bs) :: 'a word) n \<longleftrightarrow> n < LENGTH('a) \<and> bit (leb_word bs :: 'a word) (n - 7)"
      using False by (simp add: bit_simps)
    with False n show ?thesis by (simp only: Cons.IH n nth_Cons_Suc) auto
  qed
qed simp

lemma leb_sval_bit:
  "bs \<noteq> [] \<Longrightarrow> bit (leb_sval bs) n \<longleftrightarrow>
     (if n < 7 * length bs - 1 then bit (bs ! (n div 7)) (n mod 7) else bit (last bs) 6)"
proof (induction bs arbitrary: n rule: leb_sval.induct)
  case (2 b)
  then show ?case by (auto simp: bit_signed_take_bit_iff bit_uint_iff min_def)
next
  case (3 b c bs)
  show ?case
  proof (cases "n < 7")
    case True
    then show ?thesis by (simp add: bit_simps) 
  next
    case False
    then have n: "n div 7 = Suc ((n - 7) div 7)" "n mod 7 = (n - 7) mod 7"
      by (auto simp: le_div_geq le_mod_geq not_less)
    have "bit (leb_sval (b # c # bs)) n \<longleftrightarrow> bit (leb_sval (c # bs)) (n - 7)"
      using False by (simp add: bit_simps)
    also have "\<dots> \<longleftrightarrow> (if n < 7 * length (b # c # bs) - 1
        then bit ((b # c # bs) ! (n div 7)) (n mod 7) else bit (last (b # c # bs)) 6)"
      using False "3.IH" [of "n - 7"] n by auto
    finally show ?thesis .
  qed
qed simp

lemma leb_sval_word:
  assumes "bs \<noteq> []"
  shows "word_of_int (leb_sval bs) = signed_take_bit (7 * length bs - 1) (leb_word bs :: 'a::len word)"
proof (rule bit_word_eqI)
  fix n assume n: "n < LENGTH('a)"
  have l: "(7 * length bs - 1) div 7 = length bs - 1" "(7 * length bs - 1) mod 7 = 6"
    using assms by (cases bs; simp)+
  show "bit (word_of_int (leb_sval bs) :: 'a word) n =
        bit (signed_take_bit (7 * length bs - 1) (leb_word bs :: 'a word)) n"
    using n assms l
    by (auto simp: bit_word_of_int_iff leb_sval_bit bit_signed_take_bit_iff leb_word_bit
        last_conv_nth min_def)
qed

lemma SIGN_EXTEND_eq:
  assumes "sb < LENGTH('a)"
  shows "SIGN_EXTEND (w :: 'a::len word) sb = signed_take_bit sb w"
proof (rule bit_word_eqI)
  fix n assume n: "n < LENGTH('a)"
  show "bit (SIGN_EXTEND w sb) n = bit (signed_take_bit sb w) n"
  proof (cases "n \<le> sb")
    case True
    then have "LENGTH('a) - Suc sb + n < LENGTH('a)" using assms n by linarith
    with True n assms show ?thesis
      by (cases "n = sb") (auto simp: SIGN_EXTEND_def Let_def bit_simps min_def)
  next
    case False
    with n assms show ?thesis
      by (auto simp: SIGN_EXTEND_def Let_def bit_simps min_def)
  qed
qed

lemma signed_take_bit_ge: "LENGTH('a) \<le> n + 1 \<Longrightarrow> signed_take_bit n (w :: 'a::len word) = w"
  by (rule bit_word_eqI) (simp add: bit_signed_take_bit_iff min_def not_le, metis Suc_leI le_antisym le_less_trans not_less)

section \<open>What the writers produce\<close>

text \<open>A well-formed encoding: every byte but the last has its continuation bit.\<close>

definition leb_shape :: "bytes \<Rightarrow> bytes \<Rightarrow> u8 \<Rightarrow> bool" where
  "leb_shape bs ys y \<longleftrightarrow> bs = ys @ [y] \<and> (\<forall>b \<in> set ys. bit b 7) \<and> \<not> bit y 7"

lemma leb_shape_Cons: "leb_shape bs ys y \<Longrightarrow> bit b 7 \<Longrightarrow> leb_shape (b # bs) (b # ys) y"
  by (auto simp: leb_shape_def)

lemma leb_u32_shape:
  "\<exists>ys y. leb_shape (leb_u32_loop v) ys y \<and> y = ucast (drop_bit (7 * length ys) v AND mask 7)"
proof (induction v rule: leb_u32_loop.induct)
  case (1 v)
  let ?b = "ucast (v AND mask 7) :: u8"
  show ?case
  proof (cases "drop_bit 7 v = 0")
    case True
    then have "leb_shape (leb_u32_loop v) [] ?b"
      by (simp add: leb_u32_loop.simps [of v] leb_shape_def mask_7 bit_simps)
    then show ?thesis by (intro exI [of _ "[]"] exI [of _ ?b]) simp
  next
    case False
    from "1.IH" [OF refl refl False] obtain ys y where
      ys: "leb_shape (leb_u32_loop (drop_bit 7 v)) ys y"
      "y = ucast (drop_bit (7 * length ys) (drop_bit 7 v) AND mask 7)" by blast
    have "bit (?b OR 0x80) 7" by (simp add: bit_simps)
    with ys(1) have "leb_shape ((?b OR 0x80) # leb_u32_loop (drop_bit 7 v)) ((?b OR 0x80) # ys) y"
      by (rule leb_shape_Cons)
    then have "leb_shape (leb_u32_loop v) ((?b OR 0x80) # ys) y"
      using False by (simp add: leb_u32_loop.simps [of v] mask_7)
    with ys(2) show ?thesis
      by (intro exI [of _ "(?b OR 0x80) # ys"] exI [of _ y]) (simp add: drop_bit_drop_bit add.commute)
  qed
qed

lemma bit_0x80 [simp]: "bit (0x80 :: u8) n \<longleftrightarrow> n = 7"
  using bit_exp_iff [of 7 n, where 'a = u8] by auto

lemma bit_128 [simp]: "bit (128 :: u32) n \<longleftrightarrow> n = 7" "bit (128 :: int) n \<longleftrightarrow> n = 7"
  using bit_exp_iff [of 7 n, where 'a = u32] bit_exp_iff [of 7 n, where 'a = int] by auto

lemma unat_drop_7: "unat (drop_bit 7 (v :: 'a::len word)) = unat v div 128"
  by (simp add: unat_drop_bit_eq drop_bit_nat_def)

lemma leb_u32_value: "leb_word (leb_u32_loop v) = v"
proof (induction v rule: leb_u32_loop.induct)
  case (1 v)
  have low: "ucast (ucast (v AND mask 7) :: u8) AND mask 7 = v AND mask 7"
    "ucast (ucast (v AND mask 7) OR 0x80 :: u8) AND mask 7 = v AND mask 7"
    by (rule bit_word_eqI; auto simp: bit_simps)+
  show ?case
  proof (cases "drop_bit 7 v = 0")
    case True
    then have "leb_word (leb_u32_loop v) = v AND mask 7"
      by (simp add: leb_u32_loop.simps [of v] mask_7 low)
    with True show ?thesis using and_or_split [of v 7] by simp
  next
    case False
    then show ?thesis using and_or_split [of v 7] "1.IH" [OF refl refl False]
      by (simp add: leb_u32_loop.simps [of v] mask_7 low)
  qed
qed

lemma leb_u32_length: "0 < k \<Longrightarrow> unat v < 2 ^ (7 * k) \<Longrightarrow> length (leb_u32_loop v) \<le> k"
proof (induction k arbitrary: v)
  case (Suc k)
  show ?case
  proof (cases "drop_bit 7 v = 0")
    case True
    then show ?thesis by (simp add: leb_u32_loop.simps [of v])
  next
    case False
    then have "0 < unat (drop_bit 7 v)" using unat_gt_0 by blast
    then have "128 \<le> unat v" by (simp only: unat_drop_7 div_greater_zero_iff)
    with Suc.prems have "0 < k" by (cases k) auto
    moreover have "unat (drop_bit 7 v) < 2 ^ (7 * k)"
      using Suc.prems by (simp only: unat_drop_7) (simp add: less_mult_imp_div_less power_add mult.commute)
    ultimately show ?thesis using Suc.IH False by (simp add: leb_u32_loop.simps [of v] del: drop_bit_eq_div)
  qed
qed simp

section \<open>Signed writers\<close>

lemma leb_s_shape:
  "\<exists>ys y. leb_shape (leb_s_loop v) ys y \<and> y = word_of_int (drop_bit (7 * length ys) v AND mask 7)"
proof (induction v rule: leb_s_loop.induct)
  case (1 v)
  let ?b = "word_of_int (v AND mask 7) :: u8"
  have m: "(127::int) = mask 7" by (simp add: mask_eq_exp_minus_1)
  show ?case
  proof (cases "leb_s_end v ?b (drop_bit 7 v)")
    case True
    then have "leb_shape (leb_s_loop v) [] ?b"
      by (simp add: leb_s_loop.simps [of v] leb_shape_def m bit_simps)
    then show ?thesis by (intro exI [of _ "[]"] exI [of _ ?b]) simp
  next
    case False
    from "1.IH" [OF refl refl] False obtain ys y where
      ys: "leb_shape (leb_s_loop (drop_bit 7 v)) ys y"
      "y = word_of_int (drop_bit (7 * length ys) (drop_bit 7 v) AND mask 7)" by (auto simp: m)
    have "bit (?b OR 0x80) 7" by (simp add: bit_simps)
    with ys(1) have "leb_shape ((?b OR 0x80) # leb_s_loop (drop_bit 7 v)) ((?b OR 0x80) # ys) y"
      by (rule leb_shape_Cons)
    then have "leb_shape (leb_s_loop v) ((?b OR 0x80) # ys) y"
      using False by (simp add: leb_s_loop.simps [of v] m)
    with ys(2) show ?thesis
      by (intro exI [of _ "(?b OR 0x80) # ys"] exI [of _ y]) (simp add: drop_bit_drop_bit add.commute)
  qed
qed

lemma leb_sval_Cons:
  "bs \<noteq> [] \<Longrightarrow> leb_sval (b # bs) = (uint b AND mask 7) OR push_bit 7 (leb_sval bs)"
  by (cases bs) auto

lemma int_split: "(v AND mask n) OR push_bit n (drop_bit n v) = (v :: int)"
proof (rule bit_eqI)
  fix m show "bit ((v AND mask n) OR push_bit n (drop_bit n v)) m = bit v m"
    by (cases "m < n") (auto simp: bit_simps)
qed

lemma leb_s_value: "leb_sval (leb_s_loop v) = v"
proof (induction v rule: leb_s_loop.induct)
  case (1 v)
  let ?b = "word_of_int (v AND mask 7) :: u8"
  have m: "(127::int) = mask 7" by (simp add: mask_eq_exp_minus_1)
  have low: "uint (?b OR 0x80) AND mask 7 = v AND mask 7"
    by (rule bit_eqI) (auto simp: bit_simps)
  show ?case
  proof (cases "leb_s_end v ?b (drop_bit 7 v)")
    case True
    have b: "bit ?b n \<longleftrightarrow> n < 7 \<and> bit v n" for n by (auto simp: bit_simps)
    have hi: "bit v n \<longleftrightarrow> v < 0" if "7 \<le> n" for n
    proof -
      have "bit v n = bit (drop_bit 7 v) (n - 7)" using that by (simp add: bit_simps)
      also have "\<dots> \<longleftrightarrow> v < 0" using True by (auto simp: leb_s_end_def split: if_splits)
      finally show ?thesis .
    qed
    have six: "bit v 6 \<longleftrightarrow> v < 0"
      using True b [of 6] by (auto simp: leb_s_end_def byte_bit6 split: if_splits)
    have "signed_take_bit 6 (uint ?b) = v"
    proof (rule bit_eqI)
      fix n show "bit (signed_take_bit 6 (uint ?b)) n = bit v n"
        using hi [of n] six
        by (cases "n < 6"; cases "n = 6") (auto simp: bit_signed_take_bit_iff bit_uint_iff b min_def not_less)
    qed
    then show ?thesis using True by (simp add: leb_s_loop.simps [of v] m)
  next
    case False
    have ne: "leb_s_loop (drop_bit 7 v) \<noteq> []" using leb_s_shape [of "drop_bit 7 v"]
      by (auto simp: leb_shape_def)
    have "leb_s_loop v = (?b OR 0x80) # leb_s_loop (drop_bit 7 v)"
      using False by (simp add: leb_s_loop.simps [of v] m)
    then show ?thesis
      using "1.IH" [OF refl refl] False ne low int_split [of v 7] by (simp add: leb_sval_Cons m)
  qed
qed

lemma div_int_unique_neg1: "- n \<le> v \<Longrightarrow> v < 0 \<Longrightarrow> v div n = (- 1 :: int)"
  by (rule int_div_pos_eq [of _ _ _ "v + n"]) auto

lemma leb_s_length:
  "0 < k \<Longrightarrow> - (2 ^ (7 * k - 1)) \<le> v \<Longrightarrow> v < 2 ^ (7 * k - 1) \<Longrightarrow> length (leb_s_loop v) \<le> k"
proof (induction k arbitrary: v)
  case (Suc k)
  let ?b = "word_of_int (v AND 127) :: u8"
  show ?case
  proof (cases "leb_s_end v ?b (drop_bit 7 v)")
    case True
    then show ?thesis by (simp add: leb_s_loop.simps [of v])
  next
    case False
    have "0 < k"
    proof (rule ccontr)
      assume "\<not> 0 < k"
      then have "- 64 \<le> v" "v < 64" using Suc.prems by auto
      then have "v div 128 = (if v < 0 then - 1 else 0)" "v div 64 = (if v < 0 then - 1 else 0)"
        by (auto simp: zdiv_eq_0_iff div_int_unique_neg1)
      then have "leb_s_end v ?b (drop_bit 7 v)"
        by (auto simp: leb_s_end_def drop_bit_eq_div byte_bit6 bit_word_of_int_iff bit_and_iff bit_iff_odd [of v])
      with False show False by simp
    qed
    then obtain j where k: "k = Suc j" by (cases k) auto
    have "- (2 ^ (7 * k - 1)) \<le> drop_bit 7 v" "drop_bit 7 v < 2 ^ (7 * k - 1)"
      using Suc.prems by (auto simp: k drop_bit_eq_div power_add)
    then show ?thesis using Suc.IH \<open>0 < k\<close> False by (simp add: leb_s_loop.simps [of v])
  qed
qed simp


section \<open>Reading what was written\<close>

lemma leb_shape_last_at:
  assumes "leb_shape bs ys y" and "p = bs @ rest"
  shows "last_at p (length ys)" and "i < length ys \<Longrightarrow> \<not> last_at p i"
  using assms by (auto simp: leb_shape_def last_at_def byte_bit7 nth_append)

lemma lt5E: "(k::nat) < 5 \<Longrightarrow> k = 0 \<or> k = 1 \<or> k = 2 \<or> k = 3 \<or> k = 4"
  by auto

lemma lt10E: "(k::nat) < 10 \<Longrightarrow> k \<in> {0,1,2,3,4,5,6,7,8,9}"
  by auto

lemma bit_top_masks:
  "bit (0xf0 :: int) n \<longleftrightarrow> 4 \<le> n \<and> n < 8"
  "bit (0x70 :: int) n \<longleftrightarrow> 4 \<le> n \<and> n < 7"
  "bit (0xfe :: int) n \<longleftrightarrow> 1 \<le> n \<and> n < 8"
  "bit (0x7e :: int) n \<longleftrightarrow> 1 \<le> n \<and> n < 7"
proof -
  have "(0xf0 :: int) = push_bit 4 (mask 4)" "(0x70 :: int) = push_bit 4 (mask 3)"
    "(0xfe :: int) = push_bit 1 (mask 7)" "(0x7e :: int) = push_bit 1 (mask 6)"
    by (simp_all add: mask_eq_exp_minus_1 push_bit_eq_mult)
  then show "bit (0xf0 :: int) n \<longleftrightarrow> 4 \<le> n \<and> n < 8" "bit (0x70 :: int) n \<longleftrightarrow> 4 \<le> n \<and> n < 7"
    "bit (0xfe :: int) n \<longleftrightarrow> 1 \<le> n \<and> n < 8" "bit (0x7e :: int) n \<longleftrightarrow> 1 \<le> n \<and> n < 7"
    by (simp_all only: bit_push_bit_iff bit_mask_iff) auto
qed

lemma u8_and_8: "(b :: u8) AND 8 \<noteq> 0 \<longleftrightarrow> bit b 3"
  using and_exp_eq_0_iff_not_bit [of b 3] by simp

lemma u8_and_1: "(b :: u8) AND 1 \<noteq> 0 \<longleftrightarrow> bit b 0"
  using and_exp_eq_0_iff_not_bit [of b 0] by simp

lemma ReadU32_shape:
  assumes sh: "leb_shape bs ys y" and len: "length ys < 5"
    and top: "length ys = 4 \<Longrightarrow> y AND 0xf0 = 0"
  shows "ReadU32Leb128 (bs @ rest) = (length bs, Some (leb_word bs))"
proof -
  let ?p = "bs @ rest"
  have at: "last_at ?p (length ys)" "\<And>i. i < length ys \<Longrightarrow> \<not> last_at ?p i"
    using leb_shape_last_at [OF sh refl] by auto
  have l: "length bs = Suc (length ys)" and n: "?p ! length ys = y"
    using sh by (auto simp: leb_shape_def nth_append)
  have w: "LEB128_n (length bs) ?p = (leb_word bs :: u32)"
    by (simp add: LEB128_n_leb_word)
  from lt5E [OF len] show ?thesis
    using at w l n top by (elim disjE) (simp_all add: ReadU32Leb128_def numeral_eq_Suc)
qed

lemma ReadS32_shape:
  assumes sh: "leb_shape bs ys y" and len: "length ys < 5"
    and top: "length ys = 4 \<Longrightarrow> y AND 0xf0 = (if y AND 8 \<noteq> 0 then 0x70 else 0)"
  shows "ReadS32Leb128 (bs @ rest) = (length bs, Some (word_of_int (leb_sval bs)))"
proof -
  let ?p = "bs @ rest"
  have at: "last_at ?p (length ys)" "\<And>i. i < length ys \<Longrightarrow> \<not> last_at ?p i"
    using leb_shape_last_at [OF sh refl] by auto
  have l: "length bs = Suc (length ys)" and n: "?p ! length ys = y"
    using sh by (auto simp: leb_shape_def nth_append)
  have w: "LEB128_n (length bs) ?p = (leb_word bs :: u32)"
    by (simp add: LEB128_n_leb_word)
  have v: "word_of_int (leb_sval bs) = signed_take_bit (7 * length bs - 1) (leb_word bs :: u32)"
    using l by (intro leb_sval_word) auto
  from lt5E [OF len] show ?thesis
    using at w l n top v by (elim disjE)
      (simp_all add: ReadS32Leb128_def SIGN_EXTEND_eq signed_take_bit_ge numeral_eq_Suc Let_def split: if_splits)
qed


lemma ReadS64_shape:
  assumes sh: "leb_shape bs ys y" and len: "length ys < 10"
    and top: "length ys = 9 \<Longrightarrow> y AND 0xfe = (if y AND 1 \<noteq> 0 then 0x7e else 0)"
  shows "ReadS64Leb128 (bs @ rest) = (length bs, Some (word_of_int (leb_sval bs)))"
proof -
  let ?p = "bs @ rest"
  have at: "last_at ?p (length ys)" "\<And>i. i < length ys \<Longrightarrow> \<not> last_at ?p i"
    using leb_shape_last_at [OF sh refl] by auto
  have l: "length bs = Suc (length ys)" and n: "?p ! length ys = y"
    using sh by (auto simp: leb_shape_def nth_append)
  have w: "LEB128_n (length bs) ?p = (leb_word bs :: u64)"
    by (simp add: LEB128_n_leb_word)
  have v: "word_of_int (leb_sval bs) = signed_take_bit (7 * length bs - 1) (leb_word bs :: u64)"
    using l by (intro leb_sval_word) auto
  from lt10E [OF len] show ?thesis
    using at w l n top v by (elim insertE emptyE)
      (simp_all add: ReadS64Leb128_def SIGN_EXTEND_eq signed_take_bit_ge numeral_eq_Suc Let_def split: if_splits)
qed

lemma leb_u32_top:
  "leb_shape (leb_u32_loop v) ys y \<Longrightarrow> length ys = 4 \<Longrightarrow> y AND 0xf0 = 0"
proof -
  assume a: "leb_shape (leb_u32_loop v) ys y" "length ys = 4"
  obtain ys' y' where "leb_shape (leb_u32_loop v) ys' y'" "y' = ucast (drop_bit (7 * length ys') v AND mask 7)"
    using leb_u32_shape by blast
  with a have "y = ucast (drop_bit 28 v AND mask 7)" by (auto simp: leb_shape_def)
  then have "\<not> bit y n" if "4 \<le> n" for n using that by (auto simp: bit_simps dest: bit_imp_le_length)
  then show ?thesis by (intro bit_word_eqI) (auto simp: bit_and_iff bit_top_masks)
qed

lemma leb_s_top:
  assumes "leb_shape (leb_s_loop v) ys y"
  shows "y = word_of_int (drop_bit (7 * length ys) v AND mask 7)"
  using assms leb_s_shape [of v] by (auto simp: leb_shape_def)

lemma leb_s_top32:
  assumes "leb_shape (leb_s_loop (sint (v :: u32))) ys y" "length ys = 4"
  shows "y AND 0xf0 = (if y AND 8 \<noteq> 0 then 0x70 else 0)"
proof -
  have y: "y = word_of_int (drop_bit 28 (sint v) AND mask 7)"
    using leb_s_top [OF assms(1)] assms(2) by simp
  have b: "bit y n \<longleftrightarrow> n < 7 \<and> (if n < 3 then bit v (28 + n) else bit v 31)" for n
    by (cases "n < 3"; cases "n = 3")
      (auto simp: y bit_word_of_int_iff bit_and_iff bit_mask_iff bit_drop_bit_eq bit_sint_iff dest: bit_imp_le_length)
  show ?thesis
  proof (rule bit_word_eqI)
    fix n assume n: "n < LENGTH(8)"
    show "bit (y AND 0xf0) n = bit (if y AND 8 \<noteq> 0 then 0x70 else 0 :: u8) n"
      using n by (cases "bit v 31") (auto simp: bit_and_iff u8_and_8 b bit_top_masks)
  qed
qed

lemma leb_s_top64:
  assumes "leb_shape (leb_s_loop (sint (v :: u64))) ys y" "length ys = 9"
  shows "y AND 0xfe = (if y AND 1 \<noteq> 0 then 0x7e else 0)"
proof -
  have y: "y = word_of_int (drop_bit 63 (sint v) AND mask 7)"
    using leb_s_top [OF assms(1)] assms(2) by simp
  have b: "bit y n \<longleftrightarrow> n < 7 \<and> bit v 63" for n
    by (cases "n = 0") (auto simp: y bit_word_of_int_iff bit_and_iff bit_mask_iff bit_drop_bit_eq bit_sint_iff dest: bit_imp_le_length)
  show ?thesis
  proof (rule bit_word_eqI)
    fix n assume n: "n < LENGTH(8)"
    show "bit (y AND 0xfe) n = bit (if y AND 1 \<noteq> 0 then 0x7e else 0 :: u8) n"
      using n by (cases "bit v 63") (auto simp: bit_and_iff u8_and_1 b bit_top_masks)
  qed
qed

section \<open>The codecs\<close>

lemma WriteU32_length: "length (WriteU32Leb128 v) \<le> MAX_U32_LEB128_BYTES"
  using leb_u32_length [of 5 v] unsigned_less [of v, where 'a = nat]
  by (simp add: WriteU32Leb128_def MAX_U32_LEB128_BYTES_def)

lemma WriteS32_length: "length (WriteS32Leb128 v) \<le> MAX_U32_LEB128_BYTES"
  using leb_s_length [of 5 "sint v"] sint_greater_eq [of v] sint_less [of v]
  by (simp add: WriteS32Leb128_def MAX_U32_LEB128_BYTES_def)

lemma WriteS64_length: "length (WriteS64Leb128 v) \<le> MAX_U64_LEB128_BYTES"
  using leb_s_length [of 10 "sint v"] sint_greater_eq [of v] sint_less [of v]
  by (simp add: WriteS64Leb128_def MAX_U64_LEB128_BYTES_def)

lemma ReadU32_WriteU32:
  "ReadU32Leb128 (WriteU32Leb128 v @ rest) = (length (WriteU32Leb128 v), Some v)"
proof -
  obtain ys y where sh: "leb_shape (leb_u32_loop v) ys y" using leb_u32_shape by blast
  with WriteU32_length [of v] have "length ys < 5"
    by (auto simp: leb_shape_def WriteU32Leb128_def MAX_U32_LEB128_BYTES_def)
  from ReadU32_shape [OF sh this leb_u32_top [OF sh]] show ?thesis
    by (simp add: WriteU32Leb128_def leb_u32_value)
qed

lemma ReadS32_WriteS32:
  "ReadS32Leb128 (WriteS32Leb128 v @ rest) = (length (WriteS32Leb128 v), Some v)"
proof -
  obtain ys y where sh: "leb_shape (leb_s_loop (sint v)) ys y" using leb_s_shape by blast
  with WriteS32_length [of v] have "length ys < 5"
    by (auto simp: leb_shape_def WriteS32Leb128_def MAX_U32_LEB128_BYTES_def)
  from ReadS32_shape [OF sh this leb_s_top32 [OF sh]] show ?thesis
    by (simp add: WriteS32Leb128_def leb_s_value)
qed

lemma ReadS64_WriteS64:
  "ReadS64Leb128 (WriteS64Leb128 v @ rest) = (length (WriteS64Leb128 v), Some v)"
proof -
  obtain ys y where sh: "leb_shape (leb_s_loop (sint v)) ys y" using leb_s_shape by blast
  with WriteS64_length [of v] have "length ys < 10"
    by (auto simp: leb_shape_def WriteS64Leb128_def MAX_U64_LEB128_BYTES_def)
  from ReadS64_shape [OF sh this leb_s_top64 [OF sh]] show ?thesis
    by (simp add: WriteS64Leb128_def leb_s_value)
qed

lemma fixed_shape:
  "leb_shape (WriteFixedU32Leb128 v)
     [ucast (v AND 0x7f) OR 0x80, ucast (drop_bit 7 v AND 0x7f) OR 0x80,
      ucast (drop_bit 14 v AND 0x7f) OR 0x80, ucast (drop_bit 21 v AND 0x7f) OR 0x80]
     (ucast (drop_bit 28 v AND 0x0f))"
proof -
  have "(0x0f :: u32) = mask 4" by (simp add: mask_eq_exp_minus_1)
  then show ?thesis
    by (simp add: leb_shape_def WriteFixedU32Leb128_def WriteFixedU32Leb128Raw_def bit_simps)
qed

lemma fixed_value: "leb_word (WriteFixedU32Leb128 v) = v"
proof -
  have m: "(0x0f :: u32) = mask 4" by (simp add: mask_eq_exp_minus_1)
  have low: "ucast (ucast (w AND 0x7f) OR 0x80 :: u8) AND mask 7 = w AND mask 7" for w :: u32
    unfolding mask_7 by (rule bit_word_eqI) (auto simp: bit_simps)
  have hi: "ucast (ucast (drop_bit 28 v AND 0x0f) :: u8) AND mask 7 = drop_bit 28 v"
    unfolding m by (rule bit_word_eqI) (auto simp: bit_simps dest: bit_imp_le_length)
  have step: "(drop_bit n v AND mask 7) OR push_bit 7 (drop_bit (n + 7) v) = drop_bit n v" for n
    using and_or_split [of "drop_bit n v" 7] by (simp add: drop_bit_drop_bit add.commute)
  show ?thesis
    using step [of 0] step [of 7] step [of 14] step [of 21]
    by (simp add: WriteFixedU32Leb128_def WriteFixedU32Leb128Raw_def low hi del: drop_bit_eq_div push_bit_eq_mult)
qed

lemma ReadU32_WriteFixed:
  "ReadU32Leb128 (WriteFixedU32Leb128 v @ rest) = (length (WriteFixedU32Leb128 v), Some v)"
proof -
  have m: "(0x0f :: u32) = mask 4" by (simp add: mask_eq_exp_minus_1)
  have b: "bit (ucast (drop_bit 28 v AND 0x0f) :: u8) n \<Longrightarrow> n < 4" for n
    unfolding m by (auto simp: bit_simps)
  have "ucast (drop_bit 28 v AND 0x0f) AND 0xf0 = (0 :: u8)"
    by (intro bit_word_eqI) (auto simp: bit_and_iff bit_top_masks dest!: b)
  with ReadU32_shape [OF fixed_shape [of v], of rest] show ?thesis
    by (simp add: fixed_value)
qed

text \<open>The four writer/reader pairs are byte codecs.\<close>

interpretation u32_leb: byte_codec WriteU32Leb128 ReadU32Leb128 MAX_U32_LEB128_BYTES
proof unfold_locales
  show "WriteU32Leb128 v \<noteq> []" for v
    using leb_u32_shape [of v] by (auto simp: WriteU32Leb128_def leb_shape_def)
qed (rule ReadU32_WriteU32 WriteU32_length)+

interpretation u32_fixed: byte_codec WriteFixedU32Leb128 ReadU32Leb128 MAX_U32_LEB128_BYTES
proof unfold_locales
  show "WriteFixedU32Leb128 v \<noteq> []" "length (WriteFixedU32Leb128 v) \<le> MAX_U32_LEB128_BYTES" for v
    by (simp_all add: WriteFixedU32Leb128_def WriteFixedU32Leb128Raw_def MAX_U32_LEB128_BYTES_def)
qed (rule ReadU32_WriteFixed)

interpretation s32_leb: byte_codec WriteS32Leb128 ReadS32Leb128 MAX_U32_LEB128_BYTES
proof unfold_locales
  show "WriteS32Leb128 v \<noteq> []" for v
    using leb_s_shape [of "sint v"] by (auto simp: WriteS32Leb128_def leb_shape_def)
qed (rule ReadS32_WriteS32 WriteS32_length)+

interpretation s64_leb: byte_codec WriteS64Leb128 ReadS64Leb128 MAX_U64_LEB128_BYTES
proof unfold_locales
  show "WriteS64Leb128 v \<noteq> []" for v
    using leb_s_shape [of "sint v"] by (auto simp: WriteS64Leb128_def leb_shape_def)
qed (rule ReadS64_WriteS64 WriteS64_length)+

lemma U32Leb128Length_loop_length:
  "U32Leb128Length_loop v n = n + of_nat (length (leb_u32_loop v))"
proof (induction v n rule: U32Leb128Length_loop.induct)
  case (1 v n)
  show ?case
    using "1.IH" [OF refl refl]
    by (cases "drop_bit 7 v = 0")
      (simp_all add: U32Leb128Length_loop.simps [of v n] leb_u32_loop.simps [of v] del: drop_bit_eq_div)
qed

lemma leb_word_bound: "unat (leb_word bs :: 'a::len word) < 2 ^ (7 * length bs)"
proof -
  have "take_bit (7 * length bs) (leb_word bs) = (leb_word bs :: 'a word)"
    by (rule bit_word_eqI) (auto simp: bit_take_bit_iff leb_word_bit)
  then have "unat (leb_word bs :: 'a word) = take_bit (7 * length bs) (unat (leb_word bs :: 'a word))"
    by (metis unsigned_take_bit_eq)
  then show ?thesis by (metis take_bit_nat_less_exp)
qed

lemma last_at_length: "last_at p i \<Longrightarrow> Suc i \<le> length p"
  by (simp add: last_at_def)

lemma ReadU32_value:
  "ReadU32Leb128 p = (k, Some v) \<Longrightarrow> 0 < k \<Longrightarrow> k \<le> length p \<and> v = leb_word (take k p)"
  using LEB128_n_leb_word [of k p, where 'a = 32]
  by (auto simp: ReadU32Leb128_def dest!: last_at_length split: if_splits)

section \<open>Properties\<close>

text \<open>C1. \<open>ReadU32Leb128\<close> reads back what \<open>WriteU32Leb128\<close> and \<open>WriteFixedU32Leb128\<close>
  write, whatever bytes follow: the value and the exact number of bytes consumed.\<close>

theorem u32_leb128_roundtrip:
  "ReadU32Leb128 (WriteU32Leb128 v @ rest) = (length (WriteU32Leb128 v), Some v) \<and>
   ReadU32Leb128 (WriteFixedU32Leb128 v @ rest) = (MAX_U32_LEB128_BYTES, Some v)"
proof
  have "length (WriteFixedU32Leb128 v) = MAX_U32_LEB128_BYTES"
    by (simp add: WriteFixedU32Leb128_def WriteFixedU32Leb128Raw_def MAX_U32_LEB128_BYTES_def)
  then show "ReadU32Leb128 (WriteFixedU32Leb128 v @ rest) = (MAX_U32_LEB128_BYTES, Some v)"
    by (simp add: u32_fixed.dec_enc)
qed (rule u32_leb.dec_enc)

text \<open>C2. The signed readers read back what the signed writers write, for every 32-bit and
  every 64-bit value, negative ones included, whatever bytes follow.\<close>

theorem signed_leb128_roundtrip:
  "ReadS32Leb128 (WriteS32Leb128 v @ rest) = (length (WriteS32Leb128 v), Some v) \<and>
   ReadS64Leb128 (WriteS64Leb128 w @ rest) = (length (WriteS64Leb128 w), Some w)"
  by (simp add: s32_leb.dec_enc s64_leb.dec_enc)


text \<open>\<open>ReadU32Leb128\<close> on any input consumes no more than the bytes there are, and the
  encoding \<open>WriteU32Leb128\<close> gives is never longer than one it accepts for the value.\<close>

lemma u32_leb128_shortest:
  assumes "ReadU32Leb128 p = (k, Some v)" and "0 < k"
  shows "k \<le> length p \<and> k \<le> MAX_U32_LEB128_BYTES \<and> length (WriteU32Leb128 v) \<le> k"
proof -
  from ReadU32_value [OF assms] have v: "k \<le> length p" "v = leb_word (take k p)" by auto
  then have "unat v < 2 ^ (7 * k)" using leb_word_bound [of "take k p", where 'a = 32] by simp
  with assms(2) leb_u32_length [of k v] have "length (WriteU32Leb128 v) \<le> k"
    by (simp add: WriteU32Leb128_def)
  moreover have "k \<le> 5" using assms(1) by (auto simp: ReadU32Leb128_def split: if_splits)
  ultimately show ?thesis using v by (simp add: MAX_U32_LEB128_BYTES_def)
qed

end
