(* ===== verification/Utf8.thy ===== *)
theory Utf8
  imports WabtPrelude
begin

text \<open>
  The UTF-8 validator (\<^verbatim>\<open>src/utf8.cc\<close>), which the binary reader runs on every name of a
  module. The specification is the encoding of Unicode scalar values.
\<close>

section \<open>The validator\<close>

definition s_utf8_length :: "nat list" where
  "s_utf8_length =
     replicate 128 1 @ replicate 64 0 @ [0, 0] @ replicate 30 2 @ replicate 16 3 @
     replicate 5 4 @ replicate 11 0"

definition IsCont :: "u8 \<Rightarrow> bool" where
  "IsCont c \<longleftrightarrow> c AND 0xc0 = 0x80"

text \<open>One iteration of the loop for each character; \<open>p\<close> is the rest of the input.\<close>

function IsValidUtf8 :: "bytes \<Rightarrow> bool" where
  "IsValidUtf8 p =
     (if p = [] then True
      else let cu0 = p ! 0; len = s_utf8_length ! unat cu0 in
        if length p < len then False
        else if len = 0 then False
        else if len = 1 then IsValidUtf8 (drop 1 p)
        else if len = 2 then (if \<not> IsCont (p ! 1) then False else IsValidUtf8 (drop 2 p))
        else if len = 3 then
          (let cu1 = p ! 1; cu2 = p ! 2 in
           if \<not> (IsCont cu1 \<and> IsCont cu2) \<or> (cu0 = 0xe0 \<and> cu1 < 0xa0) \<or> (cu0 = 0xed \<and> 0xa0 \<le> cu1)
           then False else IsValidUtf8 (drop 3 p))
        else
          (let cu1 = p ! 1; cu2 = p ! 2; cu3 = p ! 3 in
           if \<not> (IsCont cu1 \<and> IsCont cu2 \<and> IsCont cu3) \<or> (cu0 = 0xf0 \<and> cu1 < 0x90) \<or>
              (cu0 = 0xf4 \<and> 0x90 \<le> cu1)
           then False else IsValidUtf8 (drop 4 p)))"
  by pat_completeness auto
termination
  by (relation "measure length") auto

declare IsValidUtf8.simps [simp del]

section \<open>The specification: sequences of encoded scalar values\<close>

definition scalar_value :: "nat \<Rightarrow> bool" where
  "scalar_value cp \<longleftrightarrow> cp < 0xd800 \<or> 0xe000 \<le> cp \<and> cp < 0x110000"

definition utf8_encode :: "nat \<Rightarrow> bytes" where
  "utf8_encode cp = map of_nat
     (if cp < 0x80 then [cp]
      else if cp < 0x800 then [0xc0 + cp div 64, 0x80 + cp mod 64]
      else if cp < 0x10000 then [0xe0 + cp div 4096, 0x80 + cp div 64 mod 64, 0x80 + cp mod 64]
      else [0xf0 + cp div 262144, 0x80 + cp div 4096 mod 64, 0x80 + cp div 64 mod 64, 0x80 + cp mod 64])"

section \<open>Correctness\<close>

lemma IsCont_unat: "IsCont c \<longleftrightarrow> 0x80 \<le> unat c \<and> unat c < 0xc0"
proof -
  have "\<forall>n \<in> set [0..<256]. IsCont (of_nat n) = (0x80 \<le> n \<and> n < 0xc0)"
    unfolding IsCont_def by code_simp
  from bspec [OF this, of "unat c"] show ?thesis
    using unsigned_less [of c, where 'a = nat] by simp
qed

lemma utf8_length_nth:
  assumes "n < 256"
  shows "s_utf8_length ! n =
    (if n < 0x80 then 1 else if n < 0xc2 then 0 else if n < 0xe0 then 2 else if n < 0xf0 then 3
     else if n < 0xf5 then 4 else 0)"
  using assms by (auto simp: s_utf8_length_def nth_append nth_Cons')

text \<open>The branches of one iteration, over the numbers the bytes stand for.\<close>

lemma valid_step:
  "IsValidUtf8 (b # bs) \<longleftrightarrow>
     (let c0 = unat b in
      if c0 < 0x80 then IsValidUtf8 bs
      else if c0 < 0xc2 then False
      else if c0 < 0xe0 then (case bs of b1 # bs' \<Rightarrow> IsCont b1 \<and> IsValidUtf8 bs' | _ \<Rightarrow> False)
      else if c0 < 0xf0 then (case bs of b1 # b2 # bs' \<Rightarrow> IsCont b1 \<and> IsCont b2 \<and>
          \<not> (c0 = 0xe0 \<and> unat b1 < 0xa0) \<and> \<not> (c0 = 0xed \<and> 0xa0 \<le> unat b1) \<and> IsValidUtf8 bs' | _ \<Rightarrow> False)
      else if c0 < 0xf5 then (case bs of b1 # b2 # b3 # bs' \<Rightarrow> IsCont b1 \<and> IsCont b2 \<and> IsCont b3 \<and>
          \<not> (c0 = 0xf0 \<and> unat b1 < 0x90) \<and> \<not> (c0 = 0xf4 \<and> 0x90 \<le> unat b1) \<and> IsValidUtf8 bs' | _ \<Rightarrow> False)
      else False)"
  using unsigned_less [of b, where 'a = nat]
  by (simp add: IsValidUtf8.simps [of "b # bs"] utf8_length_nth word_unat_eq_iff [of b]
      word_less_nat_alt word_le_nat_alt Let_def split: list.split) auto

lemma unat_of_nat8: "n < 256 \<Longrightarrow> unat (of_nat n :: u8) = n"
  by (simp add: unsigned_of_nat take_bit_nat_eq_self)

lemma valid3:
  assumes "a < 16" "b < 64" "c < 64" "a = 0 \<Longrightarrow> 32 \<le> b" "a = 13 \<Longrightarrow> b < 32"
  shows "IsValidUtf8 (of_nat (0xe0 + a) # of_nat (0x80 + b) # of_nat (0x80 + c) # rest) = IsValidUtf8 rest"
  using assms by (auto simp: valid_step IsCont_unat unat_of_nat8 Let_def simp del: of_nat_add)

lemma valid4:
  assumes "a < 5" "b < 64" "c < 64" "d < 64" "a = 0 \<Longrightarrow> 16 \<le> b" "a = 4 \<Longrightarrow> b < 16"
  shows "IsValidUtf8 (of_nat (0xf0 + a) # of_nat (0x80 + b) # of_nat (0x80 + c) # of_nat (0x80 + d) # rest)
    = IsValidUtf8 rest"
  using assms by (auto simp: valid_step IsCont_unat unat_of_nat8 Let_def simp del: of_nat_add)

lemma utf8_encode3:
  "0x800 \<le> cp \<Longrightarrow> cp < 0x10000 \<Longrightarrow> utf8_encode cp =
     [of_nat (0xe0 + cp div 4096), of_nat (0x80 + cp div 64 mod 64), of_nat (0x80 + cp mod 64)]"
  unfolding utf8_encode_def by (simp del: of_nat_add)

lemma utf8_encode4:
  "0x10000 \<le> cp \<Longrightarrow> utf8_encode cp =
     [of_nat (0xf0 + cp div 262144), of_nat (0x80 + cp div 4096 mod 64),
      of_nat (0x80 + cp div 64 mod 64), of_nat (0x80 + cp mod 64)]"
  unfolding utf8_encode_def by (simp del: of_nat_add)

lemma mod64_eq: "q mod 64 = q - 64 * (q div 64)" for q :: nat
  by (simp add: minus_mult_div_eq_mod)

lemma valid_encode3:
  assumes sv: "scalar_value cp" and cp: "0x800 \<le> cp" "cp < 0x10000"
  shows "IsValidUtf8 (utf8_encode cp @ rest) = IsValidUtf8 rest"
proof -
  have q: "cp div 4096 = cp div 64 div 64" by (simp add: div_mult2_eq [symmetric])
  have a: "cp div 4096 < 16" using cp by simp
  have b: "32 \<le> cp div 64 mod 64" if "cp div 4096 = 0"
  proof -
    have "32 \<le> cp div 64" using cp by simp
    then show ?thesis using that unfolding q mod64_eq [of "cp div 64"] by simp
  qed
  have c: "cp div 64 mod 64 < 32" if h: "cp div 4096 = 13"
  proof -
    have "cp < 0xe000" using dividend_less_times_div [of 4096 cp] h by simp
    then have "cp div 64 < 864" using sv by (simp add: scalar_value_def)
    then show ?thesis using h unfolding q mod64_eq [of "cp div 64"] by simp
  qed
  have m: "x mod 64 < (64 :: nat)" for x by simp
  show ?thesis unfolding utf8_encode3 [OF cp] append_Cons append_Nil
    by (rule valid3 [OF a m m b c])
qed

lemma valid_encode4:
  assumes sv: "scalar_value cp" and cp: "0x10000 \<le> cp"
  shows "IsValidUtf8 (utf8_encode cp @ rest) = IsValidUtf8 rest"
proof -
  have q: "cp div 262144 = cp div 4096 div 64" by (simp add: div_mult2_eq [symmetric])
  have s: "cp < 0x110000" using sv by (auto simp: scalar_value_def)
  then have t: "cp div 4096 < 272" by simp
  have a: "cp div 262144 < 5" using s by simp
  have b: "16 \<le> cp div 4096 mod 64" if "cp div 262144 = 0"
  proof -
    have "16 \<le> cp div 4096" using cp by simp
    then show ?thesis using that unfolding q mod64_eq [of "cp div 4096"] by simp
  qed
  have c: "cp div 4096 mod 64 < 16" if "cp div 262144 = 4"
    using that t unfolding q mod64_eq [of "cp div 4096"] by simp
  have m: "x mod 64 < (64 :: nat)" for x by simp
  show ?thesis unfolding utf8_encode4 [OF cp] append_Cons append_Nil
    by (rule valid4 [OF a m m m b c])
qed

lemma valid_encode: "scalar_value cp \<Longrightarrow> IsValidUtf8 (utf8_encode cp @ rest) = IsValidUtf8 rest"
proof -
  assume sv: "scalar_value cp"
  consider "cp < 0x80" | "0x80 \<le> cp" "cp < 0x800" | "0x800 \<le> cp" "cp < 0x10000" | "0x10000 \<le> cp"
    by linarith
  then show ?thesis
  proof cases
    case 1
    then show ?thesis by (simp add: utf8_encode_def valid_step unat_of_nat8)
  next
    case 2
    then have "2 \<le> cp div 64" "cp div 64 < 32" by auto
    with 2 show ?thesis
      by (simp add: utf8_encode_def valid_step unat_of_nat8 IsCont_unat Let_def del: of_nat_add)
  qed (use sv valid_encode3 valid_encode4 in blast)+
qed

text \<open>Each accepted character is the encoding of a scalar value.\<close>

lemma u8_of_nat: "unat b = n \<Longrightarrow> b = (of_nat n :: u8)"
  by auto

lemma base64: "k < 64 \<Longrightarrow> (a * 64 + k) div 64 = (a :: nat) \<and> (a * 64 + k) mod 64 = k"
  by simp

lemma cont_low: "IsCont c \<Longrightarrow> unat c - 0x80 < 64 \<and> 0x80 \<le> unat c"
  by (auto simp: IsCont_unat)

lemma above_offset: "n \<le> m \<Longrightarrow> \<exists>k. m = n + k" for n :: nat
  by (rule le_Suc_ex)

lemma decode2:
  assumes "0xc2 \<le> unat b" "unat b < 0xe0" "IsCont b1"
  shows "\<exists>cp. scalar_value cp \<and> [b, b1] = utf8_encode cp"
proof -
  define cp where "cp = (unat b - 0xc0) * 64 + (unat b1 - 0x80)"
  have b1: "0x80 \<le> unat b1" "unat b1 < 0xc0" using assms(3) by (auto simp: IsCont_unat)
  have "cp div 64 = unat b - 0xc0" "cp mod 64 = unat b1 - 0x80"
    using base64 cont_low [OF assms(3)] unfolding cp_def by blast+
  moreover have "0x80 \<le> cp" "cp < 0x800"
    using assms(1,2) b1 unfolding cp_def by auto
  ultimately show ?thesis using assms(1,2) b1
    by (intro exI [of _ cp]) (simp add: utf8_encode_def scalar_value_def del: of_nat_add)
qed

lemma decode3:
  assumes "0xe0 \<le> unat b" "unat b < 0xf0" "IsCont b1" "IsCont b2"
    "\<not> (unat b = 0xe0 \<and> unat b1 < 0xa0)" "\<not> (unat b = 0xed \<and> 0xa0 \<le> unat b1)"
  shows "\<exists>cp. scalar_value cp \<and> [b, b1, b2] = utf8_encode cp"
proof -
  define m where "m = (unat b - 0xe0) * 64 + (unat b1 - 0x80)"
  define cp where "cp = m * 64 + (unat b2 - 0x80)"
  have b1: "0x80 \<le> unat b1" "unat b1 < 0xc0" "0x80 \<le> unat b2" "unat b2 < 0xc0"
    using assms(3,4) by (auto simp: IsCont_unat)
  have m: "m div 64 = unat b - 0xe0" "m mod 64 = unat b1 - 0x80"
    using base64 cont_low [OF assms(3)] unfolding m_def by blast+
  have cp: "cp div 64 = m" "cp mod 64 = unat b2 - 0x80"
    using base64 cont_low [OF assms(4)] unfolding cp_def by blast+
  have "cp div 4096 = m div 64" using cp div_mult2_eq [of cp 64 64] by simp
  moreover obtain x y z where x: "unat b = 0xe0 + x" "unat b1 = 0x80 + y" "unat b2 = 0x80 + z"
    using above_offset assms(1) b1(1,3) by metis
  have cpx: "cp = (x * 64 + y) * 64 + z" unfolding cp_def m_def x by simp
  have y: "x < 16" "y < 64" "z < 64" using assms(2) b1 unfolding x by auto
  have y0: "x = 0 \<Longrightarrow> 32 \<le> y" "x = 13 \<Longrightarrow> y < 32" using assms(5,6) unfolding x by auto
  have "0x800 \<le> cp"
    using y0(1) unfolding cpx by (cases "x = 0") auto
  moreover have "cp < 0x10000" using y unfolding cpx by auto
  moreover have "cp < 0xd800 \<or> 0xe000 \<le> cp"
  proof -
    consider "x \<le> 12" | "x = 13" "y \<le> 31" | "14 \<le> x"
      using y0(2) by linarith
    then show ?thesis
      using y(2,3) unfolding cpx by cases auto
  qed
  ultimately show ?thesis using m cp assms(1) b1
    by (intro exI [of _ cp]) (simp add: utf8_encode_def scalar_value_def del: of_nat_add)
qed

lemma decode4:
  assumes "0xf0 \<le> unat b" "unat b < 0xf5" "IsCont b1" "IsCont b2" "IsCont b3"
    "\<not> (unat b = 0xf0 \<and> unat b1 < 0x90)" "\<not> (unat b = 0xf4 \<and> 0x90 \<le> unat b1)"
  shows "\<exists>cp. scalar_value cp \<and> [b, b1, b2, b3] = utf8_encode cp"
proof -
  define l where "l = (unat b - 0xf0) * 64 + (unat b1 - 0x80)"
  define m where "m = l * 64 + (unat b2 - 0x80)"
  define cp where "cp = m * 64 + (unat b3 - 0x80)"
  have b1: "0x80 \<le> unat b1" "unat b1 < 0xc0" "0x80 \<le> unat b2" "unat b2 < 0xc0"
    "0x80 \<le> unat b3" "unat b3 < 0xc0"
    using assms(3,4,5) by (auto simp: IsCont_unat)
  have l: "l div 64 = unat b - 0xf0" "l mod 64 = unat b1 - 0x80"
    using base64 cont_low [OF assms(3)] unfolding l_def by blast+
  have m: "m div 64 = l" "m mod 64 = unat b2 - 0x80"
    using base64 cont_low [OF assms(4)] unfolding m_def by blast+
  have cp: "cp div 64 = m" "cp mod 64 = unat b3 - 0x80"
    using base64 cont_low [OF assms(5)] unfolding cp_def by blast+
  have d: "cp div 4096 = l" using cp m div_mult2_eq [of cp 64 64] by simp
  have "cp div 262144 = l div 64" using d div_mult2_eq [of cp 4096 64] by simp
  moreover obtain x y z w where x: "unat b = 0xf0 + x" "unat b1 = 0x80 + y" "unat b2 = 0x80 + z"
    "unat b3 = 0x80 + w"
    using above_offset assms(1) b1(1,3,5) by metis
  have cpx: "cp = ((x * 64 + y) * 64 + z) * 64 + w" unfolding cp_def m_def l_def x by simp
  have y: "x < 5" "y < 64" "z < 64" "w < 64" using assms(2) b1 unfolding x by auto
  have y0: "x = 0 \<Longrightarrow> 16 \<le> y" "x = 4 \<Longrightarrow> y < 16" using assms(6,7) unfolding x by auto
  have "0x10000 \<le> cp"
    using y0(1) unfolding cpx by (cases "x = 0") auto
  moreover have "cp < 0x110000"
  proof -
    consider "x \<le> 3" | "x = 4" "y \<le> 15" using y(1) y0(2) by linarith
    then show ?thesis using y(2,3,4) unfolding cpx by cases auto
  qed
  ultimately show ?thesis using l m cp d assms(1) b1
    by (intro exI [of _ cp]) (simp add: utf8_encode_def scalar_value_def del: of_nat_add)
qed

lemma decode_any:
  assumes "IsValidUtf8 (b # bs)"
  shows "\<exists>cp rest. scalar_value cp \<and> b # bs = utf8_encode cp @ rest \<and> IsValidUtf8 rest"
proof -
  have b: "b = of_nat (unat b)" by simp
  consider "unat b < 0x80" | "0xc2 \<le> unat b" "unat b < 0xe0" | "0xe0 \<le> unat b" "unat b < 0xf0"
    | "0xf0 \<le> unat b" "unat b < 0xf5"
    using assms by (auto simp: valid_step Let_def split: if_splits)
  then show ?thesis
  proof cases
    case 1
    with assms b show ?thesis
      by (intro exI [of _ "unat b"] exI [of _ bs]) (auto simp: valid_step utf8_encode_def scalar_value_def)
  next
    case 2
    with assms obtain b1 r where "bs = b1 # r" "IsCont b1" "IsValidUtf8 r"
      by (auto simp: valid_step Let_def split: list.splits)
    moreover obtain cp where "scalar_value cp" "[b, b1] = utf8_encode cp"
      using decode2 [OF 2 \<open>IsCont b1\<close>] by blast
    ultimately show ?thesis
      by (intro exI [of _ cp] exI [of _ r]) (auto dest: sym)
  next
    case 3
    with assms obtain b1 b2 r where r: "bs = b1 # b2 # r" "IsCont b1" "IsCont b2" "IsValidUtf8 r"
      "\<not> (unat b = 0xe0 \<and> unat b1 < 0xa0)" "\<not> (unat b = 0xed \<and> 0xa0 \<le> unat b1)"
      by (auto simp: valid_step Let_def split: list.splits)
    obtain cp where "scalar_value cp" "[b, b1, b2] = utf8_encode cp"
      using decode3 [OF 3 r(2,3,5,6)] by blast
    with r show ?thesis
      by (intro exI [of _ cp] exI [of _ r]) (auto dest: sym)
  next
    case 4
    with assms obtain b1 b2 b3 r where
      r: "bs = b1 # b2 # b3 # r" "IsCont b1" "IsCont b2" "IsCont b3" "IsValidUtf8 r"
      "\<not> (unat b = 0xf0 \<and> unat b1 < 0x90)" "\<not> (unat b = 0xf4 \<and> 0x90 \<le> unat b1)"
      by (auto simp: valid_step Let_def split: list.splits)
    obtain cp where "scalar_value cp" "[b, b1, b2, b3] = utf8_encode cp"
      using decode4 [OF 4 r(2,3,4,6,7)] by blast
    with r show ?thesis
      by (intro exI [of _ cp] exI [of _ r]) (auto dest: sym)
  qed
qed

lemma utf8_encode_nonempty: "utf8_encode cp \<noteq> []"
  by (simp add: utf8_encode_def)

lemma valid_decodes:
  "IsValidUtf8 p \<Longrightarrow> \<exists>cps. list_all scalar_value cps \<and> p = concat (map utf8_encode cps)"
proof (induction "length p" arbitrary: p rule: less_induct)
  case less
  show ?case
  proof (cases p)
    case Nil
    then show ?thesis by (intro exI [of _ "[]"]) simp
  next
    case (Cons b bs)
    with decode_any [of b bs] less.prems obtain cp rest where
      cp: "scalar_value cp" "p = utf8_encode cp @ rest" "IsValidUtf8 rest" by auto
    have "length rest < length p" using cp(2) utf8_encode_nonempty [of cp] by simp
    from less.hyps [OF this cp(3)] obtain cps where
      "list_all scalar_value cps" "rest = concat (map utf8_encode cps)" by blast
    with cp show ?thesis by (intro exI [of _ "cp # cps"]) simp
  qed
qed

lemma encodes_valid:
  "list_all scalar_value cps \<Longrightarrow> IsValidUtf8 (concat (map utf8_encode cps))"
  by (induction cps) (auto simp: valid_encode IsValidUtf8.simps [of "[]"])

section \<open>Properties\<close>

text \<open>C4. \<open>IsValidUtf8\<close> accepts exactly the concatenations of UTF-8 encodings of Unicode
  scalar values: overlong forms, surrogate halves, code points beyond 0x10ffff, stray
  continuation bytes and truncated sequences are all rejected, and nothing else is.\<close>

theorem IsValidUtf8_correct:
  "IsValidUtf8 p \<longleftrightarrow> (\<exists>cps. list_all scalar_value cps \<and> p = concat (map utf8_encode cps))"
  using valid_decodes encodes_valid by blast

end
