(* ===== verification/WabtCommon.thy ===== *)
theory WabtCommon
  imports WabtPrelude
begin

text \<open>
  The data types every part of the toolchain shares (\<^verbatim>\<open>src/common.h\<close>, \<^verbatim>\<open>src/feature.def\<close>): value
  types, label types, features, and the printed names of types.
\<close>

section \<open>Types\<close>

text \<open>
  \<open>enum class Type : int32_t\<close>. A value outside the named enumerators (a type index) is not a
  \<open>Type\<close> that the type checker receives in this version of the format.
\<close>

datatype wtype = Type_I32 | Type_I64 | Type_F32 | Type_F64 | Type_V128 | Type_Anyfunc
  | Type_ExceptRef | Type_Func | Type_Void | Type_Any

fun Type_code :: "wtype \<Rightarrow> int" where
  "Type_code Type_I32 = - 0x01"
| "Type_code Type_I64 = - 0x02"
| "Type_code Type_F32 = - 0x03"
| "Type_code Type_F64 = - 0x04"
| "Type_code Type_V128 = - 0x05"
| "Type_code Type_Anyfunc = - 0x10"
| "Type_code Type_ExceptRef = - 0x18"
| "Type_code Type_Func = - 0x20"
| "Type_code Type_Void = - 0x40"
| "Type_code Type_Any = 0"

type_synonym TypeVector = "wtype list"

lemma Type_code_inj: "Type_code a = Type_code b \<Longrightarrow> a = b"
  by (cases a; cases b) simp_all

text \<open>The enumerators are compared as the integers they stand for.\<close>

instantiation wtype :: linorder
begin

definition less_eq_wtype :: "wtype \<Rightarrow> wtype \<Rightarrow> bool" where
  "less_eq_wtype a b \<longleftrightarrow> Type_code a \<le> Type_code b"

definition less_wtype :: "wtype \<Rightarrow> wtype \<Rightarrow> bool" where
  "less_wtype a b \<longleftrightarrow> Type_code a < Type_code b"

instance
  by standard (auto simp: less_eq_wtype_def less_wtype_def intro: Type_code_inj)

end

fun GetTypeName :: "wtype \<Rightarrow> string" where
  "GetTypeName Type_I32 = ''i32''"
| "GetTypeName Type_I64 = ''i64''"
| "GetTypeName Type_F32 = ''f32''"
| "GetTypeName Type_F64 = ''f64''"
| "GetTypeName Type_V128 = ''v128''"
| "GetTypeName Type_Anyfunc = ''anyfunc''"
| "GetTypeName Type_Func = ''func''"
| "GetTypeName Type_ExceptRef = ''except_ref''"
| "GetTypeName Type_Void = ''void''"
| "GetTypeName Type_Any = ''any''"

lemma GetTypeName_inj: "GetTypeName a = GetTypeName b \<Longrightarrow> a = b"
  by (cases a; cases b) simp_all

definition IsTypeIndex :: "wtype \<Rightarrow> bool" where
  "IsTypeIndex t \<longleftrightarrow> 0 \<le> Type_code t"

text \<open>\<open>GetInlineTypeVector\<close>: \<open>None\<close> where the code is \<open>WABT_UNREACHABLE\<close> or an assertion fails.\<close>

definition GetInlineTypeVector :: "wtype \<Rightarrow> TypeVector option" where
  "GetInlineTypeVector t =
     (if IsTypeIndex t then None
      else if t = Type_Void then Some []
      else if t \<in> {Type_I32, Type_I64, Type_F32, Type_F64, Type_V128} then Some [t]
      else None)"

section \<open>Labels\<close>

datatype LabelType = LabelType_Func | LabelType_Block | LabelType_Loop | LabelType_If
  | LabelType_Else | LabelType_IfExcept | LabelType_IfExceptElse | LabelType_Try | LabelType_Catch

section \<open>Features\<close>

record Features =
  exceptions_enabled :: bool
  mutable_globals_enabled :: bool
  sat_float_to_int_enabled :: bool
  sign_extension_enabled :: bool
  simd_enabled :: bool
  threads_enabled :: bool
  multi_value_enabled :: bool

section \<open>Numbers in messages\<close>

text \<open>The decimal digits \<open>printf\<close> writes for an unsigned integer.\<close>

fun show_nat :: "nat \<Rightarrow> string" where
  "show_nat n = (if n < 10 then [char_of (48 + n)] else show_nat (n div 10) @ [char_of (48 + n mod 10)])"

declare show_nat.simps [simp del]

end
