(* ===== verification/OpcodeTable.thy ===== *)
theory OpcodeTable
  imports WabtCommon
begin

text \<open>
  The definitions of opcodes (\<^verbatim>\<open>src/opcode.h\<close>, \<^verbatim>\<open>src/opcode.cc\<close>, \<^verbatim>\<open>src/opcode.def\<close>): the table of all opcodes, the
  lookup of an opcode by its binary encoding, the encoding of invalid opcodes, and the
  feature that enables each opcode. An \<open>Opcode\<close> is the \<open>uint32_t\<close> the C++ struct stores: the
  position of a valid opcode in the table, or an encoded invalid opcode.
\<close>

section \<open>The table\<close>

record opcode_info =
  info_name :: string
  result_type :: wtype
  param1_type :: wtype
  param2_type :: wtype
  param3_type :: wtype
  memory_size :: u32
  prefix :: u8
  opcode_code :: u32
  prefix_code :: u32

text \<open>
  The shift happens on \<open>int\<close>, after promotion; a prefix has eight bits, so no bit is lost. The
  assertion \<open>code < 0x100\<close> is not compiled into a release build: the code is not masked.
\<close>

definition PrefixCode :: "u8 \<Rightarrow> u32 \<Rightarrow> u32" where
  "PrefixCode p c = push_bit 8 (ucast p) OR c"

text \<open>One line of \<^verbatim>\<open>opcode.def\<close>: the enumerator, and the entry of \<open>infos_\<close> it expands to.\<close>

definition WABT_OPCODE ::
  "wtype \<Rightarrow> wtype \<Rightarrow> wtype \<Rightarrow> wtype \<Rightarrow> u32 \<Rightarrow> u8 \<Rightarrow> u32 \<Rightarrow> string \<Rightarrow> string \<Rightarrow> string \<times> opcode_info" where
  "WABT_OPCODE rtype type1 type2 type3 mem_size p c Name txt =
     (Name, \<lparr>info_name = txt, result_type = rtype, param1_type = type1, param2_type = type2,
       param3_type = type3, memory_size = mem_size, prefix = p, opcode_code = c,
       prefix_code = PrefixCode p c\<rparr>)"

definition opcode_def_1 :: "(string \<times> opcode_info) list" where
  "opcode_def_1 = [
    WABT_OPCODE Type_Void Type_Void Type_Void Type_Void 0 0 0x00 ''Unreachable'' ''unreachable'',
    WABT_OPCODE Type_Void Type_Void Type_Void Type_Void 0 0 0x01 ''Nop'' ''nop'',
    WABT_OPCODE Type_Void Type_Void Type_Void Type_Void 0 0 0x02 ''Block'' ''block'',
    WABT_OPCODE Type_Void Type_Void Type_Void Type_Void 0 0 0x03 ''Loop'' ''loop'',
    WABT_OPCODE Type_Void Type_Void Type_Void Type_Void 0 0 0x04 ''If'' ''if'',
    WABT_OPCODE Type_Void Type_Void Type_Void Type_Void 0 0 0x05 ''Else'' ''else'',
    WABT_OPCODE Type_Void Type_Void Type_Void Type_Void 0 0 0x06 ''Try'' ''try'',
    WABT_OPCODE Type_Void Type_Void Type_Void Type_Void 0 0 0x07 ''Catch'' ''catch'',
    WABT_OPCODE Type_Void Type_Void Type_Void Type_Void 0 0 0x08 ''Throw'' ''throw'',
    WABT_OPCODE Type_Void Type_Void Type_Void Type_Void 0 0 0x09 ''Rethrow'' ''rethrow'',
    WABT_OPCODE Type_Void Type_Void Type_Void Type_Void 0 0 0x0a ''IfExcept'' ''if_except'',
    WABT_OPCODE Type_Void Type_Void Type_Void Type_Void 0 0 0x0b ''End'' ''end'',
    WABT_OPCODE Type_Void Type_Void Type_Void Type_Void 0 0 0x0c ''Br'' ''br'',
    WABT_OPCODE Type_Void Type_Void Type_Void Type_Void 0 0 0x0d ''BrIf'' ''br_if'',
    WABT_OPCODE Type_Void Type_Void Type_Void Type_Void 0 0 0x0e ''BrTable'' ''br_table'',
    WABT_OPCODE Type_Void Type_Void Type_Void Type_Void 0 0 0x0f ''Return'' ''return'',
    WABT_OPCODE Type_Void Type_Void Type_Void Type_Void 0 0 0x10 ''Call'' ''call'',
    WABT_OPCODE Type_Void Type_Void Type_Void Type_Void 0 0 0x11 ''CallIndirect'' ''call_indirect'',
    WABT_OPCODE Type_Void Type_Void Type_Void Type_Void 0 0 0x1a ''Drop'' ''drop'',
    WABT_OPCODE Type_Void Type_Void Type_Void Type_Void 0 0 0x1b ''Select'' ''select'',
    WABT_OPCODE Type_Void Type_Void Type_Void Type_Void 0 0 0x20 ''GetLocal'' ''get_local'',
    WABT_OPCODE Type_Void Type_Void Type_Void Type_Void 0 0 0x21 ''SetLocal'' ''set_local'',
    WABT_OPCODE Type_Void Type_Void Type_Void Type_Void 0 0 0x22 ''TeeLocal'' ''tee_local'',
    WABT_OPCODE Type_Void Type_Void Type_Void Type_Void 0 0 0x23 ''GetGlobal'' ''get_global'',
    WABT_OPCODE Type_Void Type_Void Type_Void Type_Void 0 0 0x24 ''SetGlobal'' ''set_global'',
    WABT_OPCODE Type_I32 Type_I32 Type_Void Type_Void 4 0 0x28 ''I32Load'' ''i32.load'',
    WABT_OPCODE Type_I64 Type_I32 Type_Void Type_Void 8 0 0x29 ''I64Load'' ''i64.load'',
    WABT_OPCODE Type_F32 Type_I32 Type_Void Type_Void 4 0 0x2a ''F32Load'' ''f32.load'',
    WABT_OPCODE Type_F64 Type_I32 Type_Void Type_Void 8 0 0x2b ''F64Load'' ''f64.load'',
    WABT_OPCODE Type_I32 Type_I32 Type_Void Type_Void 1 0 0x2c ''I32Load8S'' ''i32.load8_s'',
    WABT_OPCODE Type_I32 Type_I32 Type_Void Type_Void 1 0 0x2d ''I32Load8U'' ''i32.load8_u'',
    WABT_OPCODE Type_I32 Type_I32 Type_Void Type_Void 2 0 0x2e ''I32Load16S'' ''i32.load16_s'',
    WABT_OPCODE Type_I32 Type_I32 Type_Void Type_Void 2 0 0x2f ''I32Load16U'' ''i32.load16_u'',
    WABT_OPCODE Type_I64 Type_I32 Type_Void Type_Void 1 0 0x30 ''I64Load8S'' ''i64.load8_s'',
    WABT_OPCODE Type_I64 Type_I32 Type_Void Type_Void 1 0 0x31 ''I64Load8U'' ''i64.load8_u'',
    WABT_OPCODE Type_I64 Type_I32 Type_Void Type_Void 2 0 0x32 ''I64Load16S'' ''i64.load16_s'',
    WABT_OPCODE Type_I64 Type_I32 Type_Void Type_Void 2 0 0x33 ''I64Load16U'' ''i64.load16_u'',
    WABT_OPCODE Type_I64 Type_I32 Type_Void Type_Void 4 0 0x34 ''I64Load32S'' ''i64.load32_s'',
    WABT_OPCODE Type_I64 Type_I32 Type_Void Type_Void 4 0 0x35 ''I64Load32U'' ''i64.load32_u'',
    WABT_OPCODE Type_Void Type_I32 Type_I32 Type_Void 4 0 0x36 ''I32Store'' ''i32.store'',
    WABT_OPCODE Type_Void Type_I32 Type_I64 Type_Void 8 0 0x37 ''I64Store'' ''i64.store'',
    WABT_OPCODE Type_Void Type_I32 Type_F32 Type_Void 4 0 0x38 ''F32Store'' ''f32.store'',
    WABT_OPCODE Type_Void Type_I32 Type_F64 Type_Void 8 0 0x39 ''F64Store'' ''f64.store'',
    WABT_OPCODE Type_Void Type_I32 Type_I32 Type_Void 1 0 0x3a ''I32Store8'' ''i32.store8'',
    WABT_OPCODE Type_Void Type_I32 Type_I32 Type_Void 2 0 0x3b ''I32Store16'' ''i32.store16'',
    WABT_OPCODE Type_Void Type_I32 Type_I64 Type_Void 1 0 0x3c ''I64Store8'' ''i64.store8'',
    WABT_OPCODE Type_Void Type_I32 Type_I64 Type_Void 2 0 0x3d ''I64Store16'' ''i64.store16'',
    WABT_OPCODE Type_Void Type_I32 Type_I64 Type_Void 4 0 0x3e ''I64Store32'' ''i64.store32'',
    WABT_OPCODE Type_I32 Type_Void Type_Void Type_Void 0 0 0x3f ''MemorySize'' ''memory.size'',
    WABT_OPCODE Type_I32 Type_I32 Type_Void Type_Void 0 0 0x40 ''MemoryGrow'' ''memory.grow'',
    WABT_OPCODE Type_I32 Type_Void Type_Void Type_Void 0 0 0x41 ''I32Const'' ''i32.const'',
    WABT_OPCODE Type_I64 Type_Void Type_Void Type_Void 0 0 0x42 ''I64Const'' ''i64.const'',
    WABT_OPCODE Type_F32 Type_Void Type_Void Type_Void 0 0 0x43 ''F32Const'' ''f32.const'',
    WABT_OPCODE Type_F64 Type_Void Type_Void Type_Void 0 0 0x44 ''F64Const'' ''f64.const'',
    WABT_OPCODE Type_I32 Type_I32 Type_Void Type_Void 0 0 0x45 ''I32Eqz'' ''i32.eqz'',
    WABT_OPCODE Type_I32 Type_I32 Type_I32 Type_Void 0 0 0x46 ''I32Eq'' ''i32.eq'',
    WABT_OPCODE Type_I32 Type_I32 Type_I32 Type_Void 0 0 0x47 ''I32Ne'' ''i32.ne'',
    WABT_OPCODE Type_I32 Type_I32 Type_I32 Type_Void 0 0 0x48 ''I32LtS'' ''i32.lt_s'',
    WABT_OPCODE Type_I32 Type_I32 Type_I32 Type_Void 0 0 0x49 ''I32LtU'' ''i32.lt_u'',
    WABT_OPCODE Type_I32 Type_I32 Type_I32 Type_Void 0 0 0x4a ''I32GtS'' ''i32.gt_s'',
    WABT_OPCODE Type_I32 Type_I32 Type_I32 Type_Void 0 0 0x4b ''I32GtU'' ''i32.gt_u'',
    WABT_OPCODE Type_I32 Type_I32 Type_I32 Type_Void 0 0 0x4c ''I32LeS'' ''i32.le_s'',
    WABT_OPCODE Type_I32 Type_I32 Type_I32 Type_Void 0 0 0x4d ''I32LeU'' ''i32.le_u'',
    WABT_OPCODE Type_I32 Type_I32 Type_I32 Type_Void 0 0 0x4e ''I32GeS'' ''i32.ge_s'',
    WABT_OPCODE Type_I32 Type_I32 Type_I32 Type_Void 0 0 0x4f ''I32GeU'' ''i32.ge_u'',
    WABT_OPCODE Type_I32 Type_I64 Type_Void Type_Void 0 0 0x50 ''I64Eqz'' ''i64.eqz'',
    WABT_OPCODE Type_I32 Type_I64 Type_I64 Type_Void 0 0 0x51 ''I64Eq'' ''i64.eq'',
    WABT_OPCODE Type_I32 Type_I64 Type_I64 Type_Void 0 0 0x52 ''I64Ne'' ''i64.ne'',
    WABT_OPCODE Type_I32 Type_I64 Type_I64 Type_Void 0 0 0x53 ''I64LtS'' ''i64.lt_s'',
    WABT_OPCODE Type_I32 Type_I64 Type_I64 Type_Void 0 0 0x54 ''I64LtU'' ''i64.lt_u'']"

definition opcode_def_2 :: "(string \<times> opcode_info) list" where
  "opcode_def_2 = [
    WABT_OPCODE Type_I32 Type_I64 Type_I64 Type_Void 0 0 0x55 ''I64GtS'' ''i64.gt_s'',
    WABT_OPCODE Type_I32 Type_I64 Type_I64 Type_Void 0 0 0x56 ''I64GtU'' ''i64.gt_u'',
    WABT_OPCODE Type_I32 Type_I64 Type_I64 Type_Void 0 0 0x57 ''I64LeS'' ''i64.le_s'',
    WABT_OPCODE Type_I32 Type_I64 Type_I64 Type_Void 0 0 0x58 ''I64LeU'' ''i64.le_u'',
    WABT_OPCODE Type_I32 Type_I64 Type_I64 Type_Void 0 0 0x59 ''I64GeS'' ''i64.ge_s'',
    WABT_OPCODE Type_I32 Type_I64 Type_I64 Type_Void 0 0 0x5a ''I64GeU'' ''i64.ge_u'',
    WABT_OPCODE Type_I32 Type_F32 Type_F32 Type_Void 0 0 0x5b ''F32Eq'' ''f32.eq'',
    WABT_OPCODE Type_I32 Type_F32 Type_F32 Type_Void 0 0 0x5c ''F32Ne'' ''f32.ne'',
    WABT_OPCODE Type_I32 Type_F32 Type_F32 Type_Void 0 0 0x5d ''F32Lt'' ''f32.lt'',
    WABT_OPCODE Type_I32 Type_F32 Type_F32 Type_Void 0 0 0x5e ''F32Gt'' ''f32.gt'',
    WABT_OPCODE Type_I32 Type_F32 Type_F32 Type_Void 0 0 0x5f ''F32Le'' ''f32.le'',
    WABT_OPCODE Type_I32 Type_F32 Type_F32 Type_Void 0 0 0x60 ''F32Ge'' ''f32.ge'',
    WABT_OPCODE Type_I32 Type_F64 Type_F64 Type_Void 0 0 0x61 ''F64Eq'' ''f64.eq'',
    WABT_OPCODE Type_I32 Type_F64 Type_F64 Type_Void 0 0 0x62 ''F64Ne'' ''f64.ne'',
    WABT_OPCODE Type_I32 Type_F64 Type_F64 Type_Void 0 0 0x63 ''F64Lt'' ''f64.lt'',
    WABT_OPCODE Type_I32 Type_F64 Type_F64 Type_Void 0 0 0x64 ''F64Gt'' ''f64.gt'',
    WABT_OPCODE Type_I32 Type_F64 Type_F64 Type_Void 0 0 0x65 ''F64Le'' ''f64.le'',
    WABT_OPCODE Type_I32 Type_F64 Type_F64 Type_Void 0 0 0x66 ''F64Ge'' ''f64.ge'',
    WABT_OPCODE Type_I32 Type_I32 Type_Void Type_Void 0 0 0x67 ''I32Clz'' ''i32.clz'',
    WABT_OPCODE Type_I32 Type_I32 Type_Void Type_Void 0 0 0x68 ''I32Ctz'' ''i32.ctz'',
    WABT_OPCODE Type_I32 Type_I32 Type_Void Type_Void 0 0 0x69 ''I32Popcnt'' ''i32.popcnt'',
    WABT_OPCODE Type_I32 Type_I32 Type_I32 Type_Void 0 0 0x6a ''I32Add'' ''i32.add'',
    WABT_OPCODE Type_I32 Type_I32 Type_I32 Type_Void 0 0 0x6b ''I32Sub'' ''i32.sub'',
    WABT_OPCODE Type_I32 Type_I32 Type_I32 Type_Void 0 0 0x6c ''I32Mul'' ''i32.mul'',
    WABT_OPCODE Type_I32 Type_I32 Type_I32 Type_Void 0 0 0x6d ''I32DivS'' ''i32.div_s'',
    WABT_OPCODE Type_I32 Type_I32 Type_I32 Type_Void 0 0 0x6e ''I32DivU'' ''i32.div_u'',
    WABT_OPCODE Type_I32 Type_I32 Type_I32 Type_Void 0 0 0x6f ''I32RemS'' ''i32.rem_s'',
    WABT_OPCODE Type_I32 Type_I32 Type_I32 Type_Void 0 0 0x70 ''I32RemU'' ''i32.rem_u'',
    WABT_OPCODE Type_I32 Type_I32 Type_I32 Type_Void 0 0 0x71 ''I32And'' ''i32.and'',
    WABT_OPCODE Type_I32 Type_I32 Type_I32 Type_Void 0 0 0x72 ''I32Or'' ''i32.or'',
    WABT_OPCODE Type_I32 Type_I32 Type_I32 Type_Void 0 0 0x73 ''I32Xor'' ''i32.xor'',
    WABT_OPCODE Type_I32 Type_I32 Type_I32 Type_Void 0 0 0x74 ''I32Shl'' ''i32.shl'',
    WABT_OPCODE Type_I32 Type_I32 Type_I32 Type_Void 0 0 0x75 ''I32ShrS'' ''i32.shr_s'',
    WABT_OPCODE Type_I32 Type_I32 Type_I32 Type_Void 0 0 0x76 ''I32ShrU'' ''i32.shr_u'',
    WABT_OPCODE Type_I32 Type_I32 Type_I32 Type_Void 0 0 0x77 ''I32Rotl'' ''i32.rotl'',
    WABT_OPCODE Type_I32 Type_I32 Type_I32 Type_Void 0 0 0x78 ''I32Rotr'' ''i32.rotr'',
    WABT_OPCODE Type_I64 Type_I64 Type_Void Type_Void 0 0 0x79 ''I64Clz'' ''i64.clz'',
    WABT_OPCODE Type_I64 Type_I64 Type_Void Type_Void 0 0 0x7a ''I64Ctz'' ''i64.ctz'',
    WABT_OPCODE Type_I64 Type_I64 Type_Void Type_Void 0 0 0x7b ''I64Popcnt'' ''i64.popcnt'',
    WABT_OPCODE Type_I64 Type_I64 Type_I64 Type_Void 0 0 0x7c ''I64Add'' ''i64.add'',
    WABT_OPCODE Type_I64 Type_I64 Type_I64 Type_Void 0 0 0x7d ''I64Sub'' ''i64.sub'',
    WABT_OPCODE Type_I64 Type_I64 Type_I64 Type_Void 0 0 0x7e ''I64Mul'' ''i64.mul'',
    WABT_OPCODE Type_I64 Type_I64 Type_I64 Type_Void 0 0 0x7f ''I64DivS'' ''i64.div_s'',
    WABT_OPCODE Type_I64 Type_I64 Type_I64 Type_Void 0 0 0x80 ''I64DivU'' ''i64.div_u'',
    WABT_OPCODE Type_I64 Type_I64 Type_I64 Type_Void 0 0 0x81 ''I64RemS'' ''i64.rem_s'',
    WABT_OPCODE Type_I64 Type_I64 Type_I64 Type_Void 0 0 0x82 ''I64RemU'' ''i64.rem_u'',
    WABT_OPCODE Type_I64 Type_I64 Type_I64 Type_Void 0 0 0x83 ''I64And'' ''i64.and'',
    WABT_OPCODE Type_I64 Type_I64 Type_I64 Type_Void 0 0 0x84 ''I64Or'' ''i64.or'',
    WABT_OPCODE Type_I64 Type_I64 Type_I64 Type_Void 0 0 0x85 ''I64Xor'' ''i64.xor'',
    WABT_OPCODE Type_I64 Type_I64 Type_I64 Type_Void 0 0 0x86 ''I64Shl'' ''i64.shl'',
    WABT_OPCODE Type_I64 Type_I64 Type_I64 Type_Void 0 0 0x87 ''I64ShrS'' ''i64.shr_s'',
    WABT_OPCODE Type_I64 Type_I64 Type_I64 Type_Void 0 0 0x88 ''I64ShrU'' ''i64.shr_u'',
    WABT_OPCODE Type_I64 Type_I64 Type_I64 Type_Void 0 0 0x89 ''I64Rotl'' ''i64.rotl'',
    WABT_OPCODE Type_I64 Type_I64 Type_I64 Type_Void 0 0 0x8a ''I64Rotr'' ''i64.rotr'',
    WABT_OPCODE Type_F32 Type_F32 Type_F32 Type_Void 0 0 0x8b ''F32Abs'' ''f32.abs'',
    WABT_OPCODE Type_F32 Type_F32 Type_F32 Type_Void 0 0 0x8c ''F32Neg'' ''f32.neg'',
    WABT_OPCODE Type_F32 Type_F32 Type_F32 Type_Void 0 0 0x8d ''F32Ceil'' ''f32.ceil'',
    WABT_OPCODE Type_F32 Type_F32 Type_F32 Type_Void 0 0 0x8e ''F32Floor'' ''f32.floor'',
    WABT_OPCODE Type_F32 Type_F32 Type_F32 Type_Void 0 0 0x8f ''F32Trunc'' ''f32.trunc'',
    WABT_OPCODE Type_F32 Type_F32 Type_F32 Type_Void 0 0 0x90 ''F32Nearest'' ''f32.nearest'',
    WABT_OPCODE Type_F32 Type_F32 Type_F32 Type_Void 0 0 0x91 ''F32Sqrt'' ''f32.sqrt'',
    WABT_OPCODE Type_F32 Type_F32 Type_F32 Type_Void 0 0 0x92 ''F32Add'' ''f32.add'',
    WABT_OPCODE Type_F32 Type_F32 Type_F32 Type_Void 0 0 0x93 ''F32Sub'' ''f32.sub'',
    WABT_OPCODE Type_F32 Type_F32 Type_F32 Type_Void 0 0 0x94 ''F32Mul'' ''f32.mul'',
    WABT_OPCODE Type_F32 Type_F32 Type_F32 Type_Void 0 0 0x95 ''F32Div'' ''f32.div'',
    WABT_OPCODE Type_F32 Type_F32 Type_F32 Type_Void 0 0 0x96 ''F32Min'' ''f32.min'',
    WABT_OPCODE Type_F32 Type_F32 Type_F32 Type_Void 0 0 0x97 ''F32Max'' ''f32.max'',
    WABT_OPCODE Type_F32 Type_F32 Type_F32 Type_Void 0 0 0x98 ''F32Copysign'' ''f32.copysign'',
    WABT_OPCODE Type_F64 Type_F64 Type_F64 Type_Void 0 0 0x99 ''F64Abs'' ''f64.abs'',
    WABT_OPCODE Type_F64 Type_F64 Type_F64 Type_Void 0 0 0x9a ''F64Neg'' ''f64.neg'']"

definition opcode_def_3 :: "(string \<times> opcode_info) list" where
  "opcode_def_3 = [
    WABT_OPCODE Type_F64 Type_F64 Type_F64 Type_Void 0 0 0x9b ''F64Ceil'' ''f64.ceil'',
    WABT_OPCODE Type_F64 Type_F64 Type_F64 Type_Void 0 0 0x9c ''F64Floor'' ''f64.floor'',
    WABT_OPCODE Type_F64 Type_F64 Type_F64 Type_Void 0 0 0x9d ''F64Trunc'' ''f64.trunc'',
    WABT_OPCODE Type_F64 Type_F64 Type_F64 Type_Void 0 0 0x9e ''F64Nearest'' ''f64.nearest'',
    WABT_OPCODE Type_F64 Type_F64 Type_F64 Type_Void 0 0 0x9f ''F64Sqrt'' ''f64.sqrt'',
    WABT_OPCODE Type_F64 Type_F64 Type_F64 Type_Void 0 0 0xa0 ''F64Add'' ''f64.add'',
    WABT_OPCODE Type_F64 Type_F64 Type_F64 Type_Void 0 0 0xa1 ''F64Sub'' ''f64.sub'',
    WABT_OPCODE Type_F64 Type_F64 Type_F64 Type_Void 0 0 0xa2 ''F64Mul'' ''f64.mul'',
    WABT_OPCODE Type_F64 Type_F64 Type_F64 Type_Void 0 0 0xa3 ''F64Div'' ''f64.div'',
    WABT_OPCODE Type_F64 Type_F64 Type_F64 Type_Void 0 0 0xa4 ''F64Min'' ''f64.min'',
    WABT_OPCODE Type_F64 Type_F64 Type_F64 Type_Void 0 0 0xa5 ''F64Max'' ''f64.max'',
    WABT_OPCODE Type_F64 Type_F64 Type_F64 Type_Void 0 0 0xa6 ''F64Copysign'' ''f64.copysign'',
    WABT_OPCODE Type_I32 Type_I64 Type_Void Type_Void 0 0 0xa7 ''I32WrapI64'' ''i32.wrap/i64'',
    WABT_OPCODE Type_I32 Type_F32 Type_Void Type_Void 0 0 0xa8 ''I32TruncSF32'' ''i32.trunc_s/f32'',
    WABT_OPCODE Type_I32 Type_F32 Type_Void Type_Void 0 0 0xa9 ''I32TruncUF32'' ''i32.trunc_u/f32'',
    WABT_OPCODE Type_I32 Type_F64 Type_Void Type_Void 0 0 0xaa ''I32TruncSF64'' ''i32.trunc_s/f64'',
    WABT_OPCODE Type_I32 Type_F64 Type_Void Type_Void 0 0 0xab ''I32TruncUF64'' ''i32.trunc_u/f64'',
    WABT_OPCODE Type_I64 Type_I32 Type_Void Type_Void 0 0 0xac ''I64ExtendSI32'' ''i64.extend_s/i32'',
    WABT_OPCODE Type_I64 Type_I32 Type_Void Type_Void 0 0 0xad ''I64ExtendUI32'' ''i64.extend_u/i32'',
    WABT_OPCODE Type_I64 Type_F32 Type_Void Type_Void 0 0 0xae ''I64TruncSF32'' ''i64.trunc_s/f32'',
    WABT_OPCODE Type_I64 Type_F32 Type_Void Type_Void 0 0 0xaf ''I64TruncUF32'' ''i64.trunc_u/f32'',
    WABT_OPCODE Type_I64 Type_F64 Type_Void Type_Void 0 0 0xb0 ''I64TruncSF64'' ''i64.trunc_s/f64'',
    WABT_OPCODE Type_I64 Type_F64 Type_Void Type_Void 0 0 0xb1 ''I64TruncUF64'' ''i64.trunc_u/f64'',
    WABT_OPCODE Type_F32 Type_I32 Type_Void Type_Void 0 0 0xb2 ''F32ConvertSI32'' ''f32.convert_s/i32'',
    WABT_OPCODE Type_F32 Type_I32 Type_Void Type_Void 0 0 0xb3 ''F32ConvertUI32'' ''f32.convert_u/i32'',
    WABT_OPCODE Type_F32 Type_I64 Type_Void Type_Void 0 0 0xb4 ''F32ConvertSI64'' ''f32.convert_s/i64'',
    WABT_OPCODE Type_F32 Type_I64 Type_Void Type_Void 0 0 0xb5 ''F32ConvertUI64'' ''f32.convert_u/i64'',
    WABT_OPCODE Type_F32 Type_F64 Type_Void Type_Void 0 0 0xb6 ''F32DemoteF64'' ''f32.demote/f64'',
    WABT_OPCODE Type_F64 Type_I32 Type_Void Type_Void 0 0 0xb7 ''F64ConvertSI32'' ''f64.convert_s/i32'',
    WABT_OPCODE Type_F64 Type_I32 Type_Void Type_Void 0 0 0xb8 ''F64ConvertUI32'' ''f64.convert_u/i32'',
    WABT_OPCODE Type_F64 Type_I64 Type_Void Type_Void 0 0 0xb9 ''F64ConvertSI64'' ''f64.convert_s/i64'',
    WABT_OPCODE Type_F64 Type_I64 Type_Void Type_Void 0 0 0xba ''F64ConvertUI64'' ''f64.convert_u/i64'',
    WABT_OPCODE Type_F64 Type_F32 Type_Void Type_Void 0 0 0xbb ''F64PromoteF32'' ''f64.promote/f32'',
    WABT_OPCODE Type_I32 Type_F32 Type_Void Type_Void 0 0 0xbc ''I32ReinterpretF32'' ''i32.reinterpret/f32'',
    WABT_OPCODE Type_I64 Type_F64 Type_Void Type_Void 0 0 0xbd ''I64ReinterpretF64'' ''i64.reinterpret/f64'',
    WABT_OPCODE Type_F32 Type_I32 Type_Void Type_Void 0 0 0xbe ''F32ReinterpretI32'' ''f32.reinterpret/i32'',
    WABT_OPCODE Type_F64 Type_I64 Type_Void Type_Void 0 0 0xbf ''F64ReinterpretI64'' ''f64.reinterpret/i64'',
    WABT_OPCODE Type_I32 Type_I32 Type_Void Type_Void 0 0 0xC0 ''I32Extend8S'' ''i32.extend8_s'',
    WABT_OPCODE Type_I32 Type_I32 Type_Void Type_Void 0 0 0xC1 ''I32Extend16S'' ''i32.extend16_s'',
    WABT_OPCODE Type_I64 Type_I64 Type_Void Type_Void 0 0 0xC2 ''I64Extend8S'' ''i64.extend8_s'',
    WABT_OPCODE Type_I64 Type_I64 Type_Void Type_Void 0 0 0xC3 ''I64Extend16S'' ''i64.extend16_s'',
    WABT_OPCODE Type_I64 Type_I64 Type_Void Type_Void 0 0 0xC4 ''I64Extend32S'' ''i64.extend32_s'',
    WABT_OPCODE Type_Void Type_Void Type_Void Type_Void 0 0 0xe0 ''InterpAlloca'' ''alloca'',
    WABT_OPCODE Type_Void Type_Void Type_Void Type_Void 0 0 0xe1 ''InterpBrUnless'' ''br_unless'',
    WABT_OPCODE Type_Void Type_Void Type_Void Type_Void 0 0 0xe2 ''InterpCallHost'' ''call_host'',
    WABT_OPCODE Type_Void Type_Void Type_Void Type_Void 0 0 0xe3 ''InterpData'' ''data'',
    WABT_OPCODE Type_Void Type_Void Type_Void Type_Void 0 0 0xe4 ''InterpDropKeep'' ''drop_keep'',
    WABT_OPCODE Type_I32 Type_F32 Type_Void Type_Void 0 0xfc 0x00 ''I32TruncSSatF32'' ''i32.trunc_s:sat/f32'',
    WABT_OPCODE Type_I32 Type_F32 Type_Void Type_Void 0 0xfc 0x01 ''I32TruncUSatF32'' ''i32.trunc_u:sat/f32'',
    WABT_OPCODE Type_I32 Type_F64 Type_Void Type_Void 0 0xfc 0x02 ''I32TruncSSatF64'' ''i32.trunc_s:sat/f64'',
    WABT_OPCODE Type_I32 Type_F64 Type_Void Type_Void 0 0xfc 0x03 ''I32TruncUSatF64'' ''i32.trunc_u:sat/f64'',
    WABT_OPCODE Type_I64 Type_F32 Type_Void Type_Void 0 0xfc 0x04 ''I64TruncSSatF32'' ''i64.trunc_s:sat/f32'',
    WABT_OPCODE Type_I64 Type_F32 Type_Void Type_Void 0 0xfc 0x05 ''I64TruncUSatF32'' ''i64.trunc_u:sat/f32'',
    WABT_OPCODE Type_I64 Type_F64 Type_Void Type_Void 0 0xfc 0x06 ''I64TruncSSatF64'' ''i64.trunc_s:sat/f64'',
    WABT_OPCODE Type_I64 Type_F64 Type_Void Type_Void 0 0xfc 0x07 ''I64TruncUSatF64'' ''i64.trunc_u:sat/f64'',
    WABT_OPCODE Type_V128 Type_Void Type_Void Type_Void 0 0xfd 0x00 ''V128Const'' ''v128.const'',
    WABT_OPCODE Type_V128 Type_I32 Type_Void Type_Void 16 0xfd 0x01 ''V128Load'' ''v128.load'',
    WABT_OPCODE Type_Void Type_I32 Type_V128 Type_Void 16 0xfd 0x02 ''V128Store'' ''v128.store'',
    WABT_OPCODE Type_V128 Type_I32 Type_Void Type_Void 0 0xfd 0x03 ''I8X16Splat'' ''i8x16.splat'',
    WABT_OPCODE Type_V128 Type_I32 Type_Void Type_Void 0 0xfd 0x04 ''I16X8Splat'' ''i16x8.splat'',
    WABT_OPCODE Type_V128 Type_I32 Type_Void Type_Void 0 0xfd 0x05 ''I32X4Splat'' ''i32x4.splat'',
    WABT_OPCODE Type_V128 Type_I64 Type_Void Type_Void 0 0xfd 0x06 ''I64X2Splat'' ''i64x2.splat'',
    WABT_OPCODE Type_V128 Type_F32 Type_Void Type_Void 0 0xfd 0x07 ''F32X4Splat'' ''f32x4.splat'',
    WABT_OPCODE Type_V128 Type_F64 Type_Void Type_Void 0 0xfd 0x08 ''F64X2Splat'' ''f64x2.splat'',
    WABT_OPCODE Type_I32 Type_V128 Type_Void Type_Void 0 0xfd 0x09 ''I8X16ExtractLaneS'' ''i8x16.extract_lane_s'',
    WABT_OPCODE Type_I32 Type_V128 Type_Void Type_Void 0 0xfd 0x0a ''I8X16ExtractLaneU'' ''i8x16.extract_lane_u'',
    WABT_OPCODE Type_I32 Type_V128 Type_Void Type_Void 0 0xfd 0x0b ''I16X8ExtractLaneS'' ''i16x8.extract_lane_s'',
    WABT_OPCODE Type_I32 Type_V128 Type_Void Type_Void 0 0xfd 0x0c ''I16X8ExtractLaneU'' ''i16x8.extract_lane_u'',
    WABT_OPCODE Type_I32 Type_V128 Type_Void Type_Void 0 0xfd 0x0d ''I32X4ExtractLane'' ''i32x4.extract_lane'',
    WABT_OPCODE Type_I64 Type_V128 Type_Void Type_Void 0 0xfd 0x0e ''I64X2ExtractLane'' ''i64x2.extract_lane'']"

definition opcode_def_4 :: "(string \<times> opcode_info) list" where
  "opcode_def_4 = [
    WABT_OPCODE Type_F32 Type_V128 Type_Void Type_Void 0 0xfd 0x0f ''F32X4ExtractLane'' ''f32x4.extract_lane'',
    WABT_OPCODE Type_F64 Type_V128 Type_Void Type_Void 0 0xfd 0x10 ''F64X2ExtractLane'' ''f64x2.extract_lane'',
    WABT_OPCODE Type_V128 Type_V128 Type_I32 Type_Void 0 0xfd 0x11 ''I8X16ReplaceLane'' ''i8x16.replace_lane'',
    WABT_OPCODE Type_V128 Type_V128 Type_I32 Type_Void 0 0xfd 0x12 ''I16X8ReplaceLane'' ''i16x8.replace_lane'',
    WABT_OPCODE Type_V128 Type_V128 Type_I32 Type_Void 0 0xfd 0x13 ''I32X4ReplaceLane'' ''i32x4.replace_lane'',
    WABT_OPCODE Type_V128 Type_V128 Type_I64 Type_Void 0 0xfd 0x14 ''I64X2ReplaceLane'' ''i64x2.replace_lane'',
    WABT_OPCODE Type_V128 Type_V128 Type_F32 Type_Void 0 0xfd 0x15 ''F32X4ReplaceLane'' ''f32x4.replace_lane'',
    WABT_OPCODE Type_V128 Type_V128 Type_F64 Type_Void 0 0xfd 0x16 ''F64X2ReplaceLane'' ''f64x2.replace_lane'',
    WABT_OPCODE Type_V128 Type_V128 Type_V128 Type_Void 0 0xfd 0x17 ''V8X16Shuffle'' ''v8x16.shuffle'',
    WABT_OPCODE Type_V128 Type_V128 Type_V128 Type_Void 0 0xfd 0x18 ''I8X16Add'' ''i8x16.add'',
    WABT_OPCODE Type_V128 Type_V128 Type_V128 Type_Void 0 0xfd 0x19 ''I16X8Add'' ''i16x8.add'',
    WABT_OPCODE Type_V128 Type_V128 Type_V128 Type_Void 0 0xfd 0x1a ''I32X4Add'' ''i32x4.add'',
    WABT_OPCODE Type_V128 Type_V128 Type_V128 Type_Void 0 0xfd 0x1b ''I64X2Add'' ''i64x2.add'',
    WABT_OPCODE Type_V128 Type_V128 Type_V128 Type_Void 0 0xfd 0x1c ''I8X16Sub'' ''i8x16.sub'',
    WABT_OPCODE Type_V128 Type_V128 Type_V128 Type_Void 0 0xfd 0x1d ''I16X8Sub'' ''i16x8.sub'',
    WABT_OPCODE Type_V128 Type_V128 Type_V128 Type_Void 0 0xfd 0x1e ''I32X4Sub'' ''i32x4.sub'',
    WABT_OPCODE Type_V128 Type_V128 Type_V128 Type_Void 0 0xfd 0x1f ''I64X2Sub'' ''i64x2.sub'',
    WABT_OPCODE Type_V128 Type_V128 Type_V128 Type_Void 0 0xfd 0x20 ''I8X16Mul'' ''i8x16.mul'',
    WABT_OPCODE Type_V128 Type_V128 Type_V128 Type_Void 0 0xfd 0x21 ''I16X8Mul'' ''i16x8.mul'',
    WABT_OPCODE Type_V128 Type_V128 Type_V128 Type_Void 0 0xfd 0x22 ''I32X4Mul'' ''i32x4.mul'',
    WABT_OPCODE Type_V128 Type_V128 Type_Void Type_Void 0 0xfd 0x23 ''I8X16Neg'' ''i8x16.neg'',
    WABT_OPCODE Type_V128 Type_V128 Type_Void Type_Void 0 0xfd 0x24 ''I16X8Neg'' ''i16x8.neg'',
    WABT_OPCODE Type_V128 Type_V128 Type_Void Type_Void 0 0xfd 0x25 ''I32X4Neg'' ''i32x4.neg'',
    WABT_OPCODE Type_V128 Type_V128 Type_Void Type_Void 0 0xfd 0x26 ''I64X2Neg'' ''i64x2.neg'',
    WABT_OPCODE Type_V128 Type_V128 Type_V128 Type_Void 0 0xfd 0x27 ''I8X16AddSaturateS'' ''i8x16.add_saturate_s'',
    WABT_OPCODE Type_V128 Type_V128 Type_V128 Type_Void 0 0xfd 0x28 ''I8X16AddSaturateU'' ''i8x16.add_saturate_u'',
    WABT_OPCODE Type_V128 Type_V128 Type_V128 Type_Void 0 0xfd 0x29 ''I16X8AddSaturateS'' ''i16x8.add_saturate_s'',
    WABT_OPCODE Type_V128 Type_V128 Type_V128 Type_Void 0 0xfd 0x2a ''I16X8AddSaturateU'' ''i16x8.add_saturate_u'',
    WABT_OPCODE Type_V128 Type_V128 Type_V128 Type_Void 0 0xfd 0x2b ''I8X16SubSaturateS'' ''i8x16.sub_saturate_s'',
    WABT_OPCODE Type_V128 Type_V128 Type_V128 Type_Void 0 0xfd 0x2c ''I8X16SubSaturateU'' ''i8x16.sub_saturate_u'',
    WABT_OPCODE Type_V128 Type_V128 Type_V128 Type_Void 0 0xfd 0x2d ''I16X8SubSaturateS'' ''i16x8.sub_saturate_s'',
    WABT_OPCODE Type_V128 Type_V128 Type_V128 Type_Void 0 0xfd 0x2e ''I16X8SubSaturateU'' ''i16x8.sub_saturate_u'',
    WABT_OPCODE Type_V128 Type_V128 Type_I32 Type_Void 0 0xfd 0x2f ''I8X16Shl'' ''i8x16.shl'',
    WABT_OPCODE Type_V128 Type_V128 Type_I32 Type_Void 0 0xfd 0x30 ''I16X8Shl'' ''i16x8.shl'',
    WABT_OPCODE Type_V128 Type_V128 Type_I32 Type_Void 0 0xfd 0x31 ''I32X4Shl'' ''i32x4.shl'',
    WABT_OPCODE Type_V128 Type_V128 Type_I32 Type_Void 0 0xfd 0x32 ''I64X2Shl'' ''i64x2.shl'',
    WABT_OPCODE Type_V128 Type_V128 Type_I32 Type_Void 0 0xfd 0x33 ''I8X16ShrS'' ''i8x16.shr_s'',
    WABT_OPCODE Type_V128 Type_V128 Type_I32 Type_Void 0 0xfd 0x34 ''I8X16ShrU'' ''i8x16.shr_u'',
    WABT_OPCODE Type_V128 Type_V128 Type_I32 Type_Void 0 0xfd 0x35 ''I16X8ShrS'' ''i16x8.shr_s'',
    WABT_OPCODE Type_V128 Type_V128 Type_I32 Type_Void 0 0xfd 0x36 ''I16X8ShrU'' ''i16x8.shr_u'',
    WABT_OPCODE Type_V128 Type_V128 Type_I32 Type_Void 0 0xfd 0x37 ''I32X4ShrS'' ''i32x4.shr_s'',
    WABT_OPCODE Type_V128 Type_V128 Type_I32 Type_Void 0 0xfd 0x38 ''I32X4ShrU'' ''i32x4.shr_u'',
    WABT_OPCODE Type_V128 Type_V128 Type_I32 Type_Void 0 0xfd 0x39 ''I64X2ShrS'' ''i64x2.shr_s'',
    WABT_OPCODE Type_V128 Type_V128 Type_I32 Type_Void 0 0xfd 0x3a ''I64X2ShrU'' ''i64x2.shr_u'',
    WABT_OPCODE Type_V128 Type_V128 Type_V128 Type_Void 0 0xfd 0x3b ''V128And'' ''v128.and'',
    WABT_OPCODE Type_V128 Type_V128 Type_V128 Type_Void 0 0xfd 0x3c ''V128Or'' ''v128.or'',
    WABT_OPCODE Type_V128 Type_V128 Type_V128 Type_Void 0 0xfd 0x3d ''V128Xor'' ''v128.xor'',
    WABT_OPCODE Type_V128 Type_V128 Type_Void Type_Void 0 0xfd 0x3e ''V128Not'' ''v128.not'',
    WABT_OPCODE Type_V128 Type_V128 Type_V128 Type_V128 0 0xfd 0x3f ''V128BitSelect'' ''v128.bitselect'',
    WABT_OPCODE Type_I32 Type_V128 Type_Void Type_Void 0 0xfd 0x40 ''I8X16AnyTrue'' ''i8x16.any_true'',
    WABT_OPCODE Type_I32 Type_V128 Type_Void Type_Void 0 0xfd 0x41 ''I16X8AnyTrue'' ''i16x8.any_true'',
    WABT_OPCODE Type_I32 Type_V128 Type_Void Type_Void 0 0xfd 0x42 ''I32X4AnyTrue'' ''i32x4.any_true'',
    WABT_OPCODE Type_I32 Type_V128 Type_Void Type_Void 0 0xfd 0x43 ''I64X2AnyTrue'' ''i64x2.any_true'',
    WABT_OPCODE Type_I32 Type_V128 Type_Void Type_Void 0 0xfd 0x44 ''I8X16AllTrue'' ''i8x16.all_true'',
    WABT_OPCODE Type_I32 Type_V128 Type_Void Type_Void 0 0xfd 0x45 ''I16X8AllTrue'' ''i16x8.all_true'',
    WABT_OPCODE Type_I32 Type_V128 Type_Void Type_Void 0 0xfd 0x46 ''I32X4AllTrue'' ''i32x4.all_true'',
    WABT_OPCODE Type_I32 Type_V128 Type_Void Type_Void 0 0xfd 0x47 ''I64X2AllTrue'' ''i64x2.all_true'',
    WABT_OPCODE Type_V128 Type_V128 Type_V128 Type_Void 0 0xfd 0x48 ''I8X16Eq'' ''i8x16.eq'',
    WABT_OPCODE Type_V128 Type_V128 Type_V128 Type_Void 0 0xfd 0x49 ''I16X8Eq'' ''i16x8.eq'',
    WABT_OPCODE Type_V128 Type_V128 Type_V128 Type_Void 0 0xfd 0x4a ''I32X4Eq'' ''i32x4.eq'',
    WABT_OPCODE Type_V128 Type_V128 Type_V128 Type_Void 0 0xfd 0x4b ''F32X4Eq'' ''f32x4.eq'',
    WABT_OPCODE Type_V128 Type_V128 Type_V128 Type_Void 0 0xfd 0x4c ''F64X2Eq'' ''f64x2.eq'',
    WABT_OPCODE Type_V128 Type_V128 Type_V128 Type_Void 0 0xfd 0x4d ''I8X16Ne'' ''i8x16.ne'',
    WABT_OPCODE Type_V128 Type_V128 Type_V128 Type_Void 0 0xfd 0x4e ''I16X8Ne'' ''i16x8.ne'',
    WABT_OPCODE Type_V128 Type_V128 Type_V128 Type_Void 0 0xfd 0x4f ''I32X4Ne'' ''i32x4.ne'',
    WABT_OPCODE Type_V128 Type_V128 Type_V128 Type_Void 0 0xfd 0x50 ''F32X4Ne'' ''f32x4.ne'',
    WABT_OPCODE Type_V128 Type_V128 Type_V128 Type_Void 0 0xfd 0x51 ''F64X2Ne'' ''f64x2.ne'',
    WABT_OPCODE Type_V128 Type_V128 Type_V128 Type_Void 0 0xfd 0x52 ''I8X16LtS'' ''i8x16.lt_s'',
    WABT_OPCODE Type_V128 Type_V128 Type_V128 Type_Void 0 0xfd 0x53 ''I8X16LtU'' ''i8x16.lt_u'',
    WABT_OPCODE Type_V128 Type_V128 Type_V128 Type_Void 0 0xfd 0x54 ''I16X8LtS'' ''i16x8.lt_s'']"

definition opcode_def_5 :: "(string \<times> opcode_info) list" where
  "opcode_def_5 = [
    WABT_OPCODE Type_V128 Type_V128 Type_V128 Type_Void 0 0xfd 0x55 ''I16X8LtU'' ''i16x8.lt_u'',
    WABT_OPCODE Type_V128 Type_V128 Type_V128 Type_Void 0 0xfd 0x56 ''I32X4LtS'' ''i32x4.lt_s'',
    WABT_OPCODE Type_V128 Type_V128 Type_V128 Type_Void 0 0xfd 0x57 ''I32X4LtU'' ''i32x4.lt_u'',
    WABT_OPCODE Type_V128 Type_V128 Type_V128 Type_Void 0 0xfd 0x58 ''F32X4Lt'' ''f32x4.lt'',
    WABT_OPCODE Type_V128 Type_V128 Type_V128 Type_Void 0 0xfd 0x59 ''F64X2Lt'' ''f64x2.lt'',
    WABT_OPCODE Type_V128 Type_V128 Type_V128 Type_Void 0 0xfd 0x5a ''I8X16LeS'' ''i8x16.le_s'',
    WABT_OPCODE Type_V128 Type_V128 Type_V128 Type_Void 0 0xfd 0x5b ''I8X16LeU'' ''i8x16.le_u'',
    WABT_OPCODE Type_V128 Type_V128 Type_V128 Type_Void 0 0xfd 0x5c ''I16X8LeS'' ''i16x8.le_s'',
    WABT_OPCODE Type_V128 Type_V128 Type_V128 Type_Void 0 0xfd 0x5d ''I16X8LeU'' ''i16x8.le_u'',
    WABT_OPCODE Type_V128 Type_V128 Type_V128 Type_Void 0 0xfd 0x5e ''I32X4LeS'' ''i32x4.le_s'',
    WABT_OPCODE Type_V128 Type_V128 Type_V128 Type_Void 0 0xfd 0x5f ''I32X4LeU'' ''i32x4.le_u'',
    WABT_OPCODE Type_V128 Type_V128 Type_V128 Type_Void 0 0xfd 0x60 ''F32X4Le'' ''f32x4.le'',
    WABT_OPCODE Type_V128 Type_V128 Type_V128 Type_Void 0 0xfd 0x61 ''F64X2Le'' ''f64x2.le'',
    WABT_OPCODE Type_V128 Type_V128 Type_V128 Type_Void 0 0xfd 0x62 ''I8X16GtS'' ''i8x16.gt_s'',
    WABT_OPCODE Type_V128 Type_V128 Type_V128 Type_Void 0 0xfd 0x63 ''I8X16GtU'' ''i8x16.gt_u'',
    WABT_OPCODE Type_V128 Type_V128 Type_V128 Type_Void 0 0xfd 0x64 ''I16X8GtS'' ''i16x8.gt_s'',
    WABT_OPCODE Type_V128 Type_V128 Type_V128 Type_Void 0 0xfd 0x65 ''I16X8GtU'' ''i16x8.gt_u'',
    WABT_OPCODE Type_V128 Type_V128 Type_V128 Type_Void 0 0xfd 0x66 ''I32X4GtS'' ''i32x4.gt_s'',
    WABT_OPCODE Type_V128 Type_V128 Type_V128 Type_Void 0 0xfd 0x67 ''I32X4GtU'' ''i32x4.gt_u'',
    WABT_OPCODE Type_V128 Type_V128 Type_V128 Type_Void 0 0xfd 0x68 ''F32X4Gt'' ''f32x4.gt'',
    WABT_OPCODE Type_V128 Type_V128 Type_V128 Type_Void 0 0xfd 0x69 ''F64X2Gt'' ''f64x2.gt'',
    WABT_OPCODE Type_V128 Type_V128 Type_V128 Type_Void 0 0xfd 0x6a ''I8X16GeS'' ''i8x16.ge_s'',
    WABT_OPCODE Type_V128 Type_V128 Type_V128 Type_Void 0 0xfd 0x6b ''I8X16GeU'' ''i8x16.ge_u'',
    WABT_OPCODE Type_V128 Type_V128 Type_V128 Type_Void 0 0xfd 0x6c ''I16X8GeS'' ''i16x8.ge_s'',
    WABT_OPCODE Type_V128 Type_V128 Type_V128 Type_Void 0 0xfd 0x6d ''I16X8GeU'' ''i16x8.ge_u'',
    WABT_OPCODE Type_V128 Type_V128 Type_V128 Type_Void 0 0xfd 0x6e ''I32X4GeS'' ''i32x4.ge_s'',
    WABT_OPCODE Type_V128 Type_V128 Type_V128 Type_Void 0 0xfd 0x6f ''I32X4GeU'' ''i32x4.ge_u'',
    WABT_OPCODE Type_V128 Type_V128 Type_V128 Type_Void 0 0xfd 0x70 ''F32X4Ge'' ''f32x4.ge'',
    WABT_OPCODE Type_V128 Type_V128 Type_V128 Type_Void 0 0xfd 0x71 ''F64X2Ge'' ''f64x2.ge'',
    WABT_OPCODE Type_V128 Type_V128 Type_Void Type_Void 0 0xfd 0x72 ''F32X4Neg'' ''f32x4.neg'',
    WABT_OPCODE Type_V128 Type_V128 Type_Void Type_Void 0 0xfd 0x73 ''F64X2Neg'' ''f64x2.neg'',
    WABT_OPCODE Type_V128 Type_V128 Type_Void Type_Void 0 0xfd 0x74 ''F32X4Abs'' ''f32x4.abs'',
    WABT_OPCODE Type_V128 Type_V128 Type_Void Type_Void 0 0xfd 0x75 ''F64X2Abs'' ''f64x2.abs'',
    WABT_OPCODE Type_V128 Type_V128 Type_V128 Type_Void 0 0xfd 0x76 ''F32X4Min'' ''f32x4.min'',
    WABT_OPCODE Type_V128 Type_V128 Type_V128 Type_Void 0 0xfd 0x77 ''F64X2Min'' ''f64x2.min'',
    WABT_OPCODE Type_V128 Type_V128 Type_V128 Type_Void 0 0xfd 0x78 ''F32X4Max'' ''f32x4.max'',
    WABT_OPCODE Type_V128 Type_V128 Type_V128 Type_Void 0 0xfd 0x79 ''F64X2Max'' ''f64x2.max'',
    WABT_OPCODE Type_V128 Type_V128 Type_V128 Type_Void 0 0xfd 0x7a ''F32X4Add'' ''f32x4.add'',
    WABT_OPCODE Type_V128 Type_V128 Type_V128 Type_Void 0 0xfd 0x7b ''F64X2Add'' ''f64x2.add'',
    WABT_OPCODE Type_V128 Type_V128 Type_V128 Type_Void 0 0xfd 0x7c ''F32X4Sub'' ''f32x4.sub'',
    WABT_OPCODE Type_V128 Type_V128 Type_V128 Type_Void 0 0xfd 0x7d ''F64X2Sub'' ''f64x2.sub'',
    WABT_OPCODE Type_V128 Type_V128 Type_V128 Type_Void 0 0xfd 0x7e ''F32X4Div'' ''f32x4.div'',
    WABT_OPCODE Type_V128 Type_V128 Type_V128 Type_Void 0 0xfd 0x7f ''F64X2Div'' ''f64x2.div'',
    WABT_OPCODE Type_V128 Type_V128 Type_V128 Type_Void 0 0xfd 0x80 ''F32X4Mul'' ''f32x4.mul'',
    WABT_OPCODE Type_V128 Type_V128 Type_V128 Type_Void 0 0xfd 0x81 ''F64X2Mul'' ''f64x2.mul'',
    WABT_OPCODE Type_V128 Type_V128 Type_Void Type_Void 0 0xfd 0x82 ''F32X4Sqrt'' ''f32x4.sqrt'',
    WABT_OPCODE Type_V128 Type_V128 Type_Void Type_Void 0 0xfd 0x83 ''F64X2Sqrt'' ''f64x2.sqrt'',
    WABT_OPCODE Type_V128 Type_V128 Type_Void Type_Void 0 0xfd 0x84 ''F32X4ConvertSI32X4'' ''f32x4.convert_s/i32x4'',
    WABT_OPCODE Type_V128 Type_V128 Type_Void Type_Void 0 0xfd 0x85 ''F32X4ConvertUI32X4'' ''f32x4.convert_u/i32x4'',
    WABT_OPCODE Type_V128 Type_V128 Type_Void Type_Void 0 0xfd 0x86 ''F64X2ConvertSI64X2'' ''f64x2.convert_s/i64x2'',
    WABT_OPCODE Type_V128 Type_V128 Type_Void Type_Void 0 0xfd 0x87 ''F64X2ConvertUI64X2'' ''f64x2.convert_u/i64x2'',
    WABT_OPCODE Type_V128 Type_V128 Type_Void Type_Void 0 0xfd 0x88 ''I32X4TruncSF32X4Sat'' ''i32x4.trunc_s/f32x4:sat'',
    WABT_OPCODE Type_V128 Type_V128 Type_Void Type_Void 0 0xfd 0x89 ''I32X4TruncUF32X4Sat'' ''i32x4.trunc_u/f32x4:sat'',
    WABT_OPCODE Type_V128 Type_V128 Type_Void Type_Void 0 0xfd 0x8a ''I64X2TruncSF64X2Sat'' ''i64x2.trunc_s/f64x2:sat'',
    WABT_OPCODE Type_V128 Type_V128 Type_Void Type_Void 0 0xfd 0x8b ''I64X2TruncUF64X2Sat'' ''i64x2.trunc_u/f64x2:sat'',
    WABT_OPCODE Type_I32 Type_I32 Type_I32 Type_Void 4 0xfe 0x00 ''AtomicWake'' ''atomic.wake'',
    WABT_OPCODE Type_I32 Type_I32 Type_I32 Type_I64 4 0xfe 0x01 ''I32AtomicWait'' ''i32.atomic.wait'',
    WABT_OPCODE Type_I32 Type_I32 Type_I64 Type_I64 8 0xfe 0x02 ''I64AtomicWait'' ''i64.atomic.wait'',
    WABT_OPCODE Type_I32 Type_I32 Type_Void Type_Void 4 0xfe 0x10 ''I32AtomicLoad'' ''i32.atomic.load'',
    WABT_OPCODE Type_I64 Type_I32 Type_Void Type_Void 8 0xfe 0x11 ''I64AtomicLoad'' ''i64.atomic.load'',
    WABT_OPCODE Type_I32 Type_I32 Type_Void Type_Void 1 0xfe 0x12 ''I32AtomicLoad8U'' ''i32.atomic.load8_u'',
    WABT_OPCODE Type_I32 Type_I32 Type_Void Type_Void 2 0xfe 0x13 ''I32AtomicLoad16U'' ''i32.atomic.load16_u'',
    WABT_OPCODE Type_I64 Type_I32 Type_Void Type_Void 1 0xfe 0x14 ''I64AtomicLoad8U'' ''i64.atomic.load8_u'',
    WABT_OPCODE Type_I64 Type_I32 Type_Void Type_Void 2 0xfe 0x15 ''I64AtomicLoad16U'' ''i64.atomic.load16_u'',
    WABT_OPCODE Type_I64 Type_I32 Type_Void Type_Void 4 0xfe 0x16 ''I64AtomicLoad32U'' ''i64.atomic.load32_u'',
    WABT_OPCODE Type_Void Type_I32 Type_I32 Type_Void 4 0xfe 0x17 ''I32AtomicStore'' ''i32.atomic.store'',
    WABT_OPCODE Type_Void Type_I32 Type_I64 Type_Void 8 0xfe 0x18 ''I64AtomicStore'' ''i64.atomic.store'',
    WABT_OPCODE Type_Void Type_I32 Type_I32 Type_Void 1 0xfe 0x19 ''I32AtomicStore8'' ''i32.atomic.store8'',
    WABT_OPCODE Type_Void Type_I32 Type_I32 Type_Void 2 0xfe 0x1a ''I32AtomicStore16'' ''i32.atomic.store16'',
    WABT_OPCODE Type_Void Type_I32 Type_I64 Type_Void 1 0xfe 0x1b ''I64AtomicStore8'' ''i64.atomic.store8'']"

definition opcode_def_6 :: "(string \<times> opcode_info) list" where
  "opcode_def_6 = [
    WABT_OPCODE Type_Void Type_I32 Type_I64 Type_Void 2 0xfe 0x1c ''I64AtomicStore16'' ''i64.atomic.store16'',
    WABT_OPCODE Type_Void Type_I32 Type_I64 Type_Void 4 0xfe 0x1d ''I64AtomicStore32'' ''i64.atomic.store32'',
    WABT_OPCODE Type_I32 Type_I32 Type_I32 Type_Void 4 0xfe 0x1e ''I32AtomicRmwAdd'' ''i32.atomic.rmw.add'',
    WABT_OPCODE Type_I64 Type_I32 Type_I64 Type_Void 8 0xfe 0x1f ''I64AtomicRmwAdd'' ''i64.atomic.rmw.add'',
    WABT_OPCODE Type_I32 Type_I32 Type_I32 Type_Void 1 0xfe 0x20 ''I32AtomicRmw8UAdd'' ''i32.atomic.rmw8_u.add'',
    WABT_OPCODE Type_I32 Type_I32 Type_I32 Type_Void 2 0xfe 0x21 ''I32AtomicRmw16UAdd'' ''i32.atomic.rmw16_u.add'',
    WABT_OPCODE Type_I64 Type_I32 Type_I64 Type_Void 1 0xfe 0x22 ''I64AtomicRmw8UAdd'' ''i64.atomic.rmw8_u.add'',
    WABT_OPCODE Type_I64 Type_I32 Type_I64 Type_Void 2 0xfe 0x23 ''I64AtomicRmw16UAdd'' ''i64.atomic.rmw16_u.add'',
    WABT_OPCODE Type_I64 Type_I32 Type_I64 Type_Void 4 0xfe 0x24 ''I64AtomicRmw32UAdd'' ''i64.atomic.rmw32_u.add'',
    WABT_OPCODE Type_I32 Type_I32 Type_I32 Type_Void 4 0xfe 0x25 ''I32AtomicRmwSub'' ''i32.atomic.rmw.sub'',
    WABT_OPCODE Type_I64 Type_I32 Type_I64 Type_Void 8 0xfe 0x26 ''I64AtomicRmwSub'' ''i64.atomic.rmw.sub'',
    WABT_OPCODE Type_I32 Type_I32 Type_I32 Type_Void 1 0xfe 0x27 ''I32AtomicRmw8USub'' ''i32.atomic.rmw8_u.sub'',
    WABT_OPCODE Type_I32 Type_I32 Type_I32 Type_Void 2 0xfe 0x28 ''I32AtomicRmw16USub'' ''i32.atomic.rmw16_u.sub'',
    WABT_OPCODE Type_I64 Type_I32 Type_I64 Type_Void 1 0xfe 0x29 ''I64AtomicRmw8USub'' ''i64.atomic.rmw8_u.sub'',
    WABT_OPCODE Type_I64 Type_I32 Type_I64 Type_Void 2 0xfe 0x2a ''I64AtomicRmw16USub'' ''i64.atomic.rmw16_u.sub'',
    WABT_OPCODE Type_I64 Type_I32 Type_I64 Type_Void 4 0xfe 0x2b ''I64AtomicRmw32USub'' ''i64.atomic.rmw32_u.sub'',
    WABT_OPCODE Type_I32 Type_I32 Type_I32 Type_Void 4 0xfe 0x2c ''I32AtomicRmwAnd'' ''i32.atomic.rmw.and'',
    WABT_OPCODE Type_I64 Type_I32 Type_I64 Type_Void 8 0xfe 0x2d ''I64AtomicRmwAnd'' ''i64.atomic.rmw.and'',
    WABT_OPCODE Type_I32 Type_I32 Type_I32 Type_Void 1 0xfe 0x2e ''I32AtomicRmw8UAnd'' ''i32.atomic.rmw8_u.and'',
    WABT_OPCODE Type_I32 Type_I32 Type_I32 Type_Void 2 0xfe 0x2f ''I32AtomicRmw16UAnd'' ''i32.atomic.rmw16_u.and'',
    WABT_OPCODE Type_I64 Type_I32 Type_I64 Type_Void 1 0xfe 0x30 ''I64AtomicRmw8UAnd'' ''i64.atomic.rmw8_u.and'',
    WABT_OPCODE Type_I64 Type_I32 Type_I64 Type_Void 2 0xfe 0x31 ''I64AtomicRmw16UAnd'' ''i64.atomic.rmw16_u.and'',
    WABT_OPCODE Type_I64 Type_I32 Type_I64 Type_Void 4 0xfe 0x32 ''I64AtomicRmw32UAnd'' ''i64.atomic.rmw32_u.and'',
    WABT_OPCODE Type_I32 Type_I32 Type_I32 Type_Void 4 0xfe 0x33 ''I32AtomicRmwOr'' ''i32.atomic.rmw.or'',
    WABT_OPCODE Type_I64 Type_I32 Type_I64 Type_Void 8 0xfe 0x34 ''I64AtomicRmwOr'' ''i64.atomic.rmw.or'',
    WABT_OPCODE Type_I32 Type_I32 Type_I32 Type_Void 1 0xfe 0x35 ''I32AtomicRmw8UOr'' ''i32.atomic.rmw8_u.or'',
    WABT_OPCODE Type_I32 Type_I32 Type_I32 Type_Void 2 0xfe 0x36 ''I32AtomicRmw16UOr'' ''i32.atomic.rmw16_u.or'',
    WABT_OPCODE Type_I64 Type_I32 Type_I64 Type_Void 1 0xfe 0x37 ''I64AtomicRmw8UOr'' ''i64.atomic.rmw8_u.or'',
    WABT_OPCODE Type_I64 Type_I32 Type_I64 Type_Void 2 0xfe 0x38 ''I64AtomicRmw16UOr'' ''i64.atomic.rmw16_u.or'',
    WABT_OPCODE Type_I64 Type_I32 Type_I64 Type_Void 4 0xfe 0x39 ''I64AtomicRmw32UOr'' ''i64.atomic.rmw32_u.or'',
    WABT_OPCODE Type_I32 Type_I32 Type_I32 Type_Void 4 0xfe 0x3a ''I32AtomicRmwXor'' ''i32.atomic.rmw.xor'',
    WABT_OPCODE Type_I64 Type_I32 Type_I64 Type_Void 8 0xfe 0x3b ''I64AtomicRmwXor'' ''i64.atomic.rmw.xor'',
    WABT_OPCODE Type_I32 Type_I32 Type_I32 Type_Void 1 0xfe 0x3c ''I32AtomicRmw8UXor'' ''i32.atomic.rmw8_u.xor'',
    WABT_OPCODE Type_I32 Type_I32 Type_I32 Type_Void 2 0xfe 0x3d ''I32AtomicRmw16UXor'' ''i32.atomic.rmw16_u.xor'',
    WABT_OPCODE Type_I64 Type_I32 Type_I64 Type_Void 1 0xfe 0x3e ''I64AtomicRmw8UXor'' ''i64.atomic.rmw8_u.xor'',
    WABT_OPCODE Type_I64 Type_I32 Type_I64 Type_Void 2 0xfe 0x3f ''I64AtomicRmw16UXor'' ''i64.atomic.rmw16_u.xor'',
    WABT_OPCODE Type_I64 Type_I32 Type_I64 Type_Void 4 0xfe 0x40 ''I64AtomicRmw32UXor'' ''i64.atomic.rmw32_u.xor'',
    WABT_OPCODE Type_I32 Type_I32 Type_I32 Type_Void 4 0xfe 0x41 ''I32AtomicRmwXchg'' ''i32.atomic.rmw.xchg'',
    WABT_OPCODE Type_I64 Type_I32 Type_I64 Type_Void 8 0xfe 0x42 ''I64AtomicRmwXchg'' ''i64.atomic.rmw.xchg'',
    WABT_OPCODE Type_I32 Type_I32 Type_I32 Type_Void 1 0xfe 0x43 ''I32AtomicRmw8UXchg'' ''i32.atomic.rmw8_u.xchg'',
    WABT_OPCODE Type_I32 Type_I32 Type_I32 Type_Void 2 0xfe 0x44 ''I32AtomicRmw16UXchg'' ''i32.atomic.rmw16_u.xchg'',
    WABT_OPCODE Type_I64 Type_I32 Type_I64 Type_Void 1 0xfe 0x45 ''I64AtomicRmw8UXchg'' ''i64.atomic.rmw8_u.xchg'',
    WABT_OPCODE Type_I64 Type_I32 Type_I64 Type_Void 2 0xfe 0x46 ''I64AtomicRmw16UXchg'' ''i64.atomic.rmw16_u.xchg'',
    WABT_OPCODE Type_I64 Type_I32 Type_I64 Type_Void 4 0xfe 0x47 ''I64AtomicRmw32UXchg'' ''i64.atomic.rmw32_u.xchg'',
    WABT_OPCODE Type_I32 Type_I32 Type_I32 Type_I32 4 0xfe 0x48 ''I32AtomicRmwCmpxchg'' ''i32.atomic.rmw.cmpxchg'',
    WABT_OPCODE Type_I64 Type_I32 Type_I64 Type_I64 8 0xfe 0x49 ''I64AtomicRmwCmpxchg'' ''i64.atomic.rmw.cmpxchg'',
    WABT_OPCODE Type_I32 Type_I32 Type_I32 Type_I32 1 0xfe 0x4a ''I32AtomicRmw8UCmpxchg'' ''i32.atomic.rmw8_u.cmpxchg'',
    WABT_OPCODE Type_I32 Type_I32 Type_I32 Type_I32 2 0xfe 0x4b ''I32AtomicRmw16UCmpxchg'' ''i32.atomic.rmw16_u.cmpxchg'',
    WABT_OPCODE Type_I64 Type_I32 Type_I64 Type_I64 1 0xfe 0x4c ''I64AtomicRmw8UCmpxchg'' ''i64.atomic.rmw8_u.cmpxchg'',
    WABT_OPCODE Type_I64 Type_I32 Type_I64 Type_I64 2 0xfe 0x4d ''I64AtomicRmw16UCmpxchg'' ''i64.atomic.rmw16_u.cmpxchg'',
    WABT_OPCODE Type_I64 Type_I32 Type_I64 Type_I64 4 0xfe 0x4e ''I64AtomicRmw32UCmpxchg'' ''i64.atomic.rmw32_u.cmpxchg'']"

definition opcode_def :: "(string \<times> opcode_info) list" where
  "opcode_def = opcode_def_1 @ opcode_def_2 @ opcode_def_3 @ opcode_def_4 @ opcode_def_5 @ opcode_def_6"

definition infos :: "opcode_info list" where
  "infos = map snd opcode_def"

text \<open>The enumerator after the last opcode.\<close>

definition Opcode_Invalid :: u32 where
  "Opcode_Invalid = 401"

text \<open>The enumerator of a name, and the name of an enumerator.\<close>

definition Opcode_of :: "string \<Rightarrow> u32" where
  "Opcode_of Name = of_nat (length (takeWhile (\<lambda>r. fst r \<noteq> Name) opcode_def))"

definition Opcode_enumerator :: "u32 \<Rightarrow> string" where
  "Opcode_enumerator e = (if unat e < length opcode_def then fst (opcode_def ! unat e) else ''Invalid'')"

section \<open>Lookup\<close>

text \<open>\<open>std::lower_bound\<close> on a random-access range: the halving loop over \<open>first\<close> and the number of
  elements left.\<close>

function lower_bound_loop :: "('a \<Rightarrow> bool) \<Rightarrow> 'a list \<Rightarrow> nat \<Rightarrow> nat \<Rightarrow> nat" where
  "lower_bound_loop less_v xs start n =
     (if n = 0 then start
      else let half = n div 2; middle = start + half in
        if less_v (xs ! middle) then lower_bound_loop less_v xs (middle + 1) (n - half - 1)
        else lower_bound_loop less_v xs start half)"
  by pat_completeness auto
termination
  by (relation "measure (\<lambda>(_, _, _, n). n)") auto

declare lower_bound_loop.simps [simp del]

definition lower_bound :: "('a \<Rightarrow> bool) \<Rightarrow> 'a list \<Rightarrow> nat" where
  "lower_bound less_v xs = lower_bound_loop less_v xs 0 (length xs)"

definition EncodeInvalidOpcode :: "u32 \<Rightarrow> u32" where
  "EncodeInvalidOpcode pc = NOT pc + 1"

definition DecodeInvalidOpcode :: "u32 \<Rightarrow> u8 \<times> u32" where
  "DecodeInvalidOpcode e = (let pc = NOT e + 1 in (ucast (drop_bit 8 pc), pc AND 0xff))"

definition FromCode :: "u8 \<Rightarrow> u32 \<Rightarrow> u32" where
  "FromCode p c =
     (let pc = PrefixCode p c;
          iter = lower_bound (\<lambda>info. prefix_code info < pc) infos
      in if iter = length infos \<or> prefix_code (infos ! iter) \<noteq> pc then EncodeInvalidOpcode pc
         else of_nat iter)"

definition GetInfo :: "u32 \<Rightarrow> opcode_info" where
  "GetInfo e =
     (if e < Opcode_Invalid then infos ! unat e
      else case DecodeInvalidOpcode e of (p, c) \<Rightarrow>
        \<lparr>info_name = ''<invalid>'', result_type = Type_Void, param1_type = Type_Void,
         param2_type = Type_Void, param3_type = Type_Void, memory_size = 0, prefix = p,
         opcode_code = c, prefix_code = PrefixCode p c\<rparr>)"

definition GetPrefix :: "u32 \<Rightarrow> u8" where "GetPrefix e = prefix (GetInfo e)"
definition GetCode :: "u32 \<Rightarrow> u32" where "GetCode e = opcode_code (GetInfo e)"
definition HasPrefix :: "u32 \<Rightarrow> bool" where "HasPrefix e \<longleftrightarrow> prefix (GetInfo e) \<noteq> 0"
definition GetLength :: "u32 \<Rightarrow> nat" where "GetLength e = (if HasPrefix e then 2 else 1)"
definition GetName :: "u32 \<Rightarrow> string" where "GetName e = info_name (GetInfo e)"
definition GetResultType :: "u32 \<Rightarrow> wtype" where "GetResultType e = result_type (GetInfo e)"
definition GetParamType1 :: "u32 \<Rightarrow> wtype" where "GetParamType1 e = param1_type (GetInfo e)"
definition GetParamType2 :: "u32 \<Rightarrow> wtype" where "GetParamType2 e = param2_type (GetInfo e)"
definition GetParamType3 :: "u32 \<Rightarrow> wtype" where "GetParamType3 e = param3_type (GetInfo e)"
definition GetMemorySize :: "u32 \<Rightarrow> u32" where "GetMemorySize e = memory_size (GetInfo e)"
definition IsInvalid :: "u32 \<Rightarrow> bool" where "IsInvalid e \<longleftrightarrow> Opcode_Invalid \<le> e"

definition IsPrefixByte :: "u8 \<Rightarrow> bool" where
  "IsPrefixByte b \<longleftrightarrow> b = 0xfc \<or> b = 0xfe \<or> b = 0xfd"

definition WABT_USE_NATURAL_ALIGNMENT :: u32 where "WABT_USE_NATURAL_ALIGNMENT = 0xffffffff"

definition IsNaturallyAligned :: "u32 \<Rightarrow> u32 \<Rightarrow> bool" where
  "IsNaturallyAligned e alignment \<longleftrightarrow>
     alignment = WABT_USE_NATURAL_ALIGNMENT \<or> alignment = GetMemorySize e"

definition GetAlignment :: "u32 \<Rightarrow> u32 \<Rightarrow> u32" where
  "GetAlignment e alignment =
     (if alignment = WABT_USE_NATURAL_ALIGNMENT then GetMemorySize e else alignment)"

section \<open>Features\<close>

text \<open>The groups of case labels of the switch of \<open>IsEnabled\<close>.\<close>

definition exceptions_opcodes :: "string list" where
  "exceptions_opcodes = [
    ''Try'', ''Catch'', ''Throw'', ''Rethrow'', ''IfExcept'']"

definition sat_float_to_int_opcodes :: "string list" where
  "sat_float_to_int_opcodes = [
    ''I32TruncSSatF32'', ''I32TruncUSatF32'', ''I32TruncSSatF64'', ''I32TruncUSatF64'',
    ''I64TruncSSatF32'', ''I64TruncUSatF32'', ''I64TruncSSatF64'', ''I64TruncUSatF64'']"

definition sign_extension_opcodes :: "string list" where
  "sign_extension_opcodes = [
    ''I32Extend8S'', ''I32Extend16S'', ''I64Extend8S'', ''I64Extend16S'', ''I64Extend32S'']"

definition threads_opcodes :: "string list" where
  "threads_opcodes = [
    ''AtomicWake'', ''I32AtomicWait'', ''I64AtomicWait'', ''I32AtomicLoad'', ''I64AtomicLoad'',
    ''I32AtomicLoad8U'', ''I32AtomicLoad16U'', ''I64AtomicLoad8U'', ''I64AtomicLoad16U'',
    ''I64AtomicLoad32U'', ''I32AtomicStore'', ''I64AtomicStore'', ''I32AtomicStore8'',
    ''I32AtomicStore16'', ''I64AtomicStore8'', ''I64AtomicStore16'', ''I64AtomicStore32'',
    ''I32AtomicRmwAdd'', ''I64AtomicRmwAdd'', ''I32AtomicRmw8UAdd'', ''I32AtomicRmw16UAdd'',
    ''I64AtomicRmw8UAdd'', ''I64AtomicRmw16UAdd'', ''I64AtomicRmw32UAdd'', ''I32AtomicRmwSub'',
    ''I64AtomicRmwSub'', ''I32AtomicRmw8USub'', ''I32AtomicRmw16USub'', ''I64AtomicRmw8USub'',
    ''I64AtomicRmw16USub'', ''I64AtomicRmw32USub'', ''I32AtomicRmwAnd'', ''I64AtomicRmwAnd'',
    ''I32AtomicRmw8UAnd'', ''I32AtomicRmw16UAnd'', ''I64AtomicRmw8UAnd'', ''I64AtomicRmw16UAnd'',
    ''I64AtomicRmw32UAnd'', ''I32AtomicRmwOr'', ''I64AtomicRmwOr'', ''I32AtomicRmw8UOr'',
    ''I32AtomicRmw16UOr'', ''I64AtomicRmw8UOr'', ''I64AtomicRmw16UOr'', ''I64AtomicRmw32UOr'',
    ''I32AtomicRmwXor'', ''I64AtomicRmwXor'', ''I32AtomicRmw8UXor'', ''I32AtomicRmw16UXor'',
    ''I64AtomicRmw8UXor'', ''I64AtomicRmw16UXor'', ''I64AtomicRmw32UXor'', ''I32AtomicRmwXchg'',
    ''I64AtomicRmwXchg'', ''I32AtomicRmw8UXchg'', ''I32AtomicRmw16UXchg'', ''I64AtomicRmw8UXchg'',
    ''I64AtomicRmw16UXchg'', ''I64AtomicRmw32UXchg'', ''I32AtomicRmwCmpxchg'',
    ''I64AtomicRmwCmpxchg'', ''I32AtomicRmw8UCmpxchg'', ''I32AtomicRmw16UCmpxchg'',
    ''I64AtomicRmw8UCmpxchg'', ''I64AtomicRmw16UCmpxchg'', ''I64AtomicRmw32UCmpxchg'']"

definition simd_opcodes :: "string list" where
  "simd_opcodes = [
    ''V128Const'', ''V128Load'', ''V128Store'', ''I8X16Splat'', ''I16X8Splat'', ''I32X4Splat'',
    ''I64X2Splat'', ''F32X4Splat'', ''F64X2Splat'', ''I8X16ExtractLaneS'', ''I8X16ExtractLaneU'',
    ''I16X8ExtractLaneS'', ''I16X8ExtractLaneU'', ''I32X4ExtractLane'', ''I64X2ExtractLane'',
    ''F32X4ExtractLane'', ''F64X2ExtractLane'', ''I8X16ReplaceLane'', ''I16X8ReplaceLane'',
    ''I32X4ReplaceLane'', ''I64X2ReplaceLane'', ''F32X4ReplaceLane'', ''F64X2ReplaceLane'',
    ''V8X16Shuffle'', ''I8X16Add'', ''I16X8Add'', ''I32X4Add'', ''I64X2Add'', ''I8X16Sub'',
    ''I16X8Sub'', ''I32X4Sub'', ''I64X2Sub'', ''I8X16Mul'', ''I16X8Mul'', ''I32X4Mul'',
    ''I8X16Neg'', ''I16X8Neg'', ''I32X4Neg'', ''I64X2Neg'', ''I8X16AddSaturateS'',
    ''I8X16AddSaturateU'', ''I16X8AddSaturateS'', ''I16X8AddSaturateU'', ''I8X16SubSaturateS'',
    ''I8X16SubSaturateU'', ''I16X8SubSaturateS'', ''I16X8SubSaturateU'', ''I8X16Shl'',
    ''I16X8Shl'', ''I32X4Shl'', ''I64X2Shl'', ''I8X16ShrS'', ''I8X16ShrU'', ''I16X8ShrS'',
    ''I16X8ShrU'', ''I32X4ShrS'', ''I32X4ShrU'', ''I64X2ShrS'', ''I64X2ShrU'', ''V128And'',
    ''V128Or'', ''V128Xor'', ''V128Not'', ''V128BitSelect'', ''I8X16AnyTrue'', ''I16X8AnyTrue'',
    ''I32X4AnyTrue'', ''I64X2AnyTrue'', ''I8X16AllTrue'', ''I16X8AllTrue'', ''I32X4AllTrue'',
    ''I64X2AllTrue'', ''I8X16Eq'', ''I16X8Eq'', ''I32X4Eq'', ''F32X4Eq'', ''F64X2Eq'', ''I8X16Ne'',
    ''I16X8Ne'', ''I32X4Ne'', ''F32X4Ne'', ''F64X2Ne'', ''I8X16LtS'', ''I8X16LtU'', ''I16X8LtS'',
    ''I16X8LtU'', ''I32X4LtS'', ''I32X4LtU'', ''F32X4Lt'', ''F64X2Lt'', ''I8X16LeS'', ''I8X16LeU'',
    ''I16X8LeS'', ''I16X8LeU'', ''I32X4LeS'', ''I32X4LeU'', ''F32X4Le'', ''F64X2Le'', ''I8X16GtS'',
    ''I8X16GtU'', ''I16X8GtS'', ''I16X8GtU'', ''I32X4GtS'', ''I32X4GtU'', ''F32X4Gt'', ''F64X2Gt'',
    ''I8X16GeS'', ''I8X16GeU'', ''I16X8GeS'', ''I16X8GeU'', ''I32X4GeS'', ''I32X4GeU'',
    ''F32X4Ge'', ''F64X2Ge'', ''F32X4Neg'', ''F64X2Neg'', ''F32X4Abs'', ''F64X2Abs'', ''F32X4Min'',
    ''F64X2Min'', ''F32X4Max'', ''F64X2Max'', ''F32X4Add'', ''F64X2Add'', ''F32X4Sub'',
    ''F64X2Sub'', ''F32X4Div'', ''F64X2Div'', ''F32X4Mul'', ''F64X2Mul'', ''F32X4Sqrt'',
    ''F64X2Sqrt'', ''F32X4ConvertSI32X4'', ''F32X4ConvertUI32X4'', ''F64X2ConvertSI64X2'',
    ''F64X2ConvertUI64X2'', ''I32X4TruncSF32X4Sat'', ''I32X4TruncUF32X4Sat'',
    ''I64X2TruncSF64X2Sat'', ''I64X2TruncUF64X2Sat'']"

definition interp_opcodes :: "string list" where
  "interp_opcodes = [
    ''InterpAlloca'', ''InterpBrUnless'', ''InterpCallHost'', ''InterpData'', ''InterpDropKeep'']"

text \<open>The result of the switch, as a value: which feature decides.\<close>

datatype opcode_gate = Gate_exceptions | Gate_sat_float_to_int | Gate_sign_extension | Gate_threads
  | Gate_simd | Gate_never | Gate_always

definition IsEnabled_switch :: "string \<Rightarrow> opcode_gate" where
  "IsEnabled_switch n =
     (if List.member exceptions_opcodes n then Gate_exceptions
      else if List.member sat_float_to_int_opcodes n then Gate_sat_float_to_int
      else if List.member sign_extension_opcodes n then Gate_sign_extension
      else if List.member threads_opcodes n then Gate_threads
      else if List.member simd_opcodes n then Gate_simd
      else if List.member interp_opcodes n then Gate_never
      else Gate_always)"

fun gate_open :: "opcode_gate \<Rightarrow> Features \<Rightarrow> bool" where
  "gate_open Gate_exceptions features = exceptions_enabled features"
| "gate_open Gate_sat_float_to_int features = sat_float_to_int_enabled features"
| "gate_open Gate_sign_extension features = sign_extension_enabled features"
| "gate_open Gate_threads features = threads_enabled features"
| "gate_open Gate_simd features = simd_enabled features"
| "gate_open Gate_never features = False"
| "gate_open Gate_always features = True"

definition IsEnabled :: "u32 \<Rightarrow> Features \<Rightarrow> bool" where
  "IsEnabled e features = gate_open (IsEnabled_switch (Opcode_enumerator e)) features"

text \<open>\<open>None\<close> where the switch is \<open>WABT_UNREACHABLE\<close>.\<close>

definition GetSimdLaneCount :: "u32 \<Rightarrow> u32 option" where
  "GetSimdLaneCount e =
     (let n = Opcode_enumerator e in
      if List.member [''I8X16ExtractLaneS'', ''I8X16ExtractLaneU'', ''I8X16ReplaceLane''] n then Some 16
      else if List.member [''I16X8ExtractLaneS'', ''I16X8ExtractLaneU'', ''I16X8ReplaceLane''] n then Some 8
      else if List.member [''F32X4ExtractLane'', ''F32X4ReplaceLane'', ''I32X4ExtractLane'',
        ''I32X4ReplaceLane''] n then Some 4
      else if List.member [''F64X2ExtractLane'', ''F64X2ReplaceLane'', ''I64X2ExtractLane'',
        ''I64X2ReplaceLane''] n then Some 2
      else None)"

end
