(* ===== verification/Opcodes.thy ===== *)
theory Opcodes
  imports OpcodeTable
begin

text \<open>
  What the opcode table promises: it is sorted for the binary search of \<open>FromCode\<close>, encodings
  and opcodes correspond one to one, and each opcode is gated by the feature its encoding
  belongs to.
\<close>

section \<open>Evaluating the table\<close>

definition opcode_key :: "string \<times> opcode_info \<Rightarrow> nat" where
  "opcode_key r = 256 * unat (prefix (snd r)) + unat (opcode_code (snd r))"

definition well_coded :: "string \<times> opcode_info \<Rightarrow> bool" where
  "well_coded r \<longleftrightarrow> opcode_code (snd r) < 0x100 \<and>
     prefix_code (snd r) = PrefixCode (prefix (snd r)) (opcode_code (snd r))"

lemma opcode_key_row [simp]:
  "opcode_key (WABT_OPCODE tr t1 t2 t3 m p c Name txt) = 256 * unat p + unat c"
  by (simp add: opcode_key_def WABT_OPCODE_def)

lemma well_coded_row [simp]:
  "well_coded (WABT_OPCODE tr t1 t2 t3 m p c Name txt) \<longleftrightarrow> c < 0x100"
  by (simp add: well_coded_def WABT_OPCODE_def)

text \<open>The table as the code evaluates it, chunk by chunk: the rows increase, the codes fit eight bits.\<close>

lemma opcode_def_1_ok:
  "successively (\<lambda>a b. opcode_key a < opcode_key b) opcode_def_1 \<and> list_all well_coded opcode_def_1 \<and>
   length opcode_def_1 = 70 \<and> opcode_key (hd opcode_def_1) = 0 \<and> opcode_key (last opcode_def_1) = 84"
  by (simp add: opcode_def_1_def)

lemma opcode_def_2_ok:
  "successively (\<lambda>a b. opcode_key a < opcode_key b) opcode_def_2 \<and> list_all well_coded opcode_def_2 \<and>
   length opcode_def_2 = 70 \<and> opcode_key (hd opcode_def_2) = 85 \<and> opcode_key (last opcode_def_2) = 154"
  by (simp add: opcode_def_2_def)

lemma opcode_def_3_ok:
  "successively (\<lambda>a b. opcode_key a < opcode_key b) opcode_def_3 \<and> list_all well_coded opcode_def_3 \<and>
   length opcode_def_3 = 70 \<and> opcode_key (hd opcode_def_3) = 155 \<and> opcode_key (last opcode_def_3) = 64782"
  by (simp add: opcode_def_3_def)

lemma opcode_def_4_ok:
  "successively (\<lambda>a b. opcode_key a < opcode_key b) opcode_def_4 \<and> list_all well_coded opcode_def_4 \<and>
   length opcode_def_4 = 70 \<and> opcode_key (hd opcode_def_4) = 64783 \<and> opcode_key (last opcode_def_4) = 64852"
  by (simp add: opcode_def_4_def)

lemma opcode_def_5_ok:
  "successively (\<lambda>a b. opcode_key a < opcode_key b) opcode_def_5 \<and> list_all well_coded opcode_def_5 \<and>
   length opcode_def_5 = 70 \<and> opcode_key (hd opcode_def_5) = 64853 \<and> opcode_key (last opcode_def_5) = 65051"
  by (simp add: opcode_def_5_def)

lemma opcode_def_6_ok:
  "successively (\<lambda>a b. opcode_key a < opcode_key b) opcode_def_6 \<and> list_all well_coded opcode_def_6 \<and>
   length opcode_def_6 = 51 \<and> opcode_key (hd opcode_def_6) = 65052 \<and> opcode_key (last opcode_def_6) = 65102"
  by (simp add: opcode_def_6_def)

lemmas opcode_def_ok = opcode_def_1_ok opcode_def_2_ok opcode_def_3_ok opcode_def_4_ok
  opcode_def_5_ok opcode_def_6_ok

lemma length_opcode_def: "length opcode_def = 401"
  using opcode_def_ok by (simp add: opcode_def_def)

lemma length_infos: "length infos = 401"
  by (simp add: infos_def length_opcode_def)

lemma opcode_def_well_coded: "list_all well_coded opcode_def"
  using opcode_def_ok by (simp add: opcode_def_def)

lemma opcode_def_nonempty: "opcode_def_1 \<noteq> []" "opcode_def_2 \<noteq> []" "opcode_def_3 \<noteq> []"
  "opcode_def_4 \<noteq> []" "opcode_def_5 \<noteq> []" "opcode_def_6 \<noteq> []"
  using opcode_def_ok by auto

lemma opcode_def_increasing: "successively (\<lambda>a b. opcode_key a < opcode_key b) opcode_def"
  using opcode_def_ok opcode_def_nonempty by (simp add: opcode_def_def successively_append_iff)

lemma opcode_def_sorted: "sorted_wrt (\<lambda>a b. opcode_key a < opcode_key b) opcode_def"
proof -
  have "transp (\<lambda>a b. opcode_key a < opcode_key b)" by (auto intro!: transpI)
  from successively_conv_sorted_wrt [OF this] opcode_def_increasing show ?thesis by blast
qed

section \<open>Prefix codes\<close>

lemma unat_PrefixCode:
  assumes "c < 0x100"
  shows "unat (PrefixCode p c) = 256 * unat p + unat c"
proof -
  have c: "unat c < 256" using assms by (simp add: word_less_nat_alt)
  have p: "unat p < 256" using unsigned_less [of p, where 'a = nat] by simp
  have "push_bit 8 (ucast p) AND c = (0 :: u32)"
  proof (rule bit_word_eqI)
    fix n assume "n < LENGTH(32)"
    have "\<not> bit c n" if "8 \<le> n"
    proof -
      have "take_bit 8 c = c"
        using c by (simp add: word_unat_eq_iff unsigned_take_bit_eq take_bit_nat_eq_self)
      then have "bit c n = (n < 8 \<and> bit c n)" by (metis bit_take_bit_iff)
      then show ?thesis using that by simp
    qed
    then show "bit (push_bit 8 (ucast p) AND c) n = bit (0 :: u32) n"
      by (auto simp: bit_and_iff bit_push_bit_iff)
  qed
  then have "PrefixCode p c = push_bit 8 (ucast p) + c"
    unfolding PrefixCode_def by (rule disjunctive_add_eq_or [symmetric])
  moreover have "unat (push_bit 8 (ucast p) :: u32) = 256 * unat p"
    using p by (simp add: push_bit_eq_mult unat_word_ariths(2) unsigned_ucast_eq take_bit_nat_eq_self)
  ultimately show ?thesis using c p by (simp add: unat_word_ariths(1))
qed

lemma base256_inj:
  assumes "256 * a + c = 256 * b + (d :: nat)" "c < 256" "d < 256"
  shows "a = b \<and> c = d"
proof -
  have "(256 * a + c) div 256 = a" "(256 * b + d) div 256 = b" using assms(2,3) by simp_all
  with assms(1) have "a = b" by simp
  with assms(1) show ?thesis by simp
qed

lemma PrefixCode_inj:
  assumes "c < 0x100" "d < 0x100" "PrefixCode p c = PrefixCode q d"
  shows "p = q \<and> c = d"
proof -
  have e: "256 * unat p + unat c = 256 * unat q + unat d"
    using unat_PrefixCode assms by metis
  have "unat c < 256" "unat d < 256" using assms by (simp_all add: word_less_nat_alt)
  from base256_inj [OF e this] show ?thesis by (simp add: word_unat_eq_iff)
qed

section \<open>Binary search\<close>

lemma lower_bound_loop_0: "lower_bound_loop less_v xs start 0 = start"
  by (simp add: lower_bound_loop.simps [of less_v xs start 0])

lemma lower_bound_loop_Suc:
  assumes "n \<noteq> 0"
  shows "lower_bound_loop less_v xs start n =
    (if less_v (xs ! (start + n div 2))
     then lower_bound_loop less_v xs (start + n div 2 + 1) (n - n div 2 - 1)
     else lower_bound_loop less_v xs start (n div 2))"
  by (rule trans [OF lower_bound_loop.simps]) (simp only: assms Let_def if_False)

lemma lower_bound_loop_correct:
  assumes "start + n \<le> length xs"
    and "\<And>i j. i < j \<Longrightarrow> j < length xs \<Longrightarrow> less_v (xs ! j) \<Longrightarrow> less_v (xs ! i)"
    and "\<And>i. i < start \<Longrightarrow> less_v (xs ! i)"
    and "\<And>i. start + n \<le> i \<Longrightarrow> i < length xs \<Longrightarrow> \<not> less_v (xs ! i)"
  defines "k \<equiv> lower_bound_loop less_v xs start n"
  shows "k \<le> length xs \<and> (\<forall>i < k. less_v (xs ! i)) \<and> (\<forall>i < length xs. k \<le> i \<longrightarrow> \<not> less_v (xs ! i))"
  using assms(1,3,4) unfolding k_def
proof (induction n arbitrary: start rule: less_induct)
  case (less n)
  show ?case
  proof (cases "n = 0")
    case True
    with less.prems show ?thesis by (auto simp: lower_bound_loop_0)
  next
    case False
    let ?m = "start + n div 2"
    have m: "?m < length xs" using False less.prems(1) by auto
    show ?thesis
    proof (cases "less_v (xs ! ?m)")
      case True
      have e: "lower_bound_loop less_v xs start n = lower_bound_loop less_v xs (?m + 1) (n - n div 2 - 1)"
        by (simp only: lower_bound_loop_Suc [OF False] True if_True)
      have s: "?m + 1 + (n - n div 2 - 1) = start + n" "n - n div 2 - 1 < n" using False by simp_all
      have l: "less_v (xs ! i)" if "i < ?m + 1" for i
        using that True assms(2) [of i ?m] m by (cases "i = ?m") auto
      show ?thesis unfolding e
        using less.IH [of "n - n div 2 - 1" "?m + 1"] s(2) less.prems(1,3) l unfolding s(1) by blast
    next
      case nl: False
      have e: "lower_bound_loop less_v xs start n = lower_bound_loop less_v xs start (n div 2)"
        by (simp only: lower_bound_loop_Suc [OF False] nl if_False)
      have s: "n div 2 < n" "start + n div 2 \<le> length xs" using False m by simp_all
      have l: "\<not> less_v (xs ! i)" if "?m \<le> i" "i < length xs" for i
        using that nl assms(2) [of ?m i] by (cases "i = ?m") auto
      show ?thesis unfolding e
        by (rule less.IH) (use s less.prems(2) l in simp_all)
    qed
  qed
qed

lemma infos_less:
  assumes "i < j" "j < length infos"
  shows "prefix_code (infos ! i) < prefix_code (infos ! j)"
proof -
  have j: "j < length opcode_def" "i < length opcode_def" using assms by (simp_all add: infos_def)
  have "opcode_key (opcode_def ! i) < opcode_key (opcode_def ! j)"
    using opcode_def_sorted assms(1) j by (simp add: sorted_wrt_iff_nth_less)
  moreover have "unat (prefix_code (infos ! k)) = opcode_key (opcode_def ! k)"
    if "k < length opcode_def" for k
  proof -
    have "well_coded (opcode_def ! k)" using opcode_def_well_coded that by (simp add: list_all_length)
    then show ?thesis
      by (simp add: well_coded_def opcode_key_def infos_def that unat_PrefixCode)
  qed
  ultimately show ?thesis using j by (simp add: word_less_nat_alt)
qed

lemma infos_lower_bound:
  defines "k pc \<equiv> lower_bound (\<lambda>info. prefix_code info < pc) infos"
  shows "k pc \<le> length infos" "i < k pc \<Longrightarrow> prefix_code (infos ! i) < pc"
    "i < length infos \<Longrightarrow> k pc \<le> i \<Longrightarrow> pc \<le> prefix_code (infos ! i)"
proof -
  have "k pc \<le> length infos \<and> (\<forall>i < k pc. prefix_code (infos ! i) < pc) \<and>
      (\<forall>i < length infos. k pc \<le> i \<longrightarrow> \<not> prefix_code (infos ! i) < pc)"
    unfolding k_def lower_bound_def
    by (rule lower_bound_loop_correct) (auto dest: infos_less)
  then show "k pc \<le> length infos" "i < k pc \<Longrightarrow> prefix_code (infos ! i) < pc"
    "i < length infos \<Longrightarrow> k pc \<le> i \<Longrightarrow> pc \<le> prefix_code (infos ! i)" by auto
qed

lemma FromCode_nth:
  assumes "i < length infos" "prefix_code (infos ! i) = PrefixCode p c"
  shows "FromCode p c = of_nat i"
proof -
  let ?k = "lower_bound (\<lambda>info. prefix_code info < PrefixCode p c) infos"
  have "?k = i"
  proof (rule linorder_cases [of ?k i])
    assume l: "?k < i"
    then have "PrefixCode p c \<le> prefix_code (infos ! ?k)"
      using infos_lower_bound(3) [of ?k "PrefixCode p c"] assms(1) by simp
    with infos_less [OF l assms(1)] assms(2) show ?thesis by simp
  next
    assume "i < ?k"
    from infos_lower_bound(2) [OF this] assms(2) show ?thesis by simp
  qed
  then show ?thesis using assms by (simp add: FromCode_def Let_def)
qed

lemma FromCode_missing:
  assumes "\<And>i. i < length infos \<Longrightarrow> prefix_code (infos ! i) \<noteq> PrefixCode p c"
  shows "FromCode p c = EncodeInvalidOpcode (PrefixCode p c)"
proof -
  let ?k = "lower_bound (\<lambda>info. prefix_code info < PrefixCode p c) infos"
  have "?k = length infos \<or> prefix_code (infos ! ?k) \<noteq> PrefixCode p c"
    using assms [of ?k] infos_lower_bound(1) [of "PrefixCode p c"] by (cases "?k = length infos") auto
  then show ?thesis by (simp add: FromCode_def Let_def)
qed

lemma infos_well_coded:
  assumes "i < length infos"
  shows "opcode_code (infos ! i) < 0x100"
    "prefix_code (infos ! i) = PrefixCode (prefix (infos ! i)) (opcode_code (infos ! i))"
  using opcode_def_well_coded assms
  by (auto simp: list_all_length infos_def well_coded_def)

lemma GetInfo_nth:
  assumes "i < length infos"
  shows "GetInfo (of_nat i) = infos ! i"
proof -
  have "unat (of_nat i :: u32) = i"
    using assms by (simp add: length_infos unsigned_of_nat take_bit_nat_eq_self)
  then show ?thesis using assms
    by (simp add: GetInfo_def Opcode_Invalid_def length_infos word_less_nat_alt)
qed

lemma unat_uminus_u32: "w \<noteq> 0 \<Longrightarrow> unat (- w :: u32) = 2 ^ 32 - unat w"
  using unat_sub_if_size [of 0 w] by (auto simp: word_size unat_0_iff)

lemma EncodeInvalidOpcode_ge:
  assumes "c < 0x100" "PrefixCode p c \<noteq> 0"
  shows "\<not> EncodeInvalidOpcode (PrefixCode p c) < Opcode_Invalid"
proof -
  let ?pc = "PrefixCode p c"
  have "unat ?pc < 65536"
    using unat_PrefixCode [OF assms(1), of p] assms(1) unsigned_less [of p, where 'a = nat]
    by (simp add: word_less_nat_alt)
  moreover have "EncodeInvalidOpcode ?pc = - ?pc"
    by (simp add: EncodeInvalidOpcode_def minus_eq_not_plus_1)
  moreover have "unat (- ?pc) = 2 ^ 32 - unat ?pc"
    using assms(2) by (rule unat_uminus_u32)
  ultimately show ?thesis by (simp add: Opcode_Invalid_def word_less_nat_alt)
qed

lemma DecodeInvalidOpcode_Encode:
  assumes "c < 0x100"
  shows "DecodeInvalidOpcode (EncodeInvalidOpcode (PrefixCode p c)) = (p, c)"
proof -
  let ?pc = "PrefixCode p c"
  have u: "unat ?pc = 256 * unat p + unat c" "unat c < 256" "unat p < 256"
    using unat_PrefixCode [OF assms] assms unsigned_less [of p, where 'a = nat]
    by (simp_all add: word_less_nat_alt)
  have "NOT (NOT ?pc + 1) + 1 = ?pc"
    by (simp add: minus_eq_not_plus_1 [symmetric])
  moreover have "ucast (drop_bit 8 ?pc) = p"
    using u by (simp add: word_unat_eq_iff unsigned_ucast_eq unat_drop_bit_eq take_bit_eq_mod
        drop_bit_nat_def del: drop_bit_eq_div)
  moreover have "?pc AND mask 8 = c"
    using u by (simp add: word_unat_eq_iff take_bit_eq_mask [symmetric] unsigned_take_bit_eq
        take_bit_nat_def del: take_bit_eq_mod)
  then have "?pc AND 0xff = c" by (simp add: mask_eq_exp_minus_1)
  ultimately show ?thesis
    by (simp add: DecodeInvalidOpcode_def EncodeInvalidOpcode_def Let_def)
qed

lemma infos_0: "prefix_code (infos ! 0) = 0"
  by (simp add: infos_def opcode_def_def opcode_def_1_def WABT_OPCODE_def PrefixCode_def)

text \<open>What the binary encoding of an opcode says about the proposal it belongs to.\<close>

definition encoding_gate :: "nat \<Rightarrow> nat \<Rightarrow> opcode_gate" where
  "encoding_gate p c =
     (if p = 0xfc then Gate_sat_float_to_int
      else if p = 0xfd then Gate_simd
      else if p = 0xfe then Gate_threads
      else if 0x06 \<le> c \<and> c \<le> 0x0a then Gate_exceptions
      else if 0xc0 \<le> c \<and> c \<le> 0xc4 then Gate_sign_extension
      else if 0xe0 \<le> c then Gate_never
      else Gate_always)"

lemma replicate_numeral: "replicate (numeral k) x = x # replicate (pred_numeral k) x"
  by (simp add: numeral_eq_Suc)

text \<open>The names of the SIMD and of the thread opcodes are told from the others by their shape, so
  that no name is compared with all of them.\<close>

fun name_shape :: "string \<Rightarrow> opcode_gate" where
  "name_shape (a # b # c # d # e # cs) =
     (if a = CHR ''V'' \<or> (c = CHR ''X'' \<and> d = CHR ''1'') \<or> (d = CHR ''X'' \<and> List.member ''248'' e)
      then Gate_simd
      else if (d = CHR ''A'' \<and> e = CHR ''t'') \<or> (a = CHR ''A'' \<and> b = CHR ''t'') then Gate_threads
      else Gate_always)"
| "name_shape _ = Gate_always"

lemma shape_simd: "list_all (\<lambda>n. name_shape n = Gate_simd) simd_opcodes"
  by (simp add: simd_opcodes_def)

lemma shape_threads: "list_all (\<lambda>n. name_shape n = Gate_threads) threads_opcodes"
  by (simp add: threads_opcodes_def)

lemma shape_others:
  "list_all (\<lambda>n. name_shape n = Gate_always)
     (exceptions_opcodes @ sat_float_to_int_opcodes @ sign_extension_opcodes @ interp_opcodes)"
  by (simp add: exceptions_opcodes_def sat_float_to_int_opcodes_def sign_extension_opcodes_def
      interp_opcodes_def)

lemma switch_simd: "n \<in> set simd_opcodes \<Longrightarrow> IsEnabled_switch n = Gate_simd"
  using shape_simd shape_threads shape_others
  by (auto simp: IsEnabled_switch_def list_all_iff)

lemma switch_threads: "n \<in> set threads_opcodes \<Longrightarrow> IsEnabled_switch n = Gate_threads"
  using shape_simd shape_threads shape_others
  by (auto simp: IsEnabled_switch_def list_all_iff)

definition switch_others :: "string \<Rightarrow> opcode_gate" where
  "switch_others n =
     (if List.member exceptions_opcodes n then Gate_exceptions
      else if List.member sat_float_to_int_opcodes n then Gate_sat_float_to_int
      else if List.member sign_extension_opcodes n then Gate_sign_extension
      else if List.member interp_opcodes n then Gate_never
      else Gate_always)"

lemma switch_shape: "name_shape n = Gate_always \<Longrightarrow> IsEnabled_switch n = switch_others n"
  using shape_simd shape_threads
  by (auto simp: IsEnabled_switch_def switch_others_def list_all_iff)

abbreviation row_gates :: "(string \<times> opcode_info) list \<Rightarrow> opcode_gate list" where
  "row_gates rows \<equiv> map (\<lambda>n. IsEnabled_switch n) (map fst rows)"

lemma row_gates_simd: "set (map fst rows) \<subseteq> set simd_opcodes \<Longrightarrow> row_gates rows = replicate (length rows) Gate_simd"
  by (rule replicate_eqI) (auto intro!: switch_simd)

lemma row_gates_threads: "set (map fst rows) \<subseteq> set threads_opcodes \<Longrightarrow> row_gates rows = replicate (length rows) Gate_threads"
  by (rule replicate_eqI) (auto intro!: switch_threads)

lemma row_gates_others:
  "list_all (\<lambda>n. name_shape n = Gate_always) (map fst rows) \<Longrightarrow> row_gates rows = map switch_others (map fst rows)"
  by (auto simp: list_all_iff switch_shape)

abbreviation row_encoding_gates :: "(string \<times> opcode_info) list \<Rightarrow> opcode_gate list" where
  "row_encoding_gates rows \<equiv> map (\<lambda>r. encoding_gate (unat (prefix (snd r))) (unat (opcode_code (snd r)))) rows"

lemma encoding_gates_1: "row_encoding_gates opcode_def_1 = replicate 6 Gate_always @ replicate 5 Gate_exceptions @ replicate 59 Gate_always"
  by (simp add: opcode_def_1_def WABT_OPCODE_def encoding_gate_def replicate_numeral)

lemma encoding_gates_2: "row_encoding_gates opcode_def_2 = replicate 70 Gate_always"
  by (simp add: opcode_def_2_def WABT_OPCODE_def encoding_gate_def replicate_numeral)

lemma encoding_gates_3: "row_encoding_gates opcode_def_3 = replicate 37 Gate_always @ replicate 5 Gate_sign_extension @ replicate 5 Gate_never @ replicate 8 Gate_sat_float_to_int @ replicate 15 Gate_simd"
  by (simp add: opcode_def_3_def WABT_OPCODE_def encoding_gate_def replicate_numeral)

lemma encoding_gates_4: "row_encoding_gates opcode_def_4 = replicate 70 Gate_simd"
  by (simp add: opcode_def_4_def WABT_OPCODE_def encoding_gate_def replicate_numeral)

lemma encoding_gates_5: "row_encoding_gates opcode_def_5 = replicate 55 Gate_simd @ replicate 15 Gate_threads"
  by (simp add: opcode_def_5_def WABT_OPCODE_def encoding_gate_def replicate_numeral)

lemma encoding_gates_6: "row_encoding_gates opcode_def_6 = replicate 51 Gate_threads"
  by (simp add: opcode_def_6_def WABT_OPCODE_def encoding_gate_def replicate_numeral)

lemma simd_names:
  "simd_opcodes = map fst (drop 55 opcode_def_3) @ map fst opcode_def_4 @ map fst (take 55 opcode_def_5)"
  by (simp add: simd_opcodes_def opcode_def_3_def opcode_def_4_def opcode_def_5_def WABT_OPCODE_def)

lemma threads_names: "threads_opcodes = map fst (drop 55 opcode_def_5) @ map fst opcode_def_6"
  by (simp add: threads_opcodes_def opcode_def_5_def opcode_def_6_def WABT_OPCODE_def)

lemma shapes_1: "list_all (\<lambda>n. name_shape n = Gate_always) (map fst opcode_def_1)"
  by (simp add: opcode_def_1_def WABT_OPCODE_def)

lemma shapes_2: "list_all (\<lambda>n. name_shape n = Gate_always) (map fst opcode_def_2)"
  by (simp add: opcode_def_2_def WABT_OPCODE_def)

lemma shapes_3: "list_all (\<lambda>n. name_shape n = Gate_always) (map fst (take 55 opcode_def_3))"
  by (simp add: opcode_def_3_def WABT_OPCODE_def)

lemma others_1: "map switch_others (map fst opcode_def_1) = replicate 6 Gate_always @ replicate 5 Gate_exceptions @ replicate 59 Gate_always"
  unfolding opcode_def_1_def WABT_OPCODE_def list.map fst_conv by code_simp

lemma others_2: "map switch_others (map fst opcode_def_2) = replicate 70 Gate_always"
  unfolding opcode_def_2_def WABT_OPCODE_def list.map fst_conv by code_simp

lemma others_3: "map switch_others (map fst (take 55 opcode_def_3)) = replicate 37 Gate_always @ replicate 5 Gate_sign_extension @ replicate 5 Gate_never @ replicate 8 Gate_sat_float_to_int"
  unfolding opcode_def_3_def WABT_OPCODE_def take_map [symmetric] list.map fst_conv by code_simp

lemma row_gates_simd_parts:
  "row_gates (drop 55 opcode_def_3) = replicate 15 Gate_simd"
  "row_gates opcode_def_4 = replicate 70 Gate_simd"
  "row_gates (take 55 opcode_def_5) = replicate 55 Gate_simd"
  by (rule trans [OF row_gates_simd], unfold simd_names, (auto)[1], simp add: opcode_def_ok)+

lemma row_gates_threads_parts:
  "row_gates (drop 55 opcode_def_5) = replicate 15 Gate_threads"
  "row_gates opcode_def_6 = replicate 51 Gate_threads"
  by (rule trans [OF row_gates_threads], unfold threads_names, (auto)[1], simp add: opcode_def_ok)+

lemma row_gates_split: "row_gates rows = row_gates (take n rows) @ row_gates (drop n rows)"
  by (simp only: append_take_drop_id flip: map_append)

lemma gates_agree: "row_gates opcode_def = row_encoding_gates opcode_def"
proof -
  have 1: "row_gates opcode_def_1 = row_encoding_gates opcode_def_1"
    by (simp only: row_gates_others [OF shapes_1] others_1 encoding_gates_1)
  have 2: "row_gates opcode_def_2 = row_encoding_gates opcode_def_2"
    by (simp only: row_gates_others [OF shapes_2] others_2 encoding_gates_2)
  have 3: "row_gates opcode_def_3 = row_encoding_gates opcode_def_3"
    by (simp only: row_gates_split [of opcode_def_3 55] row_gates_others [OF shapes_3] others_3
        row_gates_simd_parts encoding_gates_3 append_assoc)
  have 4: "row_gates opcode_def_4 = row_encoding_gates opcode_def_4"
    by (simp only: row_gates_simd_parts encoding_gates_4)
  have 5: "row_gates opcode_def_5 = row_encoding_gates opcode_def_5"
    by (simp only: row_gates_split [of opcode_def_5 55] row_gates_simd_parts row_gates_threads_parts
        encoding_gates_5)
  have 6: "row_gates opcode_def_6 = row_encoding_gates opcode_def_6"
    by (simp only: row_gates_threads_parts encoding_gates_6)
  show ?thesis unfolding opcode_def_def map_append 1 2 3 4 5 6 ..
qed

section \<open>Properties\<close>

lemma FromCode_encodes:
  assumes "c < 0x100"
  shows "GetPrefix (FromCode p c) = p \<and> GetCode (FromCode p c) = c"
proof (cases "\<exists>i < length infos. prefix_code (infos ! i) = PrefixCode p c")
  case True
  then obtain i where i: "i < length infos" "prefix_code (infos ! i) = PrefixCode p c" by blast
  then have "prefix (infos ! i) = p \<and> opcode_code (infos ! i) = c"
    using PrefixCode_inj [OF infos_well_coded(1) [OF i(1)] assms] infos_well_coded(2) [OF i(1)]
    by simp
  then show ?thesis
    by (simp add: FromCode_nth [OF i] GetPrefix_def GetCode_def GetInfo_nth [OF i(1)])
next
  case False
  then have m: "\<And>i. i < length infos \<Longrightarrow> prefix_code (infos ! i) \<noteq> PrefixCode p c" by blast
  have "PrefixCode p c \<noteq> 0" using m [of 0] infos_0 by (simp add: length_infos)
  from EncodeInvalidOpcode_ge [OF assms this] DecodeInvalidOpcode_Encode [OF assms, of p]
  show ?thesis by (simp add: FromCode_missing [OF m] GetPrefix_def GetCode_def GetInfo_def)
qed

lemma FromCode_found:
  assumes "e < Opcode_Invalid"
  shows "FromCode (GetPrefix e) (GetCode e) = e"
proof -
  have i: "unat e < length infos"
    using assms by (simp add: length_infos Opcode_Invalid_def word_less_nat_alt)
  have "GetInfo e = infos ! unat e" using assms by (simp add: GetInfo_def)
  then show ?thesis
    using FromCode_nth [OF i, of "GetPrefix e" "GetCode e"] infos_well_coded(2) [OF i]
    by (simp add: GetPrefix_def GetCode_def)
qed

text \<open>C5. Looking up a prefix and an eight-bit code never confuses two encodings: the opcode
  \<open>FromCode\<close> returns, valid or invalid, reports exactly the prefix and the code that were
  looked up (so the binary search of the table misses no entry, and an invalid opcode can be
  printed back to the user). And every opcode of the table is found again by its own encoding: the
  table is sorted the way the search needs, and no two opcodes share an encoding.\<close>

theorem FromCode_correct:
  "(c < 0x100 \<longrightarrow> GetPrefix (FromCode p c) = p \<and> GetCode (FromCode p c) = c) \<and>
   (e < Opcode_Invalid \<longrightarrow> FromCode (GetPrefix e) (GetCode e) = e)"
  using FromCode_encodes FromCode_found by blast

theorem FromCode_correct_witness:
  "GetPrefix (FromCode 0xfd 0x8c) = 0xfd \<and> GetCode (FromCode 0xfd 0x8c) = 0x8c \<and>
   FromCode (GetPrefix 400) (GetCode 400) = 400"
  using FromCode_correct [of "0x8c" "0xfd" 400] by (simp add: Opcode_Invalid_def)


text \<open>A code of more than eight bits, which the binary reader passes on unchecked from its
  LEB128, is merged with the prefix: the bytes \<open>0xfc 0x200\<close> are read as \<open>atomic.wake\<close>
  (\<open>0xfe 0x00\<close>), and \<open>0xfc 0xffffffff\<close> as the valid opcode \<open>nop\<close>. The only guard is an
  \<open>assert\<close>, which a release build drops.\<close>

lemma FromCode_wide_code_aliases:
  "FromCode 0xfc 0x200 = FromCode 0xfe 0x00 \<and> GetName (FromCode 0xfc 0x200) = ''atomic.wake'' \<and>
   FromCode 0xfc 0xffffffff = 1 \<and> GetName 1 = ''nop''"
proof (intro conjI)
  show e: "FromCode 0xfc 0x200 = FromCode 0xfe 0x00"
    by (simp add: FromCode_def PrefixCode_def)
  have w: "infos ! 335 = snd (WABT_OPCODE Type_I32 Type_I32 Type_I32 Type_Void 4 0xfe 0x00 ''AtomicWake'' ''atomic.wake'')"
    by (simp add: infos_def opcode_def_def nth_append opcode_def_ok length_opcode_def) (simp add: opcode_def_5_def)
  have f: "FromCode 0xfe 0x00 = of_nat 335"
    by (rule FromCode_nth) (simp_all add: w WABT_OPCODE_def length_infos)
  have "GetName (of_nat 335) = ''atomic.wake''"
    using GetInfo_nth [of 335] by (simp add: GetName_def length_infos w WABT_OPCODE_def)
  then show "GetName (FromCode 0xfc 0x200) = ''atomic.wake''" by (simp only: e f)
  have "FromCode 0xfc 0xffffffff = EncodeInvalidOpcode (PrefixCode 0xfc 0xffffffff)"
  proof (rule FromCode_missing)
    fix i assume i: "i < length infos"
    have "unat (prefix_code (infos ! i)) < 65536"
      using unat_PrefixCode [OF infos_well_coded(1) [OF i], of "prefix (infos ! i)"] infos_well_coded [OF i]
        unsigned_less [of "prefix (infos ! i)", where 'a = nat]
      by (simp add: word_less_nat_alt)
    then show "prefix_code (infos ! i) \<noteq> PrefixCode 0xfc 0xffffffff"
      by (auto simp: PrefixCode_def)
  qed
  then show "FromCode 0xfc 0xffffffff = 1" by (simp add: PrefixCode_def EncodeInvalidOpcode_def)
  show "GetName 1 = ''nop''"
    using GetInfo_nth [of 1]
    by (simp add: GetName_def length_infos) (simp add: infos_def opcode_def_def opcode_def_1_def WABT_OPCODE_def)
qed

text \<open>C6. The feature that enables an opcode is decided by its encoding: every opcode with the
  prefix of the saturating-conversion, SIMD or thread proposal is gated by exactly that feature,
  the exception-handling and sign-extension opcodes by theirs, the interpreter's own opcodes are
  never enabled, and every other opcode always is: no case label of \<open>IsEnabled\<close> is missing or
  in the wrong group.\<close>

theorem IsEnabled_by_encoding:
  assumes "e < Opcode_Invalid"
  shows "IsEnabled e features =
    gate_open (encoding_gate (unat (GetPrefix e)) (unat (GetCode e))) features"
proof -
  have i: "unat e < length opcode_def"
    using assms by (simp add: length_opcode_def Opcode_Invalid_def word_less_nat_alt)
  have "row_gates opcode_def ! unat e = row_encoding_gates opcode_def ! unat e"
    by (simp only: gates_agree)
  then show ?thesis using i assms
    by (simp add: IsEnabled_def Opcode_enumerator_def GetPrefix_def GetCode_def GetInfo_def infos_def)
qed

theorem IsEnabled_by_encoding_witness:
  "\<forall>features. IsEnabled 400 features =
     gate_open (encoding_gate (unat (GetPrefix 400)) (unat (GetCode 400))) features"
  by (intro allI IsEnabled_by_encoding) (simp add: Opcode_Invalid_def)

end
