(* ===== verification/TypeChecker.thy ===== *)
theory TypeChecker
  imports OpcodeTable
begin

text \<open>
  The stack type checker (\<^verbatim>\<open>src/type-checker.h\<close>, \<^verbatim>\<open>src/type-checker.cc\<close>) that the validator and the
  interpreter's binary reader drive, one call for each instruction. The two stacks are lists
  with the top first; the error callback appends to \<open>errors\<close>; \<open>healthy\<close> records that every
  \<open>assert\<close> reached so far held and no \<open>WABT_UNREACHABLE\<close> was reached.
\<close>

section \<open>State\<close>

record label =
  label_type :: LabelType
  param_types :: TypeVector
  result_types :: TypeVector
  type_stack_limit :: nat
  unreachable :: bool

text \<open>
  \<open>br_table_sig\<close> is a pointer to the signature of a label of the stack; it is only read between
  \<open>BeginBrTable\<close> and \<open>EndBrTable\<close>, while no label is pushed or popped, so the value it points to
  stands for it.
\<close>

record type_checker =
  type_stack :: "wtype list"
  label_stack :: "label list"
  br_table_sig :: "TypeVector option"
  errors :: "string list"
  healthy :: bool

definition br_types :: "label \<Rightarrow> TypeVector" where
  "br_types l = (if label_type l = LabelType_Loop then param_types l else result_types l)"

type_synonym tc_op = "type_checker \<Rightarrow> Result \<times> type_checker"

definition PrintError :: "string \<Rightarrow> type_checker \<Rightarrow> type_checker" where
  "PrintError msg s = s\<lparr>errors := errors s @ [msg]\<rparr>"

definition check_assert :: "bool \<Rightarrow> type_checker \<Rightarrow> type_checker" where
  "check_assert c s = s\<lparr>healthy := healthy s \<and> c\<rparr>"

text \<open>\<open>result |= f; result |= g\<close>, and a step that cannot fail.\<close>

definition also_check :: "tc_op \<Rightarrow> tc_op \<Rightarrow> tc_op" where
  "also_check f g s = (case f s of (r1, s1) \<Rightarrow> case g s1 of (r2, s2) \<Rightarrow> (result_or r1 r2, s2))"

definition step_ok :: "(type_checker \<Rightarrow> type_checker) \<Rightarrow> tc_op" where
  "step_ok f s = (Result_Ok, f s)"

definition give :: "Result \<Rightarrow> tc_op" where
  "give r s = (r, s)"

section \<open>Labels\<close>

text \<open>The label found, or \<open>None\<close> where the code returns \<open>Result::Error\<close>.\<close>

definition GetLabel :: "nat \<Rightarrow> type_checker \<Rightarrow> label option \<times> type_checker" where
  "GetLabel depth s =
     (if length (label_stack s) \<le> depth then
        (None, PrintError (''invalid depth: '' @ show_nat depth @ '' (max '' @
           (if label_stack s = [] then ''-1'' else show_nat (length (label_stack s) - 1)) @ '')'')
         (check_assert (label_stack s \<noteq> []) s))
      else (Some (label_stack s ! depth), s))"

definition TopLabel :: "type_checker \<Rightarrow> label option \<times> type_checker" where
  "TopLabel = GetLabel 0"

text \<open>\<open>Label* label; CHECK_RESULT(GetLabel(depth, &label))\<close> and the code that follows.\<close>

definition with_label :: "nat \<Rightarrow> (label \<Rightarrow> tc_op) \<Rightarrow> tc_op" where
  "with_label depth f s =
     (case GetLabel depth s of (None, s1) \<Rightarrow> (Result_Error, s1) | (Some l, s1) \<Rightarrow> f l s1)"

definition with_top :: "(label \<Rightarrow> tc_op) \<Rightarrow> tc_op" where
  "with_top = with_label 0"

definition IsUnreachable :: "type_checker \<Rightarrow> bool \<times> type_checker" where
  "IsUnreachable s = (case TopLabel s of (None, s1) \<Rightarrow> (True, s1) | (Some l, s1) \<Rightarrow> (unreachable l, s1))"

text \<open>\<open>std::vector::resize\<close> of the type stack; growing it would add value-initialised types.\<close>

definition resize_stack :: "nat \<Rightarrow> wtype list \<Rightarrow> wtype list" where
  "resize_stack n ts = replicate (n - length ts) Type_Any @ drop (length ts - n) ts"

definition ResetTypeStackToLabel :: "label \<Rightarrow> type_checker \<Rightarrow> type_checker" where
  "ResetTypeStackToLabel l s = s\<lparr>type_stack := resize_stack (type_stack_limit l) (type_stack s)\<rparr>"

text \<open>Assignments through a pointer to the top label.\<close>

definition update_top :: "(label \<Rightarrow> label) \<Rightarrow> type_checker \<Rightarrow> type_checker" where
  "update_top f s = s\<lparr>label_stack :=
     (case label_stack s of [] \<Rightarrow> [] | l # ls \<Rightarrow> f l # ls)\<rparr>"

definition SetUnreachable :: tc_op where
  "SetUnreachable = with_top (\<lambda>l. step_ok (\<lambda>s.
     ResetTypeStackToLabel l (update_top (\<lambda>l. l\<lparr>unreachable := True\<rparr>) s)))"

definition PushLabel :: "LabelType \<Rightarrow> TypeVector \<Rightarrow> TypeVector \<Rightarrow> type_checker \<Rightarrow> type_checker" where
  "PushLabel lt params results s = s\<lparr>label_stack :=
     \<lparr>label_type = lt, param_types = params, result_types = results,
      type_stack_limit = length (type_stack s), unreachable = False\<rparr> # label_stack s\<rparr>"

definition PopLabel :: "type_checker \<Rightarrow> type_checker" where
  "PopLabel s = s\<lparr>label_stack := tl (label_stack s)\<rparr>"

definition CheckLabelType :: "label \<Rightarrow> LabelType \<Rightarrow> Result" where
  "CheckLabelType l lt = (if label_type l = lt then Result_Ok else Result_Error)"

section \<open>The type stack\<close>

text \<open>\<open>PeekType\<close> leaves its out parameter alone when there is no label: \<open>out\<close> is its value before.\<close>

definition PeekType :: "nat \<Rightarrow> wtype \<Rightarrow> type_checker \<Rightarrow> (Result \<times> wtype) \<times> type_checker" where
  "PeekType depth out s =
     (case TopLabel s of
        (None, s1) \<Rightarrow> ((Result_Error, out), s1)
      | (Some l, s1) \<Rightarrow>
          if length (type_stack s1) \<le> type_stack_limit l + depth then
            ((if unreachable l then Result_Ok else Result_Error, Type_Any), s1)
          else ((Result_Ok, type_stack s1 ! depth), s1))"

definition CheckType :: "wtype \<Rightarrow> wtype \<Rightarrow> Result" where
  "CheckType actual expected =
     (if expected = actual \<or> expected = Type_Any \<or> actual = Type_Any then Result_Ok else Result_Error)"

definition PeekAndCheckType :: "nat \<Rightarrow> wtype \<Rightarrow> tc_op" where
  "PeekAndCheckType depth expected s =
     (case PeekType depth Type_Any s of ((r, actual), s1) \<Rightarrow> (result_or r (CheckType actual expected), s1))"

definition DropTypes :: "nat \<Rightarrow> tc_op" where
  "DropTypes drop_count = with_top (\<lambda>l s.
     if length (type_stack s) < type_stack_limit l + drop_count then
       (if unreachable l then Result_Ok else Result_Error, ResetTypeStackToLabel l s)
     else (Result_Ok, s\<lparr>type_stack := drop drop_count (type_stack s)\<rparr>))"

definition PushType :: "wtype \<Rightarrow> type_checker \<Rightarrow> type_checker" where
  "PushType t s = (if t \<noteq> Type_Void then s\<lparr>type_stack := t # type_stack s\<rparr> else s)"

definition PushTypes :: "TypeVector \<Rightarrow> type_checker \<Rightarrow> type_checker" where
  "PushTypes types s = fold PushType types s"

section \<open>Messages\<close>

text \<open>The loop of \<open>TypesToString\<close> writes a separator after every type but the last.\<close>

fun TypesToString_loop :: "TypeVector \<Rightarrow> string" where
  "TypesToString_loop [] = []"
| "TypesToString_loop [t] = GetTypeName t"
| "TypesToString_loop (t # ts) = GetTypeName t @ '', '' @ TypesToString_loop ts"

definition TypesToString :: "TypeVector \<Rightarrow> string \<Rightarrow> string" where
  "TypesToString types prefx = ''['' @ prefx @ TypesToString_loop types @ '']''"

text \<open>The loop that collects the actual types, deepest first.\<close>

definition collect_actual :: "nat \<Rightarrow> type_checker \<Rightarrow> TypeVector \<times> type_checker" where
  "collect_actual actual_size s =
     fold (\<lambda>i (actual, s). case PeekType (actual_size - i - 1) Type_Any s of
         ((r, t), s1) \<Rightarrow> (actual @ [t], check_assert (Succeeded r) s1))
       [0..<actual_size] ([], s)"

definition PrintStackIfFailed :: "Result \<Rightarrow> string \<Rightarrow> TypeVector \<Rightarrow> type_checker \<Rightarrow> type_checker" where
  "PrintStackIfFailed result desc expected s =
     (if Succeeded result then s
      else case TopLabel s of (lab, s1) \<Rightarrow>
        let limit = (case lab of None \<Rightarrow> 0 | Some l \<Rightarrow> type_stack_limit l);
            max_depth = length (type_stack s1) - limit;
            actual_size = (if expected = [] then min 4 max_depth else min (length expected) max_depth);
            incomplete_actual_stack = (actual_size \<noteq> max_depth)
        in case collect_actual actual_size s1 of (actual, s2) \<Rightarrow>
          PrintError (''type mismatch in '' @ desc @ '', expected '' @ TypesToString expected [] @
            '' but got '' @ TypesToString actual (if incomplete_actual_stack then ''... '' else [])) s2)"

text \<open>\<open>PrintStackIfFailed(result, desc, expected)\<close> on the result of the checks so far.\<close>

definition report :: "tc_op \<Rightarrow> string \<Rightarrow> TypeVector \<Rightarrow> tc_op" where
  "report f desc expected s = (case f s of (r, s1) \<Rightarrow> (r, PrintStackIfFailed r desc expected s1))"

section \<open>Checks\<close>

definition CheckTypeStackEnd :: "string \<Rightarrow> tc_op" where
  "CheckTypeStackEnd desc = with_top (\<lambda>l. report (\<lambda>s.
     (if length (type_stack s) = type_stack_limit l then Result_Ok else Result_Error, s)) desc [])"

definition CheckSignature :: "TypeVector \<Rightarrow> string \<Rightarrow> tc_op" where
  "CheckSignature sig desc =
     report (foldl (\<lambda>f i. also_check f (PeekAndCheckType (length sig - i - 1) (sig ! i)))
       (give Result_Ok) [0..<length sig]) desc sig"

definition PopAndCheckSignature :: "TypeVector \<Rightarrow> string \<Rightarrow> tc_op" where
  "PopAndCheckSignature sig desc = also_check (CheckSignature sig desc) (DropTypes (length sig))"

definition PopAndCheckCall :: "TypeVector \<Rightarrow> TypeVector \<Rightarrow> string \<Rightarrow> tc_op" where
  "PopAndCheckCall params results desc =
     also_check (also_check (CheckSignature params desc) (DropTypes (length params)))
       (step_ok (PushTypes results))"

definition PopAndCheck1Type :: "wtype \<Rightarrow> string \<Rightarrow> tc_op" where
  "PopAndCheck1Type expected desc =
     also_check (report (PeekAndCheckType 0 expected) desc [expected]) (DropTypes 1)"

definition PopAndCheck2Types :: "wtype \<Rightarrow> wtype \<Rightarrow> string \<Rightarrow> tc_op" where
  "PopAndCheck2Types expected1 expected2 desc =
     also_check (report (also_check (PeekAndCheckType 0 expected2) (PeekAndCheckType 1 expected1))
         desc [expected1, expected2])
       (DropTypes 2)"

definition PopAndCheck3Types :: "wtype \<Rightarrow> wtype \<Rightarrow> wtype \<Rightarrow> string \<Rightarrow> tc_op" where
  "PopAndCheck3Types expected1 expected2 expected3 desc =
     also_check (report (also_check (also_check (PeekAndCheckType 0 expected3)
           (PeekAndCheckType 1 expected2)) (PeekAndCheckType 2 expected1))
         desc [expected1, expected2, expected3])
       (DropTypes 3)"

definition CheckOpcode1 :: "u32 \<Rightarrow> tc_op" where
  "CheckOpcode1 opcode =
     also_check (PopAndCheck1Type (GetParamType1 opcode) (GetName opcode))
       (step_ok (PushType (GetResultType opcode)))"

definition CheckOpcode2 :: "u32 \<Rightarrow> tc_op" where
  "CheckOpcode2 opcode =
     also_check (PopAndCheck2Types (GetParamType1 opcode) (GetParamType2 opcode) (GetName opcode))
       (step_ok (PushType (GetResultType opcode)))"

definition CheckOpcode3 :: "u32 \<Rightarrow> tc_op" where
  "CheckOpcode3 opcode =
     also_check (PopAndCheck3Types (GetParamType1 opcode) (GetParamType2 opcode)
         (GetParamType3 opcode) (GetName opcode))
       (step_ok (PushType (GetResultType opcode)))"

section \<open>Handlers\<close>

definition BeginFunction :: "TypeVector \<Rightarrow> tc_op" where
  "BeginFunction sig = step_ok (\<lambda>s.
     PushLabel LabelType_Func [] sig (s\<lparr>type_stack := [], label_stack := []\<rparr>))"

definition OnAtomicLoad :: "u32 \<Rightarrow> tc_op" where "OnAtomicLoad opcode = CheckOpcode1 opcode"
definition OnAtomicStore :: "u32 \<Rightarrow> tc_op" where "OnAtomicStore opcode = CheckOpcode2 opcode"
definition OnAtomicRmw :: "u32 \<Rightarrow> tc_op" where "OnAtomicRmw opcode = CheckOpcode2 opcode"
definition OnAtomicRmwCmpxchg :: "u32 \<Rightarrow> tc_op" where "OnAtomicRmwCmpxchg opcode = CheckOpcode3 opcode"
definition OnAtomicWait :: "u32 \<Rightarrow> tc_op" where "OnAtomicWait opcode = CheckOpcode3 opcode"
definition OnAtomicWake :: "u32 \<Rightarrow> tc_op" where "OnAtomicWake opcode = CheckOpcode2 opcode"
definition OnBinary :: "u32 \<Rightarrow> tc_op" where "OnBinary opcode = CheckOpcode2 opcode"

definition OnBlock :: "TypeVector \<Rightarrow> TypeVector \<Rightarrow> tc_op" where
  "OnBlock params results =
     also_check (PopAndCheckSignature params ''block'')
       (step_ok (\<lambda>s. PushTypes params (PushLabel LabelType_Block params results s)))"

definition OnBr :: "nat \<Rightarrow> tc_op" where
  "OnBr depth = with_label depth (\<lambda>l. also_check (CheckSignature (br_types l) ''br'') SetUnreachable)"

definition OnBrIf :: "nat \<Rightarrow> tc_op" where
  "OnBrIf depth =
     also_check (PopAndCheck1Type Type_I32 ''br_if'')
       (with_label depth (\<lambda>l. also_check (PopAndCheckSignature (br_types l) ''br_if'')
          (step_ok (PushTypes (br_types l)))))"

definition BeginBrTable :: tc_op where
  "BeginBrTable s = PopAndCheck1Type Type_I32 ''br_table'' (s\<lparr>br_table_sig := None\<rparr>)"

definition CheckBrTableSig :: "TypeVector \<Rightarrow> tc_op" where
  "CheckBrTableSig label_sig s =
     (let expected = (case br_table_sig s of None \<Rightarrow> label_sig | Some e \<Rightarrow> e);
          s1 = s\<lparr>br_table_sig := Some expected\<rparr>
      in if expected \<noteq> label_sig then
           (Result_Error, PrintError (''br_table labels have inconsistent types: expected '' @
              TypesToString expected [] @ '', got '' @ TypesToString label_sig []) s1)
         else (Result_Ok, s1))"

definition OnBrTableTarget :: "nat \<Rightarrow> tc_op" where
  "OnBrTableTarget depth = with_label depth (\<lambda>l.
     also_check (CheckSignature (br_types l) ''br_table'') (CheckBrTableSig (br_types l)))"

definition EndBrTable :: tc_op where "EndBrTable = SetUnreachable"

definition OnCall :: "TypeVector \<Rightarrow> TypeVector \<Rightarrow> tc_op" where
  "OnCall params results = PopAndCheckCall params results ''call''"

definition OnCallIndirect :: "TypeVector \<Rightarrow> TypeVector \<Rightarrow> tc_op" where
  "OnCallIndirect params results =
     also_check (PopAndCheck1Type Type_I32 ''call_indirect'') (PopAndCheckCall params results ''call_indirect'')"

definition OnCompare :: "u32 \<Rightarrow> tc_op" where "OnCompare opcode = CheckOpcode2 opcode"

definition OnCatch :: tc_op where
  "OnCatch = with_top (\<lambda>l.
     also_check (also_check (also_check (give (CheckLabelType l LabelType_Try))
         (PopAndCheckSignature (result_types l) ''try block''))
         (CheckTypeStackEnd ''try block''))
       (step_ok (\<lambda>s. PushType Type_ExceptRef
          (update_top (\<lambda>l. l\<lparr>label_type := LabelType_Catch, unreachable := False\<rparr>)
             (ResetTypeStackToLabel l s)))))"

definition OnConst :: "wtype \<Rightarrow> tc_op" where "OnConst t = step_ok (PushType t)"
definition OnConvert :: "u32 \<Rightarrow> tc_op" where "OnConvert opcode = CheckOpcode1 opcode"

definition OnDrop :: tc_op where "OnDrop = report (DropTypes 1) ''drop'' [Type_Any]"

definition OnElse :: tc_op where
  "OnElse = with_top (\<lambda>l.
     also_check (also_check (also_check (give (CheckLabelType l LabelType_If))
         (PopAndCheckSignature (result_types l) ''if true branch''))
         (CheckTypeStackEnd ''if true branch''))
       (step_ok (\<lambda>s. update_top (\<lambda>l. l\<lparr>label_type := LabelType_Else, unreachable := False\<rparr>)
          (PushTypes (param_types l) (ResetTypeStackToLabel l s)))))"

text \<open>\<open>OnEnd(label, sig_desc, end_desc)\<close>, where \<open>label\<close> is the top label.\<close>

definition OnEndLabel :: "label \<Rightarrow> string \<Rightarrow> string \<Rightarrow> tc_op" where
  "OnEndLabel l sig_desc end_desc =
     also_check (also_check (PopAndCheckSignature (result_types l) sig_desc) (CheckTypeStackEnd end_desc))
       (step_ok (\<lambda>s. PopLabel (PushTypes (result_types l) (ResetTypeStackToLabel l s))))"

fun s_label_type_name :: "LabelType \<Rightarrow> string" where
  "s_label_type_name LabelType_Func = ''function''"
| "s_label_type_name LabelType_Block = ''block''"
| "s_label_type_name LabelType_Loop = ''loop''"
| "s_label_type_name LabelType_If = ''if''"
| "s_label_type_name LabelType_Else = ''if false branch''"
| "s_label_type_name LabelType_IfExcept = ''if_except''"
| "s_label_type_name LabelType_IfExceptElse = ''if_except false branch''"
| "s_label_type_name LabelType_Try = ''try''"
| "s_label_type_name LabelType_Catch = ''try catch''"

definition CheckIfResults :: "label \<Rightarrow> tc_op" where
  "CheckIfResults l s =
     (if (label_type l = LabelType_If \<or> label_type l = LabelType_IfExcept) \<and> result_types l \<noteq> [] then
        (Result_Error, PrintError ''if without else cannot have results.'' s)
      else (Result_Ok, s))"

definition OnEnd :: tc_op where
  "OnEnd = with_top (\<lambda>l. also_check (CheckIfResults l)
     (OnEndLabel l (s_label_type_name (label_type l)) (s_label_type_name (label_type l))))"

definition OnIf :: "TypeVector \<Rightarrow> TypeVector \<Rightarrow> tc_op" where
  "OnIf params results =
     also_check (also_check (PopAndCheck1Type Type_I32 ''if'') (PopAndCheckSignature params ''if''))
       (step_ok (\<lambda>s. PushTypes params (PushLabel LabelType_If params results s)))"

definition OnIfExcept :: "TypeVector \<Rightarrow> TypeVector \<Rightarrow> TypeVector \<Rightarrow> tc_op" where
  "OnIfExcept params results except_sig =
     also_check (also_check (PopAndCheck1Type Type_ExceptRef ''if_except'')
         (PopAndCheckSignature params ''if_except''))
       (step_ok (\<lambda>s. PushTypes except_sig (PushTypes params
          (PushLabel LabelType_IfExcept params results s))))"

definition OnGetGlobal :: "wtype \<Rightarrow> tc_op" where "OnGetGlobal t = step_ok (PushType t)"
definition OnGetLocal :: "wtype \<Rightarrow> tc_op" where "OnGetLocal t = step_ok (PushType t)"
definition OnLoad :: "u32 \<Rightarrow> tc_op" where "OnLoad opcode = CheckOpcode1 opcode"

definition OnLoop :: "TypeVector \<Rightarrow> TypeVector \<Rightarrow> tc_op" where
  "OnLoop params results =
     also_check (PopAndCheckSignature params ''loop'')
       (step_ok (\<lambda>s. PushTypes params (PushLabel LabelType_Loop params results s)))"

definition OnMemoryGrow :: tc_op where "OnMemoryGrow = CheckOpcode1 (Opcode_of ''MemoryGrow'')"
definition OnMemorySize :: tc_op where "OnMemorySize = step_ok (PushType Type_I32)"

definition OnRethrow :: tc_op where
  "OnRethrow = also_check (PopAndCheck1Type Type_ExceptRef ''rethrow'') SetUnreachable"

definition OnThrow :: "TypeVector \<Rightarrow> tc_op" where
  "OnThrow sig = also_check (PopAndCheckSignature sig ''throw'') SetUnreachable"

text \<open>The depth is an \<open>Index\<close>: without a label, \<open>size() - 1\<close> wraps to the largest one.\<close>

definition OnReturn :: tc_op where
  "OnReturn s = with_label (if label_stack s = [] then 2 ^ 32 - 1 else length (label_stack s) - 1)
     (\<lambda>func_label. also_check (PopAndCheckSignature (result_types func_label) ''return'') SetUnreachable) s"

definition OnSelect :: tc_op where
  "OnSelect s =
     (case PeekAndCheckType 0 Type_I32 s of (r0, s0) \<Rightarrow>
      case PeekType 1 Type_Any s0 of ((r1, t), s1) \<Rightarrow>
        also_check (also_check
            (report (also_check (give (result_or r0 r1)) (PeekAndCheckType 2 t)) ''select'' [Type_I32, t, t])
            (DropTypes 3))
          (step_ok (PushType t)) s1)"

definition OnSetGlobal :: "wtype \<Rightarrow> tc_op" where "OnSetGlobal t = PopAndCheck1Type t ''set_global''"
definition OnSetLocal :: "wtype \<Rightarrow> tc_op" where "OnSetLocal t = PopAndCheck1Type t ''set_local''"
definition OnStore :: "u32 \<Rightarrow> tc_op" where "OnStore opcode = CheckOpcode2 opcode"

definition OnTry :: "TypeVector \<Rightarrow> TypeVector \<Rightarrow> tc_op" where
  "OnTry params results =
     also_check (PopAndCheckSignature params ''try'')
       (step_ok (\<lambda>s. PushTypes params (PushLabel LabelType_Try params results s)))"

definition OnTeeLocal :: "wtype \<Rightarrow> tc_op" where
  "OnTeeLocal t = also_check (PopAndCheck1Type t ''tee_local'') (step_ok (PushType t))"

definition OnUnary :: "u32 \<Rightarrow> tc_op" where "OnUnary opcode = CheckOpcode1 opcode"
definition OnTernary :: "u32 \<Rightarrow> tc_op" where "OnTernary opcode = CheckOpcode3 opcode"

text \<open>Both switches on lanes: \<open>WABT_UNREACHABLE\<close> for any other opcode.\<close>

definition OnSimdLaneOp :: "u32 \<Rightarrow> u64 \<Rightarrow> tc_op" where
  "OnSimdLaneOp opcode lane_idx s =
     (case GetSimdLaneCount opcode of
        None \<Rightarrow> (Result_Error, check_assert False s)
      | Some lane_count \<Rightarrow>
          let s1 = (if ucast lane_count \<le> lane_idx then
                      PrintError (''lane index must be less than '' @ show_nat (unat lane_count) @
                        '' (got '' @ show_nat (unat lane_idx) @ '')'') s
                    else s);
              n = Opcode_enumerator opcode
          in if List.member [''I8X16ExtractLaneS'', ''I8X16ExtractLaneU'', ''I16X8ExtractLaneS'',
               ''I16X8ExtractLaneU'', ''I32X4ExtractLane'', ''F32X4ExtractLane'', ''I64X2ExtractLane'',
               ''F64X2ExtractLane''] n then CheckOpcode1 opcode s1
             else if List.member [''I8X16ReplaceLane'', ''I16X8ReplaceLane'', ''I32X4ReplaceLane'',
               ''F32X4ReplaceLane'', ''I64X2ReplaceLane'', ''F64X2ReplaceLane''] n then CheckOpcode2 opcode s1
             else (Result_Error, check_assert False s1))"

text \<open>The sixteen bytes of the immediate, in memory order.\<close>

definition OnSimdShuffleOp :: "u32 \<Rightarrow> bytes \<Rightarrow> tc_op" where
  "OnSimdShuffleOp opcode lane_idx s =
     CheckOpcode2 opcode
       (fold (\<lambda>b s. if 32 \<le> b then
            PrintError (''lane index must be less than 32 (got '' @ show_nat (unat b) @ '')'') s else s)
          (take 16 lane_idx) s)"

definition OnUnreachable :: tc_op where "OnUnreachable = SetUnreachable"

definition EndFunction :: tc_op where
  "EndFunction = with_top (\<lambda>l. also_check (give (CheckLabelType l LabelType_Func))
     (OnEndLabel l ''implicit return'' ''function''))"

section \<open>Calls\<close>

text \<open>The interface of the class: one constructor for each call a reader can make.\<close>

datatype tc_call =
    Call_OnAtomicLoad u32 | Call_OnAtomicStore u32 | Call_OnAtomicRmw u32 | Call_OnAtomicRmwCmpxchg u32
  | Call_OnAtomicWait u32 | Call_OnAtomicWake u32 | Call_OnBinary u32 | Call_OnBlock TypeVector TypeVector
  | Call_OnBr nat | Call_OnBrIf nat | Call_BeginBrTable | Call_OnBrTableTarget nat | Call_EndBrTable
  | Call_OnCall TypeVector TypeVector | Call_OnCallIndirect TypeVector TypeVector | Call_OnCatch
  | Call_OnCompare u32 | Call_OnConst wtype | Call_OnConvert u32 | Call_OnDrop | Call_OnElse | Call_OnEnd
  | Call_OnGetGlobal wtype | Call_OnGetLocal wtype | Call_OnIf TypeVector TypeVector
  | Call_OnIfExcept TypeVector TypeVector TypeVector | Call_OnLoad u32 | Call_OnLoop TypeVector TypeVector
  | Call_OnMemoryGrow | Call_OnMemorySize | Call_OnRethrow | Call_OnReturn | Call_OnSelect
  | Call_OnSetGlobal wtype | Call_OnSetLocal wtype | Call_OnSimdLaneOp u32 u64
  | Call_OnSimdShuffleOp u32 bytes | Call_OnStore u32 | Call_OnTeeLocal wtype | Call_OnTernary u32
  | Call_OnThrow TypeVector | Call_OnTry TypeVector TypeVector | Call_OnUnary u32 | Call_OnUnreachable
  | Call_EndFunction

fun run_call :: "tc_call \<Rightarrow> tc_op" where
  "run_call (Call_OnAtomicLoad e) = OnAtomicLoad e"
| "run_call (Call_OnAtomicStore e) = OnAtomicStore e"
| "run_call (Call_OnAtomicRmw e) = OnAtomicRmw e"
| "run_call (Call_OnAtomicRmwCmpxchg e) = OnAtomicRmwCmpxchg e"
| "run_call (Call_OnAtomicWait e) = OnAtomicWait e"
| "run_call (Call_OnAtomicWake e) = OnAtomicWake e"
| "run_call (Call_OnBinary e) = OnBinary e"
| "run_call (Call_OnBlock ps rs) = OnBlock ps rs"
| "run_call (Call_OnBr d) = OnBr d"
| "run_call (Call_OnBrIf d) = OnBrIf d"
| "run_call Call_BeginBrTable = BeginBrTable"
| "run_call (Call_OnBrTableTarget d) = OnBrTableTarget d"
| "run_call Call_EndBrTable = EndBrTable"
| "run_call (Call_OnCall ps rs) = OnCall ps rs"
| "run_call (Call_OnCallIndirect ps rs) = OnCallIndirect ps rs"
| "run_call Call_OnCatch = OnCatch"
| "run_call (Call_OnCompare e) = OnCompare e"
| "run_call (Call_OnConst t) = OnConst t"
| "run_call (Call_OnConvert e) = OnConvert e"
| "run_call Call_OnDrop = OnDrop"
| "run_call Call_OnElse = OnElse"
| "run_call Call_OnEnd = OnEnd"
| "run_call (Call_OnGetGlobal t) = OnGetGlobal t"
| "run_call (Call_OnGetLocal t) = OnGetLocal t"
| "run_call (Call_OnIf ps rs) = OnIf ps rs"
| "run_call (Call_OnIfExcept ps rs es) = OnIfExcept ps rs es"
| "run_call (Call_OnLoad e) = OnLoad e"
| "run_call (Call_OnLoop ps rs) = OnLoop ps rs"
| "run_call Call_OnMemoryGrow = OnMemoryGrow"
| "run_call Call_OnMemorySize = OnMemorySize"
| "run_call Call_OnRethrow = OnRethrow"
| "run_call Call_OnReturn = OnReturn"
| "run_call Call_OnSelect = OnSelect"
| "run_call (Call_OnSetGlobal t) = OnSetGlobal t"
| "run_call (Call_OnSetLocal t) = OnSetLocal t"
| "run_call (Call_OnSimdLaneOp e i) = OnSimdLaneOp e i"
| "run_call (Call_OnSimdShuffleOp e i) = OnSimdShuffleOp e i"
| "run_call (Call_OnStore e) = OnStore e"
| "run_call (Call_OnTeeLocal t) = OnTeeLocal t"
| "run_call (Call_OnTernary e) = OnTernary e"
| "run_call (Call_OnThrow ts) = OnThrow ts"
| "run_call (Call_OnTry ps rs) = OnTry ps rs"
| "run_call (Call_OnUnary e) = OnUnary e"
| "run_call Call_OnUnreachable = OnUnreachable"
| "run_call Call_EndFunction = EndFunction"

end
