(* ===== verification/TypeCheckerFrames.thy ===== *)
theory TypeCheckerFrames
  imports TypeChecker
begin

text \<open>
  How each call of the type checker changes the two stacks: inside the current label, by
  opening one, or by closing one. The part of the type stack below the limit of the current
  label is out of reach until the label is closed.
\<close>

section \<open>The bottom of a stack\<close>

definition bottom :: "nat \<Rightarrow> 'a list \<Rightarrow> 'a list" where
  "bottom n xs = drop (length xs - n) xs"

lemma length_bottom [simp]: "n \<le> length xs \<Longrightarrow> length (bottom n xs) = n"
  by (simp add: bottom_def)

lemma bottom_append [simp]: "n \<le> length xs \<Longrightarrow> bottom n (ys @ xs) = bottom n xs"
  by (simp add: bottom_def)

lemma bottom_Cons [simp]: "n \<le> length xs \<Longrightarrow> bottom n (x # xs) = bottom n xs"
  using bottom_append [of n xs "[x]"] by simp

lemma bottom_drop [simp]: "n + k \<le> length xs \<Longrightarrow> bottom n (drop k xs) = bottom n xs"
  by (simp add: bottom_def add.commute)

lemma bottom_all [simp]: "bottom (length xs) xs = xs"
  by (simp add: bottom_def)

lemma bottom_bottom: "m \<le> n \<Longrightarrow> n \<le> length xs \<Longrightarrow> bottom m (bottom n xs) = bottom m xs"
  by (simp add: bottom_def)

lemma bottom_mono: "m \<le> n \<Longrightarrow> n \<le> length xs \<Longrightarrow> n \<le> length ys \<Longrightarrow> bottom n xs = bottom n ys \<Longrightarrow>
    bottom m xs = bottom m ys"
  by (metis bottom_bottom)

lemma set_bottom: "set (bottom n xs) \<subseteq> set xs"
  by (simp add: bottom_def set_drop_subset)

lemma resize_bottom: "n \<le> length ts \<Longrightarrow> resize_stack n ts = bottom n ts"
  by (simp add: resize_stack_def bottom_def)

section \<open>Well-formed states\<close>

fun limits_ok :: "label list \<Rightarrow> nat \<Rightarrow> bool" where
  "limits_ok [] n \<longleftrightarrow> True"
| "limits_ok (l # ls) n \<longleftrightarrow> type_stack_limit l \<le> n \<and> limits_ok ls (type_stack_limit l)"

definition stack_ok :: "type_checker \<Rightarrow> bool" where
  "stack_ok s \<longleftrightarrow> limits_ok (label_stack s) (length (type_stack s)) \<and> Type_Void \<notin> set (type_stack s)"

text \<open>A state inside the label whose limit is \<open>lim\<close>.\<close>

definition inside :: "nat \<Rightarrow> type_checker \<Rightarrow> bool" where
  "inside lim s \<longleftrightarrow> stack_ok s \<and> label_stack s \<noteq> [] \<and> type_stack_limit (hd (label_stack s)) = lim"

lemma insideE:
  assumes "inside lim s"
  obtains l ls where "label_stack s = l # ls" "type_stack_limit l = lim" "lim \<le> length (type_stack s)"
    "limits_ok ls lim" "Type_Void \<notin> set (type_stack s)"
  using assms by (cases "label_stack s") (auto simp: inside_def stack_ok_def)

lemma insideI:
  "label_stack s = l # ls \<Longrightarrow> type_stack_limit l = lim \<Longrightarrow> lim \<le> length (type_stack s) \<Longrightarrow>
   limits_ok ls lim \<Longrightarrow> Type_Void \<notin> set (type_stack s) \<Longrightarrow> inside lim s"
  by (auto simp: inside_def stack_ok_def)

section \<open>Steps inside a label\<close>

definition same_label :: "label \<Rightarrow> label \<Rightarrow> bool" where
  "same_label l l' \<longleftrightarrow> param_types l' = param_types l \<and> result_types l' = result_types l \<and>
     type_stack_limit l' = type_stack_limit l"

definition same_frame :: "nat \<Rightarrow> type_checker \<Rightarrow> type_checker \<Rightarrow> bool" where
  "same_frame lim s s' \<longleftrightarrow> inside lim s' \<and>
     same_label (hd (label_stack s)) (hd (label_stack s')) \<and> tl (label_stack s') = tl (label_stack s) \<and>
     bottom lim (type_stack s') = bottom lim (type_stack s) \<and> healthy s' = healthy s"

lemma same_frame_refl [intro]: "inside lim s \<Longrightarrow> same_frame lim s s"
  by (simp add: same_frame_def same_label_def)

lemma same_frame_trans [trans]: "same_frame lim s s' \<Longrightarrow> same_frame lim s' s'' \<Longrightarrow> same_frame lim s s''"
  by (simp add: same_frame_def same_label_def)

lemma same_frame_inside: "same_frame lim s s' \<Longrightarrow> inside lim s'"
  by (simp add: same_frame_def)

definition keeps :: "nat \<Rightarrow> tc_op \<Rightarrow> bool" where
  "keeps lim f \<longleftrightarrow> (\<forall>s. inside lim s \<longrightarrow> same_frame lim s (snd (f s)))"

lemma keepsI: "(\<And>s. inside lim s \<Longrightarrow> same_frame lim s (snd (f s))) \<Longrightarrow> keeps lim f"
  by (simp add: keeps_def)

lemma keepsD: "keeps lim f \<Longrightarrow> inside lim s \<Longrightarrow> same_frame lim s (snd (f s))"
  by (simp add: keeps_def)

named_theorems keeps_rules "operations that stay inside the current label"

lemma snd_also_check: "snd (also_check f g s) = snd (g (snd (f s)))"
  by (simp add: also_check_def split: prod.splits)

lemma keeps_also_check [keeps_rules]:
  assumes "keeps lim f" "keeps lim g"
  shows "keeps lim (also_check f g)"
proof (rule keepsI)
  fix s assume "inside lim s"
  then have 1: "same_frame lim s (snd (f s))" using assms(1) by (rule keepsD [rotated])
  have "same_frame lim (snd (f s)) (snd (g (snd (f s))))"
    using assms(2) same_frame_inside [OF 1] by (rule keepsD)
  with 1 show "same_frame lim s (snd (also_check f g s))"
    unfolding snd_also_check by (rule same_frame_trans)
qed

lemma keeps_give [keeps_rules]: "keeps lim (give r)"
  by (auto intro!: keepsI simp: give_def)

lemma GetLabel_Some: "depth < length (label_stack s) \<Longrightarrow> GetLabel depth s = (Some (label_stack s ! depth), s)"
  by (simp add: GetLabel_def)

lemma inside_errors [simp]: "inside lim (s\<lparr>errors := e\<rparr>) = inside lim s"
  by (simp add: inside_def stack_ok_def)

lemma same_frame_errors [simp]: "same_frame lim s (s'\<lparr>errors := e\<rparr>) = same_frame lim s s'"
  by (simp add: same_frame_def)

lemma same_frame_sig [simp]: "same_frame lim s (s'\<lparr>br_table_sig := e\<rparr>) = same_frame lim s s'"
  by (simp add: same_frame_def inside_def stack_ok_def)

lemma check_assert_True [simp]: "check_assert True s = s"
  by (simp add: check_assert_def)

lemma same_frame_PrintError [simp]: "same_frame lim s (PrintError m s') = same_frame lim s s'"
  by (simp add: PrintError_def)

lemma GetLabel_cases:
  assumes "inside lim s"
  obtains (none) msg where "GetLabel d s = (None, PrintError msg s)"
  | (some) l where "GetLabel d s = (Some l, s)" "l = label_stack s ! d" "d < length (label_stack s)"
  using assms by (cases "d < length (label_stack s)") (auto simp: GetLabel_def elim!: insideE)

lemma keeps_with_label [keeps_rules]:
  assumes "\<And>l. keeps lim (f l)"
  shows "keeps lim (with_label d f)"
proof (rule keepsI)
  fix s assume s: "inside lim s"
  then show "same_frame lim s (snd (with_label d f s))"
    by (rule GetLabel_cases [where d = d])
      (auto simp: with_label_def intro: keepsD [OF assms s] same_frame_refl [OF s])
qed

lemma TopLabel_inside: "inside lim s \<Longrightarrow> TopLabel s = (Some (hd (label_stack s)), s)"
  by (auto simp: TopLabel_def GetLabel_def hd_conv_nth elim: insideE)

lemma with_top_inside: "inside lim s \<Longrightarrow> with_top f s = f (hd (label_stack s)) s"
  using TopLabel_inside [of lim s] by (simp add: with_top_def with_label_def TopLabel_def)

lemma hd_limit: "inside lim s \<Longrightarrow> type_stack_limit (hd (label_stack s)) = lim"
  by (auto elim: insideE)

lemma keeps_with_top:
  assumes "\<And>l. type_stack_limit l = lim \<Longrightarrow> keeps lim (f l)"
  shows "keeps lim (with_top f)"
  by (rule keepsI) (simp add: with_top_inside keepsD assms hd_limit)

lemma keeps_step_ok: "(\<And>s. inside lim s \<Longrightarrow> same_frame lim s (f s)) \<Longrightarrow> keeps lim (step_ok f)"
  by (simp add: keeps_def step_ok_def)

section \<open>The primitive operations\<close>

lemma same_frame_type_stack:
  assumes "inside lim s" "lim \<le> length ts" "Type_Void \<notin> set ts" "bottom lim ts = bottom lim (type_stack s)"
  shows "same_frame lim s (s\<lparr>type_stack := ts\<rparr>)"
  using assms by (auto simp: same_frame_def same_label_def elim!: insideE intro!: insideI)

lemma same_frame_PushType: "inside lim s \<Longrightarrow> same_frame lim s (PushType t s)"
  unfolding PushType_def
  by (auto intro!: same_frame_type_stack elim: insideE)

lemma same_frame_PushTypes: "inside lim s \<Longrightarrow> same_frame lim s (PushTypes ts s)"
  unfolding PushTypes_def
proof (induction ts arbitrary: s)
  case (Cons t ts)
  have p: "same_frame lim s (PushType t s)" using Cons.prems by (rule same_frame_PushType)
  show ?case using same_frame_trans [OF p Cons.IH [OF same_frame_inside [OF p]]] by simp
qed auto

lemmas keeps_PushType [keeps_rules] = keeps_step_ok [OF same_frame_PushType]
lemmas keeps_PushTypes [keeps_rules] = keeps_step_ok [OF same_frame_PushTypes]

lemma same_frame_Reset:
  "inside lim s \<Longrightarrow> type_stack_limit l = lim \<Longrightarrow> same_frame lim s (ResetTypeStackToLabel l s)"
  unfolding ResetTypeStackToLabel_def
  by (rule same_frame_type_stack)
    (auto simp: resize_bottom bottom_bottom elim!: insideE dest: set_bottom [THEN subsetD])

lemma same_frame_update_top:
  assumes "inside lim s" "\<And>l. same_label l (f l)"
  shows "same_frame lim s (update_top f s)"
  using assms by (auto simp: same_frame_def update_top_def same_label_def elim!: insideE intro!: insideI)

lemma keeps_SetUnreachable [keeps_rules]: "keeps lim SetUnreachable"
  unfolding SetUnreachable_def
  by (intro keeps_with_top keeps_step_ok)
    (rule same_frame_trans [OF same_frame_update_top same_frame_Reset],
      auto simp: same_label_def intro!: same_frame_inside [OF same_frame_update_top])

lemma snd_PeekType: "inside lim s \<Longrightarrow> snd (PeekType d t s) = s"
  by (simp add: PeekType_def TopLabel_inside)

lemma snd_PeekAndCheckType: "inside lim s \<Longrightarrow> snd (PeekAndCheckType d t s) = s"
  using snd_PeekType [of lim s d Type_Any] by (auto simp: PeekAndCheckType_def split: prod.splits)

lemma keeps_PeekAndCheckType [keeps_rules]: "keeps lim (PeekAndCheckType d t)"
  by (rule keepsI) (simp add: snd_PeekAndCheckType same_frame_refl)

lemma keeps_DropTypes [keeps_rules]: "keeps lim (DropTypes n)"
  unfolding DropTypes_def
proof (intro keeps_with_top keepsI)
  fix l :: label and s assume l: "type_stack_limit l = lim" and s: "inside lim s"
  have "same_frame lim s (s\<lparr>type_stack := drop n (type_stack s)\<rparr>)"
    if "lim + n \<le> length (type_stack s)"
    by (rule same_frame_type_stack [OF s]) (use that s in \<open>auto elim!: insideE dest: in_set_dropD\<close>)
  then show "same_frame lim s (snd
      (if length (type_stack s) < type_stack_limit l + n
       then (if unreachable l then Result_Ok else Result_Error, ResetTypeStackToLabel l s)
       else (Result_Ok, s\<lparr>type_stack := drop n (type_stack s)\<rparr>)))"
    using l s by (auto intro: same_frame_Reset)
qed

text \<open>Collecting the actual types never fails: the assertion in \<open>PrintStackIfFailed\<close> holds.\<close>

lemma PeekType_below:
  assumes "inside lim s" "lim + d < length (type_stack s)"
  shows "PeekType d t s = ((Result_Ok, type_stack s ! d), s)"
  using assms by (simp add: PeekType_def TopLabel_inside hd_limit)

lemma collect_actual_inside:
  assumes "inside lim s" "lim + n \<le> length (type_stack s)"
  shows "collect_actual n s = (rev (take n (type_stack s)), s)"
proof -
  have "k \<le> n \<Longrightarrow> fold (\<lambda>i (actual, s). case PeekType (n - i - 1) Type_Any s of
         ((r, t), s1) \<Rightarrow> (actual @ [t], check_assert (Succeeded r) s1)) [0..<k] ([], s) =
      (rev (take k (drop (n - k) (type_stack s))), s)" for k
  proof (induction k)
    case (Suc k)
    have "take (Suc k) (drop (n - Suc k) (type_stack s)) =
        type_stack s ! (n - Suc k) # take k (drop (n - k) (type_stack s))"
      using Suc.prems assms(2)
      by (subst Cons_nth_drop_Suc [symmetric]) (auto simp: Suc_diff_Suc)
    then show ?case using Suc assms PeekType_below [OF assms(1), of "n - k - 1"] by simp
  qed simp
  from this [of n] show ?thesis by (simp add: collect_actual_def)
qed

lemma PrintStackIfFailed_inside:
  assumes s: "inside lim s" and r: "r \<noteq> Result_Ok"
  shows "\<exists>msg. PrintStackIfFailed r desc expected s = PrintError msg s"
proof -
  have "lim \<le> length (type_stack s)" using s by (auto elim: insideE)
  then have c: "collect_actual n s = (rev (take n (type_stack s)), s)" if "n \<le> length (type_stack s) - lim" for n
    using that by (intro collect_actual_inside [OF s]) simp
  have n: "(if expected = [] then min 4 (length (type_stack s) - lim)
      else min (length expected) (length (type_stack s) - lim)) \<le> length (type_stack s) - lim" by simp
  show ?thesis
    unfolding PrintStackIfFailed_def
    by (simp only: r Succeeded_iff if_False TopLabel_inside [OF s] prod.case option.case hd_limit [OF s]
        Let_def c [OF n]) blast
qed

lemma keeps_report [keeps_rules]:
  assumes "keeps lim f"
  shows "keeps lim (report f desc expected)"
proof (rule keepsI)
  fix s assume "inside lim s"
  with assms have f: "same_frame lim s (snd (f s))" by (rule keepsD)
  then have "same_frame lim s (PrintStackIfFailed (fst (f s)) desc expected (snd (f s)))"
    using PrintStackIfFailed_inside [OF same_frame_inside [OF f], of "fst (f s)" desc expected]
    by (cases "fst (f s) = Result_Ok") (auto simp: PrintStackIfFailed_def)
  then show "same_frame lim s (snd (report f desc expected s))"
    by (simp add: report_def case_prod_beta)
qed

section \<open>Checks and handlers that stay inside the label\<close>

lemma keeps_CheckTypeStackEnd [keeps_rules]: "keeps lim (CheckTypeStackEnd desc)"
  unfolding CheckTypeStackEnd_def
  by (intro keeps_with_top keeps_report keepsI) auto

lemma keeps_CheckSignature [keeps_rules]: "keeps lim (CheckSignature sig desc)"
proof -
  have "keeps lim f \<Longrightarrow>
      keeps lim (foldl (\<lambda>f i. also_check f (PeekAndCheckType (length sig - i - 1) (sig ! i))) f is)"
    for f and "is" :: "nat list"
    by (induction "is" arbitrary: f) (auto intro!: keeps_rules)
  then show ?thesis unfolding CheckSignature_def by (intro keeps_report) (auto intro: keeps_rules)
qed

lemma keeps_PopAndCheckSignature [keeps_rules]: "keeps lim (PopAndCheckSignature sig desc)"
  unfolding PopAndCheckSignature_def by (intro keeps_rules)

lemma keeps_PopAndCheckCall [keeps_rules]: "keeps lim (PopAndCheckCall params results desc)"
  unfolding PopAndCheckCall_def by (intro keeps_rules)

lemma keeps_PopAndCheck1Type [keeps_rules]: "keeps lim (PopAndCheck1Type t desc)"
  unfolding PopAndCheck1Type_def by (intro keeps_rules)

lemma keeps_PopAndCheck2Types [keeps_rules]: "keeps lim (PopAndCheck2Types t1 t2 desc)"
  unfolding PopAndCheck2Types_def by (intro keeps_rules)

lemma keeps_PopAndCheck3Types [keeps_rules]: "keeps lim (PopAndCheck3Types t1 t2 t3 desc)"
  unfolding PopAndCheck3Types_def by (intro keeps_rules)

lemma keeps_CheckOpcode1 [keeps_rules]: "keeps lim (CheckOpcode1 e)"
  unfolding CheckOpcode1_def by (intro keeps_rules)

lemma keeps_CheckOpcode2 [keeps_rules]: "keeps lim (CheckOpcode2 e)"
  unfolding CheckOpcode2_def by (intro keeps_rules)

lemma keeps_CheckOpcode3 [keeps_rules]: "keeps lim (CheckOpcode3 e)"
  unfolding CheckOpcode3_def by (intro keeps_rules)

lemma keeps_OnCatch: "keeps lim OnCatch"
  unfolding OnCatch_def
proof (rule keeps_with_top, intro keeps_also_check)
  fix l :: label assume l: "type_stack_limit l = lim"
  show "keeps lim (step_ok (\<lambda>s. PushType Type_ExceptRef
      (update_top (\<lambda>l. l\<lparr>label_type := LabelType_Catch, unreachable := False\<rparr>) (ResetTypeStackToLabel l s))))"
  proof (rule keeps_step_ok)
    fix s assume "inside lim s"
    from same_frame_Reset [OF this l] have r: "same_frame lim s (ResetTypeStackToLabel l s)" .
    also have u: "same_frame lim (ResetTypeStackToLabel l s)
        (update_top (\<lambda>l. l\<lparr>label_type := LabelType_Catch, unreachable := False\<rparr>) (ResetTypeStackToLabel l s))"
      using same_frame_inside [OF r] by (rule same_frame_update_top) (simp add: same_label_def)
    also note same_frame_PushType [OF same_frame_inside [OF u]]
    finally show "same_frame lim s (PushType Type_ExceptRef
      (update_top (\<lambda>l. l\<lparr>label_type := LabelType_Catch, unreachable := False\<rparr>) (ResetTypeStackToLabel l s)))" .
  qed
qed (rule keeps_rules)+

lemma keeps_OnElse: "keeps lim OnElse"
  unfolding OnElse_def
proof (rule keeps_with_top, intro keeps_also_check)
  fix l :: label assume l: "type_stack_limit l = lim"
  show "keeps lim (step_ok (\<lambda>s. update_top (\<lambda>l. l\<lparr>label_type := LabelType_Else, unreachable := False\<rparr>)
      (PushTypes (param_types l) (ResetTypeStackToLabel l s))))"
  proof (rule keeps_step_ok)
    fix s assume "inside lim s"
    from same_frame_Reset [OF this l] have r: "same_frame lim s (ResetTypeStackToLabel l s)" .
    also note p = same_frame_PushTypes [OF same_frame_inside [OF r], of "param_types l"]
    also have "same_frame lim (PushTypes (param_types l) (ResetTypeStackToLabel l s))
        (update_top (\<lambda>l. l\<lparr>label_type := LabelType_Else, unreachable := False\<rparr>)
          (PushTypes (param_types l) (ResetTypeStackToLabel l s)))"
      using same_frame_inside [OF p] by (rule same_frame_update_top) (simp add: same_label_def)
    finally show "same_frame lim s (update_top (\<lambda>l. l\<lparr>label_type := LabelType_Else, unreachable := False\<rparr>)
        (PushTypes (param_types l) (ResetTypeStackToLabel l s)))" .
  qed
qed (rule keeps_rules)+

lemma keeps_OnSelect: "keeps lim OnSelect"
proof (rule keepsI)
  fix s assume s: "inside lim s"
  obtain r0 where r0: "PeekAndCheckType 0 Type_I32 s = (r0, s)"
    using snd_PeekAndCheckType [OF s, of 0 Type_I32] by (cases "PeekAndCheckType 0 Type_I32 s") auto
  obtain r1 t where r1: "PeekType 1 Type_Any s = ((r1, t), s)"
    using snd_PeekType [OF s, of 1 Type_Any] by (cases "PeekType 1 Type_Any s") auto
  have "keeps lim (also_check (also_check
            (report (also_check (give (result_or r0 r1)) (PeekAndCheckType 2 t)) ''select'' [Type_I32, t, t])
            (DropTypes 3))
          (step_ok (PushType t)))" by (intro keeps_rules)
  from keepsD [OF this s] show "same_frame lim s (snd (OnSelect s))" by (simp only: OnSelect_def r0 r1 prod.case)
qed

lemma keeps_CheckBrTableSig [keeps_rules]: "keeps lim (CheckBrTableSig sig)"
  by (rule keepsI) (auto simp: CheckBrTableSig_def Let_def)

lemma keeps_OnReturn: "keeps lim OnReturn"
proof (rule keepsI)
  fix s assume s: "inside lim s"
  have "keeps lim (with_label d (\<lambda>func_label.
      also_check (PopAndCheckSignature (result_types func_label) ''return'') SetUnreachable))" for d
    by (intro keeps_rules)
  from keepsD [OF this s] show "same_frame lim s (snd (OnReturn s))" by (simp add: OnReturn_def)
qed

lemma keeps_from_PrintError:
  assumes "keeps lim f" "inside lim s" "same_frame lim s s'"
  shows "same_frame lim s (snd (f s'))"
  using assms by (metis keepsD same_frame_inside same_frame_trans)

lemma lane_opcodes:
  assumes "GetSimdLaneCount e = Some k"
  shows "List.member [''I8X16ExtractLaneS'', ''I8X16ExtractLaneU'', ''I16X8ExtractLaneS'',
               ''I16X8ExtractLaneU'', ''I32X4ExtractLane'', ''F32X4ExtractLane'', ''I64X2ExtractLane'',
               ''F64X2ExtractLane''] (Opcode_enumerator e) \<or>
             List.member [''I8X16ReplaceLane'', ''I16X8ReplaceLane'', ''I32X4ReplaceLane'',
               ''F32X4ReplaceLane'', ''I64X2ReplaceLane'', ''F64X2ReplaceLane''] (Opcode_enumerator e)"
  using assms unfolding GetSimdLaneCount_def Let_def List.member_iff list.set insert_iff
  by (metis option.distinct(1) empty_iff)

lemma keeps_OnSimdLaneOp:
  assumes "GetSimdLaneCount e \<noteq> None"
  shows "keeps lim (OnSimdLaneOp e i)"
proof (rule keepsI)
  fix s assume s: "inside lim s"
  obtain k where k: "GetSimdLaneCount e = Some k" using assms by blast
  define s1 where "s1 = (if ucast k \<le> i then
      PrintError (''lane index must be less than '' @ show_nat (unat k) @
        '' (got '' @ show_nat (unat i) @ '')'') s else s)"
  have s1: "same_frame lim s s1" using s by (auto simp: s1_def)
  have "OnSimdLaneOp e i s = CheckOpcode1 e s1 \<or> OnSimdLaneOp e i s = CheckOpcode2 e s1"
    using lane_opcodes [OF k] unfolding OnSimdLaneOp_def k option.case Let_def s1_def [symmetric]
    by (metis (full_types))
  then show "same_frame lim s (snd (OnSimdLaneOp e i s))"
    using keeps_from_PrintError [OF keeps_CheckOpcode1 s s1] keeps_from_PrintError [OF keeps_CheckOpcode2 s s1]
    by auto
qed

lemma keeps_OnSimdShuffleOp: "keeps lim (OnSimdShuffleOp e bs)"
  unfolding OnSimdShuffleOp_def
proof (rule keepsI, rule keeps_from_PrintError [OF keeps_CheckOpcode2])
  fix s assume s: "inside lim s"
  have "same_frame lim s s' \<Longrightarrow> same_frame lim s (fold (\<lambda>b s. if 32 \<le> b then
            PrintError (''lane index must be less than 32 (got '' @ show_nat (unat b) @ '')'') s else s) xs s')"
    for s' and xs :: bytes
    by (induction xs arbitrary: s') auto
  from this [of s] show "same_frame lim s (fold (\<lambda>b s. if 32 \<le> b then
            PrintError (''lane index must be less than 32 (got '' @ show_nat (unat b) @ '')'') s else s)
          (take 16 bs) s)" using s by blast
qed

lemma keeps_BeginBrTable: "keeps lim BeginBrTable"
  unfolding BeginBrTable_def
  by (rule keepsI, rule keeps_from_PrintError [OF keeps_PopAndCheck1Type]) auto

section \<open>Opening and closing a label\<close>

definition nonvoid :: "TypeVector \<Rightarrow> TypeVector" where
  "nonvoid ts = filter (\<lambda>t. t \<noteq> Type_Void) ts"

lemma PushTypes_stack: "PushTypes ts s = s\<lparr>type_stack := rev (nonvoid ts) @ type_stack s\<rparr>"
  unfolding PushTypes_def nonvoid_def
  by (induction ts arbitrary: s) (auto simp: PushType_def)

lemma nonvoid_void: "Type_Void \<notin> set (nonvoid ts)"
  by (simp add: nonvoid_def)

definition opens :: "nat \<Rightarrow> type_checker \<Rightarrow> type_checker \<Rightarrow> bool" where
  "opens lim s s' \<longleftrightarrow> (\<exists>s1 l ts. same_frame lim s s1 \<and> type_stack_limit l = length (type_stack s1) \<and>
     Type_Void \<notin> set ts \<and>
     s' = s1\<lparr>label_stack := l # label_stack s1, type_stack := ts @ type_stack s1\<rparr>)"

definition closes :: "nat \<Rightarrow> type_checker \<Rightarrow> type_checker \<Rightarrow> bool" where
  "closes lim s s' \<longleftrightarrow> label_stack s' = tl (label_stack s) \<and>
     type_stack s' = rev (nonvoid (result_types (hd (label_stack s)))) @ bottom lim (type_stack s) \<and>
     healthy s' = healthy s"

lemma opensI:
  assumes "same_frame lim s s1"
  shows "opens lim s (PushTypes ps (PushLabel lt qs rs s1))"
  unfolding opens_def PushTypes_stack PushLabel_def
  by (rule exI [of _ s1], rule exI [of _ "\<lparr>label_type = lt, param_types = qs, result_types = rs,
      type_stack_limit = length (type_stack s1), unreachable = False\<rparr>"], rule exI [of _ "rev (nonvoid ps)"])
    (simp add: assms nonvoid_void)

lemma PushTypes_append: "PushTypes es (PushTypes ps s) = PushTypes (ps @ es) s"
  by (simp add: PushTypes_def)

lemma opens_after:
  assumes "keeps lim f" "inside lim s"
  shows "opens lim s (snd (also_check f (step_ok (\<lambda>s. PushTypes ps (PushLabel lt qs rs s))) s))"
    and "opens lim s (snd (also_check f
      (step_ok (\<lambda>s. PushTypes es (PushTypes ps (PushLabel lt qs rs s)))) s))"
  unfolding snd_also_check step_ok_def snd_conv PushTypes_append
  by (rule opensI [OF keepsD [OF assms]])+

lemma opens_OnBlock: "inside lim s \<Longrightarrow> opens lim s (snd (OnBlock ps rs s))"
  unfolding OnBlock_def by (rule opens_after) (intro keeps_rules)

lemma opens_OnLoop: "inside lim s \<Longrightarrow> opens lim s (snd (OnLoop ps rs s))"
  unfolding OnLoop_def by (rule opens_after) (intro keeps_rules)

lemma opens_OnTry: "inside lim s \<Longrightarrow> opens lim s (snd (OnTry ps rs s))"
  unfolding OnTry_def by (rule opens_after) (intro keeps_rules)

lemma opens_OnIf: "inside lim s \<Longrightarrow> opens lim s (snd (OnIf ps rs s))"
  unfolding OnIf_def by (rule opens_after) (intro keeps_rules)

lemma opens_OnIfExcept: "inside lim s \<Longrightarrow> opens lim s (snd (OnIfExcept ps rs es s))"
  unfolding OnIfExcept_def by (rule opens_after) (intro keeps_rules)

lemma closes_OnEndLabel:
  assumes s: "inside lim s" and s1: "same_frame lim s s1" and l: "l = hd (label_stack s)"
  shows "closes lim s (snd (OnEndLabel l d1 d2 s1))"
proof -
  let ?f = "also_check (PopAndCheckSignature (result_types l) d1) (CheckTypeStackEnd d2)"
  have "keeps lim ?f" by (intro keeps_rules)
  then have f: "same_frame lim s (snd (?f s1))" by (rule keeps_from_PrintError [OF _ s s1])
  have lim: "type_stack_limit l = lim" using s l by (simp add: hd_limit)
  have "lim \<le> length (type_stack (snd (?f s1)))"
    using same_frame_inside [OF f] by (auto elim: insideE)
  then show ?thesis
    using f l lim unfolding OnEndLabel_def snd_also_check step_ok_def snd_conv closes_def
    by (simp add: PopLabel_def PushTypes_stack ResetTypeStackToLabel_def resize_bottom same_frame_def)
qed

lemma closes_OnEnd: "inside lim s \<Longrightarrow> closes lim s (snd (OnEnd s))"
  unfolding OnEnd_def
  by (auto simp: with_top_inside snd_also_check CheckIfResults_def intro!: closes_OnEndLabel)

lemma closes_EndFunction: "inside lim s \<Longrightarrow> closes lim s (snd (EndFunction s))"
  unfolding EndFunction_def
  by (auto simp: with_top_inside snd_also_check give_def intro!: closes_OnEndLabel)

section \<open>What a call can do\<close>

text \<open>The binary readers only report a lane operation for the opcodes of the two lane lists.\<close>

fun valid_call :: "tc_call \<Rightarrow> bool" where
  "valid_call (Call_OnSimdLaneOp e i) \<longleftrightarrow> GetSimdLaneCount e \<noteq> None"
| "valid_call _ \<longleftrightarrow> True"

lemmas handlers_inside = OnAtomicLoad_def OnAtomicStore_def OnAtomicRmw_def OnAtomicRmwCmpxchg_def
  OnAtomicWait_def OnAtomicWake_def OnBinary_def OnBr_def OnBrIf_def OnBrTableTarget_def EndBrTable_def
  OnCall_def OnCallIndirect_def OnCompare_def OnConst_def OnConvert_def OnDrop_def OnGetGlobal_def
  OnGetLocal_def OnLoad_def OnMemoryGrow_def OnMemorySize_def OnRethrow_def OnSetGlobal_def
  OnSetLocal_def OnStore_def OnTeeLocal_def OnTernary_def OnThrow_def OnUnary_def OnUnreachable_def

lemmas keeps_handlers = keeps_OnCatch keeps_OnElse keeps_OnSelect keeps_OnReturn keeps_OnSimdLaneOp
  keeps_OnSimdShuffleOp keeps_BeginBrTable

lemma run_call_effect:
  assumes "inside lim s" "valid_call c"
  shows "same_frame lim s (snd (run_call c s)) \<or> opens lim s (snd (run_call c s)) \<or>
    closes lim s (snd (run_call c s))"
proof (cases c)
  case Call_OnEnd
  then show ?thesis using closes_OnEnd [OF assms(1)] by simp
next
  case Call_EndFunction
  then show ?thesis using closes_EndFunction [OF assms(1)] by simp
qed (use assms in \<open>simp_all add: opens_OnBlock opens_OnLoop opens_OnTry opens_OnIf opens_OnIfExcept
  handlers_inside keepsD [OF _ assms(1)] keeps_handlers keeps_rules\<close>)

section \<open>The invariant of a run\<close>

lemma limits_ok_mono: "limits_ok ls n \<Longrightarrow> n \<le> m \<Longrightarrow> limits_ok ls m"
  by (cases ls) auto

lemma limits_ok_append: "limits_ok (ex @ l # ls) n \<Longrightarrow> type_stack_limit l \<le> type_stack_limit (hd (ex @ [l]))"
proof (induction ex arbitrary: n)
  case (Cons e ex)
  then have "type_stack_limit l \<le> type_stack_limit (hd (ex @ [l]))"
    and "type_stack_limit (hd (ex @ [l])) \<le> type_stack_limit e"
    by (auto, cases ex) auto
  then show ?case by simp
qed simp

lemma stack_ok_opens: "inside lim s \<Longrightarrow> opens lim s s' \<Longrightarrow> stack_ok s' \<and> healthy s' = healthy s"
  by (auto simp: opens_def stack_ok_def same_frame_def inside_def)

lemma stack_ok_closes: "inside lim s \<Longrightarrow> closes lim s s' \<Longrightarrow> stack_ok s' \<and> healthy s' = healthy s"
  using nonvoid_void [of "result_types (hd (label_stack s))"] set_bottom [of lim "type_stack s"]
  by (auto simp: closes_def stack_ok_def elim!: insideE intro: limits_ok_mono)

lemma stack_ok_same_frame: "same_frame lim s s' \<Longrightarrow> stack_ok s' \<and> healthy s' = healthy s"
  by (simp add: same_frame_def inside_def)

lemma inside_current: "stack_ok s \<Longrightarrow> label_stack s \<noteq> [] \<Longrightarrow> inside (type_stack_limit (hd (label_stack s))) s"
  by (simp add: inside_def)

text \<open>
  A step of a run: a reader stops calling when the function's label is closed, and reports lane
  operations only for lane opcodes.
\<close>

definition tc_step :: "tc_call \<Rightarrow> type_checker \<Rightarrow> type_checker" where
  "tc_step c s = (if label_stack s = [] \<or> \<not> valid_call c then s else snd (run_call c s))"

definition tc_inv :: "type_checker \<Rightarrow> bool" where
  "tc_inv s \<longleftrightarrow> stack_ok s \<and> healthy s"

lemma tc_step_effect:
  assumes "stack_ok s"
  shows "tc_step c s = s \<or> (label_stack s \<noteq> [] \<and>
    (\<exists>lim. inside lim s \<and> (same_frame lim s (tc_step c s) \<or> opens lim s (tc_step c s) \<or> closes lim s (tc_step c s))))"
  using run_call_effect [OF inside_current [OF assms], of c] inside_current [OF assms]
  by (auto simp: tc_step_def)

interpretation tc: step_system tc_step tc_inv
proof
  fix s x assume "tc_inv s"
  with tc_step_effect [of s x] show "tc_inv (tc_step x s)"
    by (auto simp: tc_inv_def dest: stack_ok_opens stack_ok_closes stack_ok_same_frame)
qed

lemma tc_inv_BeginFunction: "healthy s \<Longrightarrow> tc_inv (snd (BeginFunction sig s))"
  by (simp add: BeginFunction_def step_ok_def PushLabel_def tc_inv_def stack_ok_def)

section \<open>What lies below a label\<close>

definition below_kept :: "type_checker \<Rightarrow> type_checker \<Rightarrow> bool" where
  "below_kept s0 s \<longleftrightarrow> stack_ok s \<and>
     (\<exists>ex l. label_stack s = ex @ l # tl (label_stack s0) \<and> same_label (hd (label_stack s0)) l) \<and>
     bottom (type_stack_limit (hd (label_stack s0))) (type_stack s) =
       bottom (type_stack_limit (hd (label_stack s0))) (type_stack s0)"

lemma below_kept_refl: "stack_ok s \<Longrightarrow> label_stack s \<noteq> [] \<Longrightarrow> below_kept s s"
  by (auto simp: below_kept_def same_label_def intro!: exI [of _ "[]"] exI [of _ "hd (label_stack s)"])

lemma below_kept_step:
  assumes b: "below_kept s0 s" and d: "length (label_stack s0) \<le> length (label_stack (tc_step c s))"
    and n: "label_stack s0 \<noteq> []"
  shows "below_kept s0 (tc_step c s)"
proof (cases "tc_step c s = s")
  case True
  with b show ?thesis by simp
next
  case False
  let ?l0 = "hd (label_stack s0)" and ?s' = "tc_step c s"
  have ok: "stack_ok s" using b by (simp add: below_kept_def)
  obtain ex l where ls: "label_stack s = ex @ l # tl (label_stack s0)" and l: "same_label ?l0 l"
    and bot: "bottom (type_stack_limit ?l0) (type_stack s) = bottom (type_stack_limit ?l0) (type_stack s0)"
    using b by (auto simp: below_kept_def)
  from tc_step_effect [OF ok, of c] False obtain lim where lim: "inside lim s"
    and eff: "same_frame lim s ?s' \<or> opens lim s ?s' \<or> closes lim s ?s'" by blast
  have hd: "hd (label_stack s) = hd (ex @ [l])" using ls by (cases ex) auto
  have le: "type_stack_limit ?l0 \<le> lim"
    using limits_ok_append [of ex l "tl (label_stack s0)"] ok ls l hd_limit [OF lim] hd
    by (auto simp: stack_ok_def same_label_def)
  have len: "lim \<le> length (type_stack s)" using lim by (auto elim: insideE)
  have ok': "stack_ok ?s'"
    using eff lim stack_ok_opens stack_ok_closes stack_ok_same_frame by blast
  have low: "bottom (type_stack_limit ?l0) (type_stack t) = bottom (type_stack_limit ?l0) (type_stack s0)"
    if "bottom lim (type_stack t) = bottom lim (type_stack s)" "lim \<le> length (type_stack t)" for t
    using bottom_mono [OF le that(2) len that(1)] bot by simp
  have frame: "\<exists>ex' l'. label_stack t = ex' @ l' # tl (label_stack s0) \<and> same_label ?l0 l'"
    if "same_frame lim s t" for t
  proof (cases ex)
    case Nil
    with that ls show ?thesis using l lim
      by (intro exI [of _ "[]"] exI [of _ "hd (label_stack t)"])
        (auto simp: same_frame_def same_label_def elim!: insideE)
  next
    case (Cons e ex')
    with that ls l lim show ?thesis
      by (intro exI [of _ "hd (label_stack t) # ex'"] exI [of _ l])
        (auto simp: same_frame_def elim!: insideE)
  qed
  have frame_low: "bottom lim (type_stack t) = bottom lim (type_stack s) \<and> lim \<le> length (type_stack t)"
    if "same_frame lim s t" for t
    using that by (auto simp: same_frame_def elim: insideE)
  from eff show ?thesis
  proof (elim disjE)
    assume f: "same_frame lim s ?s'"
    show ?thesis using ok' frame [OF f] low [of ?s'] frame_low [OF f] by (simp add: below_kept_def)
  next
    assume "opens lim s ?s'"
    then obtain s1 l1 ts where f: "same_frame lim s s1"
      and s': "?s' = s1\<lparr>label_stack := l1 # label_stack s1, type_stack := ts @ type_stack s1\<rparr>"
      by (auto simp: opens_def)
    obtain ex' l' where e: "label_stack s1 = ex' @ l' # tl (label_stack s0)" "same_label ?l0 l'"
      using frame [OF f] by blast
    have "\<exists>ex l. label_stack ?s' = ex @ l # tl (label_stack s0) \<and> same_label ?l0 l"
      by (rule exI [of _ "l1 # ex'"], rule exI [of _ l']) (simp add: s' e)
    then show ?thesis using ok' low [of ?s'] frame_low [OF f] by (simp add: below_kept_def s')
  next
    assume c: "closes lim s ?s'"
    then have "ex \<noteq> []" using d n ls by (cases "label_stack s0") (auto simp: closes_def)
    then have "\<exists>ex l. label_stack ?s' = ex @ l # tl (label_stack s0) \<and> same_label ?l0 l"
      using c ls l by (cases ex) (auto simp: closes_def)
    moreover have "bottom lim (type_stack ?s') = bottom lim (type_stack s)"
      and "lim \<le> length (type_stack ?s')"
      using c len by (auto simp: closes_def bottom_bottom)
    ultimately show ?thesis using ok' low [of ?s'] by (simp add: below_kept_def)
  qed
qed

text \<open>The label depth is at least \<open>d\<close> before the run and after each call of it.\<close>

fun stays_above :: "nat \<Rightarrow> tc_call list \<Rightarrow> type_checker \<Rightarrow> bool" where
  "stays_above d [] s \<longleftrightarrow> d \<le> length (label_stack s)"
| "stays_above d (c # cs) s \<longleftrightarrow> d \<le> length (label_stack s) \<and> stays_above d cs (tc_step c s)"

lemma stays_above_start: "stays_above d cs s \<Longrightarrow> d \<le> length (label_stack s)"
  by (cases cs) auto

lemma below_kept_run:
  "below_kept s0 s \<Longrightarrow> label_stack s0 \<noteq> [] \<Longrightarrow> stays_above (length (label_stack s0)) cs s \<Longrightarrow>
   below_kept s0 (fold tc_step cs s)"
proof (induction cs arbitrary: s)
  case (Cons c cs)
  have "length (label_stack s0) \<le> length (label_stack (tc_step c s))"
    using Cons.prems(3) by (auto dest: stays_above_start)
  from Cons.IH [OF below_kept_step [OF Cons.prems(1) this Cons.prems(2)] Cons.prems(2)] Cons.prems(3)
  show ?case by simp
qed simp

section \<open>Properties\<close>


definition empty_checker :: type_checker where
  "empty_checker = \<lparr>type_stack = [], label_stack = [], br_table_sig = None, errors = [], healthy = True\<rparr>"


text \<open>C8. A block is a frame: after \<open>block\<close>, any body that does not close the block's label (well
  typed or not, with any nesting, branches and unreachable code inside), and \<open>end\<close>, the type
  stack is the block's results on top of what was below the block's parameters, and the enclosing
  labels are untouched.\<close>

theorem block_frame:
  assumes "stack_ok s" "label_stack s \<noteq> []"
    and "stays_above (Suc (length (label_stack s))) body (snd (OnBlock params results s))"
    and "length (label_stack (fold tc_step body (snd (OnBlock params results s)))) = Suc (length (label_stack s))"
  shows "type_stack (snd (OnEnd (fold tc_step body (snd (OnBlock params results s))))) =
      rev (nonvoid results) @ type_stack (snd (PopAndCheckSignature params ''block'' s)) \<and>
    label_stack (snd (OnEnd (fold tc_step body (snd (OnBlock params results s))))) =
      label_stack (snd (PopAndCheckSignature params ''block'' s))"
proof -
  let ?p = "snd (PopAndCheckSignature params ''block'' s)" and ?s1 = "snd (OnBlock params results s)"
  let ?s2 = "fold tc_step body ?s1"
  have s: "inside (type_stack_limit (hd (label_stack s))) s" using assms(1,2) by (rule inside_current)
  have p: "same_frame (type_stack_limit (hd (label_stack s))) s ?p"
    by (rule keepsD [OF keeps_PopAndCheckSignature s])
  have s1: "?s1 = PushTypes params (PushLabel LabelType_Block params results ?p)"
    by (simp add: OnBlock_def snd_also_check step_ok_def)
  have ok1: "stack_ok ?s1" using stack_ok_opens [OF s opens_OnBlock [OF s]] by blast
  have hd1: "label_stack ?s1 \<noteq> []" "type_stack_limit (hd (label_stack ?s1)) = length (type_stack ?p)"
    "result_types (hd (label_stack ?s1)) = results" "tl (label_stack ?s1) = label_stack ?p"
    "bottom (length (type_stack ?p)) (type_stack ?s1) = type_stack ?p"
    by (simp_all add: s1 PushTypes_stack PushLabel_def)
  have "length (label_stack ?p) = length (label_stack s)"
    using p s by (auto simp: same_frame_def elim!: insideE)
  then have len1: "length (label_stack ?s1) = Suc (length (label_stack s))"
    using hd1(1,4) by (cases "label_stack ?s1") auto
  have b: "below_kept ?s1 ?s2"
    using below_kept_run [OF below_kept_refl [OF ok1 hd1(1)] hd1(1)] assms(3) len1 by simp
  then obtain ex l where l: "label_stack ?s2 = ex @ l # label_stack ?p" "same_label (hd (label_stack ?s1)) l"
    by (auto simp: below_kept_def hd1)
  have "ex = []" using l(1) assms(4) \<open>length (label_stack ?p) = length (label_stack s)\<close> by simp
  with l have l': "label_stack ?s2 = l # label_stack ?p" "type_stack_limit l = length (type_stack ?p)"
    "result_types l = results" using hd1 by (auto simp: same_label_def)
  then have "inside (length (type_stack ?p)) ?s2" using b by (auto simp: below_kept_def inside_def)
  from closes_OnEnd [OF this] show ?thesis
    using b l' hd1 by (auto simp: closes_def below_kept_def)
qed

theorem block_frame_witness:
  "type_stack (snd (OnEnd (fold tc_step [Call_OnDrop, Call_OnUnreachable, Call_OnBr 0]
      (snd (OnBlock [] [Type_I64] (PushType Type_F32 (snd (BeginFunction [] empty_checker)))))))) =
    rev (nonvoid [Type_I64]) @ type_stack (snd (PopAndCheckSignature [] ''block''
      (PushType Type_F32 (snd (BeginFunction [] empty_checker))))) \<and>
   label_stack (snd (OnEnd (fold tc_step [Call_OnDrop, Call_OnUnreachable, Call_OnBr 0]
      (snd (OnBlock [] [Type_I64] (PushType Type_F32 (snd (BeginFunction [] empty_checker)))))))) =
    label_stack (snd (PopAndCheckSignature [] ''block''
      (PushType Type_F32 (snd (BeginFunction [] empty_checker)))))"
  by (rule block_frame) code_simp+

end
