(* ===== verification/TypeCheckerSpec.thy ===== *)
theory TypeCheckerSpec
  imports TypeCheckerFrames
begin

text \<open>
  The validation algorithm of the WebAssembly specification, popping one operand at a time from
  the part of the stack above the current label, and the proof that the peek-then-drop checks
  of the type checker implement it, recovery after an error and error reports included.
\<close>

section \<open>The algorithm of the specification\<close>

text \<open>
  An operand stack under a label (top first) and whether the code is unreachable; \<open>Type_Any\<close> is
  the specification's \<open>Unknown\<close>.
\<close>

fun spec_pop :: "bool \<Rightarrow> wtype \<Rightarrow> wtype list \<Rightarrow> wtype list option" where
  "spec_pop unr expect [] = (if unr then Some [] else None)"
| "spec_pop unr expect (actual # vals) =
     (if actual = Type_Any \<or> expect = Type_Any \<or> actual = expect then Some vals else None)"

fun spec_pops :: "bool \<Rightarrow> wtype list \<Rightarrow> wtype list \<Rightarrow> wtype list option" where
  "spec_pops unr [] vals = Some vals"
| "spec_pops unr (t # ts) vals =
     (case spec_pop unr t vals of None \<Rightarrow> None | Some vals' \<Rightarrow> spec_pops unr ts vals')"

text \<open>The specification's view of a state of the checker.\<close>

definition current :: "type_checker \<Rightarrow> label" where
  "current s = hd (label_stack s)"

definition operands :: "type_checker \<Rightarrow> wtype list" where
  "operands s = take (length (type_stack s) - type_stack_limit (current s)) (type_stack s)"

definition below :: "type_checker \<Rightarrow> wtype list" where
  "below s = bottom (type_stack_limit (current s)) (type_stack s)"

definition in_label :: "type_checker \<Rightarrow> bool" where
  "in_label s \<longleftrightarrow> stack_ok s \<and> label_stack s \<noteq> []"

lemma in_label_inside: "in_label s \<Longrightarrow> inside (type_stack_limit (current s)) s"
  by (simp add: in_label_def current_def inside_current)

lemma operands_below: "type_stack s = operands s @ below s"
  by (simp add: operands_def below_def bottom_def)

lemma in_label_length: "in_label s \<Longrightarrow> length (type_stack s) = length (operands s) + type_stack_limit (current s)"
  using in_label_inside [of s] by (auto simp: operands_def elim: insideE)

section \<open>Peeking\<close>

definition peek_ok :: "bool \<Rightarrow> wtype list \<Rightarrow> nat \<Rightarrow> wtype \<Rightarrow> bool" where
  "peek_ok unr vals d t \<longleftrightarrow>
     (if d < length vals then vals ! d = Type_Any \<or> t = Type_Any \<or> vals ! d = t else unr)"

lemma spec_pops_Nil: "spec_pops True ts [] = Some []"
  by (induction ts) auto

lemma spec_pops_iff:
  "spec_pops unr ts vals =
     (if \<forall>d < length ts. peek_ok unr vals d (ts ! d) then Some (drop (length ts) vals) else None)"
proof (induction ts arbitrary: vals)
  case (Cons t ts)
  have e: "(\<forall>d < length (t # ts). peek_ok unr vals d ((t # ts) ! d)) \<longleftrightarrow>
      peek_ok unr vals 0 t \<and> (\<forall>d < length ts. peek_ok unr (drop 1 vals) d (ts ! d))"
    by (cases vals) (auto simp: peek_ok_def All_less_Suc2 nth_Cons' split: if_splits)
  show ?case unfolding e
    by (cases vals) (auto simp: Cons.IH peek_ok_def spec_pops_Nil)
qed simp

lemma PeekType_in_label:
  assumes "in_label s"
  shows "PeekType d t s =
    (if d < length (operands s) then (Result_Ok, operands s ! d)
     else (if unreachable (current s) then Result_Ok else Result_Error, Type_Any), s)"
proof -
  have "type_stack s ! d = operands s ! d" if "d < length (operands s)"
    using that by (subst operands_below) (simp add: nth_append)
  then show ?thesis
    using in_label_length [OF assms] TopLabel_inside [OF in_label_inside [OF assms]]
    by (simp add: PeekType_def current_def [symmetric])
qed

lemma PeekAndCheckType_in_label:
  assumes "in_label s"
  shows "PeekAndCheckType d t s =
    (if peek_ok (unreachable (current s)) (operands s) d t then Result_Ok else Result_Error, s)"
  by (auto simp: PeekAndCheckType_def PeekType_in_label [OF assms] CheckType_def peek_ok_def)

section \<open>Popping a signature\<close>

definition set_operands :: "wtype list \<Rightarrow> type_checker \<Rightarrow> type_checker" where
  "set_operands vals s = s\<lparr>type_stack := vals @ below s\<rparr>"

lemma foldl_peeks:
  assumes "in_label s" "f s = (r, s)"
  shows "foldl (\<lambda>f i. also_check f (PeekAndCheckType (n - i - 1) (sig ! i))) f is s =
    (if r = Result_Ok \<and> (\<forall>i \<in> set is. peek_ok (unreachable (current s)) (operands s) (n - i - 1) (sig ! i))
     then Result_Ok else Result_Error, s)"
  using assms(2)
proof (induction "is" arbitrary: f r)
  case (Cons i "is")
  let ?ok = "peek_ok (unreachable (current s)) (operands s) (n - i - 1) (sig ! i)"
  let ?r = "if r = Result_Ok \<and> ?ok then Result_Ok else Result_Error"
  have e: "also_check f (PeekAndCheckType (n - i - 1) (sig ! i)) s = (?r, s)"
    using Cons.prems by (cases r) (auto simp: also_check_def PeekAndCheckType_in_label [OF assms(1)])
  from Cons.IH [of "also_check f (PeekAndCheckType (n - i - 1) (sig ! i))" ?r, OF e] show ?case by auto
next
  case Nil
  then show ?case by (cases r) simp_all
qed

lemma PrintStackIfFailed_in_label:
  assumes "in_label s"
  shows "\<exists>msg. PrintStackIfFailed r desc e s = (if r = Result_Ok then s else PrintError msg s)"
  using PrintStackIfFailed_inside [OF in_label_inside [OF assms], of r desc e]
  by (cases "r = Result_Ok") (auto simp: PrintStackIfFailed_def)

lemma CheckSignature_in_label:
  assumes "in_label s"
  shows "\<exists>msg. CheckSignature sig desc s =
    (if spec_pops (unreachable (current s)) (rev sig) (operands s) \<noteq> None then (Result_Ok, s)
     else (Result_Error, PrintError msg s))"
proof -
  let ?u = "unreachable (current s)" and ?n = "length sig"
  have "(\<forall>i \<in> set [0..<?n]. peek_ok ?u (operands s) (?n - i - 1) (sig ! i)) \<longleftrightarrow>
      (\<forall>d < length (rev sig). peek_ok ?u (operands s) d (rev sig ! d))"
  proof safe
    fix d assume a: "\<forall>i \<in> set [0..<?n]. peek_ok ?u (operands s) (?n - i - 1) (sig ! i)"
      and d: "d < length (rev sig)"
    from bspec [OF a, of "?n - d - 1"] d show "peek_ok ?u (operands s) d (rev sig ! d)"
      by (simp add: rev_nth)
  next
    fix i assume a: "\<forall>d < length (rev sig). peek_ok ?u (operands s) d (rev sig ! d)"
      and i: "i \<in> set [0..<?n]"
    with a [rule_format, of "?n - i - 1"] show "peek_ok ?u (operands s) (?n - i - 1) (sig ! i)"
      by (simp add: rev_nth Suc_diff_Suc)
  qed
  then have f: "foldl (\<lambda>f i. also_check f (PeekAndCheckType (?n - i - 1) (sig ! i))) (give Result_Ok) [0..<?n] s =
      (if spec_pops ?u (rev sig) (operands s) \<noteq> None then Result_Ok else Result_Error, s)"
    using foldl_peeks [OF assms, of "give Result_Ok" Result_Ok] by (simp add: give_def spec_pops_iff)
  obtain msg where "PrintStackIfFailed Result_Error desc sig s = PrintError msg s"
    using PrintStackIfFailed_in_label [OF assms, of Result_Error desc sig] by auto
  moreover have "PrintStackIfFailed Result_Ok desc sig s = s" by (simp add: PrintStackIfFailed_def)
  ultimately show ?thesis
    unfolding CheckSignature_def report_def f
    by (cases "spec_pops ?u (rev sig) (operands s)") auto
qed

lemma DropTypes_in_label:
  assumes "in_label s"
  shows "DropTypes n s =
    (if length (operands s) < n \<and> \<not> unreachable (current s) then Result_Error else Result_Ok,
     set_operands (drop n (operands s)) s)"
proof -
  have "resize_stack (type_stack_limit (current s)) (type_stack s) = below s"
    using in_label_inside [OF assms] by (auto simp: below_def resize_bottom elim!: insideE)
  moreover have "drop n (type_stack s) = drop n (operands s) @ below s" if "n \<le> length (operands s)"
    using that by (subst operands_below) simp
  ultimately show ?thesis
    using in_label_length [OF assms] with_top_inside [OF in_label_inside [OF assms]]
    by (auto simp: DropTypes_def current_def [symmetric] ResetTypeStackToLabel_def set_operands_def)
qed

lemma set_operands_in_label:
  assumes "in_label s" "set vals \<subseteq> set (type_stack s)"
  shows "in_label (set_operands vals s)"
    "current (set_operands vals s) = current s" "operands (set_operands vals s) = vals"
    "below (set_operands vals s) = below s"
proof -
  show c: "current (set_operands vals s) = current s" by (simp add: current_def set_operands_def)
  have l: "length (below s) = type_stack_limit (current s)"
    using in_label_inside [OF assms(1)] by (auto simp: below_def elim: insideE)
  show "operands (set_operands vals s) = vals" by (simp add: operands_def c l) (simp add: set_operands_def l)
  show "below (set_operands vals s) = below s"
  proof -
    have "bottom (length (below s)) (vals @ below s) = below s" by simp
    moreover have "type_stack (set_operands vals s) = vals @ below s" by (simp add: set_operands_def)
    ultimately show ?thesis unfolding below_def [of "set_operands vals s"] c l by (simp only:)
  qed
  let ?lim = "type_stack_limit (current s)"
  have i: "inside ?lim s" using assms(1) by (rule in_label_inside)
  have v: "Type_Void \<notin> set (type_stack s)" using i by (auto elim: insideE)
  have "set (below s) \<subseteq> set (type_stack s)" by (simp add: below_def set_bottom)
  then have "Type_Void \<notin> set (vals @ below s)" using v assms(2) by auto
  moreover have "bottom ?lim (vals @ below s) = bottom ?lim (type_stack s)"
    using l bottom_all [of "below s"] by (simp add: below_def [symmetric])
  ultimately have "inside ?lim (set_operands vals s)"
    unfolding set_operands_def using l by (intro same_frame_inside [OF same_frame_type_stack [OF i]]) simp_all
  then show "in_label (set_operands vals s)" by (simp add: in_label_def inside_def)
qed

lemma set_operands_set_operands: "set_operands v (set_operands w s) = set_operands v s"
  if "in_label s" "set w \<subseteq> set (type_stack s)"
  using set_operands_in_label(4) [OF that] by (simp add: set_operands_def)

lemma in_label_PrintError [simp]:
  "in_label (PrintError m s) = in_label s" "current (PrintError m s) = current s"
  "operands (PrintError m s) = operands s" "below (PrintError m s) = below s"
  "type_stack (PrintError m s) = type_stack s" "label_stack (PrintError m s) = label_stack s"
  "errors (PrintError m s) = errors s @ [m]" "healthy (PrintError m s) = healthy s"
  by (simp_all add: PrintError_def in_label_def stack_ok_def current_def operands_def below_def)

lemma PopAndCheckSignature_in_label:
  assumes "in_label s"
  shows "\<exists>msg. PopAndCheckSignature sig desc s =
    (case spec_pops (unreachable (current s)) (rev sig) (operands s) of
       Some vals \<Rightarrow> (Result_Ok, set_operands vals s)
     | None \<Rightarrow> (Result_Error, set_operands (drop (length sig) (operands s)) (PrintError msg s)))"
proof -
  let ?u = "unreachable (current s)"
  obtain msg where c: "CheckSignature sig desc s =
      (if spec_pops ?u (rev sig) (operands s) \<noteq> None then (Result_Ok, s)
       else (Result_Error, PrintError msg s))"
    using CheckSignature_in_label [OF assms] by blast
  show ?thesis
  proof (cases "spec_pops ?u (rev sig) (operands s)")
    case None
    then show ?thesis
      using c assms by (auto simp: PopAndCheckSignature_def also_check_def DropTypes_in_label)
  next
    case (Some vals)
    have "?u" if "length (operands s) < length sig"
      using Some that unfolding spec_pops_iff
      by (auto simp: peek_ok_def split: if_splits)
    moreover have "vals = drop (length sig) (operands s)"
      using Some by (auto simp: spec_pops_iff split: if_splits)
    ultimately show ?thesis
      using c assms Some by (auto simp: PopAndCheckSignature_def also_check_def DropTypes_in_label)
  qed
qed

section \<open>Opcodes\<close>

text \<open>The fixed-arity checks are signature checks.\<close>

lemma also_check_give: "also_check (give Result_Ok) f = f"
  by (rule ext) (simp add: also_check_def give_def split: prod.splits)

lemma PopAndCheck1Type_signature: "PopAndCheck1Type t desc = PopAndCheckSignature [t] desc"
  by (simp add: PopAndCheck1Type_def PopAndCheckSignature_def CheckSignature_def also_check_give)

lemma result_or_commute: "result_or a b = result_or b a" "result_or (result_or a b) c = result_or (result_or c b) a"
  by (cases a; cases b; simp) (cases a; cases b; cases c; simp)

lemma PopAndCheck2Types_signature:
  assumes "in_label s"
  shows "PopAndCheck2Types t1 t2 desc s = PopAndCheckSignature [t1, t2] desc s"
proof -
  have "also_check (PeekAndCheckType 0 t2) (PeekAndCheckType 1 t1) s =
      also_check (PeekAndCheckType 1 t1) (PeekAndCheckType 0 t2) s"
    by (simp add: also_check_def PeekAndCheckType_in_label [OF assms] result_or_commute(1))
  then show ?thesis
    by (simp add: PopAndCheck2Types_def PopAndCheckSignature_def CheckSignature_def also_check_give
        also_check_def [of "report _ _ _"] report_def numeral_2_eq_2)
qed

lemma PopAndCheck3Types_signature:
  assumes "in_label s"
  shows "PopAndCheck3Types t1 t2 t3 desc s = PopAndCheckSignature [t1, t2, t3] desc s"
proof -
  have "also_check (also_check (PeekAndCheckType 0 t3) (PeekAndCheckType 1 t2)) (PeekAndCheckType 2 t1) s =
      also_check (also_check (PeekAndCheckType 2 t1) (PeekAndCheckType 1 t2)) (PeekAndCheckType 0 t3) s"
    by (simp add: also_check_def PeekAndCheckType_in_label [OF assms] result_or_commute(2))
  then show ?thesis
    by (simp add: PopAndCheck3Types_def PopAndCheckSignature_def CheckSignature_def also_check_give
        also_check_def [of "report _ _ _"] report_def numeral_2_eq_2 numeral_3_eq_3 upt_rec)
qed

section \<open>Results and reports\<close>

text \<open>
  An operation reports when it returns \<open>Result::Error\<close> exactly when it calls the error callback.
\<close>

definition reports :: "nat \<Rightarrow> tc_op \<Rightarrow> bool" where
  "reports lim f \<longleftrightarrow> (\<forall>s. inside lim s \<longrightarrow>
     (\<exists>msgs. errors (snd (f s)) = errors s @ msgs \<and> (fst (f s) = Result_Ok \<longleftrightarrow> msgs = [])))"

named_theorems reports_rules "operations that return an error exactly when they report one"

lemma reportsI:
  "(\<And>s. inside lim s \<Longrightarrow> \<exists>msgs. errors (snd (f s)) = errors s @ msgs \<and> (fst (f s) = Result_Ok \<longleftrightarrow> msgs = [])) \<Longrightarrow>
   reports lim f"
  by (simp add: reports_def)

lemma reports_at:
  assumes "reports lim f" "inside lim s"
  obtains msgs where "errors (snd (f s)) = errors s @ msgs" "fst (f s) = Result_Ok \<longleftrightarrow> msgs = []"
  using assms by (auto simp: reports_def)

lemma reportsD:
  "reports lim f \<Longrightarrow> inside lim s \<Longrightarrow>
   \<exists>msgs. errors (snd (f s)) = errors s @ msgs \<and> (fst (f s) = Result_Ok \<longleftrightarrow> msgs = [])"
  by (simp add: reports_def)

lemma fst_also_check: "fst (also_check f g s) = result_or (fst (f s)) (fst (g (snd (f s))))"
  by (simp add: also_check_def split: prod.splits)

lemma reports_also_check:
  assumes "reports lim f" "keeps lim f" "reports lim g"
  shows "reports lim (also_check f g)"
proof (rule reportsI)
  fix s assume s: "inside lim s"
  obtain m1 where 1: "errors (snd (f s)) = errors s @ m1" "fst (f s) = Result_Ok \<longleftrightarrow> m1 = []"
    using reports_at [OF assms(1) s] by blast
  have "inside lim (snd (f s))" using keepsD [OF assms(2) s] by (rule same_frame_inside)
  from reports_at [OF assms(3) this] obtain m2 where
    2: "errors (snd (g (snd (f s)))) = errors (snd (f s)) @ m2"
    "fst (g (snd (f s))) = Result_Ok \<longleftrightarrow> m2 = []" by blast
  show "\<exists>msgs. errors (snd (also_check f g s)) = errors s @ msgs \<and>
      (fst (also_check f g s) = Result_Ok \<longleftrightarrow> msgs = [])"
    by (rule exI [of _ "m1 @ m2"]) (simp add: snd_also_check fst_also_check 1 2)
qed

lemma reports_give [reports_rules]: "reports lim (give Result_Ok)"
  by (simp add: reports_def give_def)

lemma reports_step_ok: "(\<And>s. errors (f s) = errors s) \<Longrightarrow> reports lim (step_ok f)"
  by (simp add: reports_def step_ok_def)

lemma errors_simps [simp]:
  "errors (PushTypes ts s) = errors s" "errors (PushType t s) = errors s"
  "errors (PushLabel lt ps rs s) = errors s" "errors (PopLabel s) = errors s"
  "errors (ResetTypeStackToLabel l s) = errors s" "errors (update_top f s) = errors s"
  "errors (set_operands vals s) = errors s"
  by (simp_all add: PushTypes_stack PushType_def PushLabel_def PopLabel_def ResetTypeStackToLabel_def
      update_top_def set_operands_def)

lemma reports_steps [reports_rules]:
  "reports lim (step_ok (PushType t))" "reports lim (step_ok (PushTypes ts))"
  "reports lim (step_ok (\<lambda>s. PushTypes ps (PushLabel lt qs rs s)))"
  "reports lim (step_ok (\<lambda>s. PushTypes es (PushTypes ps (PushLabel lt qs rs s))))"
  "reports lim (step_ok (\<lambda>s. PopLabel (PushTypes ts (ResetTypeStackToLabel l s))))"
  "reports lim (step_ok (\<lambda>s. update_top f (PushTypes ts (ResetTypeStackToLabel l s))))"
  "reports lim (step_ok (\<lambda>s. PushType t (update_top f (ResetTypeStackToLabel l s))))"
  by (rule reports_step_ok, simp)+

lemma inside_in_label: "inside lim s \<Longrightarrow> in_label s"
  by (simp add: in_label_def inside_def)

lemma reports_with_label [reports_rules]:
  assumes "\<And>l. reports lim (f l)"
  shows "reports lim (with_label d f)"
proof (rule reportsI)
  fix s assume s: "inside lim s"
  then show "\<exists>msgs. errors (snd (with_label d f s)) = errors s @ msgs \<and>
      (fst (with_label d f s) = Result_Ok \<longleftrightarrow> msgs = [])"
    by (rule GetLabel_cases [where d = d])
      (auto simp: with_label_def intro: assms [unfolded reports_def, rule_format, OF s])
qed

lemma reports_with_top:
  assumes "\<And>l. reports lim (f l)"
  shows "reports lim (with_top f)"
  unfolding with_top_def by (rule reports_with_label [OF assms])

lemma reports_SetUnreachable [reports_rules]: "reports lim SetUnreachable"
  unfolding SetUnreachable_def by (intro reports_with_top reports_step_ok) simp

lemma reports_CheckSignature [reports_rules]: "reports lim (CheckSignature sig desc)"
proof (rule reportsI)
  fix s assume "inside lim s"
  then obtain msg where "CheckSignature sig desc s =
      (if spec_pops (unreachable (current s)) (rev sig) (operands s) \<noteq> None then (Result_Ok, s)
       else (Result_Error, PrintError msg s))"
    using CheckSignature_in_label [OF inside_in_label] by blast
  then show "\<exists>msgs. errors (snd (CheckSignature sig desc s)) = errors s @ msgs \<and>
      (fst (CheckSignature sig desc s) = Result_Ok \<longleftrightarrow> msgs = [])" by auto
qed

lemma reports_PopAndCheckSignature [reports_rules]: "reports lim (PopAndCheckSignature sig desc)"
proof (rule reportsI)
  fix s assume "inside lim s"
  from PopAndCheckSignature_in_label [OF inside_in_label [OF this], of sig desc]
  show "\<exists>msgs. errors (snd (PopAndCheckSignature sig desc s)) = errors s @ msgs \<and>
      (fst (PopAndCheckSignature sig desc s) = Result_Ok \<longleftrightarrow> msgs = [])"
    by (auto split: option.splits)
qed

lemma reports_cong: "reports lim f \<Longrightarrow> (\<And>s. inside lim s \<Longrightarrow> g s = f s) \<Longrightarrow> reports lim g"
  by (simp add: reports_def)

lemma reports_PopAndCheck1Type [reports_rules]: "reports lim (PopAndCheck1Type t desc)"
  unfolding PopAndCheck1Type_signature by (rule reports_rules)

lemma reports_PopAndCheck2Types [reports_rules]: "reports lim (PopAndCheck2Types t1 t2 desc)"
  by (rule reports_cong [OF reports_PopAndCheckSignature PopAndCheck2Types_signature [OF inside_in_label]])

lemma reports_PopAndCheck3Types [reports_rules]: "reports lim (PopAndCheck3Types t1 t2 t3 desc)"
  by (rule reports_cong [OF reports_PopAndCheckSignature PopAndCheck3Types_signature [OF inside_in_label]])

lemma reports_CheckTypeStackEnd [reports_rules]: "reports lim (CheckTypeStackEnd desc)"
proof (rule reportsI)
  fix s assume s: "inside lim s"
  obtain msg where "PrintStackIfFailed Result_Error desc [] s = PrintError msg s"
    using PrintStackIfFailed_inside [OF s, of Result_Error] by blast
  then show "\<exists>msgs. errors (snd (CheckTypeStackEnd desc s)) = errors s @ msgs \<and>
      (fst (CheckTypeStackEnd desc s) = Result_Ok \<longleftrightarrow> msgs = [])"
    by (simp add: CheckTypeStackEnd_def with_top_inside [OF s] report_def)
      (auto simp: PrintStackIfFailed_def [of Result_Ok])
qed

lemma reports_PopAndCheckCall [reports_rules]: "reports lim (PopAndCheckCall params results desc)"
  unfolding PopAndCheckCall_def PopAndCheckSignature_def [symmetric]
  by (intro reports_also_check reports_rules keeps_rules)

lemma reports_CheckOpcode [reports_rules]:
  "reports lim (CheckOpcode1 e)" "reports lim (CheckOpcode2 e)" "reports lim (CheckOpcode3 e)"
  unfolding CheckOpcode1_def CheckOpcode2_def CheckOpcode3_def
  by (rule reports_also_check; rule reports_rules keeps_rules)+

lemma reports_CheckBrTableSig [reports_rules]: "reports lim (CheckBrTableSig sig)"
  by (rule reportsI) (auto simp: CheckBrTableSig_def Let_def PrintError_def)

lemma reports_OnDrop [reports_rules]: "reports lim OnDrop"
proof (rule reportsI)
  fix s assume "inside lim s"
  then have s: "in_label s" by (rule inside_in_label)
  let ?s1 = "set_operands (drop 1 (operands s)) s"
  have "in_label ?s1"
    by (rule set_operands_in_label [OF s]) (auto simp: operands_def dest: in_set_dropD in_set_takeD)
  from PrintStackIfFailed_in_label [OF this, of Result_Error] obtain msg where
    "PrintStackIfFailed Result_Error ''drop'' [Type_Any] ?s1 = PrintError msg ?s1" by auto
  then show "\<exists>msgs. errors (snd (OnDrop s)) = errors s @ msgs \<and> (fst (OnDrop s) = Result_Ok \<longleftrightarrow> msgs = [])"
    by (simp add: OnDrop_def report_def DropTypes_in_label [OF s])
      (auto simp: PrintStackIfFailed_def [of Result_Ok])
qed

lemmas reports_drop [reports_rules] = reports_OnDrop [unfolded OnDrop_def]

lemma reports_OnSelect [reports_rules]: "reports lim OnSelect"
proof (rule reportsI)
  fix s assume i: "inside lim s"
  then have s: "in_label s" by (rule inside_in_label)
  let ?u = "unreachable (current s)" and ?v = "operands s"
  define t where "t = (if 1 < length ?v then ?v ! 1 else Type_Any)"
  define ok where "ok \<longleftrightarrow> peek_ok ?u ?v 0 Type_I32 \<and> (1 < length ?v \<or> ?u) \<and> peek_ok ?u ?v 2 t"
  define r where "r = result_or (if peek_ok ?u ?v 0 Type_I32 then Result_Ok else Result_Error)
      (if 1 < length ?v \<or> ?u then Result_Ok else Result_Error)"
  let ?checks = "report (also_check (give r) (PeekAndCheckType 2 t)) ''select'' [Type_I32, t, t]"
  have select: "OnSelect s = also_check (also_check ?checks (DropTypes 3)) (step_ok (PushType t)) s"
    by (simp add: OnSelect_def PeekAndCheckType_in_label [OF s] PeekType_in_label [OF s] t_def r_def
        split del: if_split cong: if_cong) (simp split: if_splits)
  have peek: "also_check (give r) (PeekAndCheckType 2 t) s = (if ok then Result_Ok else Result_Error, s)"
    by (auto simp: also_check_def give_def PeekAndCheckType_in_label [OF s] ok_def r_def)
  obtain msg where msg: "PrintStackIfFailed Result_Error ''select'' [Type_I32, t, t] s = PrintError msg s"
    using PrintStackIfFailed_in_label [OF s, of Result_Error] by auto
  have checks: "?checks s = (if ok then (Result_Ok, s) else (Result_Error, PrintError msg s))"
    by (simp add: report_def peek msg) (simp add: PrintStackIfFailed_def)
  have "?u" if ok "length ?v < 3" using that by (auto simp: ok_def peek_ok_def split: if_splits)
  then have "also_check ?checks (DropTypes 3) s = (if ok then (Result_Ok, set_operands (drop 3 ?v) s)
      else (Result_Error, set_operands (drop 3 ?v) (PrintError msg s)))"
    using s by (auto simp: also_check_def [of ?checks] checks DropTypes_in_label)
  then show "\<exists>msgs. errors (snd (OnSelect s)) = errors s @ msgs \<and> (fst (OnSelect s) = Result_Ok \<longleftrightarrow> msgs = [])"
    unfolding select by (auto simp: also_check_def [of "also_check _ _"] step_ok_def)
qed

lemma reports_OnReturn [reports_rules]: "reports lim OnReturn"
proof (rule reportsI)
  fix s assume s: "inside lim s"
  have "reports lim (with_label d (\<lambda>l. also_check (PopAndCheckSignature (result_types l) ''return'') SetUnreachable))" for d
    by (intro reports_rules reports_also_check keeps_rules)
  from reports_at [OF this s] show "\<exists>msgs. errors (snd (OnReturn s)) = errors s @ msgs \<and>
      (fst (OnReturn s) = Result_Ok \<longleftrightarrow> msgs = [])" by (metis OnReturn_def)
qed

lemma reports_BeginBrTable [reports_rules]: "reports lim BeginBrTable"
proof (rule reportsI)
  fix s assume "inside lim s"
  then have "inside lim (s\<lparr>br_table_sig := None\<rparr>)" by (simp add: inside_def stack_ok_def)
  from reports_PopAndCheck1Type [unfolded reports_def, rule_format, OF this, of Type_I32 "''br_table''"]
  show "\<exists>msgs. errors (snd (BeginBrTable s)) = errors s @ msgs \<and>
      (fst (BeginBrTable s) = Result_Ok \<longleftrightarrow> msgs = [])" by (simp add: BeginBrTable_def)
qed

lemma reports_OnEndLabel [reports_rules]: "reports lim (OnEndLabel l d1 d2)"
  unfolding OnEndLabel_def by (intro reports_also_check reports_rules keeps_rules)

lemma reports_CheckIfResults [reports_rules]: "reports lim (CheckIfResults l)" "keeps lim (CheckIfResults l)"
  by (auto simp: CheckIfResults_def intro!: reportsI keepsI)

lemma reports_OnEnd [reports_rules]: "reports lim OnEnd"
  unfolding OnEnd_def by (intro reports_with_top reports_also_check reports_rules keeps_rules)

text \<open>
  Where the structure of the code is already known to be right: \<open>else\<close>, \<open>catch\<close> and the end of
  a function meet the label they belong to (a mismatch is an error without a report). The two
  lane operations are left out.
\<close>

fun well_placed :: "tc_call \<Rightarrow> type_checker \<Rightarrow> bool" where
  "well_placed Call_OnElse s \<longleftrightarrow> label_type (current s) = LabelType_If"
| "well_placed Call_OnCatch s \<longleftrightarrow> label_type (current s) = LabelType_Try"
| "well_placed Call_EndFunction s \<longleftrightarrow> label_type (current s) = LabelType_Func"
| "well_placed (Call_OnSimdLaneOp e i) s \<longleftrightarrow> False"
| "well_placed (Call_OnSimdShuffleOp e i) s \<longleftrightarrow> False"
| "well_placed _ s \<longleftrightarrow> True"

lemma report_labelled:
  assumes "inside lim s" "label_type (current s) = lt" "f = with_top (\<lambda>l. also_check (give (CheckLabelType l lt)) (g l)) \<or>
    f = with_top (\<lambda>l. also_check (also_check (also_check (give (CheckLabelType l lt)) (g1 l)) (g2 l)) (g3 l))"
    "\<And>l. reports lim (g l)" "\<And>l. reports lim (g1 l)" "\<And>l. reports lim (g2 l)" "\<And>l. reports lim (g3 l)"
    "\<And>l. keeps lim (g1 l)" "\<And>l. keeps lim (g2 l)"
  shows "\<exists>msgs. errors (snd (f s)) = errors s @ msgs \<and> (fst (f s) = Result_Ok \<longleftrightarrow> msgs = [])"
proof -
  let ?l = "current s"
  have c: "give (CheckLabelType ?l lt) = give Result_Ok" by (simp add: CheckLabelType_def assms(2))
  have "f s = g ?l s \<or> f s = also_check (also_check (g1 ?l) (g2 ?l)) (g3 ?l) s"
    using assms(3) with_top_inside [OF assms(1)]
    by (auto simp: current_def [symmetric] c also_check_give)
  moreover have "reports lim (also_check (also_check (g1 ?l) (g2 ?l)) (g3 ?l))"
    by (intro reports_also_check keeps_also_check assms)
  ultimately show ?thesis
    using reports_at [OF assms(4) assms(1)] reports_at [OF _ assms(1)] by metis
qed

lemma run_call_reports:
  assumes "inside lim s" "well_placed c s"
  shows "\<exists>msgs. errors (snd (run_call c s)) = errors s @ msgs \<and> (fst (run_call c s) = Result_Ok \<longleftrightarrow> msgs = [])"
proof (cases c)
  case Call_OnElse
  with assms show ?thesis unfolding Call_OnElse run_call.simps OnElse_def
    by (intro report_labelled [OF assms(1) _ disjI2 [OF refl], where g = "\<lambda>l. give Result_Ok"])
      (auto intro!: reports_rules keeps_rules)
next
  case Call_OnCatch
  with assms show ?thesis unfolding Call_OnCatch run_call.simps OnCatch_def
    by (intro report_labelled [OF assms(1) _ disjI2 [OF refl], where g = "\<lambda>l. give Result_Ok"])
      (auto intro!: reports_rules keeps_rules)
next
  case Call_EndFunction
  with assms show ?thesis unfolding Call_EndFunction run_call.simps EndFunction_def
    by (intro report_labelled [OF assms(1) _ disjI1 [OF refl], where ?g1.0 = "\<lambda>l. give Result_Ok"
        and ?g2.0 = "\<lambda>l. give Result_Ok" and ?g3.0 = "\<lambda>l. give Result_Ok"])
      (auto intro!: reports_rules keeps_rules)
qed (use assms(2) in \<open>simp_all only: run_call.simps handlers_inside OnBlock_def OnLoop_def OnTry_def
  OnIf_def OnIfExcept_def well_placed.simps\<close>,
  (rule reportsD [OF _ assms(1)], (intro reports_also_check reports_rules keeps_rules))+)

section \<open>Properties\<close>

text \<open>C7. The peek-then-drop check of a signature implements the specification's pops: it
  succeeds exactly when popping the types one by one, last first, succeeds (with the polymorphic
  stack of unreachable code), and leaves the same operands; when it fails it reports one error
  and recovers by dropping as many operands as there are. Nothing below the label, no label, and
  no other part of the state changes.\<close>

theorem PopAndCheckSignature_refines:
  assumes "in_label s"
  shows "case spec_pops (unreachable (current s)) (rev sig) (operands s) of
      Some vals \<Rightarrow> PopAndCheckSignature sig desc s = (Result_Ok, set_operands vals s)
    | None \<Rightarrow> \<exists>msg. PopAndCheckSignature sig desc s =
        (Result_Error, set_operands (drop (length sig) (operands s)) (PrintError msg s))"
  using PopAndCheckSignature_in_label [OF assms, of sig desc] by (auto split: option.splits)

theorem PopAndCheckSignature_refines_witness:
  "case spec_pops False [Type_I64, Type_I32] [Type_I64, Type_I32, Type_F32] of
      Some vals \<Rightarrow> PopAndCheckSignature [Type_I32, Type_I64] ''call''
        (PushTypes [Type_F32, Type_I32, Type_I64] (snd (BeginFunction [] empty_checker))) =
        (Result_Ok, set_operands vals (PushTypes [Type_F32, Type_I32, Type_I64] (snd (BeginFunction [] empty_checker))))
    | None \<Rightarrow> False"
proof -
  let ?s = "PushTypes [Type_F32, Type_I32, Type_I64] (snd (BeginFunction [] empty_checker))"
  have "in_label ?s" "\<not> unreachable (current ?s)" "operands ?s = [Type_I64, Type_I32, Type_F32]"
    by (simp_all add: in_label_def stack_ok_def current_def operands_def PushTypes_def PushType_def
        BeginFunction_def step_ok_def PushLabel_def empty_checker_def)
  with PopAndCheckSignature_refines [of ?s "[Type_I32, Type_I64]" "''call''"] show ?thesis by simp
qed

lemma OnEndLabel_in_label:
  assumes "in_label s" "l = current s"
  shows "fst (OnEndLabel l d1 d2 s) = Result_Ok \<longleftrightarrow>
    spec_pops (unreachable l) (rev (result_types l)) (operands s) = Some []"
proof -
  let ?p = "PopAndCheckSignature (result_types l) d1"
  obtain msg where p: "?p s = (case spec_pops (unreachable l) (rev (result_types l)) (operands s) of
       Some vals \<Rightarrow> (Result_Ok, set_operands vals s)
     | None \<Rightarrow> (Result_Error, set_operands (drop (length (result_types l)) (operands s)) (PrintError msg s)))"
    using PopAndCheckSignature_in_label [OF assms(1)] assms(2) by blast
  show ?thesis
  proof (cases "spec_pops (unreachable l) (rev (result_types l)) (operands s)")
    case None
    then show ?thesis by (simp add: OnEndLabel_def fst_also_check p)
  next
    case (Some vals)
    then have "vals = drop (length (result_types l)) (operands s)"
      by (simp add: spec_pops_iff split: if_splits)
    then have v: "set vals \<subseteq> set (type_stack s)"
      by (auto simp: operands_def dest: in_set_dropD in_set_takeD)
    let ?s1 = "set_operands vals s"
    have s1: "in_label ?s1" "operands ?s1 = vals" using set_operands_in_label [OF assms(1) v] by blast+
    have "fst (CheckTypeStackEnd d2 ?s1) = Result_Ok \<longleftrightarrow> operands ?s1 = []"
      using in_label_length [OF s1(1)] with_top_inside [OF in_label_inside [OF s1(1)]]
      by (auto simp: CheckTypeStackEnd_def report_def current_def [symmetric])
    then show ?thesis using Some s1(2)
      by (auto simp: OnEndLabel_def fst_also_check snd_also_check p step_ok_def)
  qed
qed

text \<open>C10. \<open>end\<close> is accepted exactly when the specification accepts it: popping the results of
  the block succeeds and empties the block's operands (an \<open>if\<close> without \<open>else\<close> must also have no
  results); accepted or not, the label is closed, and its results are on the enclosing stack.\<close>

theorem OnEnd_accepts:
  assumes "in_label s"
  shows "(fst (OnEnd s) = Result_Ok \<longleftrightarrow>
      spec_pops (unreachable (current s)) (rev (result_types (current s))) (operands s) = Some [] \<and>
      (label_type (current s) \<in> {LabelType_If, LabelType_IfExcept} \<longrightarrow> result_types (current s) = [])) \<and>
    label_stack (snd (OnEnd s)) = tl (label_stack s) \<and>
    type_stack (snd (OnEnd s)) = rev (nonvoid (result_types (current s))) @ below s"
proof
  let ?l = "current s"
  have i: "inside (type_stack_limit ?l) s" using assms by (rule in_label_inside)
  have e: "OnEnd s = also_check (CheckIfResults ?l)
      (OnEndLabel ?l (s_label_type_name (label_type ?l)) (s_label_type_name (label_type ?l))) s"
    by (simp add: OnEnd_def with_top_inside [OF i] current_def)
  have c: "in_label (snd (CheckIfResults ?l s)) \<and> current (snd (CheckIfResults ?l s)) = ?l \<and>
      operands (snd (CheckIfResults ?l s)) = operands s"
    using assms by (simp add: CheckIfResults_def)
  have "fst (CheckIfResults ?l s) = Result_Ok \<longleftrightarrow>
      (label_type ?l \<in> {LabelType_If, LabelType_IfExcept} \<longrightarrow> result_types ?l = [])"
    by (auto simp: CheckIfResults_def)
  then show "fst (OnEnd s) = Result_Ok \<longleftrightarrow>
      spec_pops (unreachable ?l) (rev (result_types ?l)) (operands s) = Some [] \<and>
      (label_type ?l \<in> {LabelType_If, LabelType_IfExcept} \<longrightarrow> result_types ?l = [])"
    using OnEndLabel_in_label [of "snd (CheckIfResults ?l s)"] c by (auto simp: e fst_also_check)
  show "label_stack (snd (OnEnd s)) = tl (label_stack s) \<and>
      type_stack (snd (OnEnd s)) = rev (nonvoid (result_types ?l)) @ below s"
    using closes_OnEnd [OF i] by (simp add: closes_def current_def below_def)
qed

theorem OnEnd_accepts_witness:
  "fst (OnEnd (PushType Type_I32 (snd (BeginFunction [Type_I32] empty_checker)))) = Result_Ok"
proof -
  let ?s = "PushType Type_I32 (snd (BeginFunction [Type_I32] empty_checker))"
  have "in_label ?s" "\<not> unreachable (current ?s)" "operands ?s = [Type_I32]" "result_types (current ?s) = [Type_I32]"
    "label_type (current ?s) = LabelType_Func"
    by (simp_all add: in_label_def stack_ok_def current_def operands_def PushType_def
        BeginFunction_def step_ok_def PushLabel_def empty_checker_def)
  with OnEnd_accepts [of ?s] show ?thesis by simp
qed

text \<open>C11. The two ways a client learns of a type error agree: the validator only listens to the
  error callback, the interpreter's reader only looks at the result. For every call except the
  two lane operations (and a misplaced \<open>else\<close>, \<open>catch\<close> or function end), the result is an error
  exactly when the callback was called.\<close>

theorem errors_are_reported:
  assumes "in_label s" "well_placed c s"
  shows "fst (run_call c s) = Result_Ok \<longleftrightarrow> errors (snd (run_call c s)) = errors s"
  using run_call_reports [OF in_label_inside [OF assms(1)] assms(2)] by auto

theorem errors_are_reported_witness:
  "fst (run_call Call_OnDrop (snd (BeginFunction [] empty_checker))) = Result_Ok \<longleftrightarrow>
   errors (snd (run_call Call_OnDrop (snd (BeginFunction [] empty_checker)))) = errors (snd (BeginFunction [] empty_checker))"
  by (rule errors_are_reported)
    (simp_all add: in_label_def stack_ok_def BeginFunction_def step_ok_def PushLabel_def empty_checker_def)

lemma OnSimdLaneOp_checks:
  assumes "GetSimdLaneCount e = Some n"
  obtains (one) "\<And>i s. OnSimdLaneOp e i s = CheckOpcode1 e (if ucast n \<le> i then
        PrintError (''lane index must be less than '' @ show_nat (unat n) @ '' (got '' @ show_nat (unat i) @ '')'') s else s)"
    | (two) "\<And>i s. OnSimdLaneOp e i s = CheckOpcode2 e (if ucast n \<le> i then
        PrintError (''lane index must be less than '' @ show_nat (unat n) @ '' (got '' @ show_nat (unat i) @ '')'') s else s)"
proof (cases "List.member [''I8X16ExtractLaneS'', ''I8X16ExtractLaneU'', ''I16X8ExtractLaneS'',
               ''I16X8ExtractLaneU'', ''I32X4ExtractLane'', ''F32X4ExtractLane'', ''I64X2ExtractLane'',
               ''F64X2ExtractLane''] (Opcode_enumerator e)")
  case True
  show ?thesis by (rule one) (simp only: OnSimdLaneOp_def assms option.case Let_def True if_True)
next
  case False
  then have r: "List.member [''I8X16ReplaceLane'', ''I16X8ReplaceLane'', ''I32X4ReplaceLane'',
               ''F32X4ReplaceLane'', ''I64X2ReplaceLane'', ''F64X2ReplaceLane''] (Opcode_enumerator e)"
    using lane_opcodes [OF assms] by blast
  show ?thesis by (rule two) (simp only: OnSimdLaneOp_def assms option.case Let_def False r if_False if_True)
qed

lemma CheckOpcode_PrintError:
  assumes "in_label s"
  shows "fst (CheckOpcode1 e (PrintError m s)) = fst (CheckOpcode1 e s)"
    "fst (CheckOpcode2 e (PrintError m s)) = fst (CheckOpcode2 e s)"
proof -
  have p: "fst (PopAndCheckSignature sig d (PrintError m s)) = fst (PopAndCheckSignature sig d s)" for sig d
  proof -
    have s': "in_label (PrintError m s)" using assms by simp
    obtain m1 m2 where
      "PopAndCheckSignature sig d s = (case spec_pops (unreachable (current s)) (rev sig) (operands s) of
         Some vals \<Rightarrow> (Result_Ok, set_operands vals s)
       | None \<Rightarrow> (Result_Error, set_operands (drop (length sig) (operands s)) (PrintError m1 s)))"
      "PopAndCheckSignature sig d (PrintError m s) = (case spec_pops (unreachable (current s)) (rev sig) (operands s) of
         Some vals \<Rightarrow> (Result_Ok, set_operands vals (PrintError m s))
       | None \<Rightarrow> (Result_Error, set_operands (drop (length sig) (operands s)) (PrintError m2 (PrintError m s))))"
      using PopAndCheckSignature_in_label [OF assms, of sig d] PopAndCheckSignature_in_label [OF s', of sig d]
      unfolding in_label_PrintError by blast
    then show ?thesis by (simp split: option.split)
  qed
  have "in_label (PrintError m s)" using assms by simp
  then show "fst (CheckOpcode1 e (PrintError m s)) = fst (CheckOpcode1 e s)"
    "fst (CheckOpcode2 e (PrintError m s)) = fst (CheckOpcode2 e s)"
    using assms
    by (simp_all add: CheckOpcode1_def CheckOpcode2_def fst_also_check step_ok_def PopAndCheck1Type_signature
        PopAndCheck2Types_signature p)
qed

text \<open>The lane operations break that agreement: the result does not depend on the lane index.
  An index that is out of range is reported to the callback only; a client that looks at the
  result, as the interpreter's reader does, does not see it.\<close>

lemma lane_index_not_an_error:
  assumes "in_label s" "GetSimdLaneCount e = Some n"
  shows "fst (OnSimdLaneOp e i s) = fst (OnSimdLaneOp e 0 s)"
  by (rule OnSimdLaneOp_checks [OF assms(2)]) (simp_all add: CheckOpcode_PrintError [OF assms(1)])

end
