(* ===== verification/WasmRt.thy ===== *)
theory WasmRt
  imports WabtPrelude
begin

text \<open>
  The runtime that C code generated from a WebAssembly module is linked with
  (\<^verbatim>\<open>wasm2c/wasm-rt.h\<close>, \<^verbatim>\<open>wasm2c/wasm-rt-impl.cpp\<close>): linear memory with checked accesses, the
  imported functions of the \<open>env\<close> module that work on it, the layout of the sandbox's address
  space, the table of function types and the table of callable functions.

  An operation takes the runtime state to an outcome and a state: it returns a value, jumps to
  the trap handler (\<open>longjmp\<close>), aborts the process, or accesses host memory outside the object
  it was given (\<open>Escape\<close>: undefined behaviour of the host program). \<open>Hang\<close> is an operation that
  does not return: a lock that is never released, or a recursion that used up its fuel. Assertions
  are those of a debug build: a failed one aborts.
\<close>

section \<open>Outcomes\<close>

datatype wasm_rt_trap = WASM_RT_TRAP_NONE | WASM_RT_TRAP_OOB | WASM_RT_TRAP_INT_OVERFLOW
  | WASM_RT_TRAP_DIV_BY_ZERO | WASM_RT_TRAP_INVALID_CONVERSION | WASM_RT_TRAP_UNREACHABLE
  | WASM_RT_TRAP_CALL_INDIRECT | WASM_RT_TRAP_EXHAUSTION

datatype 'a outcome = Ret 'a | Trap wasm_rt_trap | Abort | Escape | Hang

datatype wasm_rt_type = WASM_RT_I32 | WASM_RT_I64 | WASM_RT_F32 | WASM_RT_F64

section \<open>State\<close>

record func_type =
  ft_params :: "wasm_rt_type list"
  ft_results :: "wasm_rt_type list"

text \<open>A function pointer is a host address; 0 is the null pointer.\<close>

record wasm_rt_elem =
  elem_func_type :: u32
  elem_func :: u64

record wasm_rt_memory =
  mem_data :: "nat \<Rightarrow> u8"
  mem_pages :: u32
  mem_max_pages :: u32
  mem_size :: u32

record wasm_rt_table =
  tbl_data :: "wasm_rt_elem list"
  tbl_max_size :: u32
  tbl_size :: u32

record rt_state =
  g_func_types :: "func_type list"
  Z_envZ_memory :: wasm_rt_memory
  Z_envZ_table :: wasm_rt_table
  Z_envZ_memoryBase :: u32
  Z_envZ_tableBase :: u32
  Z_envZ_STACKTOP :: u32
  Z_envZ_STACK_MAX :: u32
  Z_envZ_DYNAMICTOP_PTR :: u32
  Z_envZ_tempDoublePtr :: u32
  lockMap :: "u32 \<Rightarrow> bool"
  setjmpId :: u32

type_synonym ('s, 'a) op = "'s \<Rightarrow> 'a outcome \<times> 's"
type_synonym 'a rt_op = "(rt_state, 'a) op"

definition rt_return :: "'a \<Rightarrow> ('s, 'a) op" where
  "rt_return x s = (Ret x, s)"

definition rt_bind :: "('s, 'a) op \<Rightarrow> ('a \<Rightarrow> ('s, 'b) op) \<Rightarrow> ('s, 'b) op" where
  "rt_bind f g s = (case f s of
     (Ret x, s1) \<Rightarrow> g x s1
   | (Trap t, s1) \<Rightarrow> (Trap t, s1)
   | (Abort, s1) \<Rightarrow> (Abort, s1)
   | (Escape, s1) \<Rightarrow> (Escape, s1)
   | (Hang, s1) \<Rightarrow> (Hang, s1))"

definition rt_then :: "('s, 'a) op \<Rightarrow> ('s, 'b) op \<Rightarrow> ('s, 'b) op" where
  "rt_then f g = rt_bind f (\<lambda>_. g)"

definition rt_get :: "('s \<Rightarrow> 'a) \<Rightarrow> ('s, 'a) op" where
  "rt_get f s = (Ret (f s), s)"

definition rt_modify :: "('s \<Rightarrow> 's) \<Rightarrow> ('s, unit) op" where
  "rt_modify f s = (Ret (), f s)"

definition rt_abort :: "('s, 'a) op" where
  "rt_abort s = (Abort, s)"

definition rt_assert :: "bool \<Rightarrow> ('s, unit) op" where
  "rt_assert b s = (if b then (Ret (), s) else (Abort, s))"

definition wasm_rt_trap_op :: "wasm_rt_trap \<Rightarrow> 'a rt_op" where
  "wasm_rt_trap_op code s = (if code = WASM_RT_TRAP_NONE then (Abort, s) else (Trap code, s))"

section \<open>Linear memory\<close>

definition PAGE_SIZE :: u32 where "PAGE_SIZE = 65536"
definition FUNC_TABLE_SIZE :: nat where "FUNC_TABLE_SIZE = 1024"

text \<open>
  \<open>MEMCHECK(mem, addr, t)\<close>: the sum is a 64-bit one and wraps. \<open>memcpy\<close> from or to
  \<open>mem->data[addr]\<close> stays inside the memory only if the unwrapped sum does.
\<close>

definition MEMCHECK :: "wasm_rt_memory \<Rightarrow> u64 \<Rightarrow> u64 \<Rightarrow> bool" where
  "MEMCHECK mem a n \<longleftrightarrow> \<not> (ucast (mem_size mem) < a + n)"

definition in_memory :: "wasm_rt_memory \<Rightarrow> nat \<Rightarrow> nat \<Rightarrow> bool" where
  "in_memory mem a n \<longleftrightarrow> a + n \<le> unat (mem_size mem)"

text \<open>Little-endian layout of a 32-bit value.\<close>

definition le_bytes :: "u32 \<Rightarrow> bytes" where
  "le_bytes v = [ucast v, ucast (drop_bit 8 v), ucast (drop_bit 16 v), ucast (drop_bit 24 v)]"

definition le_value :: "u8 \<Rightarrow> u8 \<Rightarrow> u8 \<Rightarrow> u8 \<Rightarrow> u32" where
  "le_value b0 b1 b2 b3 = ucast b0 OR push_bit 8 (ucast b1) OR push_bit 16 (ucast b2) OR push_bit 24 (ucast b3)"

definition read_u32 :: "(nat \<Rightarrow> u8) \<Rightarrow> nat \<Rightarrow> u32" where
  "read_u32 d a = le_value (d a) (d (a + 1)) (d (a + 2)) (d (a + 3))"

definition write_u32 :: "(nat \<Rightarrow> u8) \<Rightarrow> nat \<Rightarrow> u32 \<Rightarrow> nat \<Rightarrow> u8" where
  "write_u32 d a v = d(a := le_bytes v ! 0, a + 1 := le_bytes v ! 1, a + 2 := le_bytes v ! 2, a + 3 := le_bytes v ! 3)"

definition i32_load :: "u64 \<Rightarrow> u32 rt_op" where
  "i32_load addr s =
     (let mem = Z_envZ_memory s in
      if \<not> MEMCHECK mem addr 4 then wasm_rt_trap_op WASM_RT_TRAP_OOB s
      else if \<not> in_memory mem (unat addr) 4 then (Escape, s)
      else (Ret (read_u32 (mem_data mem) (unat addr)), s))"

definition i32_store :: "u64 \<Rightarrow> u32 \<Rightarrow> unit rt_op" where
  "i32_store addr value s =
     (let mem = Z_envZ_memory s in
      if \<not> MEMCHECK mem addr 4 then wasm_rt_trap_op WASM_RT_TRAP_OOB s
      else if \<not> in_memory mem (unat addr) 4 then (Escape, s)
      else (Ret (), s\<lparr>Z_envZ_memory := mem\<lparr>mem_data := write_u32 (mem_data mem) (unat addr) value\<rparr>\<rparr>))"

text \<open>Arguments that the code computes as \<open>uint32_t\<close> are zero-extended at the call.\<close>

definition load32 :: "u32 \<Rightarrow> u32 rt_op" where "load32 a = i32_load (ucast a)"
definition store32 :: "u32 \<Rightarrow> u32 \<Rightarrow> unit rt_op" where "store32 a v = i32_store (ucast a) v"

section \<open>Imported functions\<close>

definition writeStackCookie :: "unit rt_op" where
  "writeStackCookie s = rt_then (rt_assert (Z_envZ_STACK_MAX s AND 3 = 0))
     (rt_then (store32 (Z_envZ_STACK_MAX s - 4) 0x02135467)
       (store32 (Z_envZ_STACK_MAX s - 8) 0x89BACDFE)) s"

definition checkStackCookie :: "unit rt_op" where
  "checkStackCookie s =
     rt_bind (load32 (Z_envZ_STACK_MAX s - 4)) (\<lambda>c1.
     rt_bind (load32 (Z_envZ_STACK_MAX s - 8)) (\<lambda>c2.
       if c1 \<noteq> 0x02135467 \<or> c2 \<noteq> 0x89BACDFE then rt_abort
       else rt_bind (load32 0) (\<lambda>nc. if nc \<noteq> 0x63736d65 then rt_abort else rt_return ()))) s"

text \<open>\<open>invoke_vi\<close> to \<open>invoke_iiiii\<close> pass their arguments on to the module's \<open>dynCall\<close> of the same
  signature.\<close>

definition invoke_sig :: "(u32 list \<Rightarrow> 'r rt_op) \<Rightarrow> u32 list \<Rightarrow> 'r rt_op" where
  "invoke_sig dynCall ps = dynCall ps"

definition abortCalledVoid :: "unit rt_op" where "abortCalledVoid = rt_abort"
definition abortCalled :: "u32 \<Rightarrow> unit rt_op" where "abortCalled param = rt_abort"
definition abortOnCannotGrowMemoryCalled :: "u32 rt_op" where "abortOnCannotGrowMemoryCalled = rt_abort"
definition abortStackOverflowCalled :: "u32 \<Rightarrow> unit rt_op" where "abortStackOverflowCalled param = rt_abort"
definition nullFunc_X :: "u32 \<Rightarrow> unit rt_op" where "nullFunc_X param = rt_abort"
definition nullFunc_ii :: "u32 \<Rightarrow> unit rt_op" where "nullFunc_ii param = rt_abort"
definition nullFunc_iiii :: "u32 \<Rightarrow> unit rt_op" where "nullFunc_iiii param = rt_abort"

text \<open>\<open>errno_location\<close> is a function of the module.\<close>

definition setErrNo :: "u32 rt_op \<Rightarrow> u32 \<Rightarrow> unit rt_op" where
  "setErrNo errno_location value = rt_bind errno_location (\<lambda>loc. store32 loc value)"

definition enlargeMemory :: "u32 rt_op" where "enlargeMemory = abortOnCannotGrowMemoryCalled"

definition getTotalMemory :: u32 where
  "getTotalMemory = ucast (0x80000000 - ucast PAGE_SIZE :: u64)"

text \<open>\<open>memcpy\<close> on the host: both ranges must be inside the memory and must not overlap.\<close>

definition memcpy_big :: "u32 \<Rightarrow> u32 \<Rightarrow> u32 \<Rightarrow> u32 rt_op" where
  "memcpy_big dest src num s =
     (let mem = Z_envZ_memory s; d = unat dest; f = unat src; n = unat num in
      if \<not> in_memory mem d n \<or> \<not> in_memory mem f n then (Escape, s)
      else if n \<noteq> 0 \<and> d < f + n \<and> f < d + n then (Escape, s)
      else (Ret dest, s\<lparr>Z_envZ_memory := mem\<lparr>mem_data :=
        (\<lambda>a. if d \<le> a \<and> a < d + n then mem_data mem (f + (a - d)) else mem_data mem a)\<rparr>\<rparr>))"

text \<open>A \<open>std::mutex\<close>: locking a held mutex waits for ever on one thread, unlocking a free one is
  undefined.\<close>

definition lockImpl :: "u32 \<Rightarrow> unit rt_op" where
  "lockImpl lockId s = (if lockMap s lockId then (Hang, s) else (Ret (), s\<lparr>lockMap := (lockMap s)(lockId := True)\<rparr>))"

definition unlockImpl :: "u32 \<Rightarrow> unit rt_op" where
  "unlockImpl lockId s = (if lockMap s lockId then (Ret (), s\<lparr>lockMap := (lockMap s)(lockId := False)\<rparr>) else (Escape, s))"

text \<open>The signed sum may overflow; it wraps as it does on the targets (the checks rely on that).\<close>

definition sbrk_impl :: "u32 rt_op \<Rightarrow> u32 \<Rightarrow> u32 rt_op" where
  "sbrk_impl errno_location increment s =
     rt_bind (load32 (Z_envZ_DYNAMICTOP_PTR s)) (\<lambda>oldDynamicTop.
       let newDynamicTop = oldDynamicTop + increment in
       if (0 < sint increment \<and> sint newDynamicTop < sint oldDynamicTop) \<or> sint newDynamicTop < 0
       then abortOnCannotGrowMemoryCalled
       else rt_then (store32 (Z_envZ_DYNAMICTOP_PTR s) newDynamicTop)
         (if sint getTotalMemory < sint newDynamicTop then
            rt_bind enlargeMemory (\<lambda>r.
              if r = 0 then rt_then (store32 (Z_envZ_DYNAMICTOP_PTR s) oldDynamicTop)
                (rt_then (setErrNo errno_location 12) (rt_return (- 1)))
              else rt_return oldDynamicTop)
          else rt_return oldDynamicTop)) s"

text \<open>The two spellings of the module's \<open>__errno_location\<close>, \<open>None\<close> for the null pointer.\<close>

definition getErrLocation :: "u32 rt_op option \<Rightarrow> u32 rt_op option \<Rightarrow> u32 rt_op rt_op" where
  "getErrLocation E__errno_location E___errno_location =
     (case E__errno_location of Some f \<Rightarrow> rt_return f
      | None \<Rightarrow> (case E___errno_location of Some f \<Rightarrow> rt_return f | None \<Rightarrow> rt_abort))"

definition buildEnvironment :: "u32 \<Rightarrow> unit rt_op" where "buildEnvironment ptr = store32 ptr 0"
definition getenv_impl :: "u32 \<Rightarrow> u32 rt_op" where "getenv_impl name = rt_return 0"
definition gmtime_impl :: "u32 \<Rightarrow> u32 rt_op" where "gmtime_impl t = rt_abort"
definition testSetjmp :: "u32 \<Rightarrow> u32 \<Rightarrow> u32 \<Rightarrow> u32 rt_op" where "testSetjmp sid table n = rt_abort"
definition emscripten_longjmp :: "u32 \<Rightarrow> u32 \<Rightarrow> unit rt_op" where "emscripten_longjmp env value = rt_abort"

text \<open>
  \<open>saveSetjmp\<close>: the loop over the slots, then the recursive call on the grown table. \<open>setTempRet0\<close>
  and \<open>realloc\<close> are functions of the module.
\<close>

fun saveSetjmp_loop :: "(u32 \<Rightarrow> unit rt_op) \<Rightarrow> u32 \<Rightarrow> u32 \<Rightarrow> u32 \<Rightarrow> u32 \<Rightarrow> nat list \<Rightarrow> u32 option rt_op" where
  "saveSetjmp_loop setTempRet0 newValue label table n [] = rt_return None"
| "saveSetjmp_loop setTempRet0 newValue label table n (i # is) =
     (let loc = table + push_bit 3 (of_nat i) in
      rt_bind (load32 loc) (\<lambda>v.
        if v = 0 then
          rt_then (store32 loc newValue)
            (rt_then (store32 (loc + 4) label)
              (rt_then (store32 (loc + 8) 0)
                (rt_then (setTempRet0 n) (rt_return (Some table)))))
        else saveSetjmp_loop setTempRet0 newValue label table n is))"

fun saveSetjmp :: "nat \<Rightarrow> (u32 \<Rightarrow> unit rt_op) \<Rightarrow> (u32 \<Rightarrow> u32 \<Rightarrow> u32 rt_op) \<Rightarrow> u32 \<Rightarrow> u32 \<Rightarrow> u32 \<Rightarrow> u32 \<Rightarrow> u32 rt_op" where
  "saveSetjmp 0 setTempRet0 realloc env label table n = (\<lambda>s. (Hang, s))"
| "saveSetjmp (Suc fuel) setTempRet0 realloc env label table n =
     (\<lambda>s. let newValue = setjmpId s + 1 in
        rt_then (rt_modify (\<lambda>s. s\<lparr>setjmpId := newValue\<rparr>))
          (rt_then (store32 env newValue)
            (rt_bind (saveSetjmp_loop setTempRet0 newValue label table n [0..<unat n]) (\<lambda>r.
              case r of Some t \<Rightarrow> rt_return t
              | None \<Rightarrow>
                  rt_bind (realloc table (8 * (n * 2 + 1))) (\<lambda>table.
                  rt_bind (saveSetjmp fuel setTempRet0 realloc env label table (n * 2)) (\<lambda>table.
                  rt_then (setTempRet0 (n * 2)) (rt_return table)))))) s)"

section \<open>Layout of the address space\<close>

definition STACK_ALIGN :: u32 where "STACK_ALIGN = 16"

text \<open>Returns the address and the new \<open>STATICTOP\<close>.\<close>

definition staticAlloc :: "u32 \<Rightarrow> u32 \<Rightarrow> (u32 \<times> u32) rt_op" where
  "staticAlloc STATICTOP n =
     (let top = (STATICTOP + n + 15) AND (- 16) in
      rt_then (rt_assert (top < getTotalMemory)) (rt_return (STATICTOP, top)))"

text \<open>\<open>size / STACK_ALIGN\<close> is an integer division, so \<open>ceil\<close> has nothing left to round up.\<close>

definition alignMemory :: "u32 \<Rightarrow> u32" where
  "alignMemory n = (n div STACK_ALIGN) * STACK_ALIGN"

text \<open>\<open>STATIC_BUMP\<close> is a constant of the module.\<close>

definition wasm_set_constants :: "u32 \<Rightarrow> unit rt_op" where
  "wasm_set_constants STATIC_BUMP =
     (let TOTAL_STACK = 5242880; STATIC_BASE = 1024;
          tempDoublePtr = STATIC_BASE + STATIC_BUMP in
      rt_then (rt_assert (tempDoublePtr mod 8 = 0))
        (rt_bind (staticAlloc (tempDoublePtr + 16) 4) (\<lambda>(DYNAMICTOP_PTR, STATICTOP).
          let STACK_BASE = alignMemory STATICTOP;
              STACK_MAX = STACK_BASE + TOTAL_STACK;
              DYNAMIC_BASE = alignMemory STACK_MAX in
          rt_then (store32 DYNAMICTOP_PTR DYNAMIC_BASE)
            (rt_then (rt_assert (DYNAMIC_BASE < getTotalMemory))
              (rt_modify (\<lambda>s. s\<lparr>Z_envZ_STACKTOP := STACK_BASE, Z_envZ_STACK_MAX := STACK_MAX,
                 Z_envZ_DYNAMICTOP_PTR := DYNAMICTOP_PTR, Z_envZ_tempDoublePtr := tempDoublePtr\<rparr>))))))"

text \<open>\<open>stackSave\<close> and \<open>stackRestore\<close> are functions of the module.\<close>

definition wasm_set_stack :: "u32 rt_op \<Rightarrow> (u32 \<Rightarrow> unit rt_op) \<Rightarrow> unit rt_op" where
  "wasm_set_stack stackSave stackRestore =
     rt_bind stackSave (\<lambda>stack.
       if stack = 0 then rt_bind (rt_get Z_envZ_STACKTOP) stackRestore else rt_return ())"

section \<open>Memory and table objects\<close>

text \<open>\<open>calloc\<close> gives a zeroed block of \<open>memory->size\<close> bytes; running out of host memory is not modelled.\<close>

definition wasm_rt_allocate_memory :: "u32 \<Rightarrow> u32 \<Rightarrow> wasm_rt_memory" where
  "wasm_rt_allocate_memory initial_pages max_pages =
     \<lparr>mem_data = (\<lambda>_. 0), mem_pages = initial_pages, mem_max_pages = max_pages,
      mem_size = initial_pages * PAGE_SIZE\<rparr>"

definition null_elem :: wasm_rt_elem where
  "null_elem = \<lparr>elem_func_type = 0, elem_func = 0\<rparr>"

definition wasm_rt_allocate_table_real :: "u32 \<Rightarrow> u32 \<Rightarrow> wasm_rt_table" where
  "wasm_rt_allocate_table_real elements max_elements =
     \<lparr>tbl_data = replicate (unat elements) null_elem, tbl_max_size = max_elements, tbl_size = elements\<rparr>"

definition wasm_rt_allocate_table :: "u32 \<Rightarrow> u32 \<Rightarrow> wasm_rt_table rt_op" where
  "wasm_rt_allocate_table elements max_elements = rt_get Z_envZ_table"

definition wasm_rt_grow_memory :: "u32 \<Rightarrow> u32 rt_op" where
  "wasm_rt_grow_memory pages = rt_abort"

text \<open>
  The initialisation of a module. What the module itself provides are parameters: the static
  data size, \<open>init\<close>, the stack accessors, the address of \<open>errno\<close> and the constructors. The
  assignments of the imported functions to their slots, and \<open>initSyscalls\<close>, do not touch this state.
\<close>

definition wasm_init_module ::
  "u32 \<Rightarrow> unit rt_op \<Rightarrow> u32 rt_op \<Rightarrow> (u32 \<Rightarrow> unit rt_op) \<Rightarrow> u32 rt_op option \<Rightarrow> u32 rt_op option \<Rightarrow> unit rt_op \<Rightarrow> unit rt_op" where
  "wasm_init_module STATIC_BUMP init stackSave stackRestore errno1 errno2 ctors =
     rt_then (rt_modify (\<lambda>s. s\<lparr>Z_envZ_memoryBase := 1024,
         Z_envZ_memory := wasm_rt_allocate_memory (getTotalMemory div PAGE_SIZE) (getTotalMemory div PAGE_SIZE),
         Z_envZ_tableBase := 0,
         Z_envZ_table := wasm_rt_allocate_table_real (of_nat FUNC_TABLE_SIZE) (of_nat FUNC_TABLE_SIZE)\<rparr>))
       (rt_then (wasm_set_constants STATIC_BUMP)
         (rt_then init
           (rt_then (wasm_set_stack stackSave stackRestore)
             (rt_then (getErrLocation errno1 errno2)
               (rt_then (store32 0 0x63736d65)
                 (rt_then writeStackCookie
                   (rt_then checkStackCookie ctors)))))))"

section \<open>Function types and functions\<close>

definition func_types_are_equal :: "func_type \<Rightarrow> func_type \<Rightarrow> bool" where
  "func_types_are_equal a b \<longleftrightarrow>
     \<not> (length (ft_params a) \<noteq> length (ft_params b) \<or> length (ft_results a) \<noteq> length (ft_results b)) \<and>
     list_all (\<lambda>i. ft_params a ! i = ft_params b ! i) [0..<length (ft_params a)] \<and>
     list_all (\<lambda>i. ft_results a ! i = ft_results b ! i) [0..<length (ft_results a)]"

text \<open>The search loop: the position of the first equal type.\<close>

fun find_func_type :: "func_type \<Rightarrow> func_type list \<Rightarrow> nat \<Rightarrow> nat option" where
  "find_func_type ft [] i = None"
| "find_func_type ft (t # ts) i = (if func_types_are_equal t ft then Some i else find_func_type ft ts (i + 1))"

definition wasm_rt_register_func_type :: "wasm_rt_type list \<Rightarrow> wasm_rt_type list \<Rightarrow> u32 rt_op" where
  "wasm_rt_register_func_type params results s =
     (let ft = \<lparr>ft_params = params, ft_results = results\<rparr> in
      case find_func_type ft (g_func_types s) 0 of
        Some i \<Rightarrow> (Ret (of_nat i + 1), s)
      | None \<Rightarrow> (Ret (of_nat (length (g_func_types s)) + 1), s\<lparr>g_func_types := g_func_types s @ [ft]\<rparr>))"

text \<open>The second registration function takes its lists as vectors; its body is otherwise a copy.\<close>

definition wasm_rt_register_func_type_with_lists :: "wasm_rt_type list \<Rightarrow> wasm_rt_type list \<Rightarrow> u32 rt_op" where
  "wasm_rt_register_func_type_with_lists params results s =
     (let ft = \<lparr>ft_params = params, ft_results = results\<rparr> in
      case find_func_type ft (g_func_types s) 0 of
        Some i \<Rightarrow> (Ret (of_nat i + 1), s)
      | None \<Rightarrow> (Ret (of_nat (length (g_func_types s)) + 1), s\<lparr>g_func_types := g_func_types s @ [ft]\<rparr>))"

fun find_free_slot :: "wasm_rt_elem list \<Rightarrow> nat list \<Rightarrow> nat option" where
  "find_free_slot data [] = None"
| "find_free_slot data (i # is) = (if elem_func (data ! i) = 0 then Some i else find_free_slot data is)"

definition wasm_rt_register_func :: "u64 \<Rightarrow> u32 \<Rightarrow> u32 rt_op" where
  "wasm_rt_register_func func funcType s =
     (let data = tbl_data (Z_envZ_table s) in
      case find_free_slot data [1..<FUNC_TABLE_SIZE] of
        Some i \<Rightarrow> (Ret (of_nat i), s\<lparr>Z_envZ_table := (Z_envZ_table s)\<lparr>tbl_data :=
          data[i := \<lparr>elem_func_type = funcType, elem_func = func\<rparr>]\<rparr>\<rparr>)
      | None \<Rightarrow> (Abort, s))"

definition wasm_ret_unregister_func :: "u32 \<Rightarrow> unit rt_op" where
  "wasm_ret_unregister_func slotNumber s =
     (if unat slotNumber < FUNC_TABLE_SIZE then
        (Ret (), s\<lparr>Z_envZ_table := (Z_envZ_table s)\<lparr>tbl_data :=
          (tbl_data (Z_envZ_table s))[unat slotNumber := null_elem]\<rparr>\<rparr>)
      else (Ret (), s))"

definition wasm_rt_get_registered_func :: "u32 \<Rightarrow> u64 rt_op" where
  "wasm_rt_get_registered_func slotNumber s =
     (if unat slotNumber < FUNC_TABLE_SIZE then (Ret (elem_func (tbl_data (Z_envZ_table s) ! unat slotNumber)), s)
      else (Ret 0, s))"

end
