(* ===== verification/Sandbox.thy ===== *)
theory Sandbox
  imports WasmRt
begin

text \<open>
  The host's side of the sandbox (\<^verbatim>\<open>wasm2c/wasm_sandbox.h\<close>, \<^verbatim>\<open>wasm2c/wasm_sandbox.cpp\<close>): a loaded
  module with its runtime, the translation of pointers between the host's address space and the
  module's, calls into the module and callbacks out of it.

  There is one sandbox and one thread. The C++ templates are modelled over the classes of types they
  are selected on: \<open>cxx_type\<close> for the type, \<open>cxx_val\<close> for a value of it. Values that a
  WebAssembly function takes and returns are \<open>wasm_val\<close>s, floats by their bits. The mutex around the
  callback maps has no effect on one thread.
\<close>

section \<open>State\<close>

datatype wasm_val = V_i32 u32 | V_i64 u64 | V_f32 u32 | V_f64 u64 | V_void

datatype cxx_type = Fund32 | Fund64 | Float | Double | Pointer | Class nat

datatype cxx_val = C_fund32 u32 | C_fund64 u64 | C_float u32 | C_double u64 | C_pointer u64 | C_class bytes

record callback =
  callbackSlot :: u32
  originalCallback :: u64
  callbackStub_addr :: u64

record sandbox =
  this_addr :: u64
  ExportPrefix :: string
  wasm_malloc :: u64
  wasm_free :: u64
  wasm_memory :: u64
  wasm_memory_size :: u64
  registerCallbackMap :: "u32 \<Rightarrow> u64 option"
  callbackStateMap :: "u32 \<Rightarrow> u64 option"

text \<open>
  The host: the runtime of the loaded module, the sandbox object, the thread's current sandbox (0 is
  none), the frame that the thread's \<open>jmp_buf\<close> was last set in, and the frames entered so far.
\<close>

record host =
  lib_rt :: rt_state
  sbx :: sandbox
  CurrThreadSandbox :: u64
  jmp_frame :: nat
  next_frame :: nat

type_synonym 'a host_op = "(host, 'a) op"

text \<open>A function of the module or a host function: it may call back into the host.\<close>

type_synonym wasm_fn = "wasm_val list \<Rightarrow> wasm_val host_op"

definition in_lib :: "'a rt_op \<Rightarrow> 'a host_op" where
  "in_lib f h = (case f (lib_rt h) of (r, s) \<Rightarrow> (r, h\<lparr>lib_rt := s\<rparr>))"

section \<open>Pointers\<close>

definition getUnsandboxedPointer :: "sandbox \<Rightarrow> u64 \<Rightarrow> u64 option" where
  "getUnsandboxedPointer sb p =
     (let pVal = p AND 0xFFFFFFFF in
      if pVal = 0 then Some 0
      else if pVal < wasm_memory_size sb then Some (pVal + wasm_memory sb)
      else None)"

definition getSandboxedPointer :: "sandbox \<Rightarrow> u64 \<Rightarrow> u64 option" where
  "getSandboxedPointer sb p =
     (if p = 0 then Some 0
      else if p = wasm_memory sb then None
      else if p > wasm_memory sb \<and> p - wasm_memory sb < wasm_memory_size sb then Some (p - wasm_memory sb)
      else None)"

definition isAddressInNonSandboxMemoryOrNull :: "sandbox \<Rightarrow> u64 \<Rightarrow> bool" where
  "isAddressInNonSandboxMemoryOrNull sb p \<longleftrightarrow>
     (let wasm_memory_end = wasm_memory sb + wasm_memory_size sb in
      p = 0 \<or> p < wasm_memory sb \<or> p \<ge> wasm_memory_end)"

definition isAddressInSandboxMemoryOrNull :: "sandbox \<Rightarrow> u64 \<Rightarrow> bool" where
  "isAddressInSandboxMemoryOrNull sb p \<longleftrightarrow>
     (let wasm_memory_end = wasm_memory sb + wasm_memory_size sb in
      p = 0 \<or> \<not> (p < wasm_memory sb \<or> p \<ge> wasm_memory_end))"

definition sandbox_getTotalMemory :: "sandbox \<Rightarrow> u64" where
  "sandbox_getTotalMemory sb = wasm_memory_size sb"

definition getSandboxMemoryBase :: "sandbox \<Rightarrow> u64" where
  "getSandboxMemoryBase sb = wasm_memory sb"

text \<open>The translations in a host operation: the failures abort.\<close>

definition or_abort :: "'a option \<Rightarrow> 'a host_op" where
  "or_abort r = (case r of Some x \<Rightarrow> rt_return x | None \<Rightarrow> rt_abort)"

definition unsandboxed :: "u64 \<Rightarrow> u64 host_op" where
  "unsandboxed p = rt_bind (rt_get sbx) (\<lambda>sb. or_abort (getUnsandboxedPointer sb p))"

definition sandboxed :: "u64 \<Rightarrow> u64 host_op" where
  "sandboxed p = rt_bind (rt_get sbx) (\<lambda>sb. or_abort (getSandboxedPointer sb p))"

text \<open>The host reads an object: it must lie in the linear memory.\<close>

definition host_read :: "u64 \<Rightarrow> nat \<Rightarrow> bytes host_op" where
  "host_read p n h =
     (let base = unat (wasm_memory (sbx h)); a = unat p in
      if base \<le> a \<and> a + n \<le> base + unat (wasm_memory_size (sbx h))
      then (Ret (List.map (\<lambda>i. mem_data (Z_envZ_memory (lib_rt h)) (a - base + i)) [0..<n]), h)
      else (Escape, h))"

section \<open>Arguments and return values\<close>

definition getWasmType :: "cxx_type \<Rightarrow> wasm_rt_type" where
  "getWasmType t = (case t of Fund32 \<Rightarrow> WASM_RT_I32 | Fund64 \<Rightarrow> WASM_RT_I64 | Float \<Rightarrow> WASM_RT_F32
     | Double \<Rightarrow> WASM_RT_F64 | Pointer \<Rightarrow> WASM_RT_I32 | Class _ \<Rightarrow> WASM_RT_I32)"

definition getCallbackReturnWasmVec :: "cxx_type option \<Rightarrow> wasm_rt_type list" where
  "getCallbackReturnWasmVec r = (case r of None \<Rightarrow> [] | Some t \<Rightarrow> [getWasmType t])"

text \<open>\<open>uint32_t ret = (uintptr_t) arg\<close> keeps the low 32 bits of a pointer. The overload for class types
  converts \<open>void*\<close> to \<open>T*\<close> implicitly and does not compile when it is used: it is not modelled.\<close>

definition serializeArg :: "cxx_val \<Rightarrow> wasm_val option" where
  "serializeArg arg = (case arg of
     C_fund32 v \<Rightarrow> Some (V_i32 v)
   | C_fund64 v \<Rightarrow> Some (V_i64 v)
   | C_float v \<Rightarrow> Some (V_f32 v)
   | C_double v \<Rightarrow> Some (V_f64 v)
   | C_pointer p \<Rightarrow> Some (V_i32 (ucast p))
   | C_class _ \<Rightarrow> None)"

definition serialize_callback :: "callback \<Rightarrow> wasm_val" where
  "serialize_callback arg = V_i32 (callbackSlot arg)"

text \<open>What a caller reads of a value returned as another type than the callee's (a mismatch of the
  types is undefined in C++ and is not given a value here).\<close>

fun convertReturnValue :: "cxx_type \<Rightarrow> wasm_val \<Rightarrow> cxx_val host_op" where
  "convertReturnValue Fund32 (V_i32 v) = rt_return (C_fund32 v)"
| "convertReturnValue Fund64 (V_i64 v) = rt_return (C_fund64 v)"
| "convertReturnValue Float (V_f32 v) = rt_return (C_float v)"
| "convertReturnValue Double (V_f64 v) = rt_return (C_double v)"
| "convertReturnValue Pointer (V_i32 v) = rt_bind (unsandboxed (ucast v)) (\<lambda>p. rt_return (C_pointer p))"
| "convertReturnValue (Class n) (V_i32 v) =
     rt_bind (unsandboxed (ucast v)) (\<lambda>p. rt_bind (host_read p n) (\<lambda>bs. rt_return (C_class bs)))"
| "convertReturnValue _ _ = (\<lambda>h. (Escape, h))"

section \<open>Calls into the module\<close>

definition getCurrThreadSandbox :: "u64 host_op" where "getCurrThreadSandbox = rt_get CurrThreadSandbox"

definition setCurrThreadSandbox :: "u64 \<Rightarrow> unit host_op" where
  "setCurrThreadSandbox sb = rt_modify (\<lambda>h. h\<lparr>CurrThreadSandbox := sb\<rparr>)"

text \<open>
  \<open>invokeFunctionWithArgs\<close>: the body is the call itself, with the conversion of its result. The list
  of allocated pointers is empty, since only class arguments allocate.
\<close>

definition invokeFunctionWithArgs :: "'a host_op \<Rightarrow> 'a host_op" where
  "invokeFunctionWithArgs call =
     rt_bind getCurrThreadSandbox (\<lambda>oldCurrThreadSandbox.
     rt_bind (rt_get (\<lambda>h. this_addr (sbx h))) (\<lambda>this.
     rt_then (setCurrThreadSandbox this)
       (rt_bind call (\<lambda>ret.
        rt_then (setCurrThreadSandbox oldCurrThreadSandbox)
          (rt_then (in_lib checkStackCookie) (rt_return ret))))))"

text \<open>
  \<open>setjmp\<close> and the handler: a trap jumps to the frame that the buffer was last set in. If that is
  this frame the handler aborts; a jump to a frame that has returned is undefined.
\<close>

definition guarded :: "'a host_op \<Rightarrow> 'a host_op" where
  "guarded body h =
     (let frame = next_frame h in
      case body (h\<lparr>jmp_frame := frame, next_frame := frame + 1\<rparr>) of
        (Trap t, h1) \<Rightarrow> if jmp_frame h1 = frame then (Abort, h1) else (Escape, h1)
      | (Ret x, h1) \<Rightarrow> (Ret x, h1)
      | (Abort, h1) \<Rightarrow> (Abort, h1)
      | (Escape, h1) \<Rightarrow> (Escape, h1)
      | (Hang, h1) \<Rightarrow> (Hang, h1))"

fun serializeArgs :: "cxx_val list \<Rightarrow> wasm_val list option" where
  "serializeArgs [] = Some []"
| "serializeArgs (a # as) = (case serializeArg a of None \<Rightarrow> None
     | Some v \<Rightarrow> (case serializeArgs as of None \<Rightarrow> None | Some vs \<Rightarrow> Some (v # vs)))"

text \<open>Calls whose result is not of class type; \<open>malloc\<close> and \<open>free\<close> are such calls.\<close>

definition invokeRet :: "cxx_type \<Rightarrow> wasm_fn \<Rightarrow> wasm_val list \<Rightarrow> cxx_val host_op" where
  "invokeRet tret fnPtr args = guarded (invokeFunctionWithArgs (rt_bind (fnPtr args) (convertReturnValue tret)))"

definition invokeVoid :: "wasm_fn \<Rightarrow> wasm_val list \<Rightarrow> unit host_op" where
  "invokeVoid fnPtr args = guarded (invokeFunctionWithArgs (rt_then (fnPtr args) (rt_return ())))"

text \<open>
  The module's \<open>malloc\<close> is called with the 64-bit \<open>size_t\<close>; its parameter is an i32, so it sees the low
  half. \<open>uintptr_t ret\<close> holds the \<open>uint32_t\<close> result.
\<close>

definition mallocInSandbox :: "wasm_fn \<Rightarrow> u32 rt_op \<Rightarrow> u64 \<Rightarrow> u64 host_op" where
  "mallocInSandbox malloc_fn wasm_get_heap_base n =
     rt_bind (invokeRet Fund32 malloc_fn [V_i32 (ucast n)]) (\<lambda>r.
       case r of
         C_fund32 ret \<Rightarrow>
           (if ret \<noteq> 0 then
              rt_bind (in_lib wasm_get_heap_base) (\<lambda>heap_base.
                if (ucast ret :: u64) < ucast heap_base then rt_abort else unsandboxed (ucast ret))
            else unsandboxed (ucast ret))
       | _ \<Rightarrow> (\<lambda>h. (Escape, h)))"

definition freeInSandbox :: "wasm_fn \<Rightarrow> u64 \<Rightarrow> unit host_op" where
  "freeInSandbox free_fn ptr =
     rt_bind (sandboxed ptr) (\<lambda>ret. invokeVoid free_fn [V_i32 (ucast ret)])"

text \<open>A result of class type is returned through a pointer to a block of the sandbox.\<close>

definition invokeFunctionWithArgsAndRetParam ::
  "wasm_fn \<Rightarrow> wasm_fn \<Rightarrow> u32 rt_op \<Rightarrow> cxx_type \<Rightarrow> wasm_fn \<Rightarrow> wasm_val list \<Rightarrow> cxx_val host_op" where
  "invokeFunctionWithArgsAndRetParam malloc_fn free_fn heap_base tret fnPtr args =
     (case tret of
        Class n \<Rightarrow>
          rt_bind (mallocInSandbox malloc_fn heap_base (of_nat n)) (\<lambda>ret.
          rt_bind (sandboxed ret) (\<lambda>retp.
          rt_bind (fnPtr (V_i32 (ucast retp) # args)) (\<lambda>_.
          rt_bind (host_read ret n) (\<lambda>retCopy.
          rt_then (freeInSandbox free_fn ret) (rt_return (C_class retCopy))))))
      | _ \<Rightarrow> rt_bind (fnPtr args) (convertReturnValue tret))"

definition invokeFunction ::
  "wasm_fn \<Rightarrow> wasm_fn \<Rightarrow> u32 rt_op \<Rightarrow> cxx_type option \<Rightarrow> wasm_fn \<Rightarrow> cxx_val list \<Rightarrow> cxx_val option host_op" where
  "invokeFunction malloc_fn free_fn heap_base tret fnPtr params =
     (case serializeArgs params of
        None \<Rightarrow> (\<lambda>h. (Escape, h))
      | Some args \<Rightarrow> guarded (invokeFunctionWithArgs
          (case tret of
             None \<Rightarrow> rt_then (fnPtr args) (rt_return None)
           | Some t \<Rightarrow> rt_bind (invokeFunctionWithArgsAndRetParam malloc_fn free_fn heap_base t fnPtr args)
               (\<lambda>r. rt_return (Some r)))))"

section \<open>Callbacks\<close>

definition registerCallbackImpl ::
  "u64 \<Rightarrow> u64 \<Rightarrow> u64 \<Rightarrow> wasm_rt_type list \<Rightarrow> wasm_rt_type list \<Rightarrow> callback host_op" where
  "registerCallbackImpl state callback callbackStub params results =
     rt_bind (in_lib (wasm_rt_register_func_type_with_lists params results)) (\<lambda>func_type.
     rt_bind (in_lib (wasm_rt_register_func callbackStub func_type)) (\<lambda>slot.
     rt_then (rt_modify (\<lambda>h. h\<lparr>sbx := (sbx h)\<lparr>
         registerCallbackMap := (registerCallbackMap (sbx h))(slot \<mapsto> callback),
         callbackStateMap := (callbackStateMap (sbx h))(slot \<mapsto> state)\<rparr>\<rparr>))
       (rt_return \<lparr>callbackSlot = slot, originalCallback = callback, callbackStub_addr = callbackStub\<rparr>)))"

definition registerInternalCallbackImpl :: "u64 \<Rightarrow> wasm_rt_type list \<Rightarrow> wasm_rt_type list \<Rightarrow> u64 host_op" where
  "registerInternalCallbackImpl callback params results =
     rt_bind (in_lib (wasm_rt_register_func_type_with_lists params results)) (\<lambda>func_type.
     rt_bind (in_lib (wasm_rt_register_func callback func_type)) (\<lambda>slot. rt_return (ucast slot)))"

text \<open>\<open>stub\<close> is the address of the instance of \<open>callbackStub\<close> for the callback's types.\<close>

definition registerCallback :: "u64 \<Rightarrow> cxx_type option \<Rightarrow> cxx_type list \<Rightarrow> u64 \<Rightarrow> u64 \<Rightarrow> callback host_op" where
  "registerCallback stub tret targs callback state =
     registerCallbackImpl state callback stub (List.map getWasmType targs) (getCallbackReturnWasmVec tret)"

definition registerInternalCallback :: "cxx_type option \<Rightarrow> cxx_type list \<Rightarrow> u64 \<Rightarrow> u64 host_op" where
  "registerInternalCallback tret targs callback =
     registerInternalCallbackImpl callback (List.map getWasmType targs) (getCallbackReturnWasmVec tret)"

text \<open>\<open>None\<close> is the null pointer.\<close>

definition unregisterCallback :: "callback option \<Rightarrow> unit host_op" where
  "unregisterCallback callback =
     (case callback of
        None \<Rightarrow> rt_return ()
      | Some cb \<Rightarrow>
          rt_then (rt_modify (\<lambda>h. h\<lparr>sbx := (sbx h)\<lparr>
              registerCallbackMap := (registerCallbackMap (sbx h))(callbackSlot cb := None),
              callbackStateMap := (callbackStateMap (sbx h))(callbackSlot cb := None)\<rparr>\<rparr>))
            (in_lib (wasm_ret_unregister_func (callbackSlot cb))))"

definition getUnsandboxedFuncPointer :: "u64 \<Rightarrow> u64 host_op" where
  "getUnsandboxedFuncPointer p = in_lib (wasm_rt_get_registered_func (ucast p))"

text \<open>Converts the arguments one by one, first to last, and then calls the host function.\<close>

fun invokeCallbackTarget :: "(cxx_val list \<Rightarrow> 'r host_op) \<Rightarrow> cxx_type list \<Rightarrow> wasm_val list \<Rightarrow> cxx_val list \<Rightarrow> 'r host_op" where
  "invokeCallbackTarget targetFunc (t # ts) (a # as) done =
     rt_bind (convertReturnValue t a) (\<lambda>v. invokeCallbackTarget targetFunc ts as (done @ [v]))"
| "invokeCallbackTarget targetFunc _ _ done = targetFunc done"

text \<open>
  \<open>callbackStubImpl\<close>: the slot is that of the indirect call being made. A slot that is not in the
  maps gives a null function: \<open>operator[]\<close> inserts it. \<open>host_fn\<close> gives the host's functions by
  address; they take the state first.
\<close>

definition map_at :: "(u32 \<Rightarrow> u64 option) \<Rightarrow> u32 \<Rightarrow> u64" where
  "map_at m k = (case m k of Some v \<Rightarrow> v | None \<Rightarrow> 0)"

definition callbackStubImpl ::
  "(u64 \<Rightarrow> u64 \<Rightarrow> cxx_val list \<Rightarrow> cxx_val option host_op) \<Rightarrow> u32 rt_op \<Rightarrow> cxx_type list \<Rightarrow> wasm_val list \<Rightarrow> wasm_val host_op" where
  "callbackStubImpl host_fn wasm_get_current_indirect_call_num targs args =
     rt_bind (in_lib wasm_get_current_indirect_call_num) (\<lambda>slot.
     rt_bind (rt_get (\<lambda>h. (map_at (registerCallbackMap (sbx h)) slot, map_at (callbackStateMap (sbx h)) slot))) (\<lambda>(f, state).
     rt_then (rt_modify (\<lambda>h. h\<lparr>sbx := (sbx h)\<lparr>
         registerCallbackMap := (registerCallbackMap (sbx h))(slot \<mapsto> f),
         callbackStateMap := (callbackStateMap (sbx h))(slot \<mapsto> state)\<rparr>\<rparr>))
       (rt_bind (invokeCallbackTarget (\<lambda>vs. if f = 0 then (\<lambda>h. (Escape, h)) else host_fn f state vs) targs args [])
         (\<lambda>r. case r of None \<Rightarrow> rt_return V_void
            | Some v \<Rightarrow> (case serializeArg v of Some w \<Rightarrow> rt_return w | None \<Rightarrow> (\<lambda>h. (Escape, h)))))))"

definition callbackStub ::
  "(u64 \<Rightarrow> u64 \<Rightarrow> cxx_val list \<Rightarrow> cxx_val option host_op) \<Rightarrow> u32 rt_op \<Rightarrow> cxx_type list \<Rightarrow> wasm_val list \<Rightarrow> wasm_val host_op" where
  "callbackStub host_fn wasm_get_current_indirect_call_num targs args h =
     (if CurrThreadSandbox h \<noteq> this_addr (sbx h) then (Escape, h)
      else callbackStubImpl host_fn wasm_get_current_indirect_call_num targs args h)"

section \<open>Creation\<close>

text \<open>
  The dynamic loader is a parameter: whether the library opens, the address of a symbol (0 when it is
  missing) and what is stored there. The result is the new sandbox, \<open>None\<close> for the null pointer.
\<close>

definition symbolLookup :: "(string \<Rightarrow> u64) \<Rightarrow> (u64 \<Rightarrow> u64) \<Rightarrow> string \<Rightarrow> string \<Rightarrow> u64" where
  "symbolLookup dlsym deref prefix name =
     (let symbolAddr = dlsym (prefix @ name) in
      if symbolAddr = 0 \<or> deref symbolAddr = 0 then 0 else deref symbolAddr)"

definition createSandbox ::
  "(string \<Rightarrow> bool) \<Rightarrow> (string \<Rightarrow> u64) \<Rightarrow> (u64 \<Rightarrow> u64) \<Rightarrow> u64 \<Rightarrow> unit rt_op \<Rightarrow> u64 \<Rightarrow> string \<Rightarrow> rt_state \<Rightarrow> sandbox option outcome \<times> rt_state" where
  "createSandbox dlopen dlsym deref new_addr init_module data_addr path s =
     (if \<not> dlopen path then (Ret None, s)
      else if dlsym ''wasm_init_module'' = 0 then (Ret None, s)
      else rt_then init_module
        (\<lambda>s. if dlsym ''wasm_get_setjmp_buff'' = 0 then (Ret None, s)
          else if list_ex (\<lambda>name. dlsym name = 0)
              [''wasm_rt_register_func_type_with_lists'', ''wasm_rt_register_func'', ''wasm_ret_unregister_func'',
               ''wasm_rt_get_registered_func'', ''wasm_get_current_indirect_call_num'', ''checkStackCookie'',
               ''wasm_get_heap_base'', ''Z_envZ_memory''] then (Ret None, s)
          else (Ret (Some \<lparr>this_addr = new_addr, ExportPrefix = ''_E'',
             wasm_malloc = symbolLookup dlsym deref ''_E'' ''malloc'', wasm_free = symbolLookup dlsym deref ''_E'' ''free'',
             wasm_memory = data_addr, wasm_memory_size = ucast (mem_size (Z_envZ_memory s)),
             registerCallbackMap = (\<lambda>_. None), callbackStateMap = (\<lambda>_. None)\<rparr>), s)) s)"

end
