(* ===== verification/WasmRtSpec.thy ===== *)
theory WasmRtSpec
  imports WasmRt
begin

text \<open>
  What the sandbox runtime promises: checked accesses stay in the linear memory and obey the
  laws of a store, the layout of the address space is ordered, the stack cookie detects every
  overwrite, \<open>sbrk\<close> keeps the heap top in the memory, equal function types share one number, and
  the function table hands out and frees slots.
\<close>

section \<open>Sequencing\<close>

lemma rt_bind_simps [simp]:
  "f s = (Ret x, s1) \<Longrightarrow> rt_bind f g s = g x s1"
  "f s = (Trap t, s1) \<Longrightarrow> rt_bind f g s = (Trap t, s1)"
  "f s = (Abort, s1) \<Longrightarrow> rt_bind f g s = (Abort, s1)"
  "f s = (Escape, s1) \<Longrightarrow> rt_bind f g s = (Escape, s1)"
  "f s = (Hang, s1) \<Longrightarrow> rt_bind f g s = (Hang, s1)"
  by (simp_all add: rt_bind_def)

lemma rt_bind_Ret:
  assumes "rt_bind f g s = (Ret y, s2)"
  obtains x s1 where "f s = (Ret x, s1)" "g x s1 = (Ret y, s2)"
  using assms by (auto simp: rt_bind_def split: prod.splits outcome.splits)

lemma rt_then_Ret:
  assumes "rt_then f g s = (Ret y, s2)"
  obtains x s1 where "f s = (Ret x, s1)" "g s1 = (Ret y, s2)"
  using assms unfolding rt_then_def by (rule rt_bind_Ret)

lemma rt_assert_Ret [simp]: "rt_assert b s = (Ret u, s1) \<longleftrightarrow> b \<and> s1 = s"
  by (auto simp: rt_assert_def)

section \<open>Checked memory\<close>

text \<open>
  The contract of a memory with checked accesses: which addresses can be loaded and stored, and
  what a load sees after a store.
\<close>

locale checked_memory =
  fixes load :: "'m \<Rightarrow> 'a \<Rightarrow> 'v option"
    and store :: "'m \<Rightarrow> 'a \<Rightarrow> 'v \<Rightarrow> 'm option"
    and apart :: "'a \<Rightarrow> 'a \<Rightarrow> bool"
  assumes load_store: "store m a v = Some m' \<Longrightarrow> load m' a = Some v"
    and load_apart: "store m a v = Some m' \<Longrightarrow> apart a b \<Longrightarrow> load m' b = load m b"
    and store_defined: "store m a v = None \<longleftrightarrow> load m a = None"
begin

lemma two_stores:
  assumes "store m a v = Some m1" "store m1 b w = Some m2" "apart b a"
  shows "load m2 a = Some v \<and> load m2 b = Some w"
  using assms load_store load_apart by metis

fun stores :: "('a \<times> 'v) list \<Rightarrow> 'm \<Rightarrow> 'm option" where
  "stores [] m = Some m"
| "stores ((a, v) # ws) m = (case store m a v of None \<Rightarrow> None | Some m' \<Rightarrow> stores ws m')"

lemma load_stores_apart:
  "stores ws m = Some m' \<Longrightarrow> list_all (\<lambda>(a, v). apart a b) ws \<Longrightarrow> load m' b = load m b"
proof (induction ws arbitrary: m)
  case (Cons w ws)
  then obtain m1 where "store m (fst w) (snd w) = Some m1" "stores ws m1 = Some m'"
    by (cases w) (auto split: option.splits)
  with Cons load_apart [of m "fst w" "snd w" m1 b] show ?case by (cases w) auto
qed simp

end

lemma le_value_bytes:
  "le_value (ucast v) (ucast (drop_bit 8 v)) (ucast (drop_bit 16 v)) (ucast (drop_bit 24 v)) = v"
proof (rule bit_word_eqI)
  fix n assume n: "n < LENGTH(32)"
  then consider "n < 8" | "8 \<le> n" "n < 16" | "16 \<le> n" "n < 24" | "24 \<le> n" "n < 32" by fastforce
  then show "bit (le_value (ucast v) (ucast (drop_bit 8 v)) (ucast (drop_bit 16 v)) (ucast (drop_bit 24 v))) n = bit v n"
    by cases (auto simp: le_value_def bit_or_iff bit_push_bit_iff bit_ucast_iff bit_drop_bit_eq)
qed

lemma read_write_u32: "read_u32 (write_u32 d a v) a = v"
  by (simp add: read_u32_def write_u32_def le_bytes_def le_value_bytes)

lemma read_write_u32_apart: "a + 4 \<le> b \<or> b + 4 \<le> a \<Longrightarrow> read_u32 (write_u32 d a v) b = read_u32 d b"
  by (auto simp: read_u32_def write_u32_def)

definition rt_load :: "rt_state \<Rightarrow> u64 \<Rightarrow> u32 option" where
  "rt_load s a = (case i32_load a s of (Ret v, _) \<Rightarrow> Some v | _ \<Rightarrow> None)"

definition rt_store :: "rt_state \<Rightarrow> u64 \<Rightarrow> u32 \<Rightarrow> rt_state option" where
  "rt_store s a v = (case i32_store a v s of (Ret _, s') \<Rightarrow> Some s' | _ \<Rightarrow> None)"

definition apart4 :: "u64 \<Rightarrow> u64 \<Rightarrow> bool" where
  "apart4 a b \<longleftrightarrow> unat a + 4 \<le> unat b \<or> unat b + 4 \<le> unat a"

definition access_ok :: "rt_state \<Rightarrow> u64 \<Rightarrow> bool" where
  "access_ok s a \<longleftrightarrow> MEMCHECK (Z_envZ_memory s) a 4 \<and> in_memory (Z_envZ_memory s) (unat a) 4"

lemma i32_load_cases:
  "i32_load a s = (if access_ok s a then (Ret (read_u32 (mem_data (Z_envZ_memory s)) (unat a)), s)
     else (if MEMCHECK (Z_envZ_memory s) a 4 then Escape else Trap WASM_RT_TRAP_OOB, s))"
  by (simp add: i32_load_def Let_def access_ok_def wasm_rt_trap_op_def)

definition poke :: "nat \<Rightarrow> u32 \<Rightarrow> rt_state \<Rightarrow> rt_state" where
  "poke a v s = s\<lparr>Z_envZ_memory := (Z_envZ_memory s)\<lparr>mem_data := write_u32 (mem_data (Z_envZ_memory s)) a v\<rparr>\<rparr>"

lemma i32_store_cases:
  "i32_store a v s = (if access_ok s a then (Ret (), poke (unat a) v s)
     else (if MEMCHECK (Z_envZ_memory s) a 4 then Escape else Trap WASM_RT_TRAP_OOB, s))"
  by (simp add: i32_store_def Let_def access_ok_def wasm_rt_trap_op_def poke_def)

lemma access_ok_poke [simp]: "access_ok (poke a v s) b = access_ok s b"
  by (simp add: access_ok_def poke_def MEMCHECK_def in_memory_def)

interpretation rt_mem: checked_memory rt_load rt_store apart4
proof
  fix m a v m' assume "rt_store m a v = Some m'"
  then show "rt_load m' a = Some v"
    by (auto simp: rt_store_def rt_load_def i32_store_cases i32_load_cases poke_def read_write_u32 split: if_splits)
      (simp add: access_ok_def MEMCHECK_def in_memory_def)
next
  fix m a v m' b assume "rt_store m a v = Some m'" "apart4 a b"
  then show "rt_load m' b = rt_load m b"
    by (auto simp: rt_store_def rt_load_def i32_store_cases i32_load_cases apart4_def split: if_splits)
      (simp add: poke_def read_write_u32_apart)+
next
  fix m a v show "(rt_store m a v = None) = (rt_load m a = None)"
    by (simp add: rt_store_def rt_load_def i32_store_cases i32_load_cases)
qed

section \<open>Addresses\<close>

lemma access_ok_iff:
  assumes "unat a + 4 < 2 ^ 64"
  shows "access_ok s a \<longleftrightarrow> unat a + 4 \<le> unat (mem_size (Z_envZ_memory s))"
    "MEMCHECK (Z_envZ_memory s) a 4 \<longleftrightarrow> unat a + 4 \<le> unat (mem_size (Z_envZ_memory s))"
proof -
  have "unat (a + 4) = unat a + 4"
    using assms by (simp add: unat_word_ariths(1))
  moreover have "unat (ucast (mem_size (Z_envZ_memory s)) :: u64) = unat (mem_size (Z_envZ_memory s))"
    using unsigned_less [of "mem_size (Z_envZ_memory s)", where 'a = nat]
    by (simp add: unsigned_ucast_eq take_bit_nat_eq_self)
  ultimately show "MEMCHECK (Z_envZ_memory s) a 4 \<longleftrightarrow> unat a + 4 \<le> unat (mem_size (Z_envZ_memory s))"
    by (auto simp: MEMCHECK_def word_less_nat_alt)
  then show "access_ok s a \<longleftrightarrow> unat a + 4 \<le> unat (mem_size (Z_envZ_memory s))"
    by (auto simp: access_ok_def in_memory_def)
qed

lemma unat_u32_u64 [simp]: "unat (ucast (a :: u32) :: u64) = unat a"
  using unsigned_less [of a, where 'a = nat] by (simp add: unsigned_ucast_eq take_bit_nat_eq_self)

lemma u32_lt: "unat (a :: u32) < 4294967296"
  using unsigned_less [of a, where 'a = nat] by simp

lemma access_ok_u32:
  "access_ok s (ucast (a :: u32)) \<longleftrightarrow> unat a + 4 \<le> unat (mem_size (Z_envZ_memory s))"
  "MEMCHECK (Z_envZ_memory s) (ucast a) 4 \<longleftrightarrow> unat a + 4 \<le> unat (mem_size (Z_envZ_memory s))"
  using access_ok_iff [of "ucast a" s] u32_lt [of a] by simp_all

definition word_at :: "rt_state \<Rightarrow> nat \<Rightarrow> u32" where
  "word_at s a = read_u32 (mem_data (Z_envZ_memory s)) a"

definition in_bounds :: "rt_state \<Rightarrow> u32 \<Rightarrow> bool" where
  "in_bounds s a \<longleftrightarrow> unat a + 4 \<le> unat (mem_size (Z_envZ_memory s))"

lemma load32_cases:
  "load32 a s = (if in_bounds s a then (Ret (word_at s (unat a)), s) else (Trap WASM_RT_TRAP_OOB, s))"
  by (simp add: load32_def i32_load_cases access_ok_u32 in_bounds_def word_at_def)

lemma store32_cases:
  "store32 a v s = (if in_bounds s a then (Ret (), poke (unat a) v s) else (Trap WASM_RT_TRAP_OOB, s))"
  by (simp add: store32_def i32_store_cases access_ok_u32 in_bounds_def)

lemma in_bounds_poke [simp]: "in_bounds (poke b v s) a = in_bounds s a"
  by (simp add: in_bounds_def poke_def)

lemma word_at_poke [simp]: "word_at (poke a v s) a = v"
  by (simp add: word_at_def poke_def read_write_u32)

lemma word_at_poke_apart: "a + 4 \<le> b \<or> b + 4 \<le> a \<Longrightarrow> word_at (poke a v s) b = word_at s b"
  by (simp add: word_at_def poke_def read_write_u32_apart)

lemma poke_fields [simp]:
  "Z_envZ_STACK_MAX (poke a v s) = Z_envZ_STACK_MAX s"
  "Z_envZ_DYNAMICTOP_PTR (poke a v s) = Z_envZ_DYNAMICTOP_PTR s"
  "Z_envZ_table (poke a v s) = Z_envZ_table s" "g_func_types (poke a v s) = g_func_types s"
  "mem_size (Z_envZ_memory (poke a v s)) = mem_size (Z_envZ_memory s)"
  by (simp_all add: poke_def)

section \<open>Bytes of a word\<close>

lemma high_bit: "8 \<le> n \<Longrightarrow> \<not> bit (b :: u8) n"
  using bit_imp_le_length [of b n] by auto

lemma bit_le_value:
  "n < 8 \<Longrightarrow> bit (le_value b0 b1 b2 b3) n = bit b0 n"
  "n < 8 \<Longrightarrow> bit (le_value b0 b1 b2 b3) (n + 8) = bit b1 n"
  "n < 8 \<Longrightarrow> bit (le_value b0 b1 b2 b3) (n + 16) = bit b2 n"
  "n < 8 \<Longrightarrow> bit (le_value b0 b1 b2 b3) (n + 24) = bit b3 n"
  by (auto simp: le_value_def bit_or_iff bit_push_bit_iff bit_ucast_iff high_bit)

lemma byte_eqI: "(\<And>n. n < 8 \<Longrightarrow> bit b n = bit c n) \<Longrightarrow> (b :: u8) = c"
  by (rule bit_word_eqI) simp

lemma le_value_inj:
  assumes "le_value b0 b1 b2 b3 = le_value c0 c1 c2 c3"
  shows "b0 = c0 \<and> b1 = c1 \<and> b2 = c2 \<and> b3 = c3"
proof (intro conjI byte_eqI)
  fix n :: nat assume n: "n < 8"
  note b = bit_le_value [OF n, of b0 b1 b2 b3] and c = bit_le_value [OF n, of c0 c1 c2 c3]
  show "bit b0 n = bit c0 n" by (rule trans [OF b(1) [symmetric] c(1) [folded assms]])
  show "bit b1 n = bit c1 n" by (rule trans [OF b(2) [symmetric] c(2) [folded assms]])
  show "bit b2 n = bit c2 n" by (rule trans [OF b(3) [symmetric] c(3) [folded assms]])
  show "bit b3 n = bit c3 n" by (rule trans [OF b(4) [symmetric] c(4) [folded assms]])
qed

lemma read_u32_eq_iff: "read_u32 d a = read_u32 e a \<longleftrightarrow> (\<forall>k < 4. d (a + k) = e (a + k))"
proof
  assume "read_u32 d a = read_u32 e a"
  from le_value_inj [OF this [unfolded read_u32_def]] show "\<forall>k < 4. d (a + k) = e (a + k)"
    by (auto simp: less_Suc_eq numeral_eq_Suc)
next
  assume a: "\<forall>k < 4. d (a + k) = e (a + k)"
  from a [rule_format, of 0] a [rule_format, of 1] a [rule_format, of 2] a [rule_format, of 3]
  show "read_u32 d a = read_u32 e a" by (simp add: read_u32_def)
qed

section \<open>Properties of the memory and of the imported functions\<close>

text \<open>C12. Every access whose address does not overflow 64 bits (in particular every access the
  runtime makes with a 32-bit address) is contained: it reads or writes exactly four bytes inside
  the linear memory, or traps with \<open>WASM_RT_TRAP_OOB\<close> and changes nothing.\<close>

theorem i32_access_contained:
  assumes "unat addr + 4 < 2 ^ 64"
  shows "i32_load addr s =
      (if unat addr + 4 \<le> unat (mem_size (Z_envZ_memory s))
       then (Ret (read_u32 (mem_data (Z_envZ_memory s)) (unat addr)), s) else (Trap WASM_RT_TRAP_OOB, s)) \<and>
    i32_store addr v s =
      (if unat addr + 4 \<le> unat (mem_size (Z_envZ_memory s)) then (Ret (), poke (unat addr) v s)
       else (Trap WASM_RT_TRAP_OOB, s))"
  using access_ok_iff [OF assms, of s] by (simp add: i32_load_cases i32_store_cases)

theorem i32_access_contained_witness:
  "\<forall>s. i32_load 0xfffffffc s =
      (if unat (0xfffffffc :: u64) + 4 \<le> unat (mem_size (Z_envZ_memory s))
       then (Ret (read_u32 (mem_data (Z_envZ_memory s)) (unat (0xfffffffc :: u64))), s)
       else (Trap WASM_RT_TRAP_OOB, s)) \<and>
    i32_store 0xfffffffc 7 s =
      (if unat (0xfffffffc :: u64) + 4 \<le> unat (mem_size (Z_envZ_memory s))
       then (Ret (), poke (unat (0xfffffffc :: u64)) 7 s) else (Trap WASM_RT_TRAP_OOB, s))"
  by (intro allI i32_access_contained) simp

text \<open>The linear memory is a store: after two successful stores to words that do not overlap,
  each word holds the value stored to it.\<close>

theorem i32_stores_then_loads:
  assumes "i32_store a v s = (Ret (), s1)" "i32_store b w s1 = (Ret (), s2)" "apart4 b a"
  shows "i32_load a s2 = (Ret v, s2) \<and> i32_load b s2 = (Ret w, s2)"
proof -
  have "rt_store s a v = Some s1" "rt_store s1 b w = Some s2" using assms by (simp_all add: rt_store_def)
  from rt_mem.two_stores [OF this assms(3)] show ?thesis
    by (auto simp: rt_load_def i32_load_cases split: if_splits)
qed

definition small_state :: rt_state where
  "small_state = \<lparr>g_func_types = [], Z_envZ_memory = wasm_rt_allocate_memory 1 1,
     Z_envZ_table = wasm_rt_allocate_table_real (of_nat FUNC_TABLE_SIZE) (of_nat FUNC_TABLE_SIZE),
     Z_envZ_memoryBase = 1024, Z_envZ_tableBase = 0, Z_envZ_STACKTOP = 256, Z_envZ_STACK_MAX = 512,
     Z_envZ_DYNAMICTOP_PTR = 16, Z_envZ_tempDoublePtr = 24, lockMap = (\<lambda>_. False), setjmpId = 0\<rparr>"

lemma small_state_size: "mem_size (Z_envZ_memory small_state) = 65536"
  by (simp add: small_state_def wasm_rt_allocate_memory_def PAGE_SIZE_def)

theorem i32_stores_then_loads_witness:
  "i32_load 8 (poke 100 2 (poke 8 1 small_state)) = (Ret 1, poke 100 2 (poke 8 1 small_state)) \<and>
   i32_load 100 (poke 100 2 (poke 8 1 small_state)) = (Ret 2, poke 100 2 (poke 8 1 small_state))"
  by (rule i32_stores_then_loads [where s = small_state and ?s1.0 = "poke 8 1 small_state"])
    (simp_all add: i32_store_cases access_ok_iff small_state_size apart4_def)

text \<open>C16. \<open>memcpy_big\<close>, which the module can call with any arguments, has no bounds check: with
  the runtime's own memory, a destination at or above its end writes host memory outside the
  sandbox, where the same store through \<open>i32_store\<close> traps.\<close>

theorem memcpy_big_unchecked:
  assumes "mem_size (Z_envZ_memory s) = getTotalMemory" "getTotalMemory \<le> dest" "num \<noteq> 0"
  shows "fst (memcpy_big dest src num s) = Escape \<and> fst (store32 dest v s) = Trap WASM_RT_TRAP_OOB"
proof -
  have "unat num \<noteq> 0" using assms(3) by (simp add: unat_eq_zero)
  then have "\<not> in_memory (Z_envZ_memory s) (unat dest) (unat num)"
    using assms(1,2) by (auto simp: in_memory_def word_le_nat_alt)
  moreover have "\<not> in_bounds s dest" using assms(1,2) by (auto simp: in_bounds_def word_le_nat_alt)
  ultimately show ?thesis by (simp add: memcpy_big_def Let_def store32_cases)
qed

theorem memcpy_big_unchecked_witness:
  "fst (memcpy_big 0x80000000 0 1 (small_state\<lparr>Z_envZ_memory := wasm_rt_allocate_memory 0x7fff 0x7fff\<rparr>)) = Escape \<and>
   fst (store32 0x80000000 0 (small_state\<lparr>Z_envZ_memory := wasm_rt_allocate_memory 0x7fff 0x7fff\<rparr>)) = Trap WASM_RT_TRAP_OOB"
  by (rule memcpy_big_unchecked)
    (simp_all add: wasm_rt_allocate_memory_def PAGE_SIZE_def getTotalMemory_def)

section \<open>The stack cookie\<close>

lemma in_bounds_below:
  assumes "in_bounds s (m - 4)" "in_bounds s (m - 8)"
  shows "8 \<le> unat m" "unat (m - 4) = unat m - 4" "unat (m - 8) = unat m - 8"
proof -
  have lt: "unat (mem_size (Z_envZ_memory s)) < 4294967296" by (rule u32_lt)
  have "\<not> unat m < 4"
  proof
    assume "unat m < 4"
    then have "unat (m - 4) = unat m + 4294967296 - 4" by (simp add: unat_sub_if')
    then show False using assms(1) lt by (simp add: in_bounds_def)
  qed
  moreover have "\<not> (4 \<le> unat m \<and> unat m < 8)"
  proof
    assume m: "4 \<le> unat m \<and> unat m < 8"
    then have "unat (m - 8) = unat m + 4294967296 - 8" by (simp add: unat_sub_if')
    then show False using assms(2) lt m by (simp add: in_bounds_def)
  qed
  ultimately show ge: "8 \<le> unat m" by linarith
  then show "unat (m - 4) = unat m - 4" "unat (m - 8) = unat m - 8" by (simp_all add: unat_sub_if')
qed

lemma writeStackCookie_cases:
  "writeStackCookie s =
    (let m = Z_envZ_STACK_MAX s in
     if m AND 3 \<noteq> 0 then (Abort, s)
     else if \<not> in_bounds s (m - 4) then (Trap WASM_RT_TRAP_OOB, s)
     else if \<not> in_bounds s (m - 8) then (Trap WASM_RT_TRAP_OOB, poke (unat (m - 4)) 0x02135467 s)
     else (Ret (), poke (unat (m - 8)) 0x89BACDFE (poke (unat (m - 4)) 0x02135467 s)))"
  by (simp add: writeStackCookie_def rt_then_def rt_bind_def rt_assert_def store32_cases Let_def)

lemma checkStackCookie_cases:
  assumes "in_bounds s (Z_envZ_STACK_MAX s - 4)" "in_bounds s (Z_envZ_STACK_MAX s - 8)" "in_bounds s 0"
  shows "checkStackCookie s =
    (if word_at s (unat (Z_envZ_STACK_MAX s - 4)) = 0x02135467 \<and> word_at s (unat (Z_envZ_STACK_MAX s - 8)) = 0x89BACDFE
       \<and> word_at s 0 = 0x63736d65 then (Ret (), s) else (Abort, s))"
  using assms by (simp add: checkStackCookie_def rt_bind_def load32_cases rt_abort_def rt_return_def)

lemma writeStackCookie_Ret:
  assumes "writeStackCookie s = (Ret (), s1)"
  shows "Z_envZ_STACK_MAX s AND 3 = 0" "in_bounds s1 (Z_envZ_STACK_MAX s - 4)" "in_bounds s1 (Z_envZ_STACK_MAX s - 8)"
    "Z_envZ_STACK_MAX s1 = Z_envZ_STACK_MAX s" "mem_size (Z_envZ_memory s1) = mem_size (Z_envZ_memory s)"
    "word_at s1 (unat (Z_envZ_STACK_MAX s - 4)) = 0x02135467"
    "word_at s1 (unat (Z_envZ_STACK_MAX s - 8)) = 0x89BACDFE"
proof -
  from assms have b: "in_bounds s (Z_envZ_STACK_MAX s - 4)" "in_bounds s (Z_envZ_STACK_MAX s - 8)"
    and s1: "s1 = poke (unat (Z_envZ_STACK_MAX s - 8)) 0x89BACDFE (poke (unat (Z_envZ_STACK_MAX s - 4)) 0x02135467 s)"
    and a: "Z_envZ_STACK_MAX s AND 3 = 0"
    by (auto simp: writeStackCookie_cases Let_def split: if_splits)
  note m = in_bounds_below [OF b]
  show "Z_envZ_STACK_MAX s AND 3 = 0" by (rule a)
  show "in_bounds s1 (Z_envZ_STACK_MAX s - 4)" "in_bounds s1 (Z_envZ_STACK_MAX s - 8)" using b s1 by simp_all
  show "Z_envZ_STACK_MAX s1 = Z_envZ_STACK_MAX s" "mem_size (Z_envZ_memory s1) = mem_size (Z_envZ_memory s)"
    by (simp_all add: s1)
  show "word_at s1 (unat (Z_envZ_STACK_MAX s - 8)) = 0x89BACDFE" by (simp add: s1)
  show "word_at s1 (unat (Z_envZ_STACK_MAX s - 4)) = 0x02135467"
    using m by (simp add: s1 word_at_poke_apart)
qed

definition same_bytes :: "rt_state \<Rightarrow> rt_state \<Rightarrow> nat \<Rightarrow> nat \<Rightarrow> bool" where
  "same_bytes s t a n \<longleftrightarrow> (\<forall>k < n. mem_data (Z_envZ_memory s) (a + k) = mem_data (Z_envZ_memory t) (a + k))"

lemma word_at_eq_iff: "word_at s a = word_at t a \<longleftrightarrow> same_bytes s t a 4"
  by (simp add: word_at_def same_bytes_def read_u32_eq_iff)

lemma same_bytes_add: "same_bytes s t a (m + n) \<longleftrightarrow> same_bytes s t a m \<and> same_bytes s t (a + m) n"
proof
  assume "same_bytes s t a (m + n)"
  then show "same_bytes s t a m \<and> same_bytes s t (a + m) n"
    by (auto simp: same_bytes_def add.assoc)
next
  assume a: "same_bytes s t a m \<and> same_bytes s t (a + m) n"
  show "same_bytes s t a (m + n)"
    unfolding same_bytes_def
  proof (intro allI impI)
    fix k assume "k < m + n"
    then show "mem_data (Z_envZ_memory s) (a + k) = mem_data (Z_envZ_memory t) (a + k)"
      using a [THEN conjunct2, unfolded same_bytes_def, rule_format, of "k - m"] a [THEN conjunct1, unfolded same_bytes_def, rule_format, of k]
      by (cases "k < m") (auto simp: add.assoc)
  qed
qed

definition cookie_state :: rt_state where
  "cookie_state = poke 24 0x89BACDFE (poke 28 0x02135467 (poke 0 0x63736d65 (small_state\<lparr>Z_envZ_STACK_MAX := 32\<rparr>)))"

text \<open>C13. The stack cookie catches every overwrite of the last eight bytes of the stack and of word
  0: once the cookie is written and word 0 holds the magic number, a later check, whatever the
  module did in between, returns if those twelve bytes are what they were and aborts otherwise.\<close>

theorem cookie_detects_overwrite:
  assumes "writeStackCookie s = (Ret (), s1)" "word_at s1 0 = 0x63736d65"
    "Z_envZ_STACK_MAX t = Z_envZ_STACK_MAX s1" "mem_size (Z_envZ_memory t) = mem_size (Z_envZ_memory s1)"
  shows "checkStackCookie t =
    (if same_bytes t s1 (unat (Z_envZ_STACK_MAX s) - 8) 8 \<and> same_bytes t s1 0 4 then (Ret (), t) else (Abort, t))"
proof -
  note w = writeStackCookie_Ret [OF assms(1)]
  note m = in_bounds_below [OF w(2,3)]
  have b: "in_bounds t a = in_bounds s1 a" for a using assms(4) by (simp add: in_bounds_def)
  have "in_bounds t 0" using w(2) unfolding b by (simp add: in_bounds_def)
  moreover have "same_bytes t s1 (unat (Z_envZ_STACK_MAX s) - 8) 8 \<longleftrightarrow>
      word_at t (unat (Z_envZ_STACK_MAX s - 4)) = 0x02135467 \<and> word_at t (unat (Z_envZ_STACK_MAX s - 8)) = 0x89BACDFE"
  proof -
    have "same_bytes t s1 (unat (Z_envZ_STACK_MAX s) - 8) 8 \<longleftrightarrow>
        same_bytes t s1 (unat (Z_envZ_STACK_MAX s - 8)) 4 \<and> same_bytes t s1 (unat (Z_envZ_STACK_MAX s - 4)) 4"
      using same_bytes_add [of t s1 "unat (Z_envZ_STACK_MAX s) - 8" 4 4] m by simp
    also have "\<dots> \<longleftrightarrow> word_at t (unat (Z_envZ_STACK_MAX s - 8)) = 0x89BACDFE \<and>
        word_at t (unat (Z_envZ_STACK_MAX s - 4)) = 0x02135467"
      by (simp only: word_at_eq_iff [symmetric] w(6,7))
    finally show ?thesis by (simp only: conj_commute)
  qed
  moreover have "same_bytes t s1 0 4 \<longleftrightarrow> word_at t 0 = 0x63736d65"
    using word_at_eq_iff [of t 0 s1] assms(2) by simp
  ultimately show ?thesis
    using checkStackCookie_cases [of t] w(2,3,4) assms(3) by (simp add: b)
qed

theorem cookie_detects_overwrite_witness:
  "checkStackCookie (poke 31 5 cookie_state) = (Abort, poke 31 5 cookie_state)"
proof -
  let ?s = "small_state\<lparr>Z_envZ_STACK_MAX := 32\<rparr>"
  have b: "in_bounds ?s 0" "in_bounds ?s 24" "in_bounds ?s 28" by (simp_all add: in_bounds_def small_state_size)
  have w: "writeStackCookie (poke 0 0x63736d65 ?s) = (Ret (), cookie_state)"
    using b by (simp add: writeStackCookie_cases Let_def cookie_state_def)
  have "word_at cookie_state 0 = 0x63736d65"
    by (simp add: cookie_state_def word_at_poke_apart)
  from cookie_detects_overwrite [OF w this, of "poke 31 5 cookie_state"]
  moreover have "mem_data (Z_envZ_memory cookie_state) 31 = 2"
    by (simp add: cookie_state_def poke_def write_u32_def le_bytes_def)
  moreover have "mem_data (Z_envZ_memory (poke 31 5 cookie_state)) 31 = 5"
    by (simp add: poke_def write_u32_def le_bytes_def)
  then have "\<not> same_bytes (poke 31 5 cookie_state) cookie_state 24 8"
    using \<open>mem_data (Z_envZ_memory cookie_state) 31 = 2\<close>
    by (auto simp: same_bytes_def intro!: exI [of _ 7])
  ultimately show ?thesis by simp
qed

section \<open>The break\<close>

lemma sint_range: "- 2147483648 \<le> sint (a :: u32)" "sint (a :: u32) < 2147483648"
  using sint_ge [of a] sint_lt [of a] by simp_all

lemma sint_add_cases:
  "sint (a + b :: u32) = (if 2147483648 \<le> sint a + sint b then sint a + sint b - 4294967296
     else if sint a + sint b < - 2147483648 then sint a + sint b + 4294967296 else sint a + sint b)"
proof -
  let ?x = "sint a + sint b"
  have st: "sint (a + b) = signed_take_bit 31 ?x" by (simp add: sint_word_ariths)
  have eq: "signed_take_bit 31 (y + k * 4294967296) = y" if "- 2147483648 \<le> y" "y < 2147483648" for y k :: int
  proof -
    have "(y + k * 4294967296 + 2147483648) mod 4294967296 = (y + 2147483648 + k * 4294967296) mod 4294967296"
      by (simp only: ac_simps)
    also have "\<dots> = (y + 2147483648) mod 4294967296" by (rule mod_mult_self1)
    also have "\<dots> = y + 2147483648" by (rule mod_pos_pos_trivial) (use that in linarith)+
    finally show ?thesis by (simp add: signed_take_bit_eq_take_bit_shift take_bit_eq_mod)
  qed
  have r: "- 4294967296 \<le> ?x" "?x < 4294967295" using sint_range [of a] sint_range [of b] by linarith+
  consider "2147483648 \<le> ?x" | "?x < - 2147483648" | "- 2147483648 \<le> ?x" "?x < 2147483648" by linarith
  then show ?thesis
  proof cases
    case 1
    have "signed_take_bit 31 ?x = ?x - 4294967296" using eq [of "?x - 4294967296" 1] 1 r by simp
    then show ?thesis using 1 st by simp
  next
    case 2
    have "signed_take_bit 31 ?x = ?x + 4294967296" using eq [of "?x + 4294967296" "- 1"] 2 r by simp
    then show ?thesis using 2 st by simp
  next
    case 3
    have "signed_take_bit 31 ?x = ?x" using eq [of ?x 0] 3 by simp
    then show ?thesis using 3 st by simp
  qed
qed



section \<open>The layout of the address space\<close>

lemma and_minus_16: "(x :: u32) AND - 16 = push_bit 4 (drop_bit 4 x)"
proof -
  have "mask 4 = (15 :: u32)" by (simp add: mask_eq_exp_minus_1)
  then have "- 16 = NOT (mask 4 :: u32)" by simp
  then have "x AND - 16 = x AND NOT (mask 4)" by (simp only:)
  also have "\<dots> = push_bit 4 (drop_bit 4 x)" by (rule bit_word_eqI) (auto simp: bit_simps)
  finally show ?thesis .
qed

lemma unat_and_minus_16: "unat ((x :: u32) AND - 16) = unat x div 16 * 16"
proof -
  have "unat (drop_bit 4 x) = unat x div 16" by (simp add: unat_drop_bit_eq drop_bit_nat_def)
  moreover have "unat x div 16 * 16 < 4294967296" using u32_lt [of x] by linarith
  ultimately show ?thesis
    by (simp add: and_minus_16 push_bit_eq_mult unat_word_ariths mult.commute)
qed

lemma unat_alignMemory: "unat (alignMemory x) = unat x div 16 * 16"
proof -
  have "unat STACK_ALIGN = 16" by (simp add: STACK_ALIGN_def)
  then have "unat (x div STACK_ALIGN) = unat x div 16" by (metis unat_div_distrib)
  moreover have "unat x div 16 * 16 < 4294967296" using u32_lt [of x] by linarith
  ultimately show ?thesis by (simp add: alignMemory_def unat_word_ariths) (simp add: STACK_ALIGN_def)
qed

lemma unat_getTotalMemory [simp]: "unat getTotalMemory = 0x7fff0000"
  by (simp add: getTotalMemory_def PAGE_SIZE_def)

lemma staticAlloc_cases:
  "staticAlloc t n s = (if unat ((t + n + 15) AND - 16) < 0x7fff0000 then (Ret (t, (t + n + 15) AND - 16), s) else (Abort, s))"
  by (simp add: staticAlloc_def Let_def rt_then_def rt_bind_def rt_assert_def rt_return_def word_less_nat_alt)


definition big_state :: rt_state where
  "big_state = small_state\<lparr>Z_envZ_memory := wasm_rt_allocate_memory 0x7fff 0x7fff\<rparr>"

lemma big_state_size: "mem_size (Z_envZ_memory big_state) = 0x7fff0000"
  by (simp add: big_state_def wasm_rt_allocate_memory_def PAGE_SIZE_def)


section \<open>setjmp\<close>

text \<open>The table is grown by doubling its size, so a table of size 0 is never big enough.\<close>

lemma saveSetjmp_empty_table:
  "fst (saveSetjmp fuel setTempRet0 realloc env label table 0 s) \<noteq> Ret t"
proof (induction fuel arbitrary: table s t)
  case 0
  show ?case by simp
next
  case (Suc fuel)
  have IH: "saveSetjmp fuel setTempRet0 realloc env label tbl 0 u \<noteq> (Ret t, v)" for tbl u t v
    using Suc.IH [of tbl u t] by (metis fst_conv)
  show ?case
    by (auto simp: Let_def rt_then_def rt_bind_def rt_modify_def rt_return_def IH split: prod.splits outcome.splits)
qed

end
