(* ===== verification/WasmRtTables.thy ===== *)
theory WasmRtTables
  imports WasmRt
begin

text \<open>
  The runtime's two tables. Function types are interned: a type has one id, whatever the order of
  the registrations. Functions are registered in the first free slot of the callable table; the
  laws of that table are the \<open>function_registry\<close> interface, which the sandbox's callbacks rest on.
\<close>

section \<open>Interning\<close>

text \<open>
  \<open>inv n s\<close>: the table \<open>s\<close> is well formed and has room for \<open>n\<close> further entries.
\<close>

fun intern_all :: "('v \<Rightarrow> 's \<Rightarrow> 'i \<times> 's) \<Rightarrow> 'v list \<Rightarrow> 's \<Rightarrow> 'i list \<times> 's" where
  "intern_all f [] s = ([], s)"
| "intern_all f (v # vs) s = (let (i, s1) = f v s; (is, s2) = intern_all f vs s1 in (i # is, s2))"

locale interner =
  fixes intern :: "'v \<Rightarrow> 's \<Rightarrow> 'i \<times> 's"
    and find :: "'s \<Rightarrow> 'i \<Rightarrow> 'v option"
    and inv :: "nat \<Rightarrow> 's \<Rightarrow> bool"
  assumes intern_inv: "inv (Suc n) s \<Longrightarrow> intern v s = (i, t) \<Longrightarrow> inv n t"
    and intern_find: "inv (Suc n) s \<Longrightarrow> intern v s = (i, t) \<Longrightarrow> find t i = Some v"
    and intern_keeps: "inv (Suc n) s \<Longrightarrow> intern v s = (i, t) \<Longrightarrow> find s j = Some w \<Longrightarrow> find t j = Some w"
    and find_inj: "inv n s \<Longrightarrow> find s i = Some v \<Longrightarrow> find s j = Some v \<Longrightarrow> i = j"
begin

lemma intern_all_keeps:
  assumes "inv (length vs + n) s" "intern_all intern vs s = (is, t)"
  shows "inv n t \<and> (find s j = Some w \<longrightarrow> find t j = Some w)"
  using assms
proof (induction vs arbitrary: s "is")
  case Nil
  then show ?case by simp
next
  case (Cons v vs)
  obtain i s1 where s1: "intern v s = (i, s1)" by fastforce
  obtain js u where u: "intern_all intern vs s1 = (js, u)" by fastforce
  have t: "u = t" using Cons.prems(2) s1 u by simp
  have "inv (Suc (length vs + n)) s" using Cons.prems(1) by simp
  from intern_inv [OF this s1] intern_keeps [OF this s1] Cons.IH [OF _ u [unfolded t]]
  show ?case by blast
qed

lemma intern_all_find:
  assumes "inv (length vs) s" "intern_all intern vs s = (is, t)"
  shows "length is = length vs \<and> (\<forall>k < length vs. find t (is ! k) = Some (vs ! k))"
  using assms
proof (induction vs arbitrary: s "is")
  case Nil
  then show ?case by simp
next
  case (Cons v vs)
  obtain i s1 where s1: "intern v s = (i, s1)" by fastforce
  obtain js u where u: "intern_all intern vs s1 = (js, u)" by fastforce
  have t: "u = t" "is = i # js" using Cons.prems(2) s1 u by simp_all
  have inv: "inv (Suc (length vs)) s" using Cons.prems(1) by simp
  have inv1: "inv (length vs) s1" by (rule intern_inv [OF inv s1])
  have "find t i = Some v"
    using intern_all_keeps [of vs 0 s1 js t] inv1 u t intern_find [OF inv s1] by simp
  then show ?case
    using Cons.IH [OF inv1 u [unfolded t]] t by (auto simp: nth_Cons split: nat.splits)
qed

lemma intern_all_canonical:
  assumes "inv (length vs) s" "intern_all intern vs s = (is, t)" "j < length vs" "k < length vs"
  shows "is ! j = is ! k \<longleftrightarrow> vs ! j = vs ! k"
proof -
  have "inv 0 t" using intern_all_keeps [of vs 0] assms(1,2) by simp
  with intern_all_find [OF assms(1,2)] assms(3,4) find_inj show ?thesis
    by (metis option.inject)
qed

end

section \<open>Function types\<close>

lemma func_types_are_equal_iff: "func_types_are_equal a b \<longleftrightarrow> a = b"
proof
  assume eq: "func_types_are_equal a b"
  have "ft_params a = ft_params b" "ft_results a = ft_results b"
    using eq by (auto simp: func_types_are_equal_def list_all_iff intro: nth_equalityI)
  then show "a = b" by simp
next
  assume "a = b" then show "func_types_are_equal a b" by (simp add: func_types_are_equal_def list_all_iff)
qed

lemma find_func_type_None: "find_func_type ft ts i = None \<longleftrightarrow> ft \<notin> set ts"
  by (induction ts arbitrary: i) (auto simp: func_types_are_equal_iff)

lemma find_func_type_Some:
  "find_func_type ft ts i = Some j \<Longrightarrow> i \<le> j \<and> j < i + length ts \<and> ts ! (j - i) = ft"
proof (induction ts arbitrary: i)
  case Nil
  then show ?case by simp
next
  case (Cons t ts)
  show ?case
  proof (cases "t = ft")
    case True
    then show ?thesis using Cons.prems by (simp add: func_types_are_equal_iff)
  next
    case False
    then have "find_func_type ft ts (i + 1) = Some j" using Cons.prems by (simp add: func_types_are_equal_iff)
    note Cons.IH [OF this]
    moreover from this have "j - i = Suc (j - (i + 1))" by linarith
    ultimately show ?thesis by simp
  qed
qed

text \<open>An id is one more than the position in the table; 0 is no id.\<close>

definition type_of_id :: "rt_state \<Rightarrow> u32 \<Rightarrow> func_type option" where
  "type_of_id s n = (if n \<noteq> 0 \<and> unat n \<le> length (g_func_types s) then Some (g_func_types s ! (unat n - 1)) else None)"

definition types_ok :: "nat \<Rightarrow> rt_state \<Rightarrow> bool" where
  "types_ok n s \<longleftrightarrow> distinct (g_func_types s) \<and> length (g_func_types s) + n < 2 ^ 32"

definition intern_type :: "func_type \<Rightarrow> rt_state \<Rightarrow> u32 \<times> rt_state" where
  "intern_type ft s = (case wasm_rt_register_func_type (ft_params ft) (ft_results ft) s of
     (Ret i, t) \<Rightarrow> (i, t) | (_, t) \<Rightarrow> (0, t))"

lemma func_type_eta [simp]: "\<lparr>ft_params = ft_params ft, ft_results = ft_results ft\<rparr> = ft"
  by simp

lemma intern_type_cases:
  "intern_type ft s = (case find_func_type ft (g_func_types s) 0 of
     Some i \<Rightarrow> (of_nat i + 1, s)
   | None \<Rightarrow> (of_nat (length (g_func_types s)) + 1, s\<lparr>g_func_types := g_func_types s @ [ft]\<rparr>))"
  by (cases "find_func_type ft (g_func_types s) 0") (simp_all add: intern_type_def wasm_rt_register_func_type_def Let_def)

lemma unat_id: "i < 4294967295 \<Longrightarrow> unat (of_nat i + 1 :: u32) = i + 1"
  by (simp add: unat_word_ariths take_bit_nat_eq_self unsigned_of_nat)

lemma intern_type_spec:
  assumes "types_ok (Suc n) s" "intern_type ft s = (i, t)"
  shows "types_ok n t \<and> type_of_id t i = Some ft \<and> (type_of_id s j = Some w \<longrightarrow> type_of_id t j = Some w)"
proof (cases "find_func_type ft (g_func_types s) 0")
  case None
  then have t: "i = of_nat (length (g_func_types s)) + 1" "t = s\<lparr>g_func_types := g_func_types s @ [ft]\<rparr>"
    and new: "ft \<notin> set (g_func_types s)"
    using assms(2) None find_func_type_None [of ft "g_func_types s" 0] by (simp_all add: intern_type_cases)
  have "unat i = length (g_func_types s) + 1" using assms(1) by (simp add: t unat_id types_ok_def)
  then have "type_of_id t i = Some ft" by (auto simp: type_of_id_def t)
  moreover have "type_of_id t j = Some w" if "type_of_id s j = Some w"
  proof -
    have j: "j \<noteq> 0" "unat j \<le> length (g_func_types s)" "w = g_func_types s ! (unat j - 1)"
      using that by (auto simp: type_of_id_def split: if_splits)
    then have "unat j - 1 < length (g_func_types s)" using unat_gt_0 [of j] by linarith
    then show ?thesis using j by (simp add: type_of_id_def t nth_append)
  qed
  ultimately show ?thesis using assms(1) new by (simp add: types_ok_def t)
next
  case (Some k)
  then have t: "i = of_nat k + 1" "t = s" using assms(2) by (simp_all add: intern_type_cases)
  have k: "k < length (g_func_types s)" "g_func_types s ! k = ft" using find_func_type_Some [OF Some] by simp_all
  have "unat i = k + 1" using assms(1) k by (simp add: t unat_id types_ok_def)
  then have "type_of_id t i = Some ft" using k by (auto simp: type_of_id_def t)
  then show ?thesis using assms(1) by (auto simp: types_ok_def t)
qed

interpretation rt_types: interner intern_type type_of_id types_ok
proof unfold_locales
  fix n s i j v
  assume s: "types_ok n s" "type_of_id s i = Some v" "type_of_id s j = Some v"
  have i: "i \<noteq> 0" "unat i \<le> length (g_func_types s)" "g_func_types s ! (unat i - 1) = v"
    and j: "j \<noteq> 0" "unat j \<le> length (g_func_types s)" "g_func_types s ! (unat j - 1) = v"
    using s(2,3) by (auto simp: type_of_id_def split: if_splits)
  have pos: "0 < unat i" "0 < unat j" using i(1) j(1) by (simp_all add: unat_gt_0)
  have "unat i - 1 = unat j - 1"
    using s(1) i j pos nth_eq_iff_index_eq [of "g_func_types s" "unat i - 1" "unat j - 1"] by (simp add: types_ok_def)
  then show "i = j" using pos by (simp add: word_unat_eq_iff)
qed (use intern_type_spec in blast)+

text \<open>C17. Function type ids are canonical, which is what \<open>call_indirect\<close> checks rely on: after any
  sequence of registrations that fits the 32-bit ids, two registrations got the same id exactly when
  their parameter and result types are the same.\<close>

theorem func_type_ids_canonical:
  assumes "types_ok (length fts) s" "intern_all intern_type fts s = (is, t)" "j < length fts" "k < length fts"
  shows "is ! j = is ! k \<longleftrightarrow> fts ! j = fts ! k"
  using assms by (rule rt_types.intern_all_canonical)

definition fresh_rt :: rt_state where
  "fresh_rt = \<lparr>g_func_types = [], Z_envZ_memory = wasm_rt_allocate_memory 1 1,
     Z_envZ_table = wasm_rt_allocate_table_real (of_nat FUNC_TABLE_SIZE) (of_nat FUNC_TABLE_SIZE),
     Z_envZ_memoryBase = 0, Z_envZ_tableBase = 0, Z_envZ_STACKTOP = 0, Z_envZ_STACK_MAX = 0,
     Z_envZ_DYNAMICTOP_PTR = 0, Z_envZ_tempDoublePtr = 0, lockMap = (\<lambda>_. False), setjmpId = 0\<rparr>"

theorem func_type_ids_canonical_witness:
  "let fts = [\<lparr>ft_params = [WASM_RT_I32], ft_results = []\<rparr>, \<lparr>ft_params = [], ft_results = [WASM_RT_I32]\<rparr>,
              \<lparr>ft_params = [WASM_RT_I32], ft_results = []\<rparr>];
       is = fst (intern_all intern_type fts fresh_rt)
   in is ! 0 = is ! 2 \<and> is ! 0 \<noteq> is ! 1"
proof -
  let ?fts = "[\<lparr>ft_params = [WASM_RT_I32], ft_results = []\<rparr>, \<lparr>ft_params = [], ft_results = [WASM_RT_I32]\<rparr>,
                \<lparr>ft_params = [WASM_RT_I32], ft_results = []\<rparr>]"
  have ok: "types_ok (length ?fts) fresh_rt" by (simp add: types_ok_def fresh_rt_def)
  obtain "is" t where i: "intern_all intern_type ?fts fresh_rt = (is, t)" by fastforce
  show ?thesis
    using func_type_ids_canonical [OF ok i, of 0 2] func_type_ids_canonical [OF ok i, of 0 1]
    unfolding Let_def i by simp
qed

section \<open>The callable table\<close>

text \<open>
  What a client of a table of callbacks relies on: a registered function is found under its slot, a
  slot that is in use is not given out again, and removing a slot frees it and no other. The
  null function is not a function.
\<close>

locale function_registry =
  fixes reg :: "'f \<Rightarrow> 's \<Rightarrow> ('k \<times> 's) option"
    and unreg :: "'k \<Rightarrow> 's \<Rightarrow> 's"
    and getf :: "'s \<Rightarrow> 'k \<Rightarrow> 'f option"
    and ok :: "'s \<Rightarrow> bool"
    and valid :: "'f \<Rightarrow> bool"
  assumes reg_ok: "ok s \<Longrightarrow> valid f \<Longrightarrow> reg f s = Some (k, t) \<Longrightarrow> ok t"
    and reg_fresh: "ok s \<Longrightarrow> valid f \<Longrightarrow> reg f s = Some (k, t) \<Longrightarrow> getf s k = None"
    and reg_get: "ok s \<Longrightarrow> valid f \<Longrightarrow> reg f s = Some (k, t) \<Longrightarrow> getf t j = (if j = k then Some f else getf s j)"
    and unreg_ok: "ok s \<Longrightarrow> ok (unreg k s)"
    and unreg_get: "ok s \<Longrightarrow> getf (unreg k s) j = (if j = k then None else getf s j)"
begin

lemma reg_unreg_get:
  assumes "ok s" "valid f" "reg f s = Some (k, t)"
  shows "getf (unreg k t) j = getf s j"
  using unreg_get [OF reg_ok [OF assms]] reg_get [OF assms] reg_fresh [OF assms] by simp

lemma live_slots_distinct:
  assumes "ok s" "valid f" "valid g" "reg f s = Some (k, t)" "reg g t = Some (l, u)"
  shows "k \<noteq> l \<and> getf u k = Some f \<and> getf u l = Some g"
  using reg_fresh [OF reg_ok [OF assms(1,2,4)] assms(3,5)] reg_get [OF assms(1,2,4)]
    reg_get [OF reg_ok [OF assms(1,2,4)] assms(3,5)] by auto

end

text \<open>A registered function and its type are what the table holds; slot 0 is never given out.\<close>

definition table_ok :: "rt_state \<Rightarrow> bool" where
  "table_ok s \<longleftrightarrow> length (tbl_data (Z_envZ_table s)) = FUNC_TABLE_SIZE"

definition func_ok :: "u64 \<times> u32 \<Rightarrow> bool" where
  "func_ok f \<longleftrightarrow> fst f \<noteq> 0"

definition reg_func :: "u64 \<times> u32 \<Rightarrow> rt_state \<Rightarrow> (u32 \<times> rt_state) option" where
  "reg_func f s = (case wasm_rt_register_func (fst f) (snd f) s of (Ret k, t) \<Rightarrow> Some (k, t) | _ \<Rightarrow> None)"

definition unreg_func :: "u32 \<Rightarrow> rt_state \<Rightarrow> rt_state" where
  "unreg_func k s = snd (wasm_ret_unregister_func k s)"

definition func_at :: "rt_state \<Rightarrow> u32 \<Rightarrow> (u64 \<times> u32) option" where
  "func_at s k = (case wasm_rt_get_registered_func k s of
     (Ret f, _) \<Rightarrow> if f = 0 then None else Some (f, elem_func_type (tbl_data (Z_envZ_table s) ! unat k))
   | _ \<Rightarrow> None)"

lemma func_at_cases:
  "func_at s k = (if unat k < FUNC_TABLE_SIZE \<and> elem_func (tbl_data (Z_envZ_table s) ! unat k) \<noteq> 0
     then Some (elem_func (tbl_data (Z_envZ_table s) ! unat k), elem_func_type (tbl_data (Z_envZ_table s) ! unat k)) else None)"
  by (simp add: func_at_def wasm_rt_get_registered_func_def)

lemma find_free_slot_Some:
  "find_free_slot data is = Some i \<Longrightarrow> i \<in> set is \<and> elem_func (data ! i) = 0"
  by (induction "is") (auto split: if_splits)

lemma find_free_slot_None: "find_free_slot data is = None \<longleftrightarrow> (\<forall>i \<in> set is. elem_func (data ! i) \<noteq> 0)"
  by (induction "is") auto

lemma find_free_slot_first:
  "find_free_slot data [a..<b] = Some i \<Longrightarrow> a \<le> i \<and> i < b \<and> elem_func (data ! i) = 0 \<and> (\<forall>j. a \<le> j \<and> j < i \<longrightarrow> elem_func (data ! j) \<noteq> 0)"
proof (induction "b - a" arbitrary: a)
  case 0
  then show ?case by simp
next
  case (Suc n)
  then have "[a..<b] = a # [a + 1..<b]" by (simp add: upt_rec)
  with Suc.prems consider "i = a" "elem_func (data ! a) = 0"
    | "elem_func (data ! a) \<noteq> 0" "find_free_slot data [a + 1..<b] = Some i" by (auto split: if_splits)
  then show ?case
  proof cases
    case 1
    then show ?thesis using Suc.hyps(2) by auto
  next
    case 2
    have "n = b - (a + 1)" using Suc.hyps(2) by simp
    from Suc.hyps(1) [OF this 2(2)] 2(1) show ?thesis
      by (metis add.commute le_add1 le_antisym le_trans less_eq_Suc_le not_less_eq_eq plus_1_eq_Suc)
  qed
qed

lemma reg_func_Some:
  assumes "reg_func f s = Some (k, t)"
  obtains i where "i \<in> {1..<FUNC_TABLE_SIZE}" "unat k = i" "elem_func (tbl_data (Z_envZ_table s) ! i) = 0"
    "t = s\<lparr>Z_envZ_table := (Z_envZ_table s)\<lparr>tbl_data := (tbl_data (Z_envZ_table s))[i := \<lparr>elem_func_type = snd f, elem_func = fst f\<rparr>]\<rparr>\<rparr>"
proof -
  from assms obtain i where i: "find_free_slot (tbl_data (Z_envZ_table s)) [1..<FUNC_TABLE_SIZE] = Some i"
    "k = of_nat i" and t: "t = s\<lparr>Z_envZ_table := (Z_envZ_table s)\<lparr>tbl_data := (tbl_data (Z_envZ_table s))[i := \<lparr>elem_func_type = snd f, elem_func = fst f\<rparr>]\<rparr>\<rparr>"
    by (auto simp: reg_func_def wasm_rt_register_func_def Let_def split: option.splits)
  from find_free_slot_first [OF i(1)] have r: "1 \<le> i" "i < FUNC_TABLE_SIZE" "elem_func (tbl_data (Z_envZ_table s) ! i) = 0" by auto
  then have "unat k = i" by (simp add: i(2) unsigned_of_nat take_bit_nat_eq_self FUNC_TABLE_SIZE_def)
  then show thesis using r t that by simp
qed

interpretation rt_funcs: function_registry reg_func unreg_func func_at table_ok func_ok
proof unfold_locales
  fix s f k t j
  assume s: "table_ok s" "func_ok f" and r: "reg_func f s = Some (k, t)"
  from r show "table_ok t" by (rule reg_func_Some) (use s(1) in \<open>simp add: table_ok_def\<close>)
  from r show "func_at s k = None" by (rule reg_func_Some) (simp add: func_at_cases)
  from r show "func_at t j = (if j = k then Some f else func_at s j)"
    by (rule reg_func_Some) (use s in \<open>auto simp: func_at_cases table_ok_def func_ok_def nth_list_update word_unat_eq_iff\<close>)
next
  fix s k j assume s: "table_ok s"
  show "table_ok (unreg_func k s)"
    using s by (simp add: unreg_func_def wasm_ret_unregister_func_def table_ok_def)
  show "func_at (unreg_func k s) j = (if j = k then None else func_at s j)"
    using s by (auto simp: func_at_cases unreg_func_def wasm_ret_unregister_func_def table_ok_def null_elem_def
      nth_list_update word_unat_eq_iff)
qed

text \<open>C18. The callable table: a registration takes the first free slot, never slot 0, and aborts
  only when all of the other 1023 slots are taken; the slot then yields the function and every
  other slot what it did, and unregistering it gives back the table as it was.\<close>

theorem register_func_first_free:
  assumes "table_ok s" "func \<noteq> 0"
  shows "case wasm_rt_register_func func ft s of
      (Ret k, t) \<Rightarrow> 1 \<le> unat k \<and> unat k < 1024 \<and> (\<forall>j. 1 \<le> j \<and> j < k \<longrightarrow> func_at s j \<noteq> None) \<and>
        (\<forall>j. func_at t j = (if j = k then Some (func, ft) else func_at s j)) \<and>
        (\<forall>j. func_at (unreg_func k t) j = func_at s j)
    | (r, t) \<Rightarrow> r = Abort \<and> t = s \<and> (\<forall>j. 1 \<le> j \<and> j < 1024 \<longrightarrow> func_at s j \<noteq> None)"
proof (cases "find_free_slot (tbl_data (Z_envZ_table s)) [1..<FUNC_TABLE_SIZE]")
  case None
  then have "wasm_rt_register_func func ft s = (Abort, s)" by (simp add: wasm_rt_register_func_def)
  moreover have "\<forall>i \<in> {1..<1024}. elem_func (tbl_data (Z_envZ_table s) ! i) \<noteq> 0"
    using None by (simp add: find_free_slot_None FUNC_TABLE_SIZE_def)
  ultimately show ?thesis by (auto simp: func_at_cases FUNC_TABLE_SIZE_def word_le_nat_alt word_less_nat_alt)
next
  case (Some i)
  obtain t where r: "wasm_rt_register_func func ft s = (Ret (of_nat i), t)"
    using Some by (simp add: wasm_rt_register_func_def)
  then have reg: "reg_func (func, ft) s = Some (of_nat i, t)" by (simp add: reg_func_def)
  have ok: "func_ok (func, ft)" using assms(2) by (simp add: func_ok_def)
  note first = find_free_slot_first [OF Some]
  have i: "unat (of_nat i :: u32) = i" using first by (simp add: unsigned_of_nat take_bit_nat_eq_self FUNC_TABLE_SIZE_def)
  show ?thesis
    using rt_funcs.reg_get [OF assms(1) ok reg] rt_funcs.reg_unreg_get [OF assms(1) ok reg] first
    by (auto simp: r i FUNC_TABLE_SIZE_def word_le_nat_alt word_less_nat_alt func_at_cases)
qed

theorem register_func_first_free_witness:
  "case wasm_rt_register_func 77 5 fresh_rt of
      (Ret k, t) \<Rightarrow> 1 \<le> unat k \<and> func_at t k = Some (77, 5)
    | (r, t) \<Rightarrow> r = Abort \<and> func_at fresh_rt 1 \<noteq> None"
proof -
  have "table_ok fresh_rt"
    by (simp add: table_ok_def fresh_rt_def wasm_rt_allocate_table_real_def FUNC_TABLE_SIZE_def)
  from register_func_first_free [OF this, of 77 5] show ?thesis
    by (simp split: prod.splits outcome.splits)
qed

end
