(* ===== verification/SandboxSpec.thy ===== *)
theory SandboxSpec
  imports Sandbox WasmRtSpec WasmRtTables
begin

text \<open>
  Properties of the host's side of the sandbox: pointers keep inside the linear memory, callbacks
  reach the host function they were registered for, calls leave the thread as they found it.
\<close>

section \<open>Pointers\<close>

text \<open>The linear memory is an object of the host: it does not wrap around the address space and is not at
  null.\<close>

definition sandbox_placed :: "sandbox \<Rightarrow> bool" where
  "sandbox_placed sb \<longleftrightarrow> wasm_memory sb \<noteq> 0 \<and> unat (wasm_memory_size sb) \<le> 2 ^ 32 \<and>
     unat (wasm_memory sb) + unat (wasm_memory_size sb) < 2 ^ 64"

lemma low_half: "(p :: u64) AND 0xFFFFFFFF = ucast (ucast p :: u32)"
proof -
  have "(0xFFFFFFFF :: u64) = mask 32" by (simp add: mask_eq_exp_minus_1)
  then have "p AND 0xFFFFFFFF = take_bit 32 p" by (simp only: take_bit_eq_mask)
  also have "\<dots> = ucast (ucast p :: u32)" by (rule bit_word_eqI) (auto simp: bit_simps)
  finally show ?thesis .
qed

lemma unat_low_half: "unat ((p :: u64) AND 0xFFFFFFFF) < 4294967296"
  using u32_lt [of "ucast p"] unfolding low_half by simp

lemma low_half_small: "unat (p :: u64) < 4294967296 \<Longrightarrow> p AND 0xFFFFFFFF = p"
proof -
  assume a: "unat p < 4294967296"
  have "(0xFFFFFFFF :: u64) = mask 32" by (simp add: mask_eq_exp_minus_1)
  then have "p AND 0xFFFFFFFF = take_bit 32 p" by (simp only: take_bit_eq_mask)
  moreover have "take_bit 32 p = p"
    using a by (simp add: word_unat_eq_iff unsigned_take_bit_eq take_bit_nat_eq_self)
  ultimately show ?thesis by simp
qed

lemma placed_add:
  assumes "sandbox_placed sb" "off < wasm_memory_size sb"
  shows "unat (off + wasm_memory sb) = unat off + unat (wasm_memory sb)"
  using assms by (simp add: sandbox_placed_def word_less_nat_alt unat_word_ariths)

lemma getUnsandboxedPointer_Some:
  assumes "sandbox_placed sb" "getUnsandboxedPointer sb p = Some q" "q \<noteq> 0"
  obtains off where "off = p AND 0xFFFFFFFF" "off \<noteq> 0" "off < wasm_memory_size sb" "q = off + wasm_memory sb"
    "unat q = unat off + unat (wasm_memory sb)" "unat (wasm_memory sb) < unat q"
    "unat q < unat (wasm_memory sb) + unat (wasm_memory_size sb)"
proof -
  let ?off = "p AND 0xFFFFFFFF"
  have o: "?off \<noteq> 0" "?off < wasm_memory_size sb" "q = ?off + wasm_memory sb"
    using assms(2,3) by (auto simp: getUnsandboxedPointer_def Let_def split: if_splits)
  have u: "unat q = unat ?off + unat (wasm_memory sb)" using placed_add [OF assms(1) o(2)] o(3) by simp
  have "0 < unat ?off" using o(1) by (simp add: unat_gt_0)
  then show thesis using that [OF refl o u] u o(2) by (simp add: word_less_nat_alt)
qed

lemma getSandboxedPointer_iff:
  assumes "sandbox_placed sb"
  shows "getSandboxedPointer sb q = Some off \<longleftrightarrow>
    (q = 0 \<and> off = 0) \<or> (off \<noteq> 0 \<and> off < wasm_memory_size sb \<and> q = off + wasm_memory sb)"
proof (cases "q = 0")
  case True
  have "off + wasm_memory sb \<noteq> 0" if "off < wasm_memory_size sb"
    using placed_add [OF assms that] assms by (auto simp: sandbox_placed_def unat_eq_zero)
  then show ?thesis using True by (auto simp: getSandboxedPointer_def)
next
  case False
  have "q > wasm_memory sb" if "off \<noteq> 0" "off < wasm_memory_size sb" "q = off + wasm_memory sb"
    using placed_add [OF assms that(2)] that unat_gt_0 [of off] by (simp add: word_less_nat_alt)
  then show ?thesis using False by (auto simp: getSandboxedPointer_def)
qed

text \<open>C19. Pointer translation: a pointer taken from the module, whatever its 64 bits, becomes null or
  an address strictly inside the linear memory and translates back to its low 32 bits; a host
  pointer translates to an offset exactly if it is null or strictly inside, and the offset translates
  back to it. The two tests of a pointer split the non-null addresses at the bounds of the memory.\<close>

theorem pointer_translation:
  assumes "sandbox_placed sb"
  shows "(\<forall>p q. getUnsandboxedPointer sb p = Some q \<and> q \<noteq> 0 \<longrightarrow>
      unat (wasm_memory sb) < unat q \<and> unat q < unat (wasm_memory sb) + unat (wasm_memory_size sb) \<and>
      getSandboxedPointer sb q = Some (p AND 0xFFFFFFFF)) \<and>
    (\<forall>q off. getSandboxedPointer sb q = Some off \<longrightarrow> getUnsandboxedPointer sb off = Some q) \<and>
    (\<forall>q. getSandboxedPointer sb q \<noteq> None \<longleftrightarrow>
      q = 0 \<or> unat (wasm_memory sb) < unat q \<and> unat q < unat (wasm_memory sb) + unat (wasm_memory_size sb)) \<and>
    (\<forall>q. q \<noteq> 0 \<longrightarrow> (isAddressInSandboxMemoryOrNull sb q \<longleftrightarrow> \<not> isAddressInNonSandboxMemoryOrNull sb q) \<and>
      (isAddressInSandboxMemoryOrNull sb q \<longleftrightarrow>
        unat (wasm_memory sb) \<le> unat q \<and> unat q < unat (wasm_memory sb) + unat (wasm_memory_size sb)))"
proof (intro conjI allI impI)
  fix p q assume a: "getUnsandboxedPointer sb p = Some q \<and> q \<noteq> 0"
  note s = getUnsandboxedPointer_Some [OF assms conjunct1 [OF a] conjunct2 [OF a]]
  show "unat (wasm_memory sb) < unat q" by (rule s)
  show "unat q < unat (wasm_memory sb) + unat (wasm_memory_size sb)" by (rule s)
  show "getSandboxedPointer sb q = Some (p AND 0xFFFFFFFF)"
    by (rule s) (simp add: getSandboxedPointer_iff [OF assms])
next
  fix q off assume "getSandboxedPointer sb q = Some off"
  then consider "q = 0" "off = 0" | "off \<noteq> 0" "off < wasm_memory_size sb" "q = off + wasm_memory sb"
    by (auto simp: getSandboxedPointer_iff [OF assms])
  then show "getUnsandboxedPointer sb off = Some q"
  proof cases
    case 1
    then show ?thesis by (simp add: getUnsandboxedPointer_def)
  next
    case 2
    then have "off AND 0xFFFFFFFF = off"
      using assms by (intro low_half_small) (simp add: sandbox_placed_def word_less_nat_alt)
    then show ?thesis using 2 by (simp add: getUnsandboxedPointer_def)
  qed
next
  fix q
  show "getSandboxedPointer sb q \<noteq> None \<longleftrightarrow>
      q = 0 \<or> unat (wasm_memory sb) < unat q \<and> unat q < unat (wasm_memory sb) + unat (wasm_memory_size sb)"
    by (auto simp: getSandboxedPointer_def word_less_nat_alt unat_sub word_le_nat_alt)
next
  fix q :: u64 assume "q \<noteq> 0"
  have e: "unat (wasm_memory sb + wasm_memory_size sb) = unat (wasm_memory sb) + unat (wasm_memory_size sb)"
    using assms by (simp add: sandbox_placed_def unat_word_ariths)
  show "isAddressInSandboxMemoryOrNull sb q \<longleftrightarrow> \<not> isAddressInNonSandboxMemoryOrNull sb q"
    using \<open>q \<noteq> 0\<close> by (simp add: isAddressInSandboxMemoryOrNull_def isAddressInNonSandboxMemoryOrNull_def)
  show "isAddressInSandboxMemoryOrNull sb q \<longleftrightarrow>
        unat (wasm_memory sb) \<le> unat q \<and> unat q < unat (wasm_memory sb) + unat (wasm_memory_size sb)"
    using \<open>q \<noteq> 0\<close> e by (auto simp: isAddressInSandboxMemoryOrNull_def word_less_nat_alt word_le_nat_alt)
qed

definition some_sandbox :: sandbox where
  "some_sandbox = \<lparr>this_addr = 0x1000, ExportPrefix = ''_E'', wasm_malloc = 0, wasm_free = 0,
     wasm_memory = 0x7f0012345000, wasm_memory_size = 0x7fff0000,
     registerCallbackMap = (\<lambda>_. None), callbackStateMap = (\<lambda>_. None)\<rparr>"

lemma some_sandbox_placed: "sandbox_placed some_sandbox"
  by (simp add: sandbox_placed_def some_sandbox_def)

theorem pointer_translation_witness:
  "getSandboxedPointer some_sandbox 0x7f0012345010 = Some (0xabc00000010 AND 0xFFFFFFFF)"
proof -
  have "getUnsandboxedPointer some_sandbox 0xabc00000010 = Some 0x7f0012345010"
    by (simp add: getUnsandboxedPointer_def some_sandbox_def Let_def)
  from pointer_translation [OF some_sandbox_placed, THEN conjunct1, rule_format, OF conjI [OF this]]
  show ?thesis by simp
qed

lemma ucast_low_add: "(ucast (ucast (v :: u32) + (a :: u64)) :: u32) = v + ucast a"
proof transfer
  fix v a :: int
  have "take_bit 32 (v + take_bit 64 a) = take_bit 32 (take_bit 32 v + take_bit 32 (take_bit 64 a))"
    by (simp only: take_bit_add)
  also have "\<dots> = take_bit 32 (v + a)" by (simp add: take_bit_add)
  finally show "take_bit LENGTH(32) (take_bit LENGTH(64) (take_bit LENGTH(32) v + a)) = take_bit LENGTH(32) (v + take_bit LENGTH(64) a)"
    using take_bit_add [of 32 v a] take_bit_add [of 32 "take_bit 32 v" a] by simp
qed

text \<open>C23. A host pointer passed as an argument is cut to its low 32 bits instead of being translated.
  So a pointer that the module returned, passed back to it, means the same place to the module only if
  the linear memory lies at a multiple of 4 GB, as a comment in \<open>getSandboxedPointer\<close> has it; the
  runtime allocates it with \<open>calloc\<close>.\<close>

theorem pointer_argument_roundtrip:
  assumes "sandbox_placed sb" "v \<noteq> 0" "getUnsandboxedPointer sb (ucast v) = Some p"
  shows "serializeArg (C_pointer p) = Some (V_i32 v) \<longleftrightarrow> 2 ^ 32 dvd unat (wasm_memory sb)"
proof -
  have v: "(ucast v :: u64) AND 0xFFFFFFFF = ucast v" by (rule low_half_small) (use u32_lt [of v] in simp)
  have nz: "(ucast v :: u64) \<noteq> 0" using assms(2) by (simp add: word_unat_eq_iff)
  have p: "p = ucast v + wasm_memory sb"
    using assms(3) nz by (auto simp: getUnsandboxedPointer_def v Let_def split: if_splits)
  have "(ucast p :: u32) = v + ucast (wasm_memory sb)"
    by (simp add: p ucast_low_add)
  then have "serializeArg (C_pointer p) = Some (V_i32 v) \<longleftrightarrow> (ucast (wasm_memory sb) :: u32) = 0"
    by (simp add: serializeArg_def)
  also have "\<dots> \<longleftrightarrow> unat (wasm_memory sb) mod 2 ^ 32 = 0"
    by (simp add: word_unat_eq_iff unsigned_ucast_eq take_bit_eq_mod)
  finally show ?thesis by (simp only: mod_eq_0_iff_dvd)
qed

theorem pointer_argument_roundtrip_witness:
  "serializeArg (C_pointer 0x7f0012345010) \<noteq> Some (V_i32 0x10)"
proof -
  have "getUnsandboxedPointer some_sandbox (ucast (0x10 :: u32)) = Some 0x7f0012345010"
    by (simp add: getUnsandboxedPointer_def some_sandbox_def Let_def)
  from pointer_argument_roundtrip [OF some_sandbox_placed _ this] show ?thesis by (simp add: some_sandbox_def)
qed

section \<open>Calls\<close>

lemma bind_Ret: "rt_bind f g s = (Ret y, t) \<longleftrightarrow> (\<exists>x s1. f s = (Ret x, s1) \<and> g x s1 = (Ret y, t))"
  by (auto simp: rt_bind_def split: outcome.splits prod.splits)

lemma then_Ret: "rt_then f g s = (Ret y, t) \<longleftrightarrow> (\<exists>x s1. f s = (Ret x, s1) \<and> g s1 = (Ret y, t))"
  by (simp add: rt_then_def bind_Ret)

lemma in_lib_Ret: "in_lib f h = (Ret x, t) \<longleftrightarrow> (\<exists>s. f (lib_rt h) = (Ret x, s) \<and> t = h\<lparr>lib_rt := s\<rparr>)"
  by (auto simp: in_lib_def split: prod.splits)

lemmas op_Ret = bind_Ret then_Ret in_lib_Ret rt_get_def rt_return_def rt_modify_def rt_abort_def

lemma load32_state [simp]: "load32 a s = (Ret v, t) \<Longrightarrow> t = s"
  by (simp add: load32_cases split: if_splits)

lemma checkStackCookie_Ret:
  assumes "checkStackCookie s = (Ret u, t)" shows "t = s"
proof -
  obtain c1 s1 c2 s2 n s3 where "load32 (Z_envZ_STACK_MAX s - 4) s = (Ret c1, s1)"
    "load32 (Z_envZ_STACK_MAX s - 8) s1 = (Ret c2, s2)" "load32 0 s2 = (Ret n, s3)" "t = s3"
    using assms by (auto simp: checkStackCookie_def op_Ret split: if_splits)
  then show ?thesis by (metis load32_state)
qed

lemma guarded_Ret: "guarded b h = (Ret x, t) \<longleftrightarrow> b (h\<lparr>jmp_frame := next_frame h, next_frame := next_frame h + 1\<rparr>) = (Ret x, t)"
  by (auto simp: guarded_def Let_def split: prod.splits outcome.splits if_splits)

lemma invokeFunctionWithArgs_Ret:
  assumes "invokeFunctionWithArgs call h = (Ret x, t)"
  shows "CurrThreadSandbox t = CurrThreadSandbox h \<and> checkStackCookie (lib_rt t) = (Ret (), lib_rt t)"
proof -
  obtain u s where s: "checkStackCookie (lib_rt u) = (Ret (), s)"
    and "t = u\<lparr>CurrThreadSandbox := CurrThreadSandbox h, lib_rt := s\<rparr>"
    using assms by (auto simp: invokeFunctionWithArgs_def op_Ret getCurrThreadSandbox_def setCurrThreadSandbox_def)
  then show ?thesis using checkStackCookie_Ret [OF s(1)] by simp
qed

text \<open>C21. What a host call into the module leaves behind, whatever the module does, callbacks and nested
  calls included: a call that returns has restored the thread's current sandbox and has found the
  stack cookie intact, and a call never ends in a trap.\<close>

theorem invokeFunction_contained:
  "case invokeFunction malloc_fn free_fn heap_base tret fnPtr params h of
     (Ret r, t) \<Rightarrow> CurrThreadSandbox t = CurrThreadSandbox h \<and> checkStackCookie (lib_rt t) = (Ret (), lib_rt t)
   | (Trap code, t) \<Rightarrow> False
   | _ \<Rightarrow> True"
proof -
  have "fst (guarded b h) \<noteq> Trap code" for b :: "cxx_val option host_op" and code
    by (auto simp: guarded_def Let_def split: prod.splits outcome.splits if_splits)
  moreover have "CurrThreadSandbox t = CurrThreadSandbox h \<and> checkStackCookie (lib_rt t) = (Ret (), lib_rt t)"
    if "invokeFunction malloc_fn free_fn heap_base tret fnPtr params h = (Ret r, t)" for r t
    using that invokeFunctionWithArgs_Ret
    by (auto simp: invokeFunction_def guarded_Ret split: option.splits) fastforce+
  ultimately show ?thesis
    by (auto simp: invokeFunction_def split: prod.splits outcome.splits option.splits) (metis fst_conv)+
qed

text \<open>A host whose runtime has the stack cookie in place.\<close>

definition cookie_host :: host where
  "cookie_host = \<lparr>lib_rt = cookie_state, sbx = some_sandbox, CurrThreadSandbox = 0, jmp_frame = 0, next_frame = 1\<rparr>"

definition after_malloc :: host where
  "after_malloc = cookie_host\<lparr>jmp_frame := 1, next_frame := 2\<rparr>"

lemma cookie_host_check: "checkStackCookie cookie_state = (Ret (), cookie_state)"
proof -
  let ?s = "poke 0 0x63736d65 (small_state\<lparr>Z_envZ_STACK_MAX := 32\<rparr>)"
  have "in_bounds ?s 24" "in_bounds ?s 28" by (simp_all add: in_bounds_def small_state_size)
  then have w: "writeStackCookie ?s = (Ret (), cookie_state)"
    by (simp add: writeStackCookie_cases Let_def cookie_state_def)
  have "word_at cookie_state 0 = 0x63736d65" by (simp add: cookie_state_def word_at_poke_apart)
  moreover have "Z_envZ_STACK_MAX cookie_state = 32" by (simp add: cookie_state_def)
  moreover have "in_bounds cookie_state 0" by (simp add: cookie_state_def in_bounds_def small_state_size)
  ultimately show ?thesis using writeStackCookie_Ret [OF w] by (simp add: checkStackCookie_cases)
qed

text \<open>The host state at the entry of the function that \<open>invokeFunction\<close> calls.\<close>

definition entered :: "host \<Rightarrow> host" where
  "entered h = h\<lparr>jmp_frame := next_frame h, next_frame := next_frame h + 1, CurrThreadSandbox := this_addr (sbx h)\<rparr>"

definition trapping :: "wasm_rt_trap \<Rightarrow> wasm_val host_op" where
  "trapping code h = (Trap code, h)"

lemma invokeVoid_traps:
  assumes "fn args (entered h) = (Trap code, t)"
  shows "fst (invokeVoid fn args h) = (if jmp_frame t = next_frame h then Abort else Escape)"
  using assms by (simp add: invokeVoid_def guarded_def invokeFunctionWithArgs_def rt_bind_def rt_then_def
    rt_get_def rt_modify_def getCurrThreadSandbox_def setCurrThreadSandbox_def entered_def Let_def)

lemma invokeVoid_frame:
  assumes "\<And>h. jmp_frame (snd (fn args h)) = jmp_frame h" "invokeVoid fn args h = (Ret (), t)"
  shows "jmp_frame t = next_frame h"
proof -
  from assms(2) obtain r u where "fn args (h\<lparr>jmp_frame := next_frame h, next_frame := next_frame h + 1,
      CurrThreadSandbox := this_addr (sbx h)\<rparr>) = (Ret r, u)" "jmp_frame t = jmp_frame u"
    by (auto simp: invokeVoid_def guarded_Ret invokeFunctionWithArgs_def op_Ret getCurrThreadSandbox_def setCurrThreadSandbox_def)
  then show ?thesis using assms(1) by (metis host.select_convs(4) host.update_convs(3,4,5) host.surjective snd_conv)
qed

text \<open>C24. \<open>setjmp\<close> is done once per call, into one buffer per thread. A trap in a function that has made
  no nested call into the module is caught and aborts; after a nested call that returned, the buffer
  holds a frame that is gone, and the same trap jumps there, which is undefined.\<close>

theorem trap_after_nested_call:
  assumes "\<And>h. jmp_frame (snd (g as h)) = jmp_frame h" "invokeVoid g as (entered h) = (Ret (), t)"
  shows "fst (invokeVoid (\<lambda>_. trapping code) args h) = Abort \<and>
    fst (invokeVoid (\<lambda>_. rt_then (invokeVoid g as) (trapping code)) args h) = Escape"
proof -
  have "jmp_frame t = next_frame h + 1"
    using invokeVoid_frame [OF assms] by (simp add: entered_def)
  moreover have "rt_then (invokeVoid g as) (trapping code) (entered h) = (Trap code, t)"
    by (simp add: rt_then_def rt_bind_def assms(2) trapping_def)
  moreover have "jmp_frame (entered h) = next_frame h" by (simp add: entered_def)
  ultimately show ?thesis
    by (simp add: invokeVoid_traps [where t = t] invokeVoid_traps [where t = "entered h"] trapping_def)
qed

section \<open>Callbacks\<close>

text \<open>What the host relies on: the slots it has registered are in use, and their entries in the maps
  are those of the handle. \<open>live\<close> are the handles, with their states.\<close>

definition handle_ok :: "host \<Rightarrow> callback \<times> u64 \<Rightarrow> bool" where
  "handle_ok h c \<longleftrightarrow>
     (\<exists>ty. func_at (lib_rt h) (callbackSlot (fst c)) = Some (callbackStub_addr (fst c), ty)) \<and>
     registerCallbackMap (sbx h) (callbackSlot (fst c)) = Some (originalCallback (fst c)) \<and>
     callbackStateMap (sbx h) (callbackSlot (fst c)) = Some (snd c)"

text \<open>The histories of a sandbox, as far as its callbacks go: the host registers callbacks and internal
  callbacks and drops handles it has, and the module runs without touching the table.\<close>

inductive history :: "host \<Rightarrow> (callback \<times> u64) set \<Rightarrow> bool" where
  start: "table_ok (lib_rt h) \<Longrightarrow> history h {}"
| register: "history h live \<Longrightarrow> stub \<noteq> 0 \<Longrightarrow>
     registerCallback stub tret targs callback state h = (Ret cb, t) \<Longrightarrow> history t (insert (cb, state) live)"
| internal: "history h live \<Longrightarrow> callback \<noteq> 0 \<Longrightarrow>
     registerInternalCallback tret targs callback h = (Ret p, t) \<Longrightarrow> history t live"
| unregister: "history h live \<Longrightarrow> (cb, state) \<in> live \<Longrightarrow>
     unregisterCallback (Some cb) h = (Ret u, t) \<Longrightarrow> history t (live - {(cb, state)})"
| run: "history h live \<Longrightarrow> Z_envZ_table (lib_rt t) = Z_envZ_table (lib_rt h) \<Longrightarrow> sbx t = sbx h \<Longrightarrow> history t live"

lemma register_type_table [simp]:
  "wasm_rt_register_func_type_with_lists ps rs s = (Ret i, t) \<Longrightarrow> Z_envZ_table t = Z_envZ_table s"
  by (auto simp: wasm_rt_register_func_type_with_lists_def Let_def split: option.splits)

lemma func_at_table: "Z_envZ_table s = Z_envZ_table t \<Longrightarrow> func_at s k = func_at t k"
  by (simp add: func_at_cases)

lemma table_ok_table: "Z_envZ_table s = Z_envZ_table t \<Longrightarrow> table_ok s = table_ok t"
  by (simp add: table_ok_def)

text \<open>Both registrations: a fresh slot for the function, every other slot as before.\<close>

lemma registered:
  assumes "table_ok s" "func \<noteq> 0" "wasm_rt_register_func_type_with_lists ps rs s = (Ret ty, s1)"
    "wasm_rt_register_func func ty s1 = (Ret k, t)"
  shows "table_ok t \<and> func_at s k = None \<and> (\<forall>j. func_at t j = (if j = k then Some (func, ty) else func_at s j))"
proof -
  note tbl = register_type_table [OF assms(3)]
  have "table_ok s1" "func_ok (func, ty)" using assms(1,2) table_ok_table [OF tbl] by (simp_all add: func_ok_def)
  moreover have "reg_func (func, ty) s1 = Some (k, t)" by (simp add: reg_func_def assms(4))
  ultimately show ?thesis
    using rt_funcs.reg_ok rt_funcs.reg_fresh rt_funcs.reg_get func_at_table [OF tbl] by metis
qed

definition history_ok :: "host \<Rightarrow> (callback \<times> u64) set \<Rightarrow> bool" where
  "history_ok h live \<longleftrightarrow> table_ok (lib_rt h) \<and> (\<forall>c \<in> live. handle_ok h c) \<and> inj_on (callbackSlot \<circ> fst) live"

lemma history_okD:
  assumes "history_ok h live"
  shows "table_ok (lib_rt h)" "c \<in> live \<Longrightarrow> handle_ok h c"
    "c \<in> live \<Longrightarrow> d \<in> live \<Longrightarrow> callbackSlot (fst c) = callbackSlot (fst d) \<Longrightarrow> c = d"
  using assms by (simp_all add: history_ok_def inj_on_def)

lemma registerCallback_Ret:
  assumes "registerCallback stub tret targs callback state h = (Ret cb, t)"
  obtains ty s1 k s2 where
    "wasm_rt_register_func_type_with_lists (map getWasmType targs) (getCallbackReturnWasmVec tret) (lib_rt h) = (Ret ty, s1)"
    "wasm_rt_register_func stub ty s1 = (Ret k, s2)"
    "cb = \<lparr>callbackSlot = k, originalCallback = callback, callbackStub_addr = stub\<rparr>"
    "lib_rt t = s2" "registerCallbackMap (sbx t) = (registerCallbackMap (sbx h))(k \<mapsto> callback)"
    "callbackStateMap (sbx t) = (callbackStateMap (sbx h))(k \<mapsto> state)"
  using assms by (auto simp: registerCallback_def registerCallbackImpl_def op_Ret)

lemma registerInternalCallback_Ret:
  assumes "registerInternalCallback tret targs callback h = (Ret p, t)"
  obtains ty s1 k s2 where
    "wasm_rt_register_func_type_with_lists (map getWasmType targs) (getCallbackReturnWasmVec tret) (lib_rt h) = (Ret ty, s1)"
    "wasm_rt_register_func callback ty s1 = (Ret k, s2)" "lib_rt t = s2" "sbx t = sbx h"
  using assms by (auto simp: registerInternalCallback_def registerInternalCallbackImpl_def op_Ret)

lemma unregisterCallback_Ret:
  assumes "unregisterCallback (Some cb) h = (Ret u, t)"
  shows "lib_rt t = unreg_func (callbackSlot cb) (lib_rt h)"
    "registerCallbackMap (sbx t) = (registerCallbackMap (sbx h))(callbackSlot cb := None)"
    "callbackStateMap (sbx t) = (callbackStateMap (sbx h))(callbackSlot cb := None)"
  using assms by (auto simp: unregisterCallback_def op_Ret unreg_func_def)

lemma handle_ok_other:
  assumes "handle_ok h c" "callbackSlot (fst c) \<noteq> k"
    "\<And>j. j \<noteq> k \<Longrightarrow> func_at (lib_rt t) j = func_at (lib_rt h) j"
    "\<And>j. j \<noteq> k \<Longrightarrow> registerCallbackMap (sbx t) j = registerCallbackMap (sbx h) j"
    "\<And>j. j \<noteq> k \<Longrightarrow> callbackStateMap (sbx t) j = callbackStateMap (sbx h) j"
  shows "handle_ok t c"
  using assms(1) assms(3-5) [OF assms(2)] by (simp add: handle_ok_def)

lemma history_live: "history h live \<Longrightarrow> history_ok h live"
proof (induction rule: history.induct)
  case (start h)
  then show ?case by (simp add: history_ok_def)
next
  case (register h live stub tret targs callback state cb t)
  note ok = history_okD [OF register.IH]
  obtain ty s1 k s2 where
    r: "wasm_rt_register_func_type_with_lists (map getWasmType targs) (getCallbackReturnWasmVec tret) (lib_rt h) = (Ret ty, s1)"
      "wasm_rt_register_func stub ty s1 = (Ret k, s2)"
    and cb: "cb = \<lparr>callbackSlot = k, originalCallback = callback, callbackStub_addr = stub\<rparr>"
    and t: "lib_rt t = s2" "registerCallbackMap (sbx t) = (registerCallbackMap (sbx h))(k \<mapsto> callback)"
      "callbackStateMap (sbx t) = (callbackStateMap (sbx h))(k \<mapsto> state)"
    by (rule registerCallback_Ret [OF register.hyps(3)])
  note s = registered [OF ok(1) register.hyps(2) r]
  have fresh: "callbackSlot (fst c) \<noteq> k" if "c \<in> live" for c
    using ok(2) [OF that] s by (auto simp: handle_ok_def)
  have new: "handle_ok t (cb, state)" using s by (simp add: handle_ok_def t cb)
  have old: "handle_ok t c" if "c \<in> live" for c
    by (rule handle_ok_other [OF ok(2) [OF that] fresh [OF that]]) (simp_all add: t s)
  have "inj_on (callbackSlot \<circ> fst) (insert (cb, state) live)"
    using register.IH fresh by (auto simp: history_ok_def cb)
  then show ?case using s new old by (simp add: history_ok_def t)
next
  case (internal h live callback tret targs p t)
  note ok = history_okD [OF internal.IH]
  obtain ty s1 k s2 where
    r: "wasm_rt_register_func_type_with_lists (map getWasmType targs) (getCallbackReturnWasmVec tret) (lib_rt h) = (Ret ty, s1)"
      "wasm_rt_register_func callback ty s1 = (Ret k, s2)"
    and t: "lib_rt t = s2" "sbx t = sbx h"
    by (rule registerInternalCallback_Ret [OF internal.hyps(3)])
  note s = registered [OF ok(1) internal.hyps(2) r]
  have "handle_ok t c" if "c \<in> live" for c
    by (rule handle_ok_other [OF ok(2) [OF that], of k]) (use ok(2) [OF that] s in \<open>auto simp: t handle_ok_def\<close>)
  then show ?case using internal.IH s by (simp add: history_ok_def t)
next
  case (unregister h live cb state u t)
  note ok = history_okD [OF unregister.IH] and t = unregisterCallback_Ret [OF unregister.hyps(3)]
  have other: "callbackSlot (fst c) \<noteq> callbackSlot cb" if "c \<in> live - {(cb, state)}" for c
    using ok(3) [of c "(cb, state)"] unregister.hyps(2) that by auto
  have "handle_ok t c" if "c \<in> live - {(cb, state)}" for c
    by (rule handle_ok_other [OF ok(2) other [OF that]]) (use that rt_funcs.unreg_get [OF ok(1)] in \<open>simp_all add: t\<close>)
  then show ?case
    using unregister.IH rt_funcs.unreg_ok [OF ok(1)] by (simp add: history_ok_def t inj_on_diff)
next
  case (run h live t)
  then show ?case by (simp add: history_ok_def handle_ok_def func_at_table [OF run.hyps(2)] table_ok_table [OF run.hyps(2)])
qed

text \<open>C20. Callbacks reach the host function they were registered for: in every history of registrations,
  removals and runs of the module, an indirect call through the slot of a live handle gets the stub
  of that handle, and the stub calls the handle's function with the handle's state; two live handles
  never share a slot.\<close>

theorem callbacks_dispatch:
  assumes "history h live" "(cb, state) \<in> live" "originalCallback cb \<noteq> 0"
    "CurrThreadSandbox h = this_addr (sbx h)" "call_num (lib_rt h) = (Ret (callbackSlot cb), lib_rt h)"
  shows "fst (getUnsandboxedFuncPointer (ucast (callbackSlot cb)) h) = Ret (callbackStub_addr cb) \<and>
    callbackStub host_fn call_num targs args h =
      rt_bind (invokeCallbackTarget (host_fn (originalCallback cb) state) targs args [])
        (\<lambda>r. case r of None \<Rightarrow> rt_return V_void
           | Some v \<Rightarrow> (case serializeArg v of Some w \<Rightarrow> rt_return w | None \<Rightarrow> (\<lambda>h. (Escape, h)))) h \<and>
    (\<forall>c \<in> live. callbackSlot (fst c) = callbackSlot cb \<longrightarrow> c = (cb, state))"
proof (intro conjI)
  note ok = history_okD [OF history_live [OF assms(1)]]
  have c: "handle_ok h (cb, state)" by (rule ok(2) [OF assms(2)])
  have "(ucast (ucast (callbackSlot cb) :: u64) :: u32) = callbackSlot cb"
    by (rule bit_word_eqI) (auto simp: bit_simps)
  then show "fst (getUnsandboxedFuncPointer (ucast (callbackSlot cb)) h) = Ret (callbackStub_addr cb)"
    using c by (auto simp: handle_ok_def getUnsandboxedFuncPointer_def in_lib_def func_at_def
      wasm_rt_get_registered_func_def split: if_splits)
  have maps: "(registerCallbackMap (sbx h))(callbackSlot cb \<mapsto> originalCallback cb) = registerCallbackMap (sbx h)"
    "(callbackStateMap (sbx h))(callbackSlot cb \<mapsto> state) = callbackStateMap (sbx h)"
    using c by (simp_all add: handle_ok_def map_upd_triv)
  then show "callbackStub host_fn call_num targs args h =
      rt_bind (invokeCallbackTarget (host_fn (originalCallback cb) state) targs args [])
        (\<lambda>r. case r of None \<Rightarrow> rt_return V_void
           | Some v \<Rightarrow> (case serializeArg v of Some w \<Rightarrow> rt_return w | None \<Rightarrow> (\<lambda>h. (Escape, h)))) h"
    using c assms(3,4,5)
    by (simp add: callbackStub_def callbackStubImpl_def in_lib_def rt_bind_def [of "in_lib call_num"] rt_bind_def [of "rt_get _"]
      rt_get_def rt_then_def rt_bind_def [of "rt_modify _"] rt_modify_def map_at_def handle_ok_def)
  show "\<forall>c \<in> live. callbackSlot (fst c) = callbackSlot cb \<longrightarrow> c = (cb, state)"
    using ok(3) [OF _ assms(2)] by simp
qed

definition some_host :: host where
  "some_host = \<lparr>lib_rt = small_state, sbx = some_sandbox, CurrThreadSandbox = 0x1000, jmp_frame = 0, next_frame = 1\<rparr>"

theorem callbacks_dispatch_witness:
  "\<exists>h cb. (\<exists>live. history h live \<and> (cb, 7) \<in> live) \<and> originalCallback cb = 0x400100 \<and>
     fst (getUnsandboxedFuncPointer (ucast (callbackSlot cb)) h) = Ret 0x400200"
proof -
  have ok: "table_ok (lib_rt some_host)"
    by (simp add: table_ok_def some_host_def small_state_def wasm_rt_allocate_table_real_def FUNC_TABLE_SIZE_def)
  have free: "find_free_slot (tbl_data (Z_envZ_table small_state)) [1..<FUNC_TABLE_SIZE] = Some 1"
  proof -
    have "[1..<FUNC_TABLE_SIZE] = 1 # [Suc 1..<FUNC_TABLE_SIZE]" by (rule upt_conv_Cons) (simp add: FUNC_TABLE_SIZE_def)
    moreover have "tbl_data (Z_envZ_table small_state) ! 1 = null_elem"
      by (simp add: small_state_def wasm_rt_allocate_table_real_def FUNC_TABLE_SIZE_def)
    ultimately show ?thesis by (simp only: find_free_slot.simps) (simp add: null_elem_def)
  qed
  have types: "g_func_types small_state = []" by (simp add: small_state_def)
  let ?r = "registerCallback 0x400200 None [Fund32] 0x400100 7 some_host"
  have "\<exists>cb t. ?r = (Ret cb, t) \<and> originalCallback cb = 0x400100 \<and> callbackStub_addr cb = 0x400200 \<and>
      CurrThreadSandbox t = this_addr (sbx t)"
    by (simp add: registerCallback_def registerCallbackImpl_def rt_bind_def rt_then_def rt_modify_def rt_return_def
      in_lib_def wasm_rt_register_func_type_with_lists_def wasm_rt_register_func_def some_host_def some_sandbox_def
      types free Let_def del: One_nat_def)
  then obtain cb t where r: "?r = (Ret cb, t)" and cb: "originalCallback cb = 0x400100" "callbackStub_addr cb = 0x400200"
    and t: "CurrThreadSandbox t = this_addr (sbx t)" by blast
  have h: "history t {(cb, 7)}" by (rule history.register [OF history.start [OF ok] _ r]) simp
  have "fst (getUnsandboxedFuncPointer (ucast (callbackSlot cb)) t) = Ret (callbackStub_addr cb)"
    by (rule callbacks_dispatch [OF h _ _ t, THEN conjunct1]) (simp_all add: cb)
  then show ?thesis
    by (intro exI [of _ t] exI [of _ cb] exI [of _ "{(cb, 7)}"] conjI) (simp_all only: h cb insertI1)
qed

text \<open>C22. A block that \<open>mallocInSandbox\<close> returns starts in the module's heap, whatever the module's
  \<open>malloc\<close> does. But the 64-bit size is cut to 32 bits on the way: a request for a size of \<open>n\<close> plus any
  multiple of 4 GB gets the same block as one for \<open>n\<close>.\<close>

theorem mallocInSandbox_block:
  assumes "mallocInSandbox malloc_fn heap_base n h = (Ret p, t)" "p \<noteq> 0" "sandbox_placed (sbx t)"
  shows "(\<exists>s b off. heap_base s = (Ret b, lib_rt t) \<and> getSandboxedPointer (sbx t) p = Some off \<and> unat b \<le> unat off) \<and>
    mallocInSandbox malloc_fn heap_base (n + push_bit 32 k) h = (Ret p, t)"
proof
  obtain r h1 where r: "(case r of C_fund32 ret \<Rightarrow>
           (if ret \<noteq> 0 then
              rt_bind (in_lib heap_base) (\<lambda>heap_base.
                if (ucast ret :: u64) < ucast heap_base then rt_abort else unsandboxed (ucast ret))
            else unsandboxed (ucast ret))
       | _ \<Rightarrow> (\<lambda>h. (Escape, h))) h1 = (Ret p, t)"
    using iffD1 [OF bind_Ret assms(1) [unfolded mallocInSandbox_def]] by blast
  from r obtain v where v: "r = C_fund32 v" by (cases r) simp_all
  note r = r [unfolded v cxx_val.case]
  have "v \<noteq> 0"
  proof
    assume "v = 0"
    then have "p = 0" using r by (simp add: unsandboxed_def op_Ret or_abort_def getUnsandboxedPointer_def)
    then show False using assms(2) by simp
  qed
  then obtain b s where b: "heap_base (lib_rt h1) = (Ret b, s)" "t = h1\<lparr>lib_rt := s\<rparr>"
    "\<not> (ucast v :: u64) < ucast b" "getUnsandboxedPointer (sbx t) (ucast v) = Some p"
    using r by (auto simp: unsandboxed_def op_Ret or_abort_def split: if_splits option.splits)
  obtain off where off: "off = (ucast v :: u64) AND 0xFFFFFFFF" "getSandboxedPointer (sbx t) p = Some off"
    using getUnsandboxedPointer_Some [OF assms(3) b(4) assms(2)] getSandboxedPointer_iff [OF assms(3)] by metis
  have "off = ucast v" unfolding off(1) by (rule low_half_small) (use u32_lt [of v] in simp)
  then show "\<exists>s b off. heap_base s = (Ret b, lib_rt t) \<and> getSandboxedPointer (sbx t) p = Some off \<and> unat b \<le> unat off"
    using b(1,2,3) off(2) by (force simp: word_less_nat_alt)
  have "(ucast (n + push_bit 32 k) :: u32) = ucast n"
  proof transfer
    fix n k :: int
    have "take_bit 32 (n + push_bit 32 k) = take_bit 32 (take_bit 32 n + take_bit 32 (push_bit 32 k))"
      by (simp only: take_bit_add)
    then show "take_bit LENGTH(32) (take_bit LENGTH(64) (n + push_bit 32 k)) = take_bit LENGTH(32) (take_bit LENGTH(64) n)"
      by (simp add: take_bit_push_bit)
  qed
  then show "mallocInSandbox malloc_fn heap_base (n + push_bit 32 k) h = (Ret p, t)"
    using assms(1) by (simp add: mallocInSandbox_def)
qed

theorem mallocInSandbox_block_witness:
  "mallocInSandbox (\<lambda>_ h. (Ret (V_i32 4096), h)) (\<lambda>s. (Ret 2048, s)) (16 + push_bit 32 1) cookie_host
     = (Ret (0x1000 + wasm_memory some_sandbox), after_malloc)"
proof -
  have "mallocInSandbox (\<lambda>_ h. (Ret (V_i32 4096), h)) (\<lambda>s. (Ret 2048, s)) 16 cookie_host
      = (Ret (0x1000 + wasm_memory some_sandbox), after_malloc)"
    by (simp add: mallocInSandbox_def invokeRet_def guarded_def invokeFunctionWithArgs_def rt_bind_def rt_then_def rt_get_def
      rt_modify_def rt_return_def getCurrThreadSandbox_def setCurrThreadSandbox_def cookie_host_check in_lib_def unsandboxed_def
      or_abort_def getUnsandboxedPointer_def after_malloc_def Let_def cookie_host_def some_sandbox_def)
  from mallocInSandbox_block [OF this, THEN conjunct2, of 1] show ?thesis
    by (simp add: after_malloc_def cookie_host_def some_sandbox_placed) (simp add: some_sandbox_def)
qed

theorem trap_after_nested_call_witness:
  "\<forall>code. fst (invokeVoid (\<lambda>_. rt_then (invokeVoid (\<lambda>_. rt_return V_void) []) (trapping code)) [] cookie_host) = Escape"
proof
  fix code
  have "invokeVoid (\<lambda>_. rt_return V_void) [] (entered cookie_host)
      = (Ret (), (entered (entered cookie_host))\<lparr>CurrThreadSandbox := 0x1000\<rparr>)"
    by (simp add: invokeVoid_def guarded_def invokeFunctionWithArgs_def rt_bind_def rt_then_def rt_get_def
      rt_modify_def rt_return_def getCurrThreadSandbox_def setCurrThreadSandbox_def cookie_host_check in_lib_def entered_def
      cookie_host_def some_sandbox_def)
  from trap_after_nested_call [OF _ this, of code] 
  show "fst (invokeVoid (\<lambda>_. rt_then (invokeVoid (\<lambda>_. rt_return V_void) []) (trapping code)) [] cookie_host) = Escape"
    by (simp add: rt_return_def)
qed

end
