(* ===== verification/Literal.thy ===== *)
theory Literal
  imports WabtPrelude
begin

text \<open>
  Number literals of the text format (\<^verbatim>\<open>src/literal.cc\<close>). A literal is the list of characters
  between \<open>s\<close> and \<open>end\<close>; the lexer has matched it before, so a parser is only defined to do something
  useful on such a text, but the definitions follow the code on every text. A C++ assertion that
  fails is \<open>LitAssert\<close>: a debug build aborts there, a release build goes on.

  Integers are kept at their width. The unsigned type \<open>Uint\<close> of the float traits, whose width depends
  on the template argument, is a \<open>nat\<close> with \<open>mod 2 ^ kBits\<close> written out; \<open>int\<close> exponents, which are
  bounded by the length of the text, are unbounded.
\<close>

datatype 'a lit = Lit 'a | LitError | LitAssert

definition lit_bind :: "'a lit \<Rightarrow> ('a \<Rightarrow> 'b lit) \<Rightarrow> 'b lit" where
  "lit_bind x f = (case x of Lit a \<Rightarrow> f a | LitError \<Rightarrow> LitError | LitAssert \<Rightarrow> LitAssert)"

lemma lit_bind_simps [simp]: "lit_bind (Lit a) f = f a" "lit_bind LitError f = LitError" "lit_bind LitAssert f = LitAssert"
  by (simp_all add: lit_bind_def)

definition chr_u32 :: "char \<Rightarrow> u32" where
  "chr_u32 c = of_nat (of_char c)"

section \<open>Integers\<close>

datatype ParseIntType = UnsignedOnly | SignedAndUnsigned

text \<open>The subtractions are unsigned and wrap.\<close>

definition ParseHexdigit :: "char \<Rightarrow> u32 option" where
  "ParseHexdigit c =
     (if chr_u32 c - chr_u32 CHR ''0'' \<le> 9 then Some (chr_u32 c - chr_u32 CHR ''0'')
      else if chr_u32 c - chr_u32 CHR ''a'' \<le> 6 then Some (10 + (chr_u32 c - chr_u32 CHR ''a''))
      else if chr_u32 c - chr_u32 CHR ''A'' \<le> 6 then Some (10 + (chr_u32 c - chr_u32 CHR ''A''))
      else None)"

text \<open>The two loops of \<open>ParseUint64\<close>; \<open>None\<close> is \<open>Result::Error\<close>.\<close>

fun ParseUint64_hex :: "u64 \<Rightarrow> string \<Rightarrow> u64 option" where
  "ParseUint64_hex value [] = Some value"
| "ParseUint64_hex value (c # s) =
     (if c = CHR ''_'' then ParseUint64_hex value s
      else (case ParseHexdigit c of
          None \<Rightarrow> None
        | Some digit \<Rightarrow>
            let new_value = value * 16 + ucast digit in
            if value > new_value then None else ParseUint64_hex new_value s))"

fun ParseUint64_dec :: "u64 \<Rightarrow> string \<Rightarrow> u64 option" where
  "ParseUint64_dec value [] = Some value"
| "ParseUint64_dec value (c # s) =
     (if c = CHR ''_'' then ParseUint64_dec value s
      else
        let digit = chr_u32 c - chr_u32 CHR ''0'' in
        if digit > 9 then None
        else
          let new_value = value * 10 + ucast digit in
          if value > new_value then None else ParseUint64_dec new_value s)"

definition ParseUint64 :: "string \<Rightarrow> u64 option" where
  "ParseUint64 s =
     (if s = [] then None
      else if take 2 s = ''0x'' then
        (if drop 2 s = [] then None else ParseUint64_hex 0 (drop 2 s))
      else ParseUint64_dec 0 s)"

text \<open>
  The test of the sign reads \<open>*s\<close>; an empty text fails in \<open>ParseUint64\<close> whatever is read. The result
  is the flag and what is stored through the out parameter, if anything is.
\<close>

definition sign_of :: "string \<Rightarrow> char option" where
  "sign_of s = (case s of c # _ \<Rightarrow> if c = CHR ''-'' \<or> c = CHR ''+'' then Some c else None | [] \<Rightarrow> None)"

definition ParseInt64 :: "string \<Rightarrow> ParseIntType \<Rightarrow> Result \<times> u64 option" where
  "ParseInt64 s parse_type =
     (if sign_of s \<noteq> None \<and> parse_type = UnsignedOnly then (Result_Error, None)
      else
        let has_sign = (sign_of s = Some CHR ''-'');
            digits = (if sign_of s \<noteq> None then tl s else s);
            parsed = ParseUint64 digits;
            result = (if parsed = None then Result_Error else Result_Ok);
            value = (case parsed of Some v \<Rightarrow> v | None \<Rightarrow> 0)
        in if has_sign then
             (if value > 0x7fffffffffffffff + 1 then (Result_Error, None)
              else (result, Some (0xffffffffffffffff - value + 1)))
           else (result, Some value))"

definition ParseInt32 :: "string \<Rightarrow> ParseIntType \<Rightarrow> u32 option" where
  "ParseInt32 s parse_type =
     (if sign_of s \<noteq> None \<and> parse_type = UnsignedOnly then None
      else
        let has_sign = (sign_of s = Some CHR ''-'');
            digits = (if sign_of s \<noteq> None then tl s else s)
        in case ParseUint64 digits of
             None \<Rightarrow> None
           | Some value \<Rightarrow>
               (if has_sign then
                  (if value > 0x7fffffff + 1 then None else Some (ucast (0xffffffff - value + 1)))
                else if value > 0xffffffff then None
                else Some (ucast value)))"

section \<open>Float traits\<close>

record float_traits =
  kBits :: nat
  kSigBits :: nat
  kMaxHexBufferSize :: nat

definition float_traits32 :: float_traits where
  "float_traits32 = \<lparr>kBits = 32, kSigBits = 23, kMaxHexBufferSize = 20\<rparr>"

definition float_traits64 :: float_traits where
  "float_traits64 = \<lparr>kBits = 64, kSigBits = 52, kMaxHexBufferSize = 40\<rparr>"

definition kExpBits :: "float_traits \<Rightarrow> nat" where "kExpBits t = kBits t - kSigBits t - 1"
definition kSignShift :: "float_traits \<Rightarrow> nat" where "kSignShift t = kBits t - 1"
definition kSigMask :: "float_traits \<Rightarrow> nat" where "kSigMask t = 2 ^ kSigBits t - 1"
definition kSigPlusOneBits :: "float_traits \<Rightarrow> nat" where "kSigPlusOneBits t = kSigBits t + 1"
definition kSigPlusOneMask :: "float_traits \<Rightarrow> nat" where "kSigPlusOneMask t = 2 ^ kSigPlusOneBits t - 1"
definition kExpMask :: "float_traits \<Rightarrow> nat" where "kExpMask t = 2 ^ kExpBits t - 1"
definition kMaxExp :: "float_traits \<Rightarrow> int" where "kMaxExp t = 2 ^ (kExpBits t - 1)"
definition kMinExp :: "float_traits \<Rightarrow> int" where "kMinExp t = - kMaxExp t + 1"
definition kExpBias :: "float_traits \<Rightarrow> int" where "kExpBias t = - kMinExp t"
definition kQuietNanTag :: "float_traits \<Rightarrow> nat" where "kQuietNanTag t = 2 ^ (kSigBits t - 1)"

text \<open>\<open>Uint\<close> arithmetic.\<close>

definition uint_t :: "float_traits \<Rightarrow> nat \<Rightarrow> nat" where
  "uint_t t n = n mod 2 ^ kBits t"

fun bit_length :: "nat \<Rightarrow> nat" where
  "bit_length n = (if n = 0 then 0 else Suc (bit_length (n div 2)))"

declare bit_length.simps [simp del]

definition Clz :: "float_traits \<Rightarrow> nat \<Rightarrow> nat" where
  "Clz t n = kBits t - bit_length n"

section \<open>Parsing floats\<close>

datatype LiteralType = LT_Int | LT_Float | LT_Hexfloat | LT_Infinity | LT_Nan

fun StringStartsWith :: "string \<Rightarrow> string \<Rightarrow> bool" where
  "StringStartsWith s [] = True"
| "StringStartsWith [] (p # ps) = False"
| "StringStartsWith (c # s) (p # ps) = (if c \<noteq> p then False else StringStartsWith s ps)"

text \<open>
  \<open>strtof\<close> and \<open>strtod\<close> are a parameter: the bits of the value, and how many characters were read.
  The result is an error if not all of the text was read or the value is an infinity.
\<close>

definition FloatParser_ParseFloat :: "float_traits \<Rightarrow> (string \<Rightarrow> nat \<times> nat) \<Rightarrow> string \<Rightarrow> nat lit" where
  "FloatParser_ParseFloat t Strto s =
     (let buffer = filter (\<lambda>c. c \<noteq> CHR ''_'') s; (value, read) = Strto buffer;
          inf = 2 ^ kSigBits t * kExpMask t
      in if read \<noteq> length buffer \<or> value = inf \<or> value = 2 ^ kSignShift t + inf then LitError else Lit value)"

definition Make :: "float_traits \<Rightarrow> bool \<Rightarrow> int \<Rightarrow> nat \<Rightarrow> nat lit" where
  "Make t sign exp sig =
     (if \<not> (kMinExp t \<le> exp \<and> exp \<le> kMaxExp t) \<or> \<not> sig \<le> kSigMask t then LitAssert
      else Lit (uint_t t (push_bit (kSignShift t) (of_bool sign)) OR
        uint_t t (push_bit (kSigBits t) (nat (exp + kExpBias t))) OR sig))"

definition ShiftAndRoundToNearest :: "float_traits \<Rightarrow> nat \<Rightarrow> nat \<Rightarrow> nat" where
  "ShiftAndRoundToNearest t significand shift =
     (let significand = (if significand AND uint_t t (push_bit shift 1) \<noteq> 0
        then uint_t t (significand + uint_t t (push_bit (shift - 1) 1)) else significand)
      in drop_bit shift significand)"

definition skip_sign :: "string \<Rightarrow> bool \<times> string" where
  "skip_sign s = (case s of
     c # r \<Rightarrow> if c = CHR ''-'' then (True, r) else if c = CHR ''+'' then (False, r) else (False, s)
   | [] \<Rightarrow> (False, s))"

fun ParseNan_tag :: "float_traits \<Rightarrow> nat \<Rightarrow> string \<Rightarrow> nat lit" where
  "ParseNan_tag t tag [] = Lit tag"
| "ParseNan_tag t tag (c # s) =
     (case ParseHexdigit c of
        None \<Rightarrow> LitError
      | Some digit \<Rightarrow>
          let tag = uint_t t (tag * 16 + unat digit) in
          if tag > kSigMask t then LitError else ParseNan_tag t tag s)"

definition ParseNan :: "float_traits \<Rightarrow> string \<Rightarrow> nat lit" where
  "ParseNan t s =
     (let (is_neg, s) = skip_sign s in
      if \<not> StringStartsWith s ''nan'' then LitAssert
      else
        let s = drop 3 s in
        lit_bind
          (if s \<noteq> [] then
             (if \<not> StringStartsWith s '':0x'' then LitAssert
              else lit_bind (ParseNan_tag t 0 (drop 3 s)) (\<lambda>tag. if tag = 0 then LitError else Lit tag))
           else Lit (kQuietNanTag t))
          (\<lambda>tag. Make t is_neg (kMaxExp t) tag))"

text \<open>The loop over the significand: the significand, its exponent and the rest of the text.\<close>

fun ParseHex_significand :: "float_traits \<Rightarrow> bool \<Rightarrow> nat \<Rightarrow> int \<Rightarrow> string \<Rightarrow> nat \<times> int \<times> string" where
  "ParseHex_significand t seen_dot significand significand_exponent [] = (significand, significand_exponent, [])"
| "ParseHex_significand t seen_dot significand significand_exponent (c # s) =
     (if c = CHR ''_'' then ParseHex_significand t seen_dot significand significand_exponent s
      else if c = CHR ''.'' then ParseHex_significand t True significand significand_exponent s
      else (case ParseHexdigit c of
          Some digit \<Rightarrow>
            (if kBits t - Clz t significand \<le> kSigPlusOneBits t then
               ParseHex_significand t seen_dot (uint_t t (push_bit 4 significand + unat digit))
                 (if seen_dot then significand_exponent - 4 else significand_exponent) s
             else
               ParseHex_significand t seen_dot significand
                 (if \<not> seen_dot then significand_exponent + 4 else significand_exponent) s)
        | None \<Rightarrow> (significand, significand_exponent, c # s)))"

fun ParseHex_exponent :: "float_traits \<Rightarrow> int \<Rightarrow> int \<Rightarrow> string \<Rightarrow> int lit" where
  "ParseHex_exponent t significand_exponent_add exponent [] = Lit exponent"
| "ParseHex_exponent t significand_exponent_add exponent (c # s) =
     (if c = CHR ''_'' then ParseHex_exponent t significand_exponent_add exponent s
      else
        let digit = chr_u32 c - chr_u32 CHR ''0'' in
        if \<not> digit \<le> 9 then LitAssert
        else
          let exponent = exponent * 10 + int (unat digit) in
          if exponent + significand_exponent_add \<ge> kMaxExp t then Lit exponent
          else ParseHex_exponent t significand_exponent_add exponent s)"

text \<open>The part after the significand: the exponent with its sign.\<close>

definition ParseHex_signed_exponent :: "float_traits \<Rightarrow> int \<Rightarrow> string \<Rightarrow> int lit" where
  "ParseHex_signed_exponent t significand_exponent s =
     (case s of
        [] \<Rightarrow> Lit 0
      | c # s \<Rightarrow>
          if \<not> (c = CHR ''p'' \<or> c = CHR ''P'') then LitAssert
          else (case s of
              CHR ''-'' # r \<Rightarrow> lit_bind (ParseHex_exponent t (- significand_exponent) 0 r) (\<lambda>e. Lit (- e))
            | CHR ''+'' # r \<Rightarrow> ParseHex_exponent t significand_exponent 0 r
            | _ \<Rightarrow> ParseHex_exponent t 0 0 s))"

text \<open>The rounding of a non-zero significand with its exponent to a float.\<close>

definition ParseHex_subnormal :: "float_traits \<Rightarrow> bool \<Rightarrow> nat \<Rightarrow> int \<Rightarrow> nat lit" where
  "ParseHex_subnormal t is_neg significand exponent =
     (let significand_bits = kBits t - Clz t significand;
          significand = (if significand_bits > kSigBits t then ShiftAndRoundToNearest t significand (significand_bits - kSigBits t)
            else if significand_bits < kSigBits t then uint_t t (push_bit (kSigBits t - significand_bits) significand)
            else significand);
          shift = kMinExp t - exponent
      in if shift < int (kSigBits t) then
           let significand = (if shift \<noteq> 0 then ShiftAndRoundToNearest t significand (nat shift) AND kSigMask t else significand) in
           (if significand \<noteq> 0 then Make t is_neg (kMinExp t) significand else Make t is_neg (kMinExp t) 0)
         else Make t is_neg (kMinExp t) 0)"

definition ParseHex_normal :: "float_traits \<Rightarrow> bool \<Rightarrow> nat \<Rightarrow> int \<Rightarrow> nat lit" where
  "ParseHex_normal t is_neg significand exponent =
     (let significand_bits = kBits t - Clz t significand;
          (significand, exponent) =
            (if significand_bits > kSigPlusOneBits t then
               (let significand = ShiftAndRoundToNearest t significand (significand_bits - kSigPlusOneBits t) in
                (significand, if significand > kSigPlusOneMask t then exponent + 1 else exponent))
             else if significand_bits < kSigPlusOneBits t then
               (uint_t t (push_bit (kSigPlusOneBits t - significand_bits) significand), exponent)
             else (significand, exponent))
      in if exponent \<ge> kMaxExp t then LitError
         else Make t is_neg exponent (significand AND kSigMask t))"

definition ParseHex_round :: "float_traits \<Rightarrow> bool \<Rightarrow> nat \<Rightarrow> int \<Rightarrow> nat lit" where
  "ParseHex_round t is_neg significand exponent =
     (let exponent = exponent + int (kBits t - Clz t significand) - 1 in
      if exponent \<le> kMinExp t then ParseHex_subnormal t is_neg significand exponent
      else ParseHex_normal t is_neg significand exponent)"

definition ParseHex :: "float_traits \<Rightarrow> string \<Rightarrow> nat lit" where
  "ParseHex t s =
     (let (is_neg, s) = skip_sign s in
      if \<not> StringStartsWith s ''0x'' then LitAssert
      else
        let (significand, significand_exponent, s) = ParseHex_significand t False 0 0 (drop 2 s) in
        if significand = 0 then Make t is_neg (kMinExp t) 0
        else
          lit_bind (ParseHex_signed_exponent t significand_exponent s)
            (\<lambda>exponent. ParseHex_round t is_neg significand (exponent + significand_exponent)))"

definition ParseInfinity :: "float_traits \<Rightarrow> string \<Rightarrow> nat lit" where
  "ParseInfinity t s =
     (let (is_neg, s) = skip_sign s in
      if \<not> StringStartsWith s ''inf'' then LitAssert else Make t is_neg (kMaxExp t) 0)"

definition FloatParser_Parse :: "float_traits \<Rightarrow> (string \<Rightarrow> nat \<times> nat) \<Rightarrow> LiteralType \<Rightarrow> string \<Rightarrow> nat lit" where
  "FloatParser_Parse t Strto literal_type s = (case literal_type of
     LT_Int \<Rightarrow> FloatParser_ParseFloat t Strto s
   | LT_Float \<Rightarrow> FloatParser_ParseFloat t Strto s
   | LT_Hexfloat \<Rightarrow> ParseHex t s
   | LT_Infinity \<Rightarrow> ParseInfinity t s
   | LT_Nan \<Rightarrow> ParseNan t s)"

definition ParseFloat :: "(string \<Rightarrow> nat \<times> nat) \<Rightarrow> LiteralType \<Rightarrow> string \<Rightarrow> nat lit" where
  "ParseFloat Strto literal_type s = FloatParser_Parse float_traits32 Strto literal_type s"

definition ParseDouble :: "(string \<Rightarrow> nat \<times> nat) \<Rightarrow> LiteralType \<Rightarrow> string \<Rightarrow> nat lit" where
  "ParseDouble Strto literal_type s = FloatParser_Parse float_traits64 Strto literal_type s"

section \<open>Writing floats\<close>

definition s_hex_digits :: "nat \<Rightarrow> char" where
  "s_hex_digits n = ''0123456789abcdef'' ! n"

definition top_nybble :: "float_traits \<Rightarrow> nat \<Rightarrow> nat" where
  "top_nybble t sig = drop_bit (kBits t - 4) sig AND 0xf"

text \<open>The loops of \<open>WriteHex\<close>: skipping leading zero nybbles of a NaN's payload (which is not zero), writing
  a number of nybbles, and writing nybbles until nothing but zeros is left.\<close>

fun skip_zero_nybbles :: "float_traits \<Rightarrow> nat \<Rightarrow> nat \<Rightarrow> nat \<times> nat" where
  "skip_zero_nybbles t sig 0 = (sig, 0)"
| "skip_zero_nybbles t sig (Suc n) =
     (if sig AND uint_t t (push_bit (kBits t - 4) 0xf) = 0 then skip_zero_nybbles t (uint_t t (push_bit 4 sig)) n
      else (sig, Suc n))"

fun write_nybbles :: "float_traits \<Rightarrow> nat \<Rightarrow> nat \<Rightarrow> string" where
  "write_nybbles t sig 0 = []"
| "write_nybbles t sig (Suc n) = s_hex_digits (top_nybble t sig) # write_nybbles t (uint_t t (push_bit 4 sig)) n"

text \<open>\<open>while (sig)\<close>: each round shifts out four bits, so \<open>kBits\<close> rounds are always enough.\<close>

fun write_sig :: "float_traits \<Rightarrow> nat \<Rightarrow> nat \<Rightarrow> string" where
  "write_sig t 0 sig = []"
| "write_sig t (Suc fuel) sig =
     (if sig = 0 then [] else s_hex_digits (top_nybble t sig) # write_sig t fuel (uint_t t (push_bit 4 sig)))"

definition write_exp :: "int \<Rightarrow> string" where
  "write_exp exp =
     (let sgn = (if exp < 0 then CHR ''-'' else CHR ''+''); e = nat \<bar>exp\<bar> in
      [sgn] @ (if e \<ge> 1000 then ''1'' else '''') @
      (if e \<ge> 100 then [char_of (48 + (e div 100) mod 10)] else []) @
      (if e \<ge> 10 then [char_of (48 + (e div 10) mod 10)] else []) @
      [char_of (48 + e mod 10)])"

definition WriteHex_text :: "float_traits \<Rightarrow> nat \<Rightarrow> string" where
  "WriteHex_text t bits =
     (let is_neg = (drop_bit (kSignShift t) bits \<noteq> 0);
          exp = int (drop_bit (kSigBits t) bits AND kExpMask t) - kExpBias t;
          sig = bits AND kSigMask t
      in (if is_neg then ''-'' else '''') @
        (if exp = kMaxExp t then
           (if sig = 0 then ''inf''
            else ''nan'' @
              (if sig \<noteq> kQuietNanTag t then
                 '':0x'' @ (let (sig, n) = skip_zero_nybbles t sig (kBits t div 4) in write_nybbles t sig n)
               else ''''))
         else
           let is_zero = (sig = 0 \<and> exp = kMinExp t);
               sig = uint_t t (push_bit (kBits t - kSigBits t) sig);
               subnormal = (sig \<noteq> 0 \<and> exp = kMinExp t);
               leading_zeroes = Clz t sig;
               sig' = (if subnormal then
                   (if leading_zeroes < kSignShift t then uint_t t (push_bit (leading_zeroes + 1) sig) else 0)
                 else sig);
               exp = (if subnormal then exp - int leading_zeroes else exp)
           in ''0x'' @ (if is_zero then ''0'' else ''1'') @
              (if sig \<noteq> 0 then ''.'' @ write_sig t (kBits t) sig' else '''') @ ''p'' @
              (if is_zero then ''+0'' else write_exp exp)))"

text \<open>The text is cut to the caller's buffer; the terminating zero is not part of the list.\<close>

definition WriteHex :: "float_traits \<Rightarrow> nat \<Rightarrow> nat \<Rightarrow> string" where
  "WriteHex t out_size bits =
     (let buffer = WriteHex_text t bits; len = length buffer in
      take (if len \<ge> out_size then out_size - 1 else len) buffer)"

definition WriteFloatHex :: "nat \<Rightarrow> nat \<Rightarrow> string" where
  "WriteFloatHex out_size bits = WriteHex float_traits32 out_size bits"

definition WriteDoubleHex :: "nat \<Rightarrow> nat \<Rightarrow> string" where
  "WriteDoubleHex out_size bits = WriteHex float_traits64 out_size bits"

end
