(* ===== verification/LiteralSpec.thy ===== *)
theory LiteralSpec
  imports Literal
begin

text \<open>
  Properties of the number literals: the integer parsers against the value of a text as a natural
  number, and where the code departs from it.
\<close>

section \<open>Digits\<close>

definition code :: "char \<Rightarrow> nat" where "code c = of_char c"

definition digit_of :: "char \<Rightarrow> nat option" where
  "digit_of c = (if 48 \<le> code c \<and> code c \<le> 57 then Some (code c - 48)
     else if 97 \<le> code c \<and> code c \<le> 102 then Some (code c - 87)
     else if 65 \<le> code c \<and> code c \<le> 70 then Some (code c - 55)
     else None)"

text \<open>The value of the digits after a value read so far, underscores skipped.\<close>

fun digits_value :: "nat \<Rightarrow> nat \<Rightarrow> string \<Rightarrow> nat option" where
  "digits_value base acc [] = Some acc"
| "digits_value base acc (c # s) =
     (if c = CHR ''_'' then digits_value base acc s
      else (case digit_of c of
          Some d \<Rightarrow> if d < base then digits_value base (acc * base + d) s else None
        | None \<Rightarrow> None))"

definition literal_value :: "string \<Rightarrow> nat option" where
  "literal_value s =
     (if s = [] then None
      else if take 2 s = ''0x'' then (if drop 2 s = [] then None else digits_value 16 0 (drop 2 s))
      else digits_value 10 0 s)"

lemma code_less: "code c < 256"
  by (simp add: code_def)

lemma unat_small: "n < 4294967296 \<Longrightarrow> unat (of_nat n :: u32) = n"
  by (simp add: unsigned_of_nat take_bit_nat_eq_self)

lemma chr_u32_code: "chr_u32 c = of_nat (code c)"
  by (simp add: chr_u32_def code_def)

lemma unat_chr_u32: "unat (chr_u32 c) = code c"
  unfolding chr_u32_code by (rule unat_small) (rule less_trans [OF code_less], simp)

lemma chr_u32_range:
  assumes "k < 256" "m < 256" shows "chr_u32 c - of_nat k \<le> of_nat m \<longleftrightarrow> k \<le> code c \<and> code c \<le> k + m"
  using assms code_less [of c] unat_small [of m] unat_small [of k]
  by (auto simp: word_le_nat_alt unat_sub_if' unat_chr_u32)

lemma chr_u32_ranges:
  "chr_u32 c - 48 \<le> 9 \<longleftrightarrow> 48 \<le> code c \<and> code c \<le> 57"
  "chr_u32 c - 97 \<le> 6 \<longleftrightarrow> 97 \<le> code c \<and> code c \<le> 103"
  "chr_u32 c - 65 \<le> 6 \<longleftrightarrow> 65 \<le> code c \<and> code c \<le> 71"
  using chr_u32_range [of 48 9 c] chr_u32_range [of 97 6 c] chr_u32_range [of 65 6 c] by simp_all

lemma chr_consts: "chr_u32 CHR ''0'' = 48" "chr_u32 CHR ''a'' = 97" "chr_u32 CHR ''A'' = 65"
  by (simp_all add: chr_u32_def)

lemma ParseHexdigit_cases:
  "ParseHexdigit c =
     (if 48 \<le> code c \<and> code c \<le> 57 then Some (of_nat (code c - 48))
      else if 97 \<le> code c \<and> code c \<le> 103 then Some (of_nat (code c - 87))
      else if 65 \<le> code c \<and> code c \<le> 71 then Some (of_nat (code c - 55))
      else None)"
  unfolding ParseHexdigit_def chr_consts chr_u32_ranges by (auto simp: chr_u32_code of_nat_diff)

lemma ParseHexdigit_digit:
  assumes "digit_of c = Some d" shows "ParseHexdigit c = Some (of_nat d)" "d < 16"
  using assms by (auto simp: digit_of_def ParseHexdigit_cases split: if_splits)

lemma decimal_digit:
  "(if chr_u32 c - chr_u32 CHR ''0'' > 9 then None else Some (unat (chr_u32 c - chr_u32 CHR ''0''))) =
     (case digit_of c of Some d \<Rightarrow> if d < 10 then Some d else None | None \<Rightarrow> None)"
proof -
  have "chr_u32 c - 48 > 9 \<longleftrightarrow> \<not> (48 \<le> code c \<and> code c \<le> 57)" using chr_u32_ranges(1) [of c] by auto
  moreover have "unat (chr_u32 c - 48) = code c - 48" if "48 \<le> code c"
    using that by (simp add: unat_sub_if' unat_chr_u32)
  ultimately show ?thesis unfolding chr_consts by (auto simp: digit_of_def)
qed

section \<open>Integers\<close>

lemma digits_value_ge: "digits_value base acc s = Some n \<Longrightarrow> 0 < base \<Longrightarrow> acc \<le> n"
proof (induction s arbitrary: acc)
  case Nil
  then show ?case by simp
next
  case (Cons c s)
  have "acc \<le> acc * base + d" for d using Cons.prems(2) by (simp add: trans_le_add1)
  with Cons show ?case by (fastforce split: if_splits option.splits intro: order_trans)
qed

text \<open>One step of either loop, without and with the test for overflow.\<close>

lemma of_nat_step:
  assumes "d < 16"
  shows "of_nat acc * 16 + ucast (of_nat d :: u32) = (of_nat (acc * 16 + d) :: u64)"
    "of_nat acc * 10 + ucast (of_nat d :: u32) = (of_nat (acc * 10 + d) :: u64)"
proof -
  have "ucast (of_nat d :: u32) = (of_nat d :: u64)"
    using assms by (simp add: word_unat_eq_iff unsigned_ucast_eq unsigned_of_nat take_bit_nat_eq_self)
  then show "of_nat acc * 16 + ucast (of_nat d :: u32) = (of_nat (acc * 16 + d) :: u64)"
    "of_nat acc * 10 + ucast (of_nat d :: u32) = (of_nat (acc * 10 + d) :: u64)" by simp_all
qed

lemma ParseUint64_hex_Cons:
  assumes "c \<noteq> CHR ''_''" "digit_of c = Some d"
  shows "ParseUint64_hex (of_nat acc) (c # s) =
    (if (of_nat acc :: u64) > of_nat (acc * 16 + d) then None else ParseUint64_hex (of_nat (acc * 16 + d)) s)"
  using assms(1) ParseHexdigit_digit [OF assms(2)] by (simp only: ParseUint64_hex.simps if_False option.case Let_def of_nat_step)

lemma ParseUint64_dec_Cons:
  assumes "c \<noteq> CHR ''_''" "digit_of c = Some d" "d < 10"
  shows "ParseUint64_dec (of_nat acc) (c # s) =
    (if (of_nat acc :: u64) > of_nat (acc * 10 + d) then None else ParseUint64_dec (of_nat (acc * 10 + d)) s)"
proof -
  have p: "\<not> chr_u32 c - chr_u32 CHR ''0'' > 9" "unat (chr_u32 c - chr_u32 CHR ''0'') = d"
    using decimal_digit [of c] assms(2,3) by (auto split: if_splits)
  have "chr_u32 c - chr_u32 CHR ''0'' = of_nat (unat (chr_u32 c - chr_u32 CHR ''0''))" by simp
  then have "chr_u32 c - chr_u32 CHR ''0'' = of_nat d" unfolding p(2) .
  moreover have "d < 16" using assms(3) by simp
  ultimately show ?thesis using p(1) assms(1)
    by (simp only: ParseUint64_dec.simps if_False Let_def of_nat_step)
qed

lemma no_overflow: "m \<le> n \<Longrightarrow> n < 2 ^ 64 \<Longrightarrow> \<not> (of_nat m :: u64) > of_nat n"
  by (simp add: word_less_nat_alt unsigned_of_nat take_bit_nat_eq_self)

lemma if_None_Some: "(if b then None else x) = Some w \<Longrightarrow> x = Some w"
  by (simp split: if_splits)

lemma ParseUint64_hex_value:
  "digits_value 16 acc s = Some n \<Longrightarrow>
     (n < 2 ^ 64 \<longrightarrow> ParseUint64_hex (of_nat acc) s = Some (of_nat n)) \<and>
     (\<forall>w. ParseUint64_hex (of_nat acc) s = Some w \<longrightarrow> w = of_nat n)"
proof (induction s arbitrary: acc)
  case Nil
  then show ?case by simp
next
  case (Cons c s)
  show ?case
  proof (cases "c = CHR ''_''")
    case True
    from Cons.prems have "digits_value 16 acc s = Some n" by (simp only: True digits_value.simps if_True refl)
    from Cons.IH [OF this] show ?thesis by (simp only: True ParseUint64_hex.simps if_True refl)
  next
    case False
    from False Cons.prems obtain d where d: "digit_of c = Some d" "digits_value 16 (acc * 16 + d) s = Some n"
      by (cases "digit_of c") (simp_all split: if_splits)
    have no: "\<not> (of_nat acc :: u64) > of_nat (acc * 16 + d)" if "n < 2 ^ 64"
      by (rule no_overflow [OF _ le_less_trans [OF digits_value_ge [OF d(2)] that]]) simp_all
    note IH = Cons.IH [OF d(2)]
    show ?thesis
    proof (intro conjI allI impI)
      assume n: "n < 2 ^ 64"
      have "ParseUint64_hex (of_nat acc) (c # s) = ParseUint64_hex (of_nat (acc * 16 + d)) s"
        unfolding ParseUint64_hex_Cons [OF False d(1)] by (rule if_not_P [OF no [OF n]])
      also have "\<dots> = Some (of_nat n)" by (rule IH [THEN conjunct1, rule_format, OF n])
      finally show "ParseUint64_hex (of_nat acc) (c # s) = Some (of_nat n)" .
    next
      fix w assume "ParseUint64_hex (of_nat acc) (c # s) = Some w"
      then have "ParseUint64_hex (of_nat (acc * 16 + d)) s = Some w"
        unfolding ParseUint64_hex_Cons [OF False d(1)] by (rule if_None_Some)
      then show "w = of_nat n" by (rule IH [THEN conjunct2, rule_format])
    qed
  qed
qed

lemma ParseUint64_dec_value:
  "digits_value 10 acc s = Some n \<Longrightarrow>
     (n < 2 ^ 64 \<longrightarrow> ParseUint64_dec (of_nat acc) s = Some (of_nat n)) \<and>
     (\<forall>w. ParseUint64_dec (of_nat acc) s = Some w \<longrightarrow> w = of_nat n)"
proof (induction s arbitrary: acc)
  case Nil
  then show ?case by simp
next
  case (Cons c s)
  show ?case
  proof (cases "c = CHR ''_''")
    case True
    from Cons.prems have "digits_value 10 acc s = Some n" by (simp only: True digits_value.simps if_True refl)
    from Cons.IH [OF this] show ?thesis by (simp only: True ParseUint64_dec.simps if_True refl)
  next
    case False
    from False Cons.prems obtain d where d: "digit_of c = Some d" "d < 10" "digits_value 10 (acc * 10 + d) s = Some n"
      by (cases "digit_of c") (simp_all split: if_splits)
    have no: "\<not> (of_nat acc :: u64) > of_nat (acc * 10 + d)" if "n < 2 ^ 64"
      by (rule no_overflow [OF _ le_less_trans [OF digits_value_ge [OF d(3)] that]]) simp_all
    note IH = Cons.IH [OF d(3)]
    show ?thesis
    proof (intro conjI allI impI)
      assume n: "n < 2 ^ 64"
      have "ParseUint64_dec (of_nat acc) (c # s) = ParseUint64_dec (of_nat (acc * 10 + d)) s"
        unfolding ParseUint64_dec_Cons [OF False d(1,2)] by (rule if_not_P [OF no [OF n]])
      also have "\<dots> = Some (of_nat n)" by (rule IH [THEN conjunct1, rule_format, OF n])
      finally show "ParseUint64_dec (of_nat acc) (c # s) = Some (of_nat n)" .
    next
      fix w assume "ParseUint64_dec (of_nat acc) (c # s) = Some w"
      then have "ParseUint64_dec (of_nat (acc * 10 + d)) s = Some w"
        unfolding ParseUint64_dec_Cons [OF False d(1,2)] by (rule if_None_Some)
      then show "w = of_nat n" by (rule IH [THEN conjunct2, rule_format])
    qed
  qed
qed

lemma ParseUint64_literal:
  assumes "literal_value s = Some n"
  shows "(n < 2 ^ 64 \<longrightarrow> ParseUint64 s = Some (of_nat n)) \<and> (\<forall>w. ParseUint64 s = Some w \<longrightarrow> w = of_nat n)"
proof -
  have "s \<noteq> []" using assms by (auto simp: literal_value_def)
  consider "take 2 s = ''0x''" "drop 2 s \<noteq> []" "digits_value 16 0 (drop 2 s) = Some n"
    | "take 2 s \<noteq> ''0x''" "digits_value 10 0 s = Some n"
    using assms by (auto simp: literal_value_def split: if_splits)
  then show ?thesis
  proof cases
    case 1
    have "ParseUint64 s = ParseUint64_hex (of_nat 0) (drop 2 s)" using 1 \<open>s \<noteq> []\<close> by (simp add: ParseUint64_def)
    with ParseUint64_hex_value [OF 1(3)] show ?thesis by (simp only:)
  next
    case 2
    have "ParseUint64 s = ParseUint64_dec (of_nat 0) s" using 2 \<open>s \<noteq> []\<close> by (simp add: ParseUint64_def)
    with ParseUint64_dec_value [OF 2(2)] show ?thesis by (simp only:)
  qed
qed

text \<open>C25. \<open>ParseUint64\<close> against the value of the text as a natural number: a value that fits 64 bits is
  returned exactly, in decimal or hexadecimal and with any underscores, and whatever is returned for
  a larger value is that value modulo \<open>2 ^ 64\<close>.\<close>

theorem ParseUint64_value:
  assumes "literal_value s = Some n"
  shows "(n < 2 ^ 64 \<longrightarrow> ParseUint64 s = Some (of_nat n)) \<and> (\<forall>w. ParseUint64 s = Some w \<longrightarrow> w = of_nat n)"
  by (rule ParseUint64_literal [OF assms])

lemma code_consts: "code CHR ''x'' = 120" "code CHR ''f'' = 102" "code CHR ''0'' = 48" "code CHR ''1'' = 49" "code CHR ''_'' = 95"
  by (simp_all add: code_def)

theorem ParseUint64_value_witness: "ParseUint64 ''0x1_ff'' = Some 511"
proof -
  have v: "literal_value ''0x1_ff'' = Some 511" by (simp add: literal_value_def digit_of_def code_consts)
  from ParseUint64_value [OF v, THEN conjunct1] show ?thesis by simp
qed

text \<open>The sign of a literal.\<close>

lemma no_sign: "literal_value s = Some n \<Longrightarrow> sign_of s = None"
proof (cases s)
  case (Cons c r)
  assume v: "literal_value s = Some n"
  have "digit_of CHR ''-'' = None" "digit_of CHR ''+'' = None" by (simp_all add: digit_of_def code_def)
  then show ?thesis using v Cons by (auto simp: literal_value_def sign_of_def split: if_splits)
qed (simp add: sign_of_def)

lemma sign_Cons: "sign_of (CHR ''-'' # s) = Some CHR ''-''" "sign_of (CHR ''+'' # s) = Some CHR ''+''"
  by (simp_all add: sign_of_def)

lemma u64_le: "m < 2 ^ 64 \<Longrightarrow> n < 2 ^ 64 \<Longrightarrow> (of_nat n :: u64) > of_nat m \<longleftrightarrow> m < n"
  by (simp add: word_less_nat_alt unsigned_of_nat take_bit_nat_eq_self)

lemma u64_narrow: "(ucast (of_nat n :: u64) :: u32) = of_nat n"
  by transfer simp



text \<open>The overflow test of \<open>ParseUint64\<close>, that a step makes the value smaller, misses overflows that
  wrap around past the old value: a decimal literal of more than 64 bits is accepted with a wrong
  value, and so is a signed one. \<open>ParseHexdigit\<close> accepts one letter too many.\<close>

lemma overflow_missed:
  "literal_value ''30000000000000000000'' = Some 30000000000000000000 \<and>
   ParseUint64 ''30000000000000000000'' = Some 11553255926290448384 \<and>
   ParseInt64 ''30000000000000000000'' SignedAndUnsigned = (Result_Ok, Some 11553255926290448384) \<and>
   ParseHexdigit CHR ''g'' = Some 16 \<and> digit_of CHR ''g'' = None"
proof -
  have p: "ParseUint64 ''30000000000000000000'' = Some 11553255926290448384"
    by (simp add: ParseUint64_def chr_u32_def)
  have v: "literal_value ''30000000000000000000'' = Some 30000000000000000000"
    by (simp add: literal_value_def digit_of_def code_def)
  have g: "ParseHexdigit CHR ''g'' = Some 16" "digit_of CHR ''g'' = None"
    by (simp_all add: ParseHexdigit_def chr_u32_def digit_of_def code_def)
  show ?thesis using p v g by (simp add: ParseInt64_def sign_of_def Let_def)
qed

section \<open>Rounding\<close>

text \<open>The nearest multiple of \<open>2 ^ k\<close>, ties to even, as a number of such multiples.\<close>

definition nearest_even :: "nat \<Rightarrow> nat \<Rightarrow> nat" where
  "nearest_even s k =
     (let q = s div 2 ^ k; r = s mod 2 ^ k in
      if 2 * r > 2 ^ k \<or> (2 * r = 2 ^ k \<and> odd q) then q + 1 else q)"

lemma ShiftAndRoundToNearest_cases:
  assumes "0 < k" "k < kBits t" "s + 2 ^ (k - 1) < 2 ^ kBits t"
  shows "ShiftAndRoundToNearest t s k = s div 2 ^ k + (if odd (s div 2 ^ k) \<and> 2 ^ k \<le> 2 * (s mod 2 ^ k) then 1 else 0)"
proof -
  define h :: nat where "h = 2 ^ (k - 1)"
  have h: "2 ^ k = 2 * h" "0 < h" using assms(1) by (cases k; simp add: h_def)+
  have "2 ^ k < (2 :: nat) ^ kBits t" using assms(2) by (rule power_strict_increasing) simp
  then have pk: "uint_t t (push_bit k 1) = 2 ^ k" and ph: "uint_t t (push_bit (k - 1) 1) = h"
    using h by (simp_all only: uint_t_def push_bit_eq_mult mult_1 mod_less h_def [symmetric])
  have sum: "uint_t t (s + h) = s + h" unfolding uint_t_def by (rule mod_less) (use assms(3) in \<open>simp only: h_def\<close>)
  have odd: "(s AND 2 ^ k \<noteq> 0) = odd (s div 2 ^ k)"
    by (simp add: and_exp_eq_0_iff_not_bit bit_iff_odd)
  have "(s + h) div 2 ^ k = s div 2 ^ k + (s mod 2 ^ k + h) div 2 ^ k"
  proof -
    have "s + h = (s mod 2 ^ k + h) + s div 2 ^ k * 2 ^ k" using div_mult_mod_eq [of s "2 ^ k"] by linarith
    then show ?thesis by (simp only: div_mult_self1 power_not_zero simp_thms zero_neq_numeral [symmetric])
  qed
  moreover have "(s mod 2 ^ k + h) div 2 ^ k = (if 2 ^ k \<le> 2 * (s mod 2 ^ k) then 1 else 0)"
  proof -
    define r where "r = s mod 2 ^ k"
    have r: "r < 2 * h" unfolding h(1) [symmetric] r_def by simp
    have "(r + h) div (2 * h) = (if 2 * h \<le> 2 * r then 1 else 0)"
    proof (cases "2 * h \<le> 2 * r")
      case True
      then have "(r + h) div (2 * h) = 1" using r h(2) by (intro div_nat_eqI) simp_all
      then show "(r + h) div (2 * h) = (if 2 * h \<le> 2 * r then 1 else 0)" using True by (simp only: if_True)
    next
      case False
      then have "(r + h) div (2 * h) = 0" by (intro div_less) simp
      then show "(r + h) div (2 * h) = (if 2 * h \<le> 2 * r then 1 else 0)" using False by (simp only: if_False)
    qed
    then show ?thesis by (simp only: r_def h(1))
  qed
  ultimately have "(s + h) div 2 ^ k = s div 2 ^ k + (if 2 ^ k \<le> 2 * (s mod 2 ^ k) then 1 else 0)" by (simp only:)
  moreover have "ShiftAndRoundToNearest t s k = (if odd (s div 2 ^ k) then s + h else s) div 2 ^ k"
    unfolding ShiftAndRoundToNearest_def Let_def pk ph sum odd drop_bit_eq_div ..
  ultimately show ?thesis by (cases "odd (s div 2 ^ k)") simp_all
qed

lemma bit_length_numeral: "bit_length (numeral n) = Suc (bit_length (numeral n div 2))"
  by (subst bit_length.simps) simp

lemma bit_length_small: "bit_length 0 = 0" "bit_length (Suc 0) = 1"
  by (subst bit_length.simps; simp add: bit_length.simps)+

lemma traits32: "kBits float_traits32 = 32" "kSigBits float_traits32 = 23"
  by (simp_all add: float_traits32_def)

lemma traits64: "kBits float_traits64 = 64" "kSigBits float_traits64 = 52"
  by (simp_all add: float_traits64_def)

lemmas trait_defs = kSigPlusOneBits_def kSigPlusOneMask_def kSigMask_def kMinExp_def kMaxExp_def kExpBits_def
  kExpBias_def kSignShift_def kExpMask_def kQuietNanTag_def uint_t_def push_bit_eq_mult drop_bit_eq_div
  Clz_def bit_length_numeral bit_length_small traits32 traits64

text \<open>C27. \<open>ShiftAndRoundToNearest\<close> rounds to nearest, ties to even, except where the quotient is even and
  the rest is more than a half: there it rounds down. So a hexadecimal float is not always rounded
  to the nearest one: \<open>0x800000cp0\<close>, which lies four below the next float and twelve above the last,
  gives the last.\<close>

theorem hex_float_rounding:
  "(\<forall>(t :: float_traits) s k. 0 < k \<and> k < kBits t \<and> s + 2 ^ (k - 1) < 2 ^ kBits t \<longrightarrow>
     (ShiftAndRoundToNearest t s k = nearest_even s k \<longleftrightarrow> \<not> (even (s div 2 ^ k) \<and> 2 ^ k < 2 * (s mod 2 ^ k)))) \<and>
   ParseHex float_traits32 ''0x800000cp0'' = Lit 0x4d000000 \<and> nearest_even 0x800000c 4 = 0x800001"
proof (intro conjI allI impI)
  fix t :: float_traits and s k :: nat assume "0 < k \<and> k < kBits t \<and> s + 2 ^ (k - 1) < 2 ^ kBits t"
  then show "ShiftAndRoundToNearest t s k = nearest_even s k \<longleftrightarrow> \<not> (even (s div 2 ^ k) \<and> 2 ^ k < 2 * (s mod 2 ^ k))"
    by (auto simp: ShiftAndRoundToNearest_cases nearest_even_def Let_def)
next
  show "nearest_even 0x800000c 4 = 0x800001" by (simp add: nearest_even_def)
  have d: "ParseHexdigit CHR ''0'' = Some 0" "ParseHexdigit CHR ''8'' = Some 8" "ParseHexdigit CHR ''c'' = Some 12"
      "ParseHexdigit CHR ''p'' = None" by (simp_all add: ParseHexdigit_def chr_u32_def)
  have s: "ParseHex_significand float_traits32 False 0 0 ''800000cp0'' = (0x800000c, 0, ''p0'')"
    by (simp add: d trait_defs)
  have r: "ParseHex_round float_traits32 False 0x800000c 0 = Lit 0x4d000000"
    by (simp add: ParseHex_round_def ParseHex_normal_def ShiftAndRoundToNearest_def Make_def trait_defs Let_def)
  have e: "ParseHex_signed_exponent float_traits32 0 ''p0'' = Lit 0"
    by (simp add: ParseHex_signed_exponent_def chr_u32_def trait_defs)
  show "ParseHex float_traits32 ''0x800000cp0'' = Lit 0x4d000000"
    by (simp add: ParseHex_def skip_sign_def s r e del: ParseHex_significand.simps)
qed

theorem hex_float_rounding_witness: "ShiftAndRoundToNearest float_traits32 0x800000c 4 \<noteq> nearest_even 0x800000c 4"
  using hex_float_rounding [THEN conjunct1, rule_format, of 4 float_traits32 "0x800000c"] by (simp add: traits32)

end
