(* ===== verification/Ieee754.thy ===== *)
theory Ieee754
  imports Literal
begin

text \<open>
  The floating-point operations of the C++ language the interpreter computes with: \<open>float\<close> and
  \<open>double\<close> are the binary32 and binary64 formats of IEEE 754, every operation gives the exact
  result rounded to nearest, ties to even. A float is its bit pattern, a natural number below
  \<open>2 ^ kBits\<close>. The payload of a NaN result is the host's choice: it is an argument of the
  operations, \<open>nan t xs\<close> for the operands \<open>xs\<close>.
\<close>

section \<open>Formats\<close>

datatype fl = FNan | FInf bool | FFin bool nat int

definition fl_sign :: "float_traits \<Rightarrow> nat \<Rightarrow> bool" where
  "fl_sign t b \<longleftrightarrow> odd (b div 2 ^ kSignShift t)"

definition fl_exp :: "float_traits \<Rightarrow> nat \<Rightarrow> nat" where
  "fl_exp t b = (b div 2 ^ kSigBits t) mod 2 ^ kExpBits t"

definition fl_sig :: "float_traits \<Rightarrow> nat \<Rightarrow> nat" where
  "fl_sig t b = b mod 2 ^ kSigBits t"

text \<open>\<open>FFin s m e\<close> is the number \<open>(-1)\<^sup>s * m * 2\<^sup>e\<close>.\<close>

definition fl_decode :: "float_traits \<Rightarrow> nat \<Rightarrow> fl" where
  "fl_decode t b =
     (if fl_exp t b = kExpMask t then (if fl_sig t b = 0 then FInf (fl_sign t b) else FNan)
      else if fl_exp t b = 0 then FFin (fl_sign t b) (fl_sig t b) (1 - kExpBias t - int (kSigBits t))
      else FFin (fl_sign t b) (2 ^ kSigBits t + fl_sig t b)
             (int (fl_exp t b) - kExpBias t - int (kSigBits t)))"

definition fl_make :: "float_traits \<Rightarrow> bool \<Rightarrow> nat \<Rightarrow> nat" where
  "fl_make t s mag = (if s then 2 ^ kSignShift t else 0) + mag"

definition fl_inf_mag :: "float_traits \<Rightarrow> nat" where
  "fl_inf_mag t = kExpMask t * 2 ^ kSigBits t"

section \<open>Rounding\<close>

text \<open>\<open>m / 2 ^ k\<close> to the nearest integer, a tie to the even one.\<close>

definition rne :: "nat \<Rightarrow> nat \<Rightarrow> nat" where
  "rne m k = (let q = m div 2 ^ k; r = m mod 2 ^ k
     in if 2 * r > 2 ^ k \<or> (2 * r = 2 ^ k \<and> odd q) then q + 1 else q)"

text \<open>
  \<open>m * 2 ^ e\<close> as the magnitude bits of the nearest float: the leading bit of \<open>m\<close> gives the
  exponent, which is not below the one of the subnormal numbers; a significand that rounds up to
  the next power of two carries into the exponent, and past the largest exponent is infinity.
\<close>

definition fl_round_mag :: "float_traits \<Rightarrow> nat \<Rightarrow> int \<Rightarrow> nat" where
  "fl_round_mag t m e =
     (if m = 0 then 0
      else let top = max (e + int (bit_length m) - 1) (1 - kExpBias t);
               ulp = top - int (kSigBits t);
               q = (if e \<le> ulp then rne m (nat (ulp - e)) else m * 2 ^ nat (e - ulp));
               bits = nat (top + kExpBias t - 1) * 2 ^ kSigBits t + q
           in min bits (fl_inf_mag t))"

definition fl_round :: "float_traits \<Rightarrow> bool \<Rightarrow> nat \<Rightarrow> int \<Rightarrow> nat" where
  "fl_round t s m e = fl_make t s (fl_round_mag t m e)"

definition fl_signed :: "bool \<Rightarrow> nat \<Rightarrow> int" where
  "fl_signed s m = (if s then - int m else int m)"

definition fl_of_int :: "float_traits \<Rightarrow> int \<Rightarrow> nat" where
  "fl_of_int t v = fl_round t (v < 0) (nat \<bar>v\<bar>) 0"

section \<open>Arithmetic\<close>

type_synonym host_nan = "float_traits \<Rightarrow> nat list \<Rightarrow> nat"

definition fl_neg_bits :: "float_traits \<Rightarrow> nat \<Rightarrow> nat" where
  "fl_neg_bits t b = (if fl_sign t b then b - 2 ^ kSignShift t else b + 2 ^ kSignShift t)"

definition fl_add :: "host_nan \<Rightarrow> float_traits \<Rightarrow> nat \<Rightarrow> nat \<Rightarrow> nat" where
  "fl_add nan t a b =
     (case (fl_decode t a, fl_decode t b) of
        (FFin s1 m1 e1, FFin s2 m2 e2) \<Rightarrow>
          (let e = min e1 e2;
               v = fl_signed s1 (m1 * 2 ^ nat (e1 - e)) + fl_signed s2 (m2 * 2 ^ nat (e2 - e))
           in if v = 0 then fl_make t (s1 \<and> s2) 0 else fl_round t (v < 0) (nat \<bar>v\<bar>) e)
      | (FInf s1, FInf s2) \<Rightarrow> if s1 = s2 then a else nan t [a, b]
      | (FInf s1, FFin _ _ _) \<Rightarrow> a
      | (FFin _ _ _, FInf s2) \<Rightarrow> b
      | _ \<Rightarrow> nan t [a, b])"

definition fl_sub :: "host_nan \<Rightarrow> float_traits \<Rightarrow> nat \<Rightarrow> nat \<Rightarrow> nat" where
  "fl_sub nan t a b =
     (if fl_decode t a = FNan \<or> fl_decode t b = FNan then nan t [a, b]
      else fl_add (\<lambda>t _. nan t [a, b]) t a (fl_neg_bits t b))"

definition fl_mul :: "host_nan \<Rightarrow> float_traits \<Rightarrow> nat \<Rightarrow> nat \<Rightarrow> nat" where
  "fl_mul nan t a b =
     (case (fl_decode t a, fl_decode t b) of
        (FFin s1 m1 e1, FFin s2 m2 e2) \<Rightarrow> fl_round t (s1 \<noteq> s2) (m1 * m2) (e1 + e2)
      | (FInf s1, FInf s2) \<Rightarrow> fl_make t (s1 \<noteq> s2) (fl_inf_mag t)
      | (FInf s1, FFin s2 m2 _) \<Rightarrow>
          if m2 = 0 then nan t [a, b] else fl_make t (s1 \<noteq> s2) (fl_inf_mag t)
      | (FFin s1 m1 _, FInf s2) \<Rightarrow>
          if m1 = 0 then nan t [a, b] else fl_make t (s1 \<noteq> s2) (fl_inf_mag t)
      | _ \<Rightarrow> nan t [a, b])"

text \<open>
  Division and square root round an approximation with more bits than the format holds, whose
  lowest bit says whether it is inexact.
\<close>

definition fl_div :: "host_nan \<Rightarrow> float_traits \<Rightarrow> nat \<Rightarrow> nat \<Rightarrow> nat" where
  "fl_div nan t a b =
     (case (fl_decode t a, fl_decode t b) of
        (FFin s1 m1 e1, FFin s2 m2 e2) \<Rightarrow>
          if m2 = 0 then (if m1 = 0 then nan t [a, b] else fl_make t (s1 \<noteq> s2) (fl_inf_mag t))
          else (let k = 2 * kSigBits t + 4; n = m1 * 2 ^ k
                in fl_round t (s1 \<noteq> s2) (2 * (n div m2) + (if n mod m2 = 0 then 0 else 1))
                     (e1 - e2 - int k - 1))
      | (FInf s1, FFin s2 _ _) \<Rightarrow> fl_make t (s1 \<noteq> s2) (fl_inf_mag t)
      | (FFin s1 _ _, FInf s2) \<Rightarrow> fl_make t (s1 \<noteq> s2) 0
      | _ \<Rightarrow> nan t [a, b])"

fun isqrt :: "nat \<Rightarrow> nat" where
  "isqrt n = (if n = 0 then 0
     else let r = 2 * isqrt (n div 4) in if (r + 1) * (r + 1) \<le> n then r + 1 else r)"

declare isqrt.simps [simp del]

definition fl_sqrt :: "host_nan \<Rightarrow> float_traits \<Rightarrow> nat \<Rightarrow> nat" where
  "fl_sqrt nan t a =
     (case fl_decode t a of
        FFin s m e \<Rightarrow>
          if m = 0 then a
          else if s then nan t [a]
          else (let k = 2 * kSigBits t + 4 + nat (e mod 2); n = m * 2 ^ k; r = isqrt n
                in fl_round t False (2 * r + (if r * r = n then 0 else 1))
                     ((e - int k) div 2 - 1))
      | FInf s \<Rightarrow> if s then nan t [a] else a
      | FNan \<Rightarrow> nan t [a])"

section \<open>Rounding to an integer\<close>

datatype fl_dir = Dir_ceil | Dir_floor | Dir_trunc | Dir_nearest

definition fl_integral_mag :: "fl_dir \<Rightarrow> bool \<Rightarrow> nat \<Rightarrow> nat \<Rightarrow> nat" where
  "fl_integral_mag d s m k =
     (let q = m div 2 ^ k; inexact = m mod 2 ^ k \<noteq> 0
      in case d of
           Dir_ceil \<Rightarrow> if inexact \<and> \<not> s then q + 1 else q
         | Dir_floor \<Rightarrow> if inexact \<and> s then q + 1 else q
         | Dir_trunc \<Rightarrow> q
         | Dir_nearest \<Rightarrow> rne m k)"

definition fl_integral :: "host_nan \<Rightarrow> float_traits \<Rightarrow> fl_dir \<Rightarrow> nat \<Rightarrow> nat" where
  "fl_integral nan t d a =
     (case fl_decode t a of
        FFin s m e \<Rightarrow>
          if 0 \<le> e then a else fl_round t s (fl_integral_mag d s m (nat (- e))) 0
      | FInf s \<Rightarrow> a
      | FNan \<Rightarrow> nan t [a])"

text \<open>The conversion of a float to an integer drops the fraction; \<open>None\<close> for NaN and infinities.\<close>

definition fl_to_int :: "float_traits \<Rightarrow> nat \<Rightarrow> int option" where
  "fl_to_int t a =
     (case fl_decode t a of
        FFin s m e \<Rightarrow>
          Some (fl_signed s (if 0 \<le> e then m * 2 ^ nat e else m div 2 ^ nat (- e)))
      | _ \<Rightarrow> None)"

text \<open>The conversion between the two formats.\<close>

definition fl_convert :: "host_nan \<Rightarrow> float_traits \<Rightarrow> float_traits \<Rightarrow> nat \<Rightarrow> nat" where
  "fl_convert nan src dst a =
     (case fl_decode src a of
        FFin s m e \<Rightarrow> fl_round dst s m e
      | FInf s \<Rightarrow> fl_make dst s (fl_inf_mag dst)
      | FNan \<Rightarrow> nan dst [a])"

section \<open>Comparison\<close>

text \<open>
  Floats that are not NaN are ordered as their magnitude bits with the sign applied; the two
  zeros are equal. A comparison with a NaN is unordered.
\<close>

definition fl_is_nan :: "float_traits \<Rightarrow> nat \<Rightarrow> bool" where
  "fl_is_nan t a \<longleftrightarrow> fl_decode t a = FNan"

definition fl_key :: "float_traits \<Rightarrow> nat \<Rightarrow> int" where
  "fl_key t a = fl_signed (fl_sign t a) (a mod 2 ^ kSignShift t)"

definition fl_eq :: "float_traits \<Rightarrow> nat \<Rightarrow> nat \<Rightarrow> bool" where
  "fl_eq t a b \<longleftrightarrow> \<not> fl_is_nan t a \<and> \<not> fl_is_nan t b \<and> fl_key t a = fl_key t b"

definition fl_less :: "float_traits \<Rightarrow> nat \<Rightarrow> nat \<Rightarrow> bool" where
  "fl_less t a b \<longleftrightarrow> \<not> fl_is_nan t a \<and> \<not> fl_is_nan t b \<and> fl_key t a < fl_key t b"

definition fl_le :: "float_traits \<Rightarrow> nat \<Rightarrow> nat \<Rightarrow> bool" where
  "fl_le t a b \<longleftrightarrow> fl_less t a b \<or> fl_eq t a b"

end
