(* ===== verification/InterpNum.thy ===== *)
theory InterpNum
  imports Ieee754 "HOL-Library.Signed_Division"
begin

text \<open>
  The numeric instructions of the interpreter (the templates of \<^verbatim>\<open>src/interp.cc\<close> that work on
  representations, without the machine): integer arithmetic with its traps, floating-point
  operations on bit patterns, the range tests in front of float-to-integer conversions, and the
  lanes of the 128-bit vectors. A template argument \<open>T\<close> is the width of a word together with
  its signedness where the code depends on it. An operation whose C++ body has undefined
  behaviour for some operands (overflow of a signed type, a conversion whose value does not fit)
  gives \<open>NumUB\<close> for them.
\<close>

section \<open>Results\<close>

datatype interp_Result = IR_Ok | IR_Returned | IR_TrapMemoryAccessOutOfBounds
  | IR_TrapAtomicMemoryAccessUnaligned | IR_TrapIntegerOverflow | IR_TrapIntegerDivideByZero
  | IR_TrapInvalidConversionToInteger | IR_TrapUndefinedTableIndex
  | IR_TrapUninitializedTableElement | IR_TrapUnreachable | IR_TrapIndirectCallSignatureMismatch
  | IR_TrapCallStackExhausted | IR_TrapValueStackExhausted | IR_TrapHostResultTypeMismatch
  | IR_TrapHostTrapped | IR_ArgumentTypeMismatch | IR_UnknownExport | IR_ExportKindMismatch

fun ResultToString :: "interp_Result \<Rightarrow> string" where
  "ResultToString IR_Ok = ''ok''"
| "ResultToString IR_Returned = ''returned''"
| "ResultToString IR_TrapMemoryAccessOutOfBounds = ''out of bounds memory access''"
| "ResultToString IR_TrapAtomicMemoryAccessUnaligned = ''atomic memory access is unaligned''"
| "ResultToString IR_TrapIntegerOverflow = ''integer overflow''"
| "ResultToString IR_TrapIntegerDivideByZero = ''integer divide by zero''"
| "ResultToString IR_TrapInvalidConversionToInteger = ''invalid conversion to integer''"
| "ResultToString IR_TrapUndefinedTableIndex = ''undefined table index''"
| "ResultToString IR_TrapUninitializedTableElement = ''uninitialized table element''"
| "ResultToString IR_TrapUnreachable = ''unreachable executed''"
| "ResultToString IR_TrapIndirectCallSignatureMismatch = ''indirect call signature mismatch''"
| "ResultToString IR_TrapCallStackExhausted = ''call stack exhausted''"
| "ResultToString IR_TrapValueStackExhausted = ''value stack exhausted''"
| "ResultToString IR_TrapHostResultTypeMismatch = ''host result type mismatch''"
| "ResultToString IR_TrapHostTrapped = ''host function trapped''"
| "ResultToString IR_ArgumentTypeMismatch = ''argument type mismatch''"
| "ResultToString IR_UnknownExport = ''unknown export''"
| "ResultToString IR_ExportKindMismatch = ''export kind mismatch''"

datatype 'a num = NumOk 'a | NumTrap interp_Result | NumUB

section \<open>Values of a C++ integer type\<close>

definition int_of_rep :: "bool \<Rightarrow> 'a::len word \<Rightarrow> int" where
  "int_of_rep sg w = (if sg then sint w else uint w)"

definition int_min :: "bool \<Rightarrow> 'a::len itself \<Rightarrow> int" where
  "int_min sg T = (if sg then - (2 ^ (LENGTH('a) - 1)) else 0)"

definition int_max :: "bool \<Rightarrow> 'a::len itself \<Rightarrow> int" where
  "int_max sg T = (if sg then 2 ^ (LENGTH('a) - 1) - 1 else 2 ^ LENGTH('a) - 1)"

text \<open>The result of an arithmetic operator: unsigned types wrap, sg overflow is undefined.\<close>

definition int_arith :: "bool \<Rightarrow> int \<Rightarrow> 'a::len word num" where
  "int_arith sg v =
     (if sg \<and> \<not> (int_min sg TYPE('a) \<le> v \<and> v \<le> int_max sg TYPE('a)) then NumUB
      else NumOk (word_of_int v))"

text \<open>\<open>static_cast\<close> of a float to an integer type.\<close>

definition float_cast :: "bool \<Rightarrow> float_traits \<Rightarrow> nat \<Rightarrow> 'a::len word num" where
  "float_cast sg t b =
     (case fl_to_int t b of
        None \<Rightarrow> NumUB
      | Some v \<Rightarrow> if int_min sg TYPE('a) \<le> v \<and> v \<le> int_max sg TYPE('a)
                  then NumOk (word_of_int v) else NumUB)"

definition ToRep_bool :: "bool \<Rightarrow> u32" where
  "ToRep_bool x = (if x then 1 else 0)"

section \<open>Integer instructions\<close>

definition Add :: "'a::len word \<Rightarrow> 'a word \<Rightarrow> 'a word" where "Add l r = l + r"
definition Sub :: "'a::len word \<Rightarrow> 'a word \<Rightarrow> 'a word" where "Sub l r = l - r"
definition Mul :: "'a::len word \<Rightarrow> 'a word \<Rightarrow> 'a word" where "Mul l r = l * r"

text \<open>\<open>R\<close> is given by its limits \<open>mn\<close> and \<open>mx\<close>; \<open>T\<close> by the width and the flag \<open>sg\<close> (signed).\<close>

definition AddSaturate :: "bool \<Rightarrow> int \<Rightarrow> int \<Rightarrow> 'a::len word \<Rightarrow> 'a word \<Rightarrow> 'a word num" where
  "AddSaturate sg mn mx l r =
     (case int_arith sg (int_of_rep sg l + int_of_rep sg r) of
        NumOk w \<Rightarrow>
          (let result = int_of_rep sg (w :: 'a word)
           in if result < mn then NumOk (word_of_int mn)
              else if mx < result then NumOk (word_of_int mx)
              else NumOk (word_of_int result))
      | e \<Rightarrow> e)"

definition SubSaturate :: "bool \<Rightarrow> int \<Rightarrow> int \<Rightarrow> 'a::len word \<Rightarrow> 'a word \<Rightarrow> 'a word num" where
  "SubSaturate sg mn mx l r =
     (case int_arith sg (int_of_rep sg l - int_of_rep sg r) of
        NumOk w \<Rightarrow>
          (let result = int_of_rep sg (w :: 'a word)
           in if result < mn then NumOk (word_of_int mn)
              else if mx < result then NumOk (word_of_int mx)
              else NumOk (word_of_int result))
      | e \<Rightarrow> e)"

definition IsNormalDivRemS :: "'a::len word \<Rightarrow> 'a word \<Rightarrow> bool" where
  "IsNormalDivRemS l r \<longleftrightarrow> \<not> (sint l = int_min True TYPE('a) \<and> sint r = - 1)"

definition IntDivS :: "'a::len word \<Rightarrow> 'a word \<Rightarrow> 'a word num" where
  "IntDivS l r =
     (if r = 0 then NumTrap IR_TrapIntegerDivideByZero
      else if \<not> IsNormalDivRemS l r then NumTrap IR_TrapIntegerOverflow
      else int_arith True (sint l sdiv sint r))"

text \<open>\<open>%\<close> is undefined where the quotient is not representable.\<close>

definition IntRemS :: "'a::len word \<Rightarrow> 'a word \<Rightarrow> 'a word num" where
  "IntRemS l r =
     (if r = 0 then NumTrap IR_TrapIntegerDivideByZero
      else if IsNormalDivRemS l r then
        (case int_arith True (sint l sdiv sint r) :: 'a word num of
           NumOk _ \<Rightarrow> int_arith True (sint l smod sint r)
         | e \<Rightarrow> e)
      else NumOk 0)"

definition IntDivU :: "'a::len word \<Rightarrow> 'a word \<Rightarrow> 'a word num" where
  "IntDivU l r = (if r = 0 then NumTrap IR_TrapIntegerDivideByZero else NumOk (l div r))"

definition IntRemU :: "'a::len word \<Rightarrow> 'a word \<Rightarrow> 'a word num" where
  "IntRemU l r = (if r = 0 then NumTrap IR_TrapIntegerDivideByZero else NumOk (l mod r))"

definition IntAnd :: "'a::len word \<Rightarrow> 'a word \<Rightarrow> 'a word" where "IntAnd l r = l AND r"
definition IntOr :: "'a::len word \<Rightarrow> 'a word \<Rightarrow> 'a word" where "IntOr l r = l OR r"
definition IntXor :: "'a::len word \<Rightarrow> 'a word \<Rightarrow> 'a word" where "IntXor l r = l XOR r"

text \<open>\<open>mask\<close> is \<open>sizeof(T) * 8 - 1\<close>.\<close>

definition shift_amount :: "'a::len word \<Rightarrow> nat" where
  "shift_amount r = unat (r AND of_nat (LENGTH('a) - 1))"

definition IntShl :: "'a::len word \<Rightarrow> 'a word \<Rightarrow> 'a word" where
  "IntShl l r = push_bit (shift_amount r) l"

definition IntShr :: "bool \<Rightarrow> 'a::len word \<Rightarrow> 'a word \<Rightarrow> 'a word" where
  "IntShr sg l r =
     (if sg then signed_drop_bit (shift_amount r) l else drop_bit (shift_amount r) l)"

definition IntRotl :: "'a::len word \<Rightarrow> 'a word \<Rightarrow> 'a word" where
  "IntRotl l r =
     (let amount = shift_amount r
      in if amount = 0 then l
         else push_bit amount l OR drop_bit (LENGTH('a) - 1 + 1 - amount) l)"

definition IntRotr :: "'a::len word \<Rightarrow> 'a word \<Rightarrow> 'a word" where
  "IntRotr l r =
     (let amount = shift_amount r
      in if amount = 0 then l
         else drop_bit amount l OR push_bit (LENGTH('a) - 1 + 1 - amount) l)"

definition IntEqz :: "'a::len word \<Rightarrow> u32" where
  "IntEqz v = ToRep_bool (v = 0)"

definition IntNeg :: "bool \<Rightarrow> 'a::len word \<Rightarrow> 'a word num" where
  "IntNeg sg v = int_arith sg (- int_of_rep sg v)"

definition IntNot :: "'a::len word \<Rightarrow> 'a word" where
  "IntNot v = NOT v"

definition Int_Clz :: "'a::len word \<Rightarrow> nat" where
  "Int_Clz x = (if x = 0 then LENGTH('a) else LENGTH('a) - bit_length (unat x))"

fun ctz_nat :: "nat \<Rightarrow> nat" where
  "ctz_nat n = (if n = 0 \<or> odd n then 0 else Suc (ctz_nat (n div 2)))"

declare ctz_nat.simps [simp del]

definition Int_Ctz :: "'a::len word \<Rightarrow> nat" where
  "Int_Ctz x = (if x = 0 then LENGTH('a) else ctz_nat (unat x))"

definition Int_Popcount :: "'a::len word \<Rightarrow> nat" where
  "Int_Popcount x = length (filter (bit x) [0..<LENGTH('a)])"

text \<open>\<open>IntExtendS<T, E>\<close>: \<open>E\<close> is the type of the intermediate word.\<close>

definition IntExtendS :: "'e::len itself \<Rightarrow> 'a::len word \<Rightarrow> 'a word" where
  "IntExtendS E v = scast (ucast v :: 'e word)"

definition Xchg :: "'a::len word \<Rightarrow> 'a word \<Rightarrow> 'a word" where "Xchg l r = r"

definition Eq_int :: "'a::len word \<Rightarrow> 'a word \<Rightarrow> u32" where "Eq_int l r = ToRep_bool (l = r)"
definition Ne_int :: "'a::len word \<Rightarrow> 'a word \<Rightarrow> u32" where "Ne_int l r = ToRep_bool (l \<noteq> r)"

definition Lt_int :: "bool \<Rightarrow> 'a::len word \<Rightarrow> 'a word \<Rightarrow> u32" where
  "Lt_int sg l r = ToRep_bool (int_of_rep sg l < int_of_rep sg r)"

definition Le_int :: "bool \<Rightarrow> 'a::len word \<Rightarrow> 'a word \<Rightarrow> u32" where
  "Le_int sg l r = ToRep_bool (int_of_rep sg l \<le> int_of_rep sg r)"

definition Gt_int :: "bool \<Rightarrow> 'a::len word \<Rightarrow> 'a word \<Rightarrow> u32" where
  "Gt_int sg l r = ToRep_bool (int_of_rep sg l > int_of_rep sg r)"

definition Ge_int :: "bool \<Rightarrow> 'a::len word \<Rightarrow> 'a word \<Rightarrow> u32" where
  "Ge_int sg l r = ToRep_bool (int_of_rep sg l \<ge> int_of_rep sg r)"

section \<open>Floating point\<close>

record 'w FloatTraits =
  kFormat :: float_traits
  kInf :: 'w
  kNegInf :: 'w
  kNegOne :: 'w
  kNegZero :: 'w
  kQuietNan :: 'w
  kQuietNegNan :: 'w
  kQuietNanBit :: 'w
  kTSigBits :: nat
  kTSigMask :: 'w
  kSignMask :: 'w

definition FloatTraits_float :: "u32 FloatTraits" where
  "FloatTraits_float = \<lparr>kFormat = float_traits32, kInf = 0x7f800000, kNegInf = 0xff800000,
     kNegOne = 0xbf800000, kNegZero = 0x80000000, kQuietNan = 0x7fc00000,
     kQuietNegNan = 0xffc00000, kQuietNanBit = 0x00400000, kTSigBits = 23, kTSigMask = 0x7fffff,
     kSignMask = 0x80000000\<rparr>"

definition float_kMax :: u32 where "float_kMax = 0x7f7fffff"
definition float_kNegMax :: u32 where "float_kNegMax = 0xff7fffff"

definition FloatTraits_double :: "u64 FloatTraits" where
  "FloatTraits_double = \<lparr>kFormat = float_traits64, kInf = 0x7ff0000000000000,
     kNegInf = 0xfff0000000000000, kNegOne = 0xbff0000000000000, kNegZero = 0x8000000000000000,
     kQuietNan = 0x7ff8000000000000, kQuietNegNan = 0xfff8000000000000,
     kQuietNanBit = 0x0008000000000000, kTSigBits = 52, kTSigMask = 0xfffffffffffff,
     kSignMask = 0x8000000000000000\<rparr>"

definition IsNan :: "'a::len word FloatTraits \<Rightarrow> 'a word \<Rightarrow> bool" where
  "IsNan T bits \<longleftrightarrow> (bits > kInf T \<and> bits < kNegZero T) \<or> bits > kNegInf T"

definition IsZero :: "'a::len word FloatTraits \<Rightarrow> 'a word \<Rightarrow> bool" where
  "IsZero T bits \<longleftrightarrow> bits = 0 \<or> bits = kNegZero T"

definition IsCanonicalNan :: "'a::len word FloatTraits \<Rightarrow> 'a word \<Rightarrow> bool" where
  "IsCanonicalNan T bits \<longleftrightarrow> bits = kQuietNan T \<or> bits = kQuietNegNan T"

definition IsArithmeticNan :: "'a::len word FloatTraits \<Rightarrow> 'a word \<Rightarrow> bool" where
  "IsArithmeticNan T bits \<longleftrightarrow> bits AND kQuietNan T = kQuietNan T"

definition float_op1 :: "(nat \<Rightarrow> nat) \<Rightarrow> 'a::len word \<Rightarrow> 'a word" where
  "float_op1 f v = of_nat (f (unat v))"

definition float_op2 :: "(nat \<Rightarrow> nat \<Rightarrow> nat) \<Rightarrow> 'a::len word \<Rightarrow> 'a word \<Rightarrow> 'a word" where
  "float_op2 f l r = of_nat (f (unat l) (unat r))"

definition Add_float :: "host_nan \<Rightarrow> 'a::len word FloatTraits \<Rightarrow> 'a word \<Rightarrow> 'a word \<Rightarrow> 'a word" where
  "Add_float nan T = float_op2 (fl_add nan (kFormat T))"

definition Sub_float :: "host_nan \<Rightarrow> 'a::len word FloatTraits \<Rightarrow> 'a word \<Rightarrow> 'a word \<Rightarrow> 'a word" where
  "Sub_float nan T = float_op2 (fl_sub nan (kFormat T))"

definition Mul_float :: "host_nan \<Rightarrow> 'a::len word FloatTraits \<Rightarrow> 'a word \<Rightarrow> 'a word \<Rightarrow> 'a word" where
  "Mul_float nan T = float_op2 (fl_mul nan (kFormat T))"

definition FloatDiv :: "host_nan \<Rightarrow> 'a::len word FloatTraits \<Rightarrow> 'a word \<Rightarrow> 'a word \<Rightarrow> 'a word" where
  "FloatDiv nan T l r =
     (if IsZero T r then
        (if IsNan T l then l OR kQuietNan T
         else if IsZero T l then kQuietNan T
         else (let sign = (l AND kSignMask T) XOR (r AND kSignMask T) in sign OR kInf T))
      else float_op2 (fl_div nan (kFormat T)) l r)"

definition FloatAbs :: "'a::len word FloatTraits \<Rightarrow> 'a word \<Rightarrow> 'a word" where
  "FloatAbs T v = v AND NOT (kSignMask T)"

definition FloatNeg :: "'a::len word FloatTraits \<Rightarrow> 'a word \<Rightarrow> 'a word" where
  "FloatNeg T v = v XOR kSignMask T"

text \<open>The operations of \<^verbatim>\<open>cmath\<close> may return a signalling NaN; the code quiets it.\<close>

definition quiet_result :: "'a::len word FloatTraits \<Rightarrow> 'a word \<Rightarrow> 'a word" where
  "quiet_result T result = (if IsNan T result then result OR kQuietNanBit T else result)"

definition FloatCeil :: "host_nan \<Rightarrow> 'a::len word FloatTraits \<Rightarrow> 'a word \<Rightarrow> 'a word" where
  "FloatCeil nan T v = quiet_result T (float_op1 (fl_integral nan (kFormat T) Dir_ceil) v)"

definition FloatFloor :: "host_nan \<Rightarrow> 'a::len word FloatTraits \<Rightarrow> 'a word \<Rightarrow> 'a word" where
  "FloatFloor nan T v = quiet_result T (float_op1 (fl_integral nan (kFormat T) Dir_floor) v)"

definition FloatTrunc :: "host_nan \<Rightarrow> 'a::len word FloatTraits \<Rightarrow> 'a word \<Rightarrow> 'a word" where
  "FloatTrunc nan T v = quiet_result T (float_op1 (fl_integral nan (kFormat T) Dir_trunc) v)"

definition FloatNearest :: "host_nan \<Rightarrow> 'a::len word FloatTraits \<Rightarrow> 'a word \<Rightarrow> 'a word" where
  "FloatNearest nan T v = quiet_result T (float_op1 (fl_integral nan (kFormat T) Dir_nearest) v)"

definition FloatSqrt :: "host_nan \<Rightarrow> 'a::len word FloatTraits \<Rightarrow> 'a word \<Rightarrow> 'a word" where
  "FloatSqrt nan T v = quiet_result T (float_op1 (fl_sqrt nan (kFormat T)) v)"

text \<open>\<open>std::min\<close> and \<open>std::max\<close> return their first argument unless the second is less (greater).\<close>

definition FloatMin :: "'a::len word FloatTraits \<Rightarrow> 'a word \<Rightarrow> 'a word \<Rightarrow> 'a word" where
  "FloatMin T l r =
     (if IsNan T l then l OR kQuietNanBit T
      else if IsNan T r then r OR kQuietNanBit T
      else if IsZero T l \<and> IsZero T r then max l r
      else if fl_less (kFormat T) (unat r) (unat l) then r else l)"

definition FloatMax :: "'a::len word FloatTraits \<Rightarrow> 'a word \<Rightarrow> 'a word \<Rightarrow> 'a word" where
  "FloatMax T l r =
     (if IsNan T l then l OR kQuietNanBit T
      else if IsNan T r then r OR kQuietNanBit T
      else if IsZero T l \<and> IsZero T r then min l r
      else if fl_less (kFormat T) (unat l) (unat r) then r else l)"

definition FloatCopySign :: "'a::len word FloatTraits \<Rightarrow> 'a word \<Rightarrow> 'a word \<Rightarrow> 'a word" where
  "FloatCopySign T l r = (l AND NOT (kSignMask T)) OR (r AND kSignMask T)"

definition Eq_float :: "'a::len word FloatTraits \<Rightarrow> 'a word \<Rightarrow> 'a word \<Rightarrow> u32" where
  "Eq_float T l r = ToRep_bool (fl_eq (kFormat T) (unat l) (unat r))"

definition Ne_float :: "'a::len word FloatTraits \<Rightarrow> 'a word \<Rightarrow> 'a word \<Rightarrow> u32" where
  "Ne_float T l r = ToRep_bool (\<not> fl_eq (kFormat T) (unat l) (unat r))"

definition Lt_float :: "'a::len word FloatTraits \<Rightarrow> 'a word \<Rightarrow> 'a word \<Rightarrow> u32" where
  "Lt_float T l r = ToRep_bool (fl_less (kFormat T) (unat l) (unat r))"

definition Le_float :: "'a::len word FloatTraits \<Rightarrow> 'a word \<Rightarrow> 'a word \<Rightarrow> u32" where
  "Le_float T l r = ToRep_bool (fl_le (kFormat T) (unat l) (unat r))"

definition Gt_float :: "'a::len word FloatTraits \<Rightarrow> 'a word \<Rightarrow> 'a word \<Rightarrow> u32" where
  "Gt_float T l r = ToRep_bool (fl_less (kFormat T) (unat r) (unat l))"

definition Ge_float :: "'a::len word FloatTraits \<Rightarrow> 'a word \<Rightarrow> 'a word \<Rightarrow> u32" where
  "Ge_float T l r = ToRep_bool (fl_le (kFormat T) (unat r) (unat l))"

section \<open>Conversions\<close>

definition IsConversionInRange_int32_float :: "u32 \<Rightarrow> bool" where
  "IsConversionInRange_int32_float bits \<longleftrightarrow>
     bits < 0x4f000000 \<or> (bits \<ge> kNegZero FloatTraits_float \<and> bits \<le> 0xcf000000)"

definition IsConversionInRange_int64_float :: "u32 \<Rightarrow> bool" where
  "IsConversionInRange_int64_float bits \<longleftrightarrow>
     bits < 0x5f000000 \<or> (bits \<ge> kNegZero FloatTraits_float \<and> bits \<le> 0xdf000000)"

definition IsConversionInRange_uint32_float :: "u32 \<Rightarrow> bool" where
  "IsConversionInRange_uint32_float bits \<longleftrightarrow>
     bits < 0x4f800000 \<or> (bits \<ge> kNegZero FloatTraits_float \<and> bits < kNegOne FloatTraits_float)"

definition IsConversionInRange_uint64_float :: "u32 \<Rightarrow> bool" where
  "IsConversionInRange_uint64_float bits \<longleftrightarrow>
     bits < 0x5f800000 \<or> (bits \<ge> kNegZero FloatTraits_float \<and> bits < kNegOne FloatTraits_float)"

definition IsConversionInRange_int32_double :: "u64 \<Rightarrow> bool" where
  "IsConversionInRange_int32_double bits \<longleftrightarrow>
     bits \<le> 0x41dfffffffc00000 \<or> (bits \<ge> kNegZero FloatTraits_double \<and> bits \<le> 0xc1e0000000000000)"

definition IsConversionInRange_int64_double :: "u64 \<Rightarrow> bool" where
  "IsConversionInRange_int64_double bits \<longleftrightarrow>
     bits < 0x43e0000000000000 \<or> (bits \<ge> kNegZero FloatTraits_double \<and> bits \<le> 0xc3e0000000000000)"

definition IsConversionInRange_uint32_double :: "u64 \<Rightarrow> bool" where
  "IsConversionInRange_uint32_double bits \<longleftrightarrow>
     bits \<le> 0x41efffffffe00000 \<or>
     (bits \<ge> kNegZero FloatTraits_double \<and> bits < kNegOne FloatTraits_double)"

definition IsConversionInRange_uint64_double :: "u64 \<Rightarrow> bool" where
  "IsConversionInRange_uint64_double bits \<longleftrightarrow>
     bits < 0x43f0000000000000 \<or>
     (bits \<ge> kNegZero FloatTraits_double \<and> bits < kNegOne FloatTraits_double)"

definition IsConversionInRange_float_double :: "u64 \<Rightarrow> bool" where
  "IsConversionInRange_float_double bits \<longleftrightarrow>
     bits \<le> 0x47efffffe0000000 \<or> (bits \<ge> kNegZero FloatTraits_double \<and> bits \<le> 0xc7efffffe0000000)"

definition IsInRangeF64DemoteF32RoundToF32Max :: "u64 \<Rightarrow> bool" where
  "IsInRangeF64DemoteF32RoundToF32Max bits \<longleftrightarrow> bits > 0x47efffffe0000000 \<and> bits < 0x47effffff0000000"

definition IsInRangeF64DemoteF32RoundToNegF32Max :: "u64 \<Rightarrow> bool" where
  "IsInRangeF64DemoteF32RoundToNegF32Max bits \<longleftrightarrow> bits > 0xc7efffffe0000000 \<and> bits < 0xc7effffff0000000"

definition IntTrunc ::
  "bool \<Rightarrow> 'a::len word FloatTraits \<Rightarrow> ('a word \<Rightarrow> bool) \<Rightarrow> 'a word \<Rightarrow> 'r::len word num" where
  "IntTrunc sg T IsConversionInRange v =
     (if IsNan T v then NumTrap IR_TrapInvalidConversionToInteger
      else if \<not> IsConversionInRange v then NumTrap IR_TrapIntegerOverflow
      else float_cast sg (kFormat T) (unat v))"

definition IntTruncSat ::
  "bool \<Rightarrow> 'a::len word FloatTraits \<Rightarrow> ('a word \<Rightarrow> bool) \<Rightarrow> 'a word \<Rightarrow> 'r::len word num" where
  "IntTruncSat sg T IsConversionInRange v =
     (if IsNan T v then NumOk 0
      else if \<not> IsConversionInRange v then
        (if v AND kSignMask T \<noteq> 0 then NumOk (word_of_int (int_min sg TYPE('r)))
         else NumOk (word_of_int (int_max sg TYPE('r))))
      else float_cast sg (kFormat T) (unat v))"

text \<open>The conversion of an integer to a float, and the body of \<open>F32DemoteF64\<close> and \<open>F64PromoteF32\<close>.\<close>

definition int_to_float :: "bool \<Rightarrow> 'r::len word FloatTraits \<Rightarrow> 'a::len word \<Rightarrow> 'r word" where
  "int_to_float sg T v = of_nat (fl_of_int (kFormat T) (int_of_rep sg v))"

definition F32DemoteF64 :: "host_nan \<Rightarrow> u64 \<Rightarrow> u32" where
  "F32DemoteF64 nan value =
     (if IsConversionInRange_float_double value then
        of_nat (fl_convert nan float_traits64 float_traits32 (unat value))
      else if IsInRangeF64DemoteF32RoundToF32Max value then float_kMax
      else if IsInRangeF64DemoteF32RoundToNegF32Max value then float_kNegMax
      else (let sign = ucast (drop_bit 32 value) AND kSignMask FloatTraits_float;
                tag = (if IsNan FloatTraits_double value
                       then kQuietNanBit FloatTraits_float OR
                         (ucast (drop_bit (kTSigBits FloatTraits_double - kTSigBits FloatTraits_float) value)
                          AND kTSigMask FloatTraits_float)
                       else 0)
            in sign OR kInf FloatTraits_float OR tag))"

definition F64PromoteF32 :: "host_nan \<Rightarrow> u32 \<Rightarrow> u64" where
  "F64PromoteF32 nan value = of_nat (fl_convert nan float_traits32 float_traits64 (unat value))"

section \<open>Vectors\<close>

text \<open>
  A \<open>v128\<close> in memory order: \<open>memcpy\<close> to an array of lanes of width \<open>'l\<close> takes the lanes from the
  low end, as on a little-endian host.
\<close>

type_synonym v128 = "128 word"

definition lanes :: "'l::len itself \<Rightarrow> nat" where
  "lanes L = 128 div LENGTH('l)"

definition simd_data :: "v128 \<Rightarrow> 'l::len word list" where
  "simd_data v = map (\<lambda>i. ucast (drop_bit (i * LENGTH('l)) v)) [0..<lanes TYPE('l)]"

fun simd_bitcast :: "'l::len word list \<Rightarrow> v128" where
  "simd_bitcast [] = 0"
| "simd_bitcast (x # xs) = ucast x OR push_bit LENGTH('l) (simd_bitcast xs)"

fun num_list :: "'a num list \<Rightarrow> 'a list num" where
  "num_list [] = NumOk []"
| "num_list (NumOk x # xs) = (case num_list xs of NumOk ys \<Rightarrow> NumOk (x # ys) | NumTrap r \<Rightarrow> NumTrap r | NumUB \<Rightarrow> NumUB)"
| "num_list (NumTrap r # xs) = NumTrap r"
| "num_list (NumUB # xs) = NumUB"

fun num_map :: "('a \<Rightarrow> 'b) \<Rightarrow> 'a num \<Rightarrow> 'b num" where
  "num_map f (NumOk x) = NumOk (f x)"
| "num_map f (NumTrap r) = NumTrap r"
| "num_map f NumUB = NumUB"

text \<open>\<open>conv\<close> is the implicit conversion of a lane to the parameter type of \<open>func\<close>.\<close>

definition SimdUnop ::
  "('l::len word \<Rightarrow> 'p::len word) \<Rightarrow> ('p word \<Rightarrow> 'r::len word num) \<Rightarrow> v128 \<Rightarrow> v128 num" where
  "SimdUnop conv func value =
     num_map (\<lambda>ret. simd_bitcast (map ucast ret :: 'l word list))
       (num_list (map (\<lambda>x. func (conv x)) (simd_data value)))"

definition SimdBinop ::
  "('l::len word \<Rightarrow> 'p::len word) \<Rightarrow> ('p word \<Rightarrow> 'p word \<Rightarrow> 'r::len word num) \<Rightarrow> v128 \<Rightarrow> v128 \<Rightarrow> v128 num" where
  "SimdBinop conv func lhs rhs =
     num_map (\<lambda>ret. simd_bitcast (map ucast ret :: 'l word list))
       (num_list (map2 (\<lambda>x y. func (conv x) (conv y)) (simd_data lhs) (simd_data rhs)))"

definition SimdIsLaneTrue :: "'l::len itself \<Rightarrow> v128 \<Rightarrow> nat \<Rightarrow> u32" where
  "SimdIsLaneTrue L value true_cond =
     (if true_cond \<le> length (filter (\<lambda>x. x \<noteq> 0) (simd_data value :: 'l word list)) then 1 else 0)"

definition SimdSplat :: "'l::len word \<Rightarrow> v128" where
  "SimdSplat lane_data = simd_bitcast (replicate (lanes TYPE('l)) lane_data)"

text \<open>An index past the last lane reads (writes) outside the local array.\<close>

definition SimdExtractLane :: "('l::len word \<Rightarrow> 'r::len word) \<Rightarrow> v128 \<Rightarrow> nat \<Rightarrow> 'r word num" where
  "SimdExtractLane conv value laneidx =
     (if laneidx < lanes TYPE('l) then NumOk (conv (simd_data value ! laneidx)) else NumUB)"

definition SimdReplaceLane :: "v128 \<Rightarrow> nat \<Rightarrow> 'l::len word \<Rightarrow> v128 num" where
  "SimdReplaceLane value lane_idx lane_val =
     (if lane_idx < lanes TYPE('l) then NumOk (simd_bitcast ((simd_data value)[lane_idx := lane_val]))
      else NumUB)"

text \<open>\<open>V8X16Shuffle\<close>: the lane indices are signed bytes.\<close>

definition shuffle_lane :: "u8 list \<Rightarrow> u8 list \<Rightarrow> u8 \<Rightarrow> u8 num" where
  "shuffle_lane data0 data1 lane_idx =
     (let i = sint lane_idx
      in if i < 0 then NumUB
         else if i < 16 then NumOk (data0 ! nat i)
         else if i < 32 then NumOk (data1 ! nat (i - 16))
         else NumUB)"

definition V8X16Shuffle :: "v128 \<Rightarrow> v128 \<Rightarrow> v128 \<Rightarrow> v128 num" where
  "V8X16Shuffle v1 v2 shuffle_imm =
     num_map simd_bitcast
       (num_list (map (shuffle_lane (simd_data v1) (simd_data v2)) (simd_data shuffle_imm)))"

definition SimdConvert :: "bool \<Rightarrow> 'a::len word FloatTraits \<Rightarrow> 'a word \<Rightarrow> 'a word" where
  "SimdConvert sg T v = int_to_float sg T v"

end
