(* ===== verification/InterpEnv.thy ===== *)
theory InterpEnv
  imports InterpNum WabtCommon
begin

text \<open>
  The store of the interpreter (\<^verbatim>\<open>src/interp.h\<close>, \<open>Environment\<close> in \<^verbatim>\<open>src/interp.cc\<close>): modules, function
  signatures, functions, memories, tables, globals, the instruction stream that all modules
  share, and the names modules are found by. \<open>Environment_Mark\<close> and \<open>Environment_ResetToMarkPoint\<close>
  undo the loading of a module that failed.
\<close>

section \<open>Data\<close>

type_synonym Index = u32

definition kInvalidIndex :: Index where "kInvalidIndex = 0xffffffff"
definition kInvalidIstreamOffset :: u32 where "kInvalidIstreamOffset = 0xffffffff"

definition WABT_PAGE_SIZE :: nat where "WABT_PAGE_SIZE = 0x10000"
definition WABT_MAX_PAGES :: nat where "WABT_MAX_PAGES = 0x10000"

datatype ExternalKind = EK_Func | EK_Table | EK_Memory | EK_Global | EK_Except

record Limits =
  lim_initial :: u64
  lim_max :: u64
  lim_has_max :: bool
  lim_is_shared :: bool

record FuncSignature =
  sig_param_types :: TypeVector
  sig_result_types :: TypeVector

record Table =
  table_limits :: Limits
  func_indexes :: "Index list"

record Memory =
  page_limits :: Limits
  memory_data :: bytes

text \<open>
  \<open>union Value\<close> as its sixteen bytes: a member is read from the low end. Writing a narrow
  member leaves the bytes above it indeterminate; here they are 0. Code reads a value with the
  member it was written with.
\<close>

type_synonym Value = v128

record TypedValue =
  tv_type :: wtype
  tv_value :: Value

record Global =
  global_typed_value :: TypedValue
  global_mutable :: bool
  global_import_index :: Index

text \<open>A host function's callback is given by its names in the model: see \<open>host_callback\<close>.\<close>

datatype Func =
    DefinedFunc (func_sig_index: Index) (func_offset: u32) (func_local_decl_count: Index)
      (func_local_count: Index) (func_param_and_local_types: TypeVector)
  | HostFunc (func_sig_index: Index) (func_module_name: string) (func_field_name: string)

definition is_host :: "Func \<Rightarrow> bool" where
  "is_host f = (case f of HostFunc _ _ _ \<Rightarrow> True | _ \<Rightarrow> False)"

record Export =
  export_name :: string
  export_kind :: ExternalKind
  export_index :: Index

text \<open>
  \<open>BindingHash\<close>, an unordered multimap, as the list of its entries: which of several entries
  with the same key \<open>find\<close> returns is not specified, and the choice \<open>pick\<close> is an argument.
\<close>

type_synonym BindingHash = "(string \<times> Index) list"

definition BindingHash_FindIndex :: "(Index list \<Rightarrow> Index) \<Rightarrow> BindingHash \<Rightarrow> string \<Rightarrow> Index" where
  "BindingHash_FindIndex pick h name =
     (case map snd (filter (\<lambda>e. fst e = name) h) of
        [] \<Rightarrow> kInvalidIndex
      | is \<Rightarrow> pick is)"

text \<open>
  The fields of \<open>Module\<close>; those of \<open>DefinedModule\<close> are the invalid index in a host module.
\<close>

record Module =
  mod_name :: string
  mod_exports :: "Export list"
  mod_export_bindings :: BindingHash
  mod_memory_index :: Index
  mod_table_index :: Index
  mod_is_host :: bool
  mod_start_func_index :: Index
  mod_istream_start :: u32
  mod_istream_end :: u32

record Environment =
  env_modules :: "Module list"
  env_sigs :: "FuncSignature list"
  env_funcs :: "Func list"
  env_memories :: "Memory list"
  env_tables :: "Table list"
  env_globals :: "Global list"
  env_istream :: bytes
  env_module_bindings :: BindingHash
  env_registered_module_bindings :: BindingHash

record MarkPoint =
  mark_modules_size :: nat
  mark_sigs_size :: nat
  mark_funcs_size :: nat
  mark_memories_size :: nat
  mark_tables_size :: nat
  mark_globals_size :: nat
  mark_istream_size :: nat

section \<open>Construction\<close>

definition Table_init :: "Limits \<Rightarrow> Table" where
  "Table_init l = \<lparr>table_limits = l, func_indexes = replicate (unat (lim_initial l)) kInvalidIndex\<rparr>"

text \<open>The size in bytes is computed with the 64-bit \<open>initial\<close>.\<close>

definition Memory_init :: "Limits \<Rightarrow> Memory" where
  "Memory_init l = \<lparr>page_limits = l,
     memory_data = replicate (unat (lim_initial l * of_nat WABT_PAGE_SIZE)) 0\<rparr>"

definition DefinedModule_init :: Module where
  "DefinedModule_init = \<lparr>mod_name = [], mod_exports = [], mod_export_bindings = [],
     mod_memory_index = kInvalidIndex, mod_table_index = kInvalidIndex,
     mod_is_host = False, mod_start_func_index = kInvalidIndex,
     mod_istream_start = kInvalidIstreamOffset, mod_istream_end = kInvalidIstreamOffset\<rparr>"

definition HostModule_init :: "string \<Rightarrow> Module" where
  "HostModule_init name = \<lparr>mod_name = name, mod_exports = [], mod_export_bindings = [],
     mod_memory_index = kInvalidIndex, mod_table_index = kInvalidIndex,
     mod_is_host = True, mod_start_func_index = kInvalidIndex,
     mod_istream_start = kInvalidIstreamOffset, mod_istream_end = kInvalidIstreamOffset\<rparr>"

definition Environment_init :: Environment where
  "Environment_init = \<lparr>env_modules = [], env_sigs = [], env_funcs = [], env_memories = [],
     env_tables = [], env_globals = [], env_istream = [], env_module_bindings = [],
     env_registered_module_bindings = []\<rparr>"

section \<open>Lookup\<close>

definition Environment_FindModuleIndex ::
  "(Index list \<Rightarrow> Index) \<Rightarrow> Environment \<Rightarrow> string \<Rightarrow> Index" where
  "Environment_FindModuleIndex pick e name = BindingHash_FindIndex pick (env_module_bindings e) name"

text \<open>\<open>None\<close> is the null pointer; the bindings only hold indices of modules.\<close>

definition Environment_FindModule ::
  "(Index list \<Rightarrow> Index) \<Rightarrow> Environment \<Rightarrow> string \<Rightarrow> Module option" where
  "Environment_FindModule pick e name =
     (let index = Environment_FindModuleIndex pick e name
      in if index = kInvalidIndex then None else Some (env_modules e ! unat index))"

definition Environment_FindRegisteredModule ::
  "(Index list \<Rightarrow> Index) \<Rightarrow> Environment \<Rightarrow> string \<Rightarrow> Module option" where
  "Environment_FindRegisteredModule pick e name =
     (case map snd (filter (\<lambda>b. fst b = name) (env_registered_module_bindings e)) of
        [] \<Rightarrow> None
      | is \<Rightarrow> Some (env_modules e ! unat (pick is)))"

definition Module_GetExport :: "(Index list \<Rightarrow> Index) \<Rightarrow> Module \<Rightarrow> string \<Rightarrow> Export option" where
  "Module_GetExport pick m name =
     (let field_index = BindingHash_FindIndex pick (mod_export_bindings m) name
      in if sint field_index < 0 then None else Some (mod_exports m ! unat field_index))"

definition Environment_GetLastModuleIndex :: "Environment \<Rightarrow> Index" where
  "Environment_GetLastModuleIndex e =
     (if env_modules e = [] then kInvalidIndex else of_nat (length (env_modules e) - 1))"

section \<open>Adding\<close>

definition EmplaceBackFuncSignature :: "FuncSignature \<Rightarrow> Environment \<Rightarrow> Environment" where
  "EmplaceBackFuncSignature x e = e\<lparr>env_sigs := env_sigs e @ [x]\<rparr>"

definition EmplaceBackFunc :: "Func \<Rightarrow> Environment \<Rightarrow> Environment" where
  "EmplaceBackFunc x e = e\<lparr>env_funcs := env_funcs e @ [x]\<rparr>"

definition EmplaceBackGlobal :: "Global \<Rightarrow> Environment \<Rightarrow> Environment" where
  "EmplaceBackGlobal x e = e\<lparr>env_globals := env_globals e @ [x]\<rparr>"

definition EmplaceBackTable :: "Table \<Rightarrow> Environment \<Rightarrow> Environment" where
  "EmplaceBackTable x e = e\<lparr>env_tables := env_tables e @ [x]\<rparr>"

definition EmplaceBackMemory :: "Memory \<Rightarrow> Environment \<Rightarrow> Environment" where
  "EmplaceBackMemory x e = e\<lparr>env_memories := env_memories e @ [x]\<rparr>"

definition EmplaceBackModule :: "Module \<Rightarrow> Environment \<Rightarrow> Environment" where
  "EmplaceBackModule x e = e\<lparr>env_modules := env_modules e @ [x]\<rparr>"

definition EmplaceModuleBinding :: "string \<Rightarrow> Index \<Rightarrow> Environment \<Rightarrow> Environment" where
  "EmplaceModuleBinding n i e = e\<lparr>env_module_bindings := env_module_bindings e @ [(n, i)]\<rparr>"

definition EmplaceRegisteredModuleBinding :: "string \<Rightarrow> Index \<Rightarrow> Environment \<Rightarrow> Environment" where
  "EmplaceRegisteredModuleBinding n i e =
     e\<lparr>env_registered_module_bindings := env_registered_module_bindings e @ [(n, i)]\<rparr>"

definition AppendHostModule :: "string \<Rightarrow> Environment \<Rightarrow> Environment" where
  "AppendHostModule name e =
     (let e1 = EmplaceBackModule (HostModule_init name) e
      in EmplaceRegisteredModuleBinding name (of_nat (length (env_modules e1) - 1)) e1)"

text \<open>Appending instructions to the shared stream, as the loader does.\<close>

definition append_istream :: "bytes \<Rightarrow> Environment \<Rightarrow> Environment" where
  "append_istream bs e = e\<lparr>env_istream := env_istream e @ bs\<rparr>"

definition FuncSignaturesAreEqual :: "Environment \<Rightarrow> Index \<Rightarrow> Index \<Rightarrow> bool option" where
  "FuncSignaturesAreEqual e sig_index_0 sig_index_1 =
     (if sig_index_0 = sig_index_1 then Some True
      else if unat sig_index_0 < length (env_sigs e) \<and> unat sig_index_1 < length (env_sigs e) then
        (let sig_0 = env_sigs e ! unat sig_index_0; sig_1 = env_sigs e ! unat sig_index_1
         in Some (sig_param_types sig_0 = sig_param_types sig_1 \<and>
                  sig_result_types sig_0 = sig_result_types sig_1))
      else None)"

section \<open>Mark and reset\<close>

definition Environment_Mark :: "Environment \<Rightarrow> MarkPoint" where
  "Environment_Mark e = \<lparr>mark_modules_size = length (env_modules e),
     mark_sigs_size = length (env_sigs e), mark_funcs_size = length (env_funcs e),
     mark_memories_size = length (env_memories e), mark_tables_size = length (env_tables e),
     mark_globals_size = length (env_globals e), mark_istream_size = length (env_istream e)\<rparr>"

text \<open>\<open>erase(name)\<close> removes every entry with that key.\<close>

definition erase_name :: "string \<Rightarrow> BindingHash \<Rightarrow> BindingHash" where
  "erase_name name h = filter (\<lambda>e. fst e \<noteq> name) h"

fun erase_module_names :: "Module list \<Rightarrow> BindingHash \<Rightarrow> BindingHash" where
  "erase_module_names [] h = h"
| "erase_module_names (m # ms) h =
     erase_module_names ms (if mod_name m \<noteq> [] then erase_name (mod_name m) h else h)"

text \<open>\<open>OutputBuffer::data.resize\<close> fills with zeros where it grows.\<close>

definition bytes_resize :: "nat \<Rightarrow> bytes \<Rightarrow> bytes" where
  "bytes_resize n bs = take n bs @ replicate (n - length bs) 0"

definition Environment_ResetToMarkPoint :: "MarkPoint \<Rightarrow> Environment \<Rightarrow> Environment" where
  "Environment_ResetToMarkPoint mark e = e\<lparr>
     env_module_bindings :=
       erase_module_names (drop (mark_modules_size mark) (env_modules e)) (env_module_bindings e),
     env_registered_module_bindings :=
       filter (\<lambda>b. \<not> mark_modules_size mark \<le> unat (snd b)) (env_registered_module_bindings e),
     env_modules := take (mark_modules_size mark) (env_modules e),
     env_sigs := take (mark_sigs_size mark) (env_sigs e),
     env_funcs := take (mark_funcs_size mark) (env_funcs e),
     env_memories := take (mark_memories_size mark) (env_memories e),
     env_tables := take (mark_tables_size mark) (env_tables e),
     env_globals := take (mark_globals_size mark) (env_globals e),
     env_istream := bytes_resize (mark_istream_size mark) (env_istream e)\<rparr>"

end
