(* ===== verification/InterpMachine.thy ===== *)
theory InterpMachine
  imports InterpEnv OpcodeTable
begin

text \<open>
  The thread of the interpreter (\<open>Thread\<close> in \<^verbatim>\<open>src/interp.cc\<close>): its value stack and call stack,
  reading the instruction stream, checked memory accesses, calls of host functions, and the
  operations every instruction is made of. An operation takes the machine state to an outcome
  and a state: it gives a value, makes \<open>Run\<close> return a result other than \<open>Ok\<close>, or has undefined
  behaviour (an access outside a vector or the instruction stream, a failed assertion).
\<close>

section \<open>State\<close>

record Thread =
  value_stack :: "Value list"
  call_stack :: "u32 list"
  value_stack_top :: u32
  call_stack_top :: u32
  thread_pc :: u32

text \<open>\<open>st_pc\<close> is the local \<open>pc\<close> of \<open>Run\<close>, as an offset into the instruction stream.\<close>

record istate =
  st_env :: Environment
  st_thread :: Thread
  st_pc :: nat

datatype 'a irun = IVal 'a | IStop interp_Result | IUndef

type_synonym 'a iop = "istate \<Rightarrow> 'a irun \<times> istate"

definition i_return :: "'a \<Rightarrow> 'a iop" where
  "i_return x s = (IVal x, s)"

definition i_bind :: "'a iop \<Rightarrow> ('a \<Rightarrow> 'b iop) \<Rightarrow> 'b iop" where
  "i_bind f g s = (case f s of
     (IVal x, s1) \<Rightarrow> g x s1
   | (IStop r, s1) \<Rightarrow> (IStop r, s1)
   | (IUndef, s1) \<Rightarrow> (IUndef, s1))"

definition i_then :: "'a iop \<Rightarrow> 'b iop \<Rightarrow> 'b iop" where
  "i_then f g = i_bind f (\<lambda>_. g)"

definition i_stop :: "interp_Result \<Rightarrow> 'a iop" where
  "i_stop r s = (IStop r, s)"

definition i_undef :: "'a iop" where
  "i_undef s = (IUndef, s)"

definition i_num :: "'a num \<Rightarrow> 'a iop" where
  "i_num n = (case n of NumOk x \<Rightarrow> i_return x | NumTrap r \<Rightarrow> i_stop r | NumUB \<Rightarrow> i_undef)"

definition i_trap_if :: "bool \<Rightarrow> interp_Result \<Rightarrow> unit iop" where
  "i_trap_if c r = (if c then i_stop r else i_return ())"

definition i_thread :: "(Thread \<Rightarrow> Thread) \<Rightarrow> unit iop" where
  "i_thread f s = (IVal (), s\<lparr>st_thread := f (st_thread s)\<rparr>)"

definition i_env :: "(Environment \<Rightarrow> Environment) \<Rightarrow> unit iop" where
  "i_env f s = (IVal (), s\<lparr>st_env := f (st_env s)\<rparr>)"

definition GOTO :: "u32 \<Rightarrow> unit iop" where
  "GOTO offset s = (IVal (), s\<lparr>st_pc := unat offset\<rparr>)"

section \<open>Values\<close>

text \<open>\<open>MakeValue<T>\<close> and \<open>GetValue<T>\<close>: the representation of \<open>T\<close> is a word of its width.\<close>

definition MakeValue :: "'a::len word \<Rightarrow> Value" where "MakeValue v = ucast v"
definition GetValue :: "Value \<Rightarrow> 'a::len word" where "GetValue v = ucast v"

section \<open>Bytes\<close>

fun le_word :: "bytes \<Rightarrow> 'a::len word" where
  "le_word [] = 0"
| "le_word (b # bs) = ucast b OR push_bit 8 (le_word bs)"

definition word_le :: "'a::len word \<Rightarrow> bytes" where
  "word_le w = map (\<lambda>i. ucast (drop_bit (8 * i) w)) [0..<LENGTH('a) div 8]"

definition ReadUxAt :: "nat \<Rightarrow> 'a::len word iop" where
  "ReadUxAt off s =
     (let n = LENGTH('a) div 8; stream = env_istream (st_env s)
      in if off + n \<le> length stream then (IVal (le_word (take n (drop off stream))), s) else (IUndef, s))"

definition ReadUx :: "'a::len word iop" where
  "ReadUx s =
     (case ReadUxAt (st_pc s) s of
        (IVal (w :: 'a word), s1) \<Rightarrow> (IVal w, s1\<lparr>st_pc := st_pc s1 + LENGTH('a) div 8\<rparr>)
      | r \<Rightarrow> r)"

definition ReadU8 :: "u8 iop" where "ReadU8 = ReadUx"
definition ReadU32 :: "u32 iop" where "ReadU32 = ReadUx"
definition ReadU64 :: "u64 iop" where "ReadU64 = ReadUx"
definition ReadV128 :: "v128 iop" where "ReadV128 = ReadUx"
definition ReadU32At :: "nat \<Rightarrow> u32 iop" where "ReadU32At = ReadUxAt"

definition ReadOpcode :: "u32 iop" where
  "ReadOpcode =
     i_bind ReadU8 (\<lambda>value.
       if IsPrefixByte value then
         i_bind ReadU8 (\<lambda>code. i_return (FromCode value (ucast code)))
       else i_return (FromCode 0 (ucast value)))"

definition WABT_TABLE_ENTRY_SIZE :: u32 where "WABT_TABLE_ENTRY_SIZE = 12"

definition read_table_entry_at :: "nat \<Rightarrow> (u32 \<times> u32 \<times> u32) iop" where
  "read_table_entry_at pc =
     i_bind (ReadU32At (pc + 0)) (\<lambda>out_offset.
     i_bind (ReadU32At (pc + 4)) (\<lambda>out_drop.
     i_bind (ReadU32At (pc + 8)) (\<lambda>out_keep.
     i_return (out_offset, out_drop, out_keep))))"

section \<open>The stacks\<close>

definition value_slot :: "u32 \<Rightarrow> Value iop" where
  "value_slot i s =
     (if unat i < length (value_stack (st_thread s)) then (IVal (value_stack (st_thread s) ! unat i), s)
      else (IUndef, s))"

definition set_value_slot :: "u32 \<Rightarrow> Value \<Rightarrow> unit iop" where
  "set_value_slot i v s =
     (if unat i < length (value_stack (st_thread s))
      then i_thread (\<lambda>t. t\<lparr>value_stack := (value_stack t)[unat i := v]\<rparr>) s
      else (IUndef, s))"

definition i_top :: "u32 iop" where
  "i_top s = (IVal (value_stack_top (st_thread s)), s)"

definition i_set_top :: "u32 \<Rightarrow> unit iop" where
  "i_set_top n = i_thread (\<lambda>t. t\<lparr>value_stack_top := n\<rparr>)"

definition CHECK_STACK :: "unit iop" where
  "CHECK_STACK s =
     i_trap_if (length (value_stack (st_thread s)) \<le> unat (value_stack_top (st_thread s)))
       IR_TrapValueStackExhausted s"

text \<open>\<open>Pick\<close> returns a reference: it is read by \<open>Thread_Pick\<close>, assigned by \<open>Thread_set_Pick\<close>.\<close>

definition Thread_Pick :: "u32 \<Rightarrow> Value iop" where
  "Thread_Pick depth = i_bind i_top (\<lambda>top. value_slot (top - depth))"

definition Thread_set_Pick :: "u32 \<Rightarrow> Value \<Rightarrow> unit iop" where
  "Thread_set_Pick depth v = i_bind i_top (\<lambda>top. set_value_slot (top - depth) v)"

definition Thread_Top :: "Value iop" where "Thread_Top = Thread_Pick 1"

definition Thread_Reset :: "Thread \<Rightarrow> Thread" where
  "Thread_Reset t = t\<lparr>thread_pc := 0, value_stack_top := 0, call_stack_top := 0\<rparr>"

definition Thread_Push :: "Value \<Rightarrow> unit iop" where
  "Thread_Push value =
     i_then CHECK_STACK
     (i_bind i_top (\<lambda>top.
      i_then (set_value_slot top value) (i_set_top (top + 1))))"

definition Thread_Pop :: "Value iop" where
  "Thread_Pop = i_bind i_top (\<lambda>top. i_then (i_set_top (top - 1)) (value_slot (top - 1)))"

definition Thread_ValueAt :: "u32 \<Rightarrow> Value iop" where
  "Thread_ValueAt at = i_bind i_top (\<lambda>top. if at < top then value_slot at else i_undef)"

definition PushRep :: "'a::len word \<Rightarrow> unit iop" where
  "PushRep value = Thread_Push (MakeValue value)"

definition PopRep :: "'a::len word iop" where
  "PopRep = i_bind Thread_Pop (\<lambda>v. i_return (GetValue v))"

text \<open>One iteration copies one value; the indices wrap as \<open>uint32_t\<close> does.\<close>

fun DropKeep_loop :: "u32 \<Rightarrow> u32 \<Rightarrow> nat \<Rightarrow> unit iop" where
  "DropKeep_loop drop_count i 0 = i_return ()"
| "DropKeep_loop drop_count i (Suc n) =
     i_bind (Thread_Pick (i + 1)) (\<lambda>v.
     i_then (Thread_set_Pick (drop_count + i + 1) v)
       (DropKeep_loop drop_count (i + 1) n))"

definition Thread_DropKeep :: "u32 \<Rightarrow> u32 \<Rightarrow> unit iop" where
  "Thread_DropKeep drop_count keep_count =
     i_then (DropKeep_loop drop_count 0 (unat keep_count))
       (i_bind i_top (\<lambda>top. i_set_top (top - drop_count)))"

definition Thread_PushCall :: "unit iop" where
  "Thread_PushCall s =
     (let t = st_thread s
      in if length (call_stack t) \<le> unat (call_stack_top t) then i_stop IR_TrapCallStackExhausted s
         else (IVal (), s\<lparr>st_thread := t\<lparr>
                 call_stack := (call_stack t)[unat (call_stack_top t) := of_nat (st_pc s)],
                 call_stack_top := call_stack_top t + 1\<rparr>\<rparr>))"

definition Thread_PopCall :: "u32 iop" where
  "Thread_PopCall s =
     (let t = st_thread s; top = call_stack_top t - 1
      in if unat top < length (call_stack t)
         then (IVal (call_stack t ! unat top), s\<lparr>st_thread := t\<lparr>call_stack_top := top\<rparr>\<rparr>)
         else (IUndef, s))"

section \<open>Memory\<close>

definition ReadMemory :: "nat iop" where
  "ReadMemory =
     i_bind ReadU32 (\<lambda>memory_index s.
       if unat memory_index < length (env_memories (st_env s))
       then (IVal (unat memory_index), s) else (IUndef, s))"

definition memory_at :: "nat \<Rightarrow> istate \<Rightarrow> Memory" where
  "memory_at m s = env_memories (st_env s) ! m"

definition set_memory :: "nat \<Rightarrow> Memory \<Rightarrow> unit iop" where
  "set_memory m x = i_env (\<lambda>e. e\<lparr>env_memories := (env_memories e)[m := x]\<rparr>)"

text \<open>The address is the sum of two 32-bit numbers in 64 bits; \<open>sz\<close> is \<open>sizeof(MemType)\<close>.\<close>

definition GetAccessAddress :: "nat \<Rightarrow> (nat \<times> u64) iop" where
  "GetAccessAddress sz =
     i_bind ReadMemory (\<lambda>m.
     i_bind PopRep (\<lambda>base :: u32.
     i_bind ReadU32 (\<lambda>offset.
       let addr = ucast base + ucast offset :: u64
       in (\<lambda>s. i_then
            (i_trap_if (length (memory_data (memory_at m s)) < unat (addr + of_nat sz))
               IR_TrapMemoryAccessOutOfBounds)
            (i_return (m, addr)) s))))"

definition GetAtomicAccessAddress :: "nat \<Rightarrow> (nat \<times> u64) iop" where
  "GetAtomicAccessAddress sz =
     i_bind ReadMemory (\<lambda>m.
     i_bind PopRep (\<lambda>base :: u32.
     i_bind ReadU32 (\<lambda>offset.
       let addr = ucast base + ucast offset :: u64
       in (\<lambda>s. i_then
            (i_trap_if (length (memory_data (memory_at m s)) < unat (addr + of_nat sz))
               IR_TrapMemoryAccessOutOfBounds)
            (i_then
              (i_trap_if (addr AND of_nat (sz - 1) \<noteq> 0) IR_TrapAtomicMemoryAccessUnaligned)
              (i_return (m, addr))) s))))"

text \<open>\<open>memcpy\<close> from and to the data of memory \<open>m\<close>, at an offset of type \<open>IstreamOffset\<close>.\<close>

definition LoadFromMemory :: "nat \<times> u64 \<Rightarrow> 'a::len word iop" where
  "LoadFromMemory src s =
     (let n = LENGTH('a) div 8; off = unat (ucast (snd src) :: u32);
          d = memory_data (memory_at (fst src) s)
      in if off + n \<le> length d then (IVal (le_word (take n (drop off d))), s) else (IUndef, s))"

definition bytes_store :: "nat \<Rightarrow> bytes \<Rightarrow> bytes \<Rightarrow> bytes" where
  "bytes_store off xs d = take off d @ xs @ drop (off + length xs) d"

definition StoreToMemory :: "nat \<times> u64 \<Rightarrow> 'a::len word \<Rightarrow> unit iop" where
  "StoreToMemory dst value s =
     (let n = LENGTH('a) div 8; off = unat (ucast (snd dst) :: u32);
          mem = memory_at (fst dst) s; d = memory_data mem
      in if off + n \<le> length d
         then set_memory (fst dst) (mem\<lparr>memory_data := bytes_store off (word_le value) d\<rparr>) s
         else (IUndef, s))"

text \<open>
  \<open>Load<MemType, ResultType>\<close>: \<open>conv\<close> is the conversion of a \<open>MemType\<close> to a \<open>ResultType\<close> through
  \<open>ExtendMemType\<close>, a sign or zero extension of its bits.
\<close>

definition Thread_Load :: "('m::len word \<Rightarrow> 'r::len word) \<Rightarrow> unit iop" where
  "Thread_Load conv =
     i_bind (GetAccessAddress (LENGTH('m) div 8)) (\<lambda>src.
     i_bind (LoadFromMemory src) (\<lambda>value. PushRep (conv value)))"

definition Thread_Store :: "('r::len word \<Rightarrow> 'm::len word) \<Rightarrow> unit iop" where
  "Thread_Store wrap =
     i_bind PopRep (\<lambda>value.
     i_bind (GetAccessAddress (LENGTH('m) div 8)) (\<lambda>dst. StoreToMemory dst (wrap value)))"

definition Thread_AtomicLoad :: "('m::len word \<Rightarrow> 'r::len word) \<Rightarrow> unit iop" where
  "Thread_AtomicLoad conv =
     i_bind (GetAtomicAccessAddress (LENGTH('m) div 8)) (\<lambda>src.
     i_bind (LoadFromMemory src) (\<lambda>value. PushRep (conv value)))"

definition Thread_AtomicStore :: "('r::len word \<Rightarrow> 'm::len word) \<Rightarrow> unit iop" where
  "Thread_AtomicStore wrap =
     i_bind PopRep (\<lambda>value.
     i_bind (GetAtomicAccessAddress (LENGTH('m) div 8)) (\<lambda>dst. StoreToMemory dst (wrap value)))"

text \<open>
  \<open>AtomicRmw<MemType, ResultType>\<close>: the operand is converted to \<open>MemType\<close> before, the result of
  \<open>func\<close> after the operation.
\<close>

definition Thread_AtomicRmw ::
  "'m::len itself \<Rightarrow> ('r::len word \<Rightarrow> 'r word \<Rightarrow> 'r word) \<Rightarrow> unit iop" where
  "Thread_AtomicRmw M func =
     i_bind PopRep (\<lambda>popped :: 'r word.
       let rhs = ucast popped :: 'm word
       in i_bind (GetAtomicAccessAddress (LENGTH('m) div 8)) (\<lambda>addr.
          i_bind (LoadFromMemory addr) (\<lambda>read :: 'm word.
          i_then (StoreToMemory addr (ucast (func (ucast read) (ucast rhs)) :: 'm word))
            (PushRep (ucast read :: 'r word)))))"

definition Thread_AtomicRmwCmpxchg :: "'m::len itself \<Rightarrow> 'r::len itself \<Rightarrow> unit iop" where
  "Thread_AtomicRmwCmpxchg M R =
     i_bind PopRep (\<lambda>popped_replace :: 'r word.
     i_bind PopRep (\<lambda>popped_expect :: 'r word.
       let replace = ucast popped_replace :: 'm word; expect = ucast popped_expect :: 'm word
       in i_bind (GetAtomicAccessAddress (LENGTH('m) div 8)) (\<lambda>addr.
          i_bind (LoadFromMemory addr) (\<lambda>read :: 'm word.
          i_then (if read = expect then StoreToMemory addr replace else i_return ())
            (PushRep (ucast read :: 'r word))))))"

text \<open>
  \<open>MemoryGrow\<close>. The page counts are \<open>uint32_t\<close>: their sum wraps. \<open>PUSH_NEG_1_AND_BREAK_IF\<close> pushes
  \<open>- 1\<close> and leaves the instruction.
\<close>

definition MemoryGrow_by :: "nat \<Rightarrow> Memory \<Rightarrow> u32 \<Rightarrow> unit iop" where
  "MemoryGrow_by m memory grow_pages =
     (let old_page_size = ucast (lim_initial (page_limits memory)) :: u32;
          new_page_size = old_page_size + grow_pages;
          max_page_size = (if lim_has_max (page_limits memory)
                           then ucast (lim_max (page_limits memory)) :: u32
                           else of_nat WABT_MAX_PAGES)
      in if new_page_size > max_page_size then PushRep (- 1 :: u32)
         else if (ucast new_page_size :: u64) * of_nat WABT_PAGE_SIZE > 0xffffffff
         then PushRep (- 1 :: u32)
         else i_then
           (set_memory m (memory\<lparr>
              page_limits := (page_limits memory)\<lparr>lim_initial := ucast new_page_size\<rparr>,
              memory_data := bytes_resize (unat (new_page_size * of_nat WABT_PAGE_SIZE))
                               (memory_data memory)\<rparr>))
           (PushRep old_page_size))"

definition Run_MemoryGrow :: "unit iop" where
  "Run_MemoryGrow = i_bind ReadMemory (\<lambda>m s. i_bind PopRep (MemoryGrow_by m (memory_at m s)) s)"

definition Run_MemorySize :: "unit iop" where
  "Run_MemorySize =
     i_bind ReadMemory (\<lambda>m s. PushRep (ucast (lim_initial (page_limits (memory_at m s))) :: u32) s)"

section \<open>Operators\<close>

definition Thread_Unop :: "('a::len word \<Rightarrow> 'r::len word) \<Rightarrow> unit iop" where
  "Thread_Unop func = i_bind PopRep (\<lambda>value. PushRep (func value))"

definition Thread_UnopTrap :: "('a::len word \<Rightarrow> 'r::len word num) \<Rightarrow> unit iop" where
  "Thread_UnopTrap func = i_bind PopRep (\<lambda>value. i_bind (i_num (func value)) PushRep)"

definition Thread_Binop :: "('a::len word \<Rightarrow> 'a word \<Rightarrow> 'r::len word) \<Rightarrow> unit iop" where
  "Thread_Binop func =
     i_bind PopRep (\<lambda>rhs_rep. i_bind PopRep (\<lambda>lhs_rep. PushRep (func lhs_rep rhs_rep)))"

definition Thread_BinopTrap :: "('a::len word \<Rightarrow> 'a word \<Rightarrow> 'r::len word num) \<Rightarrow> unit iop" where
  "Thread_BinopTrap func =
     i_bind PopRep (\<lambda>rhs_rep. i_bind PopRep (\<lambda>lhs_rep.
       i_bind (i_num (func lhs_rep rhs_rep)) PushRep))"

definition Thread_SimdUnop ::
  "('l::len word \<Rightarrow> 'p::len word) \<Rightarrow> ('p word \<Rightarrow> 'r::len word num) \<Rightarrow> unit iop" where
  "Thread_SimdUnop conv func =
     i_bind PopRep (\<lambda>value. i_bind (i_num (SimdUnop conv func value)) PushRep)"

definition Thread_SimdBinop ::
  "('l::len word \<Rightarrow> 'p::len word) \<Rightarrow> ('p word \<Rightarrow> 'p word \<Rightarrow> 'r::len word num) \<Rightarrow> unit iop" where
  "Thread_SimdBinop conv func =
     i_bind PopRep (\<lambda>rhs_rep. i_bind PopRep (\<lambda>lhs_rep.
       i_bind (i_num (SimdBinop conv func lhs_rep rhs_rep)) PushRep))"

section \<open>Host functions\<close>

text \<open>
  A callback gets the function, its signature, the arguments and the store (its \<open>user_data\<close> may
  refer to it), and gives a result, the typed values it left in \<open>out_results\<close>, and the store.
\<close>

type_synonym host_callback =
  "Func \<Rightarrow> FuncSignature \<Rightarrow> TypedValue list \<Rightarrow> Environment \<Rightarrow> interp_Result \<times> (nat \<Rightarrow> TypedValue) \<times> Environment"

fun CallHost_pop :: "wtype list \<Rightarrow> TypedValue list \<Rightarrow> TypedValue list iop" where
  "CallHost_pop [] params = i_return params"
| "CallHost_pop (t # ts) params =
     i_bind Thread_Pop (\<lambda>v. CallHost_pop ts (\<lparr>tv_type = t, tv_value = v\<rparr> # params))"

fun CallHost_push :: "wtype list \<Rightarrow> TypedValue list \<Rightarrow> unit iop" where
  "CallHost_push (t # ts) (r # rs) =
     i_then (i_trap_if (tv_type r \<noteq> t) IR_TrapHostResultTypeMismatch)
       (i_then (Thread_Push (tv_value r)) (CallHost_push ts rs))"
| "CallHost_push _ _ = i_return ()"

definition host_call ::
  "host_callback \<Rightarrow> Func \<Rightarrow> FuncSignature \<Rightarrow> TypedValue list \<Rightarrow> (interp_Result \<times> (nat \<Rightarrow> TypedValue)) iop" where
  "host_call cb func sig params s =
     (case cb func sig params (st_env s) of (r, results, e) \<Rightarrow> (IVal (r, results), s\<lparr>st_env := e\<rparr>))"

definition Thread_CallHost :: "host_callback \<Rightarrow> Func \<Rightarrow> unit iop" where
  "Thread_CallHost cb func s =
     (if unat (func_sig_index func) < length (env_sigs (st_env s)) then
        (let sig = env_sigs (st_env s) ! unat (func_sig_index func);
             num_results = length (sig_result_types sig)
         in i_bind (CallHost_pop (rev (sig_param_types sig)) []) (\<lambda>params.
            i_bind (host_call cb func sig params) (\<lambda>(call_result, results).
            i_then (i_trap_if (call_result \<noteq> IR_Ok) IR_TrapHostTrapped)
              (CallHost_push (sig_result_types sig) (map results [0..<num_results])))) s)
      else (IUndef, s))"

text \<open>The caller that drops the result of \<open>CallHost\<close> goes on whatever it was.\<close>

definition i_ignore_result :: "unit iop \<Rightarrow> unit iop" where
  "i_ignore_result f s =
     (case f s of (IStop r, s1) \<Rightarrow> (IVal (), s1) | r \<Rightarrow> r)"

end
