(* ===== verification/InterpRun.thy ===== *)
theory InterpRun
  imports InterpMachine
begin

text \<open>
  The interpreter loop: \<open>Thread::Run\<close> of \<^verbatim>\<open>src/interp.cc\<close>. Each table below is a stretch of its
  \<open>switch\<close>, one entry for each \<open>case\<close>, in the order of the code; the template arguments of the
  code are the type annotations. \<open>nan\<close> is the payload of the host's NaN results, \<open>cb\<close> the
  callbacks of host functions. The executor that runs a function to its end follows.
\<close>

section \<open>Control instructions\<close>

definition num_ok1 :: "('a \<Rightarrow> 'b) \<Rightarrow> 'a \<Rightarrow> 'b num" where "num_ok1 f x = NumOk (f x)"
definition num_ok2 :: "('a \<Rightarrow> 'a \<Rightarrow> 'b) \<Rightarrow> 'a \<Rightarrow> 'a \<Rightarrow> 'b num" where "num_ok2 f x y = NumOk (f x y)"

definition Run_Select :: "unit iop" where
  "Run_Select =
     i_bind PopRep (\<lambda>cond :: u32.
     i_bind Thread_Pop (\<lambda>false_value.
     i_bind Thread_Pop (\<lambda>true_value.
     Thread_Push (if cond \<noteq> 0 then true_value else false_value))))"

definition Run_Br :: "unit iop" where
  "Run_Br = i_bind ReadU32 GOTO"

definition Run_BrIf :: "unit iop" where
  "Run_BrIf =
     i_bind ReadU32 (\<lambda>new_pc.
     i_bind PopRep (\<lambda>cond :: u32. if cond \<noteq> 0 then GOTO new_pc else i_return ()))"

definition Run_InterpBrUnless :: "unit iop" where
  "Run_InterpBrUnless =
     i_bind ReadU32 (\<lambda>new_pc.
     i_bind PopRep (\<lambda>cond :: u32. if cond = 0 then GOTO new_pc else i_return ()))"

definition Run_BrTable :: "unit iop" where
  "Run_BrTable =
     i_bind ReadU32 (\<lambda>num_targets.
     i_bind ReadU32 (\<lambda>table_offset.
     i_bind PopRep (\<lambda>key :: u32.
       let key_offset = (if key \<ge> num_targets then num_targets else key) * WABT_TABLE_ENTRY_SIZE
       in i_bind (read_table_entry_at (unat table_offset + unat key_offset))
            (\<lambda>(new_pc, drop_count, keep_count).
              i_then (Thread_DropKeep drop_count keep_count) (GOTO new_pc)))))"

definition Run_GetGlobal :: "unit iop" where
  "Run_GetGlobal =
     i_bind ReadU32 (\<lambda>index s.
       if unat index < length (env_globals (st_env s))
       then Thread_Push (tv_value (global_typed_value (env_globals (st_env s) ! unat index))) s
       else (IUndef, s))"

definition Run_SetGlobal :: "unit iop" where
  "Run_SetGlobal =
     i_bind ReadU32 (\<lambda>index s.
       if unat index < length (env_globals (st_env s))
       then i_bind Thread_Pop (\<lambda>v. i_env (\<lambda>e.
              let g = env_globals e ! unat index
              in e\<lparr>env_globals := (env_globals e)[unat index :=
                    g\<lparr>global_typed_value := (global_typed_value g)\<lparr>tv_value := v\<rparr>\<rparr>]\<rparr>)) s
       else (IUndef, s))"

definition Run_GetLocal :: "unit iop" where
  "Run_GetLocal = i_bind ReadU32 (\<lambda>depth. i_bind (Thread_Pick depth) Thread_Push)"

definition Run_SetLocal :: "unit iop" where
  "Run_SetLocal = i_bind Thread_Pop (\<lambda>value. i_bind ReadU32 (\<lambda>depth. Thread_set_Pick depth value))"

definition Run_TeeLocal :: "unit iop" where
  "Run_TeeLocal = i_bind ReadU32 (\<lambda>depth. i_bind Thread_Top (\<lambda>v. Thread_set_Pick depth v))"

definition Run_Call :: "unit iop" where
  "Run_Call = i_bind ReadU32 (\<lambda>offset. i_then Thread_PushCall (GOTO offset))"

text \<open>
  The result of \<open>CallHost\<close> is not checked in either instruction. \<open>cast<HostFunc>\<close> asserts that the
  function is a host function.
\<close>

definition CallIndirect_func :: "host_callback \<Rightarrow> Index \<Rightarrow> Index \<Rightarrow> unit iop" where
  "CallIndirect_func cb sig_index func_index s =
     (if length (env_funcs (st_env s)) \<le> unat func_index then (IUndef, s)
      else let func = env_funcs (st_env s) ! unat func_index in
        case FuncSignaturesAreEqual (st_env s) (func_sig_index func) sig_index of
          None \<Rightarrow> (IUndef, s)
        | Some same \<Rightarrow>
            i_then (i_trap_if (\<not> same) IR_TrapIndirectCallSignatureMismatch)
            (if is_host func then i_ignore_result (Thread_CallHost cb func)
             else i_then Thread_PushCall (GOTO (func_offset func))) s)"

definition CallIndirect_entry :: "host_callback \<Rightarrow> Table \<Rightarrow> unit iop" where
  "CallIndirect_entry cb table =
     i_bind ReadU32 (\<lambda>sig_index.
     i_bind PopRep (\<lambda>entry_index :: u32.
     i_then (i_trap_if (length (func_indexes table) \<le> unat entry_index) IR_TrapUndefinedTableIndex)
     (let func_index = func_indexes table ! unat entry_index in
      i_then (i_trap_if (func_index = kInvalidIndex) IR_TrapUninitializedTableElement)
        (CallIndirect_func cb sig_index func_index))))"

definition Run_CallIndirect :: "host_callback \<Rightarrow> unit iop" where
  "Run_CallIndirect cb =
     i_bind ReadU32 (\<lambda>table_index s.
       if unat table_index < length (env_tables (st_env s))
       then CallIndirect_entry cb (env_tables (st_env s) ! unat table_index) s
       else (IUndef, s))"

definition Run_InterpCallHost :: "host_callback \<Rightarrow> unit iop" where
  "Run_InterpCallHost cb =
     i_bind ReadU32 (\<lambda>func_index s.
       if unat func_index < length (env_funcs (st_env s)) \<and> is_host (env_funcs (st_env s) ! unat func_index)
       then i_ignore_result (Thread_CallHost cb (env_funcs (st_env s) ! unat func_index)) s
       else (IUndef, s))"

text \<open>
  \<open>value_stack_top_\<close> is 32 bits wide: the sum wraps. The \<open>memset\<close> runs over the vector where it is
  longer than the rest of the stack.
\<close>

definition Run_InterpAlloca :: "unit iop" where
  "Run_InterpAlloca =
     i_bind i_top (\<lambda>old_value_stack_top.
     i_bind ReadU32 (\<lambda>count.
     i_then (i_set_top (old_value_stack_top + count))
     (i_then CHECK_STACK
     (\<lambda>s. if unat old_value_stack_top + unat count \<le> length (value_stack (st_thread s))
       then i_thread (\<lambda>t. t\<lparr>value_stack :=
              take (unat old_value_stack_top) (value_stack t) @ replicate (unat count) 0 @
              drop (unat old_value_stack_top + unat count) (value_stack t)\<rparr>) s
       else (IUndef, s)))))"

definition Run_InterpDropKeep :: "unit iop" where
  "Run_InterpDropKeep =
     i_bind ReadU32 (\<lambda>drop_count. i_bind ReadU32 (\<lambda>keep_count. Thread_DropKeep drop_count keep_count))"

text \<open>\<open>Return\<close> leaves the loop when the call stack is empty.\<close>

datatype run_flow = Run_continue | Run_exit_loop

definition Run_Return :: "run_flow iop" where
  "Run_Return s =
     (if call_stack_top (st_thread s) = 0 then (IVal Run_exit_loop, s)
      else i_then (i_bind Thread_PopCall GOTO) (i_return Run_continue) s)"

section \<open>Vector instructions\<close>

definition Run_ExtractLane :: "('l::len word \<Rightarrow> 'r::len word) \<Rightarrow> unit iop" where
  "Run_ExtractLane conv =
     i_bind PopRep (\<lambda>lane_val :: v128.
     i_bind ReadU8 (\<lambda>lane_idx.
     i_bind (i_num (SimdExtractLane conv lane_val (unat lane_idx))) PushRep))"

definition Run_ReplaceLane :: "('p::len word \<Rightarrow> 'l::len word) \<Rightarrow> unit iop" where
  "Run_ReplaceLane conv =
     i_bind PopRep (\<lambda>lane_val :: 'p word.
     i_bind PopRep (\<lambda>value :: v128.
     i_bind ReadU8 (\<lambda>lane_idx.
     i_bind (i_num (SimdReplaceLane value (unat lane_idx) (conv lane_val))) PushRep)))"

definition Run_V8X16Shuffle :: "unit iop" where
  "Run_V8X16Shuffle =
     i_bind PopRep (\<lambda>v2 :: v128.
     i_bind PopRep (\<lambda>v1 :: v128.
     i_bind ReadV128 (\<lambda>shuffle_imm.
     i_bind (i_num (V8X16Shuffle v1 v2 shuffle_imm)) PushRep)))"

definition Run_SimdShift :: "'l::len itself \<Rightarrow> u32 \<Rightarrow> unit iop \<Rightarrow> unit iop" where
  "Run_SimdShift L width binop =
     i_bind PopRep (\<lambda>shift_count :: u32.
     i_then (PushRep (SimdSplat (ucast (shift_count mod width) :: 'l word))) binop)"

definition Run_V128BitSelect :: "unit iop" where
  "Run_V128BitSelect =
     i_bind PopRep (\<lambda>c_mask :: v128.
     i_bind PopRep (\<lambda>v2 :: v128.
     i_bind PopRep (\<lambda>v1 :: v128.
     i_then (PushRep v1)
     (i_then (PushRep c_mask)
     (i_then (Thread_SimdBinop (ucast :: u64 \<Rightarrow> u64) (num_ok2 (IntAnd :: u64 \<Rightarrow> u64 \<Rightarrow> u64)))
     (i_then (PushRep v2)
     (i_then (PushRep c_mask)
     (i_then (Thread_SimdUnop (ucast :: u64 \<Rightarrow> u64) (num_ok1 (IntNot :: u64 \<Rightarrow> u64)))
     (i_then (Thread_SimdBinop (ucast :: u64 \<Rightarrow> u64) (num_ok2 (IntAnd :: u64 \<Rightarrow> u64 \<Rightarrow> u64)))
     (Thread_SimdBinop (ucast :: u64 \<Rightarrow> u64) (num_ok2 (IntOr :: u64 \<Rightarrow> u64 \<Rightarrow> u64))))))))))))"

section \<open>The switch\<close>

definition Run_control :: "host_callback \<Rightarrow> (string \<times> unit iop) list" where
  "Run_control cb = [
    (''Select'', Run_Select),
    (''Br'', Run_Br),
    (''BrIf'', Run_BrIf),
    (''BrTable'', Run_BrTable),
    (''Unreachable'', i_stop IR_TrapUnreachable),
    (''I32Const'', i_bind ReadU32 PushRep),
    (''I64Const'', i_bind ReadU64 PushRep),
    (''F32Const'', i_bind ReadU32 PushRep),
    (''F64Const'', i_bind ReadU64 PushRep),
    (''GetGlobal'', Run_GetGlobal),
    (''SetGlobal'', Run_SetGlobal),
    (''GetLocal'', Run_GetLocal),
    (''SetLocal'', Run_SetLocal),
    (''TeeLocal'', Run_TeeLocal),
    (''Call'', Run_Call),
    (''CallIndirect'', Run_CallIndirect cb),
    (''InterpCallHost'', Run_InterpCallHost cb)]"

definition Run_load_store :: "(string \<times> unit iop) list" where
  "Run_load_store = [
    (''I32Load8S'', Thread_Load (scast :: u8 \<Rightarrow> u32)),
    (''I32Load8U'', Thread_Load (ucast :: u8 \<Rightarrow> u32)),
    (''I32Load16S'', Thread_Load (scast :: u16 \<Rightarrow> u32)),
    (''I32Load16U'', Thread_Load (ucast :: u16 \<Rightarrow> u32)),
    (''I64Load8S'', Thread_Load (scast :: u8 \<Rightarrow> u64)),
    (''I64Load8U'', Thread_Load (ucast :: u8 \<Rightarrow> u64)),
    (''I64Load16S'', Thread_Load (scast :: u16 \<Rightarrow> u64)),
    (''I64Load16U'', Thread_Load (ucast :: u16 \<Rightarrow> u64)),
    (''I64Load32S'', Thread_Load (scast :: u32 \<Rightarrow> u64)),
    (''I64Load32U'', Thread_Load (ucast :: u32 \<Rightarrow> u64)),
    (''I32Load'', Thread_Load (ucast :: u32 \<Rightarrow> u32)),
    (''I64Load'', Thread_Load (ucast :: u64 \<Rightarrow> u64)),
    (''F32Load'', Thread_Load (ucast :: u32 \<Rightarrow> u32)),
    (''F64Load'', Thread_Load (ucast :: u64 \<Rightarrow> u64)),
    (''I32Store8'', Thread_Store (ucast :: u32 \<Rightarrow> u8)),
    (''I32Store16'', Thread_Store (ucast :: u32 \<Rightarrow> u16)),
    (''I64Store8'', Thread_Store (ucast :: u64 \<Rightarrow> u8)),
    (''I64Store16'', Thread_Store (ucast :: u64 \<Rightarrow> u16)),
    (''I64Store32'', Thread_Store (ucast :: u64 \<Rightarrow> u32)),
    (''I32Store'', Thread_Store (ucast :: u32 \<Rightarrow> u32)),
    (''I64Store'', Thread_Store (ucast :: u64 \<Rightarrow> u64)),
    (''F32Store'', Thread_Store (ucast :: u32 \<Rightarrow> u32)),
    (''F64Store'', Thread_Store (ucast :: u64 \<Rightarrow> u64))]"

definition Run_atomic_access :: "(string \<times> unit iop) list" where
  "Run_atomic_access = [
    (''I32AtomicLoad8U'', Thread_AtomicLoad (ucast :: u8 \<Rightarrow> u32)),
    (''I32AtomicLoad16U'', Thread_AtomicLoad (ucast :: u16 \<Rightarrow> u32)),
    (''I64AtomicLoad8U'', Thread_AtomicLoad (ucast :: u8 \<Rightarrow> u64)),
    (''I64AtomicLoad16U'', Thread_AtomicLoad (ucast :: u16 \<Rightarrow> u64)),
    (''I64AtomicLoad32U'', Thread_AtomicLoad (ucast :: u32 \<Rightarrow> u64)),
    (''I32AtomicLoad'', Thread_AtomicLoad (ucast :: u32 \<Rightarrow> u32)),
    (''I64AtomicLoad'', Thread_AtomicLoad (ucast :: u64 \<Rightarrow> u64)),
    (''I32AtomicStore8'', Thread_AtomicStore (ucast :: u32 \<Rightarrow> u8)),
    (''I32AtomicStore16'', Thread_AtomicStore (ucast :: u32 \<Rightarrow> u16)),
    (''I64AtomicStore8'', Thread_AtomicStore (ucast :: u64 \<Rightarrow> u8)),
    (''I64AtomicStore16'', Thread_AtomicStore (ucast :: u64 \<Rightarrow> u16)),
    (''I64AtomicStore32'', Thread_AtomicStore (ucast :: u64 \<Rightarrow> u32)),
    (''I32AtomicStore'', Thread_AtomicStore (ucast :: u32 \<Rightarrow> u32)),
    (''I64AtomicStore'', Thread_AtomicStore (ucast :: u64 \<Rightarrow> u64))]"

definition Run_atomic_rmw :: "(string \<times> unit iop) list" where
  "Run_atomic_rmw = [
    (''I32AtomicRmwAdd'', Thread_AtomicRmw TYPE(32) (Add :: u32 \<Rightarrow> u32 \<Rightarrow> u32)),
    (''I64AtomicRmwAdd'', Thread_AtomicRmw TYPE(64) (Add :: u64 \<Rightarrow> u64 \<Rightarrow> u64)),
    (''I32AtomicRmw8UAdd'', Thread_AtomicRmw TYPE(8) (Add :: u32 \<Rightarrow> u32 \<Rightarrow> u32)),
    (''I32AtomicRmw16UAdd'', Thread_AtomicRmw TYPE(16) (Add :: u32 \<Rightarrow> u32 \<Rightarrow> u32)),
    (''I64AtomicRmw8UAdd'', Thread_AtomicRmw TYPE(8) (Add :: u64 \<Rightarrow> u64 \<Rightarrow> u64)),
    (''I64AtomicRmw16UAdd'', Thread_AtomicRmw TYPE(16) (Add :: u64 \<Rightarrow> u64 \<Rightarrow> u64)),
    (''I64AtomicRmw32UAdd'', Thread_AtomicRmw TYPE(32) (Add :: u64 \<Rightarrow> u64 \<Rightarrow> u64)),
    (''I32AtomicRmwSub'', Thread_AtomicRmw TYPE(32) (Sub :: u32 \<Rightarrow> u32 \<Rightarrow> u32)),
    (''I64AtomicRmwSub'', Thread_AtomicRmw TYPE(64) (Sub :: u64 \<Rightarrow> u64 \<Rightarrow> u64)),
    (''I32AtomicRmw8USub'', Thread_AtomicRmw TYPE(8) (Sub :: u32 \<Rightarrow> u32 \<Rightarrow> u32)),
    (''I32AtomicRmw16USub'', Thread_AtomicRmw TYPE(16) (Sub :: u32 \<Rightarrow> u32 \<Rightarrow> u32)),
    (''I64AtomicRmw8USub'', Thread_AtomicRmw TYPE(8) (Sub :: u64 \<Rightarrow> u64 \<Rightarrow> u64)),
    (''I64AtomicRmw16USub'', Thread_AtomicRmw TYPE(16) (Sub :: u64 \<Rightarrow> u64 \<Rightarrow> u64)),
    (''I64AtomicRmw32USub'', Thread_AtomicRmw TYPE(32) (Sub :: u64 \<Rightarrow> u64 \<Rightarrow> u64)),
    (''I32AtomicRmwAnd'', Thread_AtomicRmw TYPE(32) (IntAnd :: u32 \<Rightarrow> u32 \<Rightarrow> u32)),
    (''I64AtomicRmwAnd'', Thread_AtomicRmw TYPE(64) (IntAnd :: u64 \<Rightarrow> u64 \<Rightarrow> u64)),
    (''I32AtomicRmw8UAnd'', Thread_AtomicRmw TYPE(8) (IntAnd :: u32 \<Rightarrow> u32 \<Rightarrow> u32)),
    (''I32AtomicRmw16UAnd'', Thread_AtomicRmw TYPE(16) (IntAnd :: u32 \<Rightarrow> u32 \<Rightarrow> u32)),
    (''I64AtomicRmw8UAnd'', Thread_AtomicRmw TYPE(8) (IntAnd :: u64 \<Rightarrow> u64 \<Rightarrow> u64)),
    (''I64AtomicRmw16UAnd'', Thread_AtomicRmw TYPE(16) (IntAnd :: u64 \<Rightarrow> u64 \<Rightarrow> u64)),
    (''I64AtomicRmw32UAnd'', Thread_AtomicRmw TYPE(32) (IntAnd :: u64 \<Rightarrow> u64 \<Rightarrow> u64)),
    (''I32AtomicRmwOr'', Thread_AtomicRmw TYPE(32) (IntOr :: u32 \<Rightarrow> u32 \<Rightarrow> u32)),
    (''I64AtomicRmwOr'', Thread_AtomicRmw TYPE(64) (IntOr :: u64 \<Rightarrow> u64 \<Rightarrow> u64)),
    (''I32AtomicRmw8UOr'', Thread_AtomicRmw TYPE(8) (IntOr :: u32 \<Rightarrow> u32 \<Rightarrow> u32)),
    (''I32AtomicRmw16UOr'', Thread_AtomicRmw TYPE(16) (IntOr :: u32 \<Rightarrow> u32 \<Rightarrow> u32)),
    (''I64AtomicRmw8UOr'', Thread_AtomicRmw TYPE(8) (IntOr :: u64 \<Rightarrow> u64 \<Rightarrow> u64)),
    (''I64AtomicRmw16UOr'', Thread_AtomicRmw TYPE(16) (IntOr :: u64 \<Rightarrow> u64 \<Rightarrow> u64)),
    (''I64AtomicRmw32UOr'', Thread_AtomicRmw TYPE(32) (IntOr :: u64 \<Rightarrow> u64 \<Rightarrow> u64)),
    (''I32AtomicRmwXor'', Thread_AtomicRmw TYPE(32) (IntXor :: u32 \<Rightarrow> u32 \<Rightarrow> u32)),
    (''I64AtomicRmwXor'', Thread_AtomicRmw TYPE(64) (IntXor :: u64 \<Rightarrow> u64 \<Rightarrow> u64)),
    (''I32AtomicRmw8UXor'', Thread_AtomicRmw TYPE(8) (IntXor :: u32 \<Rightarrow> u32 \<Rightarrow> u32)),
    (''I32AtomicRmw16UXor'', Thread_AtomicRmw TYPE(16) (IntXor :: u32 \<Rightarrow> u32 \<Rightarrow> u32)),
    (''I64AtomicRmw8UXor'', Thread_AtomicRmw TYPE(8) (IntXor :: u64 \<Rightarrow> u64 \<Rightarrow> u64)),
    (''I64AtomicRmw16UXor'', Thread_AtomicRmw TYPE(16) (IntXor :: u64 \<Rightarrow> u64 \<Rightarrow> u64)),
    (''I64AtomicRmw32UXor'', Thread_AtomicRmw TYPE(32) (IntXor :: u64 \<Rightarrow> u64 \<Rightarrow> u64)),
    (''I32AtomicRmwXchg'', Thread_AtomicRmw TYPE(32) (Xchg :: u32 \<Rightarrow> u32 \<Rightarrow> u32)),
    (''I64AtomicRmwXchg'', Thread_AtomicRmw TYPE(64) (Xchg :: u64 \<Rightarrow> u64 \<Rightarrow> u64)),
    (''I32AtomicRmw8UXchg'', Thread_AtomicRmw TYPE(8) (Xchg :: u32 \<Rightarrow> u32 \<Rightarrow> u32)),
    (''I32AtomicRmw16UXchg'', Thread_AtomicRmw TYPE(16) (Xchg :: u32 \<Rightarrow> u32 \<Rightarrow> u32)),
    (''I64AtomicRmw8UXchg'', Thread_AtomicRmw TYPE(8) (Xchg :: u64 \<Rightarrow> u64 \<Rightarrow> u64)),
    (''I64AtomicRmw16UXchg'', Thread_AtomicRmw TYPE(16) (Xchg :: u64 \<Rightarrow> u64 \<Rightarrow> u64)),
    (''I64AtomicRmw32UXchg'', Thread_AtomicRmw TYPE(32) (Xchg :: u64 \<Rightarrow> u64 \<Rightarrow> u64))]"

definition Run_atomic_cmpxchg :: "(string \<times> unit iop) list" where
  "Run_atomic_cmpxchg = [
    (''I32AtomicRmwCmpxchg'', Thread_AtomicRmwCmpxchg TYPE(32) TYPE(32)),
    (''I64AtomicRmwCmpxchg'', Thread_AtomicRmwCmpxchg TYPE(64) TYPE(64)),
    (''I32AtomicRmw8UCmpxchg'', Thread_AtomicRmwCmpxchg TYPE(8) TYPE(32)),
    (''I32AtomicRmw16UCmpxchg'', Thread_AtomicRmwCmpxchg TYPE(16) TYPE(32)),
    (''I64AtomicRmw8UCmpxchg'', Thread_AtomicRmwCmpxchg TYPE(8) TYPE(64)),
    (''I64AtomicRmw16UCmpxchg'', Thread_AtomicRmwCmpxchg TYPE(16) TYPE(64)),
    (''I64AtomicRmw32UCmpxchg'', Thread_AtomicRmwCmpxchg TYPE(32) TYPE(64)),
    (''MemorySize'', Run_MemorySize),
    (''MemoryGrow'', Run_MemoryGrow)]"

definition Run_i32 :: "(string \<times> unit iop) list" where
  "Run_i32 = [
    (''I32Add'', Thread_Binop (Add :: u32 \<Rightarrow> u32 \<Rightarrow> u32)),
    (''I32Sub'', Thread_Binop (Sub :: u32 \<Rightarrow> u32 \<Rightarrow> u32)),
    (''I32Mul'', Thread_Binop (Mul :: u32 \<Rightarrow> u32 \<Rightarrow> u32)),
    (''I32DivS'', Thread_BinopTrap (IntDivS :: u32 \<Rightarrow> u32 \<Rightarrow> u32 num)),
    (''I32DivU'', Thread_BinopTrap (IntDivU :: u32 \<Rightarrow> u32 \<Rightarrow> u32 num)),
    (''I32RemS'', Thread_BinopTrap (IntRemS :: u32 \<Rightarrow> u32 \<Rightarrow> u32 num)),
    (''I32RemU'', Thread_BinopTrap (IntRemU :: u32 \<Rightarrow> u32 \<Rightarrow> u32 num)),
    (''I32And'', Thread_Binop (IntAnd :: u32 \<Rightarrow> u32 \<Rightarrow> u32)),
    (''I32Or'', Thread_Binop (IntOr :: u32 \<Rightarrow> u32 \<Rightarrow> u32)),
    (''I32Xor'', Thread_Binop (IntXor :: u32 \<Rightarrow> u32 \<Rightarrow> u32)),
    (''I32Shl'', Thread_Binop (IntShl :: u32 \<Rightarrow> u32 \<Rightarrow> u32)),
    (''I32ShrU'', Thread_Binop (IntShr False :: u32 \<Rightarrow> u32 \<Rightarrow> u32)),
    (''I32ShrS'', Thread_Binop (IntShr True :: u32 \<Rightarrow> u32 \<Rightarrow> u32)),
    (''I32Eq'', Thread_Binop (Eq_int :: u32 \<Rightarrow> u32 \<Rightarrow> u32)),
    (''I32Ne'', Thread_Binop (Ne_int :: u32 \<Rightarrow> u32 \<Rightarrow> u32)),
    (''I32LtS'', Thread_Binop (Lt_int True :: u32 \<Rightarrow> u32 \<Rightarrow> u32)),
    (''I32LeS'', Thread_Binop (Le_int True :: u32 \<Rightarrow> u32 \<Rightarrow> u32)),
    (''I32LtU'', Thread_Binop (Lt_int False :: u32 \<Rightarrow> u32 \<Rightarrow> u32)),
    (''I32LeU'', Thread_Binop (Le_int False :: u32 \<Rightarrow> u32 \<Rightarrow> u32)),
    (''I32GtS'', Thread_Binop (Gt_int True :: u32 \<Rightarrow> u32 \<Rightarrow> u32)),
    (''I32GeS'', Thread_Binop (Ge_int True :: u32 \<Rightarrow> u32 \<Rightarrow> u32)),
    (''I32GtU'', Thread_Binop (Gt_int False :: u32 \<Rightarrow> u32 \<Rightarrow> u32)),
    (''I32GeU'', Thread_Binop (Ge_int False :: u32 \<Rightarrow> u32 \<Rightarrow> u32)),
    (''I32Clz'', Thread_Unop (\<lambda>x :: u32. of_nat (Int_Clz x) :: u32)),
    (''I32Ctz'', Thread_Unop (\<lambda>x :: u32. of_nat (Int_Ctz x) :: u32)),
    (''I32Popcnt'', Thread_Unop (\<lambda>x :: u32. of_nat (Int_Popcount x) :: u32)),
    (''I32Eqz'', Thread_Unop (IntEqz :: u32 \<Rightarrow> u32))]"

definition Run_i64 :: "(string \<times> unit iop) list" where
  "Run_i64 = [
    (''I64Add'', Thread_Binop (Add :: u64 \<Rightarrow> u64 \<Rightarrow> u64)),
    (''I64Sub'', Thread_Binop (Sub :: u64 \<Rightarrow> u64 \<Rightarrow> u64)),
    (''I64Mul'', Thread_Binop (Mul :: u64 \<Rightarrow> u64 \<Rightarrow> u64)),
    (''I64DivS'', Thread_BinopTrap (IntDivS :: u64 \<Rightarrow> u64 \<Rightarrow> u64 num)),
    (''I64DivU'', Thread_BinopTrap (IntDivU :: u64 \<Rightarrow> u64 \<Rightarrow> u64 num)),
    (''I64RemS'', Thread_BinopTrap (IntRemS :: u64 \<Rightarrow> u64 \<Rightarrow> u64 num)),
    (''I64RemU'', Thread_BinopTrap (IntRemU :: u64 \<Rightarrow> u64 \<Rightarrow> u64 num)),
    (''I64And'', Thread_Binop (IntAnd :: u64 \<Rightarrow> u64 \<Rightarrow> u64)),
    (''I64Or'', Thread_Binop (IntOr :: u64 \<Rightarrow> u64 \<Rightarrow> u64)),
    (''I64Xor'', Thread_Binop (IntXor :: u64 \<Rightarrow> u64 \<Rightarrow> u64)),
    (''I64Shl'', Thread_Binop (IntShl :: u64 \<Rightarrow> u64 \<Rightarrow> u64)),
    (''I64ShrU'', Thread_Binop (IntShr False :: u64 \<Rightarrow> u64 \<Rightarrow> u64)),
    (''I64ShrS'', Thread_Binop (IntShr True :: u64 \<Rightarrow> u64 \<Rightarrow> u64)),
    (''I64Eq'', Thread_Binop (Eq_int :: u64 \<Rightarrow> u64 \<Rightarrow> u32)),
    (''I64Ne'', Thread_Binop (Ne_int :: u64 \<Rightarrow> u64 \<Rightarrow> u32)),
    (''I64LtS'', Thread_Binop (Lt_int True :: u64 \<Rightarrow> u64 \<Rightarrow> u32)),
    (''I64LeS'', Thread_Binop (Le_int True :: u64 \<Rightarrow> u64 \<Rightarrow> u32)),
    (''I64LtU'', Thread_Binop (Lt_int False :: u64 \<Rightarrow> u64 \<Rightarrow> u32)),
    (''I64LeU'', Thread_Binop (Le_int False :: u64 \<Rightarrow> u64 \<Rightarrow> u32)),
    (''I64GtS'', Thread_Binop (Gt_int True :: u64 \<Rightarrow> u64 \<Rightarrow> u32)),
    (''I64GeS'', Thread_Binop (Ge_int True :: u64 \<Rightarrow> u64 \<Rightarrow> u32)),
    (''I64GtU'', Thread_Binop (Gt_int False :: u64 \<Rightarrow> u64 \<Rightarrow> u32)),
    (''I64GeU'', Thread_Binop (Ge_int False :: u64 \<Rightarrow> u64 \<Rightarrow> u32)),
    (''I64Clz'', Thread_Unop (\<lambda>x :: u64. of_nat (Int_Clz x) :: u64)),
    (''I64Ctz'', Thread_Unop (\<lambda>x :: u64. of_nat (Int_Ctz x) :: u64)),
    (''I64Popcnt'', Thread_Unop (\<lambda>x :: u64. of_nat (Int_Popcount x) :: u64))]"

definition Run_f32 :: "host_nan \<Rightarrow> (string \<times> unit iop) list" where
  "Run_f32 nan = [
    (''F32Add'', Thread_Binop (Add_float nan FloatTraits_float)),
    (''F32Sub'', Thread_Binop (Sub_float nan FloatTraits_float)),
    (''F32Mul'', Thread_Binop (Mul_float nan FloatTraits_float)),
    (''F32Div'', Thread_Binop (FloatDiv nan FloatTraits_float)),
    (''F32Min'', Thread_Binop (FloatMin FloatTraits_float)),
    (''F32Max'', Thread_Binop (FloatMax FloatTraits_float)),
    (''F32Abs'', Thread_Unop (FloatAbs FloatTraits_float)),
    (''F32Neg'', Thread_Unop (FloatNeg FloatTraits_float)),
    (''F32Copysign'', Thread_Binop (FloatCopySign FloatTraits_float)),
    (''F32Ceil'', Thread_Unop (FloatCeil nan FloatTraits_float)),
    (''F32Floor'', Thread_Unop (FloatFloor nan FloatTraits_float)),
    (''F32Trunc'', Thread_Unop (FloatTrunc nan FloatTraits_float)),
    (''F32Nearest'', Thread_Unop (FloatNearest nan FloatTraits_float)),
    (''F32Sqrt'', Thread_Unop (FloatSqrt nan FloatTraits_float)),
    (''F32Eq'', Thread_Binop (Eq_float FloatTraits_float)),
    (''F32Ne'', Thread_Binop (Ne_float FloatTraits_float)),
    (''F32Lt'', Thread_Binop (Lt_float FloatTraits_float)),
    (''F32Le'', Thread_Binop (Le_float FloatTraits_float)),
    (''F32Gt'', Thread_Binop (Gt_float FloatTraits_float)),
    (''F32Ge'', Thread_Binop (Ge_float FloatTraits_float))]"

definition Run_f64 :: "host_nan \<Rightarrow> (string \<times> unit iop) list" where
  "Run_f64 nan = [
    (''F64Add'', Thread_Binop (Add_float nan FloatTraits_double)),
    (''F64Sub'', Thread_Binop (Sub_float nan FloatTraits_double)),
    (''F64Mul'', Thread_Binop (Mul_float nan FloatTraits_double)),
    (''F64Div'', Thread_Binop (FloatDiv nan FloatTraits_double)),
    (''F64Min'', Thread_Binop (FloatMin FloatTraits_double)),
    (''F64Max'', Thread_Binop (FloatMax FloatTraits_double)),
    (''F64Abs'', Thread_Unop (FloatAbs FloatTraits_double)),
    (''F64Neg'', Thread_Unop (FloatNeg FloatTraits_double)),
    (''F64Copysign'', Thread_Binop (FloatCopySign FloatTraits_double)),
    (''F64Ceil'', Thread_Unop (FloatCeil nan FloatTraits_double)),
    (''F64Floor'', Thread_Unop (FloatFloor nan FloatTraits_double)),
    (''F64Trunc'', Thread_Unop (FloatTrunc nan FloatTraits_double)),
    (''F64Nearest'', Thread_Unop (FloatNearest nan FloatTraits_double)),
    (''F64Sqrt'', Thread_Unop (FloatSqrt nan FloatTraits_double)),
    (''F64Eq'', Thread_Binop (Eq_float FloatTraits_double)),
    (''F64Ne'', Thread_Binop (Ne_float FloatTraits_double)),
    (''F64Lt'', Thread_Binop (Lt_float FloatTraits_double)),
    (''F64Le'', Thread_Binop (Le_float FloatTraits_double)),
    (''F64Gt'', Thread_Binop (Gt_float FloatTraits_double)),
    (''F64Ge'', Thread_Binop (Ge_float FloatTraits_double))]"

definition Run_trunc :: "(string \<times> unit iop) list" where
  "Run_trunc = [
    (''I32TruncSF32'', Thread_UnopTrap (IntTrunc True FloatTraits_float IsConversionInRange_int32_float :: u32 \<Rightarrow> u32 num)),
    (''I32TruncSSatF32'', Thread_UnopTrap (IntTruncSat True FloatTraits_float IsConversionInRange_int32_float :: u32 \<Rightarrow> u32 num)),
    (''I32TruncSF64'', Thread_UnopTrap (IntTrunc True FloatTraits_double IsConversionInRange_int32_double :: u64 \<Rightarrow> u32 num)),
    (''I32TruncSSatF64'', Thread_UnopTrap (IntTruncSat True FloatTraits_double IsConversionInRange_int32_double :: u64 \<Rightarrow> u32 num)),
    (''I32TruncUF32'', Thread_UnopTrap (IntTrunc False FloatTraits_float IsConversionInRange_uint32_float :: u32 \<Rightarrow> u32 num)),
    (''I32TruncUSatF32'', Thread_UnopTrap (IntTruncSat False FloatTraits_float IsConversionInRange_uint32_float :: u32 \<Rightarrow> u32 num)),
    (''I32TruncUF64'', Thread_UnopTrap (IntTrunc False FloatTraits_double IsConversionInRange_uint32_double :: u64 \<Rightarrow> u32 num)),
    (''I32TruncUSatF64'', Thread_UnopTrap (IntTruncSat False FloatTraits_double IsConversionInRange_uint32_double :: u64 \<Rightarrow> u32 num)),
    (''I32WrapI64'', Thread_Unop (ucast :: u64 \<Rightarrow> u32)),
    (''I64TruncSF32'', Thread_UnopTrap (IntTrunc True FloatTraits_float IsConversionInRange_int64_float :: u32 \<Rightarrow> u64 num)),
    (''I64TruncSSatF32'', Thread_UnopTrap (IntTruncSat True FloatTraits_float IsConversionInRange_int64_float :: u32 \<Rightarrow> u64 num)),
    (''I64TruncSF64'', Thread_UnopTrap (IntTrunc True FloatTraits_double IsConversionInRange_int64_double :: u64 \<Rightarrow> u64 num)),
    (''I64TruncSSatF64'', Thread_UnopTrap (IntTruncSat True FloatTraits_double IsConversionInRange_int64_double :: u64 \<Rightarrow> u64 num)),
    (''I64TruncUF32'', Thread_UnopTrap (IntTrunc False FloatTraits_float IsConversionInRange_uint64_float :: u32 \<Rightarrow> u64 num)),
    (''I64TruncUSatF32'', Thread_UnopTrap (IntTruncSat False FloatTraits_float IsConversionInRange_uint64_float :: u32 \<Rightarrow> u64 num)),
    (''I64TruncUF64'', Thread_UnopTrap (IntTrunc False FloatTraits_double IsConversionInRange_uint64_double :: u64 \<Rightarrow> u64 num)),
    (''I64TruncUSatF64'', Thread_UnopTrap (IntTruncSat False FloatTraits_double IsConversionInRange_uint64_double :: u64 \<Rightarrow> u64 num))]"

definition Run_convert :: "host_nan \<Rightarrow> (string \<times> unit iop) list" where
  "Run_convert nan = [
    (''I64ExtendSI32'', Thread_Unop (scast :: u32 \<Rightarrow> u64)),
    (''I64ExtendUI32'', Thread_Unop (ucast :: u32 \<Rightarrow> u64)),
    (''F32ConvertSI32'', Thread_Unop (int_to_float True FloatTraits_float :: u32 \<Rightarrow> u32)),
    (''F32ConvertUI32'', Thread_Unop (int_to_float False FloatTraits_float :: u32 \<Rightarrow> u32)),
    (''F32ConvertSI64'', Thread_Unop (int_to_float True FloatTraits_float :: u64 \<Rightarrow> u32)),
    (''F32ConvertUI64'', Thread_Unop (int_to_float False FloatTraits_float :: u64 \<Rightarrow> u32)),
    (''F32DemoteF64'', Thread_Unop (F32DemoteF64 nan)),
    (''F32ReinterpretI32'', Thread_Unop (\<lambda>x :: u32. x)),
    (''F64ConvertSI32'', Thread_Unop (int_to_float True FloatTraits_double :: u32 \<Rightarrow> u64)),
    (''F64ConvertUI32'', Thread_Unop (int_to_float False FloatTraits_double :: u32 \<Rightarrow> u64)),
    (''F64ConvertSI64'', Thread_Unop (int_to_float True FloatTraits_double :: u64 \<Rightarrow> u64)),
    (''F64ConvertUI64'', Thread_Unop (int_to_float False FloatTraits_double :: u64 \<Rightarrow> u64)),
    (''F64PromoteF32'', Thread_Unop (F64PromoteF32 nan)),
    (''F64ReinterpretI64'', Thread_Unop (\<lambda>x :: u64. x)),
    (''I32ReinterpretF32'', Thread_Unop (\<lambda>x :: u32. x)),
    (''I64ReinterpretF64'', Thread_Unop (\<lambda>x :: u64. x))]"

definition Run_rot_extend :: "(string \<times> unit iop) list" where
  "Run_rot_extend = [
    (''I32Rotr'', Thread_Binop (IntRotr :: u32 \<Rightarrow> u32 \<Rightarrow> u32)),
    (''I32Rotl'', Thread_Binop (IntRotl :: u32 \<Rightarrow> u32 \<Rightarrow> u32)),
    (''I64Rotr'', Thread_Binop (IntRotr :: u64 \<Rightarrow> u64 \<Rightarrow> u64)),
    (''I64Rotl'', Thread_Binop (IntRotl :: u64 \<Rightarrow> u64 \<Rightarrow> u64)),
    (''I64Eqz'', Thread_Unop (IntEqz :: u64 \<Rightarrow> u32)),
    (''I32Extend8S'', Thread_Unop (IntExtendS TYPE(8) :: u32 \<Rightarrow> u32)),
    (''I32Extend16S'', Thread_Unop (IntExtendS TYPE(16) :: u32 \<Rightarrow> u32)),
    (''I64Extend8S'', Thread_Unop (IntExtendS TYPE(8) :: u64 \<Rightarrow> u64)),
    (''I64Extend16S'', Thread_Unop (IntExtendS TYPE(16) :: u64 \<Rightarrow> u64)),
    (''I64Extend32S'', Thread_Unop (IntExtendS TYPE(32) :: u64 \<Rightarrow> u64))]"

definition Run_interp :: "(string \<times> unit iop) list" where
  "Run_interp = [
    (''InterpAlloca'', Run_InterpAlloca),
    (''InterpBrUnless'', Run_InterpBrUnless),
    (''Drop'', i_then Thread_Pop (i_return ())),
    (''InterpDropKeep'', Run_InterpDropKeep),
    (''Nop'', i_return ()),
    (''I32AtomicWait'', i_stop IR_TrapUnreachable),
    (''I64AtomicWait'', i_stop IR_TrapUnreachable),
    (''AtomicWake'', i_stop IR_TrapUnreachable)]"

definition Run_v128_access :: "(string \<times> unit iop) list" where
  "Run_v128_access = [
    (''V128Const'', i_bind ReadV128 PushRep),
    (''V128Load'', Thread_Load (ucast :: v128 \<Rightarrow> v128)),
    (''V128Store'', Thread_Store (ucast :: v128 \<Rightarrow> v128)),
    (''I8X16Splat'', Thread_Unop (\<lambda>x :: u32. SimdSplat (ucast x :: u8))),
    (''I16X8Splat'', Thread_Unop (\<lambda>x :: u32. SimdSplat (ucast x :: u16))),
    (''I32X4Splat'', Thread_Unop (SimdSplat :: u32 \<Rightarrow> v128)),
    (''I64X2Splat'', Thread_Unop (SimdSplat :: u64 \<Rightarrow> v128)),
    (''F32X4Splat'', Thread_Unop (SimdSplat :: u32 \<Rightarrow> v128)),
    (''F64X2Splat'', Thread_Unop (SimdSplat :: u64 \<Rightarrow> v128))]"

definition Run_lane :: "(string \<times> unit iop) list" where
  "Run_lane = [
    (''I8X16ExtractLaneS'', Run_ExtractLane (scast :: u8 \<Rightarrow> u32)),
    (''I8X16ExtractLaneU'', Run_ExtractLane (ucast :: u8 \<Rightarrow> u32)),
    (''I16X8ExtractLaneS'', Run_ExtractLane (scast :: u16 \<Rightarrow> u32)),
    (''I16X8ExtractLaneU'', Run_ExtractLane (ucast :: u16 \<Rightarrow> u32)),
    (''I32X4ExtractLane'', Run_ExtractLane (ucast :: u32 \<Rightarrow> u32)),
    (''I64X2ExtractLane'', Run_ExtractLane (ucast :: u64 \<Rightarrow> u64)),
    (''F32X4ExtractLane'', Run_ExtractLane (ucast :: u32 \<Rightarrow> u32)),
    (''F64X2ExtractLane'', Run_ExtractLane (ucast :: u64 \<Rightarrow> u64)),
    (''I8X16ReplaceLane'', Run_ReplaceLane (ucast :: u32 \<Rightarrow> u8)),
    (''I16X8ReplaceLane'', Run_ReplaceLane (ucast :: u32 \<Rightarrow> u16)),
    (''I32X4ReplaceLane'', Run_ReplaceLane (ucast :: u32 \<Rightarrow> u32)),
    (''I64X2ReplaceLane'', Run_ReplaceLane (ucast :: u64 \<Rightarrow> u64)),
    (''F32X4ReplaceLane'', Run_ReplaceLane (ucast :: u32 \<Rightarrow> u32)),
    (''F64X2ReplaceLane'', Run_ReplaceLane (ucast :: u64 \<Rightarrow> u64)),
    (''V8X16Shuffle'', Run_V8X16Shuffle)]"

definition Run_simd_int :: "(string \<times> unit iop) list" where
  "Run_simd_int = [
    (''I8X16Add'', Thread_SimdBinop (ucast :: u8 \<Rightarrow> u32) (num_ok2 (Add :: u32 \<Rightarrow> u32 \<Rightarrow> u32))),
    (''I16X8Add'', Thread_SimdBinop (ucast :: u16 \<Rightarrow> u32) (num_ok2 (Add :: u32 \<Rightarrow> u32 \<Rightarrow> u32))),
    (''I32X4Add'', Thread_SimdBinop (ucast :: u32 \<Rightarrow> u32) (num_ok2 (Add :: u32 \<Rightarrow> u32 \<Rightarrow> u32))),
    (''I64X2Add'', Thread_SimdBinop (ucast :: u64 \<Rightarrow> u64) (num_ok2 (Add :: u64 \<Rightarrow> u64 \<Rightarrow> u64))),
    (''I8X16Sub'', Thread_SimdBinop (ucast :: u8 \<Rightarrow> u32) (num_ok2 (Sub :: u32 \<Rightarrow> u32 \<Rightarrow> u32))),
    (''I16X8Sub'', Thread_SimdBinop (ucast :: u16 \<Rightarrow> u32) (num_ok2 (Sub :: u32 \<Rightarrow> u32 \<Rightarrow> u32))),
    (''I32X4Sub'', Thread_SimdBinop (ucast :: u32 \<Rightarrow> u32) (num_ok2 (Sub :: u32 \<Rightarrow> u32 \<Rightarrow> u32))),
    (''I64X2Sub'', Thread_SimdBinop (ucast :: u64 \<Rightarrow> u64) (num_ok2 (Sub :: u64 \<Rightarrow> u64 \<Rightarrow> u64))),
    (''I8X16Mul'', Thread_SimdBinop (ucast :: u8 \<Rightarrow> u32) (num_ok2 (Mul :: u32 \<Rightarrow> u32 \<Rightarrow> u32))),
    (''I16X8Mul'', Thread_SimdBinop (ucast :: u16 \<Rightarrow> u32) (num_ok2 (Mul :: u32 \<Rightarrow> u32 \<Rightarrow> u32))),
    (''I32X4Mul'', Thread_SimdBinop (ucast :: u32 \<Rightarrow> u32) (num_ok2 (Mul :: u32 \<Rightarrow> u32 \<Rightarrow> u32))),
    (''I8X16Neg'', Thread_SimdUnop (scast :: u8 \<Rightarrow> u32) (IntNeg True :: u32 \<Rightarrow> u32 num)),
    (''I16X8Neg'', Thread_SimdUnop (scast :: u16 \<Rightarrow> u32) (IntNeg True :: u32 \<Rightarrow> u32 num)),
    (''I32X4Neg'', Thread_SimdUnop (scast :: u32 \<Rightarrow> u32) (IntNeg True :: u32 \<Rightarrow> u32 num)),
    (''I64X2Neg'', Thread_SimdUnop (scast :: u64 \<Rightarrow> u64) (IntNeg True :: u64 \<Rightarrow> u64 num)),
    (''I8X16AddSaturateS'', Thread_SimdBinop (scast :: u8 \<Rightarrow> u32) (AddSaturate True (- 128) 127 :: u32 \<Rightarrow> u32 \<Rightarrow> u32 num)),
    (''I8X16AddSaturateU'', Thread_SimdBinop (ucast :: u8 \<Rightarrow> u32) (AddSaturate False 0 255 :: u32 \<Rightarrow> u32 \<Rightarrow> u32 num)),
    (''I16X8AddSaturateS'', Thread_SimdBinop (scast :: u16 \<Rightarrow> u32) (AddSaturate True (- 32768) 32767 :: u32 \<Rightarrow> u32 \<Rightarrow> u32 num)),
    (''I16X8AddSaturateU'', Thread_SimdBinop (ucast :: u16 \<Rightarrow> u32) (AddSaturate False 0 65535 :: u32 \<Rightarrow> u32 \<Rightarrow> u32 num)),
    (''I8X16SubSaturateS'', Thread_SimdBinop (scast :: u8 \<Rightarrow> u32) (SubSaturate True (- 128) 127 :: u32 \<Rightarrow> u32 \<Rightarrow> u32 num)),
    (''I8X16SubSaturateU'', Thread_SimdBinop (ucast :: u8 \<Rightarrow> u32) (SubSaturate True 0 255 :: u32 \<Rightarrow> u32 \<Rightarrow> u32 num)),
    (''I16X8SubSaturateS'', Thread_SimdBinop (scast :: u16 \<Rightarrow> u32) (SubSaturate True (- 32768) 32767 :: u32 \<Rightarrow> u32 \<Rightarrow> u32 num)),
    (''I16X8SubSaturateU'', Thread_SimdBinop (ucast :: u16 \<Rightarrow> u32) (SubSaturate True 0 65535 :: u32 \<Rightarrow> u32 \<Rightarrow> u32 num))]"

definition Run_simd_shift :: "(string \<times> unit iop) list" where
  "Run_simd_shift = [
    (''I8X16Shl'', Run_SimdShift TYPE(8) 8 (Thread_SimdBinop (ucast :: u8 \<Rightarrow> u32) (num_ok2 (IntShl :: u32 \<Rightarrow> u32 \<Rightarrow> u32)))),
    (''I16X8Shl'', Run_SimdShift TYPE(16) 16 (Thread_SimdBinop (ucast :: u16 \<Rightarrow> u32) (num_ok2 (IntShl :: u32 \<Rightarrow> u32 \<Rightarrow> u32)))),
    (''I32X4Shl'', Run_SimdShift TYPE(32) 32 (Thread_SimdBinop (ucast :: u32 \<Rightarrow> u32) (num_ok2 (IntShl :: u32 \<Rightarrow> u32 \<Rightarrow> u32)))),
    (''I64X2Shl'', Run_SimdShift TYPE(64) 64 (Thread_SimdBinop (ucast :: u64 \<Rightarrow> u64) (num_ok2 (IntShl :: u64 \<Rightarrow> u64 \<Rightarrow> u64)))),
    (''I8X16ShrS'', Run_SimdShift TYPE(8) 8 (Thread_SimdBinop (scast :: u8 \<Rightarrow> u32) (num_ok2 (IntShr True :: u32 \<Rightarrow> u32 \<Rightarrow> u32)))),
    (''I8X16ShrU'', Run_SimdShift TYPE(8) 8 (Thread_SimdBinop (ucast :: u8 \<Rightarrow> u32) (num_ok2 (IntShr False :: u32 \<Rightarrow> u32 \<Rightarrow> u32)))),
    (''I16X8ShrS'', Run_SimdShift TYPE(16) 16 (Thread_SimdBinop (scast :: u16 \<Rightarrow> u32) (num_ok2 (IntShr True :: u32 \<Rightarrow> u32 \<Rightarrow> u32)))),
    (''I16X8ShrU'', Run_SimdShift TYPE(16) 16 (Thread_SimdBinop (ucast :: u16 \<Rightarrow> u32) (num_ok2 (IntShr False :: u32 \<Rightarrow> u32 \<Rightarrow> u32)))),
    (''I32X4ShrS'', Run_SimdShift TYPE(32) 32 (Thread_SimdBinop (scast :: u32 \<Rightarrow> u32) (num_ok2 (IntShr True :: u32 \<Rightarrow> u32 \<Rightarrow> u32)))),
    (''I32X4ShrU'', Run_SimdShift TYPE(32) 32 (Thread_SimdBinop (ucast :: u32 \<Rightarrow> u32) (num_ok2 (IntShr False :: u32 \<Rightarrow> u32 \<Rightarrow> u32)))),
    (''I64X2ShrS'', Run_SimdShift TYPE(64) 64 (Thread_SimdBinop (scast :: u64 \<Rightarrow> u64) (num_ok2 (IntShr True :: u64 \<Rightarrow> u64 \<Rightarrow> u64)))),
    (''I64X2ShrU'', Run_SimdShift TYPE(64) 64 (Thread_SimdBinop (ucast :: u64 \<Rightarrow> u64) (num_ok2 (IntShr False :: u64 \<Rightarrow> u64 \<Rightarrow> u64))))]"

definition Run_v128_bits :: "(string \<times> unit iop) list" where
  "Run_v128_bits = [
    (''V128And'', Thread_SimdBinop (ucast :: u64 \<Rightarrow> u64) (num_ok2 (IntAnd :: u64 \<Rightarrow> u64 \<Rightarrow> u64))),
    (''V128Or'', Thread_SimdBinop (ucast :: u64 \<Rightarrow> u64) (num_ok2 (IntOr :: u64 \<Rightarrow> u64 \<Rightarrow> u64))),
    (''V128Xor'', Thread_SimdBinop (ucast :: u64 \<Rightarrow> u64) (num_ok2 (IntXor :: u64 \<Rightarrow> u64 \<Rightarrow> u64))),
    (''V128Not'', Thread_SimdUnop (ucast :: u64 \<Rightarrow> u64) (num_ok1 (IntNot :: u64 \<Rightarrow> u64))),
    (''V128BitSelect'', Run_V128BitSelect),
    (''I8X16AnyTrue'', Thread_Unop (\<lambda>v. SimdIsLaneTrue TYPE(8) v 1)),
    (''I16X8AnyTrue'', Thread_Unop (\<lambda>v. SimdIsLaneTrue TYPE(16) v 1)),
    (''I32X4AnyTrue'', Thread_Unop (\<lambda>v. SimdIsLaneTrue TYPE(32) v 1)),
    (''I64X2AnyTrue'', Thread_Unop (\<lambda>v. SimdIsLaneTrue TYPE(64) v 1)),
    (''I8X16AllTrue'', Thread_Unop (\<lambda>v. SimdIsLaneTrue TYPE(8) v 16)),
    (''I16X8AllTrue'', Thread_Unop (\<lambda>v. SimdIsLaneTrue TYPE(16) v 8)),
    (''I32X4AllTrue'', Thread_Unop (\<lambda>v. SimdIsLaneTrue TYPE(32) v 4)),
    (''I64X2AllTrue'', Thread_Unop (\<lambda>v. SimdIsLaneTrue TYPE(64) v 2))]"

definition Run_simd_eq :: "(string \<times> unit iop) list" where
  "Run_simd_eq = [
    (''I8X16Eq'', Thread_SimdBinop (scast :: u8 \<Rightarrow> u32) (num_ok2 (Eq_int :: u32 \<Rightarrow> u32 \<Rightarrow> u32))),
    (''I16X8Eq'', Thread_SimdBinop (scast :: u16 \<Rightarrow> u32) (num_ok2 (Eq_int :: u32 \<Rightarrow> u32 \<Rightarrow> u32))),
    (''I32X4Eq'', Thread_SimdBinop (scast :: u32 \<Rightarrow> u32) (num_ok2 (Eq_int :: u32 \<Rightarrow> u32 \<Rightarrow> u32))),
    (''F32X4Eq'', Thread_SimdBinop (scast :: u32 \<Rightarrow> u32) (num_ok2 (Eq_float FloatTraits_float))),
    (''F64X2Eq'', Thread_SimdBinop (scast :: u64 \<Rightarrow> u64) (num_ok2 (Eq_float FloatTraits_double))),
    (''I8X16Ne'', Thread_SimdBinop (scast :: u8 \<Rightarrow> u32) (num_ok2 (Ne_int :: u32 \<Rightarrow> u32 \<Rightarrow> u32))),
    (''I16X8Ne'', Thread_SimdBinop (scast :: u16 \<Rightarrow> u32) (num_ok2 (Ne_int :: u32 \<Rightarrow> u32 \<Rightarrow> u32))),
    (''I32X4Ne'', Thread_SimdBinop (scast :: u32 \<Rightarrow> u32) (num_ok2 (Ne_int :: u32 \<Rightarrow> u32 \<Rightarrow> u32))),
    (''F32X4Ne'', Thread_SimdBinop (scast :: u32 \<Rightarrow> u32) (num_ok2 (Ne_float FloatTraits_float))),
    (''F64X2Ne'', Thread_SimdBinop (scast :: u64 \<Rightarrow> u64) (num_ok2 (Ne_float FloatTraits_double)))]"

definition Run_simd_ord :: "(string \<times> unit iop) list" where
  "Run_simd_ord = [
    (''I8X16LtS'', Thread_SimdBinop (scast :: u8 \<Rightarrow> u32) (num_ok2 (Lt_int True :: u32 \<Rightarrow> u32 \<Rightarrow> u32))),
    (''I8X16LtU'', Thread_SimdBinop (ucast :: u8 \<Rightarrow> u32) (num_ok2 (Lt_int False :: u32 \<Rightarrow> u32 \<Rightarrow> u32))),
    (''I16X8LtS'', Thread_SimdBinop (scast :: u16 \<Rightarrow> u32) (num_ok2 (Lt_int True :: u32 \<Rightarrow> u32 \<Rightarrow> u32))),
    (''I16X8LtU'', Thread_SimdBinop (ucast :: u16 \<Rightarrow> u32) (num_ok2 (Lt_int False :: u32 \<Rightarrow> u32 \<Rightarrow> u32))),
    (''I32X4LtS'', Thread_SimdBinop (scast :: u32 \<Rightarrow> u32) (num_ok2 (Lt_int True :: u32 \<Rightarrow> u32 \<Rightarrow> u32))),
    (''I32X4LtU'', Thread_SimdBinop (ucast :: u32 \<Rightarrow> u32) (num_ok2 (Lt_int False :: u32 \<Rightarrow> u32 \<Rightarrow> u32))),
    (''F32X4Lt'', Thread_SimdBinop (scast :: u32 \<Rightarrow> u32) (num_ok2 (Lt_float FloatTraits_float))),
    (''F64X2Lt'', Thread_SimdBinop (scast :: u64 \<Rightarrow> u64) (num_ok2 (Lt_float FloatTraits_double))),
    (''I8X16LeS'', Thread_SimdBinop (scast :: u8 \<Rightarrow> u32) (num_ok2 (Le_int True :: u32 \<Rightarrow> u32 \<Rightarrow> u32))),
    (''I8X16LeU'', Thread_SimdBinop (ucast :: u8 \<Rightarrow> u32) (num_ok2 (Le_int False :: u32 \<Rightarrow> u32 \<Rightarrow> u32))),
    (''I16X8LeS'', Thread_SimdBinop (scast :: u16 \<Rightarrow> u32) (num_ok2 (Le_int True :: u32 \<Rightarrow> u32 \<Rightarrow> u32))),
    (''I16X8LeU'', Thread_SimdBinop (ucast :: u16 \<Rightarrow> u32) (num_ok2 (Le_int False :: u32 \<Rightarrow> u32 \<Rightarrow> u32))),
    (''I32X4LeS'', Thread_SimdBinop (scast :: u32 \<Rightarrow> u32) (num_ok2 (Le_int True :: u32 \<Rightarrow> u32 \<Rightarrow> u32))),
    (''I32X4LeU'', Thread_SimdBinop (ucast :: u32 \<Rightarrow> u32) (num_ok2 (Le_int False :: u32 \<Rightarrow> u32 \<Rightarrow> u32))),
    (''F32X4Le'', Thread_SimdBinop (scast :: u32 \<Rightarrow> u32) (num_ok2 (Le_float FloatTraits_float))),
    (''F64X2Le'', Thread_SimdBinop (scast :: u64 \<Rightarrow> u64) (num_ok2 (Le_float FloatTraits_double))),
    (''I8X16GtS'', Thread_SimdBinop (scast :: u8 \<Rightarrow> u32) (num_ok2 (Gt_int True :: u32 \<Rightarrow> u32 \<Rightarrow> u32))),
    (''I8X16GtU'', Thread_SimdBinop (ucast :: u8 \<Rightarrow> u32) (num_ok2 (Gt_int False :: u32 \<Rightarrow> u32 \<Rightarrow> u32))),
    (''I16X8GtS'', Thread_SimdBinop (scast :: u16 \<Rightarrow> u32) (num_ok2 (Gt_int True :: u32 \<Rightarrow> u32 \<Rightarrow> u32))),
    (''I16X8GtU'', Thread_SimdBinop (ucast :: u16 \<Rightarrow> u32) (num_ok2 (Gt_int False :: u32 \<Rightarrow> u32 \<Rightarrow> u32))),
    (''I32X4GtS'', Thread_SimdBinop (scast :: u32 \<Rightarrow> u32) (num_ok2 (Gt_int True :: u32 \<Rightarrow> u32 \<Rightarrow> u32))),
    (''I32X4GtU'', Thread_SimdBinop (ucast :: u32 \<Rightarrow> u32) (num_ok2 (Gt_int False :: u32 \<Rightarrow> u32 \<Rightarrow> u32))),
    (''F32X4Gt'', Thread_SimdBinop (scast :: u32 \<Rightarrow> u32) (num_ok2 (Gt_float FloatTraits_float))),
    (''F64X2Gt'', Thread_SimdBinop (scast :: u64 \<Rightarrow> u64) (num_ok2 (Gt_float FloatTraits_double))),
    (''I8X16GeS'', Thread_SimdBinop (scast :: u8 \<Rightarrow> u32) (num_ok2 (Ge_int True :: u32 \<Rightarrow> u32 \<Rightarrow> u32))),
    (''I8X16GeU'', Thread_SimdBinop (ucast :: u8 \<Rightarrow> u32) (num_ok2 (Ge_int False :: u32 \<Rightarrow> u32 \<Rightarrow> u32))),
    (''I16X8GeS'', Thread_SimdBinop (scast :: u16 \<Rightarrow> u32) (num_ok2 (Ge_int True :: u32 \<Rightarrow> u32 \<Rightarrow> u32))),
    (''I16X8GeU'', Thread_SimdBinop (ucast :: u16 \<Rightarrow> u32) (num_ok2 (Ge_int False :: u32 \<Rightarrow> u32 \<Rightarrow> u32))),
    (''I32X4GeS'', Thread_SimdBinop (scast :: u32 \<Rightarrow> u32) (num_ok2 (Ge_int True :: u32 \<Rightarrow> u32 \<Rightarrow> u32))),
    (''I32X4GeU'', Thread_SimdBinop (ucast :: u32 \<Rightarrow> u32) (num_ok2 (Ge_int False :: u32 \<Rightarrow> u32 \<Rightarrow> u32))),
    (''F32X4Ge'', Thread_SimdBinop (scast :: u32 \<Rightarrow> u32) (num_ok2 (Ge_float FloatTraits_float))),
    (''F64X2Ge'', Thread_SimdBinop (scast :: u64 \<Rightarrow> u64) (num_ok2 (Ge_float FloatTraits_double)))]"

definition Run_simd_float :: "host_nan \<Rightarrow> (string \<times> unit iop) list" where
  "Run_simd_float nan = [
    (''F32X4Neg'', Thread_SimdUnop (scast :: u32 \<Rightarrow> u32) (num_ok1 (FloatNeg FloatTraits_float))),
    (''F64X2Neg'', Thread_SimdUnop (scast :: u64 \<Rightarrow> u64) (num_ok1 (FloatNeg FloatTraits_double))),
    (''F32X4Abs'', Thread_SimdUnop (scast :: u32 \<Rightarrow> u32) (num_ok1 (FloatAbs FloatTraits_float))),
    (''F64X2Abs'', Thread_SimdUnop (scast :: u64 \<Rightarrow> u64) (num_ok1 (FloatAbs FloatTraits_double))),
    (''F32X4Min'', Thread_SimdBinop (scast :: u32 \<Rightarrow> u32) (num_ok2 (FloatMin FloatTraits_float))),
    (''F64X2Min'', Thread_SimdBinop (scast :: u64 \<Rightarrow> u64) (num_ok2 (FloatMin FloatTraits_double))),
    (''F32X4Max'', Thread_SimdBinop (scast :: u32 \<Rightarrow> u32) (num_ok2 (FloatMax FloatTraits_float))),
    (''F64X2Max'', Thread_SimdBinop (scast :: u64 \<Rightarrow> u64) (num_ok2 (FloatMax FloatTraits_double))),
    (''F32X4Add'', Thread_SimdBinop (scast :: u32 \<Rightarrow> u32) (num_ok2 (Add_float nan FloatTraits_float))),
    (''F64X2Add'', Thread_SimdBinop (scast :: u64 \<Rightarrow> u64) (num_ok2 (Add_float nan FloatTraits_double))),
    (''F32X4Sub'', Thread_SimdBinop (scast :: u32 \<Rightarrow> u32) (num_ok2 (Sub_float nan FloatTraits_float))),
    (''F64X2Sub'', Thread_SimdBinop (scast :: u64 \<Rightarrow> u64) (num_ok2 (Sub_float nan FloatTraits_double))),
    (''F32X4Div'', Thread_SimdBinop (scast :: u32 \<Rightarrow> u32) (num_ok2 (FloatDiv nan FloatTraits_float))),
    (''F64X2Div'', Thread_SimdBinop (scast :: u64 \<Rightarrow> u64) (num_ok2 (FloatDiv nan FloatTraits_double))),
    (''F32X4Mul'', Thread_SimdBinop (scast :: u32 \<Rightarrow> u32) (num_ok2 (Mul_float nan FloatTraits_float))),
    (''F64X2Mul'', Thread_SimdBinop (scast :: u64 \<Rightarrow> u64) (num_ok2 (Mul_float nan FloatTraits_double))),
    (''F32X4Sqrt'', Thread_SimdUnop (scast :: u32 \<Rightarrow> u32) (num_ok1 (FloatSqrt nan FloatTraits_float))),
    (''F64X2Sqrt'', Thread_SimdUnop (scast :: u64 \<Rightarrow> u64) (num_ok1 (FloatSqrt nan FloatTraits_double))),
    (''F32X4ConvertSI32X4'', Thread_SimdUnop (scast :: u32 \<Rightarrow> u32) (num_ok1 (SimdConvert True FloatTraits_float))),
    (''F32X4ConvertUI32X4'', Thread_SimdUnop (ucast :: u32 \<Rightarrow> u32) (num_ok1 (SimdConvert False FloatTraits_float))),
    (''F64X2ConvertSI64X2'', Thread_SimdUnop (scast :: u64 \<Rightarrow> u64) (num_ok1 (SimdConvert True FloatTraits_double))),
    (''F64X2ConvertUI64X2'', Thread_SimdUnop (ucast :: u64 \<Rightarrow> u64) (num_ok1 (SimdConvert False FloatTraits_double))),
    (''I32X4TruncSF32X4Sat'', Thread_SimdUnop (scast :: u32 \<Rightarrow> u32) (IntTruncSat True FloatTraits_float IsConversionInRange_int32_float :: u32 \<Rightarrow> u32 num)),
    (''I32X4TruncUF32X4Sat'', Thread_SimdUnop (ucast :: u32 \<Rightarrow> u32) (IntTruncSat False FloatTraits_float IsConversionInRange_uint32_float :: u32 \<Rightarrow> u32 num)),
    (''I64X2TruncSF64X2Sat'', Thread_SimdUnop (scast :: u64 \<Rightarrow> u64) (IntTruncSat True FloatTraits_double IsConversionInRange_int64_double :: u64 \<Rightarrow> u64 num)),
    (''I64X2TruncUF64X2Sat'', Thread_SimdUnop (ucast :: u64 \<Rightarrow> u64) (IntTruncSat False FloatTraits_double IsConversionInRange_uint64_double :: u64 \<Rightarrow> u64 num))]"

definition Run_table :: "host_callback \<Rightarrow> host_nan \<Rightarrow> (string \<times> unit iop) list" where
  "Run_table cb nan =
     Run_control cb @ Run_load_store @ Run_atomic_access @ Run_atomic_rmw @ Run_atomic_cmpxchg @
     Run_i32 @ Run_i64 @ Run_f32 nan @ Run_f64 nan @ Run_trunc @ Run_convert nan @ Run_rot_extend @
     Run_interp @ Run_v128_access @ Run_lane @ Run_simd_int @ Run_simd_shift @ Run_v128_bits @
     Run_simd_eq @ Run_simd_ord @ Run_simd_float nan"

text \<open>The remaining opcodes are never executed: \<open>WABT_UNREACHABLE\<close>.\<close>

definition Run_unreachable :: "string list" where
  "Run_unreachable = [''Block'', ''Catch'', ''Else'', ''End'', ''If'', ''IfExcept'', ''InterpData'',
     ''Invalid'', ''Loop'', ''Rethrow'', ''Throw'', ''Try'']"

definition Run_switch :: "host_callback \<Rightarrow> host_nan \<Rightarrow> string \<Rightarrow> run_flow iop" where
  "Run_switch cb nan name =
     (if name = ''Return'' then Run_Return
      else case map_of (Run_table cb nan) name of
             Some f \<Rightarrow> i_then f (i_return Run_continue)
           | None \<Rightarrow> i_undef)"

section \<open>The loop\<close>

definition Run_instruction :: "host_callback \<Rightarrow> host_nan \<Rightarrow> run_flow iop" where
  "Run_instruction cb nan =
     i_bind ReadOpcode (\<lambda>opcode.
       if IsInvalid opcode then i_undef else Run_switch cb nan (Opcode_enumerator opcode))"

definition save_pc :: "unit iop" where
  "save_pc s = i_thread (\<lambda>t. t\<lparr>thread_pc := of_nat (st_pc s)\<rparr>) s"

text \<open>A trap returns from \<open>Run\<close> without the assignment to \<open>pc_\<close> at its end.\<close>

fun Run_loop :: "host_callback \<Rightarrow> host_nan \<Rightarrow> nat \<Rightarrow> interp_Result iop" where
  "Run_loop cb nan 0 = i_then save_pc (i_return IR_Ok)"
| "Run_loop cb nan (Suc n) =
     i_bind (Run_instruction cb nan) (\<lambda>flow.
       case flow of
         Run_continue \<Rightarrow> Run_loop cb nan n
       | Run_exit_loop \<Rightarrow> i_then save_pc (i_return IR_Returned))"

text \<open>\<open>None\<close>: undefined behaviour.\<close>

definition Thread_Run ::
  "host_callback \<Rightarrow> host_nan \<Rightarrow> nat \<Rightarrow> Environment \<times> Thread \<Rightarrow> (interp_Result \<times> Environment \<times> Thread) option" where
  "Thread_Run cb nan num_instructions et =
     (case Run_loop cb nan num_instructions
             \<lparr>st_env = fst et, st_thread = snd et, st_pc = unat (thread_pc (snd et))\<rparr> of
        (IVal r, s) \<Rightarrow> Some (r, st_env s, st_thread s)
      | (IStop r, s) \<Rightarrow> Some (r, st_env s, st_thread s)
      | (IUndef, s) \<Rightarrow> None)"

end
