(* ===== verification/InterpExec.thy ===== *)
theory InterpExec
  imports InterpRun
begin

text \<open>
  The executor (\<open>Executor\<close> in \<^verbatim>\<open>src/interp.cc\<close>): it pushes the arguments of a call, runs the thread
  until the function returns or traps, collects the results, and resets the thread. A run of
  WebAssembly code need not end: \<open>fuel\<close> bounds the number of calls of \<open>Thread::Run\<close>, and \<open>EFuel\<close>
  says that the bound was reached.
\<close>

datatype 'a exec = EDone 'a | EUndef | EFuel

record ExecResult =
  exec_result :: interp_Result
  exec_values :: "TypedValue list"

definition on_thread :: "'a iop \<Rightarrow> Environment \<times> Thread \<Rightarrow> 'a irun \<times> Environment \<times> Thread" where
  "on_thread f et =
     (case f \<lparr>st_env = fst et, st_thread = snd et, st_pc = 0\<rparr> of (r, s) \<Rightarrow> (r, st_env s, st_thread s))"

fun PushArgs_loop :: "TypeVector \<Rightarrow> TypedValue list \<Rightarrow> unit iop" where
  "PushArgs_loop (t # ts) (a # as) =
     i_then (i_trap_if (t \<noteq> tv_type a) IR_ArgumentTypeMismatch)
       (i_then (Thread_Push (tv_value a)) (PushArgs_loop ts as))"
| "PushArgs_loop _ _ = i_return ()"

definition Executor_PushArgs :: "FuncSignature \<Rightarrow> TypedValue list \<Rightarrow> unit iop" where
  "Executor_PushArgs sig args =
     (if length (sig_param_types sig) \<noteq> length args then i_stop IR_ArgumentTypeMismatch
      else PushArgs_loop (sig_param_types sig) args)"

fun CopyResults_loop :: "nat \<Rightarrow> TypeVector \<Rightarrow> TypedValue list iop" where
  "CopyResults_loop i [] = i_return []"
| "CopyResults_loop i (t # ts) =
     i_bind (Thread_ValueAt (of_nat i)) (\<lambda>v.
     i_bind (CopyResults_loop (i + 1) ts) (\<lambda>rest. i_return (\<lparr>tv_type = t, tv_value = v\<rparr> # rest)))"

definition Executor_CopyResults :: "FuncSignature \<Rightarrow> TypedValue list iop" where
  "Executor_CopyResults sig =
     i_bind i_top (\<lambda>top.
       if length (sig_result_types sig) = unat top then CopyResults_loop 0 (sig_result_types sig)
       else i_undef)"

fun run_until :: "host_callback \<Rightarrow> host_nan \<Rightarrow> nat \<Rightarrow> nat \<Rightarrow> Environment \<times> Thread \<Rightarrow>
    (interp_Result \<times> Environment \<times> Thread) exec" where
  "run_until cb nan kNumInstructions 0 et = EFuel"
| "run_until cb nan kNumInstructions (Suc fuel) et =
     (case Thread_Run cb nan kNumInstructions et of
        None \<Rightarrow> EUndef
      | Some (result, et1) \<Rightarrow>
          if result = IR_Ok then run_until cb nan kNumInstructions fuel et1 else EDone (result, et1))"

text \<open>\<open>trace\<close> is whether there is a trace stream; what \<open>Thread::Trace\<close> prints is not modelled.\<close>

definition Executor_RunDefinedFunction :: "host_callback \<Rightarrow> host_nan \<Rightarrow> bool \<Rightarrow> nat \<Rightarrow> u32 \<Rightarrow>
    Environment \<times> Thread \<Rightarrow> (interp_Result \<times> Environment \<times> Thread) exec" where
  "Executor_RunDefinedFunction cb nan trace fuel function_offset et =
     (case run_until cb nan (if trace then 1 else 1000) fuel
             (fst et, (snd et)\<lparr>thread_pc := function_offset\<rparr>) of
        EDone (result, et1) \<Rightarrow> EDone (if result = IR_Returned then IR_Ok else result, et1)
      | r \<Rightarrow> r)"

definition iop_result :: "unit irun \<times> Environment \<times> Thread \<Rightarrow> (interp_Result \<times> Environment \<times> Thread) exec" where
  "iop_result x = (case x of
     (IVal _, et) \<Rightarrow> EDone (IR_Ok, et) | (IStop r, et) \<Rightarrow> EDone (r, et) | (IUndef, et) \<Rightarrow> EUndef)"

text \<open>The end of \<open>RunFunction\<close>: collect the results of a call that returned, reset the thread.\<close>

definition Executor_finish :: "FuncSignature \<Rightarrow> (interp_Result \<times> Environment \<times> Thread) exec \<Rightarrow>
    (ExecResult \<times> Environment \<times> Thread) exec" where
  "Executor_finish sig x =
     (case x of
        EDone (result, et) \<Rightarrow>
          if result = IR_Ok then
            (case on_thread (Executor_CopyResults sig) et of
               (IVal values, et1) \<Rightarrow>
                 EDone (\<lparr>exec_result = IR_Ok, exec_values = values\<rparr>, fst et1, Thread_Reset (snd et1))
             | _ \<Rightarrow> EUndef)
          else EDone (\<lparr>exec_result = result, exec_values = []\<rparr>, fst et, Thread_Reset (snd et))
      | EUndef \<Rightarrow> EUndef
      | EFuel \<Rightarrow> EFuel)"

definition Executor_RunFunction :: "host_callback \<Rightarrow> host_nan \<Rightarrow> bool \<Rightarrow> nat \<Rightarrow> Index \<Rightarrow> TypedValue list \<Rightarrow>
    Environment \<times> Thread \<Rightarrow> (ExecResult \<times> Environment \<times> Thread) exec" where
  "Executor_RunFunction cb nan trace fuel func_index args et =
     (if length (env_funcs (fst et)) \<le> unat func_index then EUndef
      else let func = env_funcs (fst et) ! unat func_index in
      if length (env_sigs (fst et)) \<le> unat (func_sig_index func) then EUndef
      else let sig = env_sigs (fst et) ! unat (func_sig_index func) in
      Executor_finish sig
        (case iop_result (on_thread (Executor_PushArgs sig args) et) of
           EDone (result, et1) \<Rightarrow>
             if result = IR_Ok then
               (case func of
                  HostFunc _ _ _ \<Rightarrow> iop_result (on_thread (Thread_CallHost cb func) et1)
                | DefinedFunc _ offset _ _ _ \<Rightarrow> Executor_RunDefinedFunction cb nan trace fuel offset et1)
             else EDone (result, et1)
         | x \<Rightarrow> x))"

definition Executor_RunStartFunction :: "host_callback \<Rightarrow> host_nan \<Rightarrow> bool \<Rightarrow> nat \<Rightarrow> Module \<Rightarrow>
    Environment \<times> Thread \<Rightarrow> (ExecResult \<times> Environment \<times> Thread) exec" where
  "Executor_RunStartFunction cb nan trace fuel m et =
     (if mod_start_func_index m = kInvalidIndex
      then EDone (\<lparr>exec_result = IR_Ok, exec_values = []\<rparr>, et)
      else case Executor_RunFunction cb nan trace fuel (mod_start_func_index m) [] et of
             EDone (r, et1) \<Rightarrow> if exec_values r = [] then EDone (r, et1) else EUndef
           | x \<Rightarrow> x)"

definition Executor_RunExport :: "host_callback \<Rightarrow> host_nan \<Rightarrow> bool \<Rightarrow> nat \<Rightarrow> Export \<Rightarrow> TypedValue list \<Rightarrow>
    Environment \<times> Thread \<Rightarrow> (ExecResult \<times> Environment \<times> Thread) exec" where
  "Executor_RunExport cb nan trace fuel ex args et =
     (if export_kind ex = EK_Func
      then Executor_RunFunction cb nan trace fuel (export_index ex) args et else EUndef)"

definition Executor_RunExportByName :: "(Index list \<Rightarrow> Index) \<Rightarrow> host_callback \<Rightarrow> host_nan \<Rightarrow> bool \<Rightarrow> nat \<Rightarrow>
    Module \<Rightarrow> string \<Rightarrow> TypedValue list \<Rightarrow> Environment \<times> Thread \<Rightarrow> (ExecResult \<times> Environment \<times> Thread) exec" where
  "Executor_RunExportByName pick cb nan trace fuel m name args et =
     (case Module_GetExport pick m name of
        None \<Rightarrow> EDone (\<lparr>exec_result = IR_UnknownExport, exec_values = []\<rparr>, et)
      | Some ex \<Rightarrow>
          if export_kind ex \<noteq> EK_Func
          then EDone (\<lparr>exec_result = IR_ExportKindMismatch, exec_values = []\<rparr>, et)
          else Executor_RunExport cb nan trace fuel ex args et)"

end
