(* ===== verification/InterpFrame.thy ===== *)
theory InterpFrame
  imports InterpExec
begin

text \<open>
  What running instructions leaves alone. Every instruction keeps the frame: the code, the types,
  the functions and the tables of the store, the sizes of the two stacks, the agreement between a
  memory's pages and its bytes. No instruction looks at the saved program counter of the thread,
  and none makes \<open>Run\<close> return \<open>Ok\<close> early. The three facts are proved together, once for each
  operation an instruction is made of, and combined along \<open>i_bind\<close>.
\<close>

section \<open>The frame\<close>

definition memory_ok :: "Memory \<Rightarrow> bool" where
  "memory_ok m \<longleftrightarrow>
     length (memory_data m) = unat (lim_initial (page_limits m)) * WABT_PAGE_SIZE \<and>
     (lim_has_max (page_limits m) \<longrightarrow> lim_initial (page_limits m) \<le> lim_max (page_limits m))"

definition memories_frame :: "Memory list \<Rightarrow> Memory list \<Rightarrow> bool" where
  "memories_frame = list_all2 (\<lambda>m m'.
     (memory_ok m \<longrightarrow> memory_ok m') \<and>
     lim_max (page_limits m') = lim_max (page_limits m) \<and>
     lim_has_max (page_limits m') = lim_has_max (page_limits m))"

definition global_frame :: "Global list \<Rightarrow> (wtype \<times> bool \<times> Index) list" where
  "global_frame = map (\<lambda>g. (tv_type (global_typed_value g), global_mutable g, global_import_index g))"

definition env_frame :: "Environment \<Rightarrow> Environment \<Rightarrow> bool" where
  "env_frame e e' \<longleftrightarrow>
     env_modules e' = env_modules e \<and> env_sigs e' = env_sigs e \<and> env_funcs e' = env_funcs e \<and>
     env_tables e' = env_tables e \<and> env_istream e' = env_istream e \<and>
     env_module_bindings e' = env_module_bindings e \<and>
     env_registered_module_bindings e' = env_registered_module_bindings e \<and>
     global_frame (env_globals e') = global_frame (env_globals e) \<and>
     memories_frame (env_memories e) (env_memories e')"

definition thread_frame :: "Thread \<Rightarrow> Thread \<Rightarrow> bool" where
  "thread_frame t t' \<longleftrightarrow>
     length (value_stack t') = length (value_stack t) \<and> length (call_stack t') = length (call_stack t)"

definition run_frame :: "istate \<Rightarrow> istate \<Rightarrow> bool" where
  "run_frame s s' \<longleftrightarrow>
     env_frame (st_env s) (st_env s') \<and> thread_frame (st_thread s) (st_thread s') \<and>
     (length (env_istream (st_env s)) < 2 ^ 32 \<longrightarrow> st_pc s < 2 ^ 32 \<longrightarrow> st_pc s' < 2 ^ 32)"

lemma memories_frame_refl [simp]: "memories_frame ms ms"
  by (simp add: memories_frame_def list_all2_refl)

lemma memories_frame_trans: "\<lbrakk>memories_frame a b; memories_frame b c\<rbrakk> \<Longrightarrow> memories_frame a c"
  by (auto simp: memories_frame_def list_all2_conv_all_nth)

lemma memories_frame_update:
  assumes "i < length ms" "memory_ok (ms ! i) \<longrightarrow> memory_ok m"
    "lim_max (page_limits m) = lim_max (page_limits (ms ! i))"
    "lim_has_max (page_limits m) = lim_has_max (page_limits (ms ! i))"
  shows "memories_frame ms (ms[i := m])"
  using assms by (auto simp: memories_frame_def list_all2_conv_all_nth nth_list_update)

lemma env_frame_refl [simp]: "env_frame e e"
  by (simp add: env_frame_def)

lemma env_frame_trans: "\<lbrakk>env_frame a b; env_frame b c\<rbrakk> \<Longrightarrow> env_frame a c"
  by (auto simp: env_frame_def intro: memories_frame_trans)

lemma run_frame_refl [simp]: "run_frame s s"
  by (simp add: run_frame_def thread_frame_def)

lemma env_frame_istream: "env_frame a b \<Longrightarrow> env_istream b = env_istream a"
  by (simp add: env_frame_def)

lemma run_frame_trans:
  assumes "run_frame a b" "run_frame b c"
  shows "run_frame a c"
proof -
  have "env_frame (st_env a) (st_env b)" "env_frame (st_env b) (st_env c)"
    using assms by (simp_all add: run_frame_def)
  then have "env_frame (st_env a) (st_env c)" "env_istream (st_env b) = env_istream (st_env a)"
    by (rule env_frame_trans, simp add: env_frame_istream)
  then show ?thesis using assms by (simp add: run_frame_def thread_frame_def)
qed

section \<open>Well-behaved operations\<close>

definition set_tpc :: "u32 \<Rightarrow> istate \<Rightarrow> istate" where
  "set_tpc x s = s\<lparr>st_thread := (st_thread s)\<lparr>thread_pc := x\<rparr>\<rparr>"

definition orderly :: "'a iop \<Rightarrow> bool" where
  "orderly f \<longleftrightarrow> (\<forall>s. run_frame s (snd (f s)) \<and> fst (f s) \<noteq> IStop IR_Ok \<and>
     (\<forall>x. f (set_tpc x s) = apsnd (set_tpc x) (f s)))"

named_theorems orderly "operations that keep the frame, do not read the saved pc and do not stop with Ok"

lemma orderlyI:
  assumes "\<And>s. run_frame s (snd (f s))" "\<And>s. fst (f s) \<noteq> IStop IR_Ok"
    "\<And>s x. f (set_tpc x s) = apsnd (set_tpc x) (f s)"
  shows "orderly f"
  using assms by (simp add: orderly_def)

lemma orderly_return [orderly]: "orderly (i_return x)"
  by (rule orderlyI) (simp_all add: i_return_def)

lemma orderly_stop [orderly]: "r \<noteq> IR_Ok \<Longrightarrow> orderly (i_stop r)"
  by (rule orderlyI) (simp_all add: i_stop_def)

lemma orderly_undef [orderly]: "orderly i_undef"
  by (rule orderlyI) (simp_all add: i_undef_def)

lemma orderly_trap_if [orderly]: "r \<noteq> IR_Ok \<Longrightarrow> orderly (i_trap_if c r)"
  by (simp add: i_trap_if_def orderly)

lemma orderly_bind [orderly]:
  assumes f: "orderly f" and g: "\<And>x. orderly (g x)"
  shows "orderly (i_bind f g)"
proof (rule orderlyI)
  fix s x
  obtain r s1 where s1: "f s = (r, s1)" by fastforce
  have fs: "run_frame s s1" "r \<noteq> IStop IR_Ok" "f (set_tpc x s) = (r, set_tpc x s1)"
    using f s1 by (simp_all add: orderly_def) (metis snd_conv, metis fst_conv)
  have gs: "run_frame s1 (snd (g y s1))" "fst (g y s1) \<noteq> IStop IR_Ok"
    "g y (set_tpc x s1) = apsnd (set_tpc x) (g y s1)" for y
    using g by (simp_all add: orderly_def)
  show "run_frame s (snd (i_bind f g s))"
    using fs(1) run_frame_trans [OF fs(1) gs(1)] by (simp add: i_bind_def s1 split: irun.split)
  show "fst (i_bind f g s) \<noteq> IStop IR_Ok"
    using fs(2) gs(2) by (cases r) (simp_all add: i_bind_def s1)
  show "i_bind f g (set_tpc x s) = apsnd (set_tpc x) (i_bind f g s)"
    using gs(3) by (simp add: i_bind_def s1 fs(3) split: irun.split)
qed

lemma orderly_then [orderly]: "\<lbrakk>orderly f; orderly g\<rbrakk> \<Longrightarrow> orderly (i_then f g)"
  by (simp add: i_then_def orderly_bind)

lemma orderly_ignore [orderly]:
  assumes "orderly f"
  shows "orderly (i_ignore_result f)"
proof (rule orderlyI)
  fix s x
  obtain r s1 where s1: "f s = (r, s1)" by fastforce
  have fs: "run_frame s s1" "f (set_tpc x s) = (r, set_tpc x s1)" "r \<noteq> IStop IR_Ok"
    using assms s1 by (simp_all add: orderly_def) (metis snd_conv, metis fst_conv)
  show "run_frame s (snd (i_ignore_result f s))" "fst (i_ignore_result f s) \<noteq> IStop IR_Ok"
    "i_ignore_result f (set_tpc x s) = apsnd (set_tpc x) (i_ignore_result f s)"
    using fs by (cases r; simp add: i_ignore_result_def s1)+
qed

lemma orderly_num [orderly]: "n \<noteq> NumTrap IR_Ok \<Longrightarrow> orderly (i_num n)"
  by (cases n) (simp_all add: i_num_def orderly)

lemma orderly_if [orderly]: "\<lbrakk>orderly f; orderly g\<rbrakk> \<Longrightarrow> orderly (if c then f else g)"
  by simp

section \<open>Primitive operations\<close>

lemma set_tpc_sel [simp]:
  "st_env (set_tpc x s) = st_env s" "st_pc (set_tpc x s) = st_pc s"
  "value_stack (st_thread (set_tpc x s)) = value_stack (st_thread s)"
  "call_stack (st_thread (set_tpc x s)) = call_stack (st_thread s)"
  "value_stack_top (st_thread (set_tpc x s)) = value_stack_top (st_thread s)"
  "call_stack_top (st_thread (set_tpc x s)) = call_stack_top (st_thread s)"
  "memory_at m (set_tpc x s) = memory_at m s"
  by (simp_all add: set_tpc_def memory_at_def)

lemma set_tpc_env: "(set_tpc x s)\<lparr>st_env := e\<rparr> = set_tpc x (s\<lparr>st_env := e\<rparr>)"
  by (simp add: set_tpc_def)

lemma orderly_thread:
  assumes "\<And>t. thread_frame t (f t)" "\<And>t x. f (t\<lparr>thread_pc := x\<rparr>) = (f t)\<lparr>thread_pc := x\<rparr>"
  shows "orderly (i_thread f)"
  using assms by (intro orderlyI) (simp_all add: i_thread_def run_frame_def set_tpc_def)

lemma orderly_env: "(\<And>e. env_frame e (f e)) \<Longrightarrow> orderly (i_env f)"
  by (rule orderlyI) (simp_all add: i_env_def run_frame_def thread_frame_def set_tpc_def env_frame_def)

lemma orderly_GOTO [orderly]: "orderly (GOTO p)"
  using unsigned_less [of p, where 'a = nat]
  by (intro orderlyI) (simp_all add: GOTO_def run_frame_def thread_frame_def set_tpc_def)

lemma orderly_ReadUxAt [orderly]: "orderly (ReadUxAt off)"
  by (rule orderlyI) (simp_all add: ReadUxAt_def Let_def)

lemma orderly_ReadUx [orderly]: "orderly ReadUx"
  by (rule orderlyI)
    (auto simp: ReadUx_def ReadUxAt_def Let_def run_frame_def thread_frame_def set_tpc_def)

lemma orderly_reads [orderly]:
  "orderly ReadU8" "orderly ReadU32" "orderly ReadU64" "orderly ReadV128" "orderly (ReadU32At off)"
  by (simp_all add: ReadU8_def ReadU32_def ReadU64_def ReadV128_def ReadU32At_def orderly)

lemma orderly_stack [orderly]:
  "orderly (value_slot i)" "orderly i_top" "orderly (i_set_top n)" "orderly CHECK_STACK"
  subgoal by (rule orderlyI) (simp_all add: value_slot_def)
  subgoal by (rule orderlyI) (simp_all add: i_top_def)
  subgoal unfolding i_set_top_def by (rule orderly_thread) (simp_all add: thread_frame_def)
  subgoal by (rule orderlyI) (simp_all add: CHECK_STACK_def i_trap_if_def i_stop_def i_return_def)
  done

lemma orderly_set_slot [orderly]: "orderly (set_value_slot i v)"
  by (rule orderlyI)
    (simp_all add: set_value_slot_def i_thread_def run_frame_def thread_frame_def set_tpc_def)

lemma orderly_picks [orderly]:
  "orderly (Thread_Pick d)" "orderly (Thread_set_Pick d v)" "orderly Thread_Top" "orderly (Thread_Push v)"
  "orderly Thread_Pop" "orderly (Thread_ValueAt i)" "orderly (PushRep w)" "orderly PopRep"
  by (simp_all add: Thread_Pick_def Thread_set_Pick_def Thread_Top_def Thread_Push_def Thread_Pop_def
      Thread_ValueAt_def PushRep_def PopRep_def orderly)

lemma orderly_DropKeep [orderly]: "orderly (Thread_DropKeep d k)"
proof -
  have "orderly (DropKeep_loop d i n)" for i n
    by (induction n arbitrary: i) (simp_all add: orderly)
  then show ?thesis by (simp add: Thread_DropKeep_def orderly)
qed

lemma orderly_calls [orderly]: "orderly Thread_PushCall" "orderly Thread_PopCall"
  by (rule orderlyI; auto simp: Thread_PushCall_def Thread_PopCall_def Let_def i_stop_def run_frame_def
      thread_frame_def set_tpc_def)+

section \<open>Memory\<close>

lemma orderly_get:
  assumes "\<And>x s. h (set_tpc x s) = h s" and "\<And>v. orderly (F v)"
  shows "orderly (\<lambda>s. F (h s) s)"
  using assms by (simp add: orderly_def)

lemma orderly_guard:
  assumes "\<And>x s. h (set_tpc x s) = h s" and "\<And>v. orderly (F v)"
  shows "orderly (\<lambda>s. if C (h s) then F (h s) s else (IUndef, s))"
  using assms by (simp add: orderly_def)

lemma orderly_ReadMemory [orderly]: "orderly ReadMemory"
  unfolding ReadMemory_def
  by (intro orderly) (rule orderlyI; simp)

lemma orderly_addresses [orderly]:
  "orderly (GetAccessAddress n)" "orderly (GetAtomicAccessAddress n)"
proof -
  have a: "orderly (\<lambda>s. i_then (i_trap_if (length (memory_data (memory_at m s)) < k) IR_TrapMemoryAccessOutOfBounds)
     (f :: 'b iop) s)" if "orderly f" for m k f
    using that
    by (intro orderly_get [where h = "\<lambda>s. length (memory_data (memory_at m s))"
          and F = "\<lambda>v. i_then (i_trap_if (v < k) IR_TrapMemoryAccessOutOfBounds) f"]) (simp_all add: orderly)
  show "orderly (GetAccessAddress n)" "orderly (GetAtomicAccessAddress n)"
    by (simp_all add: GetAccessAddress_def GetAtomicAccessAddress_def Let_def orderly a)
qed

lemma orderly_LoadFromMemory [orderly]: "orderly (LoadFromMemory src)"
  by (rule orderlyI) (simp_all add: LoadFromMemory_def Let_def)

lemma length_bytes_store: "off + length xs \<le> length d \<Longrightarrow> length (bytes_store off xs d) = length d"
  by (simp add: bytes_store_def)

lemma length_word_le: "length (word_le (w :: 'a::len word)) = LENGTH('a) div 8"
  by (simp add: word_le_def)

lemma env_frame_memory:
  assumes "memory_ok (env_memories e ! m) \<longrightarrow> memory_ok x"
    "lim_max (page_limits x) = lim_max (page_limits (env_memories e ! m))"
    "lim_has_max (page_limits x) = lim_has_max (page_limits (env_memories e ! m))"
  shows "env_frame e (e\<lparr>env_memories := (env_memories e)[m := x]\<rparr>)"
proof (cases "m < length (env_memories e)")
  case True
  then show ?thesis using memories_frame_update [OF True assms] by (simp add: env_frame_def)
next
  case False
  then have "(env_memories e)[m := x] = env_memories e" by (simp add: list_update_beyond)
  then show ?thesis by (simp add: env_frame_def)
qed

lemma run_frame_env: "env_frame (st_env s) e \<Longrightarrow> run_frame s (s\<lparr>st_env := e\<rparr>)"
  by (simp add: run_frame_def thread_frame_def)

lemma orderly_StoreToMemory [orderly]: "orderly (StoreToMemory dst (w :: 'a::len word))"
proof (rule orderlyI)
  fix s x
  let ?off = "unat (ucast (snd dst) :: u32)" and ?mem = "memory_at (fst dst) s"
  have "env_frame (st_env s) ((st_env s)\<lparr>env_memories := (env_memories (st_env s))
      [fst dst := ?mem\<lparr>memory_data := bytes_store ?off (word_le w) (memory_data ?mem)\<rparr>]\<rparr>)"
    if "?off + LENGTH('a) div 8 \<le> length (memory_data ?mem)"
    using that by (intro env_frame_memory) (simp_all add: memory_at_def memory_ok_def length_bytes_store length_word_le)
  then show "run_frame s (snd (StoreToMemory dst w s))"
    by (simp add: StoreToMemory_def Let_def set_memory_def i_env_def run_frame_env)
  show "fst (StoreToMemory dst w s) \<noteq> IStop IR_Ok"
    "StoreToMemory dst w (set_tpc x s) = apsnd (set_tpc x) (StoreToMemory dst w s)"
    by (simp_all add: StoreToMemory_def Let_def set_memory_def i_env_def set_tpc_def memory_at_def)
qed

lemma orderly_accesses [orderly]:
  "orderly (Thread_Load c)" "orderly (Thread_Store c')" "orderly (Thread_AtomicLoad c)"
  "orderly (Thread_AtomicStore c')" "orderly (Thread_AtomicRmw M f)" "orderly (Thread_AtomicRmwCmpxchg M R)"
  by (simp_all add: Thread_Load_def Thread_Store_def Thread_AtomicLoad_def Thread_AtomicStore_def
      Thread_AtomicRmw_def Thread_AtomicRmwCmpxchg_def Let_def orderly)

lemma orderly_MemorySize [orderly]: "orderly Run_MemorySize"
  unfolding Run_MemorySize_def
  by (intro orderly orderly_get [where h = "memory_at m" for m, where F = "\<lambda>v. PushRep (f v)" for f]) simp

text \<open>The one instruction that changes the size of a memory.\<close>

lemma grown_memory_ok:
  assumes "\<not> (ucast new :: u64) * of_nat WABT_PAGE_SIZE > 0xffffffff"
    and "\<not> new > (if lim_has_max l then ucast (lim_max l) else of_nat WABT_MAX_PAGES)"
  shows "memory_ok (mem\<lparr>page_limits := l\<lparr>lim_initial := ucast (new :: u32)\<rparr>,
    memory_data := bytes_resize (unat (new * of_nat WABT_PAGE_SIZE)) d\<rparr>)"
proof -
  have n: "unat new < 2 ^ 32" using unsigned_less [of new, where 'a = nat] by simp
  have u: "unat (ucast new :: u64) = unat new" using n by (simp add: unsigned_ucast_eq take_bit_nat_eq_self)
  have "unat ((ucast new :: u64) * of_nat WABT_PAGE_SIZE) = unat new * 65536"
    using n by (simp add: unat_word_ariths WABT_PAGE_SIZE_def u)
  with assms(1) have le: "unat new * 65536 \<le> 4294967295" by (simp add: word_less_nat_alt)
  then have "unat (new * of_nat WABT_PAGE_SIZE) = unat new * 65536"
    by (simp add: unat_word_ariths WABT_PAGE_SIZE_def)
  moreover have "length (bytes_resize k d) = k" for k by (simp add: bytes_resize_def)
  moreover have "(ucast new :: u64) \<le> lim_max l" if "lim_has_max l"
  proof -
    have "unat new \<le> unat (ucast (lim_max l) :: u32)" using assms(2) that by (simp add: word_le_nat_alt not_less)
    also have "\<dots> \<le> unat (lim_max l)" by (simp add: unsigned_ucast_eq take_bit_nat_less_eq_self)
    finally show ?thesis by (simp add: word_le_nat_alt u)
  qed
  ultimately show ?thesis by (simp add: memory_ok_def u WABT_PAGE_SIZE_def)
qed

lemma PopRep_env: "PopRep s = (r, s1) \<Longrightarrow> st_env s1 = st_env s"
  by (auto simp: PopRep_def Thread_Pop_def i_bind_def i_then_def i_top_def i_set_top_def i_thread_def
      value_slot_def i_return_def split: if_splits)

lemma orderly_MemoryGrow_by [orderly]: "orderly (\<lambda>s. MemoryGrow_by m (memory_at m s) g s)"
proof (rule orderlyI)
  fix s x
  let ?l = "page_limits (memory_at m s)"
  let ?new = "ucast (lim_initial ?l) + g :: u32"
  let ?M = "(memory_at m s)\<lparr>page_limits := ?l\<lparr>lim_initial := ucast ?new\<rparr>,
    memory_data := bytes_resize (unat (?new * of_nat WABT_PAGE_SIZE)) (memory_data (memory_at m s))\<rparr>"
  let ?e = "(st_env s)\<lparr>env_memories := (env_memories (st_env s))[m := ?M]\<rparr>"
  have push: "run_frame s (snd (PushRep w s))" "fst (PushRep w s) \<noteq> IStop IR_Ok"
    "PushRep w (set_tpc x s) = apsnd (set_tpc x) (PushRep w s)" for s x and w :: u32
    using orderly_picks(7) [of w] by (simp_all add: orderly_def)
  have frame: "run_frame s (s\<lparr>st_env := ?e\<rparr>)"
    if "\<not> (ucast ?new :: u64) * of_nat WABT_PAGE_SIZE > 0xffffffff"
      "\<not> ?new > (if lim_has_max ?l then ucast (lim_max ?l) else of_nat WABT_MAX_PAGES)"
    using grown_memory_ok [OF that] by (intro run_frame_env env_frame_memory) (simp_all add: memory_at_def)
  have cases: "MemoryGrow_by m (memory_at m s) g s = PushRep (- 1 :: u32) s \<or>
    run_frame s (s\<lparr>st_env := ?e\<rparr>) \<and>
    MemoryGrow_by m (memory_at m s) g s = PushRep (ucast (lim_initial ?l) :: u32) (s\<lparr>st_env := ?e\<rparr>)"
    using frame
    by (auto simp: MemoryGrow_by_def Let_def i_then_def i_bind_def set_memory_def i_env_def)
  show "run_frame s (snd (MemoryGrow_by m (memory_at m s) g s))"
    "fst (MemoryGrow_by m (memory_at m s) g s) \<noteq> IStop IR_Ok"
    using cases push run_frame_trans [OF _ push(1)] by (metis, metis)
  show "MemoryGrow_by m (memory_at m (set_tpc x s)) g (set_tpc x s) =
      apsnd (set_tpc x) (MemoryGrow_by m (memory_at m s) g s)"
    by (simp add: MemoryGrow_by_def Let_def i_then_def i_bind_def set_memory_def i_env_def push(3) set_tpc_env)
qed

lemma Run_MemoryGrow_alt:
  "Run_MemoryGrow = i_bind ReadMemory (\<lambda>m. i_bind PopRep (\<lambda>g s. MemoryGrow_by m (memory_at m s) g s))"
proof -
  have "i_bind PopRep (MemoryGrow_by m (memory_at m s)) s = i_bind PopRep (\<lambda>g s. MemoryGrow_by m (memory_at m s) g s) s"
    for m s
    by (auto simp: i_bind_def memory_at_def split: prod.split irun.split dest!: PopRep_env)
  then show ?thesis by (simp add: Run_MemoryGrow_def)
qed

lemma orderly_MemoryGrow [orderly]: "orderly Run_MemoryGrow"
  by (simp add: Run_MemoryGrow_alt orderly)

section \<open>Operators\<close>

lemma orderly_operators [orderly]:
  "orderly (Thread_Unop f)" "orderly (Thread_Binop g)"
  "(\<And>x. h x \<noteq> NumTrap IR_Ok) \<Longrightarrow> orderly (Thread_UnopTrap h)"
  "(\<And>x y. k x y \<noteq> NumTrap IR_Ok) \<Longrightarrow> orderly (Thread_BinopTrap k)"
  by (simp_all add: Thread_Unop_def Thread_Binop_def Thread_UnopTrap_def Thread_BinopTrap_def orderly)

lemma num_list_trap: "NumTrap r \<notin> set xs \<Longrightarrow> num_list xs \<noteq> NumTrap r"
  by (induction xs rule: num_list.induct) (auto split: num.splits)

lemma num_map_trap [simp]: "num_map f n = NumTrap r \<longleftrightarrow> n = NumTrap r"
  by (cases n) simp_all

lemma orderly_simd [orderly]:
  "(\<And>x. h x \<noteq> NumTrap IR_Ok) \<Longrightarrow> orderly (Thread_SimdUnop c h)"
  "(\<And>x y. k x y \<noteq> NumTrap IR_Ok) \<Longrightarrow> orderly (Thread_SimdBinop c k)"
  unfolding Thread_SimdUnop_def Thread_SimdBinop_def SimdUnop_def SimdBinop_def
  by (intro orderly; simp; rule num_list_trap; force)+

lemma num_never_Ok [simp]:
  "num_ok1 f x \<noteq> NumTrap r" "num_ok2 g x y \<noteq> NumTrap r"
  "IntDivS l w \<noteq> NumTrap IR_Ok" "IntRemS l w \<noteq> NumTrap IR_Ok"
  "IntDivU l w \<noteq> NumTrap IR_Ok" "IntRemU l w \<noteq> NumTrap IR_Ok" "IntNeg sg a \<noteq> NumTrap IR_Ok"
  "AddSaturate sg mn mx l w \<noteq> NumTrap IR_Ok" "SubSaturate sg mn mx l w \<noteq> NumTrap IR_Ok"
  "IntTrunc sg T R u \<noteq> NumTrap IR_Ok" "IntTruncSat sg T R u \<noteq> NumTrap IR_Ok"
  "SimdExtractLane conv v i \<noteq> NumTrap IR_Ok" "SimdReplaceLane v i lv \<noteq> NumTrap IR_Ok"
  by (simp_all add: num_ok1_def num_ok2_def IntDivS_def IntRemS_def IntDivU_def IntRemU_def IntNeg_def
      AddSaturate_def SubSaturate_def int_arith_def IntTrunc_def IntTruncSat_def float_cast_def Let_def
      SimdExtractLane_def SimdReplaceLane_def split: option.split)

section \<open>Host functions\<close>

text \<open>The callbacks of host functions are outside the interpreter: they have to keep the frame.\<close>

definition host_ok :: "host_callback \<Rightarrow> bool" where
  "host_ok cb \<longleftrightarrow> (\<forall>f sig ps e. env_frame e (snd (snd (cb f sig ps e))))"

lemma orderly_host_call:
  assumes "host_ok cb"
  shows "orderly (host_call cb f sig ps)"
proof (rule orderlyI)
  fix s :: istate and x
  obtain r res e where cb: "cb f sig ps (st_env s) = (r, res, e)" by (metis prod_cases3)
  moreover have "env_frame (st_env s) (snd (snd (cb f sig ps (st_env s))))" using assms by (simp add: host_ok_def)
  ultimately show "run_frame s (snd (host_call cb f sig ps s))"
    by (simp add: host_call_def run_frame_env)
  show "fst (host_call cb f sig ps s) \<noteq> IStop IR_Ok"
    "host_call cb f sig ps (set_tpc x s) = apsnd (set_tpc x) (host_call cb f sig ps s)"
    by (simp_all add: host_call_def set_tpc_env split: prod.split)
qed

lemma orderly_CallHost_loops [orderly]:
  "orderly (CallHost_pop ts ps)" "orderly (CallHost_push ts rs)"
  subgoal by (induction ts ps rule: CallHost_pop.induct) (simp_all add: orderly)
  subgoal by (induction ts rs rule: CallHost_push.induct) (simp_all add: orderly)
  done

lemma orderly_CallHost:
  assumes "host_ok cb"
  shows "orderly (Thread_CallHost cb func)"
proof -
  define F where "F = (\<lambda>sigs. if unat (func_sig_index func) < length sigs then
        (let sig = sigs ! unat (func_sig_index func);
             num_results = length (sig_result_types sig)
         in i_bind (CallHost_pop (rev (sig_param_types sig)) []) (\<lambda>params.
            i_bind (host_call cb func sig params) (\<lambda>(call_result, results).
            i_then (i_trap_if (call_result \<noteq> IR_Ok) IR_TrapHostTrapped)
              (CallHost_push (sig_result_types sig) (map results [0..<num_results])))))
      else i_undef)"
  have "orderly (\<lambda>s. F (env_sigs (st_env s)) s)"
    by (rule orderly_get) (auto simp: F_def Let_def orderly orderly_host_call [OF assms] split: prod.split)
  moreover have "Thread_CallHost cb func = (\<lambda>s. F (env_sigs (st_env s)) s)"
    by (auto simp: Thread_CallHost_def F_def Let_def i_undef_def)
  ultimately show ?thesis by simp
qed

section \<open>Instructions\<close>

lemma orderly_locals [orderly]:
  "orderly Run_Select" "orderly Run_Br" "orderly Run_BrIf" "orderly Run_InterpBrUnless" "orderly Run_BrTable"
  "orderly Run_GetLocal" "orderly Run_SetLocal" "orderly Run_TeeLocal" "orderly Run_Call" "orderly Run_InterpDropKeep"
  by (simp_all add: Run_Select_def Run_Br_def Run_BrIf_def Run_InterpBrUnless_def Run_BrTable_def read_table_entry_at_def
      Run_GetLocal_def Run_SetLocal_def Run_TeeLocal_def Run_Call_def Run_InterpDropKeep_def Let_def orderly
      split: prod.split)

lemma orderly_GetGlobal [orderly]: "orderly Run_GetGlobal"
  unfolding Run_GetGlobal_def
  by (rule orderly_bind [OF orderly_reads(2)])
    (rule orderly_guard [where h = "\<lambda>s. env_globals (st_env s)" and C = "\<lambda>gs. unat i < length gs"
        and F = "\<lambda>gs. Thread_Push (tv_value (global_typed_value (gs ! unat i)))" for i]; simp add: orderly)

lemma global_frame_update:
  "global_frame (gs[i := (gs ! i)\<lparr>global_typed_value := (global_typed_value (gs ! i))\<lparr>tv_value := v\<rparr>\<rparr>]) = global_frame gs"
proof (cases "i < length gs")
  case True
  then show ?thesis by (intro nth_equalityI) (auto simp: global_frame_def nth_list_update)
next
  case False
  then show ?thesis by (simp add: list_update_beyond)
qed

lemma orderly_SetGlobal [orderly]: "orderly Run_SetGlobal"
proof -
  have "orderly (i_env (\<lambda>e. let g = env_globals e ! i
      in e\<lparr>env_globals := (env_globals e)[i := g\<lparr>global_typed_value := (global_typed_value g)\<lparr>tv_value := v\<rparr>\<rparr>]\<rparr>))" for i v
    by (rule orderly_env) (simp add: Let_def env_frame_def global_frame_update)
  note set = orderly_bind [OF orderly_picks(5) this]
  show ?thesis
    unfolding Run_SetGlobal_def
    by (rule orderly_bind [OF orderly_reads(2)],
        rule orderly_guard [where h = "\<lambda>s. env_globals (st_env s)" and C = "\<lambda>gs. unat i < length gs"
          and F = "\<lambda>_. F" for i F]; simp add: set)
qed

lemma orderly_InterpAlloca [orderly]: "orderly Run_InterpAlloca"
proof -
  have "orderly (\<lambda>s. if a + b \<le> length (value_stack (st_thread s))
       then i_thread (\<lambda>t. t\<lparr>value_stack := take a (value_stack t) @ replicate b 0 @ drop (a + b) (value_stack t)\<rparr>) s
       else (IUndef, s))" for a b
    by (rule orderlyI) (simp_all add: i_thread_def run_frame_def thread_frame_def set_tpc_def)
  then show ?thesis by (simp add: Run_InterpAlloca_def orderly)
qed

lemma orderly_Return [orderly]: "orderly Run_Return"
proof -
  have "orderly (\<lambda>s. (\<lambda>top. if top = 0 then i_return Run_exit_loop
      else i_then (i_bind Thread_PopCall GOTO) (i_return Run_continue)) (call_stack_top (st_thread s)) s)"
    by (rule orderly_get) (simp_all add: orderly)
  moreover have "Run_Return = (\<lambda>s. (\<lambda>top. if top = 0 then i_return Run_exit_loop
      else i_then (i_bind Thread_PopCall GOTO) (i_return Run_continue)) (call_stack_top (st_thread s)) s)"
    by (auto simp: Run_Return_def i_return_def)
  ultimately show ?thesis by simp
qed

lemma orderly_vector [orderly]:
  "orderly (Run_ExtractLane c)" "orderly (Run_ReplaceLane c')" "orderly Run_V8X16Shuffle" "orderly Run_V128BitSelect"
  "orderly b \<Longrightarrow> orderly (Run_SimdShift L w b)"
proof -
  have "NumTrap IR_Ok \<noteq> shuffle_lane d0 d1 i" for d0 d1 i by (simp add: shuffle_lane_def Let_def)
  then have "V8X16Shuffle v1 v2 v3 \<noteq> NumTrap IR_Ok" for v1 v2 v3
    unfolding V8X16Shuffle_def num_map_trap by (intro num_list_trap) (metis (no_types) ex_map_conv)
  then show "orderly Run_V8X16Shuffle" by (simp add: Run_V8X16Shuffle_def orderly)
qed (simp_all add: Run_ExtractLane_def Run_ReplaceLane_def Run_V128BitSelect_def Run_SimdShift_def orderly)

lemma orderly_InterpCallHost:
  assumes "host_ok cb"
  shows "orderly (Run_InterpCallHost cb)"
  unfolding Run_InterpCallHost_def
  by (rule orderly_bind [OF orderly_reads(2)])
    (rule orderly_guard [where h = "\<lambda>s. env_funcs (st_env s)"
        and C = "\<lambda>fs. unat i < length fs \<and> is_host (fs ! unat i)"
        and F = "\<lambda>fs. i_ignore_result (Thread_CallHost cb (fs ! unat i))" for i];
      simp add: orderly orderly_CallHost [OF assms])

lemma orderly_CallIndirect:
  assumes "host_ok cb"
  shows "orderly (Run_CallIndirect cb)"
proof -
  define F where "F = (\<lambda>(sig_index :: u32) (func_index :: u32) e.
     if length (env_funcs e) \<le> unat func_index then i_undef
     else let func = env_funcs e ! unat func_index in
       case FuncSignaturesAreEqual e (func_sig_index func) sig_index of
         None \<Rightarrow> i_undef
       | Some same \<Rightarrow>
           i_then (i_trap_if (\<not> same) IR_TrapIndirectCallSignatureMismatch)
           (if is_host func then i_ignore_result (Thread_CallHost cb func)
            else i_then Thread_PushCall (GOTO (func_offset func))))"
  have "orderly (\<lambda>s. F sig_index func_index (st_env s) s)" for sig_index func_index
    by (rule orderly_get) (simp_all add: F_def Let_def orderly orderly_CallHost [OF assms] split: option.split)
  moreover have "CallIndirect_func cb sig_index func_index = (\<lambda>s. F sig_index func_index (st_env s) s)"
    for sig_index func_index
    by (auto simp: CallIndirect_func_def F_def Let_def i_undef_def fun_eq_iff split: option.split)
  ultimately have func: "orderly (CallIndirect_func cb sig_index func_index)" for sig_index func_index by simp
  show ?thesis
    unfolding Run_CallIndirect_def
    by (rule orderly_bind [OF orderly_reads(2)])
      (rule orderly_guard [where h = "\<lambda>s. env_tables (st_env s)" and C = "\<lambda>ts. unat i < length ts"
          and F = "\<lambda>ts. CallIndirect_entry cb (ts ! unat i)" for i];
        simp add: CallIndirect_entry_def Let_def orderly func)
qed

section \<open>The switch\<close>

lemma orderly_tables:
  "list_all (orderly \<circ> snd) Run_load_store" "list_all (orderly \<circ> snd) Run_atomic_access"
  "list_all (orderly \<circ> snd) Run_atomic_rmw" "list_all (orderly \<circ> snd) Run_atomic_cmpxchg"
  "list_all (orderly \<circ> snd) Run_i32" "list_all (orderly \<circ> snd) Run_i64"
  "list_all (orderly \<circ> snd) (Run_f32 nan)" "list_all (orderly \<circ> snd) (Run_f64 nan)"
  "list_all (orderly \<circ> snd) Run_trunc" "list_all (orderly \<circ> snd) (Run_convert nan)"
  "list_all (orderly \<circ> snd) Run_rot_extend" "list_all (orderly \<circ> snd) Run_interp"
  "list_all (orderly \<circ> snd) Run_v128_access" "list_all (orderly \<circ> snd) Run_lane"
  "list_all (orderly \<circ> snd) Run_simd_int" "list_all (orderly \<circ> snd) Run_simd_shift"
  "list_all (orderly \<circ> snd) Run_v128_bits" "list_all (orderly \<circ> snd) Run_simd_eq"
  "list_all (orderly \<circ> snd) Run_simd_ord" "list_all (orderly \<circ> snd) (Run_simd_float nan)"
  by (simp_all add: Run_load_store_def Run_atomic_access_def Run_atomic_rmw_def Run_atomic_cmpxchg_def
      Run_i32_def Run_i64_def Run_f32_def Run_f64_def Run_trunc_def Run_convert_def Run_rot_extend_def
      Run_interp_def Run_v128_access_def Run_lane_def Run_simd_int_def Run_simd_shift_def Run_v128_bits_def
      Run_simd_eq_def Run_simd_ord_def Run_simd_float_def orderly)

lemma orderly_control: "host_ok cb \<Longrightarrow> list_all (orderly \<circ> snd) (Run_control cb)"
  by (simp add: Run_control_def orderly orderly_CallIndirect orderly_InterpCallHost)

lemma orderly_instruction:
  assumes "host_ok cb"
  shows "orderly (Run_instruction cb nan)"
proof -
  have "list_all (orderly \<circ> snd) (Run_table cb nan)"
    using orderly_control [OF assms] by (simp only: Run_table_def list_all_append orderly_tables simp_thms)
  then have "orderly f" if "map_of (Run_table cb nan) name = Some f" for name f
    using map_of_SomeD [OF that] by (auto simp: list_all_iff)
  then have "orderly (Run_switch cb nan name)" for name
    by (auto simp: Run_switch_def orderly split: option.split)
  moreover have "orderly ReadOpcode" by (simp add: ReadOpcode_def orderly)
  ultimately show ?thesis by (simp add: Run_instruction_def orderly)
qed

end
