(* ===== verification/Ieee754Spec.thy ===== *)
theory Ieee754Spec
  imports Ieee754
begin

text \<open>
  The order of floats and their values: a magnitude counts the multiples of the least subnormal
  number strictly monotonically, so the range of a conversion is an interval of bit patterns.
\<close>

section \<open>Formats\<close>

text \<open>The number a finite magnitude stands for, in units of the least subnormal number.\<close>

definition fl_scaled :: "float_traits \<Rightarrow> nat \<Rightarrow> nat" where
  "fl_scaled t m =
     (if m div 2 ^ kSigBits t = 0 then m
      else (2 ^ kSigBits t + m mod 2 ^ kSigBits t) * 2 ^ (m div 2 ^ kSigBits t - 1))"

text \<open>The exponent of that unit, negated.\<close>

definition fl_unit :: "float_traits \<Rightarrow> nat" where
  "fl_unit t = nat (kExpBias t + int (kSigBits t) - 1)"

text \<open>The integer part of the magnitude.\<close>

definition fl_trunc :: "float_traits \<Rightarrow> nat \<Rightarrow> nat" where
  "fl_trunc t m = fl_scaled t m div 2 ^ fl_unit t"

locale ieee_format =
  fixes t :: float_traits
  assumes sig_pos: "0 < kSigBits t" and exp_wide: "kSigBits t + 2 < kBits t"
begin

lemma kBits_split: "kSignShift t = kSigBits t + kExpBits t" "1 < kExpBits t"
  using exp_wide by (simp_all add: kSignShift_def kExpBits_def)

lemma bias_nonneg: "1 \<le> kExpBias t"
proof -
  have "(2 :: int) ^ 1 \<le> 2 ^ (kExpBits t - 1)"
    using kBits_split(2) by (intro power_increasing) simp_all
  then show ?thesis by (simp add: kExpBias_def kMinExp_def kMaxExp_def)
qed

lemma fl_unit_int: "int (fl_unit t) = kExpBias t + int (kSigBits t) - 1"
  using bias_nonneg by (simp add: fl_unit_def)

lemma fl_scaled_Suc: "fl_scaled t m < fl_scaled t (Suc m)"
proof -
  let ?p = "2 ^ kSigBits t :: nat"
  have p: "1 < ?p" using sig_pos one_less_power [of "2 :: nat"] by simp
  define E f where "E = m div ?p" and "f = m mod ?p"
  have m: "m = E * ?p + f" unfolding E_def f_def by (rule div_mult_mod_eq [symmetric])
  have f: "f < ?p" by (simp add: f_def)
  show ?thesis
  proof (cases "Suc f = ?p")
    case True
    have "Suc m = Suc E * ?p" using m True by simp
    then have d: "Suc m div ?p = Suc E" and r: "Suc m mod ?p = 0" using p by simp_all
    have b: "fl_scaled t (Suc m) = ?p * 2 ^ E" unfolding fl_scaled_def d r by simp
    show ?thesis
    proof (cases E)
      case 0
      then have "fl_scaled t m = f" using f by (simp add: fl_scaled_def m)
      then show ?thesis unfolding b using f 0 by simp
    next
      case (Suc k)
      have "fl_scaled t m = (?p + f) * 2 ^ k"
        unfolding fl_scaled_def E_def [symmetric] f_def [symmetric] by (simp add: Suc)
      also have "\<dots> < (?p + ?p) * 2 ^ k" using f by simp
      finally show ?thesis unfolding b Suc by (simp add: algebra_simps)
    qed
  next
    case False
    then have f1: "Suc f < ?p" using f by simp
    have s: "Suc m = Suc f + E * ?p" using m by simp
    have d: "Suc m div ?p = E" and r: "Suc m mod ?p = Suc f"
      unfolding s using f1 p by (simp_all only: div_mult_self1 mod_mult_self1) simp_all
    show ?thesis
      unfolding fl_scaled_def d r E_def [symmetric] f_def [symmetric] by simp
  qed
qed

lemma fl_scaled_mono: "m < n \<Longrightarrow> fl_scaled t m < fl_scaled t n"
  by (rule lift_Suc_mono_less [where f = "fl_scaled t"]) (rule fl_scaled_Suc)

lemma fl_scaled_less_iff: "fl_scaled t m < fl_scaled t n \<longleftrightarrow> m < n"
  using fl_scaled_mono [of m n] fl_scaled_mono [of n m] by (metis nat_neq_iff order_less_asym)

lemma fl_scaled_le_iff: "fl_scaled t m \<le> fl_scaled t n \<longleftrightarrow> m \<le> n"
  using fl_scaled_less_iff [of n m] by (simp add: not_less [symmetric])

section \<open>Decoding\<close>

definition fl_sig_of :: "nat \<Rightarrow> nat" where
  "fl_sig_of m = (if m div 2 ^ kSigBits t = 0 then m else 2 ^ kSigBits t + m mod 2 ^ kSigBits t)"

definition fl_shift_of :: "nat \<Rightarrow> nat" where
  "fl_shift_of m = m div 2 ^ kSigBits t - 1"

lemma fl_scaled_split: "fl_scaled t m = fl_sig_of m * 2 ^ fl_shift_of m"
  by (simp add: fl_scaled_def fl_sig_of_def fl_shift_of_def)

lemma fl_sign_make: "m < 2 ^ kSignShift t \<Longrightarrow> fl_sign t (fl_make t s m) = s"
  using div_mult_self1 [of "2 ^ kSignShift t" m 1] by (simp add: fl_sign_def fl_make_def add.commute [of m])

lemma fl_decode_make:
  assumes m: "m < 2 ^ kSignShift t"
  shows "fl_decode t (fl_make t s m) =
    (if m < fl_inf_mag t then FFin s (fl_sig_of m) (int (fl_shift_of m) - int (fl_unit t))
     else if m = fl_inf_mag t then FInf s else FNan)"
proof -
  let ?S = "2 ^ kSigBits t :: nat" and ?X = "2 ^ kExpBits t :: nat"
  have XS: "2 ^ kSignShift t = ?X * ?S" by (simp add: kBits_split power_add)
  define E f where "E = m div ?S" and "f = m mod ?S"
  have m_eq: "m = E * ?S + f" unfolding E_def f_def by (rule div_mult_mod_eq [symmetric])
  have f: "f < ?S" by (simp add: f_def)
  have E: "E < ?X" using m unfolding XS E_def by (simp add: less_mult_imp_div_less)
  have b: "fl_make t s m = (if s then ?X else 0) * ?S + m" by (simp add: fl_make_def XS)
  have sign: "fl_sign t (fl_make t s m) = s"
    using m by (rule fl_sign_make)
  have sig: "fl_sig t (fl_make t s m) = f"
    by (simp add: fl_sig_def b f_def)
  have "fl_make t s m div ?S = (if s then ?X else 0) + E"
    by (simp add: b E_def div_mult_self3)
  then have ex: "fl_exp t (fl_make t s m) = E" using E by (simp add: fl_exp_def)
  have X1: "kExpMask t = ?X - 1" by (simp add: kExpMask_def)
  have inf: "fl_inf_mag t = (?X - 1) * ?S" by (simp add: fl_inf_mag_def X1)
  show ?thesis
  proof (cases "E = ?X - 1")
    case True
    have "\<not> m < fl_inf_mag t" "m = fl_inf_mag t \<longleftrightarrow> f = 0"
      unfolding inf m_eq True by simp_all
    then show ?thesis by (simp add: fl_decode_def ex sig sign True X1)
  next
    case False
    then have "Suc E \<le> ?X - 1" using E by simp
    then have "Suc E * ?S \<le> (?X - 1) * ?S" by (rule mult_le_mono1)
    then have lt: "m < fl_inf_mag t" unfolding inf m_eq using f by simp
    show ?thesis
    proof (cases "E = 0")
      case True
      then have "fl_sig_of m = f" "fl_shift_of m = 0"
        using f by (simp_all add: fl_sig_of_def fl_shift_of_def m_eq)
      then show ?thesis using lt False True
        by (simp add: fl_decode_def ex sig sign X1 fl_unit_int)
    next
      case False2: False
      then have "fl_sig_of m = ?S + f" "fl_shift_of m = E - 1"
        by (simp_all add: fl_sig_of_def fl_shift_of_def E_def f_def)
      moreover have "int (E - 1) = int E - 1" using False2 by simp
      ultimately show ?thesis using lt False False2
        by (simp add: fl_decode_def ex sig sign X1 fl_unit_int)
    qed
  qed
qed

lemma fl_is_nan_make:
  "m < 2 ^ kSignShift t \<Longrightarrow> fl_is_nan t (fl_make t s m) \<longleftrightarrow> fl_inf_mag t < m"
  by (auto simp: fl_is_nan_def fl_decode_make)

lemma fl_key_make:
  assumes "m < 2 ^ kSignShift t"
  shows "fl_key t (fl_make t s m) = fl_signed s m"
proof -
  have "fl_sign t (fl_make t s m) = s" using assms by (rule fl_sign_make)
  moreover have "fl_make t s m mod 2 ^ kSignShift t = m" using assms by (simp add: fl_make_def)
  ultimately show ?thesis by (simp add: fl_key_def)
qed

section \<open>Truncation\<close>

lemma fl_to_int_make:
  assumes "m < 2 ^ kSignShift t"
  shows "fl_to_int t (fl_make t s m) =
    (if m < fl_inf_mag t then Some (fl_signed s (fl_trunc t m)) else None)"
proof (cases "m < fl_inf_mag t")
  case True
  let ?M = "fl_sig_of m" and ?k = "fl_shift_of m" and ?U = "fl_unit t"
  have "(if 0 \<le> int ?k - int ?U then ?M * 2 ^ nat (int ?k - int ?U)
         else ?M div 2 ^ nat (- (int ?k - int ?U))) = ?M * 2 ^ ?k div 2 ^ ?U"
  proof (cases "?U \<le> ?k")
    case True
    then have "(2 :: nat) ^ ?k = 2 ^ ?U * 2 ^ (?k - ?U)" by (simp flip: power_add)
    then have "?M * 2 ^ ?k = 2 ^ ?U * (?M * 2 ^ (?k - ?U))" by (simp only: ac_simps)
    then have "?M * 2 ^ ?k div 2 ^ ?U = ?M * 2 ^ (?k - ?U)" by (simp only: nonzero_mult_div_cancel_left) simp
    moreover have "nat (int ?k - int ?U) = ?k - ?U" by simp
    ultimately show ?thesis using True by simp
  next
    case False
    then have "(2 :: nat) ^ ?U = 2 ^ ?k * 2 ^ (?U - ?k)" by (simp flip: power_add)
    then have "?M * 2 ^ ?k div 2 ^ ?U = ?M div 2 ^ (?U - ?k)" by (simp add: mult.commute)
    moreover have "nat (- (int ?k - int ?U)) = ?U - ?k" by simp
    ultimately show ?thesis using False by simp
  qed
  then show ?thesis using True assms by (simp add: fl_to_int_def fl_decode_make fl_scaled_split fl_trunc_def)
next
  case False
  then show ?thesis using assms by (simp add: fl_to_int_def fl_decode_make)
qed

lemma trunc_le_iff:
  "fl_trunc t m \<le> N \<longleftrightarrow> fl_scaled t m < (N + 1) * 2 ^ fl_unit t"
  by (simp add: fl_trunc_def div_less_iff_less_mult less_Suc_eq_le [symmetric])

lemma trunc_le_below:
  assumes "fl_scaled t c = (N + 1) * 2 ^ fl_unit t"
  shows "fl_trunc t m \<le> N \<longleftrightarrow> m < c"
  unfolding trunc_le_iff assms [symmetric] by (rule fl_scaled_less_iff)

lemma trunc_le_upto:
  assumes "fl_scaled t c < (N + 1) * 2 ^ fl_unit t"
    and "(N + 1) * 2 ^ fl_unit t \<le> fl_scaled t (Suc c)"
  shows "fl_trunc t m \<le> N \<longleftrightarrow> m \<le> c"
  unfolding trunc_le_iff using assms fl_scaled_le_iff [of m c] fl_scaled_le_iff [of "Suc c" m]
  by linarith

lemma trunc_ge:
  assumes "fl_scaled t c = N * 2 ^ fl_unit t" and "c \<le> m"
  shows "N \<le> fl_trunc t m"
proof -
  have "N * 2 ^ fl_unit t \<le> fl_scaled t m" using assms by (metis fl_scaled_le_iff)
  then show ?thesis by (simp add: fl_trunc_def less_eq_div_iff_mult_less_eq)
qed

end

interpretation f32: ieee_format float_traits32
  by unfold_locales (simp_all add: float_traits32_def)

interpretation f64: ieee_format float_traits64
  by unfold_locales (simp_all add: float_traits64_def)

end
