(* ===== verification/InterpNumSpec.thy ===== *)
theory InterpNumSpec
  imports InterpNum Ieee754Spec
begin

text \<open>
  What the numeric instructions of the interpreter compute: the conversions from floating point
  against the definitions of the WebAssembly specification, trapping and saturating, and demotion
  against IEEE 754 rounding.
\<close>

section \<open>Bit patterns\<close>

text \<open>A bit pattern is a sign and a magnitude.\<close>

lemma float_pattern:
  fixes v :: u32
  obtains s m where "m < 2 ^ 31" "unat v = fl_make float_traits32 s m"
    "unat v = (if s then 2147483648 + m else m)"
proof (rule that)
  have "unat v < 2 ^ 32" using unsigned_less [of v, where 'a = nat] by simp
  then show "unat v mod 2 ^ 31 < 2 ^ 31"
    "unat v = fl_make float_traits32 (2147483648 \<le> unat v) (unat v mod 2 ^ 31)"
    "unat v = (if 2147483648 \<le> unat v then 2147483648 + unat v mod 2 ^ 31 else unat v mod 2 ^ 31)"
    by (auto simp: fl_make_def kSignShift_def float_traits32_def le_mod_geq)
qed

lemma double_pattern:
  fixes v :: u64
  obtains s m where "m < 2 ^ 63" "unat v = fl_make float_traits64 s m"
    "unat v = (if s then 9223372036854775808 + m else m)"
proof (rule that)
  have "unat v < 2 ^ 64" using unsigned_less [of v, where 'a = nat] by simp
  then show "unat v mod 2 ^ 63 < 2 ^ 63"
    "unat v = fl_make float_traits64 (9223372036854775808 \<le> unat v) (unat v mod 2 ^ 63)"
    "unat v = (if 9223372036854775808 \<le> unat v then 9223372036854775808 + unat v mod 2 ^ 63 else unat v mod 2 ^ 63)"
    by (auto simp: fl_make_def kSignShift_def float_traits64_def le_mod_geq)
qed

lemma traits_consts:
  "kSignShift float_traits32 = 31" "kSignShift float_traits64 = 63"
  "kSigBits float_traits32 = 23" "kSigBits float_traits64 = 52"
  "kExpBits float_traits32 = 8" "kExpBits float_traits64 = 11"
  "kExpBias float_traits32 = 127" "kExpBias float_traits64 = 1023"
  "fl_inf_mag float_traits32 = 0x7f800000" "fl_inf_mag float_traits64 = 0x7ff0000000000000"
  "fl_unit float_traits32 = 149" "fl_unit float_traits64 = 1074"
  by (simp_all add: kSignShift_def kExpBits_def kExpBias_def kMinExp_def kMaxExp_def fl_inf_mag_def
      kExpMask_def fl_unit_def float_traits32_def float_traits64_def)

lemma kFormat_traits [simp]:
  "kFormat FloatTraits_float = float_traits32" "kFormat FloatTraits_double = float_traits64"
  by (simp_all add: FloatTraits_float_def FloatTraits_double_def)

lemma IsNan_float: "IsNan FloatTraits_float v \<longleftrightarrow> fl_is_nan float_traits32 (unat v)"
proof -
  obtain s m where m: "m < 2 ^ 31" "unat v = fl_make float_traits32 s m"
    and u: "unat v = (if s then 2147483648 + m else m)" by (rule float_pattern)
  have "fl_is_nan float_traits32 (unat v) \<longleftrightarrow> 0x7f800000 < m"
    unfolding m(2) using m(1) by (simp add: f32.fl_is_nan_make traits_consts)
  also have "\<dots> \<longleftrightarrow> IsNan FloatTraits_float v"
    using m(1) u by (auto simp: IsNan_def FloatTraits_float_def word_less_nat_alt)
  finally show ?thesis by simp
qed

lemma IsNan_double: "IsNan FloatTraits_double v \<longleftrightarrow> fl_is_nan float_traits64 (unat v)"
proof -
  obtain s m where m: "m < 2 ^ 63" "unat v = fl_make float_traits64 s m"
    and u: "unat v = (if s then 9223372036854775808 + m else m)" by (rule double_pattern)
  have "fl_is_nan float_traits64 (unat v) \<longleftrightarrow> 0x7ff0000000000000 < m"
    unfolding m(2) using m(1) by (simp add: f64.fl_is_nan_make traits_consts)
  also have "\<dots> \<longleftrightarrow> IsNan FloatTraits_double v"
    using m(1) u by (auto simp: IsNan_def FloatTraits_double_def word_less_nat_alt)
  finally show ?thesis by simp
qed

section \<open>Conversion to integers\<close>

text \<open>
  The specification: \<open>trunc_s\<close> and \<open>trunc_u\<close> are partial functions, defined where the truncated
  value is in the range of the type; the saturating forms clamp to it, NaN gives 0.
\<close>

definition fl_fits :: "float_traits \<Rightarrow> int \<Rightarrow> int \<Rightarrow> nat \<Rightarrow> bool" where
  "fl_fits t lo hi b = (case fl_to_int t b of None \<Rightarrow> False | Some k \<Rightarrow> lo \<le> k \<and> k \<le> hi)"

definition wasm_trunc :: "bool \<Rightarrow> float_traits \<Rightarrow> nat \<Rightarrow> 'r::len word num" where
  "wasm_trunc sg t b =
     (if fl_is_nan t b then NumTrap IR_TrapInvalidConversionToInteger
      else case fl_to_int t b of
             None \<Rightarrow> NumTrap IR_TrapIntegerOverflow
           | Some k \<Rightarrow> if int_min sg TYPE('r) \<le> k \<and> k \<le> int_max sg TYPE('r)
                       then NumOk (word_of_int k) else NumTrap IR_TrapIntegerOverflow)"

definition wasm_trunc_sat :: "bool \<Rightarrow> float_traits \<Rightarrow> nat \<Rightarrow> 'r::len word" where
  "wasm_trunc_sat sg t b =
     (if fl_is_nan t b then 0
      else case fl_to_int t b of
             None \<Rightarrow> if fl_sign t b then word_of_int (int_min sg TYPE('r))
                     else word_of_int (int_max sg TYPE('r))
           | Some k \<Rightarrow> word_of_int (max (int_min sg TYPE('r)) (min (int_max sg TYPE('r)) k)))"

lemma float_cast_fits:
  "fl_fits t (int_min sg TYPE('r)) (int_max sg TYPE('r)) b \<Longrightarrow>
   (float_cast sg t b :: 'r::len word num) = wasm_trunc sg t b"
  by (auto simp: fl_fits_def float_cast_def wasm_trunc_def fl_to_int_def fl_is_nan_def
      split: option.splits fl.splits)

lemma wasm_trunc_misfit:
  "\<lbrakk>\<not> fl_fits t (int_min sg TYPE('r)) (int_max sg TYPE('r)) b; \<not> fl_is_nan t b\<rbrakk> \<Longrightarrow>
   (wasm_trunc sg t b :: 'r::len word num) = NumTrap IR_TrapIntegerOverflow"
  by (auto simp: fl_fits_def wasm_trunc_def split: option.splits)

lemma fits_not_nan: "fl_fits t lo hi b \<Longrightarrow> \<not> fl_is_nan t b"
  by (auto simp: fl_fits_def fl_is_nan_def fl_to_int_def split: option.splits)

context ieee_format
begin

lemma fits_make:
  assumes "m < 2 ^ kSignShift t"
  shows "fl_fits t (- int lo) (int hi) (fl_make t s m) \<longleftrightarrow>
    m < fl_inf_mag t \<and> fl_trunc t m \<le> (if s then lo else hi)"
  using assms by (simp add: fl_fits_def fl_to_int_make fl_signed_def)

end

lemma wasm_trunc_nan: "fl_is_nan t b \<Longrightarrow> wasm_trunc sg t b = NumTrap IR_TrapInvalidConversionToInteger"
  by (simp add: wasm_trunc_def)

text \<open>The largest magnitude whose truncation is at most a bound.\<close>

lemma scaled_float:
  "fl_scaled float_traits32 0x3f800000 = (0 + 1) * 2 ^ fl_unit float_traits32"
  "fl_scaled float_traits32 0x4f000000 = (2147483647 + 1) * 2 ^ fl_unit float_traits32"
  "fl_scaled float_traits32 0x4f800000 = (4294967295 + 1) * 2 ^ fl_unit float_traits32"
  "fl_scaled float_traits32 0x5f000000 = (9223372036854775807 + 1) * 2 ^ fl_unit float_traits32"
  "fl_scaled float_traits32 0x5f800000 = (18446744073709551615 + 1) * 2 ^ fl_unit float_traits32"
  by (simp_all add: fl_scaled_def traits_consts)

lemma scaled_double:
  "fl_scaled float_traits64 0x3ff0000000000000 = (0 + 1) * 2 ^ fl_unit float_traits64"
  "fl_scaled float_traits64 0x41e0000000000000 = (2147483647 + 1) * 2 ^ fl_unit float_traits64"
  "fl_scaled float_traits64 0x41f0000000000000 = (4294967295 + 1) * 2 ^ fl_unit float_traits64"
  "fl_scaled float_traits64 0x43e0000000000000 = (9223372036854775807 + 1) * 2 ^ fl_unit float_traits64"
  "fl_scaled float_traits64 0x43f0000000000000 = (18446744073709551615 + 1) * 2 ^ fl_unit float_traits64"
  "fl_scaled float_traits64 0x41e0000000200000 = (2147483648 + 1) * 2 ^ fl_unit float_traits64"
  by (simp_all add: fl_scaled_def traits_consts)

lemma scaled_float_upto:
  "fl_trunc float_traits32 m \<le> 2147483648 \<longleftrightarrow> m \<le> 0x4f000000"
  "fl_trunc float_traits32 m \<le> 9223372036854775808 \<longleftrightarrow> m \<le> 0x5f000000"
  by (rule f32.trunc_le_upto; simp add: fl_scaled_def traits_consts)+

lemma scaled_double_upto:
  "fl_trunc float_traits64 m \<le> 9223372036854775808 \<longleftrightarrow> m \<le> 0x43e0000000000000"
  by (rule f64.trunc_le_upto; simp add: fl_scaled_def traits_consts)

lemmas float_bounds = scaled_float [THEN f32.trunc_le_below] scaled_float_upto
  scaled_float(1) [THEN f32.trunc_le_below, unfolded le_zero_eq]
lemmas double_bounds = scaled_double [THEN f64.trunc_le_below] scaled_double_upto
  scaled_double(1) [THEN f64.trunc_le_below, unfolded le_zero_eq]

text \<open>Each range test of the code is the range of the integer type, but for two of them.\<close>

lemma int_ranges:
  "int_min True TYPE(32) = - int 2147483648" "int_max True TYPE(32) = int 2147483647"
  "int_min False TYPE(32) = - int 0" "int_max False TYPE(32) = int 4294967295"
  "int_min True TYPE(64) = - int 9223372036854775808" "int_max True TYPE(64) = int 9223372036854775807"
  "int_min False TYPE(64) = - int 0" "int_max False TYPE(64) = int 18446744073709551615"
  by (simp_all add: int_min_def int_max_def)

lemma range_float:
  "IsConversionInRange_int32_float v \<longleftrightarrow>
     fl_fits float_traits32 (int_min True TYPE(32)) (int_max True TYPE(32)) (unat v)"
  "IsConversionInRange_int64_float v \<longleftrightarrow>
     fl_fits float_traits32 (int_min True TYPE(64)) (int_max True TYPE(64)) (unat v)"
  "IsConversionInRange_uint32_float v \<longleftrightarrow>
     fl_fits float_traits32 (int_min False TYPE(32)) (int_max False TYPE(32)) (unat v)"
  "IsConversionInRange_uint64_float v \<longleftrightarrow>
     fl_fits float_traits32 (int_min False TYPE(64)) (int_max False TYPE(64)) (unat v)"
proof -
  obtain s m where m: "m < 2 ^ 31" "unat v = fl_make float_traits32 s m"
    and u: "unat v = (if s then 2147483648 + m else m)" by (rule float_pattern)
  have shift: "m < 2 ^ kSignShift float_traits32" using m(1) by (simp add: traits_consts)
  note fits = f32.fits_make [OF shift, of _ _ s, folded m(2)]
  show "IsConversionInRange_int32_float v \<longleftrightarrow>
     fl_fits float_traits32 (int_min True TYPE(32)) (int_max True TYPE(32)) (unat v)"
    unfolding int_ranges fits using u m(1)
    by (auto simp: IsConversionInRange_int32_float_def float_bounds traits_consts FloatTraits_float_def
        word_less_nat_alt word_le_nat_alt)
  show "IsConversionInRange_int64_float v \<longleftrightarrow>
     fl_fits float_traits32 (int_min True TYPE(64)) (int_max True TYPE(64)) (unat v)"
    unfolding int_ranges fits using u m(1)
    by (auto simp: IsConversionInRange_int64_float_def float_bounds traits_consts FloatTraits_float_def
        word_less_nat_alt word_le_nat_alt)
  show "IsConversionInRange_uint32_float v \<longleftrightarrow>
     fl_fits float_traits32 (int_min False TYPE(32)) (int_max False TYPE(32)) (unat v)"
    unfolding int_ranges fits using u m(1)
    by (auto simp: IsConversionInRange_uint32_float_def float_bounds traits_consts FloatTraits_float_def
        word_less_nat_alt word_le_nat_alt)
  show "IsConversionInRange_uint64_float v \<longleftrightarrow>
     fl_fits float_traits32 (int_min False TYPE(64)) (int_max False TYPE(64)) (unat v)"
    unfolding int_ranges fits using u m(1)
    by (auto simp: IsConversionInRange_uint64_float_def float_bounds traits_consts FloatTraits_float_def
        word_less_nat_alt word_le_nat_alt)
qed

lemma range_double:
  "IsConversionInRange_int64_double v \<longleftrightarrow>
     fl_fits float_traits64 (int_min True TYPE(64)) (int_max True TYPE(64)) (unat v)"
  "IsConversionInRange_uint64_double v \<longleftrightarrow>
     fl_fits float_traits64 (int_min False TYPE(64)) (int_max False TYPE(64)) (unat v)"
  "IsConversionInRange_int32_double v \<or>
     0x41dfffffffc00000 < v \<and> v < 0x41e0000000000000 \<or> 0xc1e0000000000000 < v \<and> v < 0xc1e0000000200000
   \<longleftrightarrow> fl_fits float_traits64 (int_min True TYPE(32)) (int_max True TYPE(32)) (unat v)"
  "IsConversionInRange_uint32_double v \<or> 0x41efffffffe00000 < v \<and> v < 0x41f0000000000000
   \<longleftrightarrow> fl_fits float_traits64 (int_min False TYPE(32)) (int_max False TYPE(32)) (unat v)"
proof -
  obtain s m where m: "m < 2 ^ 63" "unat v = fl_make float_traits64 s m"
    and u: "unat v = (if s then 9223372036854775808 + m else m)" by (rule double_pattern)
  have shift: "m < 2 ^ kSignShift float_traits64" using m(1) by (simp add: traits_consts)
  note fits = f64.fits_make [OF shift, of _ _ s, folded m(2)]
  note defs = double_bounds traits_consts FloatTraits_double_def word_less_nat_alt word_le_nat_alt
  show "IsConversionInRange_int64_double v \<longleftrightarrow>
     fl_fits float_traits64 (int_min True TYPE(64)) (int_max True TYPE(64)) (unat v)"
    unfolding int_ranges fits using u m(1) by (auto simp: IsConversionInRange_int64_double_def defs)
  show "IsConversionInRange_uint64_double v \<longleftrightarrow>
     fl_fits float_traits64 (int_min False TYPE(64)) (int_max False TYPE(64)) (unat v)"
    unfolding int_ranges fits using u m(1) by (auto simp: IsConversionInRange_uint64_double_def defs)
  show "IsConversionInRange_int32_double v \<or>
     0x41dfffffffc00000 < v \<and> v < 0x41e0000000000000 \<or> 0xc1e0000000000000 < v \<and> v < 0xc1e0000000200000
   \<longleftrightarrow> fl_fits float_traits64 (int_min True TYPE(32)) (int_max True TYPE(32)) (unat v)"
    unfolding int_ranges fits using u m(1) by (auto simp: IsConversionInRange_int32_double_def defs)
  show "IsConversionInRange_uint32_double v \<or> 0x41efffffffe00000 < v \<and> v < 0x41f0000000000000
   \<longleftrightarrow> fl_fits float_traits64 (int_min False TYPE(32)) (int_max False TYPE(32)) (unat v)"
    unfolding int_ranges fits using u m(1) by (auto simp: IsConversionInRange_uint32_double_def defs)
qed

lemma IntTrunc_range:
  assumes "IsNan T v \<longleftrightarrow> fl_is_nan (kFormat T) (unat v)"
    and "R v \<longleftrightarrow> fl_fits (kFormat T) (int_min sg TYPE('r)) (int_max sg TYPE('r)) (unat v)"
  shows "(IntTrunc sg T R v :: 'r::len word num) = wasm_trunc sg (kFormat T) (unat v)"
  using assms wasm_trunc_misfit [where t = "kFormat T" and b = "unat v" and sg = sg and 'r = 'r]
  by (auto simp: IntTrunc_def float_cast_fits wasm_trunc_nan)

lemma IntTrunc_narrow_range:
  assumes "IsNan T v \<longleftrightarrow> fl_is_nan (kFormat T) (unat v)"
    and "R v \<or> gap \<longleftrightarrow> fl_fits (kFormat T) (int_min sg TYPE('r)) (int_max sg TYPE('r)) (unat v)"
    and "R v \<Longrightarrow> \<not> gap"
  shows "(IntTrunc sg T R v :: 'r::len word num) =
    (if gap then NumTrap IR_TrapIntegerOverflow else wasm_trunc sg (kFormat T) (unat v))"
  using assms fits_not_nan [of "kFormat T"]
    wasm_trunc_misfit [where t = "kFormat T" and b = "unat v" and sg = sg and 'r = 'r]
  by (auto simp: IntTrunc_def float_cast_fits wasm_trunc_nan)

lemma IntTrunc_exact:
  "(IntTrunc True FloatTraits_float IsConversionInRange_int32_float v :: u32 num)
      = wasm_trunc True float_traits32 (unat v)"
  "(IntTrunc False FloatTraits_float IsConversionInRange_uint32_float v :: u32 num)
      = wasm_trunc False float_traits32 (unat v)"
  "(IntTrunc True FloatTraits_float IsConversionInRange_int64_float v :: u64 num)
      = wasm_trunc True float_traits32 (unat v)"
  "(IntTrunc False FloatTraits_float IsConversionInRange_uint64_float v :: u64 num)
      = wasm_trunc False float_traits32 (unat v)"
  "(IntTrunc True FloatTraits_double IsConversionInRange_int64_double w :: u64 num)
      = wasm_trunc True float_traits64 (unat w)"
  "(IntTrunc False FloatTraits_double IsConversionInRange_uint64_double w :: u64 num)
      = wasm_trunc False float_traits64 (unat w)"
  unfolding kFormat_traits [symmetric]
  by (rule IntTrunc_range; simp add: IsNan_float IsNan_double range_float range_double)+

lemma IntTrunc_gap:
  "(IntTrunc True FloatTraits_double IsConversionInRange_int32_double w :: u32 num) =
      (if 0x41dfffffffc00000 < w \<and> w < 0x41e0000000000000 \<or> 0xc1e0000000000000 < w \<and> w < 0xc1e0000000200000
       then NumTrap IR_TrapIntegerOverflow else wasm_trunc True float_traits64 (unat w))"
  "(IntTrunc False FloatTraits_double IsConversionInRange_uint32_double w :: u32 num) =
      (if 0x41efffffffe00000 < w \<and> w < 0x41f0000000000000
       then NumTrap IR_TrapIntegerOverflow else wasm_trunc False float_traits64 (unat w))"
proof -
  have "IsConversionInRange_int32_double w \<Longrightarrow>
    \<not> (0x41dfffffffc00000 < w \<and> w < 0x41e0000000000000 \<or> 0xc1e0000000000000 < w \<and> w < 0xc1e0000000200000)"
    by (auto simp: IsConversionInRange_int32_double_def FloatTraits_double_def word_less_nat_alt word_le_nat_alt)
  from IntTrunc_narrow_range [where T = FloatTraits_double and sg = True and 'r = 32, OF _ _ this]
  show "(IntTrunc True FloatTraits_double IsConversionInRange_int32_double w :: u32 num) =
     (if 0x41dfffffffc00000 < w \<and> w < 0x41e0000000000000 \<or> 0xc1e0000000000000 < w \<and> w < 0xc1e0000000200000
      then NumTrap IR_TrapIntegerOverflow else wasm_trunc True float_traits64 (unat w))"
    by (simp only: kFormat_traits IsNan_double range_double)
  have "IsConversionInRange_uint32_double w \<Longrightarrow> \<not> (0x41efffffffe00000 < w \<and> w < 0x41f0000000000000)"
    by (auto simp: IsConversionInRange_uint32_double_def FloatTraits_double_def word_less_nat_alt word_le_nat_alt)
  from IntTrunc_narrow_range [where T = FloatTraits_double and sg = False and 'r = 32, OF _ _ this]
  show "(IntTrunc False FloatTraits_double IsConversionInRange_uint32_double w :: u32 num) =
     (if 0x41efffffffe00000 < w \<and> w < 0x41f0000000000000
      then NumTrap IR_TrapIntegerOverflow else wasm_trunc False float_traits64 (unat w))"
    by (simp only: kFormat_traits IsNan_double range_double)
qed

text \<open>
  C28. The trapping conversions of a float to an integer are the partial functions of the
  WebAssembly specification, and no conversion reaches the undefined behaviour of a C++ cast of a
  value that does not fit, with two exceptions: \<open>i32.trunc_s/f64\<close> and \<open>i32.trunc_u/f64\<close> trap on
  the doubles strictly between the largest (smallest) 32-bit integer and the next integer, whose
  truncation fits.
\<close>

theorem IntTrunc_spec:
  "((IntTrunc True FloatTraits_float IsConversionInRange_int32_float v :: u32 num)
      = wasm_trunc True float_traits32 (unat v)) \<and>
   ((IntTrunc False FloatTraits_float IsConversionInRange_uint32_float v :: u32 num)
      = wasm_trunc False float_traits32 (unat v)) \<and>
   ((IntTrunc True FloatTraits_float IsConversionInRange_int64_float v :: u64 num)
      = wasm_trunc True float_traits32 (unat v)) \<and>
   ((IntTrunc False FloatTraits_float IsConversionInRange_uint64_float v :: u64 num)
      = wasm_trunc False float_traits32 (unat v)) \<and>
   ((IntTrunc True FloatTraits_double IsConversionInRange_int64_double w :: u64 num)
      = wasm_trunc True float_traits64 (unat w)) \<and>
   ((IntTrunc False FloatTraits_double IsConversionInRange_uint64_double w :: u64 num)
      = wasm_trunc False float_traits64 (unat w)) \<and>
   ((IntTrunc True FloatTraits_double IsConversionInRange_int32_double w :: u32 num) =
      (if 0x41dfffffffc00000 < w \<and> w < 0x41e0000000000000 \<or> 0xc1e0000000000000 < w \<and> w < 0xc1e0000000200000
       then NumTrap IR_TrapIntegerOverflow else wasm_trunc True float_traits64 (unat w))) \<and>
   ((IntTrunc False FloatTraits_double IsConversionInRange_uint32_double w :: u32 num) =
      (if 0x41efffffffe00000 < w \<and> w < 0x41f0000000000000
       then NumTrap IR_TrapIntegerOverflow else wasm_trunc False float_traits64 (unat w)))"
  by (simp only: IntTrunc_exact IntTrunc_gap simp_thms)

lemma IntTruncSat_make:
  assumes nan: "IsNan T v \<longleftrightarrow> fl_is_nan t (unat v)" and t: "kFormat T = t"
    and fits: "R v \<Longrightarrow> fl_fits t (int_min sg TYPE('r)) (int_max sg TYPE('r)) (unat v)"
    and v: "unat v = fl_make t s m" and sign: "v AND kSignMask T \<noteq> 0 \<longleftrightarrow> s" "fl_sign t (unat v) = s"
    and int: "fl_to_int t (unat v) = (if m < fl_inf_mag t then Some (fl_signed s (fl_trunc t m)) else None)"
    and out: "\<lbrakk>\<not> R v; m < fl_inf_mag t\<rbrakk> \<Longrightarrow>
      (if s then - int (fl_trunc t m) \<le> int_min sg TYPE('r) else int_max sg TYPE('r) \<le> int (fl_trunc t m))"
  shows "(IntTruncSat sg T R v :: 'r::len word num) = NumOk (wasm_trunc_sat sg t (unat v))"
proof -
  have le: "int_min sg TYPE('r) \<le> int_max sg TYPE('r)"
    by (cases sg) (simp_all add: int_min_def int_max_def)
  show ?thesis
  proof (cases "fl_is_nan t (unat v) \<or> R v")
    case True
    then show ?thesis using fits le
      by (auto simp: IntTruncSat_def nan wasm_trunc_sat_def float_cast_def fl_fits_def t fits_not_nan
          split: option.splits dest: fits_not_nan)
  next
    case False
    then show ?thesis using out le
      by (auto simp: IntTruncSat_def nan wasm_trunc_sat_def int sign fl_signed_def)
  qed
qed

lemma sign_float: "v AND kSignMask FloatTraits_float \<noteq> 0 \<longleftrightarrow> 0x80000000 \<le> (v :: u32)"
proof -
  have "v AND push_bit 31 1 \<noteq> 0 \<longleftrightarrow> bit v 31" by (simp only: bit_iff_and_push_bit_not_eq_0)
  moreover have "bit v 31 \<longleftrightarrow> odd (unat v div 2 ^ 31)"
    using bit_unsigned_iff [of v 31, where 'a = nat] by (simp add: bit_iff_odd)
  moreover have "odd (unat v div 2 ^ 31) \<longleftrightarrow> 0x80000000 \<le> unat v"
    using unsigned_less [of v, where 'a = nat]
    by (cases "0x80000000 \<le> unat v") (simp_all add: le_div_geq)
  ultimately show ?thesis by (simp add: FloatTraits_float_def word_le_nat_alt)
qed

lemma sign_double: "v AND kSignMask FloatTraits_double \<noteq> 0 \<longleftrightarrow> 0x8000000000000000 \<le> (v :: u64)"
proof -
  have "v AND push_bit 63 1 \<noteq> 0 \<longleftrightarrow> bit v 63" by (simp only: bit_iff_and_push_bit_not_eq_0)
  moreover have "bit v 63 \<longleftrightarrow> odd (unat v div 2 ^ 63)"
    using bit_unsigned_iff [of v 63, where 'a = nat] by (simp add: bit_iff_odd)
  moreover have "odd (unat v div 2 ^ 63) \<longleftrightarrow> 0x8000000000000000 \<le> unat v"
    using unsigned_less [of v, where 'a = nat]
    by (cases "0x8000000000000000 \<le> unat v") (simp_all add: le_div_geq)
  ultimately show ?thesis by (simp add: FloatTraits_double_def word_le_nat_alt)
qed

text \<open>Lower bounds of the truncation, for the values the range tests reject.\<close>

lemma float_lower:
  "0x4f000000 \<le> m \<Longrightarrow> 2147483648 \<le> fl_trunc float_traits32 m"
  "0x4f800000 \<le> m \<Longrightarrow> 4294967296 \<le> fl_trunc float_traits32 m"
  "0x5f000000 \<le> m \<Longrightarrow> 9223372036854775808 \<le> fl_trunc float_traits32 m"
  "0x5f800000 \<le> m \<Longrightarrow> 18446744073709551616 \<le> fl_trunc float_traits32 m"
  by (rule f32.trunc_ge; simp add: fl_scaled_def traits_consts)+

lemma double_lower:
  "0x41dfffffffc00000 \<le> m \<Longrightarrow> 2147483647 \<le> fl_trunc float_traits64 m"
  "0x41e0000000000000 \<le> m \<Longrightarrow> 2147483648 \<le> fl_trunc float_traits64 m"
  "0x41efffffffe00000 \<le> m \<Longrightarrow> 4294967295 \<le> fl_trunc float_traits64 m"
  "0x43e0000000000000 \<le> m \<Longrightarrow> 9223372036854775808 \<le> fl_trunc float_traits64 m"
  "0x43f0000000000000 \<le> m \<Longrightarrow> 18446744073709551616 \<le> fl_trunc float_traits64 m"
  by (rule f64.trunc_ge; simp add: fl_scaled_def traits_consts)+

lemma sat_float:
  "(IntTruncSat True FloatTraits_float IsConversionInRange_int32_float v :: u32 num)
     = NumOk (wasm_trunc_sat True float_traits32 (unat v))"
  "(IntTruncSat False FloatTraits_float IsConversionInRange_uint32_float v :: u32 num)
     = NumOk (wasm_trunc_sat False float_traits32 (unat v))"
  "(IntTruncSat True FloatTraits_float IsConversionInRange_int64_float v :: u64 num)
     = NumOk (wasm_trunc_sat True float_traits32 (unat v))"
  "(IntTruncSat False FloatTraits_float IsConversionInRange_uint64_float v :: u64 num)
     = NumOk (wasm_trunc_sat False float_traits32 (unat v))"
proof -
  obtain s m where m: "m < 2 ^ 31" "unat v = fl_make float_traits32 s m"
    and u: "unat v = (if s then 2147483648 + m else m)" by (rule float_pattern)
  have shift: "m < 2 ^ kSignShift float_traits32" using m(1) by (simp add: traits_consts)
  have sign: "v AND kSignMask FloatTraits_float \<noteq> 0 \<longleftrightarrow> s"
    using u m(1) unfolding sign_float by (auto simp: word_le_nat_alt)
  note sat = IntTruncSat_make [where T = FloatTraits_float and v = v, OF IsNan_float kFormat_traits(1) _ m(2) sign
      f32.fl_sign_make [OF shift, of s, folded m(2)] f32.fl_to_int_make [OF shift, of s, folded m(2)]]
  note defs = FloatTraits_float_def word_less_nat_alt word_le_nat_alt int_ranges
  note lower = float_lower [of m]
  show "(IntTruncSat True FloatTraits_float IsConversionInRange_int32_float v :: u32 num)
     = NumOk (wasm_trunc_sat True float_traits32 (unat v))"
    by (rule sat, simp add: range_float)
      (use u lower m(1) in \<open>auto simp: IsConversionInRange_int32_float_def defs split: if_splits\<close>)
  show "(IntTruncSat False FloatTraits_float IsConversionInRange_uint32_float v :: u32 num)
     = NumOk (wasm_trunc_sat False float_traits32 (unat v))"
    by (rule sat, simp add: range_float)
      (use u lower m(1) in \<open>auto simp: IsConversionInRange_uint32_float_def defs split: if_splits\<close>)
  show "(IntTruncSat True FloatTraits_float IsConversionInRange_int64_float v :: u64 num)
     = NumOk (wasm_trunc_sat True float_traits32 (unat v))"
    by (rule sat, simp add: range_float)
      (use u lower m(1) in \<open>auto simp: IsConversionInRange_int64_float_def defs split: if_splits\<close>)
  show "(IntTruncSat False FloatTraits_float IsConversionInRange_uint64_float v :: u64 num)
     = NumOk (wasm_trunc_sat False float_traits32 (unat v))"
    by (rule sat, simp add: range_float)
      (use u lower m(1) in \<open>auto simp: IsConversionInRange_uint64_float_def defs split: if_splits\<close>)
qed

lemma sat_double:
  "(IntTruncSat True FloatTraits_double IsConversionInRange_int32_double v :: u32 num)
     = NumOk (wasm_trunc_sat True float_traits64 (unat v))"
  "(IntTruncSat False FloatTraits_double IsConversionInRange_uint32_double v :: u32 num)
     = NumOk (wasm_trunc_sat False float_traits64 (unat v))"
  "(IntTruncSat True FloatTraits_double IsConversionInRange_int64_double v :: u64 num)
     = NumOk (wasm_trunc_sat True float_traits64 (unat v))"
  "(IntTruncSat False FloatTraits_double IsConversionInRange_uint64_double v :: u64 num)
     = NumOk (wasm_trunc_sat False float_traits64 (unat v))"
proof -
  obtain s m where m: "m < 2 ^ 63" "unat v = fl_make float_traits64 s m"
    and u: "unat v = (if s then 9223372036854775808 + m else m)" by (rule double_pattern)
  have shift: "m < 2 ^ kSignShift float_traits64" using m(1) by (simp add: traits_consts)
  have sign: "v AND kSignMask FloatTraits_double \<noteq> 0 \<longleftrightarrow> s"
    using u m(1) unfolding sign_double by (auto simp: word_le_nat_alt)
  note sat = IntTruncSat_make [where T = FloatTraits_double and v = v, OF IsNan_double kFormat_traits(2) _ m(2) sign
      f64.fl_sign_make [OF shift, of s, folded m(2)] f64.fl_to_int_make [OF shift, of s, folded m(2)]]
  note defs = FloatTraits_double_def word_less_nat_alt word_le_nat_alt int_ranges
  note lower = double_lower [of m]
  show "(IntTruncSat True FloatTraits_double IsConversionInRange_int32_double v :: u32 num)
     = NumOk (wasm_trunc_sat True float_traits64 (unat v))"
    by (rule sat, simp add: range_double(3) [symmetric])
      (use u lower m(1) in \<open>auto simp: IsConversionInRange_int32_double_def defs split: if_splits\<close>)
  show "(IntTruncSat False FloatTraits_double IsConversionInRange_uint32_double v :: u32 num)
     = NumOk (wasm_trunc_sat False float_traits64 (unat v))"
    by (rule sat, simp add: range_double(4) [symmetric])
      (use u lower m(1) in \<open>auto simp: IsConversionInRange_uint32_double_def defs split: if_splits\<close>)
  show "(IntTruncSat True FloatTraits_double IsConversionInRange_int64_double v :: u64 num)
     = NumOk (wasm_trunc_sat True float_traits64 (unat v))"
    by (rule sat, simp add: range_double)
      (use u lower m(1) in \<open>auto simp: IsConversionInRange_int64_double_def defs split: if_splits\<close>)
  show "(IntTruncSat False FloatTraits_double IsConversionInRange_uint64_double v :: u64 num)
     = NumOk (wasm_trunc_sat False float_traits64 (unat v))"
    by (rule sat, simp add: range_double)
      (use u lower m(1) in \<open>auto simp: IsConversionInRange_uint64_double_def defs split: if_splits\<close>)
qed

text \<open>
  C29. The saturating conversions are total and clamp the truncated value to the range of the
  type, NaN to 0, as the WebAssembly specification has it; also where the range test of a double
  against 32 bits is too narrow, the clamped value is the right one.
\<close>

theorem IntTruncSat_spec:
  "(IntTruncSat True FloatTraits_float IsConversionInRange_int32_float v :: u32 num)
      = NumOk (wasm_trunc_sat True float_traits32 (unat v)) \<and>
   (IntTruncSat False FloatTraits_float IsConversionInRange_uint32_float v :: u32 num)
      = NumOk (wasm_trunc_sat False float_traits32 (unat v)) \<and>
   (IntTruncSat True FloatTraits_float IsConversionInRange_int64_float v :: u64 num)
      = NumOk (wasm_trunc_sat True float_traits32 (unat v)) \<and>
   (IntTruncSat False FloatTraits_float IsConversionInRange_uint64_float v :: u64 num)
      = NumOk (wasm_trunc_sat False float_traits32 (unat v)) \<and>
   (IntTruncSat True FloatTraits_double IsConversionInRange_int32_double w :: u32 num)
      = NumOk (wasm_trunc_sat True float_traits64 (unat w)) \<and>
   (IntTruncSat False FloatTraits_double IsConversionInRange_uint32_double w :: u32 num)
      = NumOk (wasm_trunc_sat False float_traits64 (unat w)) \<and>
   (IntTruncSat True FloatTraits_double IsConversionInRange_int64_double w :: u64 num)
      = NumOk (wasm_trunc_sat True float_traits64 (unat w)) \<and>
   (IntTruncSat False FloatTraits_double IsConversionInRange_uint64_double w :: u64 num)
      = NumOk (wasm_trunc_sat False float_traits64 (unat w))"
  by (simp only: sat_float sat_double simp_thms)

section \<open>Demotion\<close>

lemma bit_length_eq: "2 ^ k \<le> n \<Longrightarrow> n < 2 ^ Suc k \<Longrightarrow> bit_length n = Suc k"
proof (induction k arbitrary: n)
  case 0
  then have "n = 1" by simp
  then show ?case by (simp add: bit_length.simps)
next
  case (Suc k)
  have "0 < n" using Suc.prems(1) by (metis gr0I le_zero_eq power_not_zero zero_neq_numeral)
  moreover have "bit_length (n div 2) = Suc k"
    by (rule Suc.IH) (use Suc.prems in auto)
  ultimately show ?case by (subst bit_length.simps) simp
qed

text \<open>Rounding to single precision above the largest finite magnitude.\<close>

lemma demote_mag:
  assumes lo: "0x47efffffe0000000 < m" and hi: "m < 0x7ff0000000000000"
  shows "fl_round_mag float_traits32 (f64.fl_sig_of m) (int (f64.fl_shift_of m) - 1074) =
    (if m < 0x47effffff0000000 then 0x7f7fffff else 0x7f800000)"
proof -
  define E f where "E = m div 4503599627370496" and "f = m mod 4503599627370496"
  have m: "m = E * 4503599627370496 + f" unfolding E_def f_def by (rule div_mult_mod_eq [symmetric])
  have f: "f < 4503599627370496" by (simp add: f_def)
  have E: "1150 \<le> E" using lo m f by simp
  define M where "M = 4503599627370496 + f"
  have sig: "f64.fl_sig_of m = M" "f64.fl_shift_of m = E - 1"
    using E by (simp_all add: f64.fl_sig_of_def f64.fl_shift_of_def traits_consts E_def f_def M_def)
  have len: "bit_length M = 53" using bit_length_eq [of 52 M] f by (simp add: M_def)
  have M0: "M \<noteq> 0" by (simp add: M_def)
  define q where "q = rne M 29"
  have q: "M div 536870912 \<le> q" by (simp add: q_def rne_def Let_def)
  have e: "int (E - 1) - 1074 = int E - 1075" using E by simp
  have top: "max (int E - 1075 + int 53 - 1) (1 - 127) = int E - 1023" using E by simp
  have "fl_round_mag float_traits32 M (int (E - 1) - 1074) = min ((E - 897) * 8388608 + q) 0x7f800000"
    using E by (simp add: fl_round_mag_def M0 len e top traits_consts Let_def q_def nat_diff_distrib)
  also have "\<dots> = (if m < 0x47effffff0000000 then 0x7f7fffff else 0x7f800000)"
  proof (cases "E = 1150")
    case True
    have f2: "4503599090499584 < f" using lo m True by simp
    have d: "M div 536870912 = 16777215" using f f2 by (simp add: M_def div_nat_eqI)
    then have r: "M mod 536870912 = M - 16777215 * 536870912"
      using minus_div_mult_eq_mod [of M 536870912] by simp
    have "q = (if m < 0x47effffff0000000 then 16777215 else 16777216)"
      unfolding q_def rne_def Let_def using True m f f2 d r by (auto simp: M_def)
    then show ?thesis using True by simp
  next
    case False
    have "8388608 \<le> M div 536870912" by (simp add: M_def less_eq_div_iff_mult_less_eq)
    with q False E have "0x7f800000 \<le> (E - 897) * 8388608 + q" by simp
    moreover have "\<not> m < 0x47effffff0000000" using False E m by simp
    ultimately show ?thesis by simp
  qed
  finally show ?thesis by (simp add: sig)
qed

lemma and_single_bit: "(w AND push_bit k 1) = (if bit w k then push_bit k 1 else 0)" for w :: "'a::len word"
  by (rule bit_word_eqI) (auto simp: bit_simps)

lemma demote_sign:
  fixes v :: u64
  shows "(ucast (drop_bit 32 v) AND 0x80000000 :: u32) = (if 0x8000000000000000 \<le> v then 0x80000000 else 0)"
proof -
  have "(ucast (drop_bit 32 v) AND push_bit 31 1 :: u32) = (if bit v 63 then push_bit 31 1 else 0)"
    unfolding and_single_bit by (simp add: bit_simps)
  moreover have "bit v 63 \<longleftrightarrow> 0x8000000000000000 \<le> v"
    using sign_double [of v] bit_iff_and_push_bit_not_eq_0 [of v 63] by (simp add: FloatTraits_double_def)
  ultimately show ?thesis by simp
qed

lemma F32DemoteF64_nan:
  assumes "IsNan FloatTraits_double v"
  shows "F32DemoteF64 nan v =
    (ucast (drop_bit 32 v) AND 0x80000000) OR 0x7fc00000 OR (ucast (drop_bit 29 v) AND 0x7fffff)"
proof -
  have "\<not> IsConversionInRange_float_double v" "\<not> IsInRangeF64DemoteF32RoundToF32Max v"
    "\<not> IsInRangeF64DemoteF32RoundToNegF32Max v"
    using assms
    by (auto simp: IsNan_def FloatTraits_double_def IsConversionInRange_float_double_def
        IsInRangeF64DemoteF32RoundToF32Max_def IsInRangeF64DemoteF32RoundToNegF32Max_def
        word_less_nat_alt word_le_nat_alt)
  moreover have "(0x7f800000 OR 0x400000 :: u32) = 0x7fc00000" by simp
  ultimately show ?thesis
    using assms
    by (simp add: F32DemoteF64_def FloatTraits_float_def or.assoc)
      (simp add: FloatTraits_double_def or.assoc [symmetric])
qed

lemma F32DemoteF64_number:
  assumes "\<not> IsNan FloatTraits_double v"
  shows "F32DemoteF64 nan v = of_nat (fl_convert nan float_traits64 float_traits32 (unat v))"
proof (cases "IsConversionInRange_float_double v")
  case True
  then show ?thesis by (simp add: F32DemoteF64_def)
next
  case out: False
  obtain s m where m: "m < 2 ^ 63" "unat v = fl_make float_traits64 s m"
    and u: "unat v = (if s then 9223372036854775808 + m else m)" by (rule double_pattern)
  have shift: "m < 2 ^ kSignShift float_traits64" using m(1) by (simp add: traits_consts)
  have lo: "0x47efffffe0000000 < m"
    using out u by (auto simp: IsConversionInRange_float_double_def FloatTraits_double_def word_le_nat_alt not_le
        split: if_splits)
  have hi: "m \<le> 0x7ff0000000000000"
    using assms m u by (auto simp: IsNan_def FloatTraits_double_def word_less_nat_alt split: if_splits)
  have conv: "fl_convert nan float_traits64 float_traits32 (unat v) =
    fl_make float_traits32 s (if m < 0x47effffff0000000 then 0x7f7fffff else 0x7f800000)"
    using hi unfolding m(2) fl_convert_def f64.fl_decode_make [OF shift]
    by (cases "m = 0x7ff0000000000000") (simp_all add: traits_consts fl_round_def demote_mag [OF lo])
  show ?thesis
  proof (cases "m < 0x47effffff0000000")
    case True
    then show ?thesis unfolding conv F32DemoteF64_def using out u lo
      by (cases s) (auto simp: IsInRangeF64DemoteF32RoundToF32Max_def IsInRangeF64DemoteF32RoundToNegF32Max_def
          word_less_nat_alt float_kMax_def float_kNegMax_def fl_make_def traits_consts)
  next
    case False
    have sg: "0x8000000000000000 \<le> v \<longleftrightarrow> s" using u m(1) by (auto simp: word_le_nat_alt)
    from False have "F32DemoteF64 nan v = (if s then 0x80000000 else 0) OR 0x7f800000"
      unfolding F32DemoteF64_def using out u assms m(1)
      by (auto simp: IsInRangeF64DemoteF32RoundToF32Max_def IsInRangeF64DemoteF32RoundToNegF32Max_def
          word_less_nat_alt FloatTraits_float_def demote_sign sg)
    with False show ?thesis unfolding conv by (simp add: fl_make_def traits_consts)
  qed
qed

text \<open>
  C30. \<open>f32.demote/f64\<close>: the bit pattern the special cases of the code produce is the one of the
  IEEE 754 conversion, rounded to nearest with ties to even, for every double that is not NaN,
  also where the C++ cast would be undefined: the doubles above the largest float round to it up
  to the midpoint and to infinity from there. A NaN keeps its sign and the upper bits of its
  payload and becomes quiet.
\<close>

theorem F32DemoteF64_spec:
  "F32DemoteF64 nan v =
     (if IsNan FloatTraits_double v
      then (ucast (drop_bit 32 v) AND 0x80000000) OR 0x7fc00000 OR (ucast (drop_bit 29 v) AND 0x7fffff)
      else of_nat (fl_convert nan float_traits64 float_traits32 (unat v)))"
  by (simp add: F32DemoteF64_nan F32DemoteF64_number)

end
