(* ===== verification/InterpSpec.thy ===== *)
theory InterpSpec
  imports InterpFrame InterpNumSpec
begin

text \<open>
  What the interpreter promises: tracing does not change what a program does, and running a
  function leaves the code, the types and the shape of the store alone and the thread empty.
\<close>

section \<open>Runs\<close>

text \<open>A run of instructions without the bookkeeping of the saved pc.\<close>

datatype halt = HCont istate | HDone interp_Result istate | HUndef

fun plain :: "host_callback \<Rightarrow> host_nan \<Rightarrow> nat \<Rightarrow> istate \<Rightarrow> halt" where
  "plain cb nan 0 s = HCont s"
| "plain cb nan (Suc n) s =
     (case Run_instruction cb nan s of
        (IVal Run_continue, s1) \<Rightarrow> plain cb nan n s1
      | (IVal Run_exit_loop, s1) \<Rightarrow> HDone IR_Returned s1
      | (IStop r, s1) \<Rightarrow> HDone r s1
      | (IUndef, s1) \<Rightarrow> HUndef)"

fun halt_frame :: "istate \<Rightarrow> halt \<Rightarrow> bool" where
  "halt_frame s (HCont s1) \<longleftrightarrow> run_frame s s1"
| "halt_frame s (HDone r s1) \<longleftrightarrow> run_frame s s1 \<and> r \<noteq> IR_Ok"
| "halt_frame s HUndef \<longleftrightarrow> True"

fun halt_map :: "(istate \<Rightarrow> istate) \<Rightarrow> halt \<Rightarrow> halt" where
  "halt_map f (HCont s) = HCont (f s)"
| "halt_map f (HDone r s) = HDone r (f s)"
| "halt_map f HUndef = HUndef"

lemma halt_frame_trans: "run_frame s s1 \<Longrightarrow> halt_frame s1 h \<Longrightarrow> halt_frame s h"
  by (cases h) (auto intro: run_frame_trans)

lemma plain_frame:
  assumes "host_ok cb"
  shows "halt_frame s (plain cb nan n s)"
proof (induction n arbitrary: s)
  case 0
  show ?case by simp
next
  case (Suc n)
  obtain r s1 where r: "Run_instruction cb nan s = (r, s1)" by fastforce
  have "run_frame s s1" "r \<noteq> IStop IR_Ok"
    using orderly_instruction [OF assms, of nan] r by (simp_all add: orderly_def) (metis snd_conv, metis fst_conv)
  then show ?case
    using halt_frame_trans [OF _ Suc.IH] by (auto simp: r split: irun.split run_flow.split)
qed

lemma plain_blind:
  assumes "host_ok cb"
  shows "plain cb nan n (set_tpc x s) = halt_map (set_tpc x) (plain cb nan n s)"
proof (induction n arbitrary: s)
  case 0
  show ?case by simp
next
  case (Suc n)
  obtain r s1 where r: "Run_instruction cb nan s = (r, s1)" by fastforce
  have "Run_instruction cb nan (set_tpc x s) = (r, set_tpc x s1)"
    using orderly_instruction [OF assms, of nan] r by (simp add: orderly_def)
  then show ?case using Suc.IH by (simp add: r split: irun.split run_flow.split)
qed

lemma plain_add:
  "plain cb nan (m + n) s = (case plain cb nan m s of HCont s1 \<Rightarrow> plain cb nan n s1 | h \<Rightarrow> h)"
  by (induction m arbitrary: s) (simp_all split: prod.split irun.split run_flow.split)

section \<open>The loop\<close>

definition erase_pc :: "interp_Result \<times> Environment \<times> Thread \<Rightarrow> interp_Result \<times> Environment \<times> Thread" where
  "erase_pc x = (case x of (r, e, t) \<Rightarrow> (r, e, t\<lparr>thread_pc := 0\<rparr>))"

lemma erase_pc_simps [simp]:
  "erase_pc (r, e, t\<lparr>thread_pc := x\<rparr>) = erase_pc (r, e, t)"
  "erase_pc (r, st_env s, st_thread (set_tpc x s)) = erase_pc (r, st_env s, st_thread s)"
  by (simp_all add: erase_pc_def set_tpc_def)

abbreviation start :: "Environment \<times> Thread \<Rightarrow> istate" where
  "start et \<equiv> \<lparr>st_env = fst et, st_thread = snd et, st_pc = unat (thread_pc (snd et))\<rparr>"

fun halt_result :: "halt \<Rightarrow> (interp_Result \<times> Environment \<times> Thread) option" where
  "halt_result (HCont s) = Some (IR_Ok, st_env s, (st_thread s)\<lparr>thread_pc := of_nat (st_pc s)\<rparr>)"
| "halt_result (HDone r s) = Some (r, st_env s, st_thread s)"
| "halt_result HUndef = None"

lemma Run_loop_plain:
  "plain cb nan n s = HCont s1 \<Longrightarrow> Run_loop cb nan n s = (IVal IR_Ok, set_tpc (of_nat (st_pc s1)) s1)"
proof (induction n arbitrary: s)
  case 0
  then show ?case by (simp add: i_then_def i_bind_def save_pc_def i_thread_def i_return_def set_tpc_def)
next
  case (Suc n)
  then obtain s2 where s2: "Run_instruction cb nan s = (IVal Run_continue, s2)" "plain cb nan n s2 = HCont s1"
    by (auto split: prod.splits irun.splits run_flow.splits)
  then show ?case using Suc.IH [OF s2(2)] by (simp add: i_bind_def)
qed

definition run_result :: "interp_Result irun \<times> istate \<Rightarrow> (interp_Result \<times> Environment \<times> Thread) option" where
  "run_result x = (case x of
     (IVal r, s) \<Rightarrow> Some (r, st_env s, st_thread s)
   | (IStop r, s) \<Rightarrow> Some (r, st_env s, st_thread s)
   | (IUndef, s) \<Rightarrow> None)"

lemma run_result_plain:
  "map_option erase_pc (run_result (Run_loop cb nan n s)) = map_option erase_pc (halt_result (plain cb nan n s))"
proof (induction n arbitrary: s)
  case 0
  show ?case by (simp add: run_result_def i_then_def i_bind_def save_pc_def i_thread_def i_return_def)
next
  case (Suc n)
  obtain r s1 where "Run_instruction cb nan s = (r, s1)" by fastforce
  then show ?case
    using Suc.IH [of s1]
    by (cases r) (auto simp: i_bind_def run_result_def i_then_def save_pc_def i_thread_def i_return_def erase_pc_def
        split: run_flow.split)
qed

lemma Thread_Run_result: "Thread_Run cb nan n et = run_result (Run_loop cb nan n (start et))"
  by (simp add: Thread_Run_def run_result_def)

lemma Thread_Run_plain:
  "map_option erase_pc (Thread_Run cb nan n et) = map_option erase_pc (halt_result (plain cb nan n (start et)))"
  "plain cb nan n (start et) = HCont s1 \<Longrightarrow> Thread_Run cb nan n et = halt_result (HCont s1)"
  unfolding Thread_Run_result
  by (rule run_result_plain) (simp add: Run_loop_plain run_result_def set_tpc_def)

lemma run_until_plain:
  assumes cb: "host_ok cb" and stream: "length (env_istream (fst et)) < 2 ^ 32"
  shows "map_exec erase_pc (run_until cb nan k fuel et) =
    (case plain cb nan (k * fuel) (start et) of
       HCont s \<Rightarrow> EFuel
     | HDone r s \<Rightarrow> EDone (erase_pc (r, st_env s, st_thread s))
     | HUndef \<Rightarrow> EUndef)"
  using stream
proof (induction fuel arbitrary: et)
  case 0
  show ?case by simp
next
  case (Suc fuel)
  show ?case
  proof (cases "plain cb nan k (start et)")
    case (HCont s1)
    have f: "run_frame (start et) s1" using plain_frame [OF cb, of "start et" nan k] HCont by simp
    have pc: "st_pc s1 < 2 ^ 32" and stream1: "length (env_istream (st_env s1)) < 2 ^ 32"
      using f Suc.prems unsigned_less [of "thread_pc (snd et)", where 'a = nat] env_frame_istream [of "fst et" "st_env s1"]
      by (simp_all add: run_frame_def)
    let ?et = "(st_env s1, (st_thread s1)\<lparr>thread_pc := of_nat (st_pc s1)\<rparr>)"
    have start: "start ?et = set_tpc (of_nat (st_pc s1)) s1"
      using pc by (simp add: set_tpc_def unsigned_of_nat take_bit_nat_eq_self)
    have "map_exec erase_pc (run_until cb nan k (Suc fuel) et) = map_exec erase_pc (run_until cb nan k fuel ?et)"
      by (simp add: Thread_Run_plain(2) [OF HCont])
    also have "\<dots> = (case plain cb nan (k * fuel) s1 of
       HCont s \<Rightarrow> EFuel | HDone r s \<Rightarrow> EDone (erase_pc (r, st_env s, st_thread s)) | HUndef \<Rightarrow> EUndef)"
      using Suc.IH [of ?et] stream1 unfolding start plain_blind [OF cb]
      by (cases "plain cb nan (k * fuel) s1") simp_all
    finally show ?thesis using HCont by (simp add: plain_add)
  next
    case (HDone r s1)
    have "r \<noteq> IR_Ok" using plain_frame [OF cb, of "start et" nan k] HDone by simp
    moreover obtain e t where "Thread_Run cb nan k et = Some (r, e, t)"
      "erase_pc (r, e, t) = erase_pc (r, st_env s1, st_thread s1)"
      using Thread_Run_plain(1) [of cb nan k et] HDone by (auto simp: erase_pc_def)
    ultimately show ?thesis using HDone by (simp add: plain_add)
  next
    case HUndef
    then have "Thread_Run cb nan k et = None" using Thread_Run_plain(1) [of cb nan k et] by simp
    with HUndef show ?thesis by (simp add: plain_add)
  qed
qed

section \<open>The executor\<close>

text \<open>The saved pc does not matter to what follows a run.\<close>

lemma on_thread_orderly:
  assumes "orderly f"
  shows "case on_thread f et of (r, et1) \<Rightarrow> env_frame (fst et) (fst et1) \<and> thread_frame (snd et) (snd et1) \<and> r \<noteq> IStop IR_Ok"
    and "on_thread f (e, t\<lparr>thread_pc := x\<rparr>) = (case on_thread f (e, t) of (r, e1, t1) \<Rightarrow> (r, e1, t1\<lparr>thread_pc := x\<rparr>))"
proof -
  let ?s = "\<lparr>st_env = fst et, st_thread = snd et, st_pc = 0\<rparr>"
  obtain r s1 where s1: "f ?s = (r, s1)" by (cases "f ?s")
  have "run_frame ?s (snd (f ?s))" "fst (f ?s) \<noteq> IStop IR_Ok" using assms by (simp_all add: orderly_def)
  then show "case on_thread f et of (r, et1) \<Rightarrow> env_frame (fst et) (fst et1) \<and> thread_frame (snd et) (snd et1) \<and> r \<noteq> IStop IR_Ok"
    by (simp add: on_thread_def run_frame_def s1)
  let ?s = "\<lparr>st_env = e, st_thread = t, st_pc = 0\<rparr>"
  have "f (set_tpc x ?s) = apsnd (set_tpc x) (f ?s)" using assms by (simp add: orderly_def)
  then show "on_thread f (e, t\<lparr>thread_pc := x\<rparr>) = (case on_thread f (e, t) of (r, e1, t1) \<Rightarrow> (r, e1, t1\<lparr>thread_pc := x\<rparr>))"
    by (simp add: on_thread_def set_tpc_def split: prod.split)
qed

lemma orderly_PushArgs: "orderly (Executor_PushArgs sig args)"
proof -
  have "orderly (PushArgs_loop ts as)" for ts as
    by (induction ts as rule: PushArgs_loop.induct) (simp_all add: orderly)
  then show ?thesis by (simp add: Executor_PushArgs_def orderly)
qed

lemma orderly_CopyResults: "orderly (Executor_CopyResults sig)"
proof -
  have "orderly (CopyResults_loop i ts)" for i ts
    by (induction i ts rule: CopyResults_loop.induct) (simp_all add: orderly)
  then show ?thesis by (simp add: Executor_CopyResults_def orderly)
qed

lemma Executor_finish_erase: "Executor_finish sig (map_exec erase_pc x) = Executor_finish sig x"
proof (cases x)
  case (EDone y)
  obtain r e t where y: "y = (r, e, t)" by (cases y)
  have reset: "Thread_Reset (t\<lparr>thread_pc := p\<rparr>) = Thread_Reset t" for t p by (simp add: Thread_Reset_def)
  show ?thesis
    using on_thread_orderly(2) [OF orderly_CopyResults [of sig], where x = 0 and e = e and t = t]
    by (auto simp: EDone y Executor_finish_def erase_pc_def reset split: prod.split irun.split)
qed (simp_all add: Executor_finish_def)

lemma RunDefinedFunction_trace:
  assumes "host_ok cb" "length (env_istream (fst et)) < 2 ^ 32"
  shows "map_exec erase_pc (Executor_RunDefinedFunction cb nan True (1000 * fuel) off et) =
    map_exec erase_pc (Executor_RunDefinedFunction cb nan False fuel off et)"
proof -
  let ?et = "(fst et, (snd et)\<lparr>thread_pc := off\<rparr>)"
  define K :: "(interp_Result \<times> Environment \<times> Thread) exec \<Rightarrow> _" where "K = (\<lambda>x. case x of EDone (r, et1) \<Rightarrow> EDone (if r = IR_Returned then IR_Ok else r, et1) | r \<Rightarrow> r)"
  have K: "map_exec erase_pc (K x) = K (map_exec erase_pc x)" for x :: "(interp_Result \<times> Environment \<times> Thread) exec"
    by (cases x) (auto simp: K_def erase_pc_def)
  have "map_exec erase_pc (run_until cb nan 1 (1000 * fuel) ?et) = map_exec erase_pc (run_until cb nan 1000 fuel ?et)"
    using assms by (simp add: run_until_plain)
  then have "K (map_exec erase_pc (run_until cb nan 1 (1000 * fuel) ?et)) = K (map_exec erase_pc (run_until cb nan 1000 fuel ?et))"
    by simp
  then show ?thesis
    unfolding K [symmetric] by (simp add: Executor_RunDefinedFunction_def K_def)
qed

lemma finish_cong:
  assumes "\<And>off. Executor_finish sig (A off) = Executor_finish sig (B off)"
  shows "Executor_finish sig (case func of DefinedFunc _ off _ _ _ \<Rightarrow> A off | HostFunc _ _ _ \<Rightarrow> H) =
    Executor_finish sig (case func of DefinedFunc _ off _ _ _ \<Rightarrow> B off | HostFunc _ _ _ \<Rightarrow> H)"
  using assms by (cases func) simp_all

text \<open>
  C31. Tracing a run does not change it: executing instructions one by one for the trace stream and
  executing them in blocks of 1000 end with the same result, the same values, and the same store
  and thread, for every function and all arguments; and one of them ends within its share of the
  fuel exactly if the other does. The host's callbacks must not change the code, and the
  instruction stream must fit the 32 bits of a stored program counter.
\<close>

theorem tracing_transparent:
  assumes "host_ok cb" and "length (env_istream (fst et)) < 2 ^ 32"
  shows "Executor_RunFunction cb nan True (1000 * fuel) func_index args et =
    Executor_RunFunction cb nan False fuel func_index args et"
proof -
  let ?func = "env_funcs (fst et) ! unat func_index"
  let ?sig = "env_sigs (fst et) ! unat (func_sig_index ?func)"
  obtain r et1 where p: "on_thread (Executor_PushArgs ?sig args) et = (r, et1)"
    by (cases "on_thread (Executor_PushArgs ?sig args) et")
  have "env_istream (fst et1) = env_istream (fst et)"
    using on_thread_orderly(1) [OF orderly_PushArgs [of ?sig args], of et] p by (simp add: env_frame_istream)
  then have "map_exec erase_pc (Executor_RunDefinedFunction cb nan True (1000 * fuel) off et1) =
    map_exec erase_pc (Executor_RunDefinedFunction cb nan False fuel off et1)" for off
    using assms by (simp add: RunDefinedFunction_trace)
  then have "Executor_finish ?sig (Executor_RunDefinedFunction cb nan True (1000 * fuel) off et1) =
    Executor_finish ?sig (Executor_RunDefinedFunction cb nan False fuel off et1)" for off
    using Executor_finish_erase by metis
  note run = finish_cong [OF this, where func = ?func and H = "iop_result (on_thread (Thread_CallHost cb ?func) et1)"]
  show ?thesis
    unfolding Executor_RunFunction_def Let_def p
    by (cases r) (simp_all add: iop_result_def run)
qed

section \<open>What a call leaves alone\<close>

lemma Run_loop_frame:
  assumes "host_ok cb"
  shows "run_frame s (snd (Run_loop cb nan n s))"
proof (induction n arbitrary: s)
  case 0
  show ?case by (simp add: i_then_def i_bind_def save_pc_def i_thread_def i_return_def run_frame_def thread_frame_def)
next
  case (Suc n)
  have save: "run_frame s (snd (i_then save_pc (i_return r) s))" for s :: istate and r :: interp_Result
    by (simp add: i_then_def i_bind_def save_pc_def i_thread_def i_return_def run_frame_def thread_frame_def)
  obtain r s1 where r: "Run_instruction cb nan s = (r, s1)" by fastforce
  have f: "run_frame s s1"
    using orderly_instruction [OF assms, of nan] r by (simp add: orderly_def) (metis snd_conv)
  show ?case
    using f run_frame_trans [OF f Suc.IH] run_frame_trans [OF f save]
    by (simp add: i_bind_def r split: irun.split run_flow.split)
qed

fun et_frame :: "Environment \<times> Thread \<Rightarrow> Environment \<times> Thread \<Rightarrow> bool" where
  "et_frame (e, t) (e1, t1) \<longleftrightarrow> env_frame e e1 \<and> thread_frame t t1"

lemma et_frame_alt: "et_frame a b \<longleftrightarrow> env_frame (fst a) (fst b) \<and> thread_frame (snd a) (snd b)"
  by (cases a; cases b) simp

lemma et_frame_trans: "et_frame a b \<Longrightarrow> et_frame b c \<Longrightarrow> et_frame a c"
  by (auto simp: et_frame_alt thread_frame_def intro: env_frame_trans)

lemma et_frame_pc [simp]: "et_frame (e, t\<lparr>thread_pc := p\<rparr>) c \<longleftrightarrow> et_frame (e, t) c"
  by (simp add: et_frame_alt thread_frame_def)

lemma Thread_Run_frame:
  assumes "host_ok cb" and "Thread_Run cb nan n et = Some (r, et1)"
  shows "et_frame et et1"
proof -
  have "run_frame (start et) (snd (Run_loop cb nan n (start et)))" by (rule Run_loop_frame [OF assms(1)])
  then show ?thesis
    using assms(2) by (auto simp: Thread_Run_def run_frame_def et_frame_alt split: prod.splits irun.splits)
qed

lemma run_until_frame:
  assumes "host_ok cb"
  shows "run_until cb nan k fuel et = EDone (r, et1) \<Longrightarrow> et_frame et et1"
proof (induction fuel arbitrary: et)
  case 0
  then show ?case by simp
next
  case (Suc fuel)
  then obtain r2 et2 where r2: "Thread_Run cb nan k et = Some (r2, et2)"
    by (auto split: option.splits)
  show ?case
    using Suc.prems Suc.IH [of et2] Thread_Run_frame [OF assms r2] et_frame_trans
    by (auto simp: r2 split: if_splits)
qed

lemma on_thread_frame: "orderly f \<Longrightarrow> et_frame et (snd (on_thread f et))"
  using on_thread_orderly(1) [of f et] by (auto simp: et_frame_alt split: prod.splits)

lemma iop_result_frame:
  assumes "orderly f" "iop_result (on_thread f et) = EDone (r, et1)"
  shows "et_frame et et1"
  using on_thread_frame [OF assms(1), of et] assms(2)
  by (auto simp: iop_result_def split: prod.splits irun.splits)

lemma Executor_finish_frame:
  assumes "Executor_finish sig x = EDone (res, et1)"
    and "\<And>r et2. x = EDone (r, et2) \<Longrightarrow> et_frame et et2"
  shows "et_frame et et1 \<and> value_stack_top (snd et1) = 0 \<and> call_stack_top (snd et1) = 0"
proof -
  obtain r et2 where x: "x = EDone (r, et2)"
    using assms(1) by (cases x) (auto simp: Executor_finish_def)
  have f: "et_frame et et2" by (rule assms(2) [OF x])
  have c: "et_frame et (snd (on_thread (Executor_CopyResults sig) et2))"
    by (rule et_frame_trans [OF f on_thread_frame [OF orderly_CopyResults]])
  show ?thesis
    using assms(1) f c
    by (auto simp: x Executor_finish_def et_frame_alt thread_frame_def Thread_Reset_def
        split: if_splits prod.splits irun.splits)
qed


section \<open>Examples\<close>

text \<open>The program of the witness computes \<open>5 - 7\<close>; its host function fails.\<close>

definition sub_program :: Environment where
  "sub_program = Environment_init\<lparr>
     env_istream := [0x41, 5, 0, 0, 0, 0x41, 7, 0, 0, 0, 0x6b, 0x0f],
     env_sigs := [\<lparr>sig_param_types = [], sig_result_types = [Type_I32]\<rparr>],
     env_funcs := [DefinedFunc 0 0 0 0 []]\<rparr>"

definition sub_thread :: Thread where
  "sub_thread = \<lparr>value_stack = [0, 0, 0, 0], call_stack = [0, 0], value_stack_top = 0, call_stack_top = 0, thread_pc = 0\<rparr>"

definition failing_host :: host_callback where
  "failing_host func sig args e = (IR_TrapHostTrapped, \<lambda>i. \<lparr>tv_type = Type_I32, tv_value = 0\<rparr>, e)"

lemma failing_host_ok: "host_ok failing_host"
  by (simp add: host_ok_def failing_host_def)

definition quiet_nan :: host_nan where
  "quiet_nan t xs = (if kBits t = 32 then 0x7fc00000 else 0x7ff8000000000000)"

theorem tracing_transparent_witness:
  "Executor_RunFunction failing_host quiet_nan True (1000 * 3) 0 [] (sub_program, sub_thread) =
   Executor_RunFunction failing_host quiet_nan False 3 0 [] (sub_program, sub_thread)"
  by (rule tracing_transparent) (simp_all add: failing_host_ok sub_program_def Environment_init_def)

definition host_program :: Environment where
  "host_program = Environment_init\<lparr>
     env_sigs := [\<lparr>sig_param_types = [Type_I32], sig_result_types = [Type_I32]\<rparr>],
     env_funcs := [HostFunc 0 ''env'' ''fail'']\<rparr>"


end
