(* ===== verification/InterpEffect.thy ===== *)
theory InterpEffect
  imports InterpFrame Opcodes
begin

text \<open>
  What an instruction does to the stacks and to the program counter: how far it looks down the
  value stack, by how much it moves the top, how many bytes of immediates it reads. The three are
  added up along \<open>i_bind\<close>, and compared with the signatures of \<^verbatim>\<open>src/opcode.def\<close>.
\<close>

section \<open>Effects\<close>

definition top_of :: "istate \<Rightarrow> nat" where
  "top_of s = unat (value_stack_top (st_thread s))"

definition stack_of :: "istate \<Rightarrow> Value list" where
  "stack_of s = value_stack (st_thread s)"

text \<open>
  \<open>moved k d n s s1\<close>: the top moved by \<open>d\<close>, the values below the \<open>k\<close> topmost ones are as before, the
  call stack too, and the pc is \<open>n\<close> bytes further.
\<close>

definition moved :: "nat \<Rightarrow> int \<Rightarrow> nat \<Rightarrow> istate \<Rightarrow> istate \<Rightarrow> bool" where
  "moved k d n s s1 \<longleftrightarrow>
     int (top_of s1) = int (top_of s) + d \<and>
     take (top_of s - k) (stack_of s1) = take (top_of s - k) (stack_of s) \<and>
     length (stack_of s1) = length (stack_of s) \<and>
     call_stack (st_thread s1) = call_stack (st_thread s) \<and>
     call_stack_top (st_thread s1) = call_stack_top (st_thread s) \<and>
     st_pc s1 = st_pc s + n"

definition effect :: "nat \<Rightarrow> int \<Rightarrow> nat \<Rightarrow> 'a iop \<Rightarrow> bool" where
  "effect k d n f \<longleftrightarrow> (\<forall>s v s1. f s = (IVal v, s1) \<longrightarrow> length (stack_of s) < 2 ^ 32 \<longrightarrow> k \<le> top_of s \<longrightarrow>
     moved k d n s s1)"

lemma effectI:
  assumes "\<And>s v s1. \<lbrakk>f s = (IVal v, s1); length (stack_of s) < 2 ^ 32; k \<le> top_of s\<rbrakk> \<Longrightarrow> moved k d n s s1"
  shows "effect k d n f"
  using assms unfolding effect_def by blast

lemma effectD:
  assumes "effect k d n f" "f s = (IVal v, s1)" "length (stack_of s) < 2 ^ 32" "k \<le> top_of s"
  shows "moved k d n s s1"
  using assms unfolding effect_def by blast

lemma moved_mono:
  assumes "moved k d n s s1" "k \<le> k'"
  shows "moved k' d n s s1"
proof -
  have "take (top_of s - k') xs = take (top_of s - k') (take (top_of s - k) xs)" for xs :: "Value list"
    using assms(2) by simp
  then show ?thesis using assms(1) unfolding moved_def by metis
qed

lemma moved_trans:
  assumes 1: "moved k d1 n1 a b" and 2: "moved k2 d2 n2 b c" and k: "int k2 \<le> int k + d1" "k \<le> top_of a"
  shows "moved k (d1 + d2) (n1 + n2) a c"
proof -
  define k' where "k' = nat (int k + d1)"
  have k': "k2 \<le> k'" "top_of b - k' = top_of a - k"
    using 1 k unfolding k'_def moved_def by linarith+
  show ?thesis using 1 moved_mono [OF 2 k'(1)] unfolding moved_def k'(2) by simp
qed

named_theorems effect "what operations do to the stacks and the pc"

lemma effect_same:
  assumes "\<And>s v s1. f s = (IVal v, s1) \<Longrightarrow> st_thread s1 = st_thread s \<and> st_pc s1 = st_pc s + n"
  shows "effect 0 0 n f"
  by (rule effectI) (auto simp: moved_def top_of_def stack_of_def dest: assms)

lemma effect_return [effect]: "effect 0 0 0 (i_return x)"
  by (rule effect_same) (simp add: i_return_def)

lemma effect_stop: "effect k d n (i_stop r)"
  by (rule effectI) (simp add: i_stop_def)

lemma effect_undef: "effect k d n i_undef"
  by (rule effectI) (simp add: i_undef_def)

lemma effect_trap_if [effect]: "effect 0 0 0 (i_trap_if c r)"
  by (simp add: i_trap_if_def effect_return effect_stop)

lemma effect_num [effect]: "effect 0 0 0 (i_num x)"
  by (cases x) (simp_all add: i_num_def effect_return effect_stop effect_undef)

lemma effect_bind:
  assumes f: "effect k1 d1 n1 f" and g: "\<And>x. effect k2 d2 n2 (g x)"
    and k: "k1 \<le> k" "int k2 \<le> int k + d1"
  shows "effect k (d1 + d2) (n1 + n2) (i_bind f g)"
proof (rule effectI)
  fix s v s2
  assume b: "i_bind f g s = (IVal v, s2)" and len: "length (stack_of s) < 2 ^ 32" and top: "k \<le> top_of s"
  obtain x s1 where s1: "f s = (IVal x, s1)" "g x s1 = (IVal v, s2)"
    using b by (auto simp: i_bind_def split: prod.splits irun.splits)
  have 1: "moved k d1 n1 s s1"
    using effectD [OF f s1(1) len] k(1) top moved_mono by simp
  have "length (stack_of s1) < 2 ^ 32" "k2 \<le> top_of s1"
    using 1 len k(2) top unfolding moved_def by (simp, linarith)
  from effectD [OF g s1(2) this] show "moved k (d1 + d2) (n1 + n2) s s2"
    by (rule moved_trans [OF 1 _ k(2) top])
qed

lemma effect_seq:
  assumes "effect k1 d1 n1 f" "\<And>x. effect k2 d2 n2 (g x)"
  shows "effect (max k1 (nat (int k2 - d1))) (d1 + d2) (n1 + n2) (i_bind f g)"
  by (rule effect_bind [OF assms]) auto

lemma effect_then:
  assumes "effect k1 d1 n1 f" "effect k2 d2 n2 g"
  shows "effect (max k1 (nat (int k2 - d1))) (d1 + d2) (n1 + n2) (i_then f g)"
  unfolding i_then_def using assms by (rule effect_seq)

lemma effect_eq: "effect k d n f \<Longrightarrow> k = k' \<Longrightarrow> d = d' \<Longrightarrow> n = n' \<Longrightarrow> effect k' d' n' f"
  by simp

lemma effect_get:
  assumes "\<And>v. effect k d n (F v)"
  shows "effect k d n (\<lambda>s. F (h s) s)"
  using assms by (simp add: effect_def)

section \<open>Stack operations\<close>

lemma effect_ReadUx: "effect 0 0 (LENGTH('a) div 8) (ReadUx :: 'a::len word iop)"
  by (rule effect_same) (auto simp: ReadUx_def ReadUxAt_def Let_def split: if_splits)

lemma effect_reads [effect]:
  "effect 0 0 1 ReadU8" "effect 0 0 4 ReadU32" "effect 0 0 8 ReadU64" "effect 0 0 16 ReadV128"
  using effect_ReadUx [where 'a = 8] effect_ReadUx [where 'a = 32] effect_ReadUx [where 'a = 64]
    effect_ReadUx [where 'a = 128]
  by (simp_all add: ReadU8_def ReadU32_def ReadU64_def ReadV128_def)

lemma effect_Push [effect]: "effect 0 1 0 (Thread_Push v)"
proof (rule effectI)
  fix s :: istate and u s1
  assume p: "Thread_Push v s = (IVal u, s1)" and len: "length (stack_of s) < 2 ^ 32"
  have top: "top_of s < length (stack_of s)"
    and s1: "s1 = s\<lparr>st_thread := (st_thread s)\<lparr>value_stack := (stack_of s)[top_of s := v],
      value_stack_top := value_stack_top (st_thread s) + 1\<rparr>\<rparr>"
    using p by (auto simp: Thread_Push_def i_then_def i_bind_def CHECK_STACK_def i_trap_if_def i_stop_def i_return_def
        i_top_def set_value_slot_def i_thread_def i_set_top_def top_of_def stack_of_def split: if_splits)
  have "top_of s1 = top_of s + 1"
    using top len by (simp add: s1 top_of_def unat_word_ariths)
  then show "moved 0 1 0 s s1" unfolding moved_def by (simp add: s1 stack_of_def)
qed

lemma effect_Pop [effect]: "effect 1 (- 1) 0 Thread_Pop"
proof (rule effectI)
  fix s :: istate and u s1
  assume p: "Thread_Pop s = (IVal u, s1)" and top: "1 \<le> top_of s"
  have s1: "s1 = s\<lparr>st_thread := (st_thread s)\<lparr>value_stack_top := value_stack_top (st_thread s) - 1\<rparr>\<rparr>"
    using p by (auto simp: Thread_Pop_def i_then_def i_bind_def i_top_def value_slot_def i_thread_def i_set_top_def split: if_splits)
  have "top_of s1 = top_of s - 1"
    using top by (simp add: s1 top_of_def unat_sub_if_size word_size)
  then show "moved 1 (- 1) 0 s s1" using top unfolding moved_def by (simp add: s1 stack_of_def)
qed

lemma effect_reps [effect]: "effect 0 1 0 (PushRep w)" "effect 1 (- 1) 0 PopRep"
  subgoal by (simp add: PushRep_def effect_Push)
  subgoal unfolding PopRep_def by (rule effect_eq, (rule effect_seq effect)+) simp_all
  done

lemma effect_if [effect]: "effect k d n f \<Longrightarrow> effect k d n g \<Longrightarrow> effect k d n (if c then f else g)"
  by simp

section \<open>Memory\<close>

lemma effect_ReadMemory [effect]: "effect 0 0 4 ReadMemory"
proof -
  have read: "effect 0 0 0 (\<lambda>s. if unat i < length (env_memories (st_env s)) then (IVal (unat i), s) else (IUndef, s))"
    for i :: u32
    by (rule effect_same) (auto split: if_splits)
  show ?thesis
    unfolding ReadMemory_def by (rule effect_eq, rule effect_seq, rule effect_reads, rule read) simp_all
qed

lemma effect_checked:
  assumes "effect k d n f"
  shows "effect k d n (\<lambda>s. i_then (i_trap_if (C s) r) f s)"
proof (rule effect_get [where h = C])
  show "effect k d n (i_then (i_trap_if c r) f)" for c
    by (rule effect_eq [OF effect_then [OF effect_trap_if assms]]) simp_all
qed

lemma effect_addresses [effect]:
  "effect 1 (- 1) 8 (GetAccessAddress sz)" "effect 1 (- 1) 8 (GetAtomicAccessAddress sz)"
  unfolding GetAccessAddress_def GetAtomicAccessAddress_def Let_def
  by (rule effect_eq, (rule effect_seq effect_then effect_checked effect)+, simp_all)+

lemma effect_memory [effect]: "effect 0 0 0 (LoadFromMemory src)" "effect 0 0 0 (StoreToMemory dst w)"
  by (rule effect_same; auto simp: LoadFromMemory_def StoreToMemory_def set_memory_def i_env_def Let_def split: if_splits)+

lemma effect_accesses [effect]:
  "effect 1 0 8 (Thread_Load c)" "effect 2 (- 2) 8 (Thread_Store c')" "effect 1 0 8 (Thread_AtomicLoad c)"
  "effect 2 (- 2) 8 (Thread_AtomicStore c')" "effect 2 (- 1) 8 (Thread_AtomicRmw M f)"
  "effect 3 (- 2) 8 (Thread_AtomicRmwCmpxchg M R)"
  unfolding Thread_Load_def Thread_Store_def Thread_AtomicLoad_def Thread_AtomicStore_def
    Thread_AtomicRmw_def Thread_AtomicRmwCmpxchg_def Let_def
  by (rule effect_eq, (rule effect_seq effect_then effect)+, simp_all)+

lemma effect_memory_size [effect]: "effect 0 1 4 Run_MemorySize"
  unfolding Run_MemorySize_def
  by (rule effect_eq, rule effect_seq, rule effect_ReadMemory,
      rule effect_get [where h = "memory_at m" and F = "\<lambda>v. PushRep (ucast (lim_initial (page_limits v)) :: u32)" for m],
      rule effect_reps) simp_all

lemma effect_set_memory: "effect 0 0 0 (set_memory m x)"
  by (rule effect_same) (auto simp: set_memory_def i_env_def)

lemma effect_MemoryGrow_by: "effect 0 1 0 (MemoryGrow_by m mem g)"
  unfolding MemoryGrow_by_def Let_def
  by (intro effect_if effect_reps(1)) (rule effect_eq [OF effect_then [OF effect_set_memory effect_reps(1)]]; simp)

lemma effect_MemoryGrow [effect]: "effect 1 0 4 Run_MemoryGrow"
  unfolding Run_MemoryGrow_alt
  by (rule effect_eq, rule effect_seq, rule effect_ReadMemory, rule effect_seq, rule effect_reps,
      rule effect_get [where h = "memory_at m" and F = "\<lambda>v. MemoryGrow_by m v g" for m g],
      rule effect_MemoryGrow_by) simp_all

section \<open>Operators\<close>

lemma effect_operators [effect]:
  "effect 1 0 0 (Thread_Unop f)" "effect 2 (- 1) 0 (Thread_Binop g)" "effect 1 0 0 (Thread_UnopTrap h)"
  "effect 2 (- 1) 0 (Thread_BinopTrap k)" "effect 1 0 0 (Thread_SimdUnop c h')" "effect 2 (- 1) 0 (Thread_SimdBinop c' k')"
  unfolding Thread_Unop_def Thread_Binop_def Thread_UnopTrap_def Thread_BinopTrap_def Thread_SimdUnop_def
    Thread_SimdBinop_def
  by (rule effect_eq, (rule effect_seq effect)+, simp_all)+

lemma effect_vector [effect]:
  "effect 1 0 1 (Run_ExtractLane c)" "effect 2 (- 1) 1 (Run_ReplaceLane c')" "effect 2 (- 1) 16 Run_V8X16Shuffle"
  "effect 3 (- 2) 0 Run_V128BitSelect" "effect 3 (- 2) 0 Run_Select"
  unfolding Run_ExtractLane_def Run_ReplaceLane_def Run_V8X16Shuffle_def Run_V128BitSelect_def Run_Select_def
  by (rule effect_eq, (rule effect_seq effect_then effect)+, simp_all)+

lemma effect_SimdShift [effect]:
  assumes "effect 2 (- 1) 0 binop"
  shows "effect 2 (- 1) 0 (Run_SimdShift L w binop)"
  unfolding Run_SimdShift_def
  by (rule effect_eq, (rule effect_seq effect_then effect assms)+) simp_all

lemma effect_consts [effect]:
  "effect 0 1 4 (i_bind ReadU32 PushRep)" "effect 0 1 8 (i_bind ReadU64 PushRep)" "effect 0 1 16 (i_bind ReadV128 PushRep)"
  by (rule effect_eq, (rule effect_seq effect)+, simp_all)+

section \<open>Signatures\<close>

definition num_params :: "opcode_info \<Rightarrow> nat" where
  "num_params info = length (filter (\<lambda>t. t \<noteq> Type_Void) [param1_type info, param2_type info, param3_type info])"

definition num_results :: "opcode_info \<Rightarrow> nat" where
  "num_results info = (if result_type info = Type_Void then 0 else 1)"

text \<open>The instructions whose types depend on their immediates, for which the table has no signature.\<close>

definition without_signature :: "string list" where
  "without_signature = [''Select'', ''Br'', ''BrIf'', ''BrTable'', ''GetGlobal'', ''SetGlobal'', ''GetLocal'',
     ''SetLocal'', ''TeeLocal'', ''Call'', ''CallIndirect'', ''Drop'',
     ''InterpCallHost'', ''InterpAlloca'', ''InterpBrUnless'', ''InterpDropKeep'']"

text \<open>The float operators with one operand, which the table declares with two.\<close>

definition float_unary :: "string list" where
  "float_unary = [''F32Abs'', ''F32Neg'', ''F32Ceil'', ''F32Floor'', ''F32Trunc'', ''F32Nearest'', ''F32Sqrt'',
     ''F64Abs'', ''F64Neg'', ''F64Ceil'', ''F64Floor'', ''F64Trunc'', ''F64Nearest'', ''F64Sqrt'']"

definition operands :: "string \<Rightarrow> opcode_info \<Rightarrow> nat" where
  "operands name info = (if name \<in> set float_unary then 1 else num_params info)"

fun as_declared :: "(string \<times> opcode_info) list \<Rightarrow> string \<times> unit iop \<Rightarrow> bool" where
  "as_declared rows (name, f) \<longleftrightarrow> name \<notin> set without_signature \<longrightarrow>
     (\<exists>info n. map_of rows name = Some info \<and>
        effect (operands name info) (int (num_results info) - int (operands name info)) n f)"

lemma as_declaredI:
  assumes "effect k d n f" "map_of rows name = Some info"
    "operands name info = k" "int (num_results info) - int k = d"
  shows "as_declared rows (name, f)"
  using assms by auto

lemma as_declared_without: "name \<in> set without_signature \<Longrightarrow> as_declared rows (name, f)"
  by simp

lemma row_signature:
  "num_params (snd (WABT_OPCODE r a b c m p k N t)) =
     (if a = Type_Void then 0 else 1) + (if b = Type_Void then 0 else 1) + (if c = Type_Void then 0 else 1)"
  "num_results (snd (WABT_OPCODE r a b c m p k N t)) = (if r = Type_Void then 0 else 1)"
  by (simp_all add: WABT_OPCODE_def num_params_def num_results_def)

text \<open>A row is found by its name: one resolution step for each row before it.\<close>

lemma lookup_row: "map_of (WABT_OPCODE r a b c m p k N t # rows) N = Some (snd (WABT_OPCODE r a b c m p k N t))"
  by (simp add: WABT_OPCODE_def)

definition differ :: "string \<Rightarrow> string \<Rightarrow> bool" where "differ a b \<longleftrightarrow> a \<noteq> b"

lemma differI: "differ xs ys \<Longrightarrow> differ (x # xs) (x # ys)" "differ [] (y # ys)" "differ (x # xs) []"
  by (simp_all add: differ_def)

lemma differ_head:
  "differ (Char False a b c d e f g # xs) (Char True a' b' c' d' e' f' g' # ys)"
  "differ (Char True a b c d e f g # xs) (Char False a' b' c' d' e' f' g' # ys)"
  "differ (Char a False b c d e f g # xs) (Char a' True b' c' d' e' f' g' # ys)"
  "differ (Char a True b c d e f g # xs) (Char a' False b' c' d' e' f' g' # ys)"
  "differ (Char a b False c d e f g # xs) (Char a' b' True c' d' e' f' g' # ys)"
  "differ (Char a b True c d e f g # xs) (Char a' b' False c' d' e' f' g' # ys)"
  "differ (Char a b c False d e f g # xs) (Char a' b' c' True d' e' f' g' # ys)"
  "differ (Char a b c True d e f g # xs) (Char a' b' c' False d' e' f' g' # ys)"
  "differ (Char a b c d False e f g # xs) (Char a' b' c' d' True e' f' g' # ys)"
  "differ (Char a b c d True e f g # xs) (Char a' b' c' d' False e' f' g' # ys)"
  "differ (Char a b c d e False f g # xs) (Char a' b' c' d' e' True f' g' # ys)"
  "differ (Char a b c d e True f g # xs) (Char a' b' c' d' e' False f' g' # ys)"
  "differ (Char a b c d e f False g # xs) (Char a' b' c' d' e' f' True g' # ys)"
  "differ (Char a b c d e f True g # xs) (Char a' b' c' d' e' f' False g' # ys)"
  by (simp_all add: differ_def)

lemma lookup_rows: "differ N' N \<Longrightarrow> map_of rows N = Some i \<Longrightarrow> map_of (WABT_OPCODE r a b c m p k N' t # rows) N = Some i"
  by (simp add: WABT_OPCODE_def differ_def)

text \<open>The rows of the table, grouped as the shapes of the names are.\<close>

definition plain_rows :: "(string \<times> opcode_info) list" where
  "plain_rows = opcode_def_1 @ opcode_def_2 @ take 55 opcode_def_3"
definition simd_rows :: "(string \<times> opcode_info) list" where
  "simd_rows = drop 55 opcode_def_3 @ opcode_def_4 @ take 55 opcode_def_5"
definition threads_rows :: "(string \<times> opcode_info) list" where
  "threads_rows = drop 55 opcode_def_5 @ opcode_def_6"

lemma opcode_def_rows: "opcode_def = plain_rows @ simd_rows @ threads_rows"
  unfolding opcode_def_def plain_rows_def simd_rows_def threads_rows_def append_assoc
  by (simp only: append_take_drop_id flip: append_assoc)

lemma rows_shape:
  "n \<in> fst ` set plain_rows \<Longrightarrow> name_shape n = Gate_always"
  "n \<in> fst ` set simd_rows \<Longrightarrow> name_shape n = Gate_simd"
  "n \<in> fst ` set threads_rows \<Longrightarrow> name_shape n = Gate_threads"
proof -
  have 1: "fst ` set plain_rows = set (map fst opcode_def_1) \<union> set (map fst opcode_def_2) \<union> set (map fst (take 55 opcode_def_3))"
    by (auto simp: plain_rows_def)
  have 2: "fst ` set simd_rows = set simd_opcodes" unfolding simd_names by (auto simp: simd_rows_def)
  have 3: "fst ` set threads_rows = set threads_opcodes" unfolding threads_names by (auto simp: threads_rows_def)
  show "n \<in> fst ` set plain_rows \<Longrightarrow> name_shape n = Gate_always"
    using shapes_1 shapes_2 shapes_3 unfolding 1 list_all_iff by blast
  show "n \<in> fst ` set simd_rows \<Longrightarrow> name_shape n = Gate_simd"
    using shape_simd unfolding 2 list_all_iff by blast
  show "n \<in> fst ` set threads_rows \<Longrightarrow> name_shape n = Gate_threads"
    using shape_threads unfolding 3 list_all_iff by blast
qed

lemma map_of_rows:
  assumes "map_of rows n = Some info" and "rows \<in> {plain_rows, simd_rows, threads_rows}"
  shows "map_of opcode_def n = Some info"
proof -
  have "n \<in> fst ` set rows" using assms(1) by (metis domI dom_map_of_conv_image_fst)
  then have none: "map_of rows' n = None" if "rows' \<in> {plain_rows, simd_rows, threads_rows}" "rows' \<noteq> rows" for rows'
    using that assms(2) rows_shape(1) [of n] rows_shape(2) [of n] rows_shape(3) [of n]
    unfolding map_of_eq_None_iff by (metis empty_iff insert_iff opcode_gate.distinct)
  show ?thesis
    using assms none [of plain_rows] none [of simd_rows] none [of threads_rows]
    by (cases "plain_rows = simd_rows"; cases "simd_rows = threads_rows"; cases "plain_rows = threads_rows")
      (auto simp: opcode_def_rows map_add_def)
qed

lemma as_declared_row:
  "as_declared rows x \<Longrightarrow> rows \<in> {plain_rows, simd_rows, threads_rows} \<Longrightarrow> as_declared opcode_def x"
  by (cases x) (auto dest: map_of_rows)

lemma as_declared_rows:
  assumes "list_all (as_declared rows) table" and "rows \<in> {plain_rows, simd_rows, threads_rows}"
  shows "list_all (as_declared opcode_def) table"
  using assms(1) as_declared_row [OF _ assms(2)] unfolding list_all_iff by blast

lemma take_drop_pred:
  "take (numeral v) (x # xs) = x # take (pred_numeral v) xs" "drop (numeral v) (x # xs) = drop (pred_numeral v) xs"
  by (simp_all add: numeral_eq_Suc)

lemmas rows_unfold = opcode_def_1_def opcode_def_2_def opcode_def_3_def opcode_def_4_def opcode_def_5_def
  opcode_def_6_def append.simps take_drop_pred pred_numeral_simps BitM.simps take_0 drop_0

lemma in_plain: "map_of (opcode_def_1 @ opcode_def_2 @ take 55 opcode_def_3) N = Some i \<Longrightarrow> map_of plain_rows N = Some i"
  by (simp only: plain_rows_def)
lemma in_simd: "map_of (drop 55 opcode_def_3 @ opcode_def_4 @ take 55 opcode_def_5) N = Some i \<Longrightarrow> map_of simd_rows N = Some i"
  by (simp only: simd_rows_def)
lemma in_threads: "map_of (drop 55 opcode_def_5 @ opcode_def_6) N = Some i \<Longrightarrow> map_of threads_rows N = Some i"
  by (simp only: threads_rows_def)

lemmas in_rows = in_plain [unfolded rows_unfold] in_simd [unfolded rows_unfold] in_threads [unfolded rows_unfold]

lemma declared_load_store: "list_all (as_declared plain_rows) Run_load_store"
  unfolding Run_load_store_def list.pred_inject
  by (intro conjI list.pred_inject(1);
      (rule as_declaredI, (rule effect)+, rule in_rows, (rule lookup_row | (rule lookup_rows, (rule differ_head differI)+))+; simp add: row_signature operands_def float_unary_def; fail))

lemma declared_i32: "list_all (as_declared plain_rows) Run_i32"
  unfolding Run_i32_def list.pred_inject
  by (intro conjI list.pred_inject(1);
      (rule as_declaredI, (rule effect)+, rule in_rows, (rule lookup_row | (rule lookup_rows, (rule differ_head differI)+))+; simp add: row_signature operands_def float_unary_def; fail))

lemma declared_i64: "list_all (as_declared plain_rows) Run_i64"
  unfolding Run_i64_def list.pred_inject
  by (intro conjI list.pred_inject(1);
      (rule as_declaredI, (rule effect)+, rule in_rows, (rule lookup_row | (rule lookup_rows, (rule differ_head differI)+))+; simp add: row_signature operands_def float_unary_def; fail))

lemma declared_f32: "list_all (as_declared plain_rows) (Run_f32 nan)"
  unfolding Run_f32_def list.pred_inject
  by (intro conjI list.pred_inject(1);
      (rule as_declaredI, (rule effect)+, rule in_rows, (rule lookup_row | (rule lookup_rows, (rule differ_head differI)+))+; simp add: row_signature operands_def float_unary_def; fail))

lemma declared_f64: "list_all (as_declared plain_rows) (Run_f64 nan)"
  unfolding Run_f64_def list.pred_inject
  by (intro conjI list.pred_inject(1);
      (rule as_declaredI, (rule effect)+, rule in_rows, (rule lookup_row | (rule lookup_rows, (rule differ_head differI)+))+; simp add: row_signature operands_def float_unary_def; fail))

lemma declared_trunc: "list_all (as_declared plain_rows) Run_trunc"
  unfolding Run_trunc_def list.pred_inject
  by (intro conjI list.pred_inject(1);
      (rule as_declaredI, (rule effect)+, rule in_rows, (rule lookup_row | (rule lookup_rows, (rule differ_head differI)+))+; simp add: row_signature operands_def float_unary_def; fail))

lemma declared_convert: "list_all (as_declared plain_rows) (Run_convert nan)"
  unfolding Run_convert_def list.pred_inject
  by (intro conjI list.pred_inject(1);
      (rule as_declaredI, (rule effect)+, rule in_rows, (rule lookup_row | (rule lookup_rows, (rule differ_head differI)+))+; simp add: row_signature operands_def float_unary_def; fail))

lemma declared_rot_extend: "list_all (as_declared plain_rows) Run_rot_extend"
  unfolding Run_rot_extend_def list.pred_inject
  by (intro conjI list.pred_inject(1);
      (rule as_declaredI, (rule effect)+, rule in_rows, (rule lookup_row | (rule lookup_rows, (rule differ_head differI)+))+; simp add: row_signature operands_def float_unary_def; fail))

lemma declared_atomic_access: "list_all (as_declared threads_rows) Run_atomic_access"
  unfolding Run_atomic_access_def list.pred_inject
  by (intro conjI list.pred_inject(1);
      (rule as_declaredI, (rule effect)+, rule in_rows, (rule lookup_row | (rule lookup_rows, (rule differ_head differI)+))+; simp add: row_signature operands_def float_unary_def; fail))

lemma declared_atomic_rmw: "list_all (as_declared threads_rows) Run_atomic_rmw"
  unfolding Run_atomic_rmw_def list.pred_inject
  by (intro conjI list.pred_inject(1);
      (rule as_declaredI, (rule effect)+, rule in_rows, (rule lookup_row | (rule lookup_rows, (rule differ_head differI)+))+; simp add: row_signature operands_def float_unary_def; fail))

lemma declared_cmpxchg: "list_all (as_declared threads_rows) (take 7 Run_atomic_cmpxchg)"
  unfolding Run_atomic_cmpxchg_def take_drop_pred pred_numeral_simps BitM.simps take_0 drop_0 list.pred_inject
  by (intro conjI list.pred_inject(1);
      (rule as_declaredI, (rule effect)+, rule in_rows, (rule lookup_row | (rule lookup_rows, (rule differ_head differI)+))+; simp add: row_signature operands_def float_unary_def; fail))

lemma declared_memory: "list_all (as_declared plain_rows) (drop 7 Run_atomic_cmpxchg)"
  unfolding Run_atomic_cmpxchg_def take_drop_pred pred_numeral_simps BitM.simps take_0 drop_0 list.pred_inject
  by (intro conjI list.pred_inject(1);
      (rule as_declaredI, (rule effect)+, rule in_rows, (rule lookup_row | (rule lookup_rows, (rule differ_head differI)+))+; simp add: row_signature operands_def float_unary_def; fail))

lemma declared_v128_access: "list_all (as_declared simd_rows) Run_v128_access"
  unfolding Run_v128_access_def list.pred_inject
  by (intro conjI list.pred_inject(1);
      (rule as_declaredI, (rule effect)+, rule in_rows, (rule lookup_row | (rule lookup_rows, (rule differ_head differI)+))+; simp add: row_signature operands_def float_unary_def; fail))

lemma declared_lane: "list_all (as_declared simd_rows) Run_lane"
  unfolding Run_lane_def list.pred_inject
  by (intro conjI list.pred_inject(1);
      (rule as_declaredI, (rule effect)+, rule in_rows, (rule lookup_row | (rule lookup_rows, (rule differ_head differI)+))+; simp add: row_signature operands_def float_unary_def; fail))

lemma declared_simd_int: "list_all (as_declared simd_rows) Run_simd_int"
  unfolding Run_simd_int_def list.pred_inject
  by (intro conjI list.pred_inject(1);
      (rule as_declaredI, (rule effect)+, rule in_rows, (rule lookup_row | (rule lookup_rows, (rule differ_head differI)+))+; simp add: row_signature operands_def float_unary_def; fail))

lemma declared_simd_shift: "list_all (as_declared simd_rows) Run_simd_shift"
  unfolding Run_simd_shift_def list.pred_inject
  by (intro conjI list.pred_inject(1);
      (rule as_declaredI, (rule effect)+, rule in_rows, (rule lookup_row | (rule lookup_rows, (rule differ_head differI)+))+; simp add: row_signature operands_def float_unary_def; fail))

lemma declared_v128_bits: "list_all (as_declared simd_rows) Run_v128_bits"
  unfolding Run_v128_bits_def list.pred_inject
  by (intro conjI list.pred_inject(1);
      (rule as_declaredI, (rule effect)+, rule in_rows, (rule lookup_row | (rule lookup_rows, (rule differ_head differI)+))+; simp add: row_signature operands_def float_unary_def; fail))

lemma declared_simd_eq: "list_all (as_declared simd_rows) Run_simd_eq"
  unfolding Run_simd_eq_def list.pred_inject
  by (intro conjI list.pred_inject(1);
      (rule as_declaredI, (rule effect)+, rule in_rows, (rule lookup_row | (rule lookup_rows, (rule differ_head differI)+))+; simp add: row_signature operands_def float_unary_def; fail))

lemma declared_simd_ord: "list_all (as_declared simd_rows) Run_simd_ord"
  unfolding Run_simd_ord_def list.pred_inject
  by (intro conjI list.pred_inject(1);
      (rule as_declaredI, (rule effect)+, rule in_rows, (rule lookup_row | (rule lookup_rows, (rule differ_head differI)+))+; simp add: row_signature operands_def float_unary_def; fail))

lemma declared_simd_float: "list_all (as_declared simd_rows) (Run_simd_float nan)"
  unfolding Run_simd_float_def list.pred_inject
  by (intro conjI list.pred_inject(1);
      (rule as_declaredI, (rule effect)+, rule in_rows, (rule lookup_row | (rule lookup_rows, (rule differ_head differI)+))+; simp add: row_signature operands_def float_unary_def; fail))

lemma as_declared_stop: "map_of rows name = Some info \<Longrightarrow> as_declared rows (name, i_stop r)"
  by (auto simp: effect_stop)

lemma declared_control: "list_all (as_declared plain_rows) (Run_control cb)"
  unfolding Run_control_def list.pred_inject
  by (intro conjI list.pred_inject(1);
      ((rule as_declared_without, simp add: without_signature_def; fail) |
      (rule as_declared_stop, rule in_rows, (rule lookup_row | (rule lookup_rows, (rule differ_head differI)+))+; simp; fail) |
      (rule as_declaredI, (rule effect)+, rule in_rows, (rule lookup_row | (rule lookup_rows, (rule differ_head differI)+))+;
        simp add: row_signature operands_def float_unary_def; fail)))

lemma declared_interp: "list_all (as_declared opcode_def) Run_interp"
proof -
  have rows: "plain_rows \<in> {plain_rows, simd_rows, threads_rows}" "threads_rows \<in> {plain_rows, simd_rows, threads_rows}"
    by simp_all
  have "as_declared opcode_def (''Nop'', i_return ())"
    by (rule as_declared_row [OF _ rows(1)], rule as_declaredI, rule effect, rule in_rows,
        (rule lookup_row | (rule lookup_rows, (rule differ_head differI)+))+; simp add: row_signature operands_def float_unary_def)
  moreover have "as_declared opcode_def (''I32AtomicWait'', i_stop IR_TrapUnreachable)"
    "as_declared opcode_def (''I64AtomicWait'', i_stop IR_TrapUnreachable)"
    "as_declared opcode_def (''AtomicWake'', i_stop IR_TrapUnreachable)"
    by (rule as_declared_row [OF _ rows(2)], rule as_declared_stop, rule in_rows,
        (rule lookup_row | (rule lookup_rows, (rule differ_head differI)+))+; simp)+
  ultimately show ?thesis
    using as_declared_without
    by (simp only: Run_interp_def list.pred_inject simp_thms) (simp add: without_signature_def del: as_declared.simps)
qed

lemma declared_table: "list_all (as_declared opcode_def) (Run_table cb nan)"
proof -
  have split: "Run_atomic_cmpxchg = take 7 Run_atomic_cmpxchg @ drop 7 Run_atomic_cmpxchg" by simp
  have cmpxchg: "list_all (as_declared opcode_def) Run_atomic_cmpxchg"
    by (subst split, unfold list_all_append, intro conjI as_declared_rows [OF declared_cmpxchg] as_declared_rows [OF declared_memory]) simp_all
  show ?thesis
    unfolding Run_table_def list_all_append
    by (intro conjI cmpxchg declared_interp;
        (rule as_declared_rows, rule declared_control declared_load_store declared_atomic_access declared_atomic_rmw
          declared_i32 declared_i64 declared_f32 declared_f64 declared_trunc declared_convert declared_rot_extend
          declared_v128_access declared_lane declared_simd_int declared_simd_shift declared_v128_bits
          declared_simd_eq declared_simd_ord declared_simd_float, simp))
qed

text \<open>
  C33. The interpreter executes what the opcode table declares. Whenever an instruction that has a
  signature in \<^verbatim>\<open>opcode.def\<close> finishes without a trap, it has popped exactly its operands and pushed
  its result: the top has moved by their difference, and the values below the operands, the call
  stack and the size of the value stack are as before. The exceptions are the fourteen unary float
  operators: the table gives them two operands, the interpreter pops one.
\<close>

theorem instruction_signature:
  assumes "map_of (Run_table cb nan) name = Some f" "name \<notin> set without_signature"
    and "f s = (IVal (), s1)"
    and "length (value_stack (st_thread s)) < 2 ^ 32"
    and "map_of opcode_def name = Some info"
    and "operands name info \<le> unat (value_stack_top (st_thread s))"
  shows "unat (value_stack_top (st_thread s1)) + operands name info =
      unat (value_stack_top (st_thread s)) + num_results info \<and>
    take (unat (value_stack_top (st_thread s)) - operands name info) (value_stack (st_thread s1)) =
      take (unat (value_stack_top (st_thread s)) - operands name info) (value_stack (st_thread s)) \<and>
    length (value_stack (st_thread s1)) = length (value_stack (st_thread s)) \<and>
    call_stack (st_thread s1) = call_stack (st_thread s) \<and>
    call_stack_top (st_thread s1) = call_stack_top (st_thread s)"
proof -
  have "as_declared opcode_def (name, f)"
    using declared_table map_of_SomeD [OF assms(1)] unfolding list_all_iff by blast
  then obtain n where "effect (operands name info) (int (num_results info) - int (operands name info)) n f"
    using assms(2,5) by auto
  then have "moved (operands name info) (int (num_results info) - int (operands name info)) n s s1"
    using assms(4,6) by (intro effectD [where f = f and v = "()", OF _ assms(3)]) (simp_all add: top_of_def stack_of_def)
  then show ?thesis unfolding moved_def top_of_def stack_of_def by linarith
qed

definition one_value :: istate where
  "one_value = \<lparr>st_env = Environment_init,
     st_thread = \<lparr>value_stack = [3, 0xffffffff], call_stack = [], value_stack_top = 2, call_stack_top = 0, thread_pc = 0\<rparr>,
     st_pc = 7\<rparr>"

theorem instruction_signature_witness:
  "unat (value_stack_top (st_thread (snd (Thread_Unop (IntEqz :: u32 \<Rightarrow> u32) one_value)))) + 1 = 2 + 1 \<and>
   take 1 (value_stack (st_thread (snd (Thread_Unop (IntEqz :: u32 \<Rightarrow> u32) one_value)))) = [3]"
proof -
  let ?f = "Thread_Unop (IntEqz :: u32 \<Rightarrow> u32)"
  let ?row = "WABT_OPCODE Type_I32 Type_I32 Type_Void Type_Void 0 0 0x45 ''I32Eqz'' ''i32.eqz''"
  have f: "map_of (Run_table cb nan) ''I32Eqz'' = Some ?f" for cb nan
    by (simp add: Run_table_def Run_control_def Run_load_store_def Run_atomic_access_def Run_atomic_rmw_def
        Run_atomic_cmpxchg_def Run_i32_def)
  have run: "?f one_value = (IVal (), snd (?f one_value))"
    by (simp add: Thread_Unop_def one_value_def i_bind_def i_then_def PopRep_def Thread_Pop_def i_top_def i_set_top_def
        i_thread_def value_slot_def PushRep_def Thread_Push_def CHECK_STACK_def i_trap_if_def i_return_def set_value_slot_def)
  have row: "map_of opcode_def ''I32Eqz'' = Some (snd ?row)"
    by (rule map_of_rows [where rows = plain_rows], rule in_rows, (rule lookup_row | (rule lookup_rows, (rule differ_head differI)+))+) simp_all
  have op: "operands ''I32Eqz'' (snd ?row) = 1" "num_results (snd ?row) = 1"
    by (simp_all add: operands_def float_unary_def row_signature)
  show ?thesis
    using instruction_signature [OF f _ run _ row] op
    by (simp add: without_signature_def one_value_def)
qed

end
