(* ===== verification/BinaryReader.thy ===== *)
theory BinaryReader
  imports InterpMachine Leb128 Utf8
begin

text \<open>
  The parser of binary modules (\<^verbatim>\<open>src/binary-reader.cc\<close>, \<^verbatim>\<open>src/binary-reader.h\<close>, \<^verbatim>\<open>src/binary.h\<close>): its
  state, the callbacks it makes, reading numbers, strings and types, initializer expressions, and
  the types of tables, memories and globals. The sections follow in \<open>BinaryReaderSections\<close>. The
  delegate is a parameter: a function that receives each callback.
\<close>

section \<open>Options and constants\<close>

definition WABT_BINARY_MAGIC :: u32 where "WABT_BINARY_MAGIC = 0x6d736100"
definition WABT_BINARY_VERSION :: u32 where "WABT_BINARY_VERSION = 1"
definition WABT_BINARY_LIMITS_HAS_MAX_FLAG :: u32 where "WABT_BINARY_LIMITS_HAS_MAX_FLAG = 0x1"
definition WABT_BINARY_LIMITS_IS_SHARED_FLAG :: u32 where "WABT_BINARY_LIMITS_IS_SHARED_FLAG = 0x2"
definition WABT_BINARY_SECTION_NAME :: string where "WABT_BINARY_SECTION_NAME = ''name''"
definition WABT_BINARY_SECTION_RELOC :: string where "WABT_BINARY_SECTION_RELOC = ''reloc''"
definition WABT_BINARY_SECTION_LINKING :: string where "WABT_BINARY_SECTION_LINKING = ''linking''"
definition WABT_BINARY_SECTION_EXCEPTION :: string where "WABT_BINARY_SECTION_EXCEPTION = ''exception''"
definition WABT_SYMBOL_FLAG_UNDEFINED :: u32 where "WABT_SYMBOL_FLAG_UNDEFINED = 0x10"

datatype BinarySection = Section_Custom | Section_Type | Section_Import | Section_Function
  | Section_Table | Section_Memory | Section_Global | Section_Export | Section_Start | Section_Elem
  | Section_Code | Section_Data | Section_Invalid

fun Section_code :: "BinarySection \<Rightarrow> nat" where
  "Section_code Section_Custom = 0"
| "Section_code Section_Type = 1"
| "Section_code Section_Import = 2"
| "Section_code Section_Function = 3"
| "Section_code Section_Table = 4"
| "Section_code Section_Memory = 5"
| "Section_code Section_Global = 6"
| "Section_code Section_Export = 7"
| "Section_code Section_Start = 8"
| "Section_code Section_Elem = 9"
| "Section_code Section_Code = 10"
| "Section_code Section_Data = 11"
| "Section_code Section_Invalid = 12"

definition kBinarySectionCount :: nat where "kBinarySectionCount = 12"

text \<open>\<open>static_cast<BinarySection>(code)\<close>, of a code below \<open>kBinarySectionCount\<close>.\<close>

definition Section_of :: "u32 \<Rightarrow> BinarySection" where
  "Section_of code = [Section_Custom, Section_Type, Section_Import, Section_Function, Section_Table,
     Section_Memory, Section_Global, Section_Export, Section_Start, Section_Elem, Section_Code,
     Section_Data] ! unat code"

fun GetSectionName :: "BinarySection \<Rightarrow> string" where
  "GetSectionName Section_Custom = ''Custom''"
| "GetSectionName Section_Type = ''Type''"
| "GetSectionName Section_Import = ''Import''"
| "GetSectionName Section_Function = ''Function''"
| "GetSectionName Section_Table = ''Table''"
| "GetSectionName Section_Memory = ''Memory''"
| "GetSectionName Section_Global = ''Global''"
| "GetSectionName Section_Export = ''Export''"
| "GetSectionName Section_Start = ''Start''"
| "GetSectionName Section_Elem = ''Elem''"
| "GetSectionName Section_Code = ''Code''"
| "GetSectionName Section_Data = ''Data''"
| "GetSectionName Section_Invalid = []"

text \<open>No log stream: the delegate is called directly.\<close>

record ReadBinaryOptions =
  opt_features :: Features
  opt_read_debug_names :: bool
  opt_stop_on_first_error :: bool
  opt_fail_on_custom_section_error :: bool

datatype ErrorLevel = ErrorLevel_Warning | ErrorLevel_Error

section \<open>Callbacks\<close>

text \<open>
  A value of \<open>Type\<close> that was read is its 32 bits: nothing is known of it until it is checked. A
  \<open>string_view\<close> and the bytes of a data segment are the bytes they point to, an array and its size
  are a list, an \<open>Offset\<close> is a natural number.
\<close>

datatype module_event =
    Ev_BeginModule u32 | Ev_EndModule | Ev_BeginSection BinarySection nat
  | Ev_BeginCustomSection nat bytes | Ev_EndCustomSection
  | Ev_BeginTypeSection nat | Ev_OnTypeCount Index | Ev_OnType Index "u32 list" "u32 list" | Ev_EndTypeSection
  | Ev_BeginImportSection nat | Ev_OnImportCount Index | Ev_OnImport Index bytes bytes
  | Ev_OnImportFunc Index bytes bytes Index Index | Ev_OnImportTable Index bytes bytes Index u32 Limits
  | Ev_OnImportMemory Index bytes bytes Index Limits | Ev_OnImportGlobal Index bytes bytes Index u32 bool
  | Ev_OnImportException Index bytes bytes Index "u32 list" | Ev_EndImportSection

datatype define_event =
    Ev_BeginFunctionSection nat | Ev_OnFunctionCount Index | Ev_OnFunction Index Index | Ev_EndFunctionSection
  | Ev_BeginTableSection nat | Ev_OnTableCount Index | Ev_OnTable Index u32 Limits | Ev_EndTableSection
  | Ev_BeginMemorySection nat | Ev_OnMemoryCount Index | Ev_OnMemory Index Limits | Ev_EndMemorySection
  | Ev_BeginGlobalSection nat | Ev_OnGlobalCount Index | Ev_BeginGlobal Index u32 bool
  | Ev_BeginGlobalInitExpr Index | Ev_EndGlobalInitExpr Index | Ev_EndGlobal Index | Ev_EndGlobalSection
  | Ev_BeginExportSection nat | Ev_OnExportCount Index | Ev_OnExport Index ExternalKind Index bytes
  | Ev_EndExportSection | Ev_BeginStartSection nat | Ev_OnStartFunction Index | Ev_EndStartSection

datatype segment_event =
    Ev_OnInitExprF32ConstExpr Index u32 | Ev_OnInitExprF64ConstExpr Index u64
  | Ev_OnInitExprV128ConstExpr Index v128 | Ev_OnInitExprGetGlobalExpr Index Index
  | Ev_OnInitExprI32ConstExpr Index u32 | Ev_OnInitExprI64ConstExpr Index u64
  | Ev_BeginElemSection nat | Ev_OnElemSegmentCount Index | Ev_BeginElemSegment Index Index
  | Ev_BeginElemSegmentInitExpr Index | Ev_EndElemSegmentInitExpr Index
  | Ev_OnElemSegmentFunctionIndexCount Index Index | Ev_OnElemSegmentFunctionIndex Index Index
  | Ev_EndElemSegment Index | Ev_EndElemSection
  | Ev_BeginDataSection nat | Ev_OnDataSegmentCount Index | Ev_BeginDataSegment Index Index
  | Ev_BeginDataSegmentInitExpr Index | Ev_EndDataSegmentInitExpr Index | Ev_OnDataSegmentData Index bytes
  | Ev_EndDataSegment Index | Ev_EndDataSection

datatype name_event =
    Ev_BeginNamesSection nat | Ev_OnModuleNameSubsection Index u32 nat | Ev_OnModuleName bytes
  | Ev_OnFunctionNameSubsection Index u32 nat | Ev_OnFunctionNamesCount Index | Ev_OnFunctionName Index bytes
  | Ev_OnLocalNameSubsection Index u32 nat | Ev_OnLocalNameFunctionCount Index
  | Ev_OnLocalNameLocalCount Index Index | Ev_OnLocalName Index Index bytes | Ev_EndNamesSection
  | Ev_BeginExceptionSection nat | Ev_OnExceptionCount Index | Ev_OnExceptionType Index "u32 list"
  | Ev_EndExceptionSection

datatype link_event =
    Ev_BeginRelocSection nat | Ev_OnRelocCount Index Index | Ev_OnReloc u32 nat Index u32 | Ev_EndRelocSection
  | Ev_BeginLinkingSection nat | Ev_OnSymbolCount Index | Ev_OnSymbol Index u32 u32
  | Ev_OnDataSymbol Index u32 bytes Index u32 u32 | Ev_OnFunctionSymbol Index u32 bytes Index
  | Ev_OnGlobalSymbol Index u32 bytes Index | Ev_OnSectionSymbol Index u32 Index
  | Ev_OnSegmentInfoCount Index | Ev_OnSegmentInfo Index bytes u32 u32 | Ev_OnInitFunctionCount Index
  | Ev_OnInitFunction u32 Index | Ev_EndLinkingSection

datatype body_event =
    Ev_BeginCodeSection nat | Ev_OnFunctionBodyCount Index | Ev_BeginFunctionBody Index
  | Ev_OnLocalDeclCount Index | Ev_OnLocalDecl Index Index u32 | Ev_EndFunctionBody Index | Ev_EndCodeSection
  | Ev_OnOpcode u32 | Ev_OnOpcodeBare | Ev_OnOpcodeUint32 u32 | Ev_OnOpcodeIndex Index
  | Ev_OnOpcodeUint32Uint32 u32 u32 | Ev_OnOpcodeUint64 u64 | Ev_OnOpcodeF32 u32 | Ev_OnOpcodeF64 u64
  | Ev_OnOpcodeV128 v128 | Ev_OnOpcodeBlockSig u32

datatype operator_event =
    Ev_OnUnaryExpr u32 | Ev_OnTernaryExpr u32 | Ev_OnBinaryExpr u32 | Ev_OnCompareExpr u32
  | Ev_OnConvertExpr u32 | Ev_OnSimdLaneOpExpr u32 u64 | Ev_OnSimdShuffleOpExpr u32 v128
  | Ev_OnAtomicLoadExpr u32 u32 u32 | Ev_OnAtomicStoreExpr u32 u32 u32 | Ev_OnAtomicRmwExpr u32 u32 u32
  | Ev_OnAtomicRmwCmpxchgExpr u32 u32 u32 | Ev_OnAtomicWaitExpr u32 u32 u32 | Ev_OnAtomicWakeExpr u32 u32 u32
  | Ev_OnLoadExpr u32 u32 u32 | Ev_OnStoreExpr u32 u32 u32 | Ev_OnMemoryGrowExpr | Ev_OnMemorySizeExpr
  | Ev_OnI32ConstExpr u32 | Ev_OnI64ConstExpr u64 | Ev_OnF32ConstExpr u32 | Ev_OnF64ConstExpr u64
  | Ev_OnV128ConstExpr v128 | Ev_OnGetGlobalExpr Index | Ev_OnSetGlobalExpr Index | Ev_OnGetLocalExpr Index
  | Ev_OnSetLocalExpr Index | Ev_OnTeeLocalExpr Index

datatype control_event =
    Ev_OnBlockExpr u32 | Ev_OnLoopExpr u32 | Ev_OnIfExpr u32 | Ev_OnElseExpr | Ev_OnEndExpr | Ev_OnEndFunc
  | Ev_OnBrExpr Index | Ev_OnBrIfExpr Index | Ev_OnBrTableExpr "Index list" Index | Ev_OnReturnExpr
  | Ev_OnNopExpr | Ev_OnSelectExpr | Ev_OnUnreachableExpr | Ev_OnDropExpr | Ev_OnCallExpr Index
  | Ev_OnCallIndirectExpr Index | Ev_OnCatchExpr | Ev_OnRethrowExpr | Ev_OnThrowExpr Index | Ev_OnTryExpr u32
  | Ev_OnIfExceptExpr u32 Index

datatype event = Module_Event module_event | Define_Event define_event | Segment_Event segment_event
  | Name_Event name_event | Link_Event link_event | Body_Event body_event | Operator_Event operator_event
  | Control_Event control_event

text \<open>
  \<open>BinaryReaderDelegate\<close>: what it does with a callback, and with an error. It sees the offset the
  parser is at (\<open>OnSetState\<close>). The result of a callback is \<open>None\<close> where it has undefined behaviour.
\<close>

record 'd BinaryReaderDelegate =
  deliver :: "nat \<Rightarrow> event \<Rightarrow> 'd \<Rightarrow> Result option \<times> 'd"
  on_error :: "nat \<Rightarrow> ErrorLevel \<Rightarrow> string \<Rightarrow> 'd \<Rightarrow> 'd"

section \<open>State\<close>

text \<open>
  \<open>class BinaryReader\<close> with the delegate's own state. The vectors that only pass values to the next
  callback are lists in the operations that fill them.
\<close>

record 'd BinaryReader =
  br_data :: bytes
  br_offset :: nat
  br_read_end :: nat
  br_delegate :: "'d BinaryReaderDelegate"
  br_delegate_state :: 'd
  br_options :: ReadBinaryOptions
  br_last_known_section :: BinarySection
  br_did_read_names_section :: bool
  br_reading_custom_section :: bool
  br_num_signatures :: Index
  br_num_imports :: Index
  br_num_func_imports :: Index
  br_num_table_imports :: Index
  br_num_memory_imports :: Index
  br_num_global_imports :: Index
  br_num_exception_imports :: Index
  br_num_function_signatures :: Index
  br_num_tables :: Index
  br_num_memories :: Index
  br_num_globals :: Index
  br_num_exports :: Index
  br_num_function_bodies :: Index
  br_num_exceptions :: Index

definition BinaryReader_init :: "bytes \<Rightarrow> 'd BinaryReaderDelegate \<Rightarrow> 'd \<Rightarrow> ReadBinaryOptions \<Rightarrow> 'd BinaryReader" where
  "BinaryReader_init data delegate d options =
     \<lparr>br_data = data, br_offset = 0, br_read_end = length data, br_delegate = delegate,
      br_delegate_state = d, br_options = options, br_last_known_section = Section_Invalid,
      br_did_read_names_section = False, br_reading_custom_section = False,
      br_num_signatures = 0, br_num_imports = 0, br_num_func_imports = 0, br_num_table_imports = 0,
      br_num_memory_imports = 0, br_num_global_imports = 0, br_num_exception_imports = 0,
      br_num_function_signatures = 0, br_num_tables = 0, br_num_memories = 0, br_num_globals = 0,
      br_num_exports = 0, br_num_function_bodies = 0, br_num_exceptions = 0\<rparr>"

text \<open>
  An operation gives a value, returns \<open>Result::Error\<close>, reads outside the data (\<open>BUndef\<close>), calls a
  delegate that has undefined behaviour (\<open>BDelegate\<close>), or goes round a loop once more than the
  bytes that are left (\<open>BFuel\<close>).
\<close>

datatype 'a bres = BOk 'a | BError | BUndef | BDelegate | BFuel

type_synonym ('d, 'a) bop = "'d BinaryReader \<Rightarrow> 'a bres \<times> 'd BinaryReader"

definition b_return :: "'a \<Rightarrow> ('d, 'a) bop" where
  "b_return x s = (BOk x, s)"

definition b_error :: "('d, 'a) bop" where
  "b_error s = (BError, s)"

text \<open>\<open>CHECK_RESULT\<close> and what follows.\<close>

definition b_bind :: "('d, 'a) bop \<Rightarrow> ('a \<Rightarrow> ('d, 'b) bop) \<Rightarrow> ('d, 'b) bop" where
  "b_bind f g s = (case f s of
     (BOk x, s1) \<Rightarrow> g x s1
   | (BError, s1) \<Rightarrow> (BError, s1)
   | (BUndef, s1) \<Rightarrow> (BUndef, s1)
   | (BDelegate, s1) \<Rightarrow> (BDelegate, s1)
   | (BFuel, s1) \<Rightarrow> (BFuel, s1))"

definition b_then :: "('d, 'a) bop \<Rightarrow> ('d, 'b) bop \<Rightarrow> ('d, 'b) bop" where
  "b_then f g = b_bind f (\<lambda>_. g)"

definition b_get :: "('d BinaryReader \<Rightarrow> 'a) \<Rightarrow> ('d, 'a) bop" where
  "b_get f s = (BOk (f s), s)"

definition b_mod :: "('d BinaryReader \<Rightarrow> 'd BinaryReader) \<Rightarrow> ('d, unit) bop" where
  "b_mod f s = (BOk (), f s)"

text \<open>\<open>for (Index i = 0; i < n; ++i)\<close>, with the variables that the body changes.\<close>

primrec b_for_from :: "nat \<Rightarrow> nat \<Rightarrow> (Index \<Rightarrow> 'a \<Rightarrow> ('d, 'a) bop) \<Rightarrow> 'a \<Rightarrow> ('d, 'a) bop" where
  "b_for_from i 0 f a = b_return a"
| "b_for_from i (Suc n) f a = b_bind (f (of_nat i) a) (b_for_from (Suc i) n f)"

definition b_for :: "Index \<Rightarrow> (Index \<Rightarrow> 'a \<Rightarrow> ('d, 'a) bop) \<Rightarrow> 'a \<Rightarrow> ('d, 'a) bop" where
  "b_for n f a = b_for_from 0 (unat n) f a"

text \<open>A loop up to an offset: every iteration has to read a byte, so the bytes left are its fuel.\<close>

primrec b_while :: "nat \<Rightarrow> ('d BinaryReader \<Rightarrow> bool) \<Rightarrow> ('a \<Rightarrow> ('d, 'a) bop) \<Rightarrow> 'a \<Rightarrow> ('d, 'a) bop" where
  "b_while 0 c f a = (\<lambda>s. if c s then (BFuel, s) else (BOk a, s))"
| "b_while (Suc n) c f a = (\<lambda>s. if c s then b_bind (f a) (b_while n c f) s else (BOk a, s))"

definition b_until :: "('d BinaryReader \<Rightarrow> nat) \<Rightarrow> ('a \<Rightarrow> ('d, 'a) bop) \<Rightarrow> 'a \<Rightarrow> ('d, 'a) bop" where
  "b_until end_of f a =
     b_bind (b_get (\<lambda>s. end_of s - br_offset s)) (\<lambda>fuel. b_while fuel (\<lambda>s. br_offset s < end_of s) f a)"

text \<open>\<open>ValueRestoreGuard\<close>: the old value comes back when the scope is left, by any way.\<close>

definition with_read_end :: "nat \<Rightarrow> ('d, 'a) bop \<Rightarrow> ('d, 'a) bop" where
  "with_read_end e f s = (case f (s\<lparr>br_read_end := e\<rparr>) of (r, s1) \<Rightarrow> (r, s1\<lparr>br_read_end := br_read_end s\<rparr>))"

definition with_custom_section :: "('d, 'a) bop \<Rightarrow> ('d, 'a) bop" where
  "with_custom_section f s =
     (case f (s\<lparr>br_reading_custom_section := True\<rparr>) of
        (r, s1) \<Rightarrow> (r, s1\<lparr>br_reading_custom_section := br_reading_custom_section s\<rparr>))"

section \<open>Errors\<close>

text \<open>Hexadecimal digits, as \<open>printf\<close> writes an unsigned integer.\<close>

fun show_hex :: "nat \<Rightarrow> string" where
  "show_hex n = (if n < 16 then [''0123456789abcdef'' ! n] else show_hex (n div 16) @ [''0123456789abcdef'' ! (n mod 16)])"

declare show_hex.simps [simp del]

definition show_u32 :: "u32 \<Rightarrow> string" where "show_u32 w = show_nat (unat w)"

text \<open>\<open>%d\<close> and \<open>%#x\<close> of a value of \<open>Type\<close>, and \<open>PRItypecode\<close>.\<close>

definition show_s32 :: "u32 \<Rightarrow> string" where
  "show_s32 w = (if sint w < 0 then CHR ''-'' # show_nat (nat (- sint w)) else show_nat (nat (sint w)))"

definition show_hash_x :: "nat \<Rightarrow> string" where
  "show_hash_x n = (if n = 0 then ''0'' else ''0x'' @ show_hex n)"

definition show_typecode :: "u32 \<Rightarrow> string" where
  "show_typecode t = (if sint t < 0 then ''-'' else []) @ show_hash_x (nat \<bar>sint t\<bar>)"

definition BR_PrintError :: "string \<Rightarrow> ('d, unit) bop" where
  "BR_PrintError msg = b_mod (\<lambda>s.
     let error_level = (if br_reading_custom_section s \<and> \<not> opt_fail_on_custom_section_error (br_options s)
                        then ErrorLevel_Warning else ErrorLevel_Error)
     in s\<lparr>br_delegate_state := on_error (br_delegate s) (br_offset s) error_level msg (br_delegate_state s)\<rparr>)"

text \<open>\<open>PrintError(...); return Result::Error\<close>, \<open>ERROR_UNLESS\<close>, \<open>CALLBACK\<close>\<close>

definition b_fail :: "string \<Rightarrow> ('d, 'a) bop" where
  "b_fail msg = b_then (BR_PrintError msg) b_error"

definition ERROR_UNLESS :: "bool \<Rightarrow> string \<Rightarrow> ('d, unit) bop" where
  "ERROR_UNLESS c msg = (if c then b_return () else b_fail msg)"

definition b_deliver :: "event \<Rightarrow> ('d, Result) bop" where
  "b_deliver e s =
     (case deliver (br_delegate s) (br_offset s) e (br_delegate_state s) of
        (None, d) \<Rightarrow> (BDelegate, s\<lparr>br_delegate_state := d\<rparr>)
      | (Some r, d) \<Rightarrow> (BOk r, s\<lparr>br_delegate_state := d\<rparr>))"

definition CALLBACK :: "string \<Rightarrow> event \<Rightarrow> ('d, unit) bop" where
  "CALLBACK member e =
     b_bind (b_deliver e) (\<lambda>r. ERROR_UNLESS (Succeeded r) (member @ '' callback failed''))"

definition ReportUnexpectedOpcode :: "u32 \<Rightarrow> string option \<Rightarrow> ('d, 'a) bop" where
  "ReportUnexpectedOpcode opcode message =
     (let msg = (case message of None \<Rightarrow> [] | Some m \<Rightarrow> '' '' @ m)
      in if HasPrefix opcode
         then b_fail (''unexpected opcode'' @ msg @ '': '' @ show_nat (unat (GetPrefix opcode)) @ '' '' @
                show_u32 (GetCode opcode) @ '' (0x'' @ show_hex (unat (GetPrefix opcode)) @ '' 0x'' @
                show_hex (unat (GetCode opcode)) @ '')'')
         else b_fail (''unexpected opcode'' @ msg @ '': '' @ show_u32 (GetCode opcode) @ '' (0x'' @
                show_hex (unat (GetCode opcode)) @ '')''))"

definition ERROR_UNLESS_OPCODE_ENABLED :: "u32 \<Rightarrow> ('d, unit) bop" where
  "ERROR_UNLESS_OPCODE_ENABLED opcode =
     b_bind (b_get (opt_features \<circ> br_options)) (\<lambda>features.
       if IsEnabled opcode features then b_return () else ReportUnexpectedOpcode opcode None)"

section \<open>Numbers, strings, types\<close>

text \<open>The bytes from an offset, if all of them are in the data.\<close>

definition b_bytes :: "nat \<Rightarrow> nat \<Rightarrow> ('d, bytes) bop" where
  "b_bytes off n s =
     (if off + n \<le> length (br_data s) then (BOk (take n (drop off (br_data s))), s) else (BUndef, s))"

definition b_advance :: "nat \<Rightarrow> ('d, unit) bop" where
  "b_advance n = b_mod (\<lambda>s. s\<lparr>br_offset := br_offset s + n\<rparr>)"

definition ReadT :: "string \<Rightarrow> string \<Rightarrow> ('d, 'a::len word) bop" where
  "ReadT type_name desc =
     (let size = LENGTH('a) div 8
      in b_bind (b_get br_offset) (\<lambda>offset.
         b_bind (b_get br_read_end) (\<lambda>read_end.
           if offset + size > read_end then b_fail (''unable to read '' @ type_name @ '': '' @ desc)
           else b_bind (b_bytes offset size) (\<lambda>bs.
             b_then (b_advance size) (b_return (le_word bs))))))"

definition BR_ReadU8 :: "string \<Rightarrow> ('d, u8) bop" where "BR_ReadU8 desc = ReadT ''uint8_t'' desc"
definition BR_ReadU32 :: "string \<Rightarrow> ('d, u32) bop" where "BR_ReadU32 desc = ReadT ''uint32_t'' desc"
definition BR_ReadF32 :: "string \<Rightarrow> ('d, u32) bop" where "BR_ReadF32 desc = ReadT ''float'' desc"
definition BR_ReadF64 :: "string \<Rightarrow> ('d, u64) bop" where "BR_ReadF64 desc = ReadT ''double'' desc"
definition BR_ReadV128 :: "string \<Rightarrow> ('d, v128) bop" where "BR_ReadV128 desc = ReadT ''v128'' desc"

text \<open>From \<open>p\<close> to \<open>end\<close>: the bytes from the offset up to \<open>read_end_\<close>.\<close>

definition b_window :: "('d, bytes) bop" where
  "b_window =
     b_bind (b_get br_offset) (\<lambda>offset.
     b_bind (b_get br_read_end) (\<lambda>read_end.
       if offset \<le> read_end then b_bytes offset (read_end - offset) else b_return []))"

text \<open>A number that is not stored only comes with a failure.\<close>

definition ReadLeb :: "(bytes \<Rightarrow> nat \<times> 'a option) \<Rightarrow> string \<Rightarrow> string \<Rightarrow> ('d, 'a) bop" where
  "ReadLeb read type_name desc =
     b_bind b_window (\<lambda>p. case read p of (bytes_read, out_value) \<Rightarrow>
       b_then (ERROR_UNLESS (bytes_read > 0) (''unable to read '' @ type_name @ '' leb128: '' @ desc))
       (b_then (b_advance bytes_read) (case out_value of Some v \<Rightarrow> b_return v | None \<Rightarrow> (\<lambda>s. (BUndef, s)))))"

definition BR_ReadU32Leb128 :: "string \<Rightarrow> ('d, u32) bop" where
  "BR_ReadU32Leb128 desc = ReadLeb ReadU32Leb128 ''u32'' desc"

definition BR_ReadS32Leb128 :: "string \<Rightarrow> ('d, u32) bop" where
  "BR_ReadS32Leb128 desc = ReadLeb ReadS32Leb128 ''i32'' desc"

definition BR_ReadS64Leb128 :: "string \<Rightarrow> ('d, u64) bop" where
  "BR_ReadS64Leb128 desc = ReadLeb ReadS64Leb128 ''i64'' desc"

definition BR_ReadOpcode :: "string \<Rightarrow> ('d, u32) bop" where
  "BR_ReadOpcode desc =
     b_bind (BR_ReadU8 desc) (\<lambda>value.
       if IsPrefixByte value then b_bind (BR_ReadU32Leb128 desc) (\<lambda>code. b_return (FromCode value code))
       else b_return (FromCode 0 (ucast value)))"

definition ReadType :: "string \<Rightarrow> ('d, u32) bop" where
  "ReadType desc = BR_ReadS32Leb128 desc"

text \<open>The bytes of a string or a data segment, after their length.\<close>

definition ReadSpan :: "string \<Rightarrow> string \<Rightarrow> ('d, bytes) bop" where
  "ReadSpan length_desc error =
     b_bind (BR_ReadU32Leb128 length_desc) (\<lambda>len.
     b_bind (b_get br_offset) (\<lambda>offset.
     b_bind (b_get br_read_end) (\<lambda>read_end.
     b_then (ERROR_UNLESS (offset + unat len \<le> read_end) error)
     (b_bind (b_bytes offset (unat len)) (\<lambda>bs.
      b_then (b_advance (unat len)) (b_return bs))))))"

definition ReadStr :: "string \<Rightarrow> ('d, bytes) bop" where
  "ReadStr desc =
     b_bind (ReadSpan ''string length'' (''unable to read string: '' @ desc)) (\<lambda>str.
     b_then (ERROR_UNLESS (IsValidUtf8 str) (''invalid utf-8 encoding: '' @ desc))
       (b_return str))"

definition ReadBytes :: "string \<Rightarrow> ('d, bytes) bop" where
  "ReadBytes desc = ReadSpan ''data size'' (''unable to read data: '' @ desc)"

definition ReadIndex :: "string \<Rightarrow> ('d, Index) bop" where
  "ReadIndex desc = BR_ReadU32Leb128 desc"

definition ReadOffset :: "string \<Rightarrow> ('d, nat) bop" where
  "ReadOffset desc = b_bind (BR_ReadU32Leb128 desc) (\<lambda>value. b_return (unat value))"

text \<open>The count is stored before it is checked, in a field for some counts: \<open>set\<close>.\<close>

definition ReadCountTo :: "(Index \<Rightarrow> 'd BinaryReader \<Rightarrow> 'd BinaryReader) \<Rightarrow> string \<Rightarrow> ('d, Index) bop" where
  "ReadCountTo set_field desc =
     b_bind (ReadIndex desc) (\<lambda>count.
     b_then (b_mod (set_field count))
     (b_bind (b_get (\<lambda>s. br_read_end s - br_offset s)) (\<lambda>section_remaining.
      if unat count > section_remaining
      then b_fail (''invalid '' @ desc @ '' '' @ show_u32 count @ '', only '' @ show_nat section_remaining @
             '' bytes left in section'')
      else b_return count)))"

definition ReadCount :: "string \<Rightarrow> ('d, Index) bop" where
  "ReadCount desc = ReadCountTo (\<lambda>_ s. s) desc"

section \<open>Checks\<close>

definition Type_bits :: "wtype \<Rightarrow> u32" where
  "Type_bits t = word_of_int (Type_code t)"

definition is_valid_external_kind :: "u8 \<Rightarrow> bool" where
  "is_valid_external_kind kind \<longleftrightarrow> kind < 5"

text \<open>\<open>static_cast<ExternalKind>(kind)\<close>: \<open>None\<close> for a number that is no enumerator.\<close>

definition ExternalKind_of :: "u8 \<Rightarrow> ExternalKind option" where
  "ExternalKind_of kind =
     (if kind = 0 then Some EK_Func else if kind = 1 then Some EK_Table else if kind = 2 then Some EK_Memory
      else if kind = 3 then Some EK_Global else if kind = 4 then Some EK_Except else None)"

definition IsConcreteType :: "'d BinaryReader \<Rightarrow> u32 \<Rightarrow> bool" where
  "IsConcreteType s type \<longleftrightarrow>
     List.member [Type_bits Type_I32, Type_bits Type_I64, Type_bits Type_F32, Type_bits Type_F64] type \<or>
     type = Type_bits Type_V128 \<and> simd_enabled (opt_features (br_options s))"

definition IsBlockType :: "'d BinaryReader \<Rightarrow> u32 \<Rightarrow> bool" where
  "IsBlockType s type \<longleftrightarrow>
     (if IsConcreteType s type \<or> type = Type_bits Type_Void then True
      else if \<not> (multi_value_enabled (opt_features (br_options s)) \<and> sint type \<ge> 0) then False
      else type < br_num_signatures s)"

definition NumTotalFuncs :: "'d BinaryReader \<Rightarrow> Index" where
  "NumTotalFuncs s = br_num_func_imports s + br_num_function_signatures s"

definition NumTotalTables :: "'d BinaryReader \<Rightarrow> Index" where
  "NumTotalTables s = br_num_table_imports s + br_num_tables s"

definition NumTotalMemories :: "'d BinaryReader \<Rightarrow> Index" where
  "NumTotalMemories s = br_num_memory_imports s + br_num_memories s"

definition NumTotalGlobals :: "'d BinaryReader \<Rightarrow> Index" where
  "NumTotalGlobals s = br_num_global_imports s + br_num_globals s"

text \<open>A check of the state.\<close>

definition b_check :: "('d BinaryReader \<Rightarrow> bool) \<Rightarrow> string \<Rightarrow> ('d, unit) bop" where
  "b_check c msg = b_bind (b_get c) (\<lambda>b. ERROR_UNLESS b msg)"

section \<open>Initializer expressions\<close>

definition ReadInitExpr :: "Index \<Rightarrow> bool \<Rightarrow> ('d, unit) bop" where
  "ReadInitExpr index require_i32 =
     b_bind (BR_ReadOpcode ''opcode'') (\<lambda>opcode.
       let n = Opcode_enumerator opcode;
           finish =
             (if require_i32 \<and> n \<noteq> ''I32Const'' \<and> n \<noteq> ''GetGlobal'' then b_fail ''expected i32 init_expr''
              else b_bind (BR_ReadOpcode ''opcode'') (\<lambda>opcode.
                ERROR_UNLESS (Opcode_enumerator opcode = ''End'') ''expected END opcode after initializer expression''))
       in if n = ''I32Const'' then
            b_bind (BR_ReadS32Leb128 ''init_expr i32.const value'') (\<lambda>value.
            b_then (CALLBACK ''OnInitExprI32ConstExpr'' (Segment_Event (Ev_OnInitExprI32ConstExpr index value))) finish)
          else if n = ''I64Const'' then
            b_bind (BR_ReadS64Leb128 ''init_expr i64.const value'') (\<lambda>value.
            b_then (CALLBACK ''OnInitExprI64ConstExpr'' (Segment_Event (Ev_OnInitExprI64ConstExpr index value))) finish)
          else if n = ''F32Const'' then
            b_bind (BR_ReadF32 ''init_expr f32.const value'') (\<lambda>value_bits.
            b_then (CALLBACK ''OnInitExprF32ConstExpr'' (Segment_Event (Ev_OnInitExprF32ConstExpr index value_bits))) finish)
          else if n = ''F64Const'' then
            b_bind (BR_ReadF64 ''init_expr f64.const value'') (\<lambda>value_bits.
            b_then (CALLBACK ''OnInitExprF64ConstExpr'' (Segment_Event (Ev_OnInitExprF64ConstExpr index value_bits))) finish)
          else if n = ''V128Const'' then
            b_then (ERROR_UNLESS_OPCODE_ENABLED opcode)
            (b_bind (BR_ReadV128 ''init_expr v128.const value'') (\<lambda>value_bits.
             b_then (CALLBACK ''OnInitExprV128ConstExpr'' (Segment_Event (Ev_OnInitExprV128ConstExpr index value_bits))) finish))
          else if n = ''GetGlobal'' then
            b_bind (ReadIndex ''init_expr get_global index'') (\<lambda>global_index.
            b_then (CALLBACK ''OnInitExprGetGlobalExpr'' (Segment_Event (Ev_OnInitExprGetGlobalExpr index global_index))) finish)
          else if n = ''End'' then b_return ()
          else ReportUnexpectedOpcode opcode (Some ''in initializer expression''))"

definition ReadI32InitExpr :: "Index \<Rightarrow> ('d, unit) bop" where
  "ReadI32InitExpr index = ReadInitExpr index True"

section \<open>Tables, memories, globals\<close>

definition has_flag :: "u32 \<Rightarrow> u32 \<Rightarrow> bool" where
  "has_flag flags flag \<longleftrightarrow> flags AND flag \<noteq> 0"

text \<open>\<open>is_shared\<close> of a table's limits keeps its default.\<close>

definition ReadTable :: "('d, u32 \<times> Limits) bop" where
  "ReadTable =
     b_bind (ReadType ''table elem type'') (\<lambda>elem_type.
     b_then (ERROR_UNLESS (elem_type = Type_bits Type_Anyfunc) ''table elem type must by anyfunc'')
     (b_bind (BR_ReadU32Leb128 ''table flags'') (\<lambda>flags.
      b_bind (BR_ReadU32Leb128 ''table initial elem count'') (\<lambda>initial.
      let has_max = has_flag flags WABT_BINARY_LIMITS_HAS_MAX_FLAG;
          is_shared = has_flag flags WABT_BINARY_LIMITS_IS_SHARED_FLAG
      in b_then (ERROR_UNLESS (\<not> is_shared) ''tables may not be shared'')
         (b_bind (if has_max then
                    b_bind (BR_ReadU32Leb128 ''table max elem count'') (\<lambda>max_value.
                    b_then (ERROR_UNLESS (initial \<le> max_value) ''table initial elem count must be <= max elem count'')
                      (b_return max_value))
                  else b_return 0) (\<lambda>max_value.
          b_return (elem_type, \<lparr>lim_initial = ucast initial, lim_max = ucast max_value,
            lim_has_max = has_max, lim_is_shared = False\<rparr>)))))))"

definition BR_ReadMemory :: "('d, Limits) bop" where
  "BR_ReadMemory =
     b_bind (BR_ReadU32Leb128 ''memory flags'') (\<lambda>flags.
     b_bind (BR_ReadU32Leb128 ''memory initial page count'') (\<lambda>initial.
     b_then (ERROR_UNLESS (unat initial \<le> WABT_MAX_PAGES) ''invalid memory initial size'')
     (let has_max = has_flag flags WABT_BINARY_LIMITS_HAS_MAX_FLAG;
          is_shared = has_flag flags WABT_BINARY_LIMITS_IS_SHARED_FLAG
      in b_then (ERROR_UNLESS (\<not> is_shared \<or> has_max) ''shared memory must have a max size'')
         (b_bind (if has_max then
                    b_bind (BR_ReadU32Leb128 ''memory max page count'') (\<lambda>max_value.
                    b_then (ERROR_UNLESS (unat max_value \<le> WABT_MAX_PAGES) ''invalid memory max size'')
                    (b_then (ERROR_UNLESS (initial \<le> max_value) ''memory initial size must be <= max size'')
                      (b_return max_value)))
                  else b_return 0) (\<lambda>max_value.
          b_return \<lparr>lim_initial = ucast initial, lim_max = ucast max_value,
            lim_has_max = has_max, lim_is_shared = is_shared\<rparr>)))))"

definition ReadGlobalHeader :: "('d, u32 \<times> bool) bop" where
  "ReadGlobalHeader =
     b_bind (ReadType ''global type'') (\<lambda>global_type.
     b_then (b_check (\<lambda>s. IsConcreteType s global_type) (''invalid global type: '' @ show_hash_x (unat global_type)))
     (b_bind (BR_ReadU8 ''global mutability'') (\<lambda>mutable.
      b_then (ERROR_UNLESS (mutable \<le> 1) ''global mutability must be 0 or 1'')
        (b_return (global_type, mutable \<noteq> 0)))))"

text \<open>The types are collected in the order they are read.\<close>

definition ReadExceptionType :: "('d, u32 list) bop" where
  "ReadExceptionType =
     b_bind (ReadCount ''exception type count'') (\<lambda>num_values.
     b_for num_values (\<lambda>j sig.
       b_bind (ReadType ''exception value type'') (\<lambda>value_type.
       b_then (b_check (\<lambda>s. IsConcreteType s value_type)
           (''excepted valid exception value type (got '' @ show_s32 value_type @ '')''))
         (b_return (sig @ [value_type])))) [])"

end
