(* ===== verification/BinaryReaderBody.thy ===== *)
theory BinaryReaderBody
  imports BinaryReader
begin

text \<open>
  The body of a function (\<open>ReadFunctionBody\<close> in \<^verbatim>\<open>src/binary-reader.cc\<close>): the opcodes with the same
  immediates and callbacks, one list for each group of cases of the switch; an instruction; the loop.
\<close>

section \<open>Groups of opcodes\<close>

definition br_load_opcodes :: "string list" where
  "br_load_opcodes = [
    ''I32Load8S'', ''I32Load8U'', ''I32Load16S'', ''I32Load16U'', ''I64Load8S'',
    ''I64Load8U'', ''I64Load16S'', ''I64Load16U'', ''I64Load32S'', ''I64Load32U'',
    ''I32Load'', ''I64Load'', ''F32Load'', ''F64Load'', ''V128Load'']"

definition br_store_opcodes :: "string list" where
  "br_store_opcodes = [
    ''I32Store8'', ''I32Store16'', ''I64Store8'', ''I64Store16'', ''I64Store32'',
    ''I32Store'', ''I64Store'', ''F32Store'', ''F64Store'', ''V128Store'']"

definition br_binary_opcodes :: "string list" where
  "br_binary_opcodes = [
    ''I32Add'', ''I32Sub'', ''I32Mul'', ''I32DivS'', ''I32DivU'', ''I32RemS'', ''I32RemU'',
    ''I32And'', ''I32Or'', ''I32Xor'', ''I32Shl'', ''I32ShrU'', ''I32ShrS'', ''I32Rotr'',
    ''I32Rotl'', ''I64Add'', ''I64Sub'', ''I64Mul'', ''I64DivS'', ''I64DivU'', ''I64RemS'',
    ''I64RemU'', ''I64And'', ''I64Or'', ''I64Xor'', ''I64Shl'', ''I64ShrU'', ''I64ShrS'',
    ''I64Rotr'', ''I64Rotl'', ''F32Add'', ''F32Sub'', ''F32Mul'', ''F32Div'', ''F32Min'',
    ''F32Max'', ''F32Copysign'', ''F64Add'', ''F64Sub'', ''F64Mul'', ''F64Div'', ''F64Min'',
    ''F64Max'', ''F64Copysign'', ''I8X16Add'', ''I16X8Add'', ''I32X4Add'', ''I64X2Add'',
    ''I8X16Sub'', ''I16X8Sub'', ''I32X4Sub'', ''I64X2Sub'', ''I8X16Mul'', ''I16X8Mul'',
    ''I32X4Mul'', ''I8X16AddSaturateS'', ''I8X16AddSaturateU'', ''I16X8AddSaturateS'',
    ''I16X8AddSaturateU'', ''I8X16SubSaturateS'', ''I8X16SubSaturateU'',
    ''I16X8SubSaturateS'', ''I16X8SubSaturateU'', ''I8X16Shl'', ''I16X8Shl'', ''I32X4Shl'',
    ''I64X2Shl'', ''I8X16ShrS'', ''I8X16ShrU'', ''I16X8ShrS'', ''I16X8ShrU'', ''I32X4ShrS'',
    ''I32X4ShrU'', ''I64X2ShrS'', ''I64X2ShrU'', ''V128And'', ''V128Or'', ''V128Xor'',
    ''F32X4Min'', ''F64X2Min'', ''F32X4Max'', ''F64X2Max'', ''F32X4Add'', ''F64X2Add'',
    ''F32X4Sub'', ''F64X2Sub'', ''F32X4Div'', ''F64X2Div'', ''F32X4Mul'', ''F64X2Mul'']"

definition br_compare_opcodes :: "string list" where
  "br_compare_opcodes = [
    ''I32Eq'', ''I32Ne'', ''I32LtS'', ''I32LeS'', ''I32LtU'', ''I32LeU'', ''I32GtS'',
    ''I32GeS'', ''I32GtU'', ''I32GeU'', ''I64Eq'', ''I64Ne'', ''I64LtS'', ''I64LeS'',
    ''I64LtU'', ''I64LeU'', ''I64GtS'', ''I64GeS'', ''I64GtU'', ''I64GeU'', ''F32Eq'',
    ''F32Ne'', ''F32Lt'', ''F32Le'', ''F32Gt'', ''F32Ge'', ''F64Eq'', ''F64Ne'', ''F64Lt'',
    ''F64Le'', ''F64Gt'', ''F64Ge'', ''I8X16Eq'', ''I16X8Eq'', ''I32X4Eq'', ''F32X4Eq'',
    ''F64X2Eq'', ''I8X16Ne'', ''I16X8Ne'', ''I32X4Ne'', ''F32X4Ne'', ''F64X2Ne'',
    ''I8X16LtS'', ''I8X16LtU'', ''I16X8LtS'', ''I16X8LtU'', ''I32X4LtS'', ''I32X4LtU'',
    ''F32X4Lt'', ''F64X2Lt'', ''I8X16LeS'', ''I8X16LeU'', ''I16X8LeS'', ''I16X8LeU'',
    ''I32X4LeS'', ''I32X4LeU'', ''F32X4Le'', ''F64X2Le'', ''I8X16GtS'', ''I8X16GtU'',
    ''I16X8GtS'', ''I16X8GtU'', ''I32X4GtS'', ''I32X4GtU'', ''F32X4Gt'', ''F64X2Gt'',
    ''I8X16GeS'', ''I8X16GeU'', ''I16X8GeS'', ''I16X8GeU'', ''I32X4GeS'', ''I32X4GeU'',
    ''F32X4Ge'', ''F64X2Ge'']"

definition br_unary_opcodes :: "string list" where
  "br_unary_opcodes = [
    ''I32Clz'', ''I32Ctz'', ''I32Popcnt'', ''I64Clz'', ''I64Ctz'', ''I64Popcnt'',
    ''F32Abs'', ''F32Neg'', ''F32Ceil'', ''F32Floor'', ''F32Trunc'', ''F32Nearest'',
    ''F32Sqrt'', ''F64Abs'', ''F64Neg'', ''F64Ceil'', ''F64Floor'', ''F64Trunc'',
    ''F64Nearest'', ''F64Sqrt'', ''I8X16Splat'', ''I16X8Splat'', ''I32X4Splat'',
    ''I64X2Splat'', ''F32X4Splat'', ''F64X2Splat'', ''I8X16Neg'', ''I16X8Neg'',
    ''I32X4Neg'', ''I64X2Neg'', ''V128Not'', ''I8X16AnyTrue'', ''I16X8AnyTrue'',
    ''I32X4AnyTrue'', ''I64X2AnyTrue'', ''I8X16AllTrue'', ''I16X8AllTrue'',
    ''I32X4AllTrue'', ''I64X2AllTrue'', ''F32X4Neg'', ''F64X2Neg'', ''F32X4Abs'',
    ''F64X2Abs'', ''F32X4Sqrt'', ''F64X2Sqrt'']"

definition br_lane_opcodes :: "string list" where
  "br_lane_opcodes = [
    ''I8X16ExtractLaneS'', ''I8X16ExtractLaneU'', ''I16X8ExtractLaneS'',
    ''I16X8ExtractLaneU'', ''I32X4ExtractLane'', ''I64X2ExtractLane'', ''F32X4ExtractLane'',
    ''F64X2ExtractLane'', ''I8X16ReplaceLane'', ''I16X8ReplaceLane'', ''I32X4ReplaceLane'',
    ''I64X2ReplaceLane'', ''F32X4ReplaceLane'', ''F64X2ReplaceLane'']"

definition br_convert_opcodes :: "string list" where
  "br_convert_opcodes = [
    ''I32TruncSF32'', ''I32TruncSF64'', ''I32TruncUF32'', ''I32TruncUF64'', ''I32WrapI64'',
    ''I64TruncSF32'', ''I64TruncSF64'', ''I64TruncUF32'', ''I64TruncUF64'',
    ''I64ExtendSI32'', ''I64ExtendUI32'', ''F32ConvertSI32'', ''F32ConvertUI32'',
    ''F32ConvertSI64'', ''F32ConvertUI64'', ''F32DemoteF64'', ''F32ReinterpretI32'',
    ''F64ConvertSI32'', ''F64ConvertUI32'', ''F64ConvertSI64'', ''F64ConvertUI64'',
    ''F64PromoteF32'', ''F64ReinterpretI64'', ''I32ReinterpretF32'', ''I64ReinterpretF64'',
    ''I32Eqz'', ''I64Eqz'', ''F32X4ConvertSI32X4'', ''F32X4ConvertUI32X4'',
    ''F64X2ConvertSI64X2'', ''F64X2ConvertUI64X2'', ''I32X4TruncSF32X4Sat'',
    ''I32X4TruncUF32X4Sat'', ''I64X2TruncSF64X2Sat'', ''I64X2TruncUF64X2Sat'']"

definition br_extend_opcodes :: "string list" where
  "br_extend_opcodes = [
    ''I32Extend8S'', ''I32Extend16S'', ''I64Extend8S'', ''I64Extend16S'', ''I64Extend32S'']"

definition br_trunc_sat_opcodes :: "string list" where
  "br_trunc_sat_opcodes = [
    ''I32TruncSSatF32'', ''I32TruncUSatF32'', ''I32TruncSSatF64'', ''I32TruncUSatF64'',
    ''I64TruncSSatF32'', ''I64TruncUSatF32'', ''I64TruncSSatF64'', ''I64TruncUSatF64'']"

definition br_atomic_wait_opcodes :: "string list" where
  "br_atomic_wait_opcodes = [
    ''I32AtomicWait'', ''I64AtomicWait'']"

definition br_atomic_load_opcodes :: "string list" where
  "br_atomic_load_opcodes = [
    ''I32AtomicLoad8U'', ''I32AtomicLoad16U'', ''I64AtomicLoad8U'', ''I64AtomicLoad16U'',
    ''I64AtomicLoad32U'', ''I32AtomicLoad'', ''I64AtomicLoad'']"

definition br_atomic_store_opcodes :: "string list" where
  "br_atomic_store_opcodes = [
    ''I32AtomicStore8'', ''I32AtomicStore16'', ''I64AtomicStore8'', ''I64AtomicStore16'',
    ''I64AtomicStore32'', ''I32AtomicStore'', ''I64AtomicStore'']"

definition br_atomic_rmw_opcodes :: "string list" where
  "br_atomic_rmw_opcodes = [
    ''I32AtomicRmwAdd'', ''I64AtomicRmwAdd'', ''I32AtomicRmw8UAdd'', ''I32AtomicRmw16UAdd'',
    ''I64AtomicRmw8UAdd'', ''I64AtomicRmw16UAdd'', ''I64AtomicRmw32UAdd'',
    ''I32AtomicRmwSub'', ''I64AtomicRmwSub'', ''I32AtomicRmw8USub'', ''I32AtomicRmw16USub'',
    ''I64AtomicRmw8USub'', ''I64AtomicRmw16USub'', ''I64AtomicRmw32USub'',
    ''I32AtomicRmwAnd'', ''I64AtomicRmwAnd'', ''I32AtomicRmw8UAnd'', ''I32AtomicRmw16UAnd'',
    ''I64AtomicRmw8UAnd'', ''I64AtomicRmw16UAnd'', ''I64AtomicRmw32UAnd'',
    ''I32AtomicRmwOr'', ''I64AtomicRmwOr'', ''I32AtomicRmw8UOr'', ''I32AtomicRmw16UOr'',
    ''I64AtomicRmw8UOr'', ''I64AtomicRmw16UOr'', ''I64AtomicRmw32UOr'', ''I32AtomicRmwXor'',
    ''I64AtomicRmwXor'', ''I32AtomicRmw8UXor'', ''I32AtomicRmw16UXor'',
    ''I64AtomicRmw8UXor'', ''I64AtomicRmw16UXor'', ''I64AtomicRmw32UXor'',
    ''I32AtomicRmwXchg'', ''I64AtomicRmwXchg'', ''I32AtomicRmw8UXchg'',
    ''I32AtomicRmw16UXchg'', ''I64AtomicRmw8UXchg'', ''I64AtomicRmw16UXchg'',
    ''I64AtomicRmw32UXchg'']"

definition br_atomic_cmpxchg_opcodes :: "string list" where
  "br_atomic_cmpxchg_opcodes = [
    ''I32AtomicRmwCmpxchg'', ''I64AtomicRmwCmpxchg'', ''I32AtomicRmw8UCmpxchg'',
    ''I32AtomicRmw16UCmpxchg'', ''I64AtomicRmw8UCmpxchg'', ''I64AtomicRmw16UCmpxchg'',
    ''I64AtomicRmw32UCmpxchg'']"

section \<open>Instructions\<close>

definition on_bare :: "('d, unit) bop" where
  "on_bare = CALLBACK ''OnOpcodeBare'' (Body_Event Ev_OnOpcodeBare)"

definition on_index :: "Index \<Rightarrow> ('d, unit) bop" where
  "on_index i = CALLBACK ''OnOpcodeIndex'' (Body_Event (Ev_OnOpcodeIndex i))"

definition on_block_sig :: "u32 \<Rightarrow> ('d, unit) bop" where
  "on_block_sig t = CALLBACK ''OnOpcodeBlockSig'' (Body_Event (Ev_OnOpcodeBlockSig t))"

text \<open>A signature and its check, for blocks, loops, ifs and tries.\<close>

definition ReadBlockSig :: "string \<Rightarrow> ('d, u32) bop" where
  "ReadBlockSig desc =
     b_bind (ReadType desc) (\<lambda>sig_type.
     b_then (b_check (\<lambda>s. IsBlockType s sig_type) ''expected valid block signature type'')
       (b_return sig_type))"

text \<open>The alignment and the offset of a memory access.\<close>

definition ReadMemArg :: "string \<Rightarrow> string \<Rightarrow> string \<Rightarrow> (u32 \<Rightarrow> u32 \<Rightarrow> operator_event) \<Rightarrow> ('d, unit) bop" where
  "ReadMemArg align_desc offset_desc member ev =
     b_bind (BR_ReadU32Leb128 align_desc) (\<lambda>alignment_log2.
     b_bind (BR_ReadU32Leb128 offset_desc) (\<lambda>offset.
     b_then (CALLBACK member (Operator_Event (ev alignment_log2 offset)))
       (CALLBACK ''OnOpcodeUint32Uint32'' (Body_Event (Ev_OnOpcodeUint32Uint32 alignment_log2 offset)))))"

definition ReadBrTable :: "('d, unit) bop" where
  "ReadBrTable =
     b_bind (ReadIndex ''br_table target count'') (\<lambda>num_targets.
     b_bind (b_for num_targets (\<lambda>i target_depths.
         b_bind (ReadIndex ''br_table target depth'') (\<lambda>target_depth.
           b_return (target_depths @ [target_depth]))) []) (\<lambda>target_depths.
     b_bind (ReadIndex ''br_table default target depth'') (\<lambda>default_target_depth.
       CALLBACK ''OnBrTableExpr'' (Control_Event (Ev_OnBrTableExpr target_depths default_target_depth)))))"

text \<open>The instructions of control flow, except \<open>end\<close>, which depends on where it is.\<close>

definition control_instruction :: "string \<Rightarrow> ('d, unit) bop option" where
  "control_instruction n =
     (if n = ''Unreachable'' then Some (b_then (CALLBACK ''OnUnreachableExpr'' (Control_Event Ev_OnUnreachableExpr)) on_bare)
      else if n = ''Block'' then Some (b_bind (ReadBlockSig ''block signature type'') (\<lambda>sig_type.
        b_then (CALLBACK ''OnBlockExpr'' (Control_Event (Ev_OnBlockExpr sig_type))) (on_block_sig sig_type)))
      else if n = ''Loop'' then Some (b_bind (ReadBlockSig ''loop signature type'') (\<lambda>sig_type.
        b_then (CALLBACK ''OnLoopExpr'' (Control_Event (Ev_OnLoopExpr sig_type))) (on_block_sig sig_type)))
      else if n = ''If'' then Some (b_bind (ReadBlockSig ''if signature type'') (\<lambda>sig_type.
        b_then (CALLBACK ''OnIfExpr'' (Control_Event (Ev_OnIfExpr sig_type))) (on_block_sig sig_type)))
      else if n = ''Else'' then Some (b_then (CALLBACK ''OnElseExpr'' (Control_Event Ev_OnElseExpr)) on_bare)
      else if n = ''Select'' then Some (b_then (CALLBACK ''OnSelectExpr'' (Control_Event Ev_OnSelectExpr)) on_bare)
      else if n = ''Br'' then Some (b_bind (ReadIndex ''br depth'') (\<lambda>depth.
        b_then (CALLBACK ''OnBrExpr'' (Control_Event (Ev_OnBrExpr depth))) (on_index depth)))
      else if n = ''BrIf'' then Some (b_bind (ReadIndex ''br_if depth'') (\<lambda>depth.
        b_then (CALLBACK ''OnBrIfExpr'' (Control_Event (Ev_OnBrIfExpr depth))) (on_index depth)))
      else if n = ''BrTable'' then Some ReadBrTable
      else if n = ''Return'' then Some (b_then (CALLBACK ''OnReturnExpr'' (Control_Event Ev_OnReturnExpr)) on_bare)
      else if n = ''Nop'' then Some (b_then (CALLBACK ''OnNopExpr'' (Control_Event Ev_OnNopExpr)) on_bare)
      else if n = ''Drop'' then Some (b_then (CALLBACK ''OnDropExpr'' (Control_Event Ev_OnDropExpr)) on_bare)
      else None)"

text \<open>Constants.\<close>

definition const_instruction :: "u32 \<Rightarrow> string \<Rightarrow> ('d, unit) bop option" where
  "const_instruction opcode n =
     (if n = ''I32Const'' then Some (b_bind (BR_ReadS32Leb128 ''i32.const value'') (\<lambda>value.
        b_then (CALLBACK ''OnI32ConstExpr'' (Operator_Event (Ev_OnI32ConstExpr value)))
          (CALLBACK ''OnOpcodeUint32'' (Body_Event (Ev_OnOpcodeUint32 value)))))
      else if n = ''I64Const'' then Some (b_bind (BR_ReadS64Leb128 ''i64.const value'') (\<lambda>value.
        b_then (CALLBACK ''OnI64ConstExpr'' (Operator_Event (Ev_OnI64ConstExpr value)))
          (CALLBACK ''OnOpcodeUint64'' (Body_Event (Ev_OnOpcodeUint64 value)))))
      else if n = ''F32Const'' then Some (b_bind (BR_ReadF32 ''f32.const value'') (\<lambda>value_bits.
        b_then (CALLBACK ''OnF32ConstExpr'' (Operator_Event (Ev_OnF32ConstExpr value_bits)))
          (CALLBACK ''OnOpcodeF32'' (Body_Event (Ev_OnOpcodeF32 value_bits)))))
      else if n = ''F64Const'' then Some (b_bind (BR_ReadF64 ''f64.const value'') (\<lambda>value_bits.
        b_then (CALLBACK ''OnF64ConstExpr'' (Operator_Event (Ev_OnF64ConstExpr value_bits)))
          (CALLBACK ''OnOpcodeF64'' (Body_Event (Ev_OnOpcodeF64 value_bits)))))
      else if n = ''V128Const'' then Some (b_then (ERROR_UNLESS_OPCODE_ENABLED opcode)
        (b_bind (BR_ReadV128 ''v128.const value'') (\<lambda>value_bits.
        b_then (CALLBACK ''OnV128ConstExpr'' (Operator_Event (Ev_OnV128ConstExpr value_bits)))
          (CALLBACK ''OnOpcodeV128'' (Body_Event (Ev_OnOpcodeV128 value_bits))))))
      else None)"

text \<open>Variables and calls.\<close>

definition variable_instruction :: "string \<Rightarrow> ('d, unit) bop option" where
  "variable_instruction n =
     (if n = ''GetGlobal'' then Some (b_bind (ReadIndex ''get_global global index'') (\<lambda>global_index.
        b_then (CALLBACK ''OnGetGlobalExpr'' (Operator_Event (Ev_OnGetGlobalExpr global_index))) (on_index global_index)))
      else if n = ''GetLocal'' then Some (b_bind (ReadIndex ''get_local local index'') (\<lambda>local_index.
        b_then (CALLBACK ''OnGetLocalExpr'' (Operator_Event (Ev_OnGetLocalExpr local_index))) (on_index local_index)))
      else if n = ''SetGlobal'' then Some (b_bind (ReadIndex ''set_global global index'') (\<lambda>global_index.
        b_then (CALLBACK ''OnSetGlobalExpr'' (Operator_Event (Ev_OnSetGlobalExpr global_index))) (on_index global_index)))
      else if n = ''SetLocal'' then Some (b_bind (ReadIndex ''set_local local index'') (\<lambda>local_index.
        b_then (CALLBACK ''OnSetLocalExpr'' (Operator_Event (Ev_OnSetLocalExpr local_index))) (on_index local_index)))
      else if n = ''Call'' then Some (b_bind (ReadIndex ''call function index'') (\<lambda>func_index.
        b_then (b_check (\<lambda>s. func_index < NumTotalFuncs s) (''invalid call function index: '' @ show_u32 func_index))
        (b_then (CALLBACK ''OnCallExpr'' (Control_Event (Ev_OnCallExpr func_index))) (on_index func_index))))
      else if n = ''CallIndirect'' then Some (b_bind (ReadIndex ''call_indirect signature index'') (\<lambda>sig_index.
        b_then (b_check (\<lambda>s. sig_index < br_num_signatures s) ''invalid call_indirect signature index'')
        (b_bind (BR_ReadU32Leb128 ''call_indirect reserved'') (\<lambda>reserved.
         b_then (ERROR_UNLESS (reserved = 0) ''call_indirect reserved value must be 0'')
         (b_then (CALLBACK ''OnCallIndirectExpr'' (Control_Event (Ev_OnCallIndirectExpr sig_index)))
           (CALLBACK ''OnOpcodeUint32Uint32'' (Body_Event (Ev_OnOpcodeUint32Uint32 sig_index reserved))))))))
      else if n = ''TeeLocal'' then Some (b_bind (ReadIndex ''tee_local local index'') (\<lambda>local_index.
        b_then (CALLBACK ''OnTeeLocalExpr'' (Operator_Event (Ev_OnTeeLocalExpr local_index))) (on_index local_index)))
      else None)"

text \<open>Loads, stores and the size of memory.\<close>

definition memory_instruction :: "u32 \<Rightarrow> string \<Rightarrow> ('d, unit) bop option" where
  "memory_instruction opcode n =
     (if List.member br_load_opcodes n then Some (ReadMemArg ''load alignment'' ''load offset'' ''OnLoadExpr'' (Ev_OnLoadExpr opcode))
      else if List.member br_store_opcodes n then Some (ReadMemArg ''store alignment'' ''store offset'' ''OnStoreExpr'' (Ev_OnStoreExpr opcode))
      else if n = ''MemorySize'' then Some (b_bind (BR_ReadU32Leb128 ''memory.size reserved'') (\<lambda>reserved.
        b_then (ERROR_UNLESS (reserved = 0) ''memory.size reserved value must be 0'')
        (b_then (CALLBACK ''OnMemorySizeExpr'' (Operator_Event Ev_OnMemorySizeExpr))
          (CALLBACK ''OnOpcodeUint32'' (Body_Event (Ev_OnOpcodeUint32 reserved))))))
      else if n = ''MemoryGrow'' then Some (b_bind (BR_ReadU32Leb128 ''memory.grow reserved'') (\<lambda>reserved.
        b_then (ERROR_UNLESS (reserved = 0) ''memory.grow reserved value must be 0'')
        (b_then (CALLBACK ''OnMemoryGrowExpr'' (Operator_Event Ev_OnMemoryGrowExpr))
          (CALLBACK ''OnOpcodeUint32'' (Body_Event (Ev_OnOpcodeUint32 reserved))))))
      else None)"

text \<open>Instructions without immediates: all of them may belong to a feature.\<close>

definition plain_instruction :: "u32 \<Rightarrow> string \<Rightarrow> ('d, unit) bop option" where
  "plain_instruction opcode n =
     (let gated = (\<lambda>member ev. Some (b_then (ERROR_UNLESS_OPCODE_ENABLED opcode)
            (b_then (CALLBACK member (Operator_Event (ev opcode))) on_bare)))
      in if List.member br_binary_opcodes n then gated ''OnBinaryExpr'' Ev_OnBinaryExpr
         else if List.member br_compare_opcodes n then gated ''OnCompareExpr'' Ev_OnCompareExpr
         else if List.member br_unary_opcodes n then gated ''OnUnaryExpr'' Ev_OnUnaryExpr
         else if n = ''V128BitSelect'' then gated ''OnTernaryExpr'' Ev_OnTernaryExpr
         else if List.member br_convert_opcodes n then gated ''OnConvertExpr'' Ev_OnConvertExpr
         else if List.member br_extend_opcodes n then gated ''OnUnaryExpr'' Ev_OnUnaryExpr
         else if List.member br_trunc_sat_opcodes n then gated ''OnConvertExpr'' Ev_OnConvertExpr
         else None)"

text \<open>Vector instructions with immediates.\<close>

definition vector_instruction :: "u32 \<Rightarrow> string \<Rightarrow> ('d, unit) bop option" where
  "vector_instruction opcode n =
     (if List.member br_lane_opcodes n then Some (b_then (ERROR_UNLESS_OPCODE_ENABLED opcode)
        (b_bind (BR_ReadU8 ''Lane idx'') (\<lambda>lane_val.
         b_then (CALLBACK ''OnSimdLaneOpExpr'' (Operator_Event (Ev_OnSimdLaneOpExpr opcode (ucast lane_val))))
           (CALLBACK ''OnOpcodeUint64'' (Body_Event (Ev_OnOpcodeUint64 (ucast lane_val)))))))
      else if n = ''V8X16Shuffle'' then Some (b_then (ERROR_UNLESS_OPCODE_ENABLED opcode)
        (b_bind (BR_ReadV128 ''Lane idx [16]'') (\<lambda>value.
         b_then (CALLBACK ''OnSimdShuffleOpExpr'' (Operator_Event (Ev_OnSimdShuffleOpExpr opcode value)))
           (CALLBACK ''OnOpcodeV128'' (Body_Event (Ev_OnOpcodeV128 value))))))
      else None)"

text \<open>Exceptions.\<close>

definition exception_instruction :: "u32 \<Rightarrow> string \<Rightarrow> ('d, unit) bop option" where
  "exception_instruction opcode n =
     (let gated = (\<lambda>f. Some (b_then (ERROR_UNLESS_OPCODE_ENABLED opcode) f))
      in if n = ''Try'' then gated (b_bind (ReadBlockSig ''try signature type'') (\<lambda>sig_type.
           b_then (CALLBACK ''OnTryExpr'' (Control_Event (Ev_OnTryExpr sig_type))) (on_block_sig sig_type)))
         else if n = ''Catch'' then gated (b_then (CALLBACK ''OnCatchExpr'' (Control_Event Ev_OnCatchExpr)) on_bare)
         else if n = ''Rethrow'' then gated (b_then (CALLBACK ''OnRethrowExpr'' (Control_Event Ev_OnRethrowExpr)) on_bare)
         else if n = ''Throw'' then gated (b_bind (ReadIndex ''exception index'') (\<lambda>index.
           b_then (CALLBACK ''OnThrowExpr'' (Control_Event (Ev_OnThrowExpr index))) (on_index index)))
         else if n = ''IfExcept'' then gated (b_bind (ReadBlockSig ''if signature type'') (\<lambda>sig_type.
           b_bind (ReadIndex ''exception index'') (\<lambda>except_index.
             CALLBACK ''OnIfExceptExpr'' (Control_Event (Ev_OnIfExceptExpr sig_type except_index)))))
         else None)"

text \<open>Atomic memory accesses.\<close>

definition atomic_instruction :: "u32 \<Rightarrow> string \<Rightarrow> ('d, unit) bop option" where
  "atomic_instruction opcode n =
     (if n = ''AtomicWake'' then Some (ReadMemArg ''load alignment'' ''load offset'' ''OnAtomicWakeExpr'' (Ev_OnAtomicWakeExpr opcode))
      else if List.member br_atomic_wait_opcodes n then Some (ReadMemArg ''load alignment'' ''load offset'' ''OnAtomicWaitExpr'' (Ev_OnAtomicWaitExpr opcode))
      else if List.member br_atomic_load_opcodes n then Some (ReadMemArg ''load alignment'' ''load offset'' ''OnAtomicLoadExpr'' (Ev_OnAtomicLoadExpr opcode))
      else if List.member br_atomic_store_opcodes n then Some (ReadMemArg ''store alignment'' ''store offset'' ''OnAtomicStoreExpr'' (Ev_OnAtomicStoreExpr opcode))
      else if List.member br_atomic_rmw_opcodes n then Some (ReadMemArg ''memory alignment'' ''memory offset'' ''OnAtomicRmwExpr'' (Ev_OnAtomicRmwExpr opcode))
      else if List.member br_atomic_cmpxchg_opcodes n then Some (ReadMemArg ''memory alignment'' ''memory offset'' ''OnAtomicRmwCmpxchgExpr'' (Ev_OnAtomicRmwCmpxchgExpr opcode))
      else None)"

text \<open>The switch: the cases of one group are apart from those of every other; the default.\<close>

fun first_case :: "('d, unit) bop option list \<Rightarrow> ('d, unit) bop \<Rightarrow> ('d, unit) bop" where
  "first_case [] f = f"
| "first_case (None # gs) f = first_case gs f"
| "first_case (Some g # gs) f = g"

definition ReadInstruction :: "u32 \<Rightarrow> ('d, unit) bop" where
  "ReadInstruction opcode =
     (let n = Opcode_enumerator opcode
      in first_case [control_instruction n, const_instruction opcode n, variable_instruction n,
           memory_instruction opcode n, plain_instruction opcode n, vector_instruction opcode n,
           exception_instruction opcode n, atomic_instruction opcode n]
         (ReportUnexpectedOpcode opcode None))"

section \<open>The body\<close>

text \<open>The value of an iteration is \<open>seen_end_opcode\<close>.\<close>

definition ReadFunctionBody :: "nat \<Rightarrow> ('d, unit) bop" where
  "ReadFunctionBody end_offset =
     b_bind (b_until (\<lambda>_. end_offset) (\<lambda>seen_end_opcode.
       b_bind (BR_ReadOpcode ''opcode'') (\<lambda>opcode.
       b_then (CALLBACK ''OnOpcode'' (Body_Event (Ev_OnOpcode opcode)))
       (if Opcode_enumerator opcode = ''End'' then
          b_bind (b_get br_offset) (\<lambda>offset.
            if offset = end_offset
            then b_then (CALLBACK ''OnEndFunc'' (Control_Event Ev_OnEndFunc)) (b_return True)
            else b_then (CALLBACK ''OnEndExpr'' (Control_Event Ev_OnEndExpr)) (b_return seen_end_opcode))
        else b_then (ReadInstruction opcode) (b_return seen_end_opcode)))) False) (\<lambda>seen_end_opcode.
     b_then (b_check (\<lambda>s. br_offset s = end_offset) ''function body longer than given size'')
       (ERROR_UNLESS seen_end_opcode ''function body must end with END opcode''))"

end
