(* ===== verification/BinaryReaderGates.thy ===== *)
theory BinaryReaderGates
  imports BinaryReaderBody Opcodes
begin

text \<open>
  Features in the body of a function: which instructions the parser rejects when their feature is
  off, and which it reads all the same.
\<close>

section \<open>The cases by name\<close>

definition control_names :: "string list" where
  "control_names = [''Unreachable'', ''Block'', ''Loop'', ''If'', ''Else'', ''Select'', ''Br'', ''BrIf'', ''BrTable'',
     ''Return'', ''Nop'', ''Drop'']"

definition const_names :: "string list" where
  "const_names = [''I32Const'', ''I64Const'', ''F32Const'', ''F64Const'']"

definition variable_names :: "string list" where
  "variable_names = [''GetGlobal'', ''GetLocal'', ''SetGlobal'', ''SetLocal'', ''Call'', ''CallIndirect'', ''TeeLocal'']"

definition memory_names :: "string list" where
  "memory_names = filter (\<lambda>n. n \<noteq> ''V128Load'' \<and> n \<noteq> ''V128Store'')
     (br_load_opcodes @ br_store_opcodes @ [''MemorySize'', ''MemoryGrow''])"

definition atomic_names :: "string list" where
  "atomic_names = ''AtomicWake'' # br_atomic_wait_opcodes @ br_atomic_load_opcodes @ br_atomic_store_opcodes @
     br_atomic_rmw_opcodes @ br_atomic_cmpxchg_opcodes"

text \<open>The instructions of a feature whose case has no check.\<close>

definition ungated_names :: "string list" where
  "ungated_names = ''V128Load'' # ''V128Store'' # atomic_names"

lemma control_None: "n \<notin> set control_names \<Longrightarrow> control_instruction n = None"
  by (simp add: control_names_def control_instruction_def)

lemma const_cases: "n \<notin> set const_names \<Longrightarrow> n \<noteq> ''V128Const'' \<Longrightarrow> const_instruction opcode n = None"
  by (simp add: const_names_def const_instruction_def)

lemma variable_None: "n \<notin> set variable_names \<Longrightarrow> variable_instruction n = None"
  by (simp add: variable_names_def variable_instruction_def)

lemma memory_None:
  "n \<notin> set memory_names \<Longrightarrow> n \<noteq> ''V128Load'' \<Longrightarrow> n \<noteq> ''V128Store'' \<Longrightarrow> memory_instruction opcode n = None"
  by (simp add: memory_names_def memory_instruction_def)

lemma atomic_None: "n \<notin> set atomic_names \<Longrightarrow> atomic_instruction opcode n = None"
  by (simp add: atomic_names_def atomic_instruction_def)

section \<open>Cases without a feature\<close>

lemma shape_plain_cases:
  "list_all (\<lambda>n. name_shape n = Gate_always) (control_names @ const_names @ variable_names @ memory_names)"
  by (simp add: control_names_def const_names_def variable_names_def memory_names_def br_load_opcodes_def
      br_store_opcodes_def)

lemma others_plain_cases:
  "list_all (\<lambda>n. switch_others n = Gate_always) (control_names @ const_names @ variable_names @ memory_names)"
  by code_simp

lemma plain_cases_enabled:
  "Opcode_enumerator opcode \<in> set (control_names @ const_names @ variable_names @ memory_names) \<Longrightarrow> IsEnabled opcode features"
  using shape_plain_cases others_plain_cases
  by (auto simp: IsEnabled_def list_all_iff switch_shape simp del: set_append)

section \<open>Atomic instructions\<close>

text \<open>The name of an atomic instruction has a shape of its own, so no other group has a case for it.\<close>

lemma shape_atomic: "list_all (\<lambda>n. name_shape n = Gate_threads) atomic_names"
  by (simp add: atomic_names_def br_atomic_wait_opcodes_def br_atomic_load_opcodes_def br_atomic_store_opcodes_def
      br_atomic_rmw_opcodes_def br_atomic_cmpxchg_opcodes_def)

lemma shape_plain:
  "list_all (\<lambda>n. name_shape n \<noteq> Gate_threads) (br_binary_opcodes @ br_compare_opcodes)"
  "list_all (\<lambda>n. name_shape n \<noteq> Gate_threads) (br_unary_opcodes @ ''V128BitSelect'' # br_convert_opcodes)"
  "list_all (\<lambda>n. name_shape n \<noteq> Gate_threads) (br_extend_opcodes @ br_trunc_sat_opcodes @ br_lane_opcodes @
     [''V8X16Shuffle'', ''Try'', ''Catch'', ''Rethrow'', ''Throw'', ''IfExcept'', ''V128Const'', ''V128Load'', ''V128Store''])"
  by (simp_all add: br_binary_opcodes_def br_compare_opcodes_def br_unary_opcodes_def br_convert_opcodes_def
      br_extend_opcodes_def br_trunc_sat_opcodes_def br_lane_opcodes_def)

lemma shape_apart:
  "list_all (\<lambda>n. name_shape n \<noteq> Gate_threads) xs \<Longrightarrow> name_shape n = Gate_threads \<Longrightarrow> n \<notin> set xs"
  by (auto simp: list_all_iff)

lemma threads_no_other_case:
  assumes "name_shape n = Gate_threads"
  shows "plain_instruction opcode n = None" "vector_instruction opcode n = None" "exception_instruction opcode n = None"
    "control_instruction n = None" "const_instruction opcode n = None" "variable_instruction n = None"
    "memory_instruction opcode n = None"
proof -
  note apart = shape_plain [THEN shape_apart, OF assms]
  show "plain_instruction opcode n = None"
    using apart unfolding plain_instruction_def Let_def List.member_iff by simp
  show "vector_instruction opcode n = None"
    using apart(3) unfolding vector_instruction_def List.member_iff by simp
  show "exception_instruction opcode n = None"
    using apart(3) unfolding exception_instruction_def Let_def by simp
  have "n \<notin> set (control_names @ const_names @ variable_names @ memory_names)"
    using shape_plain_cases assms by (auto simp: list_all_iff simp del: set_append)
  then have cases: "n \<notin> set control_names" "n \<notin> set const_names" "n \<notin> set variable_names" "n \<notin> set memory_names"
    by simp_all
  show "control_instruction n = None" by (rule control_None [OF cases(1)])
  show "variable_instruction n = None" by (rule variable_None [OF cases(3)])
  show "const_instruction opcode n = None" by (rule const_cases [OF cases(2)]) (use apart(3) in simp)
  show "memory_instruction opcode n = None" by (rule memory_None [OF cases(4)]) (use apart(3) in simp_all)
qed

definition reads_memory_access :: "('d, unit) bop \<Rightarrow> bool" where
  "reads_memory_access f \<longleftrightarrow> (\<exists>align_desc offset_desc member ev. f = ReadMemArg align_desc offset_desc member ev)"

lemma ReadMemArg_access [simp]: "reads_memory_access (ReadMemArg a b c d)"
  by (auto simp: reads_memory_access_def)

lemma atomic_case: "n \<in> set atomic_names \<Longrightarrow> reads_memory_access (first_case [atomic_instruction opcode n] f)"
  by (auto simp: atomic_names_def atomic_instruction_def)

lemma vector_memory_cases:
  "first_case [control_instruction ''V128Load'', const_instruction opcode ''V128Load'', variable_instruction ''V128Load'',
     memory_instruction opcode ''V128Load''] f = ReadMemArg ''load alignment'' ''load offset'' ''OnLoadExpr'' (Ev_OnLoadExpr opcode)"
  "first_case [control_instruction ''V128Store'', const_instruction opcode ''V128Store'', variable_instruction ''V128Store'',
     memory_instruction opcode ''V128Store''] f = ReadMemArg ''store alignment'' ''store offset'' ''OnStoreExpr'' (Ev_OnStoreExpr opcode)"
  by (simp_all add: control_instruction_def const_instruction_def variable_instruction_def memory_instruction_def
      br_load_opcodes_def br_store_opcodes_def)

lemma first_case_append: "first_case (gs @ hs) f = first_case gs (first_case hs f)"
  by (induction gs f rule: first_case.induct) auto

lemma ungated_reads:
  assumes "Opcode_enumerator opcode \<in> set ungated_names"
  shows "reads_memory_access (ReadInstruction opcode :: ('d, unit) bop)"
proof (cases "Opcode_enumerator opcode \<in> set atomic_names")
  case True
  then have "name_shape (Opcode_enumerator opcode) = Gate_threads" using shape_atomic by (simp add: list_all_iff)
  note others = threads_no_other_case [OF this]
  show ?thesis unfolding ReadInstruction_def Let_def others first_case.simps by (rule atomic_case [OF True])
next
  case False
  define gs :: "string \<Rightarrow> ('d, unit) bop option list" where "gs = (\<lambda>n. [plain_instruction opcode n, vector_instruction opcode n, exception_instruction opcode n,
    atomic_instruction opcode n])"
  have read: "(ReadInstruction opcode :: ('d, unit) bop) = first_case [control_instruction n, const_instruction opcode n,
      variable_instruction n, memory_instruction opcode n] (first_case (gs n) (ReportUnexpectedOpcode opcode None))"
    if "Opcode_enumerator opcode = n" for n
    by (simp only: ReadInstruction_def Let_def gs_def that append.simps first_case_append [symmetric])
  from False have "Opcode_enumerator opcode = ''V128Load'' \<or> Opcode_enumerator opcode = ''V128Store''"
    using assms by (simp add: ungated_names_def)
  then show ?thesis
    by (elim disjE) (drule read, simp only: vector_memory_cases ReadMemArg_access)+
qed

section \<open>Disabled instructions\<close>

lemma gate_closed:
  "\<not> IsEnabled opcode (opt_features (br_options s)) \<Longrightarrow>
   b_then (ERROR_UNLESS_OPCODE_ENABLED opcode) f s = ReportUnexpectedOpcode opcode None s"
  by (simp add: b_then_def b_bind_def ERROR_UNLESS_OPCODE_ENABLED_def b_get_def ReportUnexpectedOpcode_def Let_def
      b_fail_def b_error_def BR_PrintError_def b_mod_def)

definition rejects :: "u32 \<Rightarrow> 'd BinaryReader \<Rightarrow> ('d, unit) bop option \<Rightarrow> bool" where
  "rejects opcode s g \<longleftrightarrow> (case g of None \<Rightarrow> True | Some f \<Rightarrow> f s = ReportUnexpectedOpcode opcode None s)"

lemma rejects_first_case:
  "list_all (rejects opcode s) gs \<Longrightarrow> f s = ReportUnexpectedOpcode opcode None s \<Longrightarrow>
   first_case gs f s = ReportUnexpectedOpcode opcode None s"
  by (induction gs f rule: first_case.induct) (auto simp: rejects_def)

lemma rejects_None [simp]: "rejects opcode s None"
  by (simp add: rejects_def)

lemma rejects_gated:
  assumes "\<not> IsEnabled opcode (opt_features (br_options s))"
  shows "rejects opcode s (plain_instruction opcode n)" "rejects opcode s (vector_instruction opcode n)"
    "rejects opcode s (exception_instruction opcode n)" "rejects opcode s (const_instruction opcode ''V128Const'')"
  by (simp_all add: rejects_def plain_instruction_def vector_instruction_def exception_instruction_def
      const_instruction_def Let_def gate_closed [OF assms])

lemma disabled_rejected:
  assumes "\<not> IsEnabled opcode (opt_features (br_options s))" "Opcode_enumerator opcode \<notin> set ungated_names"
  shows "ReadInstruction opcode s = ReportUnexpectedOpcode opcode None s"
proof -
  let ?n = "Opcode_enumerator opcode"
  have "?n \<notin> set (control_names @ const_names @ variable_names @ memory_names)"
    using plain_cases_enabled assms(1) by blast
  then have plain: "?n \<notin> set control_names" "?n \<notin> set const_names" "?n \<notin> set variable_names" "?n \<notin> set memory_names"
    by simp_all
  have ungated: "?n \<noteq> ''V128Load''" "?n \<noteq> ''V128Store''" "?n \<notin> set atomic_names"
    using assms(2) by (simp_all add: ungated_names_def)
  have const: "rejects opcode s (const_instruction opcode ?n)"
  proof (cases "?n = ''V128Const''")
    case True
    show ?thesis unfolding True by (rule rejects_gated(4) [OF assms(1)])
  next
    case False
    show ?thesis unfolding const_cases [OF plain(2) False] by simp
  qed
  show ?thesis unfolding ReadInstruction_def Let_def
    by (rule rejects_first_case)
      (simp_all add: const rejects_gated [OF assms(1)] control_None [OF plain(1)] variable_None [OF plain(3)]
        memory_None [OF plain(4) ungated(1,2)] atomic_None [OF ungated(3)])
qed

text \<open>
  C40. Features that are off are enforced for all instructions but two groups. An opcode whose feature
  is not enabled is reported as unexpected, whatever follows it, before anything is read or any
  callback is made. The exceptions are \<open>v128.load\<close>, \<open>v128.store\<close> and every atomic instruction, whose
  cases have no check: they are read as memory accesses and passed to the delegate although SIMD or
  threads are disabled.\<close>

theorem disabled_instructions:
  assumes "\<not> IsEnabled opcode (opt_features (br_options s))"
  shows "if Opcode_enumerator opcode \<in> set ungated_names
         then \<exists>align_desc offset_desc member ev.
           ReadInstruction opcode s = ReadMemArg align_desc offset_desc member ev s
         else ReadInstruction opcode s = ReportUnexpectedOpcode opcode None s"
proof (cases "Opcode_enumerator opcode \<in> set ungated_names")
  case True
  from ungated_reads [OF True] obtain a b c d where "ReadInstruction opcode = (ReadMemArg a b c d :: ('a, unit) bop)"
    unfolding reads_memory_access_def by blast
  with True show ?thesis by auto
qed (simp add: disabled_rejected [OF assms])

text \<open>A reader with no feature enabled: \<open>atomic.wake\<close> is read, \<open>i32.extend8_s\<close> is not.\<close>

definition plain_reader :: "unit BinaryReader" where
  "plain_reader = BinaryReader_init [2, 8, 0x0b] \<lparr>deliver = \<lambda>_ _ d. (Some Result_Ok, d), on_error = \<lambda>_ _ _ d. d\<rparr> ()
     \<lparr>opt_features = \<lparr>exceptions_enabled = False, mutable_globals_enabled = False, sat_float_to_int_enabled = False,
        sign_extension_enabled = False, simd_enabled = False, threads_enabled = False, multi_value_enabled = False\<rparr>,
      opt_read_debug_names = False, opt_stop_on_first_error = True, opt_fail_on_custom_section_error = True\<rparr>"

lemma plain_reader_opcodes: "Opcode_enumerator 335 = ''AtomicWake''" "Opcode_enumerator 177 = ''I32Extend8S''"
  by (simp_all add: Opcode_enumerator_def opcode_def_def nth_append opcode_def_ok length_opcode_def)
    (simp_all add: opcode_def_3_def opcode_def_5_def WABT_OPCODE_def)

lemma plain_reader_disabled:
  "\<not> IsEnabled 335 (opt_features (br_options plain_reader))" "\<not> IsEnabled 177 (opt_features (br_options plain_reader))"
proof -
  have "''AtomicWake'' \<in> set threads_opcodes" by (simp add: threads_opcodes_def)
  from switch_threads [OF this] show "\<not> IsEnabled 335 (opt_features (br_options plain_reader))"
    by (simp add: IsEnabled_def plain_reader_opcodes plain_reader_def BinaryReader_init_def)
  have "switch_others ''I32Extend8S'' = Gate_sign_extension" by code_simp
  then have "IsEnabled_switch ''I32Extend8S'' = Gate_sign_extension" by (simp add: switch_shape)
  then show "\<not> IsEnabled 177 (opt_features (br_options plain_reader))"
    by (simp add: IsEnabled_def plain_reader_opcodes plain_reader_def BinaryReader_init_def)
qed

theorem disabled_instructions_witness:
  "(\<exists>align_desc offset_desc member ev. ReadInstruction 335 plain_reader = ReadMemArg align_desc offset_desc member ev plain_reader) \<and>
   ReadInstruction 177 plain_reader = ReportUnexpectedOpcode 177 None plain_reader"
  using disabled_instructions [OF plain_reader_disabled(1)] disabled_instructions [OF plain_reader_disabled(2)]
  by (simp add: plain_reader_opcodes ungated_names_def atomic_names_def br_atomic_wait_opcodes_def
      br_atomic_load_opcodes_def br_atomic_store_opcodes_def br_atomic_rmw_opcodes_def br_atomic_cmpxchg_opcodes_def)

end
