(* ===== verification/BinaryReaderSections.thy ===== *)
theory BinaryReaderSections
  imports BinaryReaderBody
begin

text \<open>
  The sections of a module, the module, and \<open>ReadBinary\<close> (\<^verbatim>\<open>src/binary-reader.cc\<close>).
\<close>

definition on_module :: "string \<Rightarrow> module_event \<Rightarrow> ('d, unit) bop" where
  "on_module member e = CALLBACK member (Module_Event e)"

definition on_define :: "string \<Rightarrow> define_event \<Rightarrow> ('d, unit) bop" where
  "on_define member e = CALLBACK member (Define_Event e)"

definition on_segment :: "string \<Rightarrow> segment_event \<Rightarrow> ('d, unit) bop" where
  "on_segment member e = CALLBACK member (Segment_Event e)"

definition on_name :: "string \<Rightarrow> name_event \<Rightarrow> ('d, unit) bop" where
  "on_name member e = CALLBACK member (Name_Event e)"

definition on_link :: "string \<Rightarrow> link_event \<Rightarrow> ('d, unit) bop" where
  "on_link member e = CALLBACK member (Link_Event e)"

definition on_body :: "string \<Rightarrow> body_event \<Rightarrow> ('d, unit) bop" where
  "on_body member e = CALLBACK member (Body_Event e)"

text \<open>\<open>for\<close> without variables of its own.\<close>

definition b_each :: "Index \<Rightarrow> (Index \<Rightarrow> ('d, unit) bop) \<Rightarrow> ('d, unit) bop" where
  "b_each n f = b_for n (\<lambda>i _. f i) ()"

section \<open>Custom sections\<close>

definition unfinished_subsection :: "nat \<Rightarrow> string" where
  "unfinished_subsection subsection_end = ''unfinished sub-section (expected end: 0x'' @ show_hex subsection_end @ '')''"

text \<open>
  The indices of a name map increase; \<open>kInvalidIndex\<close>: none was read yet. The messages for
  functions and for locals differ.
\<close>

definition ReadFunctionNames :: "('d, unit) bop" where
  "ReadFunctionNames =
     b_bind (ReadCount ''name count'') (\<lambda>num_names.
     b_then (on_name ''OnFunctionNamesCount'' (Ev_OnFunctionNamesCount num_names))
     (b_then (b_for num_names (\<lambda>j last_function_index.
        b_bind (ReadIndex ''function index'') (\<lambda>function_index.
        b_then (ERROR_UNLESS (function_index \<noteq> last_function_index)
          (''duplicate function name: '' @ show_u32 function_index))
        (b_then (ERROR_UNLESS (last_function_index = kInvalidIndex \<or> function_index > last_function_index)
          (''function index out of order: '' @ show_u32 function_index))
        (b_then (b_check (\<lambda>s. function_index < NumTotalFuncs s)
          (''invalid function index: '' @ show_u32 function_index))
        (b_bind (ReadStr ''function name'') (\<lambda>function_name.
         b_then (on_name ''OnFunctionName'' (Ev_OnFunctionName function_index function_name))
           (b_return function_index))))))) kInvalidIndex)
       (b_return ())))"

definition ReadLocalNamesOf :: "Index \<Rightarrow> ('d, unit) bop" where
  "ReadLocalNamesOf function_index =
     b_bind (ReadCount ''local count'') (\<lambda>num_locals.
     b_then (on_name ''OnLocalNameLocalCount'' (Ev_OnLocalNameLocalCount function_index num_locals))
     (b_then (b_for num_locals (\<lambda>k last_local_index.
        b_bind (ReadIndex ''named index'') (\<lambda>local_index.
        b_then (ERROR_UNLESS (local_index \<noteq> last_local_index)
          (''duplicate local index: '' @ show_u32 local_index))
        (b_then (ERROR_UNLESS (last_local_index = kInvalidIndex \<or> local_index > last_local_index)
          (''local index out of order: '' @ show_u32 local_index))
        (b_bind (ReadStr ''name'') (\<lambda>local_name.
         b_then (on_name ''OnLocalName'' (Ev_OnLocalName function_index local_index local_name))
           (b_return local_index)))))) kInvalidIndex)
       (b_return ())))"

definition ReadLocalNames :: "('d, unit) bop" where
  "ReadLocalNames =
     b_bind (ReadCount ''function count'') (\<lambda>num_funcs.
     b_then (on_name ''OnLocalNameFunctionCount'' (Ev_OnLocalNameFunctionCount num_funcs))
     (b_then (b_for num_funcs (\<lambda>j last_function_index.
        b_bind (ReadIndex ''function index'') (\<lambda>function_index.
        b_then (b_check (\<lambda>s. function_index < NumTotalFuncs s)
          (''invalid function index: '' @ show_u32 function_index))
        (b_then (ERROR_UNLESS (last_function_index = kInvalidIndex \<or> function_index > last_function_index)
          (''locals function index out of order: '' @ show_u32 function_index))
        (b_then (ReadLocalNamesOf function_index) (b_return function_index))))) kInvalidIndex)
       (b_return ())))"

text \<open>A subsection; an unknown one is skipped.\<close>

definition ReadNameSubsection :: "Index \<Rightarrow> u32 \<Rightarrow> nat \<Rightarrow> nat \<Rightarrow> ('d, unit) bop" where
  "ReadNameSubsection i name_type subsection_size subsection_end =
     (if name_type = 0 then
        b_then (on_name ''OnModuleNameSubsection'' (Ev_OnModuleNameSubsection i name_type subsection_size))
          (if subsection_size \<noteq> 0 then
             b_bind (ReadStr ''module name'') (\<lambda>name. on_name ''OnModuleName'' (Ev_OnModuleName name))
           else b_return ())
      else if name_type = 1 then
        b_then (on_name ''OnFunctionNameSubsection'' (Ev_OnFunctionNameSubsection i name_type subsection_size))
          (if subsection_size \<noteq> 0 then ReadFunctionNames else b_return ())
      else if name_type = 2 then
        b_then (on_name ''OnLocalNameSubsection'' (Ev_OnLocalNameSubsection i name_type subsection_size))
          (if subsection_size \<noteq> 0 then ReadLocalNames else b_return ())
      else b_mod (\<lambda>s. s\<lparr>br_offset := subsection_end\<rparr>))"

definition ReadNameSection :: "nat \<Rightarrow> ('d, unit) bop" where
  "ReadNameSection section_size =
     b_then (on_name ''BeginNamesSection'' (Ev_BeginNamesSection section_size))
     (b_then (b_until br_read_end (\<lambda>(i, previous_subsection_type).
        b_bind (BR_ReadU32Leb128 ''name type'') (\<lambda>name_type.
        b_then (if i \<noteq> 0 then
            b_then (ERROR_UNLESS (name_type \<noteq> previous_subsection_type) ''duplicate sub-section'')
              (ERROR_UNLESS (name_type \<ge> previous_subsection_type) ''out-of-order sub-section'')
          else b_return ())
        (b_bind (ReadOffset ''subsection size'') (\<lambda>subsection_size.
         b_bind (b_get br_offset) (\<lambda>offset.
         let subsection_end = offset + subsection_size
         in b_then (b_check (\<lambda>s. subsection_end \<le> br_read_end s) ''invalid sub-section size: extends past end'')
            (with_read_end subsection_end
              (b_then (ReadNameSubsection i name_type subsection_size subsection_end)
              (b_then (b_check (\<lambda>s. br_offset s = subsection_end) (unfinished_subsection subsection_end))
                (b_return (i + 1, name_type)))))))))) (0 :: Index, 0))
       (on_name ''EndNamesSection'' Ev_EndNamesSection))"

text \<open>
  \<open>MemoryAddressLEB\<close>, \<open>MemoryAddressSLEB\<close>, \<open>MemoryAddressI32\<close>, \<open>FunctionOffsetI32\<close>,
  \<open>SectionOffsetI32\<close> have an addend.
\<close>

definition reloc_has_addend :: "u32 \<Rightarrow> bool" where
  "reloc_has_addend type \<longleftrightarrow> List.member [3, 4, 5, 8, 9] type"

definition ReadRelocSection :: "nat \<Rightarrow> ('d, unit) bop" where
  "ReadRelocSection section_size =
     b_then (on_link ''BeginRelocSection'' (Ev_BeginRelocSection section_size))
     (b_bind (BR_ReadU32Leb128 ''section index'') (\<lambda>section_index.
      b_bind (ReadCount ''relocation count'') (\<lambda>num_relocs.
      b_then (on_link ''OnRelocCount'' (Ev_OnRelocCount num_relocs section_index))
      (b_then (b_each num_relocs (\<lambda>i.
         b_bind (BR_ReadU32Leb128 ''relocation type'') (\<lambda>reloc_type.
         b_bind (ReadOffset ''offset'') (\<lambda>offset.
         b_bind (ReadIndex ''index'') (\<lambda>index.
         b_bind (if reloc_has_addend reloc_type then BR_ReadS32Leb128 ''addend'' else b_return 0) (\<lambda>addend.
           on_link ''OnReloc'' (Ev_OnReloc reloc_type offset index addend)))))))
        (on_link ''EndRelocSection'' Ev_EndRelocSection)))))"

text \<open>\<open>SymbolType\<close>: \<open>Function\<close> 0, \<open>Data\<close> 1, \<open>Global\<close> 2, \<open>Section\<close> 3.\<close>

definition ReadSymbol :: "Index \<Rightarrow> ('d, unit) bop" where
  "ReadSymbol i =
     b_bind (BR_ReadU32Leb128 ''sym type'') (\<lambda>sym_type.
     b_bind (BR_ReadU32Leb128 ''sym flags'') (\<lambda>flags.
     b_then (on_link ''OnSymbol'' (Ev_OnSymbol i sym_type flags))
     (let undefined_symbol = has_flag flags WABT_SYMBOL_FLAG_UNDEFINED
      in if sym_type = 0 \<or> sym_type = 2 then
           b_bind (BR_ReadU32Leb128 ''index'') (\<lambda>index.
           b_bind (if \<not> undefined_symbol then ReadStr ''symbol name'' else b_return []) (\<lambda>name.
             if sym_type = 0 then on_link ''OnFunctionSymbol'' (Ev_OnFunctionSymbol i flags name index)
             else on_link ''OnGlobalSymbol'' (Ev_OnGlobalSymbol i flags name index)))
         else if sym_type = 1 then
           b_bind (ReadStr ''symbol name'') (\<lambda>name.
           b_bind (if \<not> undefined_symbol then
                     b_bind (BR_ReadU32Leb128 ''segment'') (\<lambda>segment.
                     b_bind (BR_ReadU32Leb128 ''offset'') (\<lambda>offset.
                     b_bind (BR_ReadU32Leb128 ''size'') (\<lambda>size. b_return (segment, offset, size))))
                   else b_return (0, 0, 0)) (\<lambda>(segment, offset, size).
             on_link ''OnDataSymbol'' (Ev_OnDataSymbol i flags name segment offset size)))
         else if sym_type = 3 then
           b_bind (BR_ReadU32Leb128 ''index'') (\<lambda>index.
             on_link ''OnSectionSymbol'' (Ev_OnSectionSymbol i flags index))
         else b_return ())))"

text \<open>\<open>LinkingEntryType\<close>: \<open>SegmentInfo\<close> 5, \<open>InitFunctions\<close> 6, \<open>SymbolTable\<close> 8.\<close>

definition ReadLinkingSubsection :: "u32 \<Rightarrow> nat \<Rightarrow> ('d, unit) bop" where
  "ReadLinkingSubsection linking_type subsection_end =
     (if linking_type = 8 then
        b_bind (BR_ReadU32Leb128 ''sym count'') (\<lambda>count.
        b_then (on_link ''OnSymbolCount'' (Ev_OnSymbolCount count)) (b_each count ReadSymbol))
      else if linking_type = 5 then
        b_bind (BR_ReadU32Leb128 ''info count'') (\<lambda>count.
        b_then (on_link ''OnSegmentInfoCount'' (Ev_OnSegmentInfoCount count))
          (b_each count (\<lambda>i.
             b_bind (ReadStr ''segment name'') (\<lambda>name.
             b_bind (BR_ReadU32Leb128 ''segment alignment'') (\<lambda>alignment.
             b_bind (BR_ReadU32Leb128 ''segment flags'') (\<lambda>flags.
               on_link ''OnSegmentInfo'' (Ev_OnSegmentInfo i name alignment flags)))))))
      else if linking_type = 6 then
        b_bind (BR_ReadU32Leb128 ''info count'') (\<lambda>count.
        b_then (on_link ''OnInitFunctionCount'' (Ev_OnInitFunctionCount count))
          (b_each count (\<lambda>_.
             b_bind (BR_ReadU32Leb128 ''priority'') (\<lambda>priority.
             b_bind (BR_ReadU32Leb128 ''function index'') (\<lambda>func.
               on_link ''OnInitFunction'' (Ev_OnInitFunction priority func))))))
      else b_mod (\<lambda>s. s\<lparr>br_offset := subsection_end\<rparr>))"

definition ReadLinkingSection :: "nat \<Rightarrow> ('d, unit) bop" where
  "ReadLinkingSection section_size =
     b_then (on_link ''BeginLinkingSection'' (Ev_BeginLinkingSection section_size))
     (b_bind (BR_ReadU32Leb128 ''version'') (\<lambda>version.
      b_then (ERROR_UNLESS (version = 1) (''invalid linking metadata version: '' @ show_u32 version))
      (b_then (b_until br_read_end (\<lambda>_.
         b_bind (BR_ReadU32Leb128 ''type'') (\<lambda>linking_type.
         b_bind (ReadOffset ''subsection size'') (\<lambda>subsection_size.
         b_bind (b_get br_offset) (\<lambda>offset.
         let subsection_end = offset + subsection_size
         in b_then (b_check (\<lambda>s. subsection_end \<le> br_read_end s) ''invalid sub-section size: extends past end'')
            (with_read_end subsection_end
              (b_then (ReadLinkingSubsection linking_type subsection_end)
                (b_check (\<lambda>s. br_offset s = subsection_end) (unfinished_subsection subsection_end)))))))) ())
        (on_link ''EndLinkingSection'' Ev_EndLinkingSection))))"

definition ReadExceptionSection :: "nat \<Rightarrow> ('d, unit) bop" where
  "ReadExceptionSection section_size =
     b_then (on_name ''BeginExceptionSection'' (Ev_BeginExceptionSection section_size))
     (b_bind (ReadCountTo (\<lambda>n s. s\<lparr>br_num_exceptions := n\<rparr>) ''exception count'') (\<lambda>num_exceptions.
      b_then (on_name ''OnExceptionCount'' (Ev_OnExceptionCount num_exceptions))
      (b_then (b_each num_exceptions (\<lambda>i.
         b_bind ReadExceptionType (\<lambda>sig. on_name ''OnExceptionType'' (Ev_OnExceptionType i sig))))
        (on_name ''EndExceptionSection'' Ev_EndExceptionSection))))"

definition ascii_bytes :: "string \<Rightarrow> bytes" where
  "ascii_bytes s = map of_char s"

text \<open>\<open>section_name.rfind(prefix, 0) == 0\<close>: the name begins with the prefix.\<close>

definition ReadCustomSection :: "nat \<Rightarrow> ('d, unit) bop" where
  "ReadCustomSection section_size =
     b_bind (ReadStr ''section name'') (\<lambda>section_name.
     b_then (on_module ''BeginCustomSection'' (Ev_BeginCustomSection section_size section_name))
     (with_custom_section
       (b_bind (b_get br_options) (\<lambda>options.
        b_then
          (if opt_read_debug_names options \<and> section_name = ascii_bytes WABT_BINARY_SECTION_NAME then
             b_then (ReadNameSection section_size) (b_mod (\<lambda>s. s\<lparr>br_did_read_names_section := True\<rparr>))
           else if take (length WABT_BINARY_SECTION_RELOC) section_name = ascii_bytes WABT_BINARY_SECTION_RELOC then
             ReadRelocSection section_size
           else if section_name = ascii_bytes WABT_BINARY_SECTION_LINKING then ReadLinkingSection section_size
           else if exceptions_enabled (opt_features options) \<and>
              section_name = ascii_bytes WABT_BINARY_SECTION_EXCEPTION then ReadExceptionSection section_size
           else b_mod (\<lambda>s. s\<lparr>br_offset := br_read_end s\<rparr>))
          (on_module ''EndCustomSection'' Ev_EndCustomSection)))))"

section \<open>Types and imports\<close>

text \<open>A vector of types, each of which is checked.\<close>

definition ReadTypes :: "Index \<Rightarrow> string \<Rightarrow> string \<Rightarrow> ('d, u32 list) bop" where
  "ReadTypes num desc error =
     b_for num (\<lambda>j types.
       b_bind (ReadType desc) (\<lambda>type.
       b_then (b_check (\<lambda>s. IsConcreteType s type) (error @ '' (got '' @ show_typecode type @ '')''))
         (b_return (types @ [type])))) []"

definition ReadTypeSection :: "nat \<Rightarrow> ('d, unit) bop" where
  "ReadTypeSection section_size =
     b_then (on_module ''BeginTypeSection'' (Ev_BeginTypeSection section_size))
     (b_bind (ReadCountTo (\<lambda>n s. s\<lparr>br_num_signatures := n\<rparr>) ''type count'') (\<lambda>num_signatures.
      b_then (on_module ''OnTypeCount'' (Ev_OnTypeCount num_signatures))
      (b_then (b_each num_signatures (\<lambda>i.
         b_bind (ReadType ''type form'') (\<lambda>form.
         b_then (ERROR_UNLESS (form = Type_bits Type_Func) (''unexpected type form (got '' @ show_typecode form @ '')''))
         (b_bind (ReadCount ''function param count'') (\<lambda>num_params.
          b_bind (ReadTypes num_params ''function param type'' ''expected valid param type'') (\<lambda>param_types.
          b_bind (ReadCount ''function result count'') (\<lambda>num_results.
          b_then (b_check (\<lambda>s. num_results \<le> 1 \<or> multi_value_enabled (opt_features (br_options s)))
            ''result count must be 0 or 1'')
          (b_bind (ReadTypes num_results ''function result type'' ''expected valid result type'') (\<lambda>result_types.
            on_module ''OnType'' (Ev_OnType i param_types result_types))))))))))
        (on_module ''EndTypeSection'' Ev_EndTypeSection))))"

definition on_import :: "Index \<Rightarrow> bytes \<Rightarrow> bytes \<Rightarrow> ('d, unit) bop" where
  "on_import i module_name field_name = on_module ''OnImport'' (Ev_OnImport i module_name field_name)"

text \<open>An import of each kind.\<close>

definition ReadImportFunc :: "Index \<Rightarrow> bytes \<Rightarrow> bytes \<Rightarrow> ('d, unit) bop" where
  "ReadImportFunc i module_name field_name =
     b_bind (ReadIndex ''import signature index'') (\<lambda>sig_index.
     b_then (b_check (\<lambda>s. sig_index < br_num_signatures s) ''invalid import signature index'')
     (b_then (on_import i module_name field_name)
     (b_bind (b_get br_num_func_imports) (\<lambda>n.
      b_then (on_module ''OnImportFunc'' (Ev_OnImportFunc i module_name field_name n sig_index))
        (b_mod (\<lambda>s. s\<lparr>br_num_func_imports := br_num_func_imports s + 1\<rparr>))))))"

definition ReadImportTable :: "Index \<Rightarrow> bytes \<Rightarrow> bytes \<Rightarrow> ('d, unit) bop" where
  "ReadImportTable i module_name field_name =
     b_bind ReadTable (\<lambda>(elem_type, elem_limits).
     b_then (on_import i module_name field_name)
     (b_bind (b_get br_num_table_imports) (\<lambda>n.
      b_then (on_module ''OnImportTable'' (Ev_OnImportTable i module_name field_name n elem_type elem_limits))
        (b_mod (\<lambda>s. s\<lparr>br_num_table_imports := br_num_table_imports s + 1\<rparr>)))))"

definition ReadImportMemory :: "Index \<Rightarrow> bytes \<Rightarrow> bytes \<Rightarrow> ('d, unit) bop" where
  "ReadImportMemory i module_name field_name =
     b_bind BR_ReadMemory (\<lambda>limits.
     b_then (on_import i module_name field_name)
     (b_bind (b_get br_num_memory_imports) (\<lambda>n.
      b_then (on_module ''OnImportMemory'' (Ev_OnImportMemory i module_name field_name n limits))
        (b_mod (\<lambda>s. s\<lparr>br_num_memory_imports := br_num_memory_imports s + 1\<rparr>)))))"

definition ReadImportGlobal :: "Index \<Rightarrow> bytes \<Rightarrow> bytes \<Rightarrow> ('d, unit) bop" where
  "ReadImportGlobal i module_name field_name =
     b_bind ReadGlobalHeader (\<lambda>(type, mutable).
     b_then (on_import i module_name field_name)
     (b_bind (b_get br_num_global_imports) (\<lambda>n.
      b_then (on_module ''OnImportGlobal'' (Ev_OnImportGlobal i module_name field_name n type mutable))
        (b_mod (\<lambda>s. s\<lparr>br_num_global_imports := br_num_global_imports s + 1\<rparr>)))))"

definition ReadImportException :: "Index \<Rightarrow> bytes \<Rightarrow> bytes \<Rightarrow> ('d, unit) bop" where
  "ReadImportException i module_name field_name =
     b_then (b_check (\<lambda>s. exceptions_enabled (opt_features (br_options s)))
       ''invalid import exception kind: exceptions not allowed'')
     (b_bind ReadExceptionType (\<lambda>sig.
      b_then (on_import i module_name field_name)
      (b_bind (b_get br_num_exception_imports) (\<lambda>n.
       b_then (on_module ''OnImportException'' (Ev_OnImportException i module_name field_name n sig))
         (b_mod (\<lambda>s. s\<lparr>br_num_exception_imports := br_num_exception_imports s + 1\<rparr>))))))"

text \<open>The switch has no case for a number that is no kind.\<close>

definition ReadImportSection :: "nat \<Rightarrow> ('d, unit) bop" where
  "ReadImportSection section_size =
     b_then (on_module ''BeginImportSection'' (Ev_BeginImportSection section_size))
     (b_bind (ReadCountTo (\<lambda>n s. s\<lparr>br_num_imports := n\<rparr>) ''import count'') (\<lambda>num_imports.
      b_then (on_module ''OnImportCount'' (Ev_OnImportCount num_imports))
      (b_then (b_each num_imports (\<lambda>i.
         b_bind (ReadStr ''import module name'') (\<lambda>module_name.
         b_bind (ReadStr ''import field name'') (\<lambda>field_name.
         b_bind (BR_ReadU8 ''import kind'') (\<lambda>kind.
           case ExternalKind_of kind of
             Some EK_Func \<Rightarrow> ReadImportFunc i module_name field_name
           | Some EK_Table \<Rightarrow> ReadImportTable i module_name field_name
           | Some EK_Memory \<Rightarrow> ReadImportMemory i module_name field_name
           | Some EK_Global \<Rightarrow> ReadImportGlobal i module_name field_name
           | Some EK_Except \<Rightarrow> ReadImportException i module_name field_name
           | None \<Rightarrow> b_return ())))))
        (on_module ''EndImportSection'' Ev_EndImportSection))))"

section \<open>Definitions\<close>

definition ReadFunctionSection :: "nat \<Rightarrow> ('d, unit) bop" where
  "ReadFunctionSection section_size =
     b_then (on_define ''BeginFunctionSection'' (Ev_BeginFunctionSection section_size))
     (b_bind (ReadCountTo (\<lambda>n s. s\<lparr>br_num_function_signatures := n\<rparr>) ''function signature count'') (\<lambda>num.
      b_then (on_define ''OnFunctionCount'' (Ev_OnFunctionCount num))
      (b_then (b_each num (\<lambda>i.
         b_bind (b_get (\<lambda>s. br_num_func_imports s + i)) (\<lambda>func_index.
         b_bind (ReadIndex ''function signature index'') (\<lambda>sig_index.
         b_then (b_check (\<lambda>s. sig_index < br_num_signatures s)
           (''invalid function signature index: '' @ show_u32 sig_index))
           (on_define ''OnFunction'' (Ev_OnFunction func_index sig_index))))))
        (on_define ''EndFunctionSection'' Ev_EndFunctionSection))))"

definition ReadTableSection :: "nat \<Rightarrow> ('d, unit) bop" where
  "ReadTableSection section_size =
     b_then (on_define ''BeginTableSection'' (Ev_BeginTableSection section_size))
     (b_bind (ReadCountTo (\<lambda>n s. s\<lparr>br_num_tables := n\<rparr>) ''table count'') (\<lambda>num_tables.
      b_then (ERROR_UNLESS (num_tables \<le> 1) (''table count ('' @ show_u32 num_tables @ '') must be 0 or 1''))
      (b_then (on_define ''OnTableCount'' (Ev_OnTableCount num_tables))
      (b_then (b_each num_tables (\<lambda>i.
         b_bind (b_get (\<lambda>s. br_num_table_imports s + i)) (\<lambda>table_index.
         b_bind ReadTable (\<lambda>(elem_type, elem_limits).
           on_define ''OnTable'' (Ev_OnTable table_index elem_type elem_limits)))))
        (on_define ''EndTableSection'' Ev_EndTableSection)))))"

definition ReadMemorySection :: "nat \<Rightarrow> ('d, unit) bop" where
  "ReadMemorySection section_size =
     b_then (on_define ''BeginMemorySection'' (Ev_BeginMemorySection section_size))
     (b_bind (ReadCountTo (\<lambda>n s. s\<lparr>br_num_memories := n\<rparr>) ''memory count'') (\<lambda>num_memories.
      b_then (ERROR_UNLESS (num_memories \<le> 1) ''memory count must be 0 or 1'')
      (b_then (on_define ''OnMemoryCount'' (Ev_OnMemoryCount num_memories))
      (b_then (b_each num_memories (\<lambda>i.
         b_bind (b_get (\<lambda>s. br_num_memory_imports s + i)) (\<lambda>memory_index.
         b_bind BR_ReadMemory (\<lambda>limits. on_define ''OnMemory'' (Ev_OnMemory memory_index limits)))))
        (on_define ''EndMemorySection'' Ev_EndMemorySection)))))"

definition ReadGlobalSection :: "nat \<Rightarrow> ('d, unit) bop" where
  "ReadGlobalSection section_size =
     b_then (on_define ''BeginGlobalSection'' (Ev_BeginGlobalSection section_size))
     (b_bind (ReadCountTo (\<lambda>n s. s\<lparr>br_num_globals := n\<rparr>) ''global count'') (\<lambda>num_globals.
      b_then (on_define ''OnGlobalCount'' (Ev_OnGlobalCount num_globals))
      (b_then (b_each num_globals (\<lambda>i.
         b_bind (b_get (\<lambda>s. br_num_global_imports s + i)) (\<lambda>global_index.
         b_bind ReadGlobalHeader (\<lambda>(global_type, mutable).
         b_then (on_define ''BeginGlobal'' (Ev_BeginGlobal global_index global_type mutable))
         (b_then (on_define ''BeginGlobalInitExpr'' (Ev_BeginGlobalInitExpr global_index))
         (b_then (ReadInitExpr global_index False)
         (b_then (on_define ''EndGlobalInitExpr'' (Ev_EndGlobalInitExpr global_index))
           (on_define ''EndGlobal'' (Ev_EndGlobal global_index)))))))))
        (on_define ''EndGlobalSection'' Ev_EndGlobalSection))))"

text \<open>The check of an exported index, by kind.\<close>

definition check_export :: "ExternalKind \<Rightarrow> Index \<Rightarrow> ('d, unit) bop" where
  "check_export kind item_index =
     (case kind of
        EK_Func \<Rightarrow> b_check (\<lambda>s. item_index < NumTotalFuncs s) (''invalid export func index: '' @ show_u32 item_index)
      | EK_Table \<Rightarrow> b_check (\<lambda>s. item_index < NumTotalTables s) (''invalid export table index: '' @ show_u32 item_index)
      | EK_Memory \<Rightarrow> b_check (\<lambda>s. item_index < NumTotalMemories s) (''invalid export memory index: '' @ show_u32 item_index)
      | EK_Global \<Rightarrow> b_check (\<lambda>s. item_index < NumTotalGlobals s) (''invalid export global index: '' @ show_u32 item_index)
      | EK_Except \<Rightarrow> b_check (\<lambda>s. exceptions_enabled (opt_features (br_options s)))
          ''invalid export exception kind: exceptions not allowed'')"

definition ReadExportSection :: "nat \<Rightarrow> ('d, unit) bop" where
  "ReadExportSection section_size =
     b_then (on_define ''BeginExportSection'' (Ev_BeginExportSection section_size))
     (b_bind (ReadCountTo (\<lambda>n s. s\<lparr>br_num_exports := n\<rparr>) ''export count'') (\<lambda>num_exports.
      b_then (on_define ''OnExportCount'' (Ev_OnExportCount num_exports))
      (b_then (b_each num_exports (\<lambda>i.
         b_bind (ReadStr ''export item name'') (\<lambda>name.
         b_bind (BR_ReadU8 ''export kind'') (\<lambda>kind.
         b_then (ERROR_UNLESS (is_valid_external_kind kind)
           (''invalid export external kind: '' @ show_nat (unat kind)))
         (b_bind (ReadIndex ''export item index'') (\<lambda>item_index.
          case ExternalKind_of kind of
            Some k \<Rightarrow> b_then (check_export k item_index)
              (on_define ''OnExport'' (Ev_OnExport i k item_index name))
          | None \<Rightarrow> b_return ()))))))
        (on_define ''EndExportSection'' Ev_EndExportSection))))"

definition ReadStartSection :: "nat \<Rightarrow> ('d, unit) bop" where
  "ReadStartSection section_size =
     b_then (on_define ''BeginStartSection'' (Ev_BeginStartSection section_size))
     (b_bind (ReadIndex ''start function index'') (\<lambda>func_index.
      b_then (b_check (\<lambda>s. func_index < NumTotalFuncs s) (''invalid start function index: '' @ show_u32 func_index))
      (b_then (on_define ''OnStartFunction'' (Ev_OnStartFunction func_index))
        (on_define ''EndStartSection'' Ev_EndStartSection))))"

section \<open>Segments and code\<close>

definition ReadElemSection :: "nat \<Rightarrow> ('d, unit) bop" where
  "ReadElemSection section_size =
     b_then (on_segment ''BeginElemSection'' (Ev_BeginElemSection section_size))
     (b_bind (ReadCount ''elem segment count'') (\<lambda>num_elem_segments.
      b_then (on_segment ''OnElemSegmentCount'' (Ev_OnElemSegmentCount num_elem_segments))
      (b_then (b_check (\<lambda>s. num_elem_segments = 0 \<or> NumTotalTables s > 0) ''elem section without table section'')
      (b_then (b_each num_elem_segments (\<lambda>i.
         b_bind (ReadIndex ''elem segment table index'') (\<lambda>table_index.
         b_then (on_segment ''BeginElemSegment'' (Ev_BeginElemSegment i table_index))
         (b_then (on_segment ''BeginElemSegmentInitExpr'' (Ev_BeginElemSegmentInitExpr i))
         (b_then (ReadI32InitExpr i)
         (b_then (on_segment ''EndElemSegmentInitExpr'' (Ev_EndElemSegmentInitExpr i))
         (b_bind (ReadCount ''elem segment function index count'') (\<lambda>num_function_indexes.
          b_then (on_segment ''OnElemSegmentFunctionIndexCount'' (Ev_OnElemSegmentFunctionIndexCount i num_function_indexes))
          (b_then (b_each num_function_indexes (\<lambda>j.
             b_bind (ReadIndex ''elem segment function index'') (\<lambda>func_index.
               on_segment ''OnElemSegmentFunctionIndex'' (Ev_OnElemSegmentFunctionIndex i func_index))))
            (on_segment ''EndElemSegment'' (Ev_EndElemSegment i)))))))))))
        (on_segment ''EndElemSection'' Ev_EndElemSection)))))"

text \<open>\<open>total_locals\<close> is a 64-bit sum.\<close>

definition ReadLocalDecls :: "('d, unit) bop" where
  "ReadLocalDecls =
     b_bind (ReadCount ''local declaration count'') (\<lambda>num_local_decls.
     b_then (on_body ''OnLocalDeclCount'' (Ev_OnLocalDeclCount num_local_decls))
     (b_then (b_for num_local_decls (\<lambda>k total_locals.
        b_bind (ReadIndex ''local type count'') (\<lambda>num_local_types.
        b_then (ERROR_UNLESS (num_local_types > 0) ''local count must be > 0'')
        (let total_locals = total_locals + ucast num_local_types :: u64
         in b_then (ERROR_UNLESS (total_locals < 0xffffffff) ''local count must be < 0x10000000'')
            (b_bind (ReadType ''local type'') (\<lambda>local_type.
             b_then (b_check (\<lambda>s. IsConcreteType s local_type) ''expected valid local type'')
             (b_then (on_body ''OnLocalDecl'' (Ev_OnLocalDecl k num_local_types local_type))
               (b_return total_locals))))))) 0)
       (b_return ())))"

definition ReadFunction :: "Index \<Rightarrow> ('d, unit) bop" where
  "ReadFunction func_index =
     b_then (on_body ''BeginFunctionBody'' (Ev_BeginFunctionBody func_index))
     (b_bind (BR_ReadU32Leb128 ''function body size'') (\<lambda>body_size.
      b_bind (b_get br_offset) (\<lambda>body_start_offset.
      b_then ReadLocalDecls
      (b_then (ReadFunctionBody (body_start_offset + unat body_size))
        (on_body ''EndFunctionBody'' (Ev_EndFunctionBody func_index))))))"

definition ReadCodeSection :: "nat \<Rightarrow> ('d, unit) bop" where
  "ReadCodeSection section_size =
     b_then (on_body ''BeginCodeSection'' (Ev_BeginCodeSection section_size))
     (b_bind (ReadCountTo (\<lambda>n s. s\<lparr>br_num_function_bodies := n\<rparr>) ''function body count'') (\<lambda>num_function_bodies.
      b_then (b_check (\<lambda>s. br_num_function_signatures s = num_function_bodies)
        ''function signature count != function body count'')
      (b_then (on_body ''OnFunctionBodyCount'' (Ev_OnFunctionBodyCount num_function_bodies))
      (b_then (b_each num_function_bodies (\<lambda>i.
         b_bind (b_get (\<lambda>s. br_num_func_imports s + i)) ReadFunction))
        (on_body ''EndCodeSection'' Ev_EndCodeSection)))))"

definition ReadDataSection :: "nat \<Rightarrow> ('d, unit) bop" where
  "ReadDataSection section_size =
     b_then (on_segment ''BeginDataSection'' (Ev_BeginDataSection section_size))
     (b_bind (ReadCount ''data segment count'') (\<lambda>num_data_segments.
      b_then (on_segment ''OnDataSegmentCount'' (Ev_OnDataSegmentCount num_data_segments))
      (b_then (b_check (\<lambda>s. num_data_segments = 0 \<or> NumTotalMemories s > 0) ''data section without memory section'')
      (b_then (b_each num_data_segments (\<lambda>i.
         b_bind (ReadIndex ''data segment memory index'') (\<lambda>memory_index.
         b_then (on_segment ''BeginDataSegment'' (Ev_BeginDataSegment i memory_index))
         (b_then (on_segment ''BeginDataSegmentInitExpr'' (Ev_BeginDataSegmentInitExpr i))
         (b_then (ReadI32InitExpr i)
         (b_then (on_segment ''EndDataSegmentInitExpr'' (Ev_EndDataSegmentInitExpr i))
         (b_bind (ReadBytes ''data segment data'') (\<lambda>data.
          b_then (on_segment ''OnDataSegmentData'' (Ev_OnDataSegmentData i data))
            (on_segment ''EndDataSegment'' (Ev_EndDataSegment i))))))))))
        (on_segment ''EndDataSection'' Ev_EndDataSection)))))"

section \<open>The module\<close>

text \<open>The result of reading a section, as a value; \<open>BinarySection::Invalid\<close> is unreachable.\<close>

definition b_catch :: "('d, unit) bop \<Rightarrow> ('d, Result) bop" where
  "b_catch f s = (case f s of
     (BOk _, s1) \<Rightarrow> (BOk Result_Ok, s1)
   | (BError, s1) \<Rightarrow> (BOk Result_Error, s1)
   | (BUndef, s1) \<Rightarrow> (BUndef, s1)
   | (BDelegate, s1) \<Rightarrow> (BDelegate, s1)
   | (BFuel, s1) \<Rightarrow> (BFuel, s1))"

definition ReadSectionBody :: "BinarySection \<Rightarrow> nat \<Rightarrow> ('d, unit) bop" where
  "ReadSectionBody sec section_size =
     (case sec of
        Section_Custom \<Rightarrow> ReadCustomSection section_size
      | Section_Type \<Rightarrow> ReadTypeSection section_size
      | Section_Import \<Rightarrow> ReadImportSection section_size
      | Section_Function \<Rightarrow> ReadFunctionSection section_size
      | Section_Table \<Rightarrow> ReadTableSection section_size
      | Section_Memory \<Rightarrow> ReadMemorySection section_size
      | Section_Global \<Rightarrow> ReadGlobalSection section_size
      | Section_Export \<Rightarrow> ReadExportSection section_size
      | Section_Start \<Rightarrow> ReadStartSection section_size
      | Section_Elem \<Rightarrow> ReadElemSection section_size
      | Section_Code \<Rightarrow> ReadCodeSection section_size
      | Section_Data \<Rightarrow> ReadDataSection section_size
      | Section_Invalid \<Rightarrow> (\<lambda>s. (BUndef, s)))"

text \<open>A section whose header is read, with \<open>read_end_\<close> at its end: the accumulated result.\<close>

definition ReadSection :: "u32 \<Rightarrow> nat \<Rightarrow> Result \<Rightarrow> ('d, Result) bop" where
  "ReadSection section_code section_size result =
     (if unat section_code \<ge> kBinarySectionCount
      then b_fail (''invalid section code: '' @ show_u32 section_code @ ''; max is '' @ show_nat (kBinarySectionCount - 1))
      else let sec = Section_of section_code in
        b_then (b_check (\<lambda>s. br_read_end s \<le> length (br_data s)) ''invalid section size: extends past end'')
        (b_then (b_check (\<lambda>s. br_last_known_section s = Section_Invalid \<or> sec = Section_Custom \<or>
            Section_code sec > Section_code (br_last_known_section s))
            (''section '' @ GetSectionName sec @ '' out of order''))
        (b_then (b_check (\<lambda>s. \<not> br_did_read_names_section s \<or> sec = Section_Custom)
            (GetSectionName sec @ '' section can not occur after Name section''))
        (b_then (on_module ''BeginSection'' (Ev_BeginSection sec section_size))
        (b_bind (b_get br_options) (\<lambda>options.
         b_bind (b_catch (ReadSectionBody sec section_size)) (\<lambda>section_result.
         let ignored = (sec = Section_Custom \<and> \<not> opt_fail_on_custom_section_error options);
             stop_on_first_error = (opt_stop_on_first_error options \<and> \<not> ignored);
             result = (if ignored then result else result_or result section_result)
         in b_then (if Failed section_result then
              if stop_on_first_error then b_error else b_mod (\<lambda>s. s\<lparr>br_offset := br_read_end s\<rparr>)
              else b_return ())
            (b_bind (b_get br_read_end) (\<lambda>read_end.
             b_then (b_check (\<lambda>s. br_offset s = read_end)
               (''unfinished section (expected end: 0x'' @ show_hex read_end @ '')''))
             (b_then (if sec \<noteq> Section_Custom then b_mod (\<lambda>s. s\<lparr>br_last_known_section := sec\<rparr>) else b_return ())
               (b_return result)))))))))))"

definition ReadSections :: "('d, unit) bop" where
  "ReadSections =
     b_bind (b_until (\<lambda>s. length (br_data s)) (\<lambda>result.
       b_bind (BR_ReadU32Leb128 ''section code'') (\<lambda>section_code.
       b_bind (ReadOffset ''section size'') (\<lambda>section_size.
       b_bind (b_get br_offset) (\<lambda>offset.
         with_read_end (offset + section_size) (ReadSection section_code section_size result))))) Result_Ok) (\<lambda>result.
     if Succeeded result then b_return () else b_error)"

definition ReadModule :: "('d, unit) bop" where
  "ReadModule =
     b_bind (BR_ReadU32 ''magic'') (\<lambda>magic.
     b_then (ERROR_UNLESS (magic = WABT_BINARY_MAGIC) ''bad magic value'')
     (b_bind (BR_ReadU32 ''version'') (\<lambda>version.
      b_then (ERROR_UNLESS (version = WABT_BINARY_VERSION)
        (''bad wasm file version: '' @ show_hash_x (unat version) @ '' (expected '' @
         show_hash_x (unat WABT_BINARY_VERSION) @ '')''))
      (b_then (on_module ''BeginModule'' (Ev_BeginModule version))
      (b_then ReadSections (on_module ''EndModule'' Ev_EndModule))))))"

text \<open>What \<open>ReadBinary\<close> returns, and the delegate afterwards.\<close>

definition ReadBinary :: "bytes \<Rightarrow> 'd BinaryReaderDelegate \<Rightarrow> 'd \<Rightarrow> ReadBinaryOptions \<Rightarrow> unit bres \<times> 'd" where
  "ReadBinary data delegate d options =
     (case ReadModule (BinaryReader_init data delegate d options) of (r, s) \<Rightarrow> (r, br_delegate_state s))"

end
