(* ===== verification/BinaryReaderSpec.thy ===== *)
theory BinaryReaderSpec
  imports BinaryReaderSections
begin

text \<open>
  The parser reads only inside its data and ends, for all bytes, options and delegates: what every
  operation owes (\<open>safe_at\<close>), what the operations that read owe (\<open>eats_at\<close>), and both for the whole
  of \<open>ReadBinary\<close>. A loop that reads in every iteration does not run out of fuel.
\<close>

section \<open>The contract of an operation\<close>

text \<open>The position is in the window, and the window is in the data.\<close>

definition reader_ok :: "'d BinaryReader \<Rightarrow> bool" where
  "reader_ok s \<longleftrightarrow> br_offset s \<le> br_read_end s \<and> br_read_end s \<le> length (br_data s)"

definition progress :: "'d BinaryReader \<Rightarrow> 'd BinaryReader \<Rightarrow> bool" where
  "progress s s' \<longleftrightarrow> br_data s' = br_data s \<and> br_read_end s' = br_read_end s \<and> br_delegate s' = br_delegate s \<and>
     br_options s' = br_options s \<and> br_offset s \<le> br_offset s'"

text \<open>A delegate that never has undefined behaviour.\<close>

definition never_undefined :: "'d BinaryReaderDelegate \<Rightarrow> bool" where
  "never_undefined D \<longleftrightarrow> (\<forall>offset e d. fst (deliver D offset e d) \<noteq> None)"

definition step_ok :: "'d BinaryReader \<Rightarrow> 'a bres \<times> 'd BinaryReader \<Rightarrow> bool" where
  "step_ok s res \<longleftrightarrow> (case res of (r, s') \<Rightarrow> r \<noteq> BUndef \<and> r \<noteq> BFuel \<and> (r = BDelegate \<longrightarrow> \<not> never_undefined (br_delegate s)) \<and> reader_ok s' \<and> progress s s')"

text \<open>In a window that ends at \<open>e\<close>, in \<open>n\<close> bytes of data.\<close>

definition safe_at :: "nat \<Rightarrow> nat \<Rightarrow> ('d, 'a) bop \<Rightarrow> bool" where
  "safe_at e n f \<longleftrightarrow>
     (\<forall>s. reader_ok s \<longrightarrow> br_read_end s = e \<longrightarrow> length (br_data s) = n \<longrightarrow> step_ok s (f s))"

definition eats_at :: "nat \<Rightarrow> nat \<Rightarrow> ('d, 'a) bop \<Rightarrow> bool" where
  "eats_at e n f \<longleftrightarrow> safe_at e n f \<and>
     (\<forall>s x s'. reader_ok s \<longrightarrow> br_read_end s = e \<longrightarrow> length (br_data s) = n \<longrightarrow> f s = (BOk x, s') \<longrightarrow>
        br_offset s < br_offset s')"

named_theorems safe
named_theorems eats

lemma progress_refl: "progress s s"
  by (simp add: progress_def)

lemma progress_delegate: "progress s s' \<Longrightarrow> br_delegate s' = br_delegate s"
  by (simp add: progress_def)

lemma progress_trans: "progress s t \<Longrightarrow> progress t u \<Longrightarrow> progress s u"
  by (simp add: progress_def)

lemma safe_atI:
  assumes "\<And>s r s'. f s = (r, s') \<Longrightarrow> reader_ok s \<Longrightarrow> br_read_end s = e \<Longrightarrow> length (br_data s) = n \<Longrightarrow>
    r \<noteq> BUndef \<and> r \<noteq> BFuel \<and> (r = BDelegate \<longrightarrow> \<not> never_undefined (br_delegate s)) \<and> reader_ok s' \<and> progress s s'"
  shows "safe_at e n f"
  using assms by (auto simp: safe_at_def step_ok_def split: prod.splits)

lemma safe_atD:
  assumes "safe_at e n f" "f s = (r, s')" "reader_ok s" "br_read_end s = e" "length (br_data s) = n"
  shows "r \<noteq> BUndef" "r \<noteq> BFuel" "reader_ok s'" "progress s s'" "br_read_end s' = e" "length (br_data s') = n"
    "r = BDelegate \<Longrightarrow> \<not> never_undefined (br_delegate s)"
  using assms by (force simp: safe_at_def step_ok_def progress_def)+

lemma eats_safe: "eats_at e n f \<Longrightarrow> safe_at e n f"
  by (simp add: eats_at_def)

lemma eats_atI:
  assumes "safe_at e n f"
    and "\<And>s x s'. f s = (BOk x, s') \<Longrightarrow> reader_ok s \<Longrightarrow> br_read_end s = e \<Longrightarrow> length (br_data s) = n \<Longrightarrow>
      br_offset s < br_offset s'"
  shows "eats_at e n f"
  using assms by (auto simp: eats_at_def)

lemma safe_return [safe]: "safe_at e n (b_return x)"
  by (rule safe_atI) (auto simp: b_return_def progress_refl)

lemma safe_error [safe]: "safe_at e n b_error"
  by (rule safe_atI) (auto simp: b_error_def progress_refl)

lemma safe_get [safe]: "safe_at e n (b_get h)"
  by (rule safe_atI) (auto simp: b_get_def progress_refl)

lemma safe_bind [safe]:
  assumes "safe_at e n f" "\<And>x. safe_at e n (g x)"
  shows "safe_at e n (b_bind f g)"
proof (rule safe_atI)
  fix s r s'
  assume run: "b_bind f g s = (r, s')" and s: "reader_ok s" "br_read_end s = e" "length (br_data s) = n"
  obtain r1 s1 where f: "f s = (r1, s1)" by fastforce
  note 1 = safe_atD [OF assms(1) f s]
  show "r \<noteq> BUndef \<and> r \<noteq> BFuel \<and> (r = BDelegate \<longrightarrow> \<not> never_undefined (br_delegate s)) \<and> reader_ok s' \<and> progress s s'"
  proof (cases r1)
    case (BOk x)
    then have g: "g x s1 = (r, s')" using run f by (simp add: b_bind_def)
    then show ?thesis
      using safe_atD [OF assms(2) g 1(3,5,6)] progress_trans [OF 1(4)] progress_delegate [OF 1(4)] by auto
  qed (use run f 1 in \<open>auto simp: b_bind_def\<close>)
qed

lemma safe_then [safe]: "safe_at e n f \<Longrightarrow> safe_at e n g \<Longrightarrow> safe_at e n (b_then f g)"
  unfolding b_then_def by (intro safe)

lemma bind_Ok: "b_bind f g s = (BOk y, s') \<longleftrightarrow> (\<exists>x s1. f s = (BOk x, s1) \<and> g x s1 = (BOk y, s'))"
  by (auto simp: b_bind_def split: prod.splits bres.splits)

lemma eats_bind [eats]:
  assumes "eats_at e n f" "\<And>x. safe_at e n (g x)"
  shows "eats_at e n (b_bind f g)"
proof (rule eats_atI)
  show "safe_at e n (b_bind f g)" using assms by (intro safe) (auto intro: eats_safe)
  fix s x s'
  assume run: "b_bind f g s = (BOk x, s')" and s: "reader_ok s" "br_read_end s = e" "length (br_data s) = n"
  then obtain y s1 where f: "f s = (BOk y, s1)" and g: "g y s1 = (BOk x, s')" by (auto simp: bind_Ok)
  have "br_offset s < br_offset s1" using assms(1) f s by (auto simp: eats_at_def)
  moreover note 1 = safe_atD [OF eats_safe [OF assms(1)] f s]
  ultimately show "br_offset s < br_offset s'"
    using safe_atD(4) [OF assms(2) g 1(3,5,6)] by (simp add: progress_def)
qed

lemma safe_if [safe]: "safe_at e n f \<Longrightarrow> safe_at e n g \<Longrightarrow> safe_at e n (if c then f else g)"
  by simp

lemma safe_let [safe]: "(\<And>x. safe_at e n (g x)) \<Longrightarrow> safe_at e n (let x = a in g x)"
  by simp

lemma safe_prod [safe]: "(\<And>a b. safe_at e n (g a b)) \<Longrightarrow> safe_at e n (case x of (a, b) \<Rightarrow> g a b)"
  by (cases x) simp

lemma eats_prod [eats]: "(\<And>a b. eats_at e n (g a b)) \<Longrightarrow> eats_at e n (case x of (a, b) \<Rightarrow> g a b)"
  by (cases x) simp

lemma safe_mod:
  "(\<And>s. reader_ok s \<Longrightarrow> br_read_end s = e \<Longrightarrow> length (br_data s) = n \<Longrightarrow> reader_ok (h s) \<and> progress s (h s)) \<Longrightarrow>
   safe_at e n (b_mod h)"
  by (rule safe_atI) (auto simp: b_mod_def)

lemma safe_print [safe]: "safe_at e n (BR_PrintError msg)"
  unfolding BR_PrintError_def by (rule safe_mod) (simp add: reader_ok_def progress_def)

lemma safe_fail [safe]: "safe_at e n (b_fail msg)"
  unfolding b_fail_def by (intro safe)

lemma safe_unless [safe]: "safe_at e n (ERROR_UNLESS c msg)"
  unfolding ERROR_UNLESS_def by (intro safe)

lemma safe_check [safe]: "safe_at e n (b_check c msg)"
  unfolding b_check_def by (intro safe)

lemma safe_deliver [safe]: "safe_at e n (b_deliver ev)"
  by (rule safe_atI)
    (auto simp: b_deliver_def reader_ok_def progress_def never_undefined_def split: prod.splits option.splits, metis fst_conv)

lemma safe_callback [safe]: "safe_at e n (CALLBACK member ev)"
  unfolding CALLBACK_def by (intro safe)

lemma safe_report [safe]: "safe_at e n (ReportUnexpectedOpcode opcode m)"
  unfolding ReportUnexpectedOpcode_def by (intro safe)

lemma safe_enabled [safe]: "safe_at e n (ERROR_UNLESS_OPCODE_ENABLED opcode)"
  unfolding ERROR_UNLESS_OPCODE_ENABLED_def by (intro safe)

section \<open>Reading\<close>

lemma eats_T [eats]:
  assumes "8 \<le> LENGTH('a::len)"
  shows "eats_at e n (ReadT type_name desc :: ('d, 'a word) bop)"
proof -
  have run: "(\<exists>s1. (r, s') = (BError, s1) \<and> s1 = snd (b_fail (''unable to read '' @ type_name @ '': '' @ desc) s :: 'a word bres \<times> _)) \<or>
      (\<exists>x. r = BOk x) \<and> s' = s\<lparr>br_offset := br_offset s + LENGTH('a) div 8\<rparr> \<and> br_offset s + LENGTH('a) div 8 \<le> br_read_end s"
    if "(ReadT type_name desc :: ('d, 'a word) bop) s = (r, s')" "reader_ok s" for s r s'
    using that by (auto simp: ReadT_def Let_def b_bind_def b_then_def b_get_def b_bytes_def b_advance_def b_mod_def
        b_return_def reader_ok_def b_fail_def BR_PrintError_def b_error_def split: if_splits)
  have fail: "safe_at e n (b_fail msg :: ('d, 'a word) bop)" for msg by (intro safe)
  have pos: "0 < LENGTH('a) div 8" using assms by simp
  show ?thesis
  proof (rule eats_atI [OF safe_atI])
    fix s r s'
    assume r: "(ReadT type_name desc :: ('d, 'a word) bop) s = (r, s')" "reader_ok s" "br_read_end s = e" "length (br_data s) = n"
    from run [OF r(1,2)] show "r \<noteq> BUndef \<and> r \<noteq> BFuel \<and> (r = BDelegate \<longrightarrow> \<not> never_undefined (br_delegate s)) \<and> reader_ok s' \<and> progress s s'"
      using r(2-4) safe_atD [OF fail _ r(2-4)] by (auto simp: reader_ok_def progress_def) (metis prod.collapse)+
  next
    fix s x s'
    assume r: "(ReadT type_name desc :: ('d, 'a word) bop) s = (BOk x, s')" "reader_ok s"
    from run [OF r] pos show "br_offset s < br_offset s'" by auto
  qed
qed

text \<open>A reader of numbers takes no more bytes than there are, and stores what it takes.\<close>

definition leb_reader :: "(bytes \<Rightarrow> nat \<times> 'a option) \<Rightarrow> bool" where
  "leb_reader read \<longleftrightarrow> (\<forall>p. fst (read p) \<le> length p \<and> (0 < fst (read p) \<longrightarrow> snd (read p) \<noteq> None))"

lemma leb_readers: "leb_reader ReadU32Leb128" "leb_reader ReadS32Leb128" "leb_reader ReadS64Leb128"
  unfolding leb_reader_def ReadU32Leb128_def ReadS32Leb128_def ReadS64Leb128_def last_at_def Let_def
  by (auto simp: Suc_le_eq)

lemma window_run:
  "reader_ok s \<Longrightarrow> b_window s = (BOk (take (br_read_end s - br_offset s) (drop (br_offset s) (br_data s))), s)"
  by (simp add: b_window_def b_bind_def b_get_def b_bytes_def reader_ok_def)

lemma eats_leb:
  assumes "leb_reader read"
  shows "eats_at e n (ReadLeb read type_name desc)"
proof -
  let ?p = "\<lambda>s. take (br_read_end s - br_offset s) (drop (br_offset s) (br_data s))"
  have run: "r = BError \<and> reader_ok s' \<and> progress s s' \<or>
      (\<exists>x k. r = BOk x \<and> 0 < k \<and> br_offset s + k \<le> br_read_end s \<and> s' = s\<lparr>br_offset := br_offset s + k\<rparr>)"
    if r: "ReadLeb read type_name desc s = (r, s')" and s: "reader_ok s" for s r s'
  proof (cases "fst (read (?p s)) = 0")
    case True
    then have "\<exists>msg. b_fail msg s = (r, s')"
      using r window_run [OF s] by (auto simp: ReadLeb_def b_bind_def b_then_def ERROR_UNLESS_def b_fail_def BR_PrintError_def
          b_mod_def b_error_def split: prod.splits)
    then show ?thesis
      using s by (auto simp: b_fail_def BR_PrintError_def b_mod_def b_error_def b_then_def b_bind_def reader_ok_def progress_def)
  next
    case False
    have len: "fst (read (?p s)) \<le> br_read_end s - br_offset s" "snd (read (?p s)) \<noteq> None"
      using assms [unfolded leb_reader_def, rule_format, of "?p s"] False by auto
    then show ?thesis
      using r window_run [OF s] False s by (auto simp: ReadLeb_def b_bind_def b_then_def ERROR_UNLESS_def b_advance_def
          b_mod_def b_return_def reader_ok_def split: prod.splits)
  qed
  show ?thesis
  proof (rule eats_atI [OF safe_atI])
    fix s r s' assume r: "ReadLeb read type_name desc s = (r, s')" "reader_ok s"
    from run [OF r] r(2) show "r \<noteq> BUndef \<and> r \<noteq> BFuel \<and> (r = BDelegate \<longrightarrow> \<not> never_undefined (br_delegate s)) \<and> reader_ok s' \<and> progress s s'"
      by (auto simp: reader_ok_def progress_def)
  next
    fix s x s' assume "ReadLeb read type_name desc s = (BOk x, s')" "reader_ok s"
    from run [OF this] show "br_offset s < br_offset s'" by auto
  qed
qed

lemma eats_numbers [eats]:
  "eats_at e n (BR_ReadU8 desc)" "eats_at e n (BR_ReadU32 desc)" "eats_at e n (BR_ReadF32 desc)"
  "eats_at e n (BR_ReadF64 desc)" "eats_at e n (BR_ReadV128 desc)" "eats_at e n (BR_ReadU32Leb128 desc)"
  "eats_at e n (BR_ReadS32Leb128 desc)" "eats_at e n (BR_ReadS64Leb128 desc)" "eats_at e n (ReadType desc)"
  "eats_at e n (ReadIndex desc)"
  unfolding BR_ReadU8_def BR_ReadU32_def BR_ReadF32_def BR_ReadF64_def BR_ReadV128_def BR_ReadU32Leb128_def
    BR_ReadS32Leb128_def BR_ReadS64Leb128_def ReadType_def ReadIndex_def
  by (simp_all add: eats_T eats_leb leb_readers)

lemmas [safe] = eats_numbers [THEN eats_safe]

lemma eats_opcode [eats]: "eats_at e n (BR_ReadOpcode desc)" "eats_at e n (ReadOffset desc)"
  unfolding BR_ReadOpcode_def ReadOffset_def by (intro eats safe)+

lemmas [safe] = eats_opcode [THEN eats_safe]

text \<open>The bytes after a length that was compared with the end.\<close>

lemma safe_span_body: "safe_at e n (b_bind (b_get br_offset) (\<lambda>offset. b_bind (b_get br_read_end) (\<lambda>read_end.
     b_then (ERROR_UNLESS (offset + k \<le> read_end) msg)
       (b_bind (b_bytes offset k) (\<lambda>bs. b_then (b_advance k) (b_return bs))))))" (is "safe_at e n ?f")
proof (rule safe_atI)
  fix s r s' assume r: "?f s = (r, s')" "reader_ok s"
  show "r \<noteq> BUndef \<and> r \<noteq> BFuel \<and> (r = BDelegate \<longrightarrow> \<not> never_undefined (br_delegate s)) \<and> reader_ok s' \<and> progress s s'"
    using r by (auto simp: b_bind_def b_then_def b_get_def b_bytes_def b_advance_def b_mod_def b_return_def ERROR_UNLESS_def
        b_fail_def BR_PrintError_def b_error_def reader_ok_def progress_def split: if_splits)
qed

lemma eats_span [eats]: "eats_at e n (ReadSpan length_desc msg)"
  unfolding ReadSpan_def by (rule eats_bind [OF eats_numbers(6) safe_span_body])

lemma eats_strings [eats]: "eats_at e n (ReadStr desc)" "eats_at e n (ReadBytes desc)"
  unfolding ReadStr_def ReadBytes_def by (intro eats safe)+

lemmas [safe] = eats_span [THEN eats_safe] eats_strings [THEN eats_safe]

text \<open>Fields that are counters.\<close>

definition counter :: "('d BinaryReader \<Rightarrow> 'd BinaryReader) \<Rightarrow> bool" where
  "counter h \<longleftrightarrow> (\<forall>s. br_data (h s) = br_data s \<and> br_offset (h s) = br_offset s \<and> br_read_end (h s) = br_read_end s \<and>
     br_delegate (h s) = br_delegate s \<and> br_options (h s) = br_options s)"

lemma safe_counter: "counter h \<Longrightarrow> safe_at e n (b_mod h)"
  by (rule safe_mod) (simp add: counter_def reader_ok_def progress_def)

lemma safe_count_to: "(\<And>k. counter (set_field k)) \<Longrightarrow> safe_at e n (ReadCountTo set_field desc)"
  unfolding ReadCountTo_def by (intro safe safe_counter)

lemma safe_count [safe]: "safe_at e n (ReadCount desc)"
  unfolding ReadCount_def by (rule safe_count_to) (simp add: counter_def)

section \<open>Loops\<close>

lemma safe_for_from: "(\<And>i a. safe_at e n (f i a)) \<Longrightarrow> safe_at e n (b_for_from i k f a)"
  by (induction k arbitrary: i a) (auto intro: safe)

lemma safe_for [safe]: "(\<And>i a. safe_at e n (f i a)) \<Longrightarrow> safe_at e n (b_for k f a)"
  unfolding b_for_def by (rule safe_for_from)

lemma safe_each [safe]: "(\<And>i. safe_at e n (f i)) \<Longrightarrow> safe_at e n (b_each k f)"
  unfolding b_each_def by (intro safe)

lemma while_ok:
  assumes "\<And>a. eats_at e n (f a)" "reader_ok s" "br_read_end s = e" "length (br_data s) = n"
    "stop - br_offset s \<le> fuel"
    "\<And>s. br_read_end s = e \<Longrightarrow> length (br_data s) = n \<Longrightarrow> end_of s = stop"
  shows "step_ok s (b_while fuel (\<lambda>s. br_offset s < end_of s) f a s)"
  using assms(2-5)
proof (induction fuel arbitrary: s a)
  case 0
  then show ?case using assms(6) [of s] by (auto simp: step_ok_def progress_refl)
next
  case (Suc fuel)
  show ?case
  proof (cases "br_offset s < end_of s")
    case True
    obtain r1 s1 where f: "f a s = (r1, s1)" by fastforce
    note 1 = safe_atD [OF eats_safe [OF assms(1)] f Suc.prems(1-3)]
    show ?thesis
    proof (cases r1)
      case (BOk b)
      have "br_offset s < br_offset s1" using assms(1) f BOk Suc.prems(1-3) by (auto simp: eats_at_def)
      then have "stop - br_offset s1 \<le> fuel" using Suc.prems(4) True assms(6) [OF Suc.prems(2,3)] by simp
      from Suc.IH [OF 1(3,5,6) this, of b] show ?thesis
        using True f BOk progress_trans [OF 1(4)] progress_delegate [OF 1(4)] by (auto simp: step_ok_def b_bind_def split: prod.splits)
    qed (use True f 1 in \<open>auto simp: step_ok_def b_bind_def\<close>)
  qed (use Suc.prems in \<open>auto simp: step_ok_def progress_refl\<close>)
qed

lemma safe_until:
  fixes f :: "'a \<Rightarrow> ('d, 'a) bop"
  assumes "\<And>a. eats_at e n (f a)" "\<And>s. br_read_end s = e \<Longrightarrow> length (br_data s) = n \<Longrightarrow> end_of s = stop"
  shows "safe_at e n (b_until end_of f a)"
  unfolding safe_at_def
proof (intro allI impI)
  fix s :: "'d BinaryReader"
  assume s: "reader_ok s" "br_read_end s = e" "length (br_data s) = n"
  show "step_ok s (b_until end_of f a s)"
    using while_ok [OF assms(1) s _ assms(2), where fuel = "end_of s - br_offset s" and a = a] assms(2) [OF s(2,3)]
    by (simp add: b_until_def b_bind_def b_get_def)
qed

text \<open>A subsection: its end is checked, and a skip goes to its end.\<close>

lemma safe_skip: "safe_at e n (b_mod (\<lambda>s. s\<lparr>br_offset := e\<rparr>))"
  by (rule safe_mod) (auto simp: reader_ok_def progress_def)

lemma safe_skip_rest [safe]: "safe_at e n (b_mod (\<lambda>s. s\<lparr>br_offset := br_read_end s\<rparr>))"
  by (rule safe_mod) (auto simp: reader_ok_def progress_def)

lemma with_read_end_ok:
  assumes "safe_at e' n f" "reader_ok s" "br_offset s \<le> e'" "e' \<le> br_read_end s" "length (br_data s) = n"
  shows "step_ok s (with_read_end e' f s)"
proof -
  obtain r s1 where f: "f (s\<lparr>br_read_end := e'\<rparr>) = (r, s1)" by fastforce
  have "reader_ok (s\<lparr>br_read_end := e'\<rparr>)" using assms(2-4) by (simp add: reader_ok_def)
  from safe_atD [OF assms(1) f this] assms(2-5) show ?thesis
    by (auto simp: step_ok_def with_read_end_def f reader_ok_def progress_def)
qed

lemma safe_subsection:
  fixes f :: "nat \<Rightarrow> ('d, 'a) bop"
  assumes "\<And>e'. safe_at e' n (f e')"
  shows "safe_at e n (b_bind (b_get br_offset) (\<lambda>offset. let stop = offset + k in
     b_then (b_check (\<lambda>s. stop \<le> br_read_end s) msg) (with_read_end stop (f stop))))" (is "safe_at e n ?g")
  unfolding safe_at_def
proof (intro allI impI)
  fix s :: "'d BinaryReader" assume s: "reader_ok s" "br_read_end s = e" "length (br_data s) = n"
  let ?stop = "br_offset s + k"
  show "step_ok s (?g s)"
  proof (cases "?stop \<le> br_read_end s")
    case True
    then show ?thesis
      using with_read_end_ok [OF assms s(1) _ True s(3)]
      by (simp add: b_bind_def b_then_def b_get_def b_check_def ERROR_UNLESS_def b_return_def Let_def)
  next
    case False
    have "?g s = (BError, snd (BR_PrintError msg s))"
      using False by (simp add: b_bind_def b_then_def b_get_def b_check_def ERROR_UNLESS_def b_fail_def b_error_def
          BR_PrintError_def b_mod_def Let_def)
    then show ?thesis
      using s by (auto simp: step_ok_def BR_PrintError_def b_mod_def reader_ok_def progress_def)
  qed
qed

lemma safe_custom_guard [safe]: "safe_at e n f \<Longrightarrow> safe_at e n (with_custom_section f)"
proof (rule safe_atI)
  fix s r s' assume f: "safe_at e n f" and r: "with_custom_section f s = (r, s')"
    and s: "reader_ok s" "br_read_end s = e" "length (br_data s) = n"
  obtain r1 s1 where run: "f (s\<lparr>br_reading_custom_section := True\<rparr>) = (r1, s1)" by fastforce
  have "reader_ok (s\<lparr>br_reading_custom_section := True\<rparr>)" using s(1) by (simp add: reader_ok_def)
  from safe_atD [OF f run this] s r run show "r \<noteq> BUndef \<and> r \<noteq> BFuel \<and> (r = BDelegate \<longrightarrow> \<not> never_undefined (br_delegate s)) \<and> reader_ok s' \<and> progress s s'"
    by (auto simp: with_custom_section_def reader_ok_def progress_def)
qed

section \<open>Every operation\<close>

lemma safe_init_expr [safe]: "safe_at e n (ReadInitExpr i b)" "safe_at e n (ReadI32InitExpr i)"
  unfolding ReadI32InitExpr_def ReadInitExpr_def Let_def by (intro safe)+

lemma safe_limits [safe]: "safe_at e n ReadTable" "safe_at e n BR_ReadMemory" "safe_at e n ReadGlobalHeader"
  "safe_at e n ReadExceptionType"
  unfolding ReadTable_def BR_ReadMemory_def ReadGlobalHeader_def ReadExceptionType_def Let_def by (intro safe)+

text \<open>A group of cases of the switch.\<close>

definition case_ok :: "nat \<Rightarrow> nat \<Rightarrow> ('d, unit) bop option \<Rightarrow> bool" where
  "case_ok e n g \<longleftrightarrow> (\<forall>f. g = Some f \<longrightarrow> safe_at e n f)"

lemma safe_first_case: "list_all (case_ok e n) gs \<Longrightarrow> safe_at e n f \<Longrightarrow> safe_at e n (first_case gs f)"
  by (induction gs f rule: first_case.induct) (auto simp: case_ok_def)

lemma safe_immediates [safe]: "safe_at e n on_bare" "safe_at e n (on_index i)" "safe_at e n (on_block_sig t)"
  "safe_at e n (ReadBlockSig desc)" "safe_at e n (ReadMemArg d1 d2 member ev)" "safe_at e n ReadBrTable"
  unfolding on_bare_def on_index_def on_block_sig_def ReadBlockSig_def ReadMemArg_def ReadBrTable_def
  by (intro safe)+

lemma case_ok_if: "(c \<Longrightarrow> case_ok e n g) \<Longrightarrow> (\<not> c \<Longrightarrow> case_ok e n h) \<Longrightarrow> case_ok e n (if c then g else h)"
  by simp

lemma case_ok_some: "safe_at e n f \<Longrightarrow> case_ok e n (Some f)"
  by (simp add: case_ok_def)

lemma case_ok_none: "case_ok e n None"
  by (simp add: case_ok_def)

lemma instruction_cases:
  "case_ok e n (control_instruction m)" "case_ok e n (const_instruction opcode m)"
  "case_ok e n (variable_instruction m)" "case_ok e n (memory_instruction opcode m)"
  "case_ok e n (plain_instruction opcode m)" "case_ok e n (vector_instruction opcode m)"
  "case_ok e n (exception_instruction opcode m)" "case_ok e n (atomic_instruction opcode m)"
  unfolding control_instruction_def const_instruction_def variable_instruction_def memory_instruction_def
    plain_instruction_def vector_instruction_def exception_instruction_def atomic_instruction_def Let_def
  by (intro case_ok_if case_ok_some case_ok_none safe)+

lemma safe_instruction [safe]: "safe_at e n (ReadInstruction opcode)"
  unfolding ReadInstruction_def Let_def by (intro safe_first_case safe) (simp add: instruction_cases)

lemma safe_body [safe]: "safe_at e n (ReadFunctionBody stop)"
  unfolding ReadFunctionBody_def by (intro safe safe_until [where stop = stop] eats) simp

lemma safe_events [safe]: "safe_at e n (on_module m a)" "safe_at e n (on_define m b)" "safe_at e n (on_segment m c)"
  "safe_at e n (on_name m x)" "safe_at e n (on_link m y)" "safe_at e n (on_body m z)" "safe_at e n (on_import i v w)"
  unfolding on_import_def on_module_def on_define_def on_segment_def on_name_def on_link_def on_body_def by (intro safe)+

lemma safe_names [safe]: "safe_at e n ReadFunctionNames" "safe_at e n (ReadLocalNamesOf i)" "safe_at e n ReadLocalNames"
proof -
  show locals_of: "safe_at e n (ReadLocalNamesOf i)" for i unfolding ReadLocalNamesOf_def by (intro safe)
  show "safe_at e n ReadFunctionNames" "safe_at e n ReadLocalNames"
    unfolding ReadFunctionNames_def ReadLocalNames_def by (intro safe locals_of)+
qed

lemma safe_name_subsection: "safe_at e n (ReadNameSubsection i t k e)"
  unfolding ReadNameSubsection_def by (intro safe safe_skip)

lemma safe_name_section [safe]: "safe_at e n (ReadNameSection k)"
  unfolding ReadNameSection_def
  by (intro safe safe_until [where stop = e] eats safe_subsection safe_name_subsection) simp

lemma safe_linking_subsection: "safe_at e n (ReadLinkingSubsection t e)"
proof -
  have sym: "safe_at e n (ReadSymbol i)" for i unfolding ReadSymbol_def Let_def by (intro safe)
  show ?thesis unfolding ReadLinkingSubsection_def by (intro safe safe_skip sym)
qed

lemma safe_custom_sections [safe]: "safe_at e n (ReadLinkingSection k)" "safe_at e n (ReadRelocSection k)"
  "safe_at e n (ReadExceptionSection k)"
proof -
  show "safe_at e n (ReadLinkingSection k)"
    unfolding ReadLinkingSection_def
    by (intro safe safe_until [where stop = e] eats safe_subsection safe_linking_subsection) simp
  show "safe_at e n (ReadRelocSection k)" unfolding ReadRelocSection_def by (intro safe)
  show "safe_at e n (ReadExceptionSection k)"
    unfolding ReadExceptionSection_def by (intro safe safe_count_to) (simp add: counter_def)
qed

lemma safe_custom [safe]: "safe_at e n (ReadCustomSection k)"
  unfolding ReadCustomSection_def by (intro safe safe_counter) (simp add: counter_def)

lemma safe_types [safe]: "safe_at e n (ReadTypes k d m)"
  unfolding ReadTypes_def by (intro safe)

lemma safe_imports [safe]: "safe_at e n (ReadImportFunc i a b)" "safe_at e n (ReadImportTable i a b)"
  "safe_at e n (ReadImportMemory i a b)" "safe_at e n (ReadImportGlobal i a b)" "safe_at e n (ReadImportException i a b)"
  unfolding ReadImportFunc_def ReadImportTable_def ReadImportMemory_def ReadImportGlobal_def ReadImportException_def
  by (intro safe safe_counter; simp add: counter_def)+

lemma safe_option [safe]: "safe_at e n f \<Longrightarrow> (\<And>y. safe_at e n (g y)) \<Longrightarrow> safe_at e n (case x of None \<Rightarrow> f | Some y \<Rightarrow> g y)"
  by (cases x) simp_all

lemma safe_kind [safe]:
  "safe_at e n a \<Longrightarrow> safe_at e n b \<Longrightarrow> safe_at e n c \<Longrightarrow> safe_at e n d \<Longrightarrow> safe_at e n f \<Longrightarrow>
   safe_at e n (case k of EK_Func \<Rightarrow> a | EK_Table \<Rightarrow> b | EK_Memory \<Rightarrow> c | EK_Global \<Rightarrow> d | EK_Except \<Rightarrow> f)"
  by (cases k) simp_all

lemma safe_export [safe]: "safe_at e n (check_export k i)"
  unfolding check_export_def by (intro safe)

lemma safe_sections [safe]: "safe_at e n (ReadTypeSection k)" "safe_at e n (ReadImportSection k)"
  "safe_at e n (ReadFunctionSection k)" "safe_at e n (ReadTableSection k)" "safe_at e n (ReadMemorySection k)"
  "safe_at e n (ReadGlobalSection k)" "safe_at e n (ReadExportSection k)" "safe_at e n (ReadStartSection k)"
  unfolding ReadTypeSection_def ReadImportSection_def ReadFunctionSection_def ReadTableSection_def
    ReadMemorySection_def ReadGlobalSection_def ReadExportSection_def ReadStartSection_def
  by (intro safe safe_count_to; simp add: counter_def)+

lemma safe_code [safe]: "safe_at e n ReadLocalDecls" "safe_at e n (ReadFunction i)" "safe_at e n (ReadCodeSection k)"
  "safe_at e n (ReadElemSection k)" "safe_at e n (ReadDataSection k)"
proof -
  show decls: "safe_at e n ReadLocalDecls" unfolding ReadLocalDecls_def Let_def by (intro safe)
  show read_function: "safe_at e n (ReadFunction i)" for i unfolding ReadFunction_def by (intro safe decls)
  show "safe_at e n (ReadCodeSection k)"
    unfolding ReadCodeSection_def by (intro safe read_function safe_count_to) (simp add: counter_def)
  show "safe_at e n (ReadElemSection k)" "safe_at e n (ReadDataSection k)"
    unfolding ReadElemSection_def ReadDataSection_def by (intro safe)+
qed


section \<open>The module\<close>

lemma safe_section_body: "sec \<noteq> Section_Invalid \<Longrightarrow> safe_at e n (ReadSectionBody sec k)"
  unfolding ReadSectionBody_def by (cases sec) (simp_all add: safe)

lemma safe_catch: "safe_at e n f \<Longrightarrow> safe_at e n (b_catch f)"
  unfolding safe_at_def step_ok_def b_catch_def by (fastforce split: prod.splits bres.splits)

lemma Section_of_valid: "unat code < kBinarySectionCount \<Longrightarrow> Section_of code \<noteq> Section_Invalid"
  unfolding Section_of_def kBinarySectionCount_def
  by (auto simp: less_Suc_eq eval_nat_numeral)

lemma safe_section: "safe_at e n (ReadSection code k result)"
proof (cases "unat code < kBinarySectionCount")
  case True
  then show ?thesis
    unfolding ReadSection_def Let_def if_not_P [OF True [folded not_le]]
    by (intro safe safe_catch safe_section_body safe_counter Section_of_valid) (simp_all add: counter_def)
next
  case False
  then show ?thesis unfolding ReadSection_def not_less [symmetric] if_P [OF False] by (intro safe)
qed

text \<open>
  The window of a section is set before it is compared with the size of the data: when it is too
  large the section is not read.
\<close>

lemma section_too_long:
  assumes "length (br_data s) < br_read_end s"
  shows "\<exists>msg. ReadSection code k result s = b_fail msg s"
proof (cases "kBinarySectionCount \<le> unat code")
  case True
  then show ?thesis unfolding ReadSection_def if_P [OF True] by blast
next
  case False
  have "b_then (b_check (\<lambda>s. br_read_end s \<le> length (br_data s)) msg) f s = b_fail msg s" for msg f
    using assms by (simp add: b_then_def b_bind_def b_check_def b_get_def ERROR_UNLESS_def b_fail_def b_error_def
        BR_PrintError_def b_mod_def Let_def)
  then show ?thesis unfolding ReadSection_def if_not_P [OF False] Let_def by blast
qed

lemma safe_whole_section:
  "safe_at n n (b_bind (b_get br_offset) (\<lambda>offset. with_read_end (offset + k)
     (ReadSection code k result :: ('d, Result) bop)))" (is "safe_at n n ?f")
  unfolding safe_at_def
proof (intro allI impI)
  fix s :: "'d BinaryReader" assume s: "reader_ok s" "br_read_end s = n" "length (br_data s) = n"
  let ?stop = "br_offset s + k"
  show "step_ok s (?f s)"
  proof (cases "?stop \<le> n")
    case True
    then show ?thesis
      using with_read_end_ok [OF safe_section s(1) _ _ s(3), of ?stop code k result] s(2)
      by (simp add: b_bind_def b_get_def)
  next
    case False
    then have "length (br_data (s\<lparr>br_read_end := ?stop\<rparr>)) < br_read_end (s\<lparr>br_read_end := ?stop\<rparr>)" using s(3) by simp
    from section_too_long [OF this] obtain msg
      where "ReadSection code k result (s\<lparr>br_read_end := ?stop\<rparr>) = b_fail msg (s\<lparr>br_read_end := ?stop\<rparr>)" by blast
    then have "?f s = (BError, snd (BR_PrintError msg (s\<lparr>br_read_end := ?stop\<rparr>))\<lparr>br_read_end := n\<rparr>)"
      using s(2) by (simp add: b_bind_def b_then_def b_get_def with_read_end_def b_fail_def b_error_def BR_PrintError_def b_mod_def Let_def)
    then show ?thesis
      using s by (auto simp: step_ok_def BR_PrintError_def b_mod_def reader_ok_def progress_def)
  qed
qed

lemma safe_module: "safe_at n n ReadModule"
proof -
  have sections: "safe_at n n ReadSections"
    unfolding ReadSections_def by (intro safe safe_until [where stop = n] eats safe_whole_section) simp
  show ?thesis unfolding ReadModule_def by (intro safe sections)
qed

lemma ReadBinary_ok:
  "fst (ReadBinary data D d options) \<noteq> BFuel \<and> fst (ReadBinary data D d options) \<noteq> BUndef \<and>
   (never_undefined D \<longrightarrow> fst (ReadBinary data D d options) \<noteq> BDelegate)"
proof -
  let ?s = "BinaryReader_init data D d options"
  obtain r s where run: "ReadModule ?s = (r, s)" by fastforce
  have "reader_ok ?s" by (simp add: reader_ok_def BinaryReader_init_def)
  moreover have "br_read_end ?s = length data" "length (br_data ?s) = length data" "br_delegate ?s = D"
    by (simp_all add: BinaryReader_init_def)
  ultimately show ?thesis using safe_atD(1,2,7) [OF safe_module run] by (auto simp add: ReadBinary_def run)
qed

text \<open>
  C38. \<open>ReadBinary\<close> terminates on every input: for all bytes, all options and all delegates, no loop
  of the parser (sections, name and linking subsections, instructions of a body) goes round more
  often than there are bytes left, because each of its iterations that does not fail reads at least
  one byte and none ever moves back.\<close>

theorem ReadBinary_terminates:
  "fst (ReadBinary data delegate d options) \<noteq> BFuel"
  using ReadBinary_ok [of data delegate d options] by simp


end
