(* ===== verification/BinaryReaderOrder.thy ===== *)
theory BinaryReaderOrder
  imports BinaryReaderSpec
begin

text \<open>
  The order of the callbacks the parser makes, and what a delegate may rely on: the interface
  \<open>reader_delegate\<close>. Its laws say what accepting, refusing and an error do to the delegate's state;
  what follows for \<open>ReadBinary\<close> is proved once, for every delegate.
\<close>

section \<open>The protocol\<close>

text \<open>
  The known section whose callbacks may come, the globals begun in it, whether \<open>EndModule\<close> has come,
  and how many functions and globals were added.
\<close>

record protocol =
  pr_section :: nat
  pr_begun :: "Index list"
  pr_done :: bool
  pr_added :: nat

definition protocol_init :: protocol where
  "protocol_init = \<lparr>pr_section = 0, pr_begun = [], pr_done = False, pr_added = 0\<rparr>"

text \<open>The known sections a callback belongs to; \<open>None\<close> for the callbacks of custom sections and of
  the module, which may come between any two sections.\<close>

fun module_sections :: "module_event \<Rightarrow> nat list option" where
  "module_sections (Ev_BeginTypeSection _) = Some [1]"
| "module_sections (Ev_OnTypeCount _) = Some [1]"
| "module_sections (Ev_OnType _ _ _) = Some [1]"
| "module_sections Ev_EndTypeSection = Some [1]"
| "module_sections (Ev_BeginImportSection _) = Some [2]"
| "module_sections (Ev_OnImportCount _) = Some [2]"
| "module_sections (Ev_OnImport _ _ _) = Some [2]"
| "module_sections (Ev_OnImportFunc _ _ _ _ _) = Some [2]"
| "module_sections (Ev_OnImportTable _ _ _ _ _ _) = Some [2]"
| "module_sections (Ev_OnImportMemory _ _ _ _ _) = Some [2]"
| "module_sections (Ev_OnImportGlobal _ _ _ _ _ _) = Some [2]"
| "module_sections (Ev_OnImportException _ _ _ _ _) = Some [2]"
| "module_sections Ev_EndImportSection = Some [2]"
| "module_sections _ = None"

fun define_section :: "define_event \<Rightarrow> nat" where
  "define_section (Ev_BeginFunctionSection _) = 3"
| "define_section (Ev_OnFunctionCount _) = 3"
| "define_section (Ev_OnFunction _ _) = 3"
| "define_section Ev_EndFunctionSection = 3"
| "define_section (Ev_BeginTableSection _) = 4"
| "define_section (Ev_OnTableCount _) = 4"
| "define_section (Ev_OnTable _ _ _) = 4"
| "define_section Ev_EndTableSection = 4"
| "define_section (Ev_BeginMemorySection _) = 5"
| "define_section (Ev_OnMemoryCount _) = 5"
| "define_section (Ev_OnMemory _ _) = 5"
| "define_section Ev_EndMemorySection = 5"
| "define_section (Ev_BeginExportSection _) = 7"
| "define_section (Ev_OnExportCount _) = 7"
| "define_section (Ev_OnExport _ _ _ _) = 7"
| "define_section Ev_EndExportSection = 7"
| "define_section (Ev_BeginStartSection _) = 8"
| "define_section (Ev_OnStartFunction _) = 8"
| "define_section Ev_EndStartSection = 8"
| "define_section _ = 6"

fun segment_sections :: "segment_event \<Rightarrow> nat list" where
  "segment_sections (Ev_OnInitExprF32ConstExpr _ _) = [6, 9, 11]"
| "segment_sections (Ev_OnInitExprF64ConstExpr _ _) = [6, 9, 11]"
| "segment_sections (Ev_OnInitExprV128ConstExpr _ _) = [6, 9, 11]"
| "segment_sections (Ev_OnInitExprGetGlobalExpr _ _) = [6, 9, 11]"
| "segment_sections (Ev_OnInitExprI32ConstExpr _ _) = [6, 9, 11]"
| "segment_sections (Ev_OnInitExprI64ConstExpr _ _) = [6, 9, 11]"
| "segment_sections (Ev_BeginElemSection _) = [9]"
| "segment_sections (Ev_OnElemSegmentCount _) = [9]"
| "segment_sections (Ev_BeginElemSegment _ _) = [9]"
| "segment_sections (Ev_BeginElemSegmentInitExpr _) = [9]"
| "segment_sections (Ev_EndElemSegmentInitExpr _) = [9]"
| "segment_sections (Ev_OnElemSegmentFunctionIndexCount _ _) = [9]"
| "segment_sections (Ev_OnElemSegmentFunctionIndex _ _) = [9]"
| "segment_sections (Ev_EndElemSegment _) = [9]"
| "segment_sections Ev_EndElemSection = [9]"
| "segment_sections _ = [11]"

fun event_sections :: "event \<Rightarrow> nat list option" where
  "event_sections (Module_Event e) = module_sections e"
| "event_sections (Define_Event e) = Some [define_section e]"
| "event_sections (Segment_Event e) = Some (segment_sections e)"
| "event_sections (Name_Event _) = None"
| "event_sections (Link_Event _) = None"
| "event_sections (Body_Event _) = Some [10]"
| "event_sections (Operator_Event _) = Some [10]"
| "event_sections (Control_Event _) = Some [10]"

text \<open>
  One callback, in a file of \<open>n_bytes\<close> bytes: \<open>None\<close> where it is out of order. The known sections come
  in increasing order, each at most once, and a callback of a section comes after its
  \<open>BeginSection\<close> and before the next; the number of functions is not larger than the file; the
  initializer of a global ends before the next global begins; nothing follows \<open>EndModule\<close>.
\<close>

definition section_admits :: "protocol \<Rightarrow> event \<Rightarrow> bool" where
  "section_admits p e \<longleftrightarrow> (case event_sections e of None \<Rightarrow> True | Some ks \<Rightarrow> List.member ks (pr_section p))"

definition protocol_step :: "nat \<Rightarrow> protocol \<Rightarrow> event \<Rightarrow> protocol option" where
  "protocol_step n_bytes p e =
     (if pr_done p \<or> \<not> section_admits p e then None
      else case e of
        Module_Event (Ev_BeginSection sec _) \<Rightarrow>
          if sec = Section_Custom then Some p
          else if sec \<noteq> Section_Invalid \<and> pr_section p < Section_code sec
          then Some (p\<lparr>pr_section := Section_code sec\<rparr>) else None
      | Module_Event Ev_EndModule \<Rightarrow> Some (p\<lparr>pr_done := True\<rparr>)
      | Module_Event (Ev_OnImportFunc _ _ _ _ _) \<Rightarrow> Some (p\<lparr>pr_added := pr_added p + 1\<rparr>)
      | Module_Event (Ev_OnImportGlobal _ _ _ _ _ _) \<Rightarrow> Some (p\<lparr>pr_added := pr_added p + 1\<rparr>)
      | Define_Event (Ev_OnFunctionCount n) \<Rightarrow> if unat n \<le> n_bytes then Some p else None
      | Define_Event (Ev_OnFunction _ _) \<Rightarrow> Some (p\<lparr>pr_added := pr_added p + 1\<rparr>)
      | Define_Event (Ev_BeginGlobal i _ _) \<Rightarrow>
          Some (p\<lparr>pr_begun := i # pr_begun p, pr_added := pr_added p + 1\<rparr>)
      | Define_Event (Ev_EndGlobalInitExpr i) \<Rightarrow> (case pr_begun p of j # _ \<Rightarrow> if i = j then Some p else None | [] \<Rightarrow> None)
      | _ \<Rightarrow> Some p)"

fun protocol_run :: "nat \<Rightarrow> protocol \<Rightarrow> event list \<Rightarrow> protocol option" where
  "protocol_run n_bytes p [] = Some p"
| "protocol_run n_bytes p (e # es) =
     (case protocol_step n_bytes p e of None \<Rightarrow> None | Some p' \<Rightarrow> protocol_run n_bytes p' es)"

definition follows_protocol :: "nat \<Rightarrow> event list \<Rightarrow> bool" where
  "follows_protocol n_bytes es \<longleftrightarrow>
     (case protocol_run n_bytes protocol_init es of None \<Rightarrow> False | Some p \<Rightarrow> pr_added p \<le> n_bytes)"

lemma protocol_run_snoc:
  "protocol_run n_bytes p (es @ [e]) = (case protocol_run n_bytes p es of None \<Rightarrow> None | Some p' \<Rightarrow> protocol_step n_bytes p' e)"
  by (induction es arbitrary: p) (auto split: option.splits)

lemma protocol_step_end: "protocol_step n_bytes p (Module_Event Ev_EndModule) = Some p' \<Longrightarrow> pr_done p'"
  by (auto simp: protocol_step_def split: if_splits)

lemma protocol_done_run: "pr_done p \<Longrightarrow> protocol_run n_bytes p es = Some p' \<Longrightarrow> es = []"
  by (cases es) (auto simp: protocol_step_def)

lemma protocol_not_done:
  "protocol_run n_bytes p es = Some p' \<Longrightarrow> \<not> pr_done p' \<Longrightarrow> Module_Event Ev_EndModule \<notin> set es"
proof (induction es arbitrary: p)
  case (Cons e es)
  then obtain p1 where p1: "protocol_step n_bytes p e = Some p1" "protocol_run n_bytes p1 es = Some p'"
    by (auto split: option.splits)
  have "e \<noteq> Module_Event Ev_EndModule"
    using p1 Cons.prems(2) protocol_step_end protocol_done_run [OF _ p1(2)] by fastforce
  then show ?case using Cons.IH [OF p1(2) Cons.prems(2)] by auto
qed simp

text \<open>The callbacks that leave the protocol's state alone in section \<open>k\<close>.\<close>

definition ordinary :: "nat \<Rightarrow> event \<Rightarrow> bool" where
  "ordinary k e \<longleftrightarrow> (\<forall>n_bytes p. pr_section p = k \<longrightarrow> \<not> pr_done p \<longrightarrow> protocol_step n_bytes p e = Some p)"

lemma ordinary_custom:
  "ordinary k (Name_Event x)" "ordinary k (Link_Event y)" "ordinary k (Module_Event (Ev_BeginModule v))"
  "ordinary k (Module_Event (Ev_BeginCustomSection n bs))" "ordinary k (Module_Event Ev_EndCustomSection)"
  by (simp_all add: ordinary_def protocol_step_def section_admits_def)

lemma ordinary_body: "ordinary 10 (Body_Event x)" "ordinary 10 (Operator_Event y)" "ordinary 10 (Control_Event z)"
  by (simp_all add: ordinary_def protocol_step_def section_admits_def)

lemma ordinary_segment: "List.member (segment_sections x) k \<Longrightarrow> ordinary k (Segment_Event x)"
  by (simp add: ordinary_def protocol_step_def section_admits_def)


section \<open>The interface\<close>

text \<open>Reading stops at the first error.\<close>

definition strict :: "ReadBinaryOptions \<Rightarrow> bool" where
  "strict options \<longleftrightarrow> opt_stop_on_first_error options \<and> opt_fail_on_custom_section_error options"

text \<open>
  \<open>after es d\<close>: the delegate is in state \<open>d\<close> when it has accepted the callbacks \<open>es\<close>; \<open>failed es d\<close>:
  when it has refused the last of them, or an error came after them. No error comes after \<open>EndModule\<close>.
\<close>

locale reader_delegate =
  fixes D :: "'d BinaryReaderDelegate"
    and after :: "event list \<Rightarrow> 'd \<Rightarrow> bool"
    and failed :: "event list \<Rightarrow> 'd \<Rightarrow> bool"
  assumes accept: "after es d \<Longrightarrow> deliver D offset e d = (Some Result_Ok, d') \<Longrightarrow> after (es @ [e]) d'"
    and refuse: "after es d \<Longrightarrow> deliver D offset e d = (Some Result_Error, d') \<Longrightarrow>
      failed (es @ [e]) (on_error D offset' level msg d')"
    and error: "after es d \<Longrightarrow> Module_Event Ev_EndModule \<notin> set es \<Longrightarrow> failed es (on_error D offset' level msg d)"
begin

text \<open>
  Where the parser stands: \<open>l\<close> is the last known section it has finished, \<open>k\<close> the one it is in, \<open>b\<close>
  the global whose initializer it reads, if any, and it may still add \<open>m\<close> functions or globals.
\<close>

definition at :: "nat \<Rightarrow> BinarySection \<Rightarrow> nat \<Rightarrow> Index option \<Rightarrow> nat \<Rightarrow> 'd BinaryReader \<Rightarrow> bool" where
  "at n l k b m s \<longleftrightarrow> br_last_known_section s = l \<and>
     (\<exists>es p. after es (br_delegate_state s) \<and> protocol_run n protocol_init es = Some p \<and>
        pr_section p = k \<and> \<not> pr_done p \<and> (\<forall>i. b = Some i \<longrightarrow> (\<exists>is. pr_begun p = i # is)) \<and>
        pr_added p + m \<le> br_offset s)"

definition stopped :: "nat \<Rightarrow> 'd \<Rightarrow> bool" where
  "stopped n d \<longleftrightarrow> (\<exists>es. failed es d \<and> follows_protocol n es)"

definition ready :: "nat \<Rightarrow> nat \<Rightarrow> 'd BinaryReader \<Rightarrow> bool" where
  "ready e n s \<longleftrightarrow> reader_ok s \<and> br_read_end s = e \<and> length (br_data s) = n \<and> br_delegate s = D \<and> strict (br_options s)"

definition triple :: "nat \<Rightarrow> nat \<Rightarrow> ('d BinaryReader \<Rightarrow> bool) \<Rightarrow> ('d, 'a) bop \<Rightarrow> ('a \<Rightarrow> 'd BinaryReader \<Rightarrow> bool) \<Rightarrow> bool" where
  "triple e n P f Q \<longleftrightarrow> safe_at e n f \<and>
     (\<forall>s r s'. ready e n s \<longrightarrow> P s \<longrightarrow> f s = (r, s') \<longrightarrow>
        (\<forall>x. r = BOk x \<longrightarrow> Q x s') \<and> (r = BError \<longrightarrow> stopped n (br_delegate_state s')))"

definition obeys :: "nat \<Rightarrow> nat \<Rightarrow> nat \<Rightarrow> ('d, 'a) bop \<Rightarrow> bool" where
  "obeys e n k f \<longleftrightarrow> (\<forall>l b m. triple e n (at n l k b m) f (\<lambda>_. at n l k b m))"

lemma tripleI:
  assumes "safe_at e n f"
    and "\<And>s x s'. ready e n s \<Longrightarrow> P s \<Longrightarrow> f s = (BOk x, s') \<Longrightarrow> Q x s'"
    and "\<And>s s'. ready e n s \<Longrightarrow> P s \<Longrightarrow> f s = (BError, s') \<Longrightarrow> stopped n (br_delegate_state s')"
  shows "triple e n P f Q"
  using assms unfolding triple_def by blast

lemma tripleD:
  assumes "triple e n P f Q"
  shows "safe_at e n f"
    and "ready e n s \<Longrightarrow> P s \<Longrightarrow> f s = (BOk x, s') \<Longrightarrow> Q x s'"
    and "ready e n s \<Longrightarrow> P s \<Longrightarrow> f s = (BError, s') \<Longrightarrow> stopped n (br_delegate_state s')"
  using assms unfolding triple_def by blast+

lemma ready_step:
  assumes "safe_at e n f" "f s = (r, s')" "ready e n s"
  shows "ready e n s'" "br_offset s \<le> br_offset s'"
  using safe_atD [OF assms(1,2)] assms(3) by (auto simp: ready_def progress_def)

lemma triple_weaken:
  "triple e n P f Q \<Longrightarrow> (\<And>s. P' s \<Longrightarrow> P s) \<Longrightarrow> (\<And>x s. Q x s \<Longrightarrow> Q' x s) \<Longrightarrow> triple e n P' f Q'"
  unfolding triple_def by blast

lemma triple_bind:
  assumes "triple e n P f Q" "\<And>x. triple e n (Q x) (g x) R"
  shows "triple e n P (b_bind f g) R"
proof (rule tripleI)
  show "safe_at e n (b_bind f g)" by (intro safe_bind tripleD(1) [OF assms(1)] tripleD(1) [OF assms(2)])
  fix s assume s: "ready e n s" "P s"
  show "R y s'" if run: "b_bind f g s = (BOk y, s')" for y s'
  proof -
    obtain x s1 where f: "f s = (BOk x, s1)" and g: "g x s1 = (BOk y, s')" using run by (auto simp: bind_Ok)
    show ?thesis
      using tripleD(2) [OF assms(2) ready_step(1) [OF tripleD(1) [OF assms(1)] f s(1)] tripleD(2) [OF assms(1) s f] g] .
  qed
  show "stopped n (br_delegate_state s')" if run: "b_bind f g s = (BError, s')" for s'
  proof -
    obtain r1 s1 where f: "f s = (r1, s1)" by fastforce
    show ?thesis
    proof (cases r1)
      case (BOk x)
      then have g: "g x s1 = (BError, s')" using run f by (simp add: b_bind_def)
      show ?thesis
        using tripleD(3) [OF assms(2) ready_step(1) [OF tripleD(1) [OF assms(1)] f s(1)]
            tripleD(2) [OF assms(1) s f [unfolded BOk]] g] .
    qed (use run f tripleD(3) [OF assms(1) s] in \<open>auto simp: b_bind_def\<close>)
  qed
qed

lemma triple_then: "triple e n P f (\<lambda>_. Q) \<Longrightarrow> triple e n Q g R \<Longrightarrow> triple e n P (b_then f g) R"
  unfolding b_then_def by (rule triple_bind)

lemma triple_return: "(\<And>s. P s \<Longrightarrow> Q x s) \<Longrightarrow> triple e n P (b_return x) Q"
  by (rule tripleI) (auto simp: b_return_def intro: safe)

lemma triple_get: "(\<And>s. ready e n s \<Longrightarrow> P s \<Longrightarrow> Q (h s) s) \<Longrightarrow> triple e n P (b_get h) Q"
  by (rule tripleI) (auto simp: b_get_def intro: safe)

lemma obeysD: "obeys e n k f \<Longrightarrow> triple e n (at n l k b m) f (\<lambda>_. at n l k b m)"
  unfolding obeys_def by blast

lemma obeysI: "(\<And>l b m. triple e n (at n l k b m) f (\<lambda>_. at n l k b m)) \<Longrightarrow> obeys e n k f"
  unfolding obeys_def by blast

end

named_theorems obeys

context reader_delegate
begin

lemma obeys_bind [obeys]: "obeys e n k f \<Longrightarrow> (\<And>x. obeys e n k (g x)) \<Longrightarrow> obeys e n k (b_bind f g)"
  by (intro obeysI triple_bind) (erule obeysD, rule obeysD)

lemma obeys_then [obeys]: "obeys e n k f \<Longrightarrow> obeys e n k g \<Longrightarrow> obeys e n k (b_then f g)"
  unfolding b_then_def by (intro obeys_bind)

lemma obeys_return [obeys]: "obeys e n k (b_return x)"
  by (intro obeysI triple_return)

lemma obeys_get [obeys]: "obeys e n k (b_get h)"
  by (intro obeysI triple_get)

lemma obeys_if [obeys]: "obeys e n k f \<Longrightarrow> obeys e n k g \<Longrightarrow> obeys e n k (if c then f else g)"
  by simp

lemma obeys_let [obeys]: "(\<And>x. obeys e n k (g x)) \<Longrightarrow> obeys e n k (let x = a in g x)"
  by simp

lemma obeys_prod [obeys]: "(\<And>a b. obeys e n k (g a b)) \<Longrightarrow> obeys e n k (case x of (a, b) \<Rightarrow> g a b)"
  by (cases x) simp

text \<open>An error, anywhere.\<close>

lemma at_stopped:
  assumes "at n l k b m s" "ready e n s"
  shows "stopped n (on_error D off level msg (br_delegate_state s))"
proof -
  obtain es p where es: "after es (br_delegate_state s)" "protocol_run n protocol_init es = Some p"
    "\<not> pr_done p" "pr_added p + m \<le> br_offset s" using assms(1) by (auto simp: at_def)
  have "br_offset s \<le> n" using assms(2) by (auto simp: ready_def reader_ok_def)
  then have "follows_protocol n es" using es by (simp add: follows_protocol_def)
  then show ?thesis using error [OF es(1) protocol_not_done [OF es(2,3)]] by (auto simp: stopped_def)
qed

lemma fail_run:
  "b_fail msg s = (BError, s\<lparr>br_delegate_state := on_error (br_delegate s) (br_offset s)
     (if br_reading_custom_section s \<and> \<not> opt_fail_on_custom_section_error (br_options s)
      then ErrorLevel_Warning else ErrorLevel_Error) msg (br_delegate_state s)\<rparr>)"
  by (simp add: b_fail_def b_then_def b_bind_def BR_PrintError_def b_mod_def b_error_def Let_def)

lemma triple_fail: "triple e n (at n l k b m) (b_fail msg) Q"
proof (rule tripleI)
  fix s s' assume "ready e n s" "at n l k b m s" "b_fail msg s = (BError, s')"
  then show "stopped n (br_delegate_state s')"
    using at_stopped [of n l k b m s e] by (auto simp: fail_run ready_def)
qed (auto simp: fail_run intro: safe)

lemma obeys_fail [obeys]: "obeys e n k (b_fail msg)"
  by (intro obeysI triple_fail)

lemma obeys_unless [obeys]: "obeys e n k (ERROR_UNLESS c msg)"
  unfolding ERROR_UNLESS_def by (intro obeys)

lemma obeys_check [obeys]: "obeys e n k (b_check c msg)"
  unfolding b_check_def by (intro obeys)

lemma obeys_report [obeys]: "obeys e n k (ReportUnexpectedOpcode opcode msg)"
  unfolding ReportUnexpectedOpcode_def by (intro obeys)

lemma obeys_enabled [obeys]: "obeys e n k (ERROR_UNLESS_OPCODE_ENABLED opcode)"
  unfolding ERROR_UNLESS_OPCODE_ENABLED_def by (intro obeys)

text \<open>A callback, by what the protocol makes of it.\<close>

lemma callback_Ok:
  assumes "CALLBACK member ev s = (BOk x, s')"
  shows "\<exists>d'. deliver (br_delegate s) (br_offset s) ev (br_delegate_state s) = (Some Result_Ok, d') \<and>
    s' = s\<lparr>br_delegate_state := d'\<rparr>"
  using assms by (auto simp: CALLBACK_def b_bind_def b_deliver_def ERROR_UNLESS_def fail_run b_return_def
      split: prod.splits option.splits if_splits)

lemma callback_Error:
  assumes "CALLBACK member ev s = (BError, s')"
  shows "\<exists>d' off level msg. deliver (br_delegate s) (br_offset s) ev (br_delegate_state s) = (Some Result_Error, d') \<and>
    br_delegate_state s' = on_error (br_delegate s) off level msg d'"
proof -
  obtain r d' where "deliver (br_delegate s) (br_offset s) ev (br_delegate_state s) = (r, d')" by fastforce
  moreover then have "r = Some Result_Error"
    using assms by (cases r; cases "the r") (auto simp: CALLBACK_def b_bind_def b_deliver_def ERROR_UNLESS_def b_return_def)
  ultimately show ?thesis
    using assms by (auto simp: CALLBACK_def b_bind_def b_deliver_def ERROR_UNLESS_def fail_run) blast+
qed

lemma triple_callback:
  assumes "\<And>p. pr_section p = k \<Longrightarrow> \<not> pr_done p \<Longrightarrow> (\<forall>i. b = Some i \<longrightarrow> (\<exists>is. pr_begun p = i # is)) \<Longrightarrow>
    \<exists>p'. protocol_step n p ev = Some p' \<and> pr_section p' = k' \<and> \<not> pr_done p' \<and>
      (\<forall>i. b' = Some i \<longrightarrow> (\<exists>is. pr_begun p' = i # is)) \<and> pr_added p' + m' \<le> pr_added p + m"
  shows "triple e n (at n l k b m) (CALLBACK member ev) (\<lambda>_. at n l k' b' m')"
proof (rule tripleI)
  show "safe_at e n (CALLBACK member ev)" by (rule safe)
  fix s assume s: "ready e n s" "at n l k b m s"
  obtain es p where es: "after es (br_delegate_state s)" "protocol_run n protocol_init es = Some p"
    and p: "pr_section p = k" "\<not> pr_done p" "\<forall>i. b = Some i \<longrightarrow> (\<exists>is. pr_begun p = i # is)"
    "pr_added p + m \<le> br_offset s" and l: "br_last_known_section s = l" using s(2) by (auto simp: at_def)
  obtain p' where p': "protocol_step n p ev = Some p'" "pr_section p' = k'" "\<not> pr_done p'"
    "\<forall>i. b' = Some i \<longrightarrow> (\<exists>is. pr_begun p' = i # is)" "pr_added p' + m' \<le> pr_added p + m"
    using assms [OF p(1-3)] by blast
  have run: "protocol_run n protocol_init (es @ [ev]) = Some p'" using es(2) p'(1) by (simp add: protocol_run_snoc)
  have "br_offset s \<le> n" "br_delegate s = D" using s(1) by (auto simp: ready_def reader_ok_def)
  then have follows: "follows_protocol n (es @ [ev])" using run p'(5) p(4) by (simp add: follows_protocol_def)
  show "at n l k' b' m' s'" if callback: "CALLBACK member ev s = (BOk x, s')" for x s'
  proof -
    obtain d' where "deliver D (br_offset s) ev (br_delegate_state s) = (Some Result_Ok, d')"
      and s': "s' = s\<lparr>br_delegate_state := d'\<rparr>"
      using callback_Ok [OF callback] \<open>br_delegate s = D\<close> by auto
    from accept [OF es(1) this(1)] have "after (es @ [ev]) (br_delegate_state s')" using s' by simp
    moreover have "pr_added p' + m' \<le> br_offset s'" "br_last_known_section s' = l" using p'(5) p(4) l s' by simp_all
    ultimately show ?thesis using run p'(2-4) unfolding at_def by blast
  qed
  show "stopped n (br_delegate_state s')" if callback: "CALLBACK member ev s = (BError, s')" for s'
  proof -
    obtain d' off level msg where d': "deliver D (br_offset s) ev (br_delegate_state s) = (Some Result_Error, d')"
      "br_delegate_state s' = on_error D off level msg d'"
      using callback_Error [OF callback] \<open>br_delegate s = D\<close> by auto
    have "failed (es @ [ev]) (br_delegate_state s')" unfolding d'(2) by (rule refuse [OF es(1) d'(1)])
    then show ?thesis using follows unfolding stopped_def by blast
  qed
qed

lemma obeys_callback: "ordinary k ev \<Longrightarrow> obeys e n k (CALLBACK member ev)"
  by (rule obeysI, rule triple_callback) (auto simp: ordinary_def)

end

section \<open>Operations that call no delegate\<close>

text \<open>They change its state by reporting an error at most.\<close>

definition quiet :: "('d, 'a) bop \<Rightarrow> bool" where
  "quiet f \<longleftrightarrow> (\<forall>s r s'. f s = (r, s') \<longrightarrow>
     (\<forall>x. r = BOk x \<longrightarrow> br_delegate_state s' = br_delegate_state s \<and> br_delegate s' = br_delegate s \<and>
        br_last_known_section s' = br_last_known_section s) \<and>
     (r = BError \<longrightarrow> (\<exists>off level msg. br_delegate_state s' = on_error (br_delegate s) off level msg (br_delegate_state s))))"

named_theorems quiet

lemma quietI:
  assumes "\<And>s x s'. f s = (BOk x, s') \<Longrightarrow> br_delegate_state s' = br_delegate_state s \<and> br_delegate s' = br_delegate s \<and>
        br_last_known_section s' = br_last_known_section s"
    and "\<And>s s'. f s = (BError, s') \<Longrightarrow>
      \<exists>off level msg. br_delegate_state s' = on_error (br_delegate s) off level msg (br_delegate_state s)"
  shows "quiet f"
  using assms unfolding quiet_def by blast

lemma quietD:
  assumes "quiet f"
  shows "f s = (BOk x, s') \<Longrightarrow> br_delegate_state s' = br_delegate_state s \<and> br_delegate s' = br_delegate s \<and>
        br_last_known_section s' = br_last_known_section s"
    and "f s = (BError, s') \<Longrightarrow>
      \<exists>off level msg. br_delegate_state s' = on_error (br_delegate s) off level msg (br_delegate_state s)"
  using assms unfolding quiet_def by blast+

lemma quiet_bind [quiet]:
  assumes "quiet f" "\<And>x. quiet (g x)"
  shows "quiet (b_bind f g)"
proof (rule quietI)
  fix s y s' assume "b_bind f g s = (BOk y, s')"
  then obtain x s1 where "f s = (BOk x, s1)" "g x s1 = (BOk y, s')" by (auto simp: bind_Ok)
  then show "br_delegate_state s' = br_delegate_state s \<and> br_delegate s' = br_delegate s \<and>
      br_last_known_section s' = br_last_known_section s"
    using quietD(1) [OF assms(1)] quietD(1) [OF assms(2)] by metis
next
  fix s s' assume run: "b_bind f g s = (BError, s')"
  obtain r1 s1 where f: "f s = (r1, s1)" by fastforce
  show "\<exists>off level msg. br_delegate_state s' = on_error (br_delegate s) off level msg (br_delegate_state s)"
  proof (cases r1)
    case (BOk x)
    then have "g x s1 = (BError, s')" using run f by (simp add: b_bind_def)
    then show ?thesis using quietD(2) [OF assms(2)] quietD(1) [OF assms(1) f [unfolded BOk]] by metis
  next
    case BError
    then show ?thesis using run f quietD(2) [OF assms(1)] by (simp add: b_bind_def)
  qed (use run f in \<open>simp_all add: b_bind_def\<close>)
qed

lemma quiet_then [quiet]: "quiet f \<Longrightarrow> quiet g \<Longrightarrow> quiet (b_then f g)"
  unfolding b_then_def by (intro quiet)

lemma quiet_simple [quiet]: "quiet (b_return x)" "quiet (b_get h)" "quiet (\<lambda>s. (BUndef, s))" "quiet (b_bytes off k)"
  by (rule quietI; simp add: b_return_def b_get_def b_bytes_def split: if_splits)+

lemma quiet_if [quiet]: "quiet f \<Longrightarrow> quiet g \<Longrightarrow> quiet (if c then f else g)"
  by simp

lemma quiet_let [quiet]: "(\<And>x. quiet (g x)) \<Longrightarrow> quiet (let x = a in g x)"
  by simp

lemma quiet_prod [quiet]: "(\<And>a b. quiet (g a b)) \<Longrightarrow> quiet (case x of (a, b) \<Rightarrow> g a b)"
  by (cases x) simp

lemma quiet_option [quiet]: "quiet f \<Longrightarrow> (\<And>y. quiet (g y)) \<Longrightarrow> quiet (case x of None \<Rightarrow> f | Some y \<Rightarrow> g y)"
  by (cases x) simp_all

lemma quiet_mod:
  "(\<And>s. br_delegate_state (h s) = br_delegate_state s \<and> br_delegate (h s) = br_delegate s \<and>
     br_last_known_section (h s) = br_last_known_section s) \<Longrightarrow> quiet (b_mod h)"
  by (rule quietI) (auto simp: b_mod_def)

lemma quiet_advance [quiet]: "quiet (b_advance k)" "quiet (b_mod (\<lambda>s. s\<lparr>br_offset := j\<rparr>))"
  "quiet (b_mod (\<lambda>s. s\<lparr>br_offset := br_read_end s\<rparr>))"
  unfolding b_advance_def by (rule quiet_mod; simp)+

lemma quiet_fail [quiet]: "quiet (b_fail msg)"
  by (rule quietI) (auto simp: b_fail_def b_then_def b_bind_def BR_PrintError_def b_mod_def b_error_def Let_def)

lemma quiet_unless [quiet]: "quiet (ERROR_UNLESS c msg)"
  unfolding ERROR_UNLESS_def by (intro quiet)

lemma quiet_reads [quiet]: "quiet (ReadT t desc)" "quiet (ReadLeb read t desc)"
  unfolding ReadT_def ReadLeb_def b_window_def by (intro quiet | simp only: prod.case_eq_if)+

lemma quiet_numbers [quiet]: "quiet (BR_ReadU8 desc)" "quiet (BR_ReadU32 desc)" "quiet (BR_ReadF32 desc)"
  "quiet (BR_ReadF64 desc)" "quiet (BR_ReadV128 desc)" "quiet (BR_ReadU32Leb128 desc)" "quiet (BR_ReadS32Leb128 desc)"
  "quiet (BR_ReadS64Leb128 desc)" "quiet (ReadType desc)" "quiet (ReadIndex desc)"
  unfolding BR_ReadU8_def BR_ReadU32_def BR_ReadF32_def BR_ReadF64_def BR_ReadV128_def BR_ReadU32Leb128_def
    BR_ReadS32Leb128_def BR_ReadS64Leb128_def ReadType_def ReadIndex_def
  by (rule quiet)+

lemma quiet_span [quiet]: "quiet (ReadSpan d msg)"
  unfolding ReadSpan_def by (intro quiet)

lemma quiet_opcode [quiet]: "quiet (BR_ReadOpcode desc)" "quiet (ReadOffset desc)" "quiet (ReadStr desc)" "quiet (ReadBytes desc)"
  unfolding BR_ReadOpcode_def ReadOffset_def ReadStr_def ReadBytes_def by (intro quiet)+

context reader_delegate
begin

lemma triple_quiet_eats:
  assumes "quiet f" "eats_at e n f"
  shows "triple e n (at n l k b m) f (\<lambda>_. at n l k b (Suc m))"
proof (rule tripleI)
  show "safe_at e n f" using assms(2) by (rule eats_safe)
  fix s assume s: "ready e n s" "at n l k b m s"
  show "at n l k b (Suc m) s'" if "f s = (BOk x, s')" for x s'
  proof -
    have "br_offset s < br_offset s'" using assms(2) that s(1) by (auto simp: eats_at_def ready_def)
    then show ?thesis using quietD(1) [OF assms(1) that] s(2) unfolding at_def by (metis add_Suc_right Suc_le_eq le_less_trans)
  qed
  show "stopped n (br_delegate_state s')" if "f s = (BError, s')" for s'
    using quietD(2) [OF assms(1) that] at_stopped [OF s(2,1)] s(1) by (auto simp: ready_def)
qed

lemma obeys_quiet:
  assumes "quiet f" "safe_at e n f"
  shows "obeys e n k f"
proof (intro obeysI tripleI assms(2))
  fix l b m s assume s: "ready e n s" "at n l k b m s"
  show "at n l k b m s'" if "f s = (BOk x, s')" for x s'
    using quietD(1) [OF assms(1) that] s(2) ready_step(2) [OF assms(2) that s(1)] unfolding at_def
    by (metis le_trans)
  show "stopped n (br_delegate_state s')" if "f s = (BError, s')" for s'
    using quietD(2) [OF assms(1) that] at_stopped [OF s(2,1)] s(1) by (auto simp: ready_def)
qed

lemma obeys_numbers [obeys]: "obeys e n k (BR_ReadU8 desc)" "obeys e n k (BR_ReadU32 desc)" "obeys e n k (BR_ReadF32 desc)"
  "obeys e n k (BR_ReadF64 desc)" "obeys e n k (BR_ReadV128 desc)" "obeys e n k (BR_ReadU32Leb128 desc)"
  "obeys e n k (BR_ReadS32Leb128 desc)" "obeys e n k (BR_ReadS64Leb128 desc)" "obeys e n k (ReadType desc)"
  "obeys e n k (ReadIndex desc)" "obeys e n k (BR_ReadOpcode desc)" "obeys e n k (ReadOffset desc)"
  "obeys e n k (ReadStr desc)" "obeys e n k (ReadBytes desc)" "obeys e n k (b_mod (\<lambda>s. s\<lparr>br_offset := br_read_end s\<rparr>))"
  by (intro obeys_quiet quiet safe)+

lemma obeys_skip: "obeys e n k (b_mod (\<lambda>s. s\<lparr>br_offset := e\<rparr>))"
  by (intro obeys_quiet quiet safe_skip)

lemma obeys_counter:
  assumes "counter h" "\<And>s. br_delegate_state (h s) = br_delegate_state s \<and> br_last_known_section (h s) = br_last_known_section s"
  shows "obeys e n k (b_mod h)"
  using assms by (intro obeys_quiet quiet_mod safe_counter) (auto simp: counter_def)

lemma obeys_count_to:
  assumes "\<And>j. counter (h j)"
    "\<And>j s. br_delegate_state (h j s) = br_delegate_state s \<and> br_last_known_section (h j s) = br_last_known_section s"
  shows "obeys e n k (ReadCountTo h desc)"
  unfolding ReadCountTo_def by (intro obeys obeys_counter assms)

lemma obeys_count [obeys]: "obeys e n k (ReadCount desc)"
  unfolding ReadCount_def by (rule obeys_count_to) (simp_all add: counter_def)

text \<open>Loops.\<close>

lemma triple_for_from:
  assumes "\<And>i a. triple e n P (f i a) (\<lambda>_. P)"
  shows "triple e n P (b_for_from i j f a) (\<lambda>_. P)"
  by (induction j arbitrary: i a) (auto intro: triple_return triple_bind assms)

lemma triple_each: "(\<And>i. triple e n P (f i) (\<lambda>_. P)) \<Longrightarrow> triple e n P (b_each j f) (\<lambda>_. P)"
  unfolding b_each_def b_for_def by (rule triple_for_from)

lemma obeys_for [obeys]: "(\<And>i a. obeys e n k (f i a)) \<Longrightarrow> obeys e n k (b_for j f a)"
  unfolding b_for_def by (intro obeysI triple_for_from) (rule obeysD)

lemma obeys_each [obeys]: "(\<And>i. obeys e n k (f i)) \<Longrightarrow> obeys e n k (b_each j f)"
  unfolding b_each_def by (intro obeys)

lemma while_triple:
  assumes "\<And>a. triple e n (P a) (f a) P"
    and "ready e n s" "P a s" "b_while fuel c f a s = (r, s')"
  shows "(\<forall>x. r = BOk x \<longrightarrow> P x s') \<and> (r = BError \<longrightarrow> stopped n (br_delegate_state s'))"
  using assms(2-4)
proof (induction fuel arbitrary: a s)
  case 0
  then show ?case by (auto split: if_splits)
next
  case (Suc fuel)
  obtain r1 s1 where f: "f a s = (r1, s1)" by fastforce
  note step = ready_step(1) [OF tripleD(1) [OF assms(1)] f Suc.prems(1)]
  show ?case
  proof (cases "c s")
    case True
    show ?thesis
    proof (cases r1)
      case (BOk x)
      have "P x s1" using tripleD(2) [OF assms(1) Suc.prems(1,2) f [unfolded BOk]] .
      then show ?thesis using Suc.IH [OF step] Suc.prems(3) True f BOk by (simp add: b_bind_def)
    qed (use Suc.prems f True tripleD(3) [OF assms(1) Suc.prems(1,2)] in \<open>auto simp: b_bind_def\<close>)
  qed (use Suc.prems in auto)
qed

lemma triple_until:
  assumes "\<And>a. triple e n (P a) (f a) P" "safe_at e n (b_until end_of f a)"
  shows "triple e n (P a) (b_until end_of f a) P"
proof (intro tripleI assms(2))
  fix s assume s: "ready e n s" "P a s"
  have eq: "b_until end_of f a s = b_while (end_of s - br_offset s) (\<lambda>s. br_offset s < end_of s) f a s"
    by (simp add: b_until_def b_bind_def b_get_def)
  show "P x s'" if "b_until end_of f a s = (BOk x, s')" for x s' using while_triple [OF assms(1) s that [unfolded eq]] by simp
  show "stopped n (br_delegate_state s')" if "b_until end_of f a s = (BError, s')" for s'
    using while_triple [OF assms(1) s that [unfolded eq]] by simp
qed

lemma obeys_until:
  assumes "\<And>a. obeys e n k (f a)" "safe_at e n (b_until end_of f a)"
  shows "obeys e n k (b_until end_of f a)"
  by (intro obeysI triple_until [where P = "\<lambda>_. at n _ k _ _"] assms(2)) (rule obeysD [OF assms(1)])

lemma obeys_custom_guard [obeys]:
  assumes "obeys e n k f"
  shows "obeys e n k (with_custom_section f)"
proof (intro obeysI tripleI)
  fix l b m s assume s: "ready e n s" "at n l k b m s"
  let ?s = "s\<lparr>br_reading_custom_section := True\<rparr>"
  have s1: "ready e n ?s" "at n l k b m ?s" using s by (auto simp: ready_def reader_ok_def at_def)
  note t = obeysD [OF assms, of l b m]
  show "at n l k b m s'" if run: "with_custom_section f s = (BOk x, s')" for x s'
  proof -
    obtain s2 where "f ?s = (BOk x, s2)" "s' = s2\<lparr>br_reading_custom_section := br_reading_custom_section s\<rparr>"
      using run by (cases "f ?s") (auto simp: with_custom_section_def)
    then show ?thesis using tripleD(2) [OF t s1] by (auto simp: at_def)
  qed
  show "stopped n (br_delegate_state s')" if run: "with_custom_section f s = (BError, s')" for s'
  proof -
    obtain s2 where "f ?s = (BError, s2)" "s' = s2\<lparr>br_reading_custom_section := br_reading_custom_section s\<rparr>"
      using run by (cases "f ?s") (auto simp: with_custom_section_def)
    then show ?thesis using tripleD(3) [OF t s1] by simp
  qed
qed (rule safe_custom_guard [OF tripleD(1) [OF obeysD [OF assms]]])

text \<open>A smaller window.\<close>

lemma window_triple:
  assumes "triple e' n P f (\<lambda>_. Q)" "ready e n s" "br_offset s \<le> e'" "e' \<le> n" "P (s\<lparr>br_read_end := e'\<rparr>)"
    and "with_read_end e' f s = (r, s')" "\<And>s. Q (s\<lparr>br_read_end := e\<rparr>) = Q s"
  shows "(\<forall>x. r = BOk x \<longrightarrow> Q s') \<and> (r = BError \<longrightarrow> stopped n (br_delegate_state s'))"
proof -
  let ?s = "s\<lparr>br_read_end := e'\<rparr>"
  have s1: "ready e' n ?s" using assms(2-4) by (auto simp: ready_def reader_ok_def)
  obtain s2 where f: "f ?s = (r, s2)" "s' = s2\<lparr>br_read_end := e\<rparr>"
    using assms(2,6) by (cases "f ?s") (auto simp: with_read_end_def ready_def)
  show ?thesis using tripleD(2,3) [OF assms(1) s1 assms(5)] f assms(7) by (cases r) auto
qed

lemma at_read_end [simp]: "at n l k b m (s\<lparr>br_read_end := e\<rparr>) = at n l k b m s"
  by (simp add: at_def)

lemma obeys_subsection:
  assumes "\<And>e'. obeys e' n k (f e')"
  shows "obeys e n k (b_bind (b_get br_offset) (\<lambda>offset. let stop = offset + j in
     b_then (b_check (\<lambda>s. stop \<le> br_read_end s) msg) (with_read_end stop (f stop))))" (is "obeys e n k ?g")
proof (intro obeysI tripleI)
  show "safe_at e n ?g" by (rule safe_subsection) (rule tripleD(1) [OF obeysD [OF assms]])
  fix l b m and s :: "'d BinaryReader" assume s: "ready e n s" "at n l k b m s"
  let ?stop = "br_offset s + j"
  have "(\<forall>x. r = BOk x \<longrightarrow> at n l k b m s') \<and> (r = BError \<longrightarrow> stopped n (br_delegate_state s'))"
    if g: "?g s = (r, s')" for r s'
  proof (cases "?stop \<le> br_read_end s")
    case True
    then have "with_read_end ?stop (f ?stop) s = (r, s')"
      using g by (simp add: b_bind_def b_then_def b_get_def b_check_def ERROR_UNLESS_def b_return_def Let_def)
    moreover have "?stop \<le> n" using True s(1) by (auto simp: ready_def reader_ok_def)
    ultimately show ?thesis
      using window_triple [OF obeysD [OF assms] s(1), of ?stop l b m r s'] s(2) by simp
  next
    case False
    then have "b_fail msg s = (r, s')"
      using g by (simp add: b_bind_def b_then_def b_get_def b_check_def ERROR_UNLESS_def fail_run Let_def)
    then show ?thesis using tripleD(3) [OF triple_fail s] by (auto simp: fail_run)
  qed
  then show "\<And>x s'. ?g s = (BOk x, s') \<Longrightarrow> at n l k b m s'" "\<And>s'. ?g s = (BError, s') \<Longrightarrow> stopped n (br_delegate_state s')"
    by blast+
qed

end

end
