(* ===== verification/BinaryReaderEvents.thy ===== *)
theory BinaryReaderEvents
  imports BinaryReaderOrder
begin

text \<open>
  Every operation of the parser against the interface \<open>reader_delegate\<close>: the operations that keep
  to their section, those that add functions and globals, a section, and \<open>ReadBinary\<close>.
\<close>

lemmas step_simps = protocol_step_def section_admits_def
lemmas ordinary_simps = ordinary_def protocol_step_def section_admits_def

lemma quiet_check [quiet]: "quiet (b_check c msg)"
  unfolding b_check_def by (intro quiet)

lemma quiet_global_header [quiet]: "quiet ReadGlobalHeader"
  unfolding ReadGlobalHeader_def by (intro quiet)

lemma eats_global_header [eats]: "eats_at e n ReadGlobalHeader"
  unfolding ReadGlobalHeader_def by (intro eats safe)

lemma count_to_Ok: "ReadCountTo h desc s = (BOk c, s') \<Longrightarrow> unat c \<le> br_read_end s' - br_offset s'"
  by (auto simp: ReadCountTo_def bind_Ok b_then_def b_get_def b_return_def b_fail_def b_error_def split: if_splits)

context reader_delegate
begin

lemma obeys_events:
  "ordinary k (Module_Event a) \<Longrightarrow> obeys e n k (on_module m a)" "ordinary k (Define_Event b) \<Longrightarrow> obeys e n k (on_define m b)"
  "ordinary k (Segment_Event c) \<Longrightarrow> obeys e n k (on_segment m c)" "obeys e n k (on_name m x)" "obeys e n k (on_link m y)"
  "obeys e n 10 (on_body m z)" "obeys e n 2 (on_import i v w)"
  unfolding on_import_def on_module_def on_define_def on_segment_def on_name_def on_link_def on_body_def
  by (intro obeys_callback ordinary_custom ordinary_body; simp add: ordinary_simps)+

lemma obeys_code_callbacks [obeys]: "obeys e n 10 (CALLBACK m (Operator_Event x))" "obeys e n 10 (CALLBACK m (Control_Event y))"
  "obeys e n 10 (CALLBACK m (Body_Event z))"
  by (intro obeys_callback ordinary_body)+

lemmas [obeys] = obeys_events(4-7)

section \<open>Operations that keep to their section\<close>

lemma obeys_init_expr: "List.member [6, 9, 11] k \<Longrightarrow> obeys e n k (ReadInitExpr i b)"
  "List.member [6, 9, 11] k \<Longrightarrow> obeys e n k (ReadI32InitExpr i)"
  unfolding ReadI32InitExpr_def ReadInitExpr_def Let_def
  by (intro obeys obeys_callback ordinary_segment; simp)+

lemma obeys_limits [obeys]: "obeys e n k ReadTable" "obeys e n k BR_ReadMemory" "obeys e n k ReadGlobalHeader"
  "obeys e n k ReadExceptionType" "obeys e n k (ReadTypes j d m)"
  unfolding ReadTable_def BR_ReadMemory_def ReadGlobalHeader_def ReadExceptionType_def ReadTypes_def Let_def by (intro obeys)+

definition case_obeys :: "nat \<Rightarrow> nat \<Rightarrow> ('d, unit) bop option \<Rightarrow> bool" where
  "case_obeys e n g \<longleftrightarrow> (\<forall>f. g = Some f \<longrightarrow> obeys e n 10 f)"

lemma case_obeys_if: "case_obeys e n g \<Longrightarrow> case_obeys e n h \<Longrightarrow> case_obeys e n (if c then g else h)"
  by simp

lemma case_obeys_some: "obeys e n 10 f \<Longrightarrow> case_obeys e n (Some f)"
  by (simp add: case_obeys_def)

lemma case_obeys_none: "case_obeys e n None"
  by (simp add: case_obeys_def)

lemma obeys_first_case: "list_all (case_obeys e n) gs \<Longrightarrow> obeys e n 10 f \<Longrightarrow> obeys e n 10 (first_case gs f)"
  by (induction gs f rule: first_case.induct) (auto simp: case_obeys_def)

lemma obeys_immediates [obeys]: "obeys e n 10 on_bare" "obeys e n 10 (on_index i)" "obeys e n 10 (on_block_sig t)"
  "obeys e n 10 (ReadBlockSig desc)" "obeys e n 10 (ReadMemArg d1 d2 member ev)" "obeys e n 10 ReadBrTable"
  unfolding on_bare_def on_index_def on_block_sig_def ReadBlockSig_def ReadMemArg_def ReadBrTable_def
  by (intro obeys)+

lemma instruction_obeys:
  "case_obeys e n (control_instruction m)" "case_obeys e n (const_instruction opcode m)"
  "case_obeys e n (variable_instruction m)" "case_obeys e n (memory_instruction opcode m)"
  "case_obeys e n (plain_instruction opcode m)" "case_obeys e n (vector_instruction opcode m)"
  "case_obeys e n (exception_instruction opcode m)" "case_obeys e n (atomic_instruction opcode m)"
  unfolding control_instruction_def const_instruction_def variable_instruction_def memory_instruction_def
    plain_instruction_def vector_instruction_def exception_instruction_def atomic_instruction_def Let_def
  by (intro case_obeys_if case_obeys_some case_obeys_none obeys)+

lemma obeys_body [obeys]: "obeys e n 10 (ReadFunctionBody stop)"
proof -
  have instruction: "obeys e n 10 (ReadInstruction opcode)" for opcode
    unfolding ReadInstruction_def Let_def by (intro obeys_first_case obeys) (simp add: instruction_obeys)
  show ?thesis
    unfolding ReadFunctionBody_def by (intro obeys instruction obeys_until safe safe_until [where stop = stop] eats) (rule refl)
qed

lemma obeys_names [obeys]: "obeys e n k ReadFunctionNames" "obeys e n k (ReadLocalNamesOf i)" "obeys e n k ReadLocalNames"
proof -
  show locals_of: "obeys e n k (ReadLocalNamesOf i)" for i unfolding ReadLocalNamesOf_def by (intro obeys)
  show "obeys e n k ReadFunctionNames" "obeys e n k ReadLocalNames"
    unfolding ReadFunctionNames_def ReadLocalNames_def by (intro obeys locals_of)+
qed

lemma obeys_name_section [obeys]: "obeys e n k (ReadNameSection j)"
proof -
  have sub: "obeys e' n k (ReadNameSubsection i t z e')" for e' i t z
    unfolding ReadNameSubsection_def by (intro obeys obeys_skip)
  show ?thesis
    unfolding ReadNameSection_def
    by (intro obeys obeys_until sub obeys_subsection safe_until [where stop = e] eats safe safe_subsection
        safe_name_subsection) simp
qed

lemma obeys_linking_section [obeys]: "obeys e n k (ReadLinkingSection j)"
proof -
  have sym: "obeys e' n k (ReadSymbol i)" for e' i unfolding ReadSymbol_def Let_def by (intro obeys)
  have sub: "obeys e' n k (ReadLinkingSubsection t e')" for e' t
    unfolding ReadLinkingSubsection_def by (intro obeys obeys_skip sym)
  show ?thesis
    unfolding ReadLinkingSection_def
    by (intro obeys obeys_until sub obeys_subsection safe_until [where stop = e] eats safe safe_subsection
        safe_linking_subsection) simp
qed

lemma obeys_custom [obeys]: "obeys e n k (ReadCustomSection j)"
proof -
  have "obeys e n k (ReadRelocSection j)" unfolding ReadRelocSection_def by (intro obeys)
  moreover have "obeys e n k (ReadExceptionSection j)"
    unfolding ReadExceptionSection_def by (intro obeys obeys_count_to) (simp_all add: counter_def)
  ultimately show ?thesis
    unfolding ReadCustomSection_def
    by (intro obeys obeys_counter obeys_events(1) ordinary_custom) (simp_all add: counter_def)
qed

lemma obeys_type_section: "obeys e n 1 (ReadTypeSection j)"
  unfolding ReadTypeSection_def
  by (intro obeys obeys_count_to obeys_events(1); simp add: counter_def ordinary_simps)

lemma obeys_export_check [obeys]: "obeys e n k (check_export kind i)"
  unfolding check_export_def by (cases kind; simp; intro obeys)

lemma obeys_option [obeys]: "obeys e n k f \<Longrightarrow> (\<And>y. obeys e n k (g y)) \<Longrightarrow> obeys e n k (case x of None \<Rightarrow> f | Some y \<Rightarrow> g y)"
  by (cases x) simp_all

lemma obeys_define_sections: "obeys e n 4 (ReadTableSection j)" "obeys e n 5 (ReadMemorySection j)"
  "obeys e n 7 (ReadExportSection j)" "obeys e n 8 (ReadStartSection j)"
  unfolding ReadTableSection_def ReadMemorySection_def ReadExportSection_def ReadStartSection_def
  by (intro obeys obeys_count_to obeys_events(2); simp add: counter_def ordinary_simps)+

lemma obeys_segment_sections: "obeys e n 9 (ReadElemSection j)" "obeys e n 11 (ReadDataSection j)"
  unfolding ReadElemSection_def ReadDataSection_def
  by (intro obeys obeys_init_expr obeys_events(3) ordinary_segment; simp)+

lemma obeys_code_section: "obeys e n 10 (ReadCodeSection j)"
  unfolding ReadCodeSection_def ReadFunction_def ReadLocalDecls_def Let_def
  by (intro obeys obeys_count_to) (simp_all add: counter_def)

section \<open>Operations that add\<close>

lemma at_less:
  assumes "at n l k b m s" "m' \<le> m" "b' = None \<or> b' = b"
  shows "at n l k b' m' s"
proof -
  obtain es p where p: "after es (br_delegate_state s)" "protocol_run n protocol_init es = Some p" "pr_section p = k"
    "\<not> pr_done p" "\<forall>i. b = Some i \<longrightarrow> (\<exists>is. pr_begun p = i # is)" "pr_added p + m \<le> br_offset s"
    using assms(1) unfolding at_def by blast
  have "\<forall>i. b' = Some i \<longrightarrow> (\<exists>is. pr_begun p = i # is)" using p(5) assms(3) by auto
  moreover have "pr_added p + m' \<le> br_offset s" using p(6) assms(2) by simp
  ultimately show ?thesis using p(1-4) assms(1) unfolding at_def by blast
qed

lemma obeys_less: "obeys e n k f \<Longrightarrow> m' \<le> m \<Longrightarrow> triple e n (at n l k b m) f (\<lambda>_. at n l k b m')"
  by (erule triple_weaken [OF obeysD]) (auto intro: at_less)

lemma lift_bind:
  "obeys e n k f \<Longrightarrow> (\<And>x. triple e n (at n l k b m) (g x) R) \<Longrightarrow> triple e n (at n l k b m) (b_bind f g) R"
  by (rule triple_bind [OF obeysD])

lemma lift_then: "obeys e n k f \<Longrightarrow> triple e n (at n l k b m) g R \<Longrightarrow> triple e n (at n l k b m) (b_then f g) R"
  by (rule triple_then [OF obeysD])

lemma triple_prod: "(\<And>x y. triple e n P (f x y) Q) \<Longrightarrow> triple e n P (case z of (x, y) \<Rightarrow> f x y) Q"
  by (cases z) simp

lemma triple_pure: "safe_at e n f \<Longrightarrow> (c \<Longrightarrow> triple e n P f Q) \<Longrightarrow> triple e n (\<lambda>s. P s \<and> c) f Q"
  unfolding triple_def by blast

lemma import_adds:
  "triple e n (at n l 2 b (Suc m)) (on_module name (Ev_OnImportFunc i x y j t)) (\<lambda>_. at n l 2 b m)"
  "triple e n (at n l 2 b (Suc m)) (on_module name (Ev_OnImportGlobal i x y j t z)) (\<lambda>_. at n l 2 b m)"
  unfolding on_module_def by (rule triple_callback; simp add: step_simps)+

lemma ReadImportFunc_triple: "triple e n (at n l 2 b (Suc m)) (ReadImportFunc i x y) (\<lambda>_. at n l 2 b m)"
proof -
  have count: "obeys e n 2 (b_mod (\<lambda>s. s\<lparr>br_num_func_imports := br_num_func_imports s + 1\<rparr>))"
    by (rule obeys_counter) (simp_all add: counter_def)
  show ?thesis
    unfolding ReadImportFunc_def by (intro triple_then [OF import_adds(1) obeysD [OF count]] lift_bind lift_then obeys)
qed

lemma ReadImportGlobal_triple: "triple e n (at n l 2 b (Suc m)) (ReadImportGlobal i x y) (\<lambda>_. at n l 2 b m)"
proof -
  have count: "obeys e n 2 (b_mod (\<lambda>s. s\<lparr>br_num_global_imports := br_num_global_imports s + 1\<rparr>))"
    by (rule obeys_counter) (simp_all add: counter_def)
  show ?thesis
    unfolding ReadImportGlobal_def
    by (intro triple_then [OF import_adds(2) obeysD [OF count]] lift_bind lift_then triple_prod obeys)
qed

lemma obeys_other_imports: "obeys e n 2 (ReadImportTable i x y)" "obeys e n 2 (ReadImportMemory i x y)"
  "obeys e n 2 (ReadImportException i x y)"
  unfolding ReadImportTable_def ReadImportMemory_def ReadImportException_def
  by (intro obeys obeys_counter obeys_events(1); simp add: counter_def ordinary_simps)+

lemma obeys_import_frame: "obeys e n 2 (on_module m (Ev_BeginImportSection j))" "obeys e n 2 (on_module m (Ev_OnImportCount c))"
  "obeys e n 2 (on_module m Ev_EndImportSection)"
  by (intro obeys_events(1); simp add: ordinary_simps)+

text \<open>An import is read from at least one byte.\<close>

lemma ReadImportSection_triple: "triple e n (at n l 2 b m) (ReadImportSection j) (\<lambda>_. at n l 2 b m)"
proof -
  have kind: "triple e n (at n l 2 b (Suc m)) (case k of Some EK_Func \<Rightarrow> ReadImportFunc i x y
       | Some EK_Table \<Rightarrow> ReadImportTable i x y | Some EK_Memory \<Rightarrow> ReadImportMemory i x y
       | Some EK_Global \<Rightarrow> ReadImportGlobal i x y | Some EK_Except \<Rightarrow> ReadImportException i x y
       | None \<Rightarrow> b_return ()) (\<lambda>_. at n l 2 b m)" for k i x y
  proof (cases k)
    case (Some z)
    then show ?thesis
      by (cases z) (simp_all add: ReadImportFunc_triple ReadImportGlobal_triple obeys_less obeys_other_imports)
  qed (simp add: obeys_less [OF obeys_return])
  have count: "obeys e n 2 (ReadCountTo (\<lambda>n s. s\<lparr>br_num_imports := n\<rparr>) d)" for d
    by (rule obeys_count_to) (simp_all add: counter_def)
  show ?thesis
    unfolding ReadImportSection_def
    by (rule lift_then [OF obeys_import_frame(1)], rule lift_bind [OF count], rule lift_then [OF obeys_import_frame(2)],
        rule triple_then [OF triple_each obeysD [OF obeys_import_frame(3)]],
        rule triple_bind [OF triple_quiet_eats [OF quiet_opcode(3) eats_strings(1)]],
        intro lift_bind obeys kind)
qed

lemma count_triple:
  assumes "obeys e n k (ReadCountTo h d)"
  shows "triple e n (at n l k b m) (ReadCountTo h d) (\<lambda>c s. at n l k b m s \<and> unat c \<le> n)"
proof (rule tripleI)
  note t = obeysD [OF assms, of l b m]
  show "safe_at e n (ReadCountTo h d)" by (rule tripleD(1) [OF t])
  fix s assume s: "ready e n s" "at n l k b m s"
  show "at n l k b m s' \<and> unat c \<le> n" if run: "ReadCountTo h d s = (BOk c, s')" for c s'
    using tripleD(2) [OF t s run] count_to_Ok [OF run] ready_step(1) [OF tripleD(1) [OF t] run s(1)]
    by (auto simp: ready_def reader_ok_def)
qed (rule tripleD(3) [OF obeysD [OF assms]])

lemma ReadFunctionSection_triple: "triple e n (at n l 3 b m) (ReadFunctionSection j) (\<lambda>_. at n l 3 b m)"
proof -
  have frame: "obeys e n 3 (on_define x (Ev_BeginFunctionSection j))" "obeys e n 3 (on_define x Ev_EndFunctionSection)" for x
    by (intro obeys_events(2); simp add: ordinary_simps)+
  have count: "obeys e n 3 (ReadCountTo (\<lambda>n s. s\<lparr>br_num_function_signatures := n\<rparr>) d)" for d
    by (rule obeys_count_to) (simp_all add: counter_def)
  have counted: "triple e n (at n l 3 b m) (on_define x (Ev_OnFunctionCount c)) (\<lambda>_. at n l 3 b m)" if "unat c \<le> n" for x c
    unfolding on_define_def by (rule triple_callback) (use that in \<open>simp add: step_simps\<close>)
  have one_function: "triple e n (at n l 3 b (Suc m)) (on_define x (Ev_OnFunction i t)) (\<lambda>_. at n l 3 b m)" for x i t
    unfolding on_define_def by (rule triple_callback) (simp add: step_simps)
  have each: "triple e n (at n l 3 b m) (b_each c (\<lambda>i. b_bind (b_get (\<lambda>s. br_num_func_imports s + i)) (\<lambda>func_index.
      b_bind (ReadIndex d) (\<lambda>sig_index. b_then (b_check (\<lambda>s. sig_index < br_num_signatures s) (msg sig_index))
        (on_define x (Ev_OnFunction func_index sig_index)))))) (\<lambda>_. at n l 3 b m)" for c d msg x
    by (rule triple_each, rule lift_bind [OF obeys_get],
        rule triple_bind [OF triple_quiet_eats [OF quiet_numbers(10) eats_numbers(10)]],
        rule lift_then [OF obeys_check one_function])
  show ?thesis
    unfolding ReadFunctionSection_def
    by (rule lift_then [OF frame(1)], rule triple_bind [OF count_triple [OF count]], rule triple_pure, intro safe,
        erule triple_then [OF counted], rule triple_then [OF each obeysD [OF frame(2)]])
qed

lemma ReadGlobalSection_triple: "triple e n (at n l 6 None m) (ReadGlobalSection j) (\<lambda>_. at n l 6 None m)"
proof -
  have frame: "obeys e n 6 (on_define x (Ev_BeginGlobalSection j))" "obeys e n 6 (on_define x (Ev_OnGlobalCount c))"
    "obeys e n 6 (on_define x (Ev_BeginGlobalInitExpr i))" "obeys e n 6 (on_define x (Ev_EndGlobal i))"
    "obeys e n 6 (on_define x Ev_EndGlobalSection)" for x c i
    by (intro obeys_events(2); simp add: ordinary_simps)+
  have count: "obeys e n 6 (ReadCountTo (\<lambda>n s. s\<lparr>br_num_globals := n\<rparr>) d)" for d
    by (rule obeys_count_to) (simp_all add: counter_def)
  have begin_global: "triple e n (at n l 6 None (Suc m)) (on_define x (Ev_BeginGlobal i t z)) (\<lambda>_. at n l 6 (Some i) m)" for x i t z
    unfolding on_define_def by (rule triple_callback) (simp add: step_simps)
  have end_init: "triple e n (at n l 6 (Some i) m) (on_define x (Ev_EndGlobalInitExpr i)) (\<lambda>_. at n l 6 (Some i) m)" for x i
    unfolding on_define_def by (rule triple_callback) (auto simp: step_simps)
  have init: "obeys e n 6 (ReadInitExpr i False)" for i by (rule obeys_init_expr) simp
  have last: "triple e n (at n l 6 (Some i) m) (on_define x (Ev_EndGlobal i)) (\<lambda>_. at n l 6 None m)" for x i
    by (rule triple_weaken [OF obeysD [OF frame(4)]]) (auto intro: at_less)
  show ?thesis
    unfolding ReadGlobalSection_def
    by (rule lift_then [OF frame(1)], rule lift_bind [OF count], rule lift_then [OF frame(2)],
        rule triple_then [OF triple_each obeysD [OF frame(5)]], rule lift_bind [OF obeys_get],
        rule triple_bind [OF triple_quiet_eats [OF quiet_global_header eats_global_header]], rule triple_prod,
        rule triple_then [OF begin_global], rule lift_then [OF frame(3)], rule lift_then [OF init],
        rule triple_then [OF end_init last])
qed

section \<open>A section\<close>

lemma ReadSectionBody_triple:
  assumes "sec \<noteq> Section_Invalid"
  shows "triple e n (at n l (if sec = Section_Custom then k else Section_code sec) None 0) (ReadSectionBody sec j)
     (\<lambda>_. at n l (if sec = Section_Custom then k else Section_code sec) None 0)"
  unfolding ReadSectionBody_def
  by (cases sec)
    (use assms in \<open>simp_all add: obeysD obeys_custom obeys_type_section [unfolded One_nat_def] obeys_define_sections obeys_segment_sections
      obeys_code_section ReadImportSection_triple ReadFunctionSection_triple ReadGlobalSection_triple\<close>)

lemma at_last: "at n l k b m s \<Longrightarrow> br_last_known_section s = l"
  by (simp add: at_def)

text \<open>The rank of the last known section.\<close>

definition rank :: "BinarySection \<Rightarrow> nat" where
  "rank l = (if l = Section_Invalid then 0 else Section_code l)"

definition between :: "nat \<Rightarrow> Result \<Rightarrow> 'd BinaryReader \<Rightarrow> bool" where
  "between n r s \<longleftrightarrow> r = Result_Ok \<and> (\<exists>l. at n l (rank l) None 0 s)"

lemma triple_check:
  "triple e n (at n l k b m) (b_check c msg) (\<lambda>_ s. at n l k b m s \<and> c s)"
proof (rule tripleI)
  fix s assume s: "ready e n s" "at n l k b m s"
  show "at n l k b m s' \<and> c s'" if "b_check c msg s = (BOk x, s')" for x s'
    using that s by (auto simp: b_check_def b_bind_def b_get_def ERROR_UNLESS_def b_return_def fail_run split: if_splits)
qed (rule safe, rule tripleD(3) [OF obeysD [OF obeys_check]])

text \<open>With strict options, a section that fails ends the parsing.\<close>

definition section_end :: "BinarySection \<Rightarrow> Result \<Rightarrow> ('d, Result) bop" where
  "section_end sec result =
     b_bind (b_get br_read_end) (\<lambda>read_end.
       b_then (b_check (\<lambda>s. br_offset s = read_end)
         (''unfinished section (expected end: 0x'' @ show_hex read_end @ '')''))
       (b_then (if sec \<noteq> Section_Custom then b_mod (\<lambda>s. s\<lparr>br_last_known_section := sec\<rparr>) else b_return ())
         (b_return result)))"

definition section_tail :: "BinarySection \<Rightarrow> nat \<Rightarrow> Result \<Rightarrow> ('d, Result) bop" where
  "section_tail sec section_size result =
     b_bind (b_get br_options) (\<lambda>options.
       b_bind (b_catch (ReadSectionBody sec section_size)) (\<lambda>section_result.
       let ignored = (sec = Section_Custom \<and> \<not> opt_fail_on_custom_section_error options);
           stop_on_first_error = (opt_stop_on_first_error options \<and> \<not> ignored);
           result = (if ignored then result else result_or result section_result)
       in b_then (if Failed section_result then
            if stop_on_first_error then b_error else b_mod (\<lambda>s. s\<lparr>br_offset := br_read_end s\<rparr>)
            else b_return ())
          (b_bind (b_get br_read_end) (\<lambda>read_end.
           b_then (b_check (\<lambda>s. br_offset s = read_end)
             (''unfinished section (expected end: 0x'' @ show_hex read_end @ '')''))
           (b_then (if sec \<noteq> Section_Custom then b_mod (\<lambda>s. s\<lparr>br_last_known_section := sec\<rparr>) else b_return ())
             (b_return result))))))"

lemma section_tail_strict:
  assumes "strict (br_options s)"
  shows "section_tail sec j Result_Ok s = b_then (ReadSectionBody sec j) (section_end sec Result_Ok) s"
proof -
  obtain r s1 where body: "ReadSectionBody sec j s = (r, s1)" by fastforce
  have o: "opt_stop_on_first_error (br_options s)" "opt_fail_on_custom_section_error (br_options s)"
    using assms by (simp_all add: strict_def)
  show ?thesis
    by (cases r) (simp_all add: section_tail_def section_end_def b_catch_def body b_then_def o b_error_def
        b_bind_def [of "b_get _"] b_get_def b_bind_def [of "ReadSectionBody sec j"]
        b_bind_def [of "b_catch _"] b_bind_def [of b_error] b_bind_def [of "b_return _"] b_return_def Let_def)
qed

lemma section_end_triple:
  assumes "sec \<noteq> Section_Invalid" "rank l = k"
  shows "triple e n (at n l (if sec = Section_Custom then k else Section_code sec) None 0) (section_end sec Result_Ok)
     (between n)"
proof (cases "sec = Section_Custom")
  case True
  have "triple e n (at n l k None 0) (section_end sec Result_Ok) (between n)"
    unfolding section_end_def True
    by (simp, intro lift_bind lift_then obeys triple_return) (use assms(2) in \<open>auto simp: between_def\<close>)
  then show ?thesis using True by simp
next
  case False
  let ?k = "Section_code sec"
  have set_last: "triple e n (at n l ?k None 0) (b_mod (\<lambda>s. s\<lparr>br_last_known_section := sec\<rparr>)) (\<lambda>_. at n sec ?k None 0)"
  proof (rule tripleI)
    show "safe_at e n (b_mod (\<lambda>s. s\<lparr>br_last_known_section := sec\<rparr>))" by (rule safe_counter) (simp add: counter_def)
  qed (auto simp: b_mod_def at_def)
  have ret: "triple e n (at n sec ?k None 0) (b_return Result_Ok) (between n)"
    by (rule triple_return) (use assms(1) in \<open>auto simp: between_def rank_def\<close>)
  have "triple e n (at n l ?k None 0) (section_end sec Result_Ok) (between n)"
    unfolding section_end_def if_P [OF False]
    by (intro lift_bind lift_then obeys triple_then [OF set_last ret])
  then show ?thesis using False by simp
qed

lemma section_tail_triple:
  assumes "sec \<noteq> Section_Invalid" "rank l = k" "safe_at e n (section_tail sec j Result_Ok)"
  shows "triple e n (at n l (if sec = Section_Custom then k else Section_code sec) None 0)
     (section_tail sec j Result_Ok) (between n)"
proof -
  note t = triple_then [OF ReadSectionBody_triple [OF assms(1), where e = e and n = n and l = l and j = j]
      section_end_triple [OF assms(1,2)]]
  show ?thesis
  proof (intro tripleI assms(3))
    fix s assume s: "ready e n s" "at n l (if sec = Section_Custom then k else Section_code sec) None 0 s"
    have eq: "section_tail sec j Result_Ok s = b_then (ReadSectionBody sec j) (section_end sec Result_Ok) s"
      by (rule section_tail_strict) (use s(1) in \<open>simp add: ready_def\<close>)
    show "between n x s'" if "section_tail sec j Result_Ok s = (BOk x, s')" for x s'
      using tripleD(2) [OF t s that [unfolded eq]] .
    show "stopped n (br_delegate_state s')" if "section_tail sec j Result_Ok s = (BError, s')" for s'
      using tripleD(3) [OF t s that [unfolded eq]] .
  qed
qed

section \<open>The module\<close>

lemma section_triple:
  "triple e n (at n l (rank l) None 0) (ReadSection code j Result_Ok) (between n)"
proof (cases "kBinarySectionCount \<le> unat code")
  case True
  then show ?thesis unfolding ReadSection_def if_P [OF True] by (intro triple_fail)
next
  case False
  let ?sec = "Section_of code"
  have sec: "?sec \<noteq> Section_Invalid" using False by (intro Section_of_valid) simp
  have safe_tail: "safe_at e n (section_tail ?sec j Result_Ok)"
    unfolding section_tail_def Let_def
    by (intro safe safe_catch safe_section_body sec safe_counter) (simp_all add: counter_def)
  define c where "c \<longleftrightarrow> l = Section_Invalid \<or> ?sec = Section_Custom \<or> Section_code ?sec > Section_code l"
  have begin_section: "triple e n (at n l (rank l) None 0) (on_module m (Ev_BeginSection ?sec j))
      (\<lambda>_. at n l (if ?sec = Section_Custom then rank l else Section_code ?sec) None 0)" if c for m
  proof -
    have "0 < Section_code ?sec" if "?sec \<noteq> Section_Custom" using that by (cases ?sec) simp_all
    then have "?sec \<noteq> Section_Custom \<Longrightarrow> rank l < Section_code ?sec" using \<open>c\<close> by (auto simp: c_def rank_def)
    then show ?thesis
      unfolding on_module_def by (intro triple_callback) (use sec in \<open>auto simp: step_simps\<close>)
  qed
  have rest: "triple e n (at n l (rank l) None 0) (b_then (b_check d msg)
      (b_then (on_module m (Ev_BeginSection ?sec j)) (section_tail ?sec j Result_Ok))) (between n)" if c for d msg m
    by (rule lift_then [OF obeys_check triple_then [OF begin_section [OF that] section_tail_triple [OF sec refl safe_tail]]])
  have order: "triple e n (at n l (rank l) None 0) (b_check (\<lambda>s. br_last_known_section s = Section_Invalid \<or>
      ?sec = Section_Custom \<or> Section_code ?sec > Section_code (br_last_known_section s)) msg)
      (\<lambda>_ s. at n l (rank l) None 0 s \<and> c)" for msg
    by (rule triple_weaken [OF triple_check [where l = l and k = "rank l" and b = None and m = 0]])
      (auto simp: c_def dest: at_last)
  show ?thesis
    unfolding ReadSection_def if_not_P [OF False] Let_def
    by (fold section_tail_def [unfolded Let_def])
      (rule lift_then [OF obeys_check], rule triple_then [OF order], rule triple_pure, intro safe safe_tail, erule rest)
qed

lemma whole_section_triple:
  "triple n n (at n l (rank l) None 0)
     (b_bind (b_get br_offset) (\<lambda>offset. with_read_end (offset + j) (ReadSection code j Result_Ok))) (between n)"
  (is "triple n n ?P ?f _")
proof (intro tripleI safe_whole_section)
  fix s assume s: "ready n n s" "?P s"
  let ?stop = "br_offset s + j"
  have "(\<forall>x. r = BOk x \<longrightarrow> between n x s') \<and> (r = BError \<longrightarrow> stopped n (br_delegate_state s'))"
    if f: "?f s = (r, s')" for r s'
  proof -
    have f: "with_read_end ?stop (ReadSection code j Result_Ok) s = (r, s')" using f by (simp add: b_bind_def b_get_def)
    obtain s2 where run: "ReadSection code j Result_Ok (s\<lparr>br_read_end := ?stop\<rparr>) = (r, s2)" "s' = s2\<lparr>br_read_end := n\<rparr>"
      using f s(1) by (cases "ReadSection code j Result_Ok (s\<lparr>br_read_end := ?stop\<rparr>)") (auto simp: with_read_end_def ready_def)
    show ?thesis
    proof (cases "?stop \<le> n")
      case True
      then have "ready ?stop n (s\<lparr>br_read_end := ?stop\<rparr>)" "?P (s\<lparr>br_read_end := ?stop\<rparr>)"
        using s by (auto simp: ready_def reader_ok_def)
      from tripleD(2,3) [OF section_triple this] run show ?thesis
        by (cases r) (auto simp: between_def)
    next
      case False
      then have "length (br_data (s\<lparr>br_read_end := ?stop\<rparr>)) < br_read_end (s\<lparr>br_read_end := ?stop\<rparr>)"
        using s(1) by (simp add: ready_def)
      from section_too_long [OF this] obtain msg
        where "b_fail msg (s\<lparr>br_read_end := ?stop\<rparr>) = (r, s2)" using run(1) by metis
      then show ?thesis using run(2) at_stopped [OF s(2,1)] s(1) by (auto simp: fail_run ready_def)
    qed
  qed
  then show "\<And>x s'. ?f s = (BOk x, s') \<Longrightarrow> between n x s'" "\<And>s'. ?f s = (BError, s') \<Longrightarrow> stopped n (br_delegate_state s')"
    by blast+
qed

lemma triple_ex: "(\<And>l. triple e n (P l) f Q) \<Longrightarrow> triple e n (\<lambda>s. \<exists>l. P l s) f Q"
  unfolding triple_def by blast

lemma sections_triple: "triple n n (\<lambda>s. \<exists>l. at n l (rank l) None 0 s) ReadSections (\<lambda>_ s. \<exists>l. at n l (rank l) None 0 s)"
proof -
  let ?f = "\<lambda>result. b_bind (BR_ReadU32Leb128 ''section code'') (\<lambda>section_code.
       b_bind (ReadOffset ''section size'') (\<lambda>section_size.
       b_bind (b_get br_offset) (\<lambda>offset.
         with_read_end (offset + section_size) (ReadSection section_code section_size result))))"
  have step: "triple n n (between n r) (?f r) (between n)" for r
  proof (cases "r = Result_Ok")
    case True
    have "triple n n (\<lambda>s. \<exists>l. at n l (rank l) None 0 s) (?f Result_Ok) (between n)"
      by (rule triple_ex, rule lift_bind [OF obeys_numbers(6)], rule lift_bind [OF obeys_numbers(12)], rule whole_section_triple)
    then show ?thesis unfolding True by (rule triple_weaken) (auto simp: between_def)
  next
    case False
    have "safe_at n n (?f r)" by (intro safe safe_whole_section)
    then show ?thesis using False by (auto simp: triple_def between_def)
  qed
  have safe_loop: "safe_at n n (b_until (\<lambda>s. length (br_data s)) ?f Result_Ok)"
    by (intro safe_until [where stop = n] eats safe safe_whole_section)
  have last: "triple n n (between n r) (if Succeeded r then b_return () else b_error) (\<lambda>_ s. \<exists>l. at n l (rank l) None 0 s)" for r
  proof (cases "r = Result_Ok")
    case False
    have "safe_at n n (b_error :: ('d, unit) bop)" by (rule safe)
    then show ?thesis using False by (auto simp: triple_def between_def)
  qed (auto simp: between_def intro: triple_return)
  show ?thesis
    unfolding ReadSections_def
    by (rule triple_bind [OF triple_weaken [OF triple_until [OF step safe_loop]] last]) (auto simp: between_def)
qed

text \<open>\<open>EndModule\<close>, the last callback.\<close>

definition complete :: "nat \<Rightarrow> 'd BinaryReader \<Rightarrow> bool" where
  "complete n s \<longleftrightarrow> (\<exists>es. after (es @ [Module_Event Ev_EndModule]) (br_delegate_state s) \<and>
     follows_protocol n (es @ [Module_Event Ev_EndModule]))"

lemma end_module_triple: "triple n n (at n l k None 0) (on_module m Ev_EndModule) (\<lambda>_. complete n)"
  unfolding on_module_def
proof (rule tripleI)
  let ?ev = "Module_Event Ev_EndModule"
  show "safe_at n n (CALLBACK m ?ev)" by (rule safe)
  fix s assume s: "ready n n s" "at n l k None 0 s"
  obtain es p where es: "after es (br_delegate_state s)" "protocol_run n protocol_init es = Some p"
    and p: "\<not> pr_done p" "pr_added p \<le> br_offset s" using s(2) by (auto simp: at_def)
  have d: "br_delegate s = D" and "br_offset s \<le> n" using s(1) by (auto simp: ready_def reader_ok_def)
  then have follows: "follows_protocol n (es @ [?ev])"
    using es(2) p by (simp add: follows_protocol_def protocol_run_snoc step_simps)
  show "complete n s'" if run: "CALLBACK m ?ev s = (BOk x, s')" for x s'
  proof -
    obtain d' where "deliver D (br_offset s) ?ev (br_delegate_state s) = (Some Result_Ok, d')"
      and s': "s' = s\<lparr>br_delegate_state := d'\<rparr>" using callback_Ok [OF run] d by auto
    from accept [OF es(1) this(1)] follows show ?thesis unfolding complete_def using s' by auto
  qed
  show "stopped n (br_delegate_state s')" if run: "CALLBACK m ?ev s = (BError, s')" for s'
  proof -
    obtain d' off level msg where d': "deliver D (br_offset s) ?ev (br_delegate_state s) = (Some Result_Error, d')"
      "br_delegate_state s' = on_error D off level msg d'" using callback_Error [OF run] d by auto
    have "failed (es @ [?ev]) (br_delegate_state s')" unfolding d'(2) by (rule refuse [OF es(1) d'(1)])
    then show ?thesis using follows unfolding stopped_def by blast
  qed
qed

lemma module_triple: "triple n n (at n Section_Invalid 0 None 0) ReadModule (\<lambda>_. complete n)"
proof -
  have begin_module: "obeys n n 0 (on_module m (Ev_BeginModule v))" for m v
    by (rule obeys_events(1)) (rule ordinary_custom)
  have sections: "triple n n (at n Section_Invalid 0 None 0) ReadSections (\<lambda>_ s. \<exists>l. at n l (rank l) None 0 s)"
    by (rule triple_weaken [OF sections_triple]) (auto simp: rank_def)
  show ?thesis
    unfolding ReadModule_def
    by (intro triple_then [OF sections triple_ex [OF end_module_triple]] lift_bind lift_then obeys begin_module)
qed

text \<open>What every delegate may rely on.\<close>

lemma ReadBinary_events:
  assumes "strict options" "after [] d0" "ReadBinary data D d0 options = (r, d)"
  shows "r = BOk () \<Longrightarrow> \<exists>es. after (es @ [Module_Event Ev_EndModule]) d \<and>
      follows_protocol (length data) (es @ [Module_Event Ev_EndModule])"
    and "r = BError \<Longrightarrow> \<exists>es. failed es d \<and> follows_protocol (length data) es"
proof -
  let ?n = "length data" and ?s = "BinaryReader_init data D d0 options"
  obtain s where run: "ReadModule ?s = (r, s)" and d: "d = br_delegate_state s"
    using assms(3) by (auto simp: ReadBinary_def split: prod.splits)
  have start: "ready ?n ?n ?s" "at ?n Section_Invalid 0 None 0 ?s"
    using assms(1,2) by (auto simp: ready_def reader_ok_def at_def BinaryReader_init_def protocol_init_def intro: exI [of _ "[]"])
  show "\<exists>es. after (es @ [Module_Event Ev_EndModule]) d \<and> follows_protocol ?n (es @ [Module_Event Ev_EndModule])" if "r = BOk ()"
    using tripleD(2) [OF module_triple start run [unfolded that]] by (simp add: complete_def d)
  show "\<exists>es. failed es d \<and> follows_protocol ?n es" if "r = BError"
    using tripleD(3) [OF module_triple start run [unfolded that]] by (simp add: stopped_def d)
qed

end

end
