(* ===== verification/InterpReader.thy ===== *)
theory InterpReader
  imports InterpMachine TypeChecker
begin

text \<open>
  The loader of the interpreter (\<^verbatim>\<open>src/binary-reader-interp.cc\<close>): the callbacks the binary reader
  makes for a module build its functions, tables, memories and globals in the store, check the
  code with the type checker, and translate it to the interpreter's instruction stream. The
  theory holds the state and the helpers, up to branches and fixups; the callbacks follow in
  \<open>InterpLoad\<close>.
\<close>

section \<open>State\<close>

record Label =
  Label_offset :: u32
  Label_fixup_offset :: u32

text \<open>\<open>Index* dst\<close>: the table and the position the pointer was taken of.\<close>

record ElemSegmentInfo =
  elem_dst :: "Index \<times> nat"
  elem_func_index :: Index

record DataSegmentInfo =
  data_dst :: "Index \<times> nat"
  data_src :: bytes

text \<open>
  Pointers into the store are indices: \<open>module_\<close> into its modules, \<open>current_func_\<close> into its
  functions. The label stack has its top first. Errors of the loader and of its type checker go
  to the same handler, in the order they are found: the list \<open>errors\<close> of the type checker.
\<close>

record BinaryReaderInterp =
  rd_env :: Environment
  rd_module :: nat
  rd_current_func :: "Index option"
  rd_typechecker :: type_checker
  rd_label_stack :: "Label list"
  rd_func_fixups :: "u32 list list"
  rd_depth_fixups :: "u32 list list"
  rd_istream :: bytes
  rd_istream_offset :: u32
  rd_sig_index_mapping :: "Index list"
  rd_func_index_mapping :: "Index list"
  rd_global_index_mapping :: "Index list"
  rd_num_func_imports :: Index
  rd_num_global_imports :: Index
  rd_elem_segment_infos :: "ElemSegmentInfo list"
  rd_data_segment_infos :: "DataSegmentInfo list"
  rd_init_expr_value :: TypedValue
  rd_table_offset :: u32

text \<open>
  A callback gives a value, returns \<open>Result::Error\<close>, or has undefined behaviour: an index out of
  range, a failed assertion.
\<close>

datatype 'a rres = ROk 'a | RError | RUndef

type_synonym 'a rop = "BinaryReaderInterp \<Rightarrow> 'a rres \<times> BinaryReaderInterp"

definition r_return :: "'a \<Rightarrow> 'a rop" where
  "r_return x s = (ROk x, s)"

text \<open>\<open>CHECK_RESULT\<close> and what follows.\<close>

definition r_bind :: "'a rop \<Rightarrow> ('a \<Rightarrow> 'b rop) \<Rightarrow> 'b rop" where
  "r_bind f g s = (case f s of
     (ROk x, s1) \<Rightarrow> g x s1
   | (RError, s1) \<Rightarrow> (RError, s1)
   | (RUndef, s1) \<Rightarrow> (RUndef, s1))"

definition r_then :: "'a rop \<Rightarrow> 'b rop \<Rightarrow> 'b rop" where
  "r_then f g = r_bind f (\<lambda>_. g)"

definition r_get :: "(BinaryReaderInterp \<Rightarrow> 'a) \<Rightarrow> 'a rop" where
  "r_get f s = (ROk (f s), s)"

definition r_mod :: "(BinaryReaderInterp \<Rightarrow> BinaryReaderInterp) \<Rightarrow> unit rop" where
  "r_mod f s = (ROk (), f s)"

definition r_undef :: "'a rop" where
  "r_undef s = (RUndef, s)"

definition r_assert :: "bool \<Rightarrow> unit rop" where
  "r_assert c = (if c then r_return () else r_undef)"

text \<open>An element of a vector.\<close>

definition r_nth :: "'a list \<Rightarrow> nat \<Rightarrow> 'a rop" where
  "r_nth xs i = (if i < length xs then r_return (xs ! i) else r_undef)"

fun r_each :: "('a \<Rightarrow> unit rop) \<Rightarrow> 'a list \<Rightarrow> unit rop" where
  "r_each f [] = r_return ()"
| "r_each f (x # xs) = r_then (f x) (r_each f xs)"

definition Reader_PrintError :: "string \<Rightarrow> unit rop" where
  "Reader_PrintError msg = r_mod (\<lambda>s. s\<lparr>rd_typechecker := PrintError msg (rd_typechecker s)\<rparr>)"

text \<open>\<open>PrintError(...); return Result::Error\<close>\<close>

definition r_fail :: "string \<Rightarrow> 'a rop" where
  "r_fail msg s = (RError, snd (Reader_PrintError msg s))"

text \<open>\<open>CHECK_RESULT(typechecker_.f())\<close>\<close>

definition r_check :: "tc_op \<Rightarrow> unit rop" where
  "r_check f s =
     (case f (rd_typechecker s) of (r, t) \<Rightarrow>
        (if Succeeded r then ROk () else RError, s\<lparr>rd_typechecker := t\<rparr>))"

section \<open>Indices\<close>

definition TranslateSigIndexToEnv :: "Index \<Rightarrow> Index rop" where
  "TranslateSigIndexToEnv sig_index =
     r_bind (r_get rd_sig_index_mapping) (\<lambda>m. r_nth m (unat sig_index))"

definition GetFuncSignature :: "Index \<Rightarrow> FuncSignature rop" where
  "GetFuncSignature i = r_bind (r_get (env_sigs \<circ> rd_env)) (\<lambda>sigs. r_nth sigs (unat i))"

definition GetFunc :: "Index \<Rightarrow> Func rop" where
  "GetFunc i = r_bind (r_get (env_funcs \<circ> rd_env)) (\<lambda>fs. r_nth fs (unat i))"

definition GetTable :: "Index \<Rightarrow> Table rop" where
  "GetTable i = r_bind (r_get (env_tables \<circ> rd_env)) (\<lambda>ts. r_nth ts (unat i))"

definition GetMemory :: "Index \<Rightarrow> Memory rop" where
  "GetMemory i = r_bind (r_get (env_memories \<circ> rd_env)) (\<lambda>ms. r_nth ms (unat i))"

definition GetGlobal :: "Index \<Rightarrow> Global rop" where
  "GetGlobal i = r_bind (r_get (env_globals \<circ> rd_env)) (\<lambda>gs. r_nth gs (unat i))"

definition GetSignatureByModuleIndex :: "Index \<Rightarrow> FuncSignature rop" where
  "GetSignatureByModuleIndex sig_index = r_bind (TranslateSigIndexToEnv sig_index) GetFuncSignature"

text \<open>
  A block type: an enumerator of \<open>Type\<close> or the index of a signature, a value of \<open>Type\<close> that is not
  negative. \<open>Type::Any\<close> is 0, and so taken for an index.
\<close>

datatype SigType = Sig_Type wtype | Sig_Index Index

fun GetBlockSignature :: "SigType \<Rightarrow> (TypeVector \<times> TypeVector) rop" where
  "GetBlockSignature (Sig_Index i) =
     r_bind (GetSignatureByModuleIndex i) (\<lambda>sig. r_return (sig_param_types sig, sig_result_types sig))"
| "GetBlockSignature (Sig_Type t) =
     (if IsTypeIndex t then
        r_bind (GetSignatureByModuleIndex (of_int (Type_code t)))
          (\<lambda>sig. r_return (sig_param_types sig, sig_result_types sig))
      else case GetInlineTypeVector t of None \<Rightarrow> r_undef | Some ts \<Rightarrow> r_return ([], ts))"

definition TranslateFuncIndexToEnv :: "Index \<Rightarrow> Index rop" where
  "TranslateFuncIndexToEnv func_index =
     r_bind (r_get rd_func_index_mapping) (\<lambda>m. r_nth m (unat func_index))"

definition TranslateModuleFuncIndexToDefined :: "Index \<Rightarrow> Index rop" where
  "TranslateModuleFuncIndexToDefined func_index =
     r_bind (r_get rd_num_func_imports) (\<lambda>n.
       r_then (r_assert (n \<le> func_index)) (r_return (func_index - n)))"

definition GetFuncByModuleIndex :: "Index \<Rightarrow> Func rop" where
  "GetFuncByModuleIndex func_index = r_bind (TranslateFuncIndexToEnv func_index) GetFunc"

definition TranslateGlobalIndexToEnv :: "Index \<Rightarrow> Index rop" where
  "TranslateGlobalIndexToEnv global_index =
     r_bind (r_get rd_global_index_mapping) (\<lambda>m. r_nth m (unat global_index))"

definition GetGlobalByModuleIndex :: "Index \<Rightarrow> Global rop" where
  "GetGlobalByModuleIndex global_index = r_bind (TranslateGlobalIndexToEnv global_index) GetGlobal"

definition GetGlobalTypeByModuleIndex :: "Index \<Rightarrow> wtype rop" where
  "GetGlobalTypeByModuleIndex global_index =
     r_bind (GetGlobalByModuleIndex global_index) (\<lambda>g. r_return (tv_type (global_typed_value g)))"

definition GetLocalTypeByIndex :: "Func \<Rightarrow> Index \<Rightarrow> wtype rop" where
  "GetLocalTypeByIndex func local_index =
     r_then (r_assert (\<not> is_host func)) (r_nth (func_param_and_local_types func) (unat local_index))"

text \<open>\<open>current_func_\<close>, and assignments through it; \<open>module_\<close>, and assignments through it.\<close>

definition current_func :: "Func rop" where
  "current_func = r_bind (r_get rd_current_func) (\<lambda>i. case i of None \<Rightarrow> r_undef | Some i \<Rightarrow> GetFunc i)"

definition update_env :: "(Environment \<Rightarrow> Environment) \<Rightarrow> unit rop" where
  "update_env f = r_mod (\<lambda>s. s\<lparr>rd_env := f (rd_env s)\<rparr>)"

definition update_func :: "Index \<Rightarrow> (Func \<Rightarrow> Func) \<Rightarrow> unit rop" where
  "update_func i f = update_env (\<lambda>e. e\<lparr>env_funcs := (env_funcs e)[unat i := f (env_funcs e ! unat i)]\<rparr>)"

definition update_current_func :: "(Func \<Rightarrow> Func) \<Rightarrow> unit rop" where
  "update_current_func f =
     r_bind (r_get rd_current_func) (\<lambda>i. case i of None \<Rightarrow> r_undef | Some i \<Rightarrow> update_func i f)"

definition update_module :: "nat \<Rightarrow> (Module \<Rightarrow> Module) \<Rightarrow> unit rop" where
  "update_module m f = update_env (\<lambda>e. e\<lparr>env_modules := (env_modules e)[m := f (env_modules e ! m)]\<rparr>)"

definition this_module :: "Module rop" where
  "this_module = r_get (\<lambda>s. env_modules (rd_env s) ! rd_module s)"

definition update_this_module :: "(Module \<Rightarrow> Module) \<Rightarrow> unit rop" where
  "update_this_module f = r_bind (r_get rd_module) (\<lambda>m. update_module m f)"

section \<open>Emitting\<close>

text \<open>\<open>MemoryStream::WriteDataImpl\<close>: the buffer grows up to the end of what is written.\<close>

definition MemoryStream_WriteData :: "nat \<Rightarrow> bytes \<Rightarrow> bytes \<Rightarrow> bytes" where
  "MemoryStream_WriteData dst_offset src buf =
     (if src = [] then buf
      else let buf1 = (if length buf < dst_offset + length src
                       then bytes_resize (dst_offset + length src) buf else buf)
           in bytes_store dst_offset src buf1)"

definition EmitDataAt :: "u32 \<Rightarrow> bytes \<Rightarrow> unit rop" where
  "EmitDataAt offset data =
     r_mod (\<lambda>s. s\<lparr>rd_istream := MemoryStream_WriteData (unat offset) data (rd_istream s)\<rparr>)"

definition EmitData :: "bytes \<Rightarrow> unit rop" where
  "EmitData data =
     r_bind (r_get rd_istream_offset) (\<lambda>offset.
       r_then (EmitDataAt offset data)
         (r_mod (\<lambda>s. s\<lparr>rd_istream_offset := rd_istream_offset s + of_nat (length data)\<rparr>)))"

definition EmitI8 :: "u8 \<Rightarrow> unit rop" where "EmitI8 value = EmitData (word_le value)"
definition EmitI32 :: "u32 \<Rightarrow> unit rop" where "EmitI32 value = EmitData (word_le value)"
definition EmitI64 :: "u64 \<Rightarrow> unit rop" where "EmitI64 value = EmitData (word_le value)"
definition EmitV128 :: "v128 \<Rightarrow> unit rop" where "EmitV128 value = EmitData (word_le value)"

definition EmitI32At :: "u32 \<Rightarrow> u32 \<Rightarrow> unit rop" where
  "EmitI32At offset value = EmitDataAt offset (word_le value)"

definition EmitOpcode :: "u32 \<Rightarrow> unit rop" where
  "EmitOpcode opcode =
     r_then (if HasPrefix opcode then EmitI8 (GetPrefix opcode) else r_return ())
       (let code = GetCode opcode
        in r_then (r_assert (code < 256)) (EmitI8 (ucast code)))"

definition EmitOp :: "string \<Rightarrow> unit rop" where
  "EmitOp name = EmitOpcode (Opcode_of name)"

definition EmitDropKeep :: "u32 \<Rightarrow> u32 \<Rightarrow> unit rop" where
  "EmitDropKeep drop_count keep =
     r_then (r_assert (drop_count \<noteq> 0xffffffff \<and> keep \<noteq> 0xffffffff))
       (if drop_count > 0 then
          if drop_count = 1 \<and> keep = 0 then EmitOp ''Drop''
          else r_then (EmitOp ''InterpDropKeep'') (r_then (EmitI32 drop_count) (EmitI32 keep))
        else r_return ())"

section \<open>Labels and fixups\<close>

definition Reader_GetLabel :: "Index \<Rightarrow> Label rop" where
  "Reader_GetLabel depth = r_bind (r_get rd_label_stack) (\<lambda>ls. r_nth ls (unat depth))"

definition Reader_TopLabel :: "Label rop" where
  "Reader_TopLabel = Reader_GetLabel 0"

definition Reader_PushLabel :: "u32 \<Rightarrow> u32 \<Rightarrow> unit rop" where
  "Reader_PushLabel offset fixup_offset =
     r_mod (\<lambda>s. s\<lparr>rd_label_stack :=
       \<lparr>Label_offset = offset, Label_fixup_offset = fixup_offset\<rparr> # rd_label_stack s\<rparr>)"

text \<open>\<open>pop_back\<close> of an empty vector is undefined.\<close>

definition Reader_PopLabel :: "unit rop" where
  "Reader_PopLabel =
     r_bind (r_get rd_label_stack) (\<lambda>ls.
       r_then (r_assert (ls \<noteq> []))
         (r_mod (\<lambda>s. s\<lparr>rd_label_stack := tl ls,
           rd_depth_fixups := take (length ls - 1) (rd_depth_fixups s)\<rparr>)))"

text \<open>\<open>resize(index + 1)\<close> and \<open>push_back\<close>\<close>

definition AppendFixup :: "u32 list list \<Rightarrow> nat \<Rightarrow> u32 \<Rightarrow> u32 list list" where
  "AppendFixup fixups_vector index offset =
     (let v = (if length fixups_vector \<le> index
               then fixups_vector @ replicate (index + 1 - length fixups_vector) [] else fixups_vector)
      in v[index := v ! index @ [offset]])"

definition append_depth_fixup :: "Index \<Rightarrow> unit rop" where
  "append_depth_fixup depth =
     r_mod (\<lambda>s. s\<lparr>rd_depth_fixups := AppendFixup (rd_depth_fixups s) (unat depth) (rd_istream_offset s)\<rparr>)"

definition append_func_fixup :: "Index \<Rightarrow> unit rop" where
  "append_func_fixup defined_index =
     r_mod (\<lambda>s. s\<lparr>rd_func_fixups := AppendFixup (rd_func_fixups s) (unat defined_index) (rd_istream_offset s)\<rparr>)"

text \<open>The depth of a fixup counts from the function's scope; the subtraction is of \<open>Index\<close>.\<close>

definition EmitBrOffset :: "Index \<Rightarrow> u32 \<Rightarrow> unit rop" where
  "EmitBrOffset depth offset =
     r_then (if offset = kInvalidIstreamOffset then
               r_bind (r_get rd_label_stack) (\<lambda>ls. append_depth_fixup (of_nat (length ls) - 1 - depth))
             else r_return ())
       (EmitI32 offset)"

definition GetBrDropKeepCount :: "Index \<Rightarrow> (Index \<times> Index) rop" where
  "GetBrDropKeepCount depth s =
     (case GetLabel (unat depth) (rd_typechecker s) of
        (None, t) \<Rightarrow> (RError, s\<lparr>rd_typechecker := t\<rparr>)
      | (Some l, t) \<Rightarrow>
          let keep_count = of_nat (length (br_types l)) :: Index
          in case IsUnreachable t of (u, t1) \<Rightarrow>
               (ROk (if u then 0
                     else of_nat (length (type_stack t1)) - of_nat (type_stack_limit l) - keep_count,
                     keep_count),
                s\<lparr>rd_typechecker := t1\<rparr>))"

definition GetReturnDropKeepCount :: "(Index \<times> Index) rop" where
  "GetReturnDropKeepCount =
     r_bind (r_get rd_label_stack) (\<lambda>ls.
     r_bind (GetBrDropKeepCount (of_nat (length ls) - 1)) (\<lambda>(drop_count, keep_count).
     r_bind current_func (\<lambda>func.
       r_return (drop_count + of_nat (length (func_param_and_local_types func)), keep_count))))"

definition EmitBr :: "Index \<Rightarrow> Index \<Rightarrow> Index \<Rightarrow> unit rop" where
  "EmitBr depth drop_count keep_count =
     r_then (EmitDropKeep drop_count keep_count)
     (r_then (EmitOp ''Br'')
     (r_bind (Reader_GetLabel depth) (\<lambda>l. EmitBrOffset depth (Label_offset l))))"

definition EmitBrTableOffset :: "Index \<Rightarrow> unit rop" where
  "EmitBrTableOffset depth =
     r_bind (GetBrDropKeepCount depth) (\<lambda>(drop_count, keep_count).
     r_bind (Reader_GetLabel depth) (\<lambda>l.
     r_then (EmitBrOffset depth (Label_offset l))
     (r_then (EmitI32 drop_count) (EmitI32 keep_count))))"

text \<open>\<open>top\<close> is \<open>size() - 1\<close> of the label stack, as an \<open>Index\<close>.\<close>

definition FixupTopLabel :: "unit rop" where
  "FixupTopLabel =
     r_bind (r_get rd_istream_offset) (\<lambda>offset.
     r_bind (r_get rd_label_stack) (\<lambda>ls.
     r_bind (r_get rd_depth_fixups) (\<lambda>fixups.
       let top = unat (of_nat (length ls) - 1 :: Index)
       in if length fixups \<le> top then r_return ()
          else r_then (r_each (\<lambda>fixup. EmitI32At fixup offset) (fixups ! top))
                 (r_mod (\<lambda>s. s\<lparr>rd_depth_fixups := (rd_depth_fixups s)[top := []]\<rparr>)))))"

definition EmitFuncOffset :: "Func \<Rightarrow> Index \<Rightarrow> unit rop" where
  "EmitFuncOffset func func_index =
     r_then (if func_offset func = kInvalidIstreamOffset
             then r_bind (TranslateModuleFuncIndexToDefined func_index) append_func_fixup
             else r_return ())
       (EmitI32 (func_offset func))"

end
