(* ===== verification/InterpLoad.thy ===== *)
theory InterpLoad
  imports InterpReader
begin

text \<open>
  The callbacks of the loader (\<^verbatim>\<open>src/binary-reader-interp.cc\<close>), in the order of the code, and
  \<open>ReadBinaryInterp\<close>: it runs the callbacks the binary reader makes, up to the first that fails,
  and undoes everything with \<open>ResetToMarkPoint\<close> if one does or the module cannot be parsed.
  \<open>pick\<close> chooses among the entries of a \<open>BindingHash\<close> with one key.
\<close>

section \<open>Types and checks\<close>

definition OnTypeCount :: "Index \<Rightarrow> unit rop" where
  "OnTypeCount count = r_mod (\<lambda>s.
     let sig_count = of_nat (length (env_sigs (rd_env s))) :: Index
     in s\<lparr>rd_sig_index_mapping := map (\<lambda>i. sig_count + of_nat i) [0..<unat count]\<rparr>)"

definition OnType :: "Index \<Rightarrow> TypeVector \<Rightarrow> TypeVector \<Rightarrow> unit rop" where
  "OnType index params results =
     r_bind (TranslateSigIndexToEnv index) (\<lambda>i.
     r_bind (r_get (env_sigs \<circ> rd_env)) (\<lambda>sigs.
     r_then (r_assert (i = of_nat (length sigs)))
       (update_env (EmplaceBackFuncSignature
          \<lparr>sig_param_types = params, sig_result_types = results\<rparr>))))"

definition CheckLocal :: "Index \<Rightarrow> unit rop" where
  "CheckLocal local_index =
     r_bind current_func (\<lambda>func.
       let max_local_index = of_nat (length (func_param_and_local_types func)) :: Index
       in if local_index \<ge> max_local_index
          then r_fail (''invalid local_index: '' @ show_nat (unat local_index) @ '' (max '' @
                 show_nat (unat max_local_index) @ '')'')
          else r_return ())"

definition CheckGlobal :: "Index \<Rightarrow> unit rop" where
  "CheckGlobal global_index =
     r_bind (r_get rd_global_index_mapping) (\<lambda>m.
       let max_global_index = of_nat (length m) :: Index
       in if global_index \<ge> max_global_index
          then r_fail (''invalid global_index: '' @ show_nat (unat global_index) @ '' (max '' @
                 show_nat (unat max_global_index) @ '')'')
          else r_return ())"

fun GetKindName :: "ExternalKind \<Rightarrow> string" where
  "GetKindName EK_Func = ''func''"
| "GetKindName EK_Table = ''table''"
| "GetKindName EK_Memory = ''memory''"
| "GetKindName EK_Global = ''global''"
| "GetKindName EK_Except = ''except''"

definition CheckImportKind :: "string \<Rightarrow> string \<Rightarrow> ExternalKind \<Rightarrow> ExternalKind \<Rightarrow> unit rop" where
  "CheckImportKind module_name field_name import_kind actual_kind =
     (if import_kind \<noteq> actual_kind
      then r_fail (''expected import \"'' @ module_name @ ''.'' @ field_name @ ''\" to have kind '' @
             GetKindName import_kind @ '', not '' @ GetKindName actual_kind)
      else r_return ())"

definition CheckImportLimits :: "Limits \<Rightarrow> Limits \<Rightarrow> unit rop" where
  "CheckImportLimits declared_limits actual_limits =
     (if lim_initial actual_limits < lim_initial declared_limits
      then r_fail (''actual size ('' @ show_nat (unat (lim_initial actual_limits)) @
             '') smaller than declared ('' @ show_nat (unat (lim_initial declared_limits)) @ '')'')
      else if lim_has_max declared_limits then
        if \<not> lim_has_max actual_limits
        then r_fail (''max size (unspecified) larger than declared ('' @
               show_nat (unat (lim_max declared_limits)) @ '')'')
        else if lim_max actual_limits > lim_max declared_limits
        then r_fail (''max size ('' @ show_nat (unat (lim_max actual_limits)) @
               '') larger than declared ('' @ show_nat (unat (lim_max declared_limits)) @ '')'')
        else r_return ()
      else r_return ())"

section \<open>Imports and exports\<close>

definition push_export :: "ExternalKind \<Rightarrow> Index \<Rightarrow> string \<Rightarrow> Module \<Rightarrow> Module" where
  "push_export kind item_index name m = m\<lparr>
     mod_exports := mod_exports m @ [\<lparr>export_name = name, export_kind = kind, export_index = item_index\<rparr>],
     mod_export_bindings := mod_export_bindings m @ [(name, of_nat (length (mod_exports m)))]\<rparr>"

definition AppendExport :: "(Index list \<Rightarrow> Index) \<Rightarrow> nat \<Rightarrow> ExternalKind \<Rightarrow> Index \<Rightarrow> string \<Rightarrow> unit rop" where
  "AppendExport pick m kind item_index name =
     r_bind (r_get (\<lambda>s. env_modules (rd_env s) ! m)) (\<lambda>module.
       if \<not> mod_is_host module \<and>
          BindingHash_FindIndex pick (mod_export_bindings module) name \<noteq> kInvalidIndex
       then r_fail (''duplicate export \"'' @ name @ ''\"'')
       else update_module m (push_export kind item_index name))"

definition FindRegisteredModule :: "(Index list \<Rightarrow> Index) \<Rightarrow> string \<Rightarrow> nat rop" where
  "FindRegisteredModule pick module_name =
     r_bind (r_get (env_registered_module_bindings \<circ> rd_env)) (\<lambda>h.
       case map snd (filter (\<lambda>b. fst b = module_name) h) of
         [] \<Rightarrow> r_fail (''unknown import module \"'' @ module_name @ ''\"'')
       | is \<Rightarrow> r_return (unat (pick is)))"

definition GetModuleExport :: "(Index list \<Rightarrow> Index) \<Rightarrow> Module \<Rightarrow> string \<Rightarrow> Export rop" where
  "GetModuleExport pick module field_name =
     (case Module_GetExport pick module field_name of
        None \<Rightarrow> r_fail (''unknown module field \"'' @ field_name @ ''\"'')
      | Some ex \<Rightarrow> r_return ex)"

text \<open>
  \<open>HostImportDelegate\<close>: the embedder's code. It gets the names of the import and the object that
  was added to the store for it, may change that object, and may report errors.
\<close>

record HostImportDelegate =
  ImportFunc :: "Module \<Rightarrow> string \<Rightarrow> string \<Rightarrow> FuncSignature \<Rightarrow> Result \<times> string list"
  ImportTable :: "Module \<Rightarrow> string \<Rightarrow> string \<Rightarrow> Table \<Rightarrow> Result \<times> Table \<times> string list"
  ImportMemory :: "Module \<Rightarrow> string \<Rightarrow> string \<Rightarrow> Memory \<Rightarrow> Result \<times> Memory \<times> string list"
  ImportGlobal :: "Module \<Rightarrow> string \<Rightarrow> string \<Rightarrow> Global \<Rightarrow> Result \<times> Global \<times> string list"

definition r_result :: "Result \<Rightarrow> string list \<Rightarrow> unit rop" where
  "r_result r msgs =
     r_then (r_each Reader_PrintError msgs) (if Succeeded r then r_return () else (\<lambda>s. (RError, s)))"

definition update_last :: "('a \<Rightarrow> 'a) \<Rightarrow> 'a list \<Rightarrow> 'a list" where
  "update_last f xs = xs[length xs - 1 := f (last xs)]"

definition add_func_index :: "Index \<Rightarrow> unit rop" where
  "add_func_index i = r_mod (\<lambda>s. s\<lparr>rd_func_index_mapping := rd_func_index_mapping s @ [i],
     rd_num_func_imports := rd_num_func_imports s + 1\<rparr>)"

text \<open>The result of \<open>AppendExport\<close> is ignored for host modules, for which it cannot fail.\<close>

definition r_ignore :: "unit rop \<Rightarrow> unit rop" where
  "r_ignore f s = (case f s of (RUndef, s1) \<Rightarrow> (RUndef, s1) | (r, s1) \<Rightarrow> (ROk (), s1))"

definition OnImportFunc :: "(Index list \<Rightarrow> Index) \<Rightarrow> HostImportDelegate \<Rightarrow> string \<Rightarrow> string \<Rightarrow> Index \<Rightarrow> unit rop" where
  "OnImportFunc pick host module_name field_name sig_index =
     r_bind (TranslateSigIndexToEnv sig_index) (\<lambda>import_sig_index.
     r_bind (FindRegisteredModule pick module_name) (\<lambda>m.
     r_bind (r_get (env_modules \<circ> rd_env)) (\<lambda>ms.
     r_bind (r_nth ms m) (\<lambda>import_module.
       if mod_is_host import_module then
         r_then (update_env (EmplaceBackFunc (HostFunc import_sig_index module_name field_name)))
         (r_bind (GetFuncSignature import_sig_index) (\<lambda>sig.
          case ImportFunc host import_module module_name field_name sig of (r, msgs) \<Rightarrow>
          r_then (r_result r msgs)
          (r_bind (r_get (\<lambda>s. of_nat (length (env_funcs (rd_env s)) - 1))) (\<lambda>func_env_index.
           r_then (r_ignore (AppendExport pick m EK_Func func_env_index field_name))
             (add_func_index func_env_index)))))
       else
         r_bind (GetModuleExport pick import_module field_name) (\<lambda>ex.
         r_then (CheckImportKind module_name field_name EK_Func (export_kind ex))
         (r_bind (GetFunc (export_index ex)) (\<lambda>func.
          r_bind (r_get rd_env) (\<lambda>e.
          case FuncSignaturesAreEqual e import_sig_index (func_sig_index func) of
            None \<Rightarrow> r_undef
          | Some same \<Rightarrow>
              if \<not> same then r_fail ''import signature mismatch''
              else add_func_index (export_index ex)))))))))"

definition OnImportTable :: "(Index list \<Rightarrow> Index) \<Rightarrow> HostImportDelegate \<Rightarrow> string \<Rightarrow> string \<Rightarrow> Limits \<Rightarrow> unit rop" where
  "OnImportTable pick host module_name field_name elem_limits =
     r_bind this_module (\<lambda>module.
     if mod_table_index module \<noteq> kInvalidIndex then r_fail ''only one table allowed''
     else
     r_bind (FindRegisteredModule pick module_name) (\<lambda>m.
     r_bind (r_get (env_modules \<circ> rd_env)) (\<lambda>ms.
     r_bind (r_nth ms m) (\<lambda>import_module.
       if mod_is_host import_module then
         case ImportTable host import_module module_name field_name (Table_init elem_limits) of (r, table, msgs) \<Rightarrow>
         r_then (update_env (EmplaceBackTable table))
         (r_then (r_result r msgs)
         (r_then (CheckImportLimits elem_limits (table_limits table))
         (r_then (update_env (\<lambda>e. e\<lparr>env_tables := update_last (\<lambda>t. t\<lparr>func_indexes :=
             take (unat (lim_initial (table_limits t))) (func_indexes t) @
             replicate (unat (lim_initial (table_limits t)) - length (func_indexes t)) 0\<rparr>) (env_tables e)\<rparr>))
         (r_bind (r_get (\<lambda>s. of_nat (length (env_tables (rd_env s)) - 1))) (\<lambda>i.
          r_then (update_this_module (\<lambda>m. m\<lparr>mod_table_index := i\<rparr>))
            (r_ignore (AppendExport pick m EK_Table i field_name)))))))
       else
         r_bind (GetModuleExport pick import_module field_name) (\<lambda>ex.
         r_then (CheckImportKind module_name field_name EK_Table (export_kind ex))
         (r_bind (GetTable (export_index ex)) (\<lambda>table.
          r_then (CheckImportLimits elem_limits (table_limits table))
            (update_this_module (\<lambda>m. m\<lparr>mod_table_index := export_index ex\<rparr>)))))))))"

definition Memory_default :: Memory where
  "Memory_default = \<lparr>page_limits = \<lparr>lim_initial = 0, lim_max = 0, lim_has_max = False, lim_is_shared = False\<rparr>,
     memory_data = []\<rparr>"

definition OnImportMemory :: "(Index list \<Rightarrow> Index) \<Rightarrow> HostImportDelegate \<Rightarrow> string \<Rightarrow> string \<Rightarrow> Limits \<Rightarrow> unit rop" where
  "OnImportMemory pick host module_name field_name limits =
     r_bind this_module (\<lambda>module.
     if mod_memory_index module \<noteq> kInvalidIndex then r_fail ''only one memory allowed''
     else
     r_bind (FindRegisteredModule pick module_name) (\<lambda>m.
     r_bind (r_get (env_modules \<circ> rd_env)) (\<lambda>ms.
     r_bind (r_nth ms m) (\<lambda>import_module.
       if mod_is_host import_module then
         case ImportMemory host import_module module_name field_name Memory_default of (r, memory, msgs) \<Rightarrow>
         r_then (update_env (EmplaceBackMemory memory))
         (r_then (r_result r msgs)
         (r_then (CheckImportLimits limits (page_limits memory))
         (r_bind (r_get (\<lambda>s. of_nat (length (env_memories (rd_env s)) - 1))) (\<lambda>i.
          r_then (update_this_module (\<lambda>m. m\<lparr>mod_memory_index := i\<rparr>))
            (r_ignore (AppendExport pick m EK_Memory i field_name))))))
       else
         r_bind (GetModuleExport pick import_module field_name) (\<lambda>ex.
         r_then (CheckImportKind module_name field_name EK_Memory (export_kind ex))
         (r_bind (GetMemory (export_index ex)) (\<lambda>memory.
          r_then (CheckImportLimits limits (page_limits memory))
            (update_this_module (\<lambda>m. m\<lparr>mod_memory_index := export_index ex\<rparr>)))))))))"

definition add_global_index :: "Index \<Rightarrow> unit rop" where
  "add_global_index i = r_mod (\<lambda>s. s\<lparr>rd_global_index_mapping := rd_global_index_mapping s @ [i],
     rd_num_global_imports := rd_num_global_imports s + 1\<rparr>)"

text \<open>\<open>TypedValue(type)\<close> leaves the value uninitialised; 0 here.\<close>

definition Global_of_type :: "wtype \<Rightarrow> bool \<Rightarrow> Global" where
  "Global_of_type type mutable =
     \<lparr>global_typed_value = \<lparr>tv_type = type, tv_value = 0\<rparr>, global_mutable = mutable, global_import_index = kInvalidIndex\<rparr>"

definition OnImportGlobal :: "(Index list \<Rightarrow> Index) \<Rightarrow> HostImportDelegate \<Rightarrow> string \<Rightarrow> string \<Rightarrow> wtype \<Rightarrow> bool \<Rightarrow> unit rop" where
  "OnImportGlobal pick host module_name field_name type mutable =
     r_bind (FindRegisteredModule pick module_name) (\<lambda>m.
     r_bind (r_get (env_modules \<circ> rd_env)) (\<lambda>ms.
     r_bind (r_nth ms m) (\<lambda>import_module.
       if mod_is_host import_module then
         case ImportGlobal host import_module module_name field_name (Global_of_type type mutable) of (r, global, msgs) \<Rightarrow>
         r_then (update_env (EmplaceBackGlobal global))
         (r_then (r_result r msgs)
         (r_bind (r_get (\<lambda>s. of_nat (length (env_globals (rd_env s)) - 1))) (\<lambda>global_env_index.
          r_then (r_ignore (AppendExport pick m EK_Global global_env_index field_name))
            (add_global_index global_env_index))))
       else
         r_bind (GetModuleExport pick import_module field_name) (\<lambda>ex.
         r_then (CheckImportKind module_name field_name EK_Global (export_kind ex))
           (add_global_index (export_index ex))))))"

section \<open>Definitions\<close>

definition OnFunctionCount :: "Index \<Rightarrow> unit rop" where
  "OnFunctionCount count = r_mod (\<lambda>s.
     let func_count = of_nat (length (env_funcs (rd_env s))) :: Index
     in s\<lparr>rd_func_index_mapping := rd_func_index_mapping s @ map (\<lambda>i. func_count + of_nat i) [0..<unat count],
          rd_func_fixups := take (unat count) (rd_func_fixups s) @
            replicate (unat count - length (rd_func_fixups s)) []\<rparr>)"

definition DefinedFunc_init :: "Index \<Rightarrow> Func" where
  "DefinedFunc_init sig_index = DefinedFunc sig_index kInvalidIstreamOffset 0 0 []"

definition OnFunction :: "Index \<Rightarrow> unit rop" where
  "OnFunction sig_index =
     r_bind (TranslateSigIndexToEnv sig_index) (\<lambda>i. update_env (EmplaceBackFunc (DefinedFunc_init i)))"

definition OnTable :: "Limits \<Rightarrow> unit rop" where
  "OnTable elem_limits =
     r_bind this_module (\<lambda>module.
     if mod_table_index module \<noteq> kInvalidIndex then r_fail ''only one table allowed''
     else r_then (update_env (EmplaceBackTable (Table_init elem_limits)))
       (r_bind (r_get (\<lambda>s. of_nat (length (env_tables (rd_env s)) - 1)))
         (\<lambda>i. update_this_module (\<lambda>m. m\<lparr>mod_table_index := i\<rparr>))))"

definition OnMemory :: "Limits \<Rightarrow> unit rop" where
  "OnMemory limits =
     r_bind this_module (\<lambda>module.
     if mod_memory_index module \<noteq> kInvalidIndex then r_fail ''only one memory allowed''
     else r_then (update_env (EmplaceBackMemory (Memory_init limits)))
       (r_bind (r_get (\<lambda>s. of_nat (length (env_memories (rd_env s)) - 1)))
         (\<lambda>i. update_this_module (\<lambda>m. m\<lparr>mod_memory_index := i\<rparr>))))"

definition OnGlobalCount :: "Index \<Rightarrow> unit rop" where
  "OnGlobalCount count = r_mod (\<lambda>s.
     let global_count = of_nat (length (env_globals (rd_env s))) :: Index
     in s\<lparr>rd_global_index_mapping :=
            rd_global_index_mapping s @ map (\<lambda>i. global_count + of_nat i) [0..<unat count]\<rparr>)"

definition set_init_expr :: "(TypedValue \<Rightarrow> TypedValue) \<Rightarrow> unit rop" where
  "set_init_expr f = r_mod (\<lambda>s. s\<lparr>rd_init_expr_value := f (rd_init_expr_value s)\<rparr>)"

definition BeginGlobal :: "Index \<Rightarrow> wtype \<Rightarrow> bool \<Rightarrow> unit rop" where
  "BeginGlobal index type mutable =
     r_bind (TranslateGlobalIndexToEnv index) (\<lambda>i.
     r_bind (r_get (env_globals \<circ> rd_env)) (\<lambda>gs.
     r_then (r_assert (i = of_nat (length gs)))
     (r_then (update_env (EmplaceBackGlobal (Global_of_type type mutable)))
       (set_init_expr (\<lambda>v. v\<lparr>tv_type := Type_Void\<rparr>)))))"

definition EndGlobalInitExpr :: "Index \<Rightarrow> unit rop" where
  "EndGlobalInitExpr index =
     r_bind (TranslateGlobalIndexToEnv index) (\<lambda>i.
     r_bind (GetGlobal i) (\<lambda>global.
     r_bind (r_get rd_init_expr_value) (\<lambda>v.
       if tv_type v \<noteq> tv_type (global_typed_value global)
       then r_fail (''type mismatch in global, expected '' @ GetTypeName (tv_type (global_typed_value global)) @
              '' but got '' @ GetTypeName (tv_type v) @ ''.'')
       else update_env (\<lambda>e. e\<lparr>env_globals := (env_globals e)[unat i := global\<lparr>global_typed_value := v\<rparr>]\<rparr>))))"

definition OnInitExprF32ConstExpr :: "u32 \<Rightarrow> unit rop" where
  "OnInitExprF32ConstExpr value_bits = set_init_expr (\<lambda>v. \<lparr>tv_type = Type_F32, tv_value = MakeValue value_bits\<rparr>)"

definition OnInitExprF64ConstExpr :: "u64 \<Rightarrow> unit rop" where
  "OnInitExprF64ConstExpr value_bits = set_init_expr (\<lambda>v. \<lparr>tv_type = Type_F64, tv_value = MakeValue value_bits\<rparr>)"

definition OnInitExprV128ConstExpr :: "v128 \<Rightarrow> unit rop" where
  "OnInitExprV128ConstExpr value_bits = set_init_expr (\<lambda>v. \<lparr>tv_type = Type_V128, tv_value = MakeValue value_bits\<rparr>)"

definition OnInitExprI32ConstExpr :: "u32 \<Rightarrow> unit rop" where
  "OnInitExprI32ConstExpr value = set_init_expr (\<lambda>v. \<lparr>tv_type = Type_I32, tv_value = MakeValue value\<rparr>)"

definition OnInitExprI64ConstExpr :: "u64 \<Rightarrow> unit rop" where
  "OnInitExprI64ConstExpr value = set_init_expr (\<lambda>v. \<lparr>tv_type = Type_I64, tv_value = MakeValue value\<rparr>)"

definition OnInitExprGetGlobalExpr :: "Index \<Rightarrow> unit rop" where
  "OnInitExprGetGlobalExpr global_index =
     r_bind (r_get rd_num_global_imports) (\<lambda>n.
       if global_index \<ge> n then r_fail ''initializer expression can only reference an imported global''
       else r_bind (GetGlobalByModuleIndex global_index) (\<lambda>ref_global.
         if global_mutable ref_global then r_fail ''initializer expression cannot reference a mutable global''
         else set_init_expr (\<lambda>v. global_typed_value ref_global)))"

text \<open>\<open>WABT_FATAL\<close> ends the process.\<close>

definition OnExport :: "(Index list \<Rightarrow> Index) \<Rightarrow> ExternalKind \<Rightarrow> Index \<Rightarrow> string \<Rightarrow> unit rop" where
  "OnExport pick kind item_index name =
     r_bind (case kind of
         EK_Func \<Rightarrow> TranslateFuncIndexToEnv item_index
       | EK_Table \<Rightarrow> r_bind this_module (\<lambda>m. r_return (mod_table_index m))
       | EK_Memory \<Rightarrow> r_bind this_module (\<lambda>m. r_return (mod_memory_index m))
       | EK_Global \<Rightarrow>
           r_bind (TranslateGlobalIndexToEnv item_index) (\<lambda>i.
           r_bind (GetGlobal i) (\<lambda>global.
             if global_mutable global then r_fail ''mutable globals cannot be exported'' else r_return i))
       | EK_Except \<Rightarrow> r_undef)
     (\<lambda>i. r_bind (r_get rd_module) (\<lambda>m. AppendExport pick m kind i name))"

definition OnStartFunction :: "Index \<Rightarrow> unit rop" where
  "OnStartFunction func_index =
     r_bind (TranslateFuncIndexToEnv func_index) (\<lambda>start_func_index.
     r_bind (GetFunc start_func_index) (\<lambda>start_func.
     r_bind (GetFuncSignature (func_sig_index start_func)) (\<lambda>sig.
       if sig_param_types sig \<noteq> [] then r_fail ''start function must be nullary''
       else if sig_result_types sig \<noteq> [] then r_fail ''start function must not return anything''
       else update_this_module (\<lambda>m. m\<lparr>mod_start_func_index := start_func_index\<rparr>))))"

section \<open>Segments\<close>

definition EndElemSegmentInitExpr :: "unit rop" where
  "EndElemSegmentInitExpr =
     r_bind (r_get rd_init_expr_value) (\<lambda>v.
       r_then (r_assert (tv_type v = Type_I32))
         (r_mod (\<lambda>s. s\<lparr>rd_table_offset := GetValue (tv_value v)\<rparr>)))"

text \<open>The sum is of two 32-bit numbers.\<close>

definition OnElemSegmentFunctionIndexCount :: "Index \<Rightarrow> unit rop" where
  "OnElemSegmentFunctionIndexCount count =
     r_bind this_module (\<lambda>module.
     r_then (r_assert (mod_table_index module \<noteq> kInvalidIndex))
     (r_bind (GetTable (mod_table_index module)) (\<lambda>table.
      r_bind (r_get rd_table_offset) (\<lambda>offset.
        if unat offset > length (func_indexes table) \<or> unat (offset + count) > length (func_indexes table)
        then r_fail (''elem segment is out of bounds: ['' @ show_nat (unat offset) @ '', '' @
               show_nat (unat (offset + count)) @ '') >= max value '' @ show_nat (length (func_indexes table)))
        else r_return ()))))"

definition OnElemSegmentFunctionIndex :: "Index \<Rightarrow> unit rop" where
  "OnElemSegmentFunctionIndex func_index =
     r_bind (r_get rd_func_index_mapping) (\<lambda>m.
     let max_func_index = of_nat (length m) :: Index in
     if func_index \<ge> max_func_index
     then r_fail (''invalid func_index: '' @ show_nat (unat func_index) @ '' (max '' @
            show_nat (unat max_func_index) @ '')'')
     else
       r_bind this_module (\<lambda>module.
       r_bind (GetTable (mod_table_index module)) (\<lambda>table.
       r_bind (r_get rd_table_offset) (\<lambda>offset.
       r_then (r_assert (unat offset < length (func_indexes table)))
       (r_bind (TranslateFuncIndexToEnv func_index) (\<lambda>i.
        r_mod (\<lambda>s. s\<lparr>rd_table_offset := offset + 1,
          rd_elem_segment_infos := rd_elem_segment_infos s @
            [\<lparr>elem_dst = (mod_table_index module, unat offset), elem_func_index = i\<rparr>]\<rparr>)))))))"

definition OnDataSegmentData :: "bytes \<Rightarrow> unit rop" where
  "OnDataSegmentData src_data =
     r_bind this_module (\<lambda>module.
     r_then (r_assert (mod_memory_index module \<noteq> kInvalidIndex))
     (r_bind (GetMemory (mod_memory_index module)) (\<lambda>memory.
      r_bind (r_get rd_init_expr_value) (\<lambda>v.
      r_then (r_assert (tv_type v = Type_I32))
      (let address = GetValue (tv_value v) :: u32;
           end_address = ucast address + of_nat (length src_data) :: u64
       in if unat end_address > length (memory_data memory)
          then r_fail (''data segment is out of bounds: ['' @ show_nat (unat address) @ '', '' @
                 show_nat (unat end_address) @ '') >= max value '' @ show_nat (length (memory_data memory)))
          else if length src_data > 0
          then r_mod (\<lambda>s. s\<lparr>rd_data_segment_infos := rd_data_segment_infos s @
                 [\<lparr>data_dst = (mod_memory_index module, unat address), data_src = src_data\<rparr>]\<rparr>)
          else r_return ())))))"

section \<open>Function bodies\<close>

fun set_offset :: "u32 \<Rightarrow> Func \<Rightarrow> Func" where
  "set_offset off (DefinedFunc sig _ _ _ types) = DefinedFunc sig off 0 0 types"
| "set_offset off f = f"

fun add_locals :: "Index \<Rightarrow> nat \<Rightarrow> wtype \<Rightarrow> Func \<Rightarrow> Func" where
  "add_locals count n type (DefinedFunc sig off decls locals types) =
     DefinedFunc sig off decls (locals + count) (types @ replicate n type)"
| "add_locals count n type f = f"

fun append_params :: "TypeVector \<Rightarrow> Func \<Rightarrow> Func" where
  "append_params params (DefinedFunc sig off decls locals types) = DefinedFunc sig off decls locals (types @ params)"
| "append_params params f = f"

fun set_local_decl_count :: "Index \<Rightarrow> Func \<Rightarrow> Func" where
  "set_local_decl_count count (DefinedFunc sig off _ locals types) = DefinedFunc sig off count locals types"
| "set_local_decl_count count f = f"

definition BeginFunctionBody :: "Index \<Rightarrow> unit rop" where
  "BeginFunctionBody index =
     r_bind (TranslateFuncIndexToEnv index) (\<lambda>i.
     r_bind (GetFunc i) (\<lambda>func.
     r_then (r_assert (\<not> is_host func))
     (r_bind (GetFuncSignature (func_sig_index func)) (\<lambda>sig.
      r_bind (r_get rd_istream_offset) (\<lambda>offset.
      r_then (update_func i (set_offset offset))
      (r_then (r_mod (\<lambda>s. s\<lparr>rd_current_func := Some i, rd_depth_fixups := [], rd_label_stack := []\<rparr>))
      (r_bind (TranslateModuleFuncIndexToDefined index) (\<lambda>defined_index.
       r_bind (r_get rd_func_fixups) (\<lambda>func_fixups.
       r_bind (r_nth func_fixups (unat defined_index)) (\<lambda>fixups.
       r_then (r_each (\<lambda>fixup. EmitI32At fixup offset) fixups)
       (r_then (update_current_func (append_params (sig_param_types sig)))
       (r_then (r_check (BeginFunction (sig_result_types sig)))
         (Reader_PushLabel kInvalidIstreamOffset kInvalidIstreamOffset)))))))))))))"

definition EndFunctionBody :: "unit rop" where
  "EndFunctionBody =
     r_then (r_ignore FixupTopLabel)
     (r_bind GetReturnDropKeepCount (\<lambda>(drop_count, keep_count).
      r_then (r_check EndFunction)
      (r_then (EmitDropKeep drop_count keep_count)
      (r_then (EmitOp ''Return'')
      (r_then Reader_PopLabel
        (r_mod (\<lambda>s. s\<lparr>rd_current_func := None\<rparr>)))))))"

definition OnLocalDeclCount :: "Index \<Rightarrow> unit rop" where
  "OnLocalDeclCount count = update_current_func (set_local_decl_count count)"

definition OnLocalDecl :: "Index \<Rightarrow> Index \<Rightarrow> wtype \<Rightarrow> unit rop" where
  "OnLocalDecl decl_index count type =
     r_then (update_current_func (add_locals count (unat count) type))
     (r_bind current_func (\<lambda>func.
       if decl_index = func_local_decl_count func - 1
       then r_then (EmitOp ''InterpAlloca'') (EmitI32 (func_local_count func))
       else r_return ()))"

end
