(* ===== verification/InterpLoadExpr.thy ===== *)
theory InterpLoadExpr
  imports InterpLoad
begin

text \<open>
  The callbacks of the loader for instructions (\<^verbatim>\<open>src/binary-reader-interp.cc\<close>), the end of the
  module, and \<open>ReadBinaryInterp\<close>.
\<close>

section \<open>Checks\<close>

definition CheckHasMemory :: "u32 \<Rightarrow> unit rop" where
  "CheckHasMemory opcode =
     r_bind this_module (\<lambda>module.
       if mod_memory_index module = kInvalidIndex
       then r_fail (GetName opcode @ '' requires an imported or defined memory.'') else r_return ())"

definition CheckAlign :: "u32 \<Rightarrow> u32 \<Rightarrow> unit rop" where
  "CheckAlign alignment_log2 natural_alignment =
     (if alignment_log2 \<ge> 32 \<or> push_bit (unat alignment_log2) 1 > natural_alignment
      then r_fail (''alignment must not be larger than natural alignment ('' @ show_nat (unat natural_alignment) @ '')'')
      else r_return ())"

definition CheckAtomicAlign :: "u32 \<Rightarrow> u32 \<Rightarrow> unit rop" where
  "CheckAtomicAlign alignment_log2 natural_alignment =
     (if alignment_log2 \<ge> 32 \<or> push_bit (unat alignment_log2) 1 \<noteq> natural_alignment
      then r_fail (''alignment must be equal to natural alignment ('' @ show_nat (unat natural_alignment) @ '')'')
      else r_return ())"

section \<open>Operators\<close>

definition OnUnaryExpr :: "u32 \<Rightarrow> unit rop" where
  "OnUnaryExpr opcode = r_then (r_check (OnUnary opcode)) (EmitOpcode opcode)"

definition OnTernaryExpr :: "u32 \<Rightarrow> unit rop" where
  "OnTernaryExpr opcode = r_then (r_check (OnTernary opcode)) (EmitOpcode opcode)"

definition OnBinaryExpr :: "u32 \<Rightarrow> unit rop" where
  "OnBinaryExpr opcode = r_then (r_check (OnBinary opcode)) (EmitOpcode opcode)"

definition OnCompareExpr :: "u32 \<Rightarrow> unit rop" where "OnCompareExpr opcode = OnBinaryExpr opcode"
definition OnConvertExpr :: "u32 \<Rightarrow> unit rop" where "OnConvertExpr opcode = OnUnaryExpr opcode"

definition OnSimdLaneOpExpr :: "u32 \<Rightarrow> u64 \<Rightarrow> unit rop" where
  "OnSimdLaneOpExpr opcode value =
     r_then (r_check (OnSimdLaneOp opcode value)) (r_then (EmitOpcode opcode) (EmitI8 (ucast value)))"

definition OnSimdShuffleOpExpr :: "u32 \<Rightarrow> v128 \<Rightarrow> unit rop" where
  "OnSimdShuffleOpExpr opcode value =
     r_then (r_check (OnSimdShuffleOp opcode (word_le value))) (r_then (EmitOpcode opcode) (EmitV128 value))"

text \<open>The callbacks for memory instructions differ in the check of the alignment and of the types.\<close>

definition emit_memory_access :: "u32 \<Rightarrow> unit rop \<Rightarrow> tc_op \<Rightarrow> u32 \<Rightarrow> unit rop" where
  "emit_memory_access opcode check_align check offset =
     r_then (CheckHasMemory opcode)
     (r_then check_align
     (r_then (r_check check)
     (r_then (EmitOpcode opcode)
     (r_then (r_bind this_module (\<lambda>module. EmitI32 (mod_memory_index module)))
       (EmitI32 offset)))))"

definition OnAtomicLoadExpr :: "u32 \<Rightarrow> u32 \<Rightarrow> u32 \<Rightarrow> unit rop" where
  "OnAtomicLoadExpr opcode alignment_log2 offset =
     emit_memory_access opcode (CheckAtomicAlign alignment_log2 (GetMemorySize opcode)) (OnAtomicLoad opcode) offset"

definition OnAtomicStoreExpr :: "u32 \<Rightarrow> u32 \<Rightarrow> u32 \<Rightarrow> unit rop" where
  "OnAtomicStoreExpr opcode alignment_log2 offset =
     emit_memory_access opcode (CheckAtomicAlign alignment_log2 (GetMemorySize opcode)) (OnAtomicStore opcode) offset"

definition OnAtomicRmwExpr :: "u32 \<Rightarrow> u32 \<Rightarrow> u32 \<Rightarrow> unit rop" where
  "OnAtomicRmwExpr opcode alignment_log2 offset =
     emit_memory_access opcode (CheckAtomicAlign alignment_log2 (GetMemorySize opcode)) (OnAtomicRmw opcode) offset"

definition OnAtomicRmwCmpxchgExpr :: "u32 \<Rightarrow> u32 \<Rightarrow> u32 \<Rightarrow> unit rop" where
  "OnAtomicRmwCmpxchgExpr opcode alignment_log2 offset =
     emit_memory_access opcode (CheckAtomicAlign alignment_log2 (GetMemorySize opcode)) (OnAtomicRmwCmpxchg opcode) offset"

definition OnAtomicWaitExpr :: "u32 \<Rightarrow> u32 \<Rightarrow> u32 \<Rightarrow> unit rop" where
  "OnAtomicWaitExpr opcode alignment_log2 offset =
     emit_memory_access opcode (CheckAtomicAlign alignment_log2 (GetMemorySize opcode)) (OnAtomicWait opcode) offset"

definition OnAtomicWakeExpr :: "u32 \<Rightarrow> u32 \<Rightarrow> u32 \<Rightarrow> unit rop" where
  "OnAtomicWakeExpr opcode alignment_log2 offset =
     emit_memory_access opcode (CheckAtomicAlign alignment_log2 (GetMemorySize opcode)) (OnAtomicWake opcode) offset"

definition OnLoadExpr :: "u32 \<Rightarrow> u32 \<Rightarrow> u32 \<Rightarrow> unit rop" where
  "OnLoadExpr opcode alignment_log2 offset =
     emit_memory_access opcode (CheckAlign alignment_log2 (GetMemorySize opcode)) (OnLoad opcode) offset"

definition OnStoreExpr :: "u32 \<Rightarrow> u32 \<Rightarrow> u32 \<Rightarrow> unit rop" where
  "OnStoreExpr opcode alignment_log2 offset =
     emit_memory_access opcode (CheckAlign alignment_log2 (GetMemorySize opcode)) (OnStore opcode) offset"

definition OnMemoryGrowExpr :: "unit rop" where
  "OnMemoryGrowExpr =
     r_then (CheckHasMemory (Opcode_of ''MemoryGrow''))
     (r_then (r_check OnMemoryGrow)
     (r_then (EmitOp ''MemoryGrow'') (r_bind this_module (\<lambda>module. EmitI32 (mod_memory_index module)))))"

definition OnMemorySizeExpr :: "unit rop" where
  "OnMemorySizeExpr =
     r_then (CheckHasMemory (Opcode_of ''MemorySize''))
     (r_then (r_check OnMemorySize)
     (r_then (EmitOp ''MemorySize'') (r_bind this_module (\<lambda>module. EmitI32 (mod_memory_index module)))))"

section \<open>Control\<close>

definition OnBlockExpr :: "SigType \<Rightarrow> unit rop" where
  "OnBlockExpr sig_type =
     r_bind (GetBlockSignature sig_type) (\<lambda>(params, results).
     r_then (r_check (OnBlock params results))
       (Reader_PushLabel kInvalidIstreamOffset kInvalidIstreamOffset))"

definition OnLoopExpr :: "SigType \<Rightarrow> unit rop" where
  "OnLoopExpr sig_type =
     r_bind (GetBlockSignature sig_type) (\<lambda>(params, results).
     r_then (r_check (OnLoop params results))
       (r_bind (r_get rd_istream_offset) (\<lambda>offset. Reader_PushLabel offset kInvalidIstreamOffset)))"

definition OnIfExpr :: "SigType \<Rightarrow> unit rop" where
  "OnIfExpr sig_type =
     r_bind (GetBlockSignature sig_type) (\<lambda>(params, results).
     r_then (r_check (OnIf params results))
     (r_then (EmitOp ''InterpBrUnless'')
     (r_bind (r_get rd_istream_offset) (\<lambda>fixup_offset.
      r_then (EmitI32 kInvalidIstreamOffset)
        (Reader_PushLabel kInvalidIstreamOffset fixup_offset)))))"

definition set_top_fixup :: "u32 \<Rightarrow> unit rop" where
  "set_top_fixup fixup_offset = r_mod (\<lambda>s. s\<lparr>rd_label_stack :=
     (case rd_label_stack s of [] \<Rightarrow> [] | l # ls \<Rightarrow> l\<lparr>Label_fixup_offset := fixup_offset\<rparr> # ls)\<rparr>)"

definition OnElseExpr :: "unit rop" where
  "OnElseExpr =
     r_then (r_check OnElse)
     (r_bind Reader_TopLabel (\<lambda>label.
      let fixup_cond_offset = Label_fixup_offset label
      in r_then (EmitOp ''Br'')
         (r_then (r_bind (r_get rd_istream_offset) set_top_fixup)
         (r_then (EmitI32 kInvalidIstreamOffset)
         (r_bind (r_get rd_istream_offset) (EmitI32At fixup_cond_offset))))))"

definition top_label_type :: "LabelType rop" where
  "top_label_type s =
     (case GetLabel 0 (rd_typechecker s) of
        (None, t) \<Rightarrow> (RError, s\<lparr>rd_typechecker := t\<rparr>)
      | (Some l, t) \<Rightarrow> (ROk (label_type l), s\<lparr>rd_typechecker := t\<rparr>))"

definition OnEndExpr :: "unit rop" where
  "OnEndExpr =
     r_bind top_label_type (\<lambda>lt.
     r_then (r_check OnEnd)
     (r_then (if lt = LabelType_If \<or> lt = LabelType_Else
              then r_bind Reader_TopLabel (\<lambda>l. r_bind (r_get rd_istream_offset) (EmitI32At (Label_fixup_offset l)))
              else r_return ())
     (r_then (r_ignore FixupTopLabel) Reader_PopLabel)))"

definition OnBrExpr :: "Index \<Rightarrow> unit rop" where
  "OnBrExpr depth =
     r_bind (GetBrDropKeepCount depth) (\<lambda>(drop_count, keep_count).
     r_then (r_check (OnBr (unat depth))) (EmitBr depth drop_count keep_count))"

definition OnBrIfExpr :: "Index \<Rightarrow> unit rop" where
  "OnBrIfExpr depth =
     r_then (r_check (OnBrIf (unat depth)))
     (r_bind (GetBrDropKeepCount depth) (\<lambda>(drop_count, keep_count).
      r_then (EmitOp ''InterpBrUnless'')
      (r_bind (r_get rd_istream_offset) (\<lambda>fixup_br_offset.
       r_then (EmitI32 kInvalidIstreamOffset)
       (r_then (EmitBr depth drop_count keep_count)
       (r_bind (r_get rd_istream_offset) (EmitI32At fixup_br_offset)))))))"

definition OnBrTableExpr :: "Index list \<Rightarrow> Index \<Rightarrow> unit rop" where
  "OnBrTableExpr target_depths default_target_depth =
     (let num_targets = of_nat (length target_depths) :: Index in
     r_then (r_check BeginBrTable)
     (r_then (EmitOp ''BrTable'')
     (r_then (EmitI32 num_targets)
     (r_bind (r_get rd_istream_offset) (\<lambda>fixup_table_offset.
      r_then (EmitI32 kInvalidIstreamOffset)
      (r_then (EmitOp ''InterpData'')
      (r_then (EmitI32 ((num_targets + 1) * WABT_TABLE_ENTRY_SIZE))
      (r_then (r_bind (r_get rd_istream_offset) (EmitI32At fixup_table_offset))
      (r_then (r_each (\<lambda>depth. r_then (r_check (OnBrTableTarget (unat depth))) (EmitBrTableOffset depth))
                (target_depths @ [default_target_depth]))
        (r_check EndBrTable))))))))))"

definition OnReturnExpr :: "unit rop" where
  "OnReturnExpr =
     r_bind GetReturnDropKeepCount (\<lambda>(drop_count, keep_count).
     r_then (r_check OnReturn) (r_then (EmitDropKeep drop_count keep_count) (EmitOp ''Return'')))"

definition OnNopExpr :: "unit rop" where "OnNopExpr = r_return ()"

definition OnSelectExpr :: "unit rop" where "OnSelectExpr = r_then (r_check OnSelect) (EmitOp ''Select'')"

definition OnUnreachableExpr :: "unit rop" where
  "OnUnreachableExpr = r_then (r_check OnUnreachable) (EmitOp ''Unreachable'')"

definition OnDropExpr :: "unit rop" where "OnDropExpr = r_then (r_check OnDrop) (EmitOp ''Drop'')"

section \<open>Calls\<close>

definition OnCallExpr :: "Index \<Rightarrow> unit rop" where
  "OnCallExpr func_index =
     r_bind (GetFuncByModuleIndex func_index) (\<lambda>func.
     r_bind (GetFuncSignature (func_sig_index func)) (\<lambda>sig.
     r_then (r_check (OnCall (sig_param_types sig) (sig_result_types sig)))
       (if is_host func
        then r_then (EmitOp ''InterpCallHost'') (r_bind (TranslateFuncIndexToEnv func_index) EmitI32)
        else r_then (EmitOp ''Call'') (EmitFuncOffset func func_index))))"

definition OnCallIndirectExpr :: "Index \<Rightarrow> unit rop" where
  "OnCallIndirectExpr sig_index =
     r_bind this_module (\<lambda>module.
     if mod_table_index module = kInvalidIndex then r_fail ''found call_indirect operator, but no table''
     else
       r_bind (GetSignatureByModuleIndex sig_index) (\<lambda>sig.
       r_then (r_check (OnCallIndirect (sig_param_types sig) (sig_result_types sig)))
       (r_then (EmitOp ''CallIndirect'')
       (r_then (EmitI32 (mod_table_index module))
         (r_bind (TranslateSigIndexToEnv sig_index) EmitI32)))))"

section \<open>Constants and variables\<close>

definition OnI32ConstExpr :: "u32 \<Rightarrow> unit rop" where
  "OnI32ConstExpr value = r_then (r_check (OnConst Type_I32)) (r_then (EmitOp ''I32Const'') (EmitI32 value))"

definition OnI64ConstExpr :: "u64 \<Rightarrow> unit rop" where
  "OnI64ConstExpr value = r_then (r_check (OnConst Type_I64)) (r_then (EmitOp ''I64Const'') (EmitI64 value))"

definition OnF32ConstExpr :: "u32 \<Rightarrow> unit rop" where
  "OnF32ConstExpr value_bits = r_then (r_check (OnConst Type_F32)) (r_then (EmitOp ''F32Const'') (EmitI32 value_bits))"

definition OnF64ConstExpr :: "u64 \<Rightarrow> unit rop" where
  "OnF64ConstExpr value_bits = r_then (r_check (OnConst Type_F64)) (r_then (EmitOp ''F64Const'') (EmitI64 value_bits))"

definition OnV128ConstExpr :: "v128 \<Rightarrow> unit rop" where
  "OnV128ConstExpr value_bits = r_then (r_check (OnConst Type_V128)) (r_then (EmitOp ''V128Const'') (EmitV128 value_bits))"

definition OnGetGlobalExpr :: "Index \<Rightarrow> unit rop" where
  "OnGetGlobalExpr global_index =
     r_then (CheckGlobal global_index)
     (r_bind (GetGlobalTypeByModuleIndex global_index) (\<lambda>type.
      r_then (r_check (OnGetGlobal type))
      (r_then (EmitOp ''GetGlobal'') (r_bind (TranslateGlobalIndexToEnv global_index) EmitI32))))"

definition OnSetGlobalExpr :: "Index \<Rightarrow> unit rop" where
  "OnSetGlobalExpr global_index =
     r_then (CheckGlobal global_index)
     (r_bind (GetGlobalByModuleIndex global_index) (\<lambda>global.
      if \<not> global_mutable global
      then r_fail (''can'' @ [CHR 0x27] @ ''t set_global on immutable global at index '' @ show_nat (unat global_index) @ ''.'')
      else r_then (r_check (OnSetGlobal (tv_type (global_typed_value global))))
        (r_then (EmitOp ''SetGlobal'') (r_bind (TranslateGlobalIndexToEnv global_index) EmitI32))))"

definition TranslateLocalIndex :: "Index \<Rightarrow> Index rop" where
  "TranslateLocalIndex local_index =
     r_bind current_func (\<lambda>func.
     r_get (\<lambda>s. of_nat (length (type_stack (rd_typechecker s))) +
       of_nat (length (func_param_and_local_types func)) - local_index))"

definition OnGetLocalExpr :: "Index \<Rightarrow> unit rop" where
  "OnGetLocalExpr local_index =
     r_then (CheckLocal local_index)
     (r_bind current_func (\<lambda>func.
      r_bind (GetLocalTypeByIndex func local_index) (\<lambda>type.
      r_bind (TranslateLocalIndex local_index) (\<lambda>translated_local_index.
      r_then (r_check (OnGetLocal type)) (r_then (EmitOp ''GetLocal'') (EmitI32 translated_local_index))))))"

definition OnSetLocalExpr :: "Index \<Rightarrow> unit rop" where
  "OnSetLocalExpr local_index =
     r_then (CheckLocal local_index)
     (r_bind current_func (\<lambda>func.
      r_bind (GetLocalTypeByIndex func local_index) (\<lambda>type.
      r_then (r_check (OnSetLocal type))
      (r_then (EmitOp ''SetLocal'') (r_bind (TranslateLocalIndex local_index) EmitI32)))))"

definition OnTeeLocalExpr :: "Index \<Rightarrow> unit rop" where
  "OnTeeLocalExpr local_index =
     r_then (CheckLocal local_index)
     (r_bind current_func (\<lambda>func.
      r_bind (GetLocalTypeByIndex func local_index) (\<lambda>type.
      r_then (r_check (OnTeeLocal type))
      (r_then (EmitOp ''TeeLocal'') (r_bind (TranslateLocalIndex local_index) EmitI32)))))"

section \<open>The end of the module\<close>

definition apply_elem :: "ElemSegmentInfo \<Rightarrow> unit rop" where
  "apply_elem info = (case elem_dst info of (t, i) \<Rightarrow>
     r_bind (GetTable t) (\<lambda>table.
     r_then (r_assert (i < length (func_indexes table)))
       (update_env (\<lambda>e. e\<lparr>env_tables := (env_tables e)[unat t :=
          table\<lparr>func_indexes := (func_indexes table)[i := elem_func_index info]\<rparr>]\<rparr>))))"

definition apply_data :: "DataSegmentInfo \<Rightarrow> unit rop" where
  "apply_data info = (case data_dst info of (m, address) \<Rightarrow>
     r_bind (GetMemory m) (\<lambda>memory.
     r_then (r_assert (address + length (data_src info) \<le> length (memory_data memory)))
       (update_env (\<lambda>e. e\<lparr>env_memories := (env_memories e)[unat m :=
          memory\<lparr>memory_data := bytes_store address (data_src info) (memory_data memory)\<rparr>]\<rparr>))))"

definition EndModule :: "unit rop" where
  "EndModule =
     r_bind (r_get rd_elem_segment_infos) (\<lambda>elems.
     r_then (r_each apply_elem elems)
     (r_bind (r_get rd_data_segment_infos) (r_each apply_data)))"

section \<open>A module\<close>

text \<open>
  The callbacks the binary reader makes, with the arguments this delegate uses. Those that only
  have the empty definitions of \<open>BinaryReaderNop\<close> are left out.
\<close>

datatype module_callback =
    CB_OnTypeCount Index | CB_OnType Index TypeVector TypeVector
  | CB_OnImportFunc string string Index | CB_OnImportTable string string Limits
  | CB_OnImportMemory string string Limits | CB_OnImportGlobal string string wtype bool
  | CB_OnFunctionCount Index | CB_OnFunction Index | CB_OnTable Limits | CB_OnMemory Limits
  | CB_OnGlobalCount Index | CB_BeginGlobal Index wtype bool | CB_EndGlobalInitExpr Index
  | CB_OnInitExprF32ConstExpr u32 | CB_OnInitExprF64ConstExpr u64 | CB_OnInitExprV128ConstExpr v128
  | CB_OnInitExprI32ConstExpr u32 | CB_OnInitExprI64ConstExpr u64 | CB_OnInitExprGetGlobalExpr Index
  | CB_OnExport ExternalKind Index string | CB_OnStartFunction Index | CB_EndElemSegmentInitExpr
  | CB_OnElemSegmentFunctionIndexCount Index | CB_OnElemSegmentFunctionIndex Index
  | CB_OnDataSegmentData bytes | CB_EndModule

datatype operator_callback =
    CB_OnUnaryExpr u32 | CB_OnTernaryExpr u32 | CB_OnBinaryExpr u32 | CB_OnCompareExpr u32
  | CB_OnConvertExpr u32 | CB_OnSimdLaneOpExpr u32 u64 | CB_OnSimdShuffleOpExpr u32 v128
  | CB_OnAtomicLoadExpr u32 u32 u32 | CB_OnAtomicStoreExpr u32 u32 u32
  | CB_OnAtomicRmwExpr u32 u32 u32 | CB_OnAtomicRmwCmpxchgExpr u32 u32 u32
  | CB_OnAtomicWaitExpr u32 u32 u32 | CB_OnAtomicWakeExpr u32 u32 u32 | CB_OnLoadExpr u32 u32 u32
  | CB_OnStoreExpr u32 u32 u32 | CB_OnMemoryGrowExpr | CB_OnMemorySizeExpr | CB_OnI32ConstExpr u32
  | CB_OnI64ConstExpr u64 | CB_OnF32ConstExpr u32 | CB_OnF64ConstExpr u64 | CB_OnV128ConstExpr v128
  | CB_OnGetGlobalExpr Index | CB_OnSetGlobalExpr Index | CB_OnGetLocalExpr Index
  | CB_OnSetLocalExpr Index | CB_OnTeeLocalExpr Index

datatype control_callback =
    CB_BeginFunctionBody Index | CB_EndFunctionBody | CB_OnLocalDeclCount Index
  | CB_OnLocalDecl Index Index wtype | CB_OnBlockExpr SigType | CB_OnLoopExpr SigType
  | CB_OnIfExpr SigType | CB_OnElseExpr | CB_OnEndExpr | CB_OnBrExpr Index | CB_OnBrIfExpr Index
  | CB_OnBrTableExpr "Index list" Index | CB_OnReturnExpr | CB_OnNopExpr | CB_OnSelectExpr
  | CB_OnUnreachableExpr | CB_OnDropExpr | CB_OnCallExpr Index | CB_OnCallIndirectExpr Index

datatype loader_callback = CB_Module module_callback | CB_Operator operator_callback | CB_Control control_callback

fun run_module_callback :: "(Index list \<Rightarrow> Index) \<Rightarrow> HostImportDelegate \<Rightarrow> module_callback \<Rightarrow> unit rop" where
  "run_module_callback pick host (CB_OnTypeCount a) = OnTypeCount a"
| "run_module_callback pick host (CB_OnType a b c) = OnType a b c"
| "run_module_callback pick host (CB_OnImportFunc a b c) = OnImportFunc pick host a b c"
| "run_module_callback pick host (CB_OnImportTable a b c) = OnImportTable pick host a b c"
| "run_module_callback pick host (CB_OnImportMemory a b c) = OnImportMemory pick host a b c"
| "run_module_callback pick host (CB_OnImportGlobal a b c d) = OnImportGlobal pick host a b c d"
| "run_module_callback pick host (CB_OnFunctionCount a) = OnFunctionCount a"
| "run_module_callback pick host (CB_OnFunction a) = OnFunction a"
| "run_module_callback pick host (CB_OnTable a) = OnTable a"
| "run_module_callback pick host (CB_OnMemory a) = OnMemory a"
| "run_module_callback pick host (CB_OnGlobalCount a) = OnGlobalCount a"
| "run_module_callback pick host (CB_BeginGlobal a b c) = BeginGlobal a b c"
| "run_module_callback pick host (CB_EndGlobalInitExpr a) = EndGlobalInitExpr a"
| "run_module_callback pick host (CB_OnInitExprF32ConstExpr a) = OnInitExprF32ConstExpr a"
| "run_module_callback pick host (CB_OnInitExprF64ConstExpr a) = OnInitExprF64ConstExpr a"
| "run_module_callback pick host (CB_OnInitExprV128ConstExpr a) = OnInitExprV128ConstExpr a"
| "run_module_callback pick host (CB_OnInitExprI32ConstExpr a) = OnInitExprI32ConstExpr a"
| "run_module_callback pick host (CB_OnInitExprI64ConstExpr a) = OnInitExprI64ConstExpr a"
| "run_module_callback pick host (CB_OnInitExprGetGlobalExpr a) = OnInitExprGetGlobalExpr a"
| "run_module_callback pick host (CB_OnExport a b c) = OnExport pick a b c"
| "run_module_callback pick host (CB_OnStartFunction a) = OnStartFunction a"
| "run_module_callback pick host CB_EndElemSegmentInitExpr = EndElemSegmentInitExpr"
| "run_module_callback pick host (CB_OnElemSegmentFunctionIndexCount a) = OnElemSegmentFunctionIndexCount a"
| "run_module_callback pick host (CB_OnElemSegmentFunctionIndex a) = OnElemSegmentFunctionIndex a"
| "run_module_callback pick host (CB_OnDataSegmentData a) = OnDataSegmentData a"
| "run_module_callback pick host CB_EndModule = EndModule"

fun run_operator_callback :: "operator_callback \<Rightarrow> unit rop" where
  "run_operator_callback (CB_OnUnaryExpr a) = OnUnaryExpr a"
| "run_operator_callback (CB_OnTernaryExpr a) = OnTernaryExpr a"
| "run_operator_callback (CB_OnBinaryExpr a) = OnBinaryExpr a"
| "run_operator_callback (CB_OnCompareExpr a) = OnCompareExpr a"
| "run_operator_callback (CB_OnConvertExpr a) = OnConvertExpr a"
| "run_operator_callback (CB_OnSimdLaneOpExpr a b) = OnSimdLaneOpExpr a b"
| "run_operator_callback (CB_OnSimdShuffleOpExpr a b) = OnSimdShuffleOpExpr a b"
| "run_operator_callback (CB_OnAtomicLoadExpr a b c) = OnAtomicLoadExpr a b c"
| "run_operator_callback (CB_OnAtomicStoreExpr a b c) = OnAtomicStoreExpr a b c"
| "run_operator_callback (CB_OnAtomicRmwExpr a b c) = OnAtomicRmwExpr a b c"
| "run_operator_callback (CB_OnAtomicRmwCmpxchgExpr a b c) = OnAtomicRmwCmpxchgExpr a b c"
| "run_operator_callback (CB_OnAtomicWaitExpr a b c) = OnAtomicWaitExpr a b c"
| "run_operator_callback (CB_OnAtomicWakeExpr a b c) = OnAtomicWakeExpr a b c"
| "run_operator_callback (CB_OnLoadExpr a b c) = OnLoadExpr a b c"
| "run_operator_callback (CB_OnStoreExpr a b c) = OnStoreExpr a b c"
| "run_operator_callback CB_OnMemoryGrowExpr = OnMemoryGrowExpr"
| "run_operator_callback CB_OnMemorySizeExpr = OnMemorySizeExpr"
| "run_operator_callback (CB_OnI32ConstExpr a) = OnI32ConstExpr a"
| "run_operator_callback (CB_OnI64ConstExpr a) = OnI64ConstExpr a"
| "run_operator_callback (CB_OnF32ConstExpr a) = OnF32ConstExpr a"
| "run_operator_callback (CB_OnF64ConstExpr a) = OnF64ConstExpr a"
| "run_operator_callback (CB_OnV128ConstExpr a) = OnV128ConstExpr a"
| "run_operator_callback (CB_OnGetGlobalExpr a) = OnGetGlobalExpr a"
| "run_operator_callback (CB_OnSetGlobalExpr a) = OnSetGlobalExpr a"
| "run_operator_callback (CB_OnGetLocalExpr a) = OnGetLocalExpr a"
| "run_operator_callback (CB_OnSetLocalExpr a) = OnSetLocalExpr a"
| "run_operator_callback (CB_OnTeeLocalExpr a) = OnTeeLocalExpr a"

fun run_control_callback :: "control_callback \<Rightarrow> unit rop" where
  "run_control_callback (CB_BeginFunctionBody a) = BeginFunctionBody a"
| "run_control_callback CB_EndFunctionBody = EndFunctionBody"
| "run_control_callback (CB_OnLocalDeclCount a) = OnLocalDeclCount a"
| "run_control_callback (CB_OnLocalDecl a b c) = OnLocalDecl a b c"
| "run_control_callback (CB_OnBlockExpr a) = OnBlockExpr a"
| "run_control_callback (CB_OnLoopExpr a) = OnLoopExpr a"
| "run_control_callback (CB_OnIfExpr a) = OnIfExpr a"
| "run_control_callback CB_OnElseExpr = OnElseExpr"
| "run_control_callback CB_OnEndExpr = OnEndExpr"
| "run_control_callback (CB_OnBrExpr a) = OnBrExpr a"
| "run_control_callback (CB_OnBrIfExpr a) = OnBrIfExpr a"
| "run_control_callback (CB_OnBrTableExpr a b) = OnBrTableExpr a b"
| "run_control_callback CB_OnReturnExpr = OnReturnExpr"
| "run_control_callback CB_OnNopExpr = OnNopExpr"
| "run_control_callback CB_OnSelectExpr = OnSelectExpr"
| "run_control_callback CB_OnUnreachableExpr = OnUnreachableExpr"
| "run_control_callback CB_OnDropExpr = OnDropExpr"
| "run_control_callback (CB_OnCallExpr a) = OnCallExpr a"
| "run_control_callback (CB_OnCallIndirectExpr a) = OnCallIndirectExpr a"

fun run_callback :: "(Index list \<Rightarrow> Index) \<Rightarrow> HostImportDelegate \<Rightarrow> loader_callback \<Rightarrow> unit rop" where
  "run_callback pick host (CB_Module c) = run_module_callback pick host c"
| "run_callback pick host (CB_Operator c) = run_operator_callback c"
| "run_callback pick host (CB_Control c) = run_control_callback c"

definition Reader_init :: "Environment \<Rightarrow> BinaryReaderInterp" where
  "Reader_init env = \<lparr>rd_env = (EmplaceBackModule DefinedModule_init env)\<lparr>env_istream := []\<rparr>,
     rd_module = length (env_modules env), rd_current_func = None,
     rd_typechecker = \<lparr>type_stack = [], label_stack = [], br_table_sig = None, errors = [], healthy = True\<rparr>,
     rd_label_stack = [], rd_func_fixups = [], rd_depth_fixups = [],
     rd_istream = env_istream env, rd_istream_offset = of_nat (length (env_istream env)),
     rd_sig_index_mapping = [], rd_func_index_mapping = [], rd_global_index_mapping = [],
     rd_num_func_imports = 0, rd_num_global_imports = 0,
     rd_elem_segment_infos = [], rd_data_segment_infos = [],
     rd_init_expr_value = \<lparr>tv_type = Type_Void, tv_value = 0\<rparr>, rd_table_offset = 0\<rparr>"

text \<open>
  \<open>ReadBinary\<close> calls the delegate while it parses and stops at the first callback that fails: its
  behaviour is the list of callbacks for the bytes, up to the place where they are malformed, and
  whether there is such a place. The stream is taken out of the store while the module is read.
  \<open>None\<close>: undefined behaviour.
\<close>

definition ReadBinaryInterp :: "(Index list \<Rightarrow> Index) \<Rightarrow> HostImportDelegate \<Rightarrow> loader_callback list \<Rightarrow> Result \<Rightarrow>
    Environment \<Rightarrow> (Result \<times> Environment \<times> nat option \<times> string list) option" where
  "ReadBinaryInterp pick host callbacks parse_result env =
     (let mark = Environment_Mark env;
          istream_offset = of_nat (length (env_istream env)) :: u32
      in case r_each (run_callback pick host) callbacks (Reader_init env) of
        (RUndef, s) \<Rightarrow> None
      | (r, s) \<Rightarrow>
          let result = (if r = RError then Result_Error else parse_result);
              env1 = (rd_env s)\<lparr>env_istream := rd_istream s\<rparr>;
              msgs = errors (rd_typechecker s)
          in if Succeeded result then
               Some (result, env1\<lparr>env_modules := (env_modules env1)[rd_module s :=
                   (env_modules env1 ! rd_module s)\<lparr>mod_istream_start := istream_offset,
                     mod_istream_end := of_nat (length (env_istream env1))\<rparr>]\<rparr>,
                 Some (rd_module s), msgs)
             else Some (result, Environment_ResetToMarkPoint mark env1, None, msgs))"

end
