(* ===== verification/InterpLoadFrame.thy ===== *)
theory InterpLoadFrame
  imports InterpLoadExpr
begin

text \<open>
  Invariants of the loader (\<open>InterpReader\<close>, \<open>InterpLoad\<close>, \<open>InterpLoadExpr\<close>): a small Hoare logic for
  its callbacks, the contract \<open>loader_contract\<close> an invariant has with the primitive operations,
  and what follows for the callbacks for instructions, once for every invariant.
\<close>

section \<open>Triples\<close>

text \<open>
  No operation shrinks the instruction stream, so a bound on its length at the end holds
  throughout. A triple speaks of the runs that stay below \<open>2 ^ 32\<close> bytes and have no undefined
  behaviour: \<open>Q\<close> after success, \<open>E\<close> after a failure.
\<close>

definition valid :: "(BinaryReaderInterp \<Rightarrow> bool) \<Rightarrow> 'a rop \<Rightarrow> ('a \<Rightarrow> BinaryReaderInterp \<Rightarrow> bool) \<Rightarrow>
    (BinaryReaderInterp \<Rightarrow> bool) \<Rightarrow> bool" where
  "valid P f Q E \<longleftrightarrow>
     (\<forall>s r s'. f s = (r, s') \<longrightarrow> length (rd_istream s) \<le> length (rd_istream s') \<and>
        (P s \<longrightarrow> length (rd_istream s') < 2 ^ 32 \<longrightarrow>
           (\<forall>x. r = ROk x \<longrightarrow> Q x s') \<and> (r = RError \<longrightarrow> E s')))"

definition preserves :: "(BinaryReaderInterp \<Rightarrow> bool) \<Rightarrow> 'a rop \<Rightarrow> bool" where
  "preserves I f \<longleftrightarrow> valid I f (\<lambda>_. I) I"

lemma validI:
  assumes "\<And>s r s'. f s = (r, s') \<Longrightarrow> length (rd_istream s) \<le> length (rd_istream s')"
    and "\<And>s r s'. f s = (r, s') \<Longrightarrow> P s \<Longrightarrow> length (rd_istream s') < 2 ^ 32 \<Longrightarrow>
      (\<forall>x. r = ROk x \<longrightarrow> Q x s') \<and> (r = RError \<longrightarrow> E s')"
  shows "valid P f Q E"
  using assms unfolding valid_def by blast

lemma validD:
  assumes "valid P f Q E" "f s = (r, s')"
  shows "length (rd_istream s) \<le> length (rd_istream s')"
    and "P s \<Longrightarrow> length (rd_istream s') < 2 ^ 32 \<Longrightarrow> r = ROk x \<Longrightarrow> Q x s'"
    and "P s \<Longrightarrow> length (rd_istream s') < 2 ^ 32 \<Longrightarrow> r = RError \<Longrightarrow> E s'"
  using assms unfolding valid_def by blast+

lemma valid_weaken:
  assumes "valid P f Q E" "\<And>s. P' s \<Longrightarrow> P s" "\<And>x s. Q x s \<Longrightarrow> Q' x s" "\<And>s. E s \<Longrightarrow> E' s"
  shows "valid P' f Q' E'"
  using assms unfolding valid_def by blast

lemma valid_pre: "valid P f Q E \<Longrightarrow> (\<And>s. P' s \<Longrightarrow> P s) \<Longrightarrow> valid P' f Q E"
  by (rule valid_weaken)

lemma valid_bind:
  assumes "valid P f Q E" "\<And>x. valid (Q x) (g x) R E"
  shows "valid P (r_bind f g) R E"
proof (rule validI)
  fix s r s'
  assume run: "r_bind f g s = (r, s')"
  obtain r1 s1 where f: "f s = (r1, s1)" by fastforce
  note 1 = validD [OF assms(1) f]
  show "length (rd_istream s) \<le> length (rd_istream s')"
  proof (cases r1)
    case (ROk x)
    then have "g x s1 = (r, s')" using run f by (simp add: r_bind_def)
    then show ?thesis using validD(1) [OF assms(2)] 1(1) by (blast intro: le_trans)
  qed (use run f 1(1) in \<open>auto simp: r_bind_def\<close>)
  assume P: "P s" "length (rd_istream s') < 2 ^ 32"
  show "(\<forall>y. r = ROk y \<longrightarrow> R y s') \<and> (r = RError \<longrightarrow> E s')"
  proof (cases r1)
    case (ROk x)
    then have g: "g x s1 = (r, s')" using run f by (simp add: r_bind_def)
    note 2 = validD [OF assms(2) g]
    have "Q x s1" using 1(2) [OF P(1) _ ROk] 2(1) P(2) by simp
    then show ?thesis using 2(2,3) P(2) by blast
  qed (use run f 1 P in \<open>auto simp: r_bind_def\<close>)
qed

lemma valid_then: "valid P f (\<lambda>_. Q) E \<Longrightarrow> valid Q g R E \<Longrightarrow> valid P (r_then f g) R E"
  unfolding r_then_def by (rule valid_bind)

lemma valid_return: "(\<And>s. P s \<Longrightarrow> Q x s) \<Longrightarrow> valid P (r_return x) Q E"
  by (rule validI) (auto simp: r_return_def)

lemma valid_get: "(\<And>s. P s \<Longrightarrow> Q (h s) s) \<Longrightarrow> valid P (r_get h) Q E"
  by (rule validI) (auto simp: r_get_def)

lemma valid_mod:
  "(\<And>s. rd_istream (h s) = rd_istream s) \<Longrightarrow> (\<And>s. P s \<Longrightarrow> Q () (h s)) \<Longrightarrow> valid P (r_mod h) Q E"
  by (rule validI) (auto simp: r_mod_def)

lemma valid_undef: "valid P r_undef Q E"
  by (rule validI) (auto simp: r_undef_def)

lemma valid_assert: "(\<And>s. c \<Longrightarrow> P s \<Longrightarrow> Q () s) \<Longrightarrow> valid P (r_assert c) Q E"
  by (cases c) (auto simp: r_assert_def intro: valid_return valid_undef)

lemma valid_nth: "(\<And>s. i < length xs \<Longrightarrow> P s \<Longrightarrow> Q (xs ! i) s) \<Longrightarrow> valid P (r_nth xs i) Q E"
  by (auto simp: r_nth_def intro: valid_return valid_undef)

lemma valid_if:
  "(c \<Longrightarrow> valid P f Q E) \<Longrightarrow> (\<not> c \<Longrightarrow> valid P g Q E) \<Longrightarrow> valid P (if c then f else g) Q E"
  by simp

lemma valid_False: "valid P f Q E \<Longrightarrow> valid (\<lambda>_. False) f Q' E'"
  unfolding valid_def by blast

lemma valid_ignore: "valid P f (\<lambda>_. Q) Q \<Longrightarrow> valid P (r_ignore f) (\<lambda>_. Q) E"
proof (rule validI)
  fix s r s' assume v: "valid P f (\<lambda>_. Q) Q" and run: "r_ignore f s = (r, s')"
  obtain r1 s1 where f: "f s = (r1, s1)" by fastforce
  then have r: "s1 = s'" "r = RUndef \<longleftrightarrow> r1 = RUndef" "r = ROk () \<or> r = RUndef"
    using run by (cases r1; auto simp: r_ignore_def)+
  show "length (rd_istream s) \<le> length (rd_istream s')" using validD(1) [OF v f] r(1) by simp
  assume "P s" "length (rd_istream s') < 2 ^ 32"
  then show "(\<forall>x. r = ROk x \<longrightarrow> Q s') \<and> (r = RError \<longrightarrow> E s')"
    using validD(2,3) [OF v f] r by (cases r1) auto
qed

text \<open>Facts that later operations keep because the stream only grows.\<close>

lemma valid_frame:
  assumes "valid P f Q E" "\<And>s s'. length (rd_istream s) \<le> length (rd_istream s') \<Longrightarrow> F s \<Longrightarrow> F s'"
  shows "valid (\<lambda>s. P s \<and> F s) f (\<lambda>x s. Q x s \<and> F s) (\<lambda>s. E s \<and> F s)"
proof (rule validI)
  fix s r s' assume f: "f s = (r, s')"
  note 1 = validD [OF assms(1) f]
  show "length (rd_istream s) \<le> length (rd_istream s')" by (rule 1(1))
  assume "P s \<and> F s" "length (rd_istream s') < 2 ^ 32"
  then show "(\<forall>x. r = ROk x \<longrightarrow> Q x s' \<and> F s') \<and> (r = RError \<longrightarrow> E s' \<and> F s')"
    using 1 assms(2) by blast
qed

section \<open>Preservation\<close>

named_theorems keep

lemma preserves_bind [keep]: "preserves I f \<Longrightarrow> (\<And>x. preserves I (g x)) \<Longrightarrow> preserves I (r_bind f g)"
  unfolding preserves_def by (rule valid_bind)

lemma preserves_then [keep]: "preserves I f \<Longrightarrow> preserves I g \<Longrightarrow> preserves I (r_then f g)"
  unfolding r_then_def by (intro preserves_bind)

lemma preserves_return [keep]: "preserves I (r_return x)"
  unfolding preserves_def by (rule valid_return)

lemma preserves_get [keep]: "preserves I (r_get h)"
  unfolding preserves_def by (rule valid_get)

lemma preserves_undef [keep]: "preserves I r_undef"
  unfolding preserves_def by (rule valid_undef)

lemma preserves_assert [keep]: "preserves I (r_assert c)"
  unfolding preserves_def by (rule valid_assert)

lemma preserves_nth [keep]: "preserves I (r_nth xs i)"
  unfolding preserves_def by (rule valid_nth)

lemma preserves_if [keep]: "preserves I f \<Longrightarrow> preserves I g \<Longrightarrow> preserves I (if c then f else g)"
  by simp

lemma preserves_let [keep]: "(\<And>x. preserves I (g x)) \<Longrightarrow> preserves I (let x = a in g x)"
  by simp

lemma preserves_option [keep]:
  "preserves I f \<Longrightarrow> (\<And>y. preserves I (g y)) \<Longrightarrow> preserves I (case x of None \<Rightarrow> f | Some y \<Rightarrow> g y)"
  by (cases x) simp_all

lemma preserves_prod [keep]: "(\<And>a b. preserves I (g a b)) \<Longrightarrow> preserves I (case x of (a, b) \<Rightarrow> g a b)"
  by (cases x) simp

lemma preserves_list [keep]:
  "preserves I f \<Longrightarrow> (\<And>y ys. preserves I (g y ys)) \<Longrightarrow> preserves I (case x of [] \<Rightarrow> f | y # ys \<Rightarrow> g y ys)"
  by (cases x) simp_all

lemma preserves_each [keep]: "(\<And>x. x \<in> set xs \<Longrightarrow> preserves I (f x)) \<Longrightarrow> preserves I (r_each f xs)"
  by (induction xs) (auto intro: keep)

lemma preserves_ignore [keep]: "preserves I f \<Longrightarrow> preserves I (r_ignore f)"
  unfolding preserves_def by (rule valid_ignore)

lemma preserves_mod:
  "(\<And>s. rd_istream (h s) = rd_istream s) \<Longrightarrow> (\<And>s. I s \<Longrightarrow> I (h s)) \<Longrightarrow> preserves I (r_mod h)"
  unfolding preserves_def by (rule valid_mod)

text \<open>The operations that only read.\<close>

lemma preserves_read [keep]:
  "preserves I (TranslateSigIndexToEnv i)" "preserves I (GetFuncSignature i)" "preserves I (GetFunc i)"
  "preserves I (GetTable i)" "preserves I (GetMemory i)" "preserves I (GetGlobal i)"
  "preserves I (TranslateFuncIndexToEnv i)" "preserves I (TranslateGlobalIndexToEnv i)"
  "preserves I (TranslateModuleFuncIndexToDefined i)" "preserves I this_module"
  "preserves I (Reader_GetLabel i)" "preserves I Reader_TopLabel"
  unfolding TranslateSigIndexToEnv_def GetFuncSignature_def GetFunc_def GetTable_def GetMemory_def
    GetGlobal_def TranslateFuncIndexToEnv_def TranslateGlobalIndexToEnv_def
    TranslateModuleFuncIndexToDefined_def this_module_def Reader_TopLabel_def Reader_GetLabel_def
  by (intro keep)+

lemma preserves_read2 [keep]:
  "preserves I (GetSignatureByModuleIndex i)" "preserves I (GetFuncByModuleIndex i)"
  "preserves I (GetGlobalByModuleIndex i)" "preserves I (GetLocalTypeByIndex f i)"
  "preserves I (GetGlobalTypeByModuleIndex i)" "preserves I current_func" "preserves I (TranslateLocalIndex i)"
  unfolding GetSignatureByModuleIndex_def GetFuncByModuleIndex_def GetGlobalByModuleIndex_def
    GetLocalTypeByIndex_def GetGlobalTypeByModuleIndex_def current_func_def TranslateLocalIndex_def
  by (intro keep)+

lemma preserves_block_signature [keep]: "preserves I (GetBlockSignature st)"
  by (cases st) (auto intro!: keep)


section \<open>The contract\<close>

text \<open>A placeholder, code, and the offset after the code written over the placeholder.\<close>

definition patched :: "unit rop \<Rightarrow> unit rop" where
  "patched f = r_bind (r_get rd_istream_offset) (\<lambda>p.
     r_then (EmitI32 kInvalidIstreamOffset) (r_then f (r_bind (r_get rd_istream_offset) (EmitI32At p))))"

lemma r_then_assoc: "r_then (r_then f g) h = r_then f (r_then g h)"
  by (rule ext) (simp add: r_then_def r_bind_def split: prod.splits rres.splits)

lemma r_bind_then: "r_then (r_bind f g) h = r_bind f (\<lambda>x. r_then (g x) h)"
  by (rule ext) (simp add: r_then_def r_bind_def split: prod.splits rres.splits)

text \<open>What an invariant of the loader owes the operations that write to its state.\<close>

locale loader_contract =
  fixes I :: "BinaryReaderInterp \<Rightarrow> bool"
  assumes typechecker: "I s \<Longrightarrow> I (s\<lparr>rd_typechecker := t\<rparr>)"
    and emit: "preserves I (EmitData bs)"
    and br_offset: "preserves I (EmitBrOffset depth offset)"
    and func_offset: "preserves I (EmitFuncOffset func i)"
    and push_label: "preserves I (Reader_PushLabel offset kInvalidIstreamOffset)"
    and pop_label: "preserves I Reader_PopLabel"
    and fixup_top: "preserves I FixupTopLabel"
    and patch_top: "preserves I (r_bind Reader_TopLabel (\<lambda>l.
          r_bind (r_get rd_istream_offset) (EmitI32At (Label_fixup_offset l))))"
    and patch: "preserves I f \<Longrightarrow> preserves I (patched f)"
    and patch_if: "preserves I (r_bind (r_get rd_istream_offset) (\<lambda>p.
          r_then (EmitI32 kInvalidIstreamOffset) (Reader_PushLabel kInvalidIstreamOffset p)))"
    and patch_else: "preserves I (r_bind Reader_TopLabel (\<lambda>label.
          r_then (EmitOp ''Br'')
            (r_then (r_bind (r_get rd_istream_offset) set_top_fixup)
            (r_then (EmitI32 kInvalidIstreamOffset)
            (r_bind (r_get rd_istream_offset) (EmitI32At (Label_fixup_offset label)))))))"
    and update_current_func: "preserves I (update_current_func g)"
    and no_current_func: "I s \<Longrightarrow> I (s\<lparr>rd_current_func := None\<rparr>)"
begin

lemma check [keep]: "preserves I (r_check f)"
  unfolding preserves_def
  by (rule validI) (auto simp: r_check_def typechecker split: prod.splits if_splits)

lemma fail [keep]: "preserves I (r_fail msg)"
  unfolding preserves_def
  by (rule validI) (auto simp: r_fail_def Reader_PrintError_def r_mod_def typechecker)

lemma drop_keep_count [keep]: "preserves I (GetBrDropKeepCount depth)"
  unfolding preserves_def
  by (rule validI) (auto simp: GetBrDropKeepCount_def Let_def typechecker split: prod.splits option.splits)

lemma top_type [keep]: "preserves I top_label_type"
  unfolding preserves_def
  by (rule validI) (auto simp: top_label_type_def typechecker split: prod.splits option.splits)

lemmas [keep] = emit br_offset func_offset push_label pop_label fixup_top patch_top patch patch_if
  patch_else update_current_func

lemma emit_word [keep]: "preserves I (EmitI8 a)" "preserves I (EmitI32 b)" "preserves I (EmitI64 c)"
  "preserves I (EmitV128 d)"
  unfolding EmitI8_def EmitI32_def EmitI64_def EmitV128_def by (rule emit)+

lemma emit_opcode [keep]: "preserves I (EmitOpcode e)"
  unfolding EmitOpcode_def Let_def by (intro keep)

lemma emit_op [keep]: "preserves I (EmitOp n)"
  unfolding EmitOp_def by (intro keep)

lemma emit_drop_keep [keep]: "preserves I (EmitDropKeep d k)"
  unfolding EmitDropKeep_def by (intro keep)

lemma return_drop_keep_count [keep]: "preserves I GetReturnDropKeepCount"
  unfolding GetReturnDropKeepCount_def by (intro keep)

lemma emit_br [keep]: "preserves I (EmitBr depth d k)" "preserves I (EmitBrTableOffset depth)"
  unfolding EmitBr_def EmitBrTableOffset_def by (intro keep)+

lemma checks [keep]: "preserves I (CheckHasMemory e)" "preserves I (CheckAlign a n)"
  "preserves I (CheckAtomicAlign a n)" "preserves I (CheckLocal i)" "preserves I (CheckGlobal i)"
  unfolding CheckHasMemory_def CheckAlign_def CheckAtomicAlign_def CheckLocal_def CheckGlobal_def
  by (intro keep)+

lemma memory_access [keep]: "preserves I (emit_memory_access e a c off)" if "preserves I a"
  unfolding emit_memory_access_def by (intro keep that)

lemma operator: "preserves I (run_operator_callback c)"
  by (cases c) (auto simp: OnUnaryExpr_def OnTernaryExpr_def OnBinaryExpr_def OnCompareExpr_def
    OnConvertExpr_def OnSimdLaneOpExpr_def OnSimdShuffleOpExpr_def OnAtomicLoadExpr_def
    OnAtomicStoreExpr_def OnAtomicRmwExpr_def OnAtomicRmwCmpxchgExpr_def OnAtomicWaitExpr_def
    OnAtomicWakeExpr_def OnLoadExpr_def OnStoreExpr_def OnMemoryGrowExpr_def OnMemorySizeExpr_def
    OnI32ConstExpr_def OnI64ConstExpr_def OnF32ConstExpr_def OnF64ConstExpr_def OnV128ConstExpr_def
    OnGetGlobalExpr_def OnSetGlobalExpr_def OnGetLocalExpr_def OnSetLocalExpr_def OnTeeLocalExpr_def
    intro!: keep)

lemma br_if [keep]: "preserves I (OnBrIfExpr depth)"
proof -
  have "OnBrIfExpr depth = r_then (r_check (OnBrIf (unat depth)))
     (r_bind (GetBrDropKeepCount depth) (\<lambda>(drop_count, keep_count).
      r_then (EmitOp ''InterpBrUnless'') (patched (EmitBr depth drop_count keep_count))))"
    by (simp add: OnBrIfExpr_def patched_def)
  then show ?thesis by (simp only:) (intro keep)
qed

lemma br_table [keep]: "preserves I (OnBrTableExpr ds d)"
proof -
  define n where "n = (of_nat (length ds) :: Index)"
  define targets where "targets = r_then (r_each (\<lambda>depth. r_then (r_check (OnBrTableTarget (unat depth)))
    (EmitBrTableOffset depth)) (ds @ [d])) (r_check EndBrTable)"
  define data where "data = r_then (EmitOp ''InterpData'') (EmitI32 ((n + 1) * WABT_TABLE_ENTRY_SIZE))"
  have "OnBrTableExpr ds d = r_then (r_check BeginBrTable) (r_then (EmitOp ''BrTable'') (r_then (EmitI32 n)
     (r_then (patched data) targets)))"
    by (simp add: OnBrTableExpr_def n_def data_def targets_def patched_def r_then_assoc r_bind_then Let_def)
  moreover have "preserves I targets" "preserves I data"
    unfolding targets_def data_def by (intro keep)+
  ultimately show ?thesis by (auto intro!: keep)
qed

lemma block [keep]: "preserves I (OnBlockExpr st)" "preserves I (OnLoopExpr st)" "preserves I (OnIfExpr st)"
  unfolding OnBlockExpr_def OnLoopExpr_def OnIfExpr_def by (intro keep)+

lemma else_end [keep]: "preserves I OnElseExpr" "preserves I OnEndExpr"
  unfolding OnElseExpr_def OnEndExpr_def Let_def by (intro keep)+

lemma end_body [keep]: "preserves I EndFunctionBody"
  unfolding EndFunctionBody_def by (intro keep preserves_mod) (simp_all add: no_current_func)

lemma control: "preserves I (run_control_callback c)" if "\<And>i. c \<noteq> CB_BeginFunctionBody i"
  using that
  by (cases c) (auto simp: OnLocalDeclCount_def OnLocalDecl_def OnBrExpr_def OnReturnExpr_def
    OnNopExpr_def OnSelectExpr_def OnUnreachableExpr_def OnDropExpr_def OnCallExpr_def
    OnCallIndirectExpr_def intro!: keep)

end

end
