(* ===== verification/InterpLoadSpec.thy ===== *)
theory InterpLoadSpec
  imports InterpLoadFrame Opcodes
begin

text \<open>
  The code the loader writes (\<open>InterpLoadExpr\<close>): what it appends to the instruction stream is what
  the interpreter reads there, and the invariant of its fixups \<open>stream_inv\<close>, an instance of
  \<open>loader_contract\<close>, with which the end of a block resolves the branches to it.
\<close>

section \<open>What is written can be read\<close>

lemma length_emitted_word [simp]: "length (word_le (w :: 'a::len word)) = LENGTH('a) div 8"
  by (simp add: word_le_def)

lemma le_word_bits:
  "bit (le_word bs :: 'a::len word) n \<longleftrightarrow> n < LENGTH('a) \<and> n div 8 < length bs \<and> bit (bs ! (n div 8)) (n mod 8)"
proof (induction bs arbitrary: n)
  case Nil
  show ?case by simp
next
  case (Cons b bs)
  show ?case
  proof (cases "n < 8")
    case True
    then show ?thesis by (auto simp: bit_simps)
  next
    case False
    then have "n div 8 = Suc ((n - 8) div 8)" "n mod 8 = (n - 8) mod 8" by presburger+
    moreover have "\<not> bit b n" using False bit_imp_le_length [of b n] by auto
    ultimately show ?thesis using False Cons.IH [of "n - 8"] by (auto simp: bit_simps)
  qed
qed

lemma le_word_word_le:
  assumes "8 dvd LENGTH('a::len)"
  shows "le_word (word_le (w :: 'a word)) = w"
proof (rule bit_word_eqI)
  fix n assume n: "n < LENGTH('a)"
  obtain k where k: "LENGTH('a) = 8 * k" using assms by (rule dvdE)
  have "n div 8 < k" using n k by auto
  then have nth: "word_le w ! (n div 8) = (ucast (drop_bit (8 * (n div 8)) w) :: u8)"
    by (simp add: word_le_def k)
  have "8 * (n div 8) + n mod 8 = n" by simp
  then have "bit (word_le w ! (n div 8)) (n mod 8) \<longleftrightarrow> bit w n"
    unfolding nth by (simp add: bit_simps)
  then show "bit (le_word (word_le w) :: 'a word) n \<longleftrightarrow> bit w n"
    using n \<open>n div 8 < k\<close> by (simp add: le_word_bits k)
qed

text \<open>The stream from an offset on, as the interpreter sees it.\<close>

definition reads :: "'a iop \<Rightarrow> bytes \<Rightarrow> nat \<Rightarrow> 'a \<Rightarrow> nat \<Rightarrow> bool" where
  "reads f stream pc x pc' \<longleftrightarrow>
     (\<forall>s. env_istream (st_env s) = stream \<longrightarrow> st_pc s = pc \<longrightarrow> f s = (IVal x, s\<lparr>st_pc := pc'\<rparr>))"

lemma reads_bind:
  assumes "reads f stream pc x pc1" "reads (g x) stream pc1 y pc2"
  shows "reads (i_bind f g) stream pc y pc2"
  using assms by (simp add: reads_def i_bind_def)

lemma reads_ReadUx:
  assumes "take (LENGTH('a) div 8) (drop pc stream) = word_le w" "8 dvd LENGTH('a::len)"
  shows "reads ReadUx stream pc (w :: 'a word) (pc + LENGTH('a) div 8)"
proof -
  obtain k where k: "LENGTH('a) = 8 * k" using assms(2) by (rule dvdE)
  then have "k > 0" using len_gt_0 [where 'a = 'a] by simp
  have "length (take k (drop pc stream)) = k" using assms(1) by (simp add: k)
  then have "pc + k \<le> length stream" using \<open>k > 0\<close> by simp
  then show ?thesis
    using assms le_word_word_le [OF assms(2), of w] by (simp add: reads_def ReadUx_def ReadUxAt_def Let_def k)
qed

lemma take_drop_prefix:
  assumes "take n (drop pc stream) = xs @ ys" "n = length xs + length ys"
  shows "take (length xs) (drop pc stream) = xs" "take (length ys) (drop (pc + length xs) stream) = ys"
proof -
  have "drop pc stream = (xs @ ys) @ drop n (drop pc stream)"
    using append_take_drop_id [of n "drop pc stream"] assms(1) by simp
  then show "take (length xs) (drop pc stream) = xs" "take (length ys) (drop (pc + length xs) stream) = ys"
    by (metis append.assoc append_eq_conv_conj, metis add.commute append.assoc append_eq_conv_conj drop_drop)
qed

section \<open>Opcodes in the stream\<close>

definition prefix_ok :: "string \<times> opcode_info \<Rightarrow> bool" where
  "prefix_ok r \<longleftrightarrow> IsPrefixByte (prefix (snd r)) \<or>
     prefix (snd r) = 0 \<and> \<not> IsPrefixByte (ucast (opcode_code (snd r)))"

lemma prefix_ok_row [simp]:
  "prefix_ok (WABT_OPCODE tr t1 t2 t3 m p c Name txt) \<longleftrightarrow>
     IsPrefixByte p \<or> p = 0 \<and> \<not> IsPrefixByte (ucast c)"
  by (simp add: prefix_ok_def WABT_OPCODE_def)

lemma opcode_def_prefix_ok: "list_all prefix_ok opcode_def"
proof -
  have 1: "list_all prefix_ok opcode_def_1" by (simp add: opcode_def_1_def IsPrefixByte_def)
  have 2: "list_all prefix_ok opcode_def_2" by (simp add: opcode_def_2_def IsPrefixByte_def)
  have 3: "list_all prefix_ok opcode_def_3" by (simp add: opcode_def_3_def IsPrefixByte_def)
  have 4: "list_all prefix_ok opcode_def_4" by (simp add: opcode_def_4_def IsPrefixByte_def)
  have 5: "list_all prefix_ok opcode_def_5" by (simp add: opcode_def_5_def IsPrefixByte_def)
  have 6: "list_all prefix_ok opcode_def_6" by (simp add: opcode_def_6_def IsPrefixByte_def)
  show ?thesis using 1 2 3 4 5 6 by (simp add: opcode_def_def)
qed

lemma opcode_prefix:
  assumes "e < Opcode_Invalid"
  shows "IsPrefixByte (GetPrefix e) \<or> GetPrefix e = 0 \<and> \<not> IsPrefixByte (ucast (GetCode e))" "GetCode e < 256"
proof -
  have i: "unat e < length infos" using assms by (simp add: length_infos Opcode_Invalid_def word_less_nat_alt)
  have info: "GetInfo e = infos ! unat e" using assms by (simp add: GetInfo_def)
  have "prefix_ok (opcode_def ! unat e)"
    using opcode_def_prefix_ok i by (simp add: list_all_length infos_def)
  then show "IsPrefixByte (GetPrefix e) \<or> GetPrefix e = 0 \<and> \<not> IsPrefixByte (ucast (GetCode e))"
    using i by (simp add: prefix_ok_def GetPrefix_def GetCode_def info infos_def)
  show "GetCode e < 256" using infos_well_coded(1) [OF i] by (simp add: GetCode_def info)
qed


section \<open>What is emitted\<close>

text \<open>Items of the instruction stream.\<close>

datatype stream_item = Item_Opcode u32 | Item_U8 u8 | Item_U32 u32 | Item_U64 u64 | Item_V128 v128

fun emit_item :: "stream_item \<Rightarrow> unit rop" where
  "emit_item (Item_Opcode e) = EmitOpcode e"
| "emit_item (Item_U8 w) = EmitI8 w"
| "emit_item (Item_U32 w) = EmitI32 w"
| "emit_item (Item_U64 w) = EmitI64 w"
| "emit_item (Item_V128 w) = EmitV128 w"

text \<open>Reading an item of the same kind.\<close>

fun read_item :: "stream_item \<Rightarrow> stream_item iop" where
  "read_item (Item_Opcode _) = i_bind ReadOpcode (\<lambda>e. i_return (Item_Opcode e))"
| "read_item (Item_U8 _) = i_bind ReadU8 (\<lambda>w. i_return (Item_U8 w))"
| "read_item (Item_U32 _) = i_bind ReadU32 (\<lambda>w. i_return (Item_U32 w))"
| "read_item (Item_U64 _) = i_bind ReadU64 (\<lambda>w. i_return (Item_U64 w))"
| "read_item (Item_V128 _) = i_bind ReadV128 (\<lambda>w. i_return (Item_V128 w))"

fun read_items :: "stream_item list \<Rightarrow> stream_item list iop" where
  "read_items [] = i_return []"
| "read_items (x # xs) = i_bind (read_item x) (\<lambda>y. i_bind (read_items xs) (\<lambda>ys. i_return (y # ys)))"

fun item_ok :: "stream_item \<Rightarrow> bool" where
  "item_ok (Item_Opcode e) \<longleftrightarrow> e < Opcode_Invalid"
| "item_ok _ \<longleftrightarrow> True"

definition opcode_bytes :: "u32 \<Rightarrow> bytes" where
  "opcode_bytes e = (if HasPrefix e then [GetPrefix e] else []) @ [ucast (GetCode e)]"

fun item_bytes :: "stream_item \<Rightarrow> bytes" where
  "item_bytes (Item_Opcode e) = opcode_bytes e"
| "item_bytes (Item_U8 w) = word_le w"
| "item_bytes (Item_U32 w) = word_le w"
| "item_bytes (Item_U64 w) = word_le w"
| "item_bytes (Item_V128 w) = word_le w"

lemma length_item_bytes: "length (item_bytes x) \<le> 16"
  by (cases x) (simp_all add: opcode_bytes_def)

lemma length_items_bytes: "length (concat (map item_bytes xs)) \<le> 16 * length xs"
proof (induction xs)
  case (Cons x xs)
  then show ?case using length_item_bytes [of x] by simp
qed simp

text \<open>Nothing is lost where the offset is the length of the stream.\<close>

definition at_end :: "BinaryReaderInterp \<Rightarrow> bool" where
  "at_end s \<longleftrightarrow> unat (rd_istream_offset s) = length (rd_istream s)"

definition appended :: "bytes \<Rightarrow> BinaryReaderInterp \<Rightarrow> BinaryReaderInterp" where
  "appended bs s = s\<lparr>rd_istream := rd_istream s @ bs,
     rd_istream_offset := rd_istream_offset s + of_nat (length bs)\<rparr>"

lemma appended_appended: "appended ys (appended xs s) = appended (xs @ ys) s"
  by (simp add: appended_def)

lemma appended_sel [simp]: "rd_istream (appended bs s) = rd_istream s @ bs"
  "rd_istream_offset (appended bs s) = rd_istream_offset s + of_nat (length bs)"
  by (simp_all add: appended_def)

lemma at_end_appended:
  assumes "at_end s" "length (rd_istream s) + length bs < 2 ^ 32"
  shows "at_end (appended bs s)"
proof -
  have "unat (of_nat (length bs) :: u32) = length bs" using assms(2) by (simp add: unat_of_nat take_bit_nat_eq_self)
  then show ?thesis using assms by (simp add: at_end_def unat_word_ariths)
qed

lemma EmitData_end:
  assumes "at_end s"
  shows "EmitData bs s = (ROk (), appended bs s)"
  using assms
  by (simp add: EmitData_def EmitDataAt_def r_bind_def r_then_def r_get_def r_mod_def appended_def
      MemoryStream_WriteData_def bytes_resize_def bytes_store_def at_end_def Let_def)

lemma word_le_u8: "word_le (w :: u8) = [w]"
  by (simp add: word_le_def)

lemma EmitOpcode_end:
  assumes "at_end s" "length (rd_istream s) + 16 < 2 ^ 32" "e < Opcode_Invalid"
  shows "EmitOpcode e s = (ROk (), appended (opcode_bytes e) s)"
  using opcode_prefix(2) [OF assms(3)] at_end_appended [of s "[GetPrefix e]"] assms(1,2)
  by (simp add: EmitOpcode_def EmitI8_def r_then_def r_bind_def EmitData_end word_le_u8 Let_def
      r_assert_def r_return_def opcode_bytes_def appended_appended)

lemma emit_item_end:
  assumes "at_end s" "length (rd_istream s) + 16 < 2 ^ 32" "item_ok x"
  shows "emit_item x s = (ROk (), appended (item_bytes x) s)"
  using assms by (cases x) (simp_all add: EmitOpcode_end EmitI8_def EmitI32_def EmitI64_def EmitV128_def EmitData_end)

lemma emit_items_end:
  assumes "at_end s" "length (rd_istream s) + 16 * length xs < 2 ^ 32" "list_all item_ok xs"
  shows "r_each emit_item xs s = (ROk (), appended (concat (map item_bytes xs)) s)"
  using assms
proof (induction xs arbitrary: s)
  case Nil
  then show ?case by (simp add: r_return_def appended_def)
next
  case (Cons x xs)
  have "at_end (appended (item_bytes x) s)"
    using Cons.prems length_item_bytes [of x] by (intro at_end_appended) auto
  moreover have "length (rd_istream (appended (item_bytes x) s)) + 16 * length xs < 2 ^ 32"
    using Cons.prems(2) length_item_bytes [of x] by simp
  ultimately show ?case
    using Cons.IH [of "appended (item_bytes x) s"] Cons.prems
    by (simp add: r_then_def r_bind_def emit_item_end appended_appended)
qed

section \<open>What is read\<close>

lemma reads_return: "reads (i_return x) stream pc x pc"
  by (simp add: reads_def i_return_def)

lemma reads_ReadOpcode:
  assumes "e < Opcode_Invalid" "take (length (opcode_bytes e)) (drop pc stream) = opcode_bytes e"
  shows "reads ReadOpcode stream pc e (pc + length (opcode_bytes e))"
proof -
  have rd: "reads ReadU8 stream pc b (pc + 1)" if "take 1 (drop pc stream) = [b]" for pc b
    using reads_ReadUx [of pc stream b] that by (simp add: ReadU8_def word_le_u8)
  have code: "ucast (ucast (GetCode e) :: u8) = GetCode e"
    using opcode_prefix(2) [OF assms(1)]
    by (intro word_unat_eq_iff [THEN iffD2])
      (simp add: unsigned_ucast_eq unsigned_take_bit_eq take_bit_nat_eq_self word_less_nat_alt)
  show ?thesis
  proof (cases "HasPrefix e")
    case True
    then have "GetPrefix e \<noteq> 0" by (simp add: HasPrefix_def GetPrefix_def)
    then have p: "IsPrefixByte (GetPrefix e)" using opcode_prefix(1) [OF assms(1)] by simp
    have bs: "take (length ([GetPrefix e] @ [ucast (GetCode e)])) (drop pc stream) = [GetPrefix e] @ [ucast (GetCode e)]"
      using assms(2) True by (simp add: opcode_bytes_def)
    have "reads ReadOpcode stream pc (FromCode (GetPrefix e) (ucast (ucast (GetCode e) :: u8))) (pc + 1 + 1)"
      unfolding ReadOpcode_def
      by (rule reads_bind [OF rd]) (use take_drop_prefix [OF bs] p in \<open>auto intro!: reads_bind [OF rd] reads_return\<close>)
    then show ?thesis using True FromCode_found [OF assms(1)] by (simp add: code opcode_bytes_def)
  next
    case False
    then have p: "GetPrefix e = 0" by (simp add: HasPrefix_def GetPrefix_def)
    then have np: "\<not> IsPrefixByte (ucast (GetCode e))"
      using opcode_prefix(1) [OF assms(1)] by (auto simp: IsPrefixByte_def)
    have "reads ReadOpcode stream pc (FromCode 0 (ucast (ucast (GetCode e) :: u8))) (pc + 1)"
      unfolding ReadOpcode_def
      by (rule reads_bind [OF rd]) (use assms(2) False np in \<open>auto simp: opcode_bytes_def intro!: reads_return\<close>)
    then show ?thesis using False FromCode_found [OF assms(1)] by (simp add: code opcode_bytes_def p)
  qed
qed

lemma reads_word:
  assumes "take (length (word_le w)) (drop pc stream) = word_le w" "8 dvd LENGTH('a::len)"
  shows "reads ReadUx stream pc (w :: 'a word) (pc + LENGTH('a) div 8)"
  using reads_ReadUx [of pc stream w] assms by simp

lemma reads_item:
  assumes "item_ok x" "take (length (item_bytes x)) (drop pc stream) = item_bytes x"
  shows "reads (read_item x) stream pc x (pc + length (item_bytes x))"
  using assms
  by (cases x) (auto simp: ReadU8_def ReadU32_def ReadU64_def ReadV128_def
      intro!: reads_bind [OF reads_ReadOpcode] reads_bind [OF reads_word] reads_return)

lemma reads_items:
  assumes "list_all item_ok xs" "take (length (concat (map item_bytes xs))) (drop pc stream) = concat (map item_bytes xs)"
  shows "reads (read_items xs) stream pc xs (pc + length (concat (map item_bytes xs)))"
  using assms
proof (induction xs arbitrary: pc)
  case Nil
  then show ?case by (simp add: reads_return)
next
  case (Cons x xs)
  have "take (length (item_bytes x)) (drop pc stream) = item_bytes x"
    "take (length (concat (map item_bytes xs))) (drop (pc + length (item_bytes x)) stream) = concat (map item_bytes xs)"
    using Cons.prems(2) by (auto intro: take_drop_prefix)
  then show ?case
    using reads_item [of x pc stream] Cons.IH [of "pc + length (item_bytes x)"] Cons.prems(1)
    by (auto simp: add.assoc intro!: reads_bind reads_return)
qed


text \<open>
  C34. What the loader emits is what the interpreter reads: for any sequence of opcodes, 8-bit,
  32-bit, 64-bit and 128-bit immediates that the loader appends to the instruction stream, reading
  items of the same kinds from the place where the first was written gives the same opcodes and
  values, in the same order, and leaves the program counter at the offset where the loader
  continues, whatever code is appended later. In particular no opcode of the table has an encoding
  whose first byte is taken for a prefix, and the little-endian halves agree.\<close>

theorem emitted_items_read_back:
  assumes "list_all item_ok items"
    and "unat (rd_istream_offset s) = length (rd_istream s)"
    and "length (rd_istream s) + 16 * length items < 2 ^ 32"
    and "r_each emit_item items s = (r, s')"
    and "env_istream (st_env t) = rd_istream s' @ later" "st_pc t = unat (rd_istream_offset s)"
  shows "r = ROk () \<and> read_items items t = (IVal items, t\<lparr>st_pc := unat (rd_istream_offset s')\<rparr>)"
proof -
  let ?bs = "concat (map item_bytes items)"
  have s': "r = ROk ()" "s' = appended ?bs s"
    using emit_items_end [of s items] assms(1-4) by (simp_all add: at_end_def)
  have "at_end s'"
    unfolding s' using assms(2,3) length_items_bytes [of items]
    by (intro at_end_appended) (simp_all add: at_end_def)
  then have "unat (rd_istream_offset s') = length (rd_istream s) + length ?bs"
    by (simp add: at_end_def s')
  moreover have "reads (read_items items) (rd_istream s' @ later) (length (rd_istream s)) items
      (length (rd_istream s) + length ?bs)"
    by (rule reads_items [OF assms(1)]) (simp add: s')
  ultimately show ?thesis using assms(2,5,6) s'(1) by (simp add: reads_def)
qed


section \<open>Fixups\<close>

text \<open>The offsets recorded for a value that is not known yet.\<close>

definition fixup_slots :: "BinaryReaderInterp \<Rightarrow> u32 set" where
  "fixup_slots s = (\<Union> (set ` set (rd_depth_fixups s)) \<union> \<Union> (set ` set (rd_func_fixups s)) \<union>
     Label_fixup_offset ` set (rd_label_stack s)) - {kInvalidIstreamOffset}"

definition in_code :: "bytes \<Rightarrow> u32 \<Rightarrow> BinaryReaderInterp \<Rightarrow> bool" where
  "in_code pre f s \<longleftrightarrow> length pre \<le> unat f \<and> unat f + 4 \<le> length (rd_istream s)"

definition apart :: "u32 \<Rightarrow> u32 \<Rightarrow> bool" where
  "apart f g \<longleftrightarrow> unat f + 4 \<le> unat g \<or> unat g + 4 \<le> unat f"

lemma fixup_slots_mono:
  assumes "set (rd_depth_fixups s') \<subseteq> insert [] (set (rd_depth_fixups s))"
    "set (rd_func_fixups s') \<subseteq> insert [] (set (rd_func_fixups s))"
    "set (rd_label_stack s') \<subseteq> set (rd_label_stack s)"
  shows "fixup_slots s' \<subseteq> fixup_slots s"
  using assms by (fastforce simp: fixup_slots_def)

lemma depth_slot:
  "i < length (rd_depth_fixups s) \<Longrightarrow> f \<in> set (rd_depth_fixups s ! i) \<Longrightarrow>
     f = kInvalidIstreamOffset \<or> f \<in> fixup_slots s"
  using nth_mem [of i "rd_depth_fixups s"] by (auto simp: fixup_slots_def)

text \<open>
  The code grows at its end, behind the bytes \<open>pre\<close> of the modules loaded before; the slots are
  four bytes of the new code each and do not overlap.
\<close>

definition stream_inv :: "bytes \<Rightarrow> BinaryReaderInterp \<Rightarrow> bool" where
  "stream_inv pre s \<longleftrightarrow> at_end s \<and> length pre \<le> length (rd_istream s) \<and>
     take (length pre) (rd_istream s) = pre \<and>
     (\<forall>f \<in> fixup_slots s. in_code pre f s) \<and>
     (\<forall>f \<in> fixup_slots s. \<forall>g \<in> fixup_slots s. f \<noteq> g \<longrightarrow> apart f g)"

lemma stream_inv_shrink:
  assumes "stream_inv pre s" "rd_istream s' = rd_istream s" "rd_istream_offset s' = rd_istream_offset s"
    "fixup_slots s' \<subseteq> fixup_slots s"
  shows "stream_inv pre s'"
  using assms unfolding stream_inv_def at_end_def in_code_def by (auto dest: subsetD)

lemma stream_inv_append:
  assumes "stream_inv pre s" "length (rd_istream s) + length bs < 2 ^ 32"
    "rd_istream s' = rd_istream s @ bs"
    "rd_istream_offset s' = rd_istream_offset s + of_nat (length bs)"
    "fixup_slots s' \<subseteq> fixup_slots s \<union> (if length bs = 4 then {rd_istream_offset s} else {})"
  shows "stream_inv pre s'"
proof -
  have e: "at_end s" using assms(1) by (simp add: stream_inv_def)
  have "at_end s'" using at_end_appended [OF e assms(2)] by (simp add: at_end_def assms(3,4))
  moreover have "length pre \<le> length (rd_istream s)" "take (length pre) (rd_istream s') = pre"
    using assms(1) by (simp_all add: stream_inv_def assms(3))
  moreover have old: "\<And>f. f \<in> fixup_slots s \<Longrightarrow> in_code pre f s" using assms(1) by (simp add: stream_inv_def)
  moreover have "in_code pre f s'" if "f \<in> fixup_slots s'" for f
    using that assms(5) old [of f] e \<open>length pre \<le> length (rd_istream s)\<close>
    by (auto simp: in_code_def assms(3) at_end_def split: if_splits)
  moreover have "apart f g" if "f \<in> fixup_slots s'" "g \<in> fixup_slots s'" "f \<noteq> g" for f g
  proof -
    have "f \<in> fixup_slots s \<or> f = rd_istream_offset s" "g \<in> fixup_slots s \<or> g = rd_istream_offset s"
      using that(1,2) assms(5) by (auto split: if_splits)
    then show ?thesis
      using that(3) old [of f] old [of g] e assms(1)
      by (auto simp: in_code_def at_end_def apart_def stream_inv_def)
  qed
  ultimately show ?thesis by (auto simp: stream_inv_def assms(3))
qed

lemma WriteData_grows: "length buf \<le> length (MemoryStream_WriteData off src buf)"
  by (auto simp: MemoryStream_WriteData_def bytes_resize_def bytes_store_def Let_def)

lemma WriteData_reaches: "src \<noteq> [] \<Longrightarrow> off + length src \<le> length (MemoryStream_WriteData off src buf)"
  by (auto simp: MemoryStream_WriteData_def bytes_resize_def bytes_store_def Let_def)

lemma WriteData_inside:
  "off + length src \<le> length buf \<Longrightarrow> MemoryStream_WriteData off src buf = bytes_store off src buf"
  by (auto simp: MemoryStream_WriteData_def bytes_store_def Let_def)

lemma EmitDataAt_run: "EmitDataAt off bs s = (ROk (), s\<lparr>rd_istream := MemoryStream_WriteData (unat off) bs (rd_istream s)\<rparr>)"
  by (simp add: EmitDataAt_def r_mod_def)

lemma EmitData_run: "EmitData bs s = (ROk (), s\<lparr>rd_istream := MemoryStream_WriteData (unat (rd_istream_offset s)) bs (rd_istream s),
    rd_istream_offset := rd_istream_offset s + of_nat (length bs)\<rparr>)"
  by (simp add: EmitData_def EmitDataAt_def r_mod_def r_bind_def r_then_def r_get_def)

lemma fixup_slots_stream [simp]:
  "fixup_slots (s\<lparr>rd_istream := b\<rparr>) = fixup_slots s" "fixup_slots (s\<lparr>rd_istream_offset := a\<rparr>) = fixup_slots s"
  "fixup_slots (appended bs s) = fixup_slots s" "fixup_slots (s\<lparr>rd_typechecker := t\<rparr>) = fixup_slots s"
  "fixup_slots (s\<lparr>rd_env := e\<rparr>) = fixup_slots s" "fixup_slots (s\<lparr>rd_current_func := c\<rparr>) = fixup_slots s"
  by (simp_all add: fixup_slots_def appended_def)

text \<open>Appending, and recording a slot there first.\<close>

lemma emit_after:
  assumes "\<And>s. rd_istream (h s) = rd_istream s" "\<And>s. rd_istream_offset (h s) = rd_istream_offset s"
    "\<And>s. fixup_slots (h s) \<subseteq> fixup_slots s \<union> (if length bs = 4 then {rd_istream_offset s} else {})"
  shows "valid (stream_inv pre) (r_then (r_mod h) (EmitData bs))
     (\<lambda>_. stream_inv pre) (stream_inv pre)"
proof (rule validI)
  fix s r s' assume run: "r_then (r_mod h) (EmitData bs) s = (r, s')"
  then have s': "r = ROk ()" "s' = snd (EmitData bs (h s))"
    by (simp_all add: r_then_def r_bind_def r_mod_def EmitData_run)
  then show "length (rd_istream s) \<le> length (rd_istream s')"
    using WriteData_grows by (simp add: EmitData_run assms(1))
  assume inv: "stream_inv pre s" and small: "length (rd_istream s') < 2 ^ 32"
  then have "at_end (h s)" by (simp add: stream_inv_def at_end_def assms(1,2))
  then have a: "s' = appended bs (h s)" using s'(2) by (simp add: EmitData_end)
  have "stream_inv pre s'"
    by (rule stream_inv_append [OF inv, of bs]) (use small assms in \<open>simp_all add: a\<close>)
  then show "(\<forall>x. r = ROk x \<longrightarrow> stream_inv pre s') \<and> (r = RError \<longrightarrow> stream_inv pre s')" by simp
qed

lemma emit_stream: "preserves (stream_inv pre) (EmitData bs)"
proof -
  have "r_then (r_mod (\<lambda>s. s)) (EmitData bs) = EmitData bs"
    by (rule ext) (simp add: r_then_def r_bind_def r_mod_def)
  then show ?thesis using emit_after [of "\<lambda>s. s" bs pre] by (simp add: preserves_def)
qed

lemma AppendFixup_slots: "\<Union> (set ` set (AppendFixup v i x)) \<subseteq> insert x (\<Union> (set ` set v))"
proof -
  define w where "w = (if length v \<le> i then v @ replicate (i + 1 - length v) [] else v)"
  have "\<Union> (set ` set w) \<subseteq> \<Union> (set ` set v)" by (auto simp: w_def split: if_splits)
  moreover have "set (w[i := w ! i @ [x]]) \<subseteq> insert (w ! i @ [x]) (set w)" by (rule set_update_subset_insert)
  moreover have "i < length w" by (auto simp: w_def)
  then have "w ! i \<in> set w" by simp
  ultimately show ?thesis by (fastforce simp: AppendFixup_def w_def [symmetric] Let_def)
qed


lemma length_word_le4: "length (word_le (v :: u32)) = 4"
  by simp

lemma word_le_u32_nonempty [simp]: "word_le (v :: u32) \<noteq> []"
  by (simp flip: length_greater_0_conv)

lemma emit_slot:
  assumes "\<And>s. rd_istream (h s) = rd_istream s" "\<And>s. rd_istream_offset (h s) = rd_istream_offset s"
    "\<And>s. fixup_slots (h s) \<subseteq> insert (rd_istream_offset s) (fixup_slots s)"
  shows "valid (stream_inv pre) (r_then (r_mod h) (EmitI32 v)) (\<lambda>_. stream_inv pre) (stream_inv pre)"
  unfolding EmitI32_def
  by (rule emit_after) (use assms in \<open>simp_all add: length_word_le4\<close>)

lemma depth_fixup_slots:
  "fixup_slots (s\<lparr>rd_depth_fixups := AppendFixup (rd_depth_fixups s) i (rd_istream_offset s)\<rparr>)
     \<subseteq> insert (rd_istream_offset s) (fixup_slots s)"
  using AppendFixup_slots [of "rd_depth_fixups s" i "rd_istream_offset s"] by (auto simp: fixup_slots_def)

lemma func_fixup_slots:
  "fixup_slots (s\<lparr>rd_func_fixups := AppendFixup (rd_func_fixups s) i (rd_istream_offset s)\<rparr>)
     \<subseteq> insert (rd_istream_offset s) (fixup_slots s)"
  using AppendFixup_slots [of "rd_func_fixups s" i "rd_istream_offset s"] by (auto simp: fixup_slots_def)

lemma br_offset_stream: "preserves (stream_inv pre) (EmitBrOffset depth off)"
proof (cases "off = kInvalidIstreamOffset")
  case True
  have "EmitBrOffset depth off = r_bind (r_get rd_label_stack) (\<lambda>ls.
      r_then (append_depth_fixup (of_nat (length ls) - 1 - depth)) (EmitI32 off))"
    by (rule ext) (simp add: True EmitBrOffset_def r_then_def r_bind_def r_get_def split: prod.splits rres.splits)
  moreover have "preserves (stream_inv pre) (r_then (append_depth_fixup d) (EmitI32 off))" for d
    unfolding append_depth_fixup_def preserves_def
    by (rule emit_slot) (simp_all add: depth_fixup_slots)
  ultimately show ?thesis by (auto intro: keep)
next
  case False
  then show ?thesis
    by (simp add: EmitBrOffset_def EmitI32_def) (intro keep emit_stream)
qed

lemma func_offset_stream: "preserves (stream_inv pre) (EmitFuncOffset func i)"
proof (cases "func_offset func = kInvalidIstreamOffset")
  case True
  have "EmitFuncOffset func i = r_bind (TranslateModuleFuncIndexToDefined i) (\<lambda>d.
      r_then (append_func_fixup d) (EmitI32 (func_offset func)))"
    by (rule ext) (simp add: True EmitFuncOffset_def r_then_def r_bind_def split: prod.splits rres.splits)
  moreover have "preserves (stream_inv pre) (r_then (append_func_fixup d) (EmitI32 off))" for d off
    unfolding append_func_fixup_def preserves_def
    by (rule emit_slot) (simp_all add: func_fixup_slots)
  ultimately show ?thesis by (simp only: preserves_bind preserves_read)
next
  case False
  then show ?thesis
    by (simp add: EmitFuncOffset_def EmitI32_def) (intro keep emit_stream)
qed

lemma stream_mod:
  assumes "\<And>s. rd_istream (h s) = rd_istream s" "\<And>s. rd_istream_offset (h s) = rd_istream_offset s"
    "\<And>s. fixup_slots (h s) \<subseteq> fixup_slots s"
  shows "preserves (stream_inv pre) (r_mod h)"
proof (rule preserves_mod, rule assms(1))
  fix s assume "stream_inv pre s"
  then show "stream_inv pre (h s)" by (rule stream_inv_shrink) (rule assms)+
qed

text \<open>Patching a slot.\<close>

lemma patch_slot:
  "valid (\<lambda>s. stream_inv pre s \<and> (f = kInvalidIstreamOffset \<or> in_code pre f s)) (EmitI32At f v)
     (\<lambda>_. stream_inv pre) (stream_inv pre)"
proof (rule validI)
  fix s r s' assume run: "EmitI32At f v s = (r, s')"
  then have s': "r = ROk ()" "s' = s\<lparr>rd_istream := MemoryStream_WriteData (unat f) (word_le v) (rd_istream s)\<rparr>"
    by (simp_all add: EmitI32At_def EmitDataAt_run)
  show "length (rd_istream s) \<le> length (rd_istream s')" by (simp add: s' WriteData_grows)
  assume P: "stream_inv pre s \<and> (f = kInvalidIstreamOffset \<or> in_code pre f s)" "length (rd_istream s') < 2 ^ 32"
  have "f \<noteq> kInvalidIstreamOffset"
    using P(2) WriteData_reaches [of "word_le v" "unat f" "rd_istream s"] length_word_le4 [of v]
    by (auto simp: s' kInvalidIstreamOffset_def)
  then have c: "in_code pre f s" using P(1) by blast
  then have st: "rd_istream s' = bytes_store (unat f) (word_le v) (rd_istream s)"
    by (simp add: s' WriteData_inside in_code_def)
  have len: "length (rd_istream s') = length (rd_istream s)"
    using c by (simp add: st bytes_store_def in_code_def)
  have "take (length pre) (rd_istream s') = take (length pre) (rd_istream s)"
    using c by (simp add: st bytes_store_def in_code_def min_absorb1)
  then have "stream_inv pre s'"
    using P(1) len by (auto simp: stream_inv_def at_end_def in_code_def s')
  then show "(\<forall>x. r = ROk x \<longrightarrow> stream_inv pre s') \<and> (r = RError \<longrightarrow> stream_inv pre s')" by simp
qed

lemma in_code_grows: "length (rd_istream s) \<le> length (rd_istream s') \<Longrightarrow> in_code pre f s \<Longrightarrow> in_code pre f s'"
  by (simp add: in_code_def)

lemma patch_here:
  "valid (\<lambda>s. stream_inv pre s \<and> (f = kInvalidIstreamOffset \<or> in_code pre f s))
     (r_bind (r_get rd_istream_offset) (EmitI32At f)) (\<lambda>_. stream_inv pre) (stream_inv pre)"
  by (rule valid_bind [OF valid_get patch_slot]) simp

lemma EmitI32_placeholder:
  "valid (\<lambda>s. stream_inv pre s \<and> p = rd_istream_offset s) (EmitI32 v)
     (\<lambda>_ s. stream_inv pre s \<and> in_code pre p s) (stream_inv pre)"
proof (rule validI)
  fix s r s' assume run: "EmitI32 v s = (r, s')"
  note pr = emit_stream [of pre "word_le v", folded EmitI32_def, unfolded preserves_def]
  note 1 = validD [OF pr run]
  show "length (rd_istream s) \<le> length (rd_istream s')" by (rule 1(1))
  assume P: "stream_inv pre s \<and> p = rd_istream_offset s" "length (rd_istream s') < 2 ^ 32"
  have "stream_inv pre s'" using 1 P run by (simp add: EmitI32_def EmitData_run)
  moreover have "in_code pre p s'"
    using P(1) run WriteData_reaches [of "word_le v" "unat p" "rd_istream s"] length_word_le4 [of v]
    by (auto simp: EmitI32_def EmitData_run in_code_def stream_inv_def at_end_def)
  ultimately show "(\<forall>x. r = ROk x \<longrightarrow> stream_inv pre s' \<and> in_code pre p s') \<and> (r = RError \<longrightarrow> stream_inv pre s')"
    by simp
qed

lemma valid_keep:
  assumes "preserves (stream_inv pre) f"
  shows "valid (\<lambda>s. stream_inv pre s \<and> (p = kInvalidIstreamOffset \<or> in_code pre p s)) f
     (\<lambda>_ s. stream_inv pre s \<and> (p = kInvalidIstreamOffset \<or> in_code pre p s)) (stream_inv pre)"
  by (rule valid_weaken [OF valid_frame [OF assms [unfolded preserves_def]]])
    (auto intro: in_code_grows)

lemma patched_stream:
  assumes "preserves (stream_inv pre) f"
  shows "preserves (stream_inv pre) (patched f)"
  unfolding preserves_def patched_def
  apply (rule valid_bind [OF valid_get [where Q = "\<lambda>p s. stream_inv pre s \<and> p = rd_istream_offset s"]])
   apply simp
  apply (rule valid_then [OF EmitI32_placeholder])
  apply (rule valid_then [OF _ patch_here])
  apply (rule valid_pre [OF valid_keep [OF assms]])
  apply simp
  done

lemma patched_if_stream:
  "preserves (stream_inv pre) (r_bind (r_get rd_istream_offset) (\<lambda>p.
     r_then (EmitI32 kInvalidIstreamOffset) (Reader_PushLabel kInvalidIstreamOffset p)))"
proof -
  let ?h = "\<lambda>s. s\<lparr>rd_label_stack := \<lparr>Label_offset = kInvalidIstreamOffset,
    Label_fixup_offset = rd_istream_offset s\<rparr> # rd_label_stack s\<rparr>"
  have "r_bind (r_get rd_istream_offset) (\<lambda>p.
      r_then (EmitI32 kInvalidIstreamOffset) (Reader_PushLabel kInvalidIstreamOffset p)) =
     r_then (r_mod ?h) (EmitI32 kInvalidIstreamOffset)"
    by (rule ext) (simp add: r_bind_def r_then_def r_get_def r_mod_def EmitI32_def EmitData_run Reader_PushLabel_def)
  moreover have "preserves (stream_inv pre) (r_then (r_mod ?h) (EmitI32 v))" for v
    unfolding preserves_def by (rule emit_slot) (auto simp: fixup_slots_def)
  ultimately show ?thesis by simp
qed

lemma push_label_stream: "preserves (stream_inv pre) (Reader_PushLabel off kInvalidIstreamOffset)"
  unfolding Reader_PushLabel_def by (rule stream_mod) (auto simp: fixup_slots_def)

lemma PopLabel_run:
  "Reader_PopLabel s = (if rd_label_stack s = [] then (RUndef, s)
     else (ROk (), s\<lparr>rd_label_stack := tl (rd_label_stack s),
       rd_depth_fixups := take (length (rd_label_stack s) - 1) (rd_depth_fixups s)\<rparr>))"
  by (simp add: Reader_PopLabel_def r_bind_def r_then_def r_get_def r_assert_def r_mod_def r_return_def r_undef_def)

lemma pop_label_stream: "preserves (stream_inv pre) Reader_PopLabel"
  unfolding preserves_def
proof (rule validI)
  fix s r s' assume run: "Reader_PopLabel s = (r, s')"
  then show "length (rd_istream s) \<le> length (rd_istream s')" by (auto simp: PopLabel_run split: if_splits)
  assume "stream_inv pre s"
  then have "stream_inv pre s'"
    by (rule stream_inv_shrink [OF _ _ _ fixup_slots_mono])
      (use run in \<open>auto simp: PopLabel_run dest: in_set_takeD list.set_sel(2) split: if_splits\<close>)
  then show "(\<forall>x. r = ROk x \<longrightarrow> stream_inv pre s') \<and> (r = RError \<longrightarrow> stream_inv pre s')" by simp
qed

lemma top_label_valid:
  "valid (stream_inv pre) Reader_TopLabel
     (\<lambda>l s. stream_inv pre s \<and> (Label_fixup_offset l = kInvalidIstreamOffset \<or> in_code pre (Label_fixup_offset l) s)) E"
  by (rule validI)
    (auto simp: Reader_TopLabel_def Reader_GetLabel_def r_bind_def r_get_def r_nth_def r_return_def
      r_undef_def stream_inv_def fixup_slots_def split: if_splits)

lemma patch_top_stream:
  "preserves (stream_inv pre) (r_bind Reader_TopLabel (\<lambda>l.
     r_bind (r_get rd_istream_offset) (EmitI32At (Label_fixup_offset l))))"
  unfolding preserves_def by (rule valid_bind [OF top_label_valid patch_here])

lemma set_top_fixup_slots:
  "fixup_slots (s\<lparr>rd_label_stack := (case rd_label_stack s of [] \<Rightarrow> [] | l # ls \<Rightarrow> l\<lparr>Label_fixup_offset := p\<rparr> # ls)\<rparr>)
     \<subseteq> insert p (fixup_slots s)"
  by (cases "rd_label_stack s") (auto simp: fixup_slots_def)

lemma patch_else_stream:
  "preserves (stream_inv pre) (r_bind Reader_TopLabel (\<lambda>label.
     r_then (EmitOp ''Br'')
       (r_then (r_bind (r_get rd_istream_offset) set_top_fixup)
       (r_then (EmitI32 kInvalidIstreamOffset)
       (r_bind (r_get rd_istream_offset) (EmitI32At (Label_fixup_offset label)))))))"
  (is "preserves _ (r_bind _ (\<lambda>label. r_then ?br (r_then ?top (r_then ?emit (?patch label)))))")
proof -
  have "r_then ?top (EmitI32 v) = r_then (r_mod (\<lambda>s. s\<lparr>rd_label_stack := (case rd_label_stack s of
      [] \<Rightarrow> [] | l # ls \<Rightarrow> l\<lparr>Label_fixup_offset := rd_istream_offset s\<rparr> # ls)\<rparr>)) (EmitI32 v)" for v
    by (rule ext) (simp add: r_bind_def r_then_def r_get_def r_mod_def set_top_fixup_def)
  then have "preserves (stream_inv pre) (r_then ?top (EmitI32 v))" for v
    unfolding preserves_def by (simp only:) (rule emit_slot; (rule set_top_fixup_slots | simp))
  moreover have "preserves (stream_inv pre) ?br"
    unfolding EmitOp_def EmitOpcode_def EmitI8_def Let_def by (intro keep emit_stream)
  ultimately have "preserves (stream_inv pre) (r_then ?br (r_then ?top ?emit))" by (simp only: preserves_then)
  from valid_keep [OF this] have "valid (stream_inv pre) (r_bind Reader_TopLabel (\<lambda>label.
      r_then (r_then ?br (r_then ?top ?emit)) (?patch label))) (\<lambda>_. stream_inv pre) (stream_inv pre)"
    by (intro valid_bind [OF top_label_valid] valid_then [OF _ patch_here])
  then show ?thesis by (simp add: preserves_def r_then_assoc)
qed

lemma patch_each:
  "valid (\<lambda>s. stream_inv pre s \<and> (\<forall>f \<in> set fs. f = kInvalidIstreamOffset \<or> in_code pre f s))
     (r_each (\<lambda>f. EmitI32At f v) fs) (\<lambda>_. stream_inv pre) (stream_inv pre)"
proof (induction fs)
  case Nil
  show ?case by (simp add: valid_return)
next
  case (Cons f fs)
  let ?F = "\<lambda>s. \<forall>f \<in> set fs. f = kInvalidIstreamOffset \<or> in_code pre f s"
  have "valid (\<lambda>s. (stream_inv pre s \<and> (f = kInvalidIstreamOffset \<or> in_code pre f s)) \<and> ?F s) (EmitI32At f v)
     (\<lambda>_ s. stream_inv pre s \<and> ?F s) (\<lambda>s. stream_inv pre s \<and> ?F s)"
    by (rule valid_frame [OF patch_slot]) (auto intro: in_code_grows)
  then have "valid (\<lambda>s. stream_inv pre s \<and> (\<forall>f \<in> set (f # fs). f = kInvalidIstreamOffset \<or> in_code pre f s))
      (EmitI32At f v) (\<lambda>_ s. stream_inv pre s \<and> ?F s) (stream_inv pre)"
    by (rule valid_weaken) auto
  then show ?case using Cons.IH by (simp only: r_each.simps) (rule valid_then)
qed


lemma fixup_top_stream: "preserves (stream_inv pre) FixupTopLabel"
proof -
  let ?top = "\<lambda>ls. unat (of_nat (length ls) - 1 :: Index)"
  have each: "valid (\<lambda>s. stream_inv pre s \<and> rd_depth_fixups s = fixups)
      (r_each (\<lambda>f. EmitI32At f v) (fixups ! top)) (\<lambda>_. stream_inv pre) (stream_inv pre)"
    if "top < length fixups" for fixups top v
    by (rule valid_pre [OF patch_each]) (use that depth_slot in \<open>auto simp: stream_inv_def\<close>)
  have clear: "preserves (stream_inv pre) (r_mod (\<lambda>s. s\<lparr>rd_depth_fixups := (rd_depth_fixups s)[top := []]\<rparr>))" for top
    by (rule stream_mod) (simp, simp, rule fixup_slots_mono, simp_all add: set_update_subset_insert subset_insertI)
  have "valid (\<lambda>s. stream_inv pre s \<and> rd_depth_fixups s = fixups)
      (if length fixups \<le> top then r_return ()
       else r_then (r_each (\<lambda>f. EmitI32At f v) (fixups ! top))
         (r_mod (\<lambda>s. s\<lparr>rd_depth_fixups := (rd_depth_fixups s)[top := []]\<rparr>))) (\<lambda>_. stream_inv pre) (stream_inv pre)"
    for fixups top v
    using clear [unfolded preserves_def]
    by (auto intro: valid_return intro!: valid_then [OF each])
  then show ?thesis
    unfolding preserves_def FixupTopLabel_def Let_def
    by (intro valid_bind [OF valid_get [where Q = "\<lambda>_. stream_inv pre"]]
        valid_bind [OF valid_get [where Q = "\<lambda>fixups s. stream_inv pre s \<and> rd_depth_fixups s = fixups"]]) auto
qed

interpretation stream: loader_contract "stream_inv pre"
proof unfold_locales
  show "stream_inv pre s \<Longrightarrow> stream_inv pre (s\<lparr>rd_typechecker := t\<rparr>)" for s t
    by (erule stream_inv_shrink) simp_all
  show "stream_inv pre s \<Longrightarrow> stream_inv pre (s\<lparr>rd_current_func := None\<rparr>)" for s
    by (erule stream_inv_shrink) simp_all
  show "preserves (stream_inv pre) (update_current_func g)" for g
    unfolding update_current_func_def update_func_def update_env_def
    by (intro keep stream_mod) simp_all
qed (rule emit_stream br_offset_stream func_offset_stream push_label_stream pop_label_stream
  fixup_top_stream patch_top_stream patched_stream patched_if_stream patch_else_stream; assumption?)+


section \<open>The invariant of the code\<close>

lemma update_env_stream [keep]: "preserves (stream_inv pre) (update_env h)"
  unfolding update_env_def by (rule stream_mod) simp_all

lemma update_stream [keep]: "preserves (stream_inv pre) (update_func i g)"
  "preserves (stream_inv pre) (update_module m h)" "preserves (stream_inv pre) (update_this_module h)"
  "preserves (stream_inv pre) (set_init_expr j)"
  unfolding update_func_def update_module_def update_this_module_def set_init_expr_def
  by (intro keep stream_mod; simp add: fixup_slots_def)+

lemma func_slot:
  "i < length (rd_func_fixups s) \<Longrightarrow> f \<in> set (rd_func_fixups s ! i) \<Longrightarrow>
     f = kInvalidIstreamOffset \<or> f \<in> fixup_slots s"
  using nth_mem [of i "rd_func_fixups s"] by (auto simp: fixup_slots_def)

lemma func_fixups_stream:
  "preserves (stream_inv pre) (r_bind (r_get rd_func_fixups) (\<lambda>func_fixups.
     r_bind (r_nth func_fixups i) (r_each (\<lambda>fixup. EmitI32At fixup offset))))"
  unfolding preserves_def
  by (intro valid_bind [OF valid_get [where Q = "\<lambda>ff s. stream_inv pre s \<and> rd_func_fixups s = ff"]]
      valid_bind [OF valid_nth [where Q = "\<lambda>fixups s. stream_inv pre s \<and>
        (\<forall>f \<in> set fixups. f = kInvalidIstreamOffset \<or> in_code pre f s)"] patch_each])
    (use func_slot in \<open>auto simp: stream_inv_def\<close>)

lemma r_bind_assoc: "r_bind (r_bind f g) h = r_bind f (\<lambda>x. r_bind (g x) h)"
  by (rule ext) (simp add: r_bind_def split: prod.splits rres.splits)

lemma func_fixups_then:
  "r_bind (r_get rd_func_fixups) (\<lambda>func_fixups. r_bind (r_nth func_fixups j) (\<lambda>fixups.
     r_then (r_each (\<lambda>fixup. EmitI32At fixup offset) fixups) rest)) =
   r_then (r_bind (r_get rd_func_fixups) (\<lambda>func_fixups.
     r_bind (r_nth func_fixups j) (r_each (\<lambda>fixup. EmitI32At fixup offset)))) rest"
  by (simp add: r_then_def r_bind_assoc)

lemma begin_body_stream: "preserves (stream_inv pre) (BeginFunctionBody i)"
proof -
  have clear: "preserves (stream_inv pre)
     (r_mod (\<lambda>s. s\<lparr>rd_current_func := Some i, rd_depth_fixups := [], rd_label_stack := []\<rparr>))" for i
    by (rule stream_mod) (auto simp: fixup_slots_def)
  show ?thesis
    unfolding BeginFunctionBody_def func_fixups_then by (intro clear func_fixups_stream keep)
qed

lemma result_stream [keep]: "preserves (stream_inv pre) (r_result r msgs)"
proof -
  have "preserves (stream_inv pre) (Reader_PrintError m)" for m
    unfolding Reader_PrintError_def by (rule stream_mod) simp_all
  moreover have "preserves (stream_inv pre) (\<lambda>s. (RError, s))"
    unfolding preserves_def by (rule validI) simp_all
  ultimately show ?thesis unfolding r_result_def by (intro keep)
qed

lemma import_stream [keep]:
  "preserves (stream_inv pre) (AppendExport pick m kind i name)"
  "preserves (stream_inv pre) (FindRegisteredModule pick name)"
  "preserves (stream_inv pre) (GetModuleExport pick module name)"
  "preserves (stream_inv pre) (CheckImportKind name field k k')"
  "preserves (stream_inv pre) (CheckImportLimits l l')"
  "preserves (stream_inv pre) (add_func_index i)" "preserves (stream_inv pre) (add_global_index i)"
  unfolding AppendExport_def FindRegisteredModule_def GetModuleExport_def CheckImportKind_def
    CheckImportLimits_def add_func_index_def add_global_index_def
  by (intro keep stream_mod; simp add: fixup_slots_def)+

lemma kind_stream [keep]:
  assumes "preserves I f1" "preserves I f2" "preserves I f3" "preserves I f4" "preserves I f5"
  shows "preserves I (case k of EK_Func \<Rightarrow> f1 | EK_Table \<Rightarrow> f2 | EK_Memory \<Rightarrow> f3 | EK_Global \<Rightarrow> f4 | EK_Except \<Rightarrow> f5)"
  using assms by (cases k) simp_all

lemma function_count_stream: "preserves (stream_inv pre) (OnFunctionCount n)"
  unfolding OnFunctionCount_def Let_def
  by (rule stream_mod) (simp, simp, rule fixup_slots_mono, auto dest: in_set_takeD)

lemma imports_stream [keep]:
  "preserves (stream_inv pre) (OnImportFunc pick host m f a)"
  "preserves (stream_inv pre) (OnImportTable pick host m f b)"
  "preserves (stream_inv pre) (OnImportMemory pick host m f c)"
  "preserves (stream_inv pre) (OnImportGlobal pick host m f d e)"
  unfolding OnImportFunc_def OnImportTable_def OnImportMemory_def OnImportGlobal_def
  by (intro keep)+

lemma segments_stream [keep]: "preserves (stream_inv pre) (apply_elem x)" "preserves (stream_inv pre) (apply_data y)"
  unfolding apply_elem_def apply_data_def by (intro keep)+

lemma module_stream: "preserves (stream_inv pre) (run_module_callback pick host c)"
  by (cases c; simp; (rule imports_stream function_count_stream)?;
    (simp only: OnTypeCount_def OnType_def OnFunction_def OnTable_def OnMemory_def OnGlobalCount_def
      BeginGlobal_def EndGlobalInitExpr_def OnInitExprF32ConstExpr_def OnInitExprF64ConstExpr_def
      OnInitExprV128ConstExpr_def OnInitExprI32ConstExpr_def OnInitExprI64ConstExpr_def
      OnInitExprGetGlobalExpr_def OnExport_def OnStartFunction_def EndElemSegmentInitExpr_def
      OnElemSegmentFunctionIndexCount_def OnElemSegmentFunctionIndex_def OnDataSegmentData_def
      EndModule_def Let_def)?;
    (intro keep stream_mod; simp add: fixup_slots_def)?)

lemma callback_stream: "preserves (stream_inv pre) (run_callback pick host c)"
proof (cases c)
  case (CB_Control d)
  then show ?thesis
    using stream.control [of d pre] begin_body_stream by (cases "\<exists>i. d = CB_BeginFunctionBody i") auto
qed (simp_all add: module_stream stream.operator)

lemma callbacks_stream: "preserves (stream_inv pre) (r_each (run_callback pick host) cbs)"
  by (intro keep callback_stream)

lemma init_stream: "length (env_istream env) < 2 ^ 32 \<Longrightarrow> stream_inv (env_istream env) (Reader_init env)"
  by (simp add: stream_inv_def Reader_init_def at_end_def fixup_slots_def unat_of_nat take_bit_nat_eq_self)

lemma loaded_stream:
  assumes "r_each (run_callback pick host) cbs (Reader_init env) = (r, s)" "r \<noteq> RUndef"
    "length (rd_istream s) < 2 ^ 32"
  shows "stream_inv (env_istream env) s"
proof -
  note 1 = validD [OF callbacks_stream [of "env_istream env", unfolded preserves_def] assms(1)]
  have "length (env_istream env) \<le> length (rd_istream s)" using 1(1) by (simp add: Reader_init_def)
  then have "stream_inv (env_istream env) (Reader_init env)" using assms(3) by (intro init_stream) simp
  then show ?thesis using 1(2,3) assms(2,3) by (cases r) auto
qed


section \<open>Branches\<close>

text \<open>The places that wait for the end of the innermost label.\<close>

definition branch_slots :: "BinaryReaderInterp \<Rightarrow> u32 list" where
  "branch_slots s =
     (if label_type (hd (label_stack (rd_typechecker s))) \<in> {LabelType_If, LabelType_Else}
      then [Label_fixup_offset (hd (rd_label_stack s))] else []) @
     (let depth = length (rd_label_stack s) - 1
      in if depth < length (rd_depth_fixups s) then rd_depth_fixups s ! depth else [])"

definition write_all :: "u32 \<Rightarrow> u32 list \<Rightarrow> bytes \<Rightarrow> bytes" where
  "write_all v = fold (\<lambda>f. MemoryStream_WriteData (unat f) (word_le v))"

lemma write_all_simps [simp]: "write_all v [] b = b"
  "write_all v (f # fs) b = write_all v fs (MemoryStream_WriteData (unat f) (word_le v) b)"
  by (simp_all add: write_all_def)

lemma write_all_append: "write_all v (fs @ gs) b = write_all v gs (write_all v fs b)"
  by (simp add: write_all_def)

lemma EmitI32At_each: "r_each (\<lambda>f. EmitI32At f v) fs s = (ROk (), s\<lparr>rd_istream := write_all v fs (rd_istream s)\<rparr>)"
proof (induction fs arbitrary: s)
  case Nil
  show ?case by (simp add: r_return_def)
next
  case (Cons f fs)
  then show ?case by (simp add: r_then_def r_bind_def EmitI32At_def EmitDataAt_run)
qed

lemma write_all_grows: "length b \<le> length (write_all v fs b)"
proof (induction fs arbitrary: b)
  case (Cons f fs)
  have "length b \<le> length (MemoryStream_WriteData (unat f) (word_le v) b)" by (rule WriteData_grows)
  also have "\<dots> \<le> length (write_all v (f # fs) b)" using Cons.IH by simp
  finally show ?case .
qed simp

lemma write_all_reaches: "f \<in> set fs \<Longrightarrow> unat f + 4 \<le> length (write_all v fs b)"
proof (induction fs arbitrary: b)
  case (Cons g fs)
  show ?case
  proof (cases "f = g")
    case True
    have "unat f + 4 \<le> length (MemoryStream_WriteData (unat f) (word_le v) b)"
      using WriteData_reaches [of "word_le v" "unat f" b] by simp
    also have "\<dots> \<le> length (write_all v (g # fs) b)" using write_all_grows True by simp
    finally show ?thesis .
  qed (use Cons in simp)
qed simp

lemma store_nth:
  assumes "off + length xs \<le> length b" "i < length b"
  shows "bytes_store off xs b ! i = (if off \<le> i \<and> i < off + length xs then xs ! (i - off) else b ! i)"
  using assms by (auto simp: bytes_store_def nth_append min_def)

lemma length_store: "off + length xs \<le> length b \<Longrightarrow> length (bytes_store off xs b) = length b"
  by (simp add: bytes_store_def)

lemma store_inside:
  assumes "unat f + 4 \<le> length b"
  shows "MemoryStream_WriteData (unat f) (word_le (v :: u32)) b = bytes_store (unat f) (word_le v) b"
    and "length (bytes_store (unat f) (word_le v) b) = length b"
  using assms by (simp_all add: WriteData_inside length_store)

lemma length_write_all:
  assumes "\<And>f. f \<in> set fs \<Longrightarrow> unat f + 4 \<le> length b"
  shows "length (write_all v fs b) = length b"
  using assms
proof (induction fs arbitrary: b)
  case (Cons f fs)
  then show ?case by (simp add: store_inside)
qed simp

lemma write_all_elsewhere:
  assumes "\<And>f. f \<in> set fs \<Longrightarrow> unat f + 4 \<le> length b"
    and "i < length b" "\<And>f. f \<in> set fs \<Longrightarrow> i < unat f \<or> unat f + 4 \<le> i"
  shows "write_all v fs b ! i = b ! i"
  using assms
proof (induction fs arbitrary: b)
  case (Cons f fs)
  have "i < unat f \<or> unat f + 4 \<le> i" "unat f + 4 \<le> length b" using Cons.prems(1,3) [of f] by simp_all
  then have "bytes_store (unat f) (word_le v) b ! i = b ! i" using Cons.prems(2) by (subst store_nth) auto
  then show ?case
    using Cons.IH [of "bytes_store (unat f) (word_le v) b"] Cons.prems by (simp add: store_inside)
qed simp

lemma write_all_nth:
  assumes "\<And>f. f \<in> set fs \<Longrightarrow> unat f + 4 \<le> length b"
    and "\<And>f g. f \<in> set fs \<Longrightarrow> g \<in> set fs \<Longrightarrow> f \<noteq> g \<Longrightarrow> apart f g"
    and "f \<in> set fs" "j < 4"
  shows "write_all v fs b ! (unat f + j) = word_le v ! j"
  using assms
proof (induction fs arbitrary: b)
  case (Cons g fs)
  let ?b = "bytes_store (unat g) (word_le v) b"
  have g: "unat g + 4 \<le> length b" using Cons.prems(1) by simp
  show ?case
  proof (cases "f \<in> set fs")
    case True
    then show ?thesis using Cons.IH [of ?b] Cons.prems by (simp add: store_inside)
  next
    case False
    then have f: "f = g" using Cons.prems(3) by simp
    have "unat f + j < unat h \<or> unat h + 4 \<le> unat f + j" if "h \<in> set fs" for h
    proof -
      have "f \<noteq> h" using that False by blast
      then have "apart f h" using Cons.prems(2) [of f h] that f by simp
      then show ?thesis using Cons.prems(4) by (auto simp: apart_def)
    qed
    moreover have "unat f + j < length b" using g f Cons.prems(4) by simp
    ultimately have "write_all v fs ?b ! (unat f + j) = ?b ! (unat f + j)"
      using Cons.prems(1) g by (intro write_all_elsewhere) (simp_all add: store_inside)
    moreover have "?b ! (unat g + j) = word_le v ! j"
      using g Cons.prems(4) by (subst store_nth) simp_all
    ultimately show ?thesis using f g by (simp add: store_inside)
  qed
qed simp

lemma write_all_read:
  assumes "\<And>f. f \<in> set fs \<Longrightarrow> unat f + 4 \<le> length b"
    and "\<And>f g. f \<in> set fs \<Longrightarrow> g \<in> set fs \<Longrightarrow> f \<noteq> g \<Longrightarrow> apart f g" "f \<in> set fs"
  shows "take 4 (drop (unat f) (write_all v fs b)) = word_le v"
proof (rule nth_equalityI)
  have "unat f + 4 \<le> length b" using assms(1,3) by blast
  then show "length (take 4 (drop (unat f) (write_all v fs b))) = length (word_le v)"
    by (simp add: length_write_all [OF assms(1)])
next
  fix j assume "j < length (take 4 (drop (unat f) (write_all v fs b)))"
  moreover from this have "unat f \<le> length (write_all v fs b)" by (cases "unat f \<le> length (write_all v fs b)") auto
  ultimately show "take 4 (drop (unat f) (write_all v fs b)) ! j = word_le v ! j"
    using write_all_nth [OF assms, of j v] by (simp add: nth_drop)
qed

lemma FixupTopLabel_run:
  assumes "0 < length (rd_label_stack s)" "length (rd_label_stack s) < 2 ^ 32"
  shows "FixupTopLabel s = (ROk (),
     let depth = length (rd_label_stack s) - 1
     in if depth < length (rd_depth_fixups s)
        then s\<lparr>rd_istream := write_all (rd_istream_offset s) (rd_depth_fixups s ! depth) (rd_istream s),
               rd_depth_fixups := (rd_depth_fixups s)[depth := []]\<rparr>
        else s)"
proof -
  have "unat (of_nat (length (rd_label_stack s)) - 1 :: Index) = length (rd_label_stack s) - 1"
    using assms unat_sub [of 1 "of_nat (length (rd_label_stack s)) :: Index"]
    by (simp add: unat_of_nat take_bit_nat_eq_self word_le_nat_alt Suc_le_eq)
  then show ?thesis
    by (simp add: FixupTopLabel_def r_bind_def r_get_def r_then_def r_mod_def r_return_def Let_def
        EmitI32At_each)
qed

lemma OnEndExpr_run:
  assumes "OnEndExpr s = (ROk (), s')" "length (rd_label_stack s) < 2 ^ 32"
  shows "rd_label_stack s \<noteq> [] \<and> rd_label_stack s' = tl (rd_label_stack s) \<and>
    rd_depth_fixups s' = take (length (rd_label_stack s')) (rd_depth_fixups s) \<and>
    rd_istream s' = write_all (rd_istream_offset s) (branch_slots s) (rd_istream s) \<and>
    rd_istream_offset s' = rd_istream_offset s \<and> rd_env s' = rd_env s"
proof -
  let ?l = "hd (label_stack (rd_typechecker s))"
  have top: "label_stack (rd_typechecker s) \<noteq> []" "top_label_type s = (ROk (label_type ?l), s)"
    using assms(1) by (auto simp: OnEndExpr_def r_bind_def top_label_type_def GetLabel_def hd_conv_nth split: if_splits)
  obtain t where check: "r_check OnEnd s = (ROk (), s\<lparr>rd_typechecker := t\<rparr>)"
    using assms(1) top(2) by (auto simp: OnEndExpr_def r_bind_def r_then_def r_check_def split: prod.splits if_splits)
  define s2 where "s2 = s\<lparr>rd_typechecker := t\<rparr>"
  define s3 where "s3 = (if label_type ?l \<in> {LabelType_If, LabelType_Else}
     then s2\<lparr>rd_istream := write_all (rd_istream_offset s) [Label_fixup_offset (hd (rd_label_stack s))] (rd_istream s)\<rparr>
     else s2)"
  have ne: "rd_label_stack s \<noteq> []"
    using assms(1) top(2) check
    by (auto simp: OnEndExpr_def r_bind_def r_then_def PopLabel_run Reader_TopLabel_def Reader_GetLabel_def r_get_def r_nth_def r_undef_def
        r_ignore_def FixupTopLabel_def r_return_def Let_def r_mod_def EmitI32At_each split: if_splits)
  have end_: "r_then (r_ignore FixupTopLabel) Reader_PopLabel s3 = (ROk (), s')"
    using assms(1) top(2) check ne
    by (auto simp: OnEndExpr_def r_bind_def r_then_def s3_def s2_def Reader_TopLabel_def Reader_GetLabel_def
        r_get_def r_nth_def r_return_def hd_conv_nth EmitI32At_def EmitDataAt_run split: if_splits)
  have same: "rd_label_stack s3 = rd_label_stack s" "rd_depth_fixups s3 = rd_depth_fixups s"
    "rd_istream_offset s3 = rd_istream_offset s" "rd_env s3 = rd_env s"
    by (simp_all add: s3_def s2_def)
  show ?thesis
    using end_ ne assms(2) FixupTopLabel_run [of s3]
    by (auto simp: same r_then_def r_bind_def r_ignore_def PopLabel_run branch_slots_def s3_def s2_def
        write_all_append Let_def take_update_cancel split: if_splits)
qed



section \<open>Concrete inputs\<close>

text \<open>A block with a branch out of it, up to its end; items of every kind.\<close>

definition no_imports :: HostImportDelegate where
  "no_imports = \<lparr>ImportFunc = (\<lambda>m f g s. (Result_Error, [])), ImportTable = (\<lambda>m f g t. (Result_Error, t, [])),
     ImportMemory = (\<lambda>m f g t. (Result_Error, t, [])), ImportGlobal = (\<lambda>m f g t. (Result_Error, t, []))\<rparr>"

definition block_callbacks :: "loader_callback list" where
  "block_callbacks = [CB_Module (CB_OnTypeCount 1), CB_Module (CB_OnType 0 [] []),
     CB_Module (CB_OnFunctionCount 1), CB_Module (CB_OnFunction 0),
     CB_Control (CB_BeginFunctionBody 0), CB_Control (CB_OnBlockExpr (Sig_Type Type_Void)),
     CB_Control (CB_OnBrExpr 0)]"

lemma EmitOp_Br: "EmitOp ''Br'' = EmitData [12]"
proof -
  have "Opcode_of ''Br'' = 12" by (simp add: Opcode_of_def opcode_def_def opcode_def_1_def WABT_OPCODE_def)
  moreover have "GetInfo 12 = infos ! 12" by (simp add: GetInfo_def Opcode_Invalid_def)
  moreover have "infos ! 12 = snd (WABT_OPCODE Type_Void Type_Void Type_Void Type_Void 0 0 12 ''Br'' ''br'')"
    by (simp add: infos_def opcode_def_def nth_append opcode_def_ok length_opcode_def) (simp add: opcode_def_1_def)
  ultimately show ?thesis
    by (intro ext) (simp add: EmitOp_def EmitOpcode_def HasPrefix_def GetCode_def WABT_OPCODE_def r_then_def r_bind_def
      r_return_def r_assert_def EmitI8_def word_le_u8 Let_def)
qed


lemmas loader_eval = r_then_def r_bind_def r_return_def r_get_def r_mod_def r_nth_def r_assert_def
  OnTypeCount_def OnType_def OnFunctionCount_def OnFunction_def Reader_init_def Environment_init_def
  DefinedModule_init_def TranslateSigIndexToEnv_def update_env_def EmplaceBackFuncSignature_def
  EmplaceBackFunc_def EmplaceBackModule_def DefinedFunc_init_def BeginFunctionBody_def
  TranslateFuncIndexToEnv_def GetFunc_def GetFuncSignature_def is_host_def update_func_def
  TranslateModuleFuncIndexToDefined_def update_current_func_def r_check_def BeginFunction_def
  step_ok_def PushLabel_def Reader_PushLabel_def OnBlockExpr_def GetInlineTypeVector_def IsTypeIndex_def
  OnBlock_def also_check_def PopAndCheckSignature_def CheckSignature_def report_def give_def
  PrintStackIfFailed_def DropTypes_def with_top_def with_label_def GetLabel_def PushTypes_def
  result_or_def EmitI32At_each

lemmas branch_eval = OnBrExpr_def GetBrDropKeepCount_def IsUnreachable_def TopLabel_def br_types_def OnBr_def
  SetUnreachable_def ResetTypeStackToLabel_def resize_stack_def update_top_def EmitBr_def EmitDropKeep_def
  EmitOp_Br EmitData_run MemoryStream_WriteData_def bytes_resize_def bytes_store_def Reader_GetLabel_def
  EmitBrOffset_def append_depth_fixup_def AppendFixup_def EmitI32_def

definition block_state :: BinaryReaderInterp where
  "block_state = snd (r_each (run_callback hd no_imports) block_callbacks (Reader_init Environment_init))"

lemma block_run:
  "r_each (run_callback hd no_imports) block_callbacks (Reader_init Environment_init) = (ROk (), block_state)"
  "rd_istream block_state = 12 # word_le kInvalidIstreamOffset" "rd_istream_offset block_state = 5"
  "branch_slots block_state = [1]" "length (rd_label_stack block_state) = 2"
  "fst (OnEndExpr block_state) = ROk ()"
proof -
  note s = block_state_def block_callbacks_def loader_eval branch_eval
  show "r_each (run_callback hd no_imports) block_callbacks (Reader_init Environment_init) = (ROk (), block_state)"
    by (simp add: s Let_def)
  show "rd_istream block_state = 12 # word_le kInvalidIstreamOffset" by (simp add: s Let_def)
  show "rd_istream_offset block_state = 5" by (simp add: s Let_def)
  show "branch_slots block_state = [1]" by (simp add: s Let_def branch_slots_def)
  show "length (rd_label_stack block_state) = 2" by (simp add: s Let_def)
  show "fst (OnEndExpr block_state) = ROk ()"
    by (simp add: s Let_def OnEndExpr_def top_label_type_def OnEnd_def OnEndLabel_def CheckTypeStackEnd_def PopLabel_def CheckIfResults_def
       r_ignore_def FixupTopLabel_run PopLabel_run)
qed

definition istream_state :: "bytes \<Rightarrow> istate" where
  "istream_state code = \<lparr>st_env = Environment_init\<lparr>env_istream := code\<rparr>,
     st_thread = \<lparr>value_stack = [], call_stack = [], value_stack_top = 0, call_stack_top = 0, thread_pc = 0\<rparr>,
     st_pc = 0\<rparr>"


definition sample_items :: "stream_item list" where
  "sample_items = [Item_Opcode 400, Item_U8 3, Item_Opcode 12, Item_U32 0x12345678, Item_V128 7]"

theorem emitted_items_read_back_witness:
  "let s' = snd (r_each emit_item sample_items (Reader_init Environment_init));
       t = istream_state (rd_istream s' @ [0xff])
   in read_items sample_items t = (IVal sample_items, t\<lparr>st_pc := unat (rd_istream_offset s')\<rparr>)"
proof -
  let ?r = "r_each emit_item sample_items (Reader_init Environment_init)"
  have "fst ?r = ROk () \<and> read_items sample_items (istream_state (rd_istream (snd ?r) @ [0xff])) =
      (IVal sample_items, istream_state (rd_istream (snd ?r) @ [0xff])\<lparr>st_pc := unat (rd_istream_offset (snd ?r))\<rparr>)"
    by (rule emitted_items_read_back [where s = "Reader_init Environment_init" and later = "[0xff]"])
      (simp_all add: sample_items_def Opcode_Invalid_def Reader_init_def Environment_init_def istream_state_def)
  then show ?thesis by (simp add: Let_def)
qed


end
