(* ===== verification/InterpLoadStore.thy ===== *)
theory InterpLoadStore
  imports InterpLoadSpec "HOL-Library.Sublist"
begin

text \<open>
  What loading does to the store: \<open>store_inv\<close>, the second instance of \<open>loader_contract\<close>, says that
  nothing of the modules loaded before changes but the exports of host modules, and a failed
  \<open>ReadBinaryInterp\<close> leaves everything else as it was.
\<close>

section \<open>The store before and during loading\<close>

text \<open>A host module may gain exports.\<close>

definition exports_grown :: "Module \<Rightarrow> Module \<Rightarrow> bool" where
  "exports_grown m m' \<longleftrightarrow> m' = m \<or>
     mod_is_host m \<and> Sublist.prefix (mod_exports m) (mod_exports m') \<and>
     Sublist.prefix (mod_export_bindings m) (mod_export_bindings m') \<and>
     m' = m\<lparr>mod_exports := mod_exports m', mod_export_bindings := mod_export_bindings m'\<rparr>"

definition kept :: "Environment \<Rightarrow> Environment \<Rightarrow> bool" where
  "kept e0 e \<longleftrightarrow>
     length (env_modules e) = length (env_modules e0) + 1 \<and>
     (\<forall>i < length (env_modules e0). exports_grown (env_modules e0 ! i) (env_modules e ! i)) \<and>
     mod_name (last (env_modules e)) = [] \<and>
     Sublist.prefix (env_sigs e0) (env_sigs e) \<and> Sublist.prefix (env_funcs e0) (env_funcs e) \<and>
     Sublist.prefix (env_memories e0) (env_memories e) \<and> Sublist.prefix (env_tables e0) (env_tables e) \<and>
     Sublist.prefix (env_globals e0) (env_globals e) \<and>
     env_module_bindings e = env_module_bindings e0 \<and>
     env_registered_module_bindings e = env_registered_module_bindings e0"

text \<open>
  The bounds \<open>fb\<close>, \<open>gb\<close>, \<open>ib\<close> are of the functions, globals and function imports added; \<open>counted\<close>:
  the number of functions is known; \<open>G\<close>: the globals begun; \<open>H\<close>: host modules.
\<close>

definition store_inv :: "Environment \<Rightarrow> nat \<Rightarrow> nat \<Rightarrow> nat \<Rightarrow> bool \<Rightarrow> Index set \<Rightarrow> nat set \<Rightarrow> BinaryReaderInterp \<Rightarrow> bool" where
  "store_inv e0 fb gb ib counted G H s \<longleftrightarrow>
     kept e0 (rd_env s) \<and> rd_module s = length (env_modules e0) \<and>
     (\<forall>i. rd_current_func s = Some i \<longrightarrow> length (env_funcs e0) \<le> unat i) \<and>
     length (env_funcs (rd_env s)) \<le> length (env_funcs e0) + fb \<and>
     length (env_globals (rd_env s)) \<le> length (env_globals e0) + gb \<and>
     unat (rd_num_func_imports s) \<le> ib \<and>
     (\<forall>j < length (rd_func_index_mapping s). unat (rd_num_func_imports s) \<le> j \<longrightarrow>
        length (env_funcs e0) \<le> unat (rd_func_index_mapping s ! j)) \<and>
     (\<not> counted \<longrightarrow> length (rd_func_index_mapping s) = unat (rd_num_func_imports s)) \<and>
     (\<forall>i \<in> G. unat i < length (rd_global_index_mapping s) \<and>
        length (env_globals e0) \<le> unat (rd_global_index_mapping s ! unat i)) \<and>
     (\<forall>m \<in> H. m < length (env_modules (rd_env s)) \<and> mod_is_host (env_modules (rd_env s) ! m))"

lemma store_inv_mono:
  assumes "store_inv e0 fb gb ib counted G H s" "fb \<le> fb'" "gb \<le> gb'" "ib \<le> ib'" "counted \<longrightarrow> counted'"
    "G' \<subseteq> G" "H' \<subseteq> H"
  shows "store_inv e0 fb' gb' ib' counted' G' H' s"
  using assms unfolding store_inv_def by (meson le_trans add_le_cancel_left subsetD)

section \<open>Steps\<close>

lemma preserves_grow:
  "(\<And>s. length (rd_istream s) \<le> length (rd_istream (h s))) \<Longrightarrow> (\<And>s. I s \<Longrightarrow> I (h s)) \<Longrightarrow> preserves I (r_mod h)"
  unfolding preserves_def by (rule validI) (auto simp: r_mod_def)

abbreviation store_if :: "bool \<Rightarrow> Environment \<Rightarrow> nat \<Rightarrow> nat \<Rightarrow> nat \<Rightarrow> bool \<Rightarrow> Index set \<Rightarrow> nat set \<Rightarrow> BinaryReaderInterp \<Rightarrow> bool" where
  "store_if c e0 fb gb ib counted G H \<equiv> (\<lambda>s. c \<and> store_inv e0 fb gb ib counted G H s)"

lemma store_mod:
  assumes "\<And>s. length (rd_istream s) \<le> length (rd_istream (h s))" "\<And>s. rd_env (h s) = rd_env s"
    "\<And>s. rd_module (h s) = rd_module s" "\<And>s. rd_current_func (h s) = rd_current_func s"
    "\<And>s. rd_num_func_imports (h s) = rd_num_func_imports s"
    "\<And>s. rd_func_index_mapping (h s) = rd_func_index_mapping s"
    "\<And>s. rd_global_index_mapping (h s) = rd_global_index_mapping s"
  shows "preserves (store_if c e0 fb gb ib counted G H) (r_mod h)"
  by (rule preserves_grow) (simp_all add: assms store_inv_def)

lemma emit_at_store: "preserves (store_if c e0 fb gb ib counted G H) (EmitDataAt off bs)"
  unfolding EmitDataAt_def by (rule store_mod) (simp_all add: WriteData_grows)

lemma emit_store: "preserves (store_if c e0 fb gb ib counted G H) (EmitData bs)"
  unfolding EmitData_def by (intro keep emit_at_store store_mod) simp_all

lemma emit_i32_store: "preserves (store_if c e0 fb gb ib counted G H) (EmitI32 v)"
  "preserves (store_if c e0 fb gb ib counted G H) (EmitI32At off v)"
  unfolding EmitI32_def EmitI32At_def by (rule emit_store emit_at_store)+

lemma emit_br_store: "preserves (store_if c e0 fb gb ib counted G H) (EmitOp ''Br'')"
  unfolding EmitOp_Br by (rule emit_store)

lemma label_store:
  "preserves (store_if c e0 fb gb ib counted G H) (Reader_PushLabel off p)"
  "preserves (store_if c e0 fb gb ib counted G H) (set_top_fixup p)"
  "preserves (store_if c e0 fb gb ib counted G H) (append_depth_fixup d)"
  "preserves (store_if c e0 fb gb ib counted G H) (append_func_fixup d)"
  unfolding Reader_PushLabel_def set_top_fixup_def append_depth_fixup_def append_func_fixup_def
  by (rule store_mod; simp)+

lemma kept_update_func:
  assumes "kept e0 e" "length (env_funcs e0) \<le> i"
  shows "kept e0 (e\<lparr>env_funcs := (env_funcs e)[i := f]\<rparr>)"
  using assms by (auto simp: kept_def prefix_def list_update_append)

lemma update_func_store:
  "preserves (store_if (length (env_funcs e0) \<le> unat i) e0 fb gb ib counted G H) (update_func i g)"
  unfolding update_func_def update_env_def
  by (rule preserves_grow) (auto simp: store_inv_def kept_update_func)

lemma update_current_func_store:
  "preserves (store_if c e0 fb gb ib counted G H) (update_current_func g)"
proof -
  let ?I = "store_if c e0 fb gb ib counted G H"
  have v: "valid (\<lambda>s. ?I s \<and> rd_current_func s = i)
      (case i of None \<Rightarrow> r_undef | Some i \<Rightarrow> update_func i g) (\<lambda>_. ?I) ?I" for i
  proof (cases i)
    case None
    then show ?thesis by (simp add: valid_undef)
  next
    case (Some j)
    have "valid (store_if (c \<and> length (env_funcs e0) \<le> unat j) e0 fb gb ib counted G H) (update_func j g) (\<lambda>_. ?I) ?I"
      using update_func_store [of e0 j fb gb ib counted G H g] unfolding preserves_def by (auto simp: valid_def)
    then show ?thesis unfolding Some by (auto elim!: valid_pre simp: store_inv_def)
  qed
  show ?thesis
    unfolding preserves_def update_current_func_def
    by (rule valid_bind [OF valid_get v]) simp
qed

interpretation store: loader_contract "store_if c e0 fb gb ib counted G H"
proof unfold_locales
  let ?I = "store_if c e0 fb gb ib counted G H"
  show "?I s \<Longrightarrow> ?I (s\<lparr>rd_typechecker := t\<rparr>)" for s t by (simp add: store_inv_def)
  show "?I s \<Longrightarrow> ?I (s\<lparr>rd_current_func := None\<rparr>)" for s by (simp add: store_inv_def)
  show "preserves ?I (EmitBrOffset depth offset)" for depth offset
    unfolding EmitBrOffset_def by (intro keep label_store emit_i32_store)
  show "preserves ?I (EmitFuncOffset func i)" for func i
    unfolding EmitFuncOffset_def by (intro keep label_store emit_i32_store)
  show "preserves ?I Reader_PopLabel"
    unfolding Reader_PopLabel_def by (intro keep store_mod) simp_all
  show "preserves ?I FixupTopLabel"
    unfolding FixupTopLabel_def by (intro keep store_mod emit_i32_store) simp_all
  show "preserves ?I (patched f)" if "preserves ?I f" for f
    unfolding patched_def by (intro keep that emit_i32_store)
qed (intro keep emit_store label_store emit_i32_store emit_br_store update_current_func_store)+


section \<open>Imports and exports\<close>

lemma exports_grown_push:
  "exports_grown m m' \<Longrightarrow> mod_is_host m' \<Longrightarrow> exports_grown m (push_export k i name m')"
  by (auto simp: exports_grown_def push_export_def prefix_def)

lemma push_export_sel [simp]:
  "mod_is_host (push_export k i name m) = mod_is_host m" "mod_name (push_export k i name m) = mod_name m"
  by (simp_all add: push_export_def)

lemma kept_update_host:
  assumes "kept e0 e" "m < length (env_modules e)" "mod_is_host (env_modules e ! m)"
  shows "kept e0 (e\<lparr>env_modules := (env_modules e)[m := push_export k i name (env_modules e ! m)]\<rparr>)"
proof -
  have "env_modules e \<noteq> []" using assms(2) by auto
  then show ?thesis
    using assms by (auto simp: kept_def nth_list_update exports_grown_push last_list_update last_conv_nth)
qed

lemma kept_update_own:
  assumes "kept e0 e" "mod_name (h (last (env_modules e))) = []" "m = length (env_modules e0)"
  shows "kept e0 (e\<lparr>env_modules := (env_modules e)[m := h (env_modules e ! m)]\<rparr>)"
proof -
  have "env_modules e \<noteq> []" "length (env_modules e) - 1 = m" using assms by (auto simp: kept_def)
  then show ?thesis using assms by (auto simp: kept_def nth_list_update last_list_update last_conv_nth)
qed

lemma update_host_store:
  "preserves (store_if (m \<in> H) e0 fb gb ib counted G H) (update_module m (push_export k i name))"
  unfolding update_module_def update_env_def
  by (rule preserves_grow) (auto simp: store_inv_def kept_update_host nth_list_update)

lemma update_own_store:
  assumes "\<And>m. mod_name (h m) = mod_name m" "\<And>m. mod_is_host (h m) = mod_is_host m"
  shows "preserves (store_if (m = length (env_modules e0)) e0 fb gb ib counted G H) (update_module m h)"
  unfolding update_module_def update_env_def
proof (rule preserves_grow)
  fix s assume s: "store_if (m = length (env_modules e0)) e0 fb gb ib counted G H s"
  then have "kept e0 (rd_env s)" by (simp add: store_inv_def)
  moreover from this have "mod_name (h (last (env_modules (rd_env s)))) = []" by (simp add: kept_def assms(1))
  moreover have "m < length (env_modules (rd_env s))" using s by (auto simp: store_inv_def kept_def)
  ultimately show "store_if (m = length (env_modules e0)) e0 fb gb ib counted G H
      (s\<lparr>rd_env := rd_env s\<lparr>env_modules := (env_modules (rd_env s))[m := h (env_modules (rd_env s) ! m)]\<rparr>\<rparr>)"
    using s by (auto simp: store_inv_def kept_update_own nth_list_update assms(2))
qed simp

lemma preserves_cond:
  assumes "preserves (store_if True e0 fb gb ib counted G H) f"
  shows "preserves (store_if c e0 fb gb ib counted G H) f"
  using assms by (cases c) (auto simp: preserves_def valid_False)

lemma append_host_store:
  assumes "m \<in> H"
  shows "preserves (store_if c e0 fb gb ib counted G H) (AppendExport pick m k i name)"
proof -
  have "preserves (store_if c e0 fb gb ib counted G H) (update_module m (push_export k i name))"
    by (rule preserves_cond) (use update_host_store [of m H] assms in simp)
  then show ?thesis unfolding AppendExport_def by (intro keep)
qed

lemma preserves_when:
  assumes "preserves (store_if p e0 fb gb ib counted G H) f"
  shows "preserves (store_if (c \<and> p) e0 fb gb ib counted G H) f"
  using assms by (cases c) (auto simp: preserves_def valid_False)

lemma append_own_store:
  "preserves (store_if (c \<and> m = length (env_modules e0)) e0 fb gb ib counted G H) (AppendExport pick m k i name)"
  unfolding AppendExport_def by (intro keep preserves_when update_own_store) simp_all

lemma own_module_store:
  assumes "\<And>m. preserves (store_if (c \<and> m = length (env_modules e0)) e0 fb gb ib counted G H) (f m)"
  shows "preserves (store_if c e0 fb gb ib counted G H) (r_bind (r_get rd_module) f)"
proof -
  have v: "valid (store_if (c \<and> m = length (env_modules e0)) e0 fb gb ib counted G H) (f m)
      (\<lambda>_. store_if c e0 fb gb ib counted G H) (store_if c e0 fb gb ib counted G H)" for m
    by (rule valid_weaken [OF assms [of m, unfolded preserves_def]]) simp_all
  show ?thesis
    unfolding preserves_def by (rule valid_bind [OF valid_get v]) (simp add: store_inv_def)
qed

lemma update_this_store [keep]:
  "preserves (store_if c e0 fb gb ib counted G H) (update_this_module (\<lambda>m. m\<lparr>mod_table_index := i\<rparr>))"
  "preserves (store_if c e0 fb gb ib counted G H) (update_this_module (\<lambda>m. m\<lparr>mod_memory_index := i\<rparr>))"
  "preserves (store_if c e0 fb gb ib counted G H) (update_this_module (\<lambda>m. m\<lparr>mod_start_func_index := i\<rparr>))"
  unfolding update_this_module_def by (intro own_module_store preserves_when update_own_store; simp)+

lemma find_store [keep]:
  "preserves (store_if c e0 fb gb ib counted G H) (FindRegisteredModule pick name)"
  "preserves (store_if c e0 fb gb ib counted G H) (GetModuleExport pick module name)"
  "preserves (store_if c e0 fb gb ib counted G H) (CheckImportKind name field k k')"
  "preserves (store_if c e0 fb gb ib counted G H) (CheckImportLimits l l')"
  unfolding FindRegisteredModule_def GetModuleExport_def CheckImportKind_def CheckImportLimits_def
  by (intro keep)+

lemma result_store [keep]: "preserves (store_if c e0 fb gb ib counted G H) (r_result r msgs)"
proof -
  have "preserves (store_if c e0 fb gb ib counted G H) (Reader_PrintError m)" for m
    unfolding Reader_PrintError_def by (rule store_mod) simp_all
  moreover have "preserves (store_if c e0 fb gb ib counted G H) (\<lambda>s. (RError, s))"
    unfolding preserves_def by (rule validI) simp_all
  ultimately show ?thesis unfolding r_result_def by (intro keep)
qed

lemma import_module_store:
  assumes "\<And>im. valid (store_if c e0 fb gb ib counted G {m}) (f im) Q E"
    "\<And>im. valid (store_if c e0 fb gb ib counted G {}) (g im) Q E"
  shows "valid (store_if c e0 fb gb ib counted G {}) (r_bind (r_get (env_modules \<circ> rd_env)) (\<lambda>ms.
     r_bind (r_nth ms m) (\<lambda>im. if mod_is_host im then f im else g im))) Q E"
proof -
  have v: "valid (store_if c e0 fb gb ib counted G (if mod_is_host im then {m} else {}))
      (if mod_is_host im then f im else g im) Q E" for im
    using assms by simp
  have w: "valid (\<lambda>s. store_if c e0 fb gb ib counted G {} s \<and> env_modules (rd_env s) = ms)
      (r_bind (r_nth ms m) (\<lambda>im. if mod_is_host im then f im else g im)) Q E" for ms
    by (rule valid_bind [OF valid_nth v]) (auto simp: store_inv_def)
  show ?thesis by (rule valid_bind [OF valid_get w]) simp
qed

text \<open>Growing the store.\<close>

lemma kept_append:
  assumes "kept e0 e"
  shows "kept e0 (e\<lparr>env_sigs := env_sigs e @ a\<rparr>)" "kept e0 (e\<lparr>env_funcs := env_funcs e @ b\<rparr>)"
    "kept e0 (e\<lparr>env_memories := env_memories e @ d\<rparr>)" "kept e0 (e\<lparr>env_tables := env_tables e @ f\<rparr>)"
    "kept e0 (e\<lparr>env_globals := env_globals e @ g\<rparr>)"
  using assms by (simp_all add: kept_def)

lemma add_sig_store: "preserves (store_if c e0 fb gb ib counted G H) (update_env (EmplaceBackFuncSignature x))"
  unfolding update_env_def EmplaceBackFuncSignature_def
  by (rule preserves_grow) (simp_all add: store_inv_def kept_append)

lemma add_table_store: "preserves (store_if c e0 fb gb ib counted G H) (update_env (EmplaceBackTable x))"
  unfolding update_env_def EmplaceBackTable_def
  by (rule preserves_grow) (simp_all add: store_inv_def kept_append)

lemma add_memory_store: "preserves (store_if c e0 fb gb ib counted G H) (update_env (EmplaceBackMemory x))"
  unfolding update_env_def EmplaceBackMemory_def
  by (rule preserves_grow) (simp_all add: store_inv_def kept_append)

lemma add_func_store:
  "valid (store_if c e0 fb gb ib counted G H) (update_env (EmplaceBackFunc x))
     (\<lambda>_. store_if c e0 (fb + 1) gb ib counted G H) E"
  unfolding update_env_def EmplaceBackFunc_def
  by (rule valid_mod) (simp_all add: store_inv_def kept_append)

lemma add_global_store:
  "valid (store_if c e0 fb gb ib counted G H) (update_env (EmplaceBackGlobal x))
     (\<lambda>_. store_if c e0 fb (gb + 1) ib counted G H) E"
  unfolding update_env_def EmplaceBackGlobal_def
  by (rule valid_mod) (simp_all add: store_inv_def kept_append)

lemma add_func_index_store:
  assumes "\<not> counted" "ib + 1 < 2 ^ 32"
  shows "valid (store_if c e0 fb gb ib counted G H) (add_func_index i)
     (\<lambda>_. store_if c e0 fb gb (ib + 1) counted G H) E"
  unfolding add_func_index_def
proof (rule valid_mod)
  fix s assume s: "store_if c e0 fb gb ib counted G H s"
  then have "unat (rd_num_func_imports s) + 1 < 2 ^ 32" using assms(2) by (simp add: store_inv_def)
  then have "unat (rd_num_func_imports s + 1) = unat (rd_num_func_imports s) + 1" by (simp add: unat_word_ariths)
  then show "store_if c e0 fb gb (ib + 1) counted G H (s\<lparr>rd_func_index_mapping := rd_func_index_mapping s @ [i],
      rd_num_func_imports := rd_num_func_imports s + 1\<rparr>)"
    using s assms(1) by (simp add: store_inv_def)
qed simp

lemma add_global_index_store: "preserves (store_if c e0 fb gb ib counted G H) (add_global_index i)"
  unfolding add_global_index_def
  by (rule preserves_grow) (auto simp: store_inv_def nth_append less_Suc_eq)


section \<open>Callbacks\<close>

abbreviation store_kept :: "Environment \<Rightarrow> BinaryReaderInterp \<Rightarrow> bool" where
  "store_kept e0 s \<equiv> kept e0 (rd_env s)"

lemma store_bind:
  assumes "preserves (store_if True e0 fb gb ib counted G H) f"
    "\<And>x. valid (store_if True e0 fb gb ib counted G H) (g x) Q (store_kept e0)"
  shows "valid (store_if True e0 fb gb ib counted G H) (r_bind f g) Q (store_kept e0)"
  by (rule valid_bind [OF valid_weaken [OF assms(1) [unfolded preserves_def]] assms(2)])
    (simp_all add: store_inv_def)

lemma store_then:
  assumes "preserves (store_if True e0 fb gb ib counted G H) f"
    "valid (store_if True e0 fb gb ib counted G H) g Q (store_kept e0)"
  shows "valid (store_if True e0 fb gb ib counted G H) (r_then f g) Q (store_kept e0)"
  unfolding r_then_def by (rule store_bind [OF assms])

lemma store_end:
  assumes "preserves (store_if True e0 fb gb ib counted G H) f"
    "fb \<le> fb'" "gb \<le> gb'" "ib \<le> ib'" "counted \<longrightarrow> counted'" "G' \<subseteq> G" "H' \<subseteq> H"
  shows "valid (store_if True e0 fb gb ib counted G H) f
     (\<lambda>_. store_if True e0 fb' gb' ib' counted' G' H') (store_kept e0)"
proof (rule valid_weaken [OF assms(1) [unfolded preserves_def]])
  fix s assume "store_if True e0 fb gb ib counted G H s"
  then show "store_if True e0 fb' gb' ib' counted' G' H' s" using store_inv_mono assms(2-) by simp
  show "store_kept e0 s" using \<open>store_if True e0 fb gb ib counted G H s\<close> by (simp add: store_inv_def)
qed simp

lemma valid_prod: "(\<And>a b. valid P (f a b) Q E) \<Longrightarrow> valid P (case x of (a, b) \<Rightarrow> f a b) Q E"
  by (cases x) simp

lemma valid_option:
  "valid P f Q E \<Longrightarrow> (\<And>y. valid P (g y) Q E) \<Longrightarrow> valid P (case x of None \<Rightarrow> f | Some y \<Rightarrow> g y) Q E"
  by (cases x) simp_all

lemma store_fail: "valid (store_if True e0 fb gb ib counted G H) (r_fail msg) Q (store_kept e0)"
  by (rule validI) (auto simp: r_fail_def Reader_PrintError_def r_mod_def store_inv_def)

lemma OnImportFunc_store:
  assumes "\<not> counted" "ib + 1 < 2 ^ 32"
  shows "valid (store_if True e0 fb gb ib counted G {}) (OnImportFunc pick host m f sig)
     (\<lambda>_. store_if True e0 (fb + 1) gb (ib + 1) counted G {}) (store_kept e0)"
proof -
  let ?Q = "\<lambda>_::unit. store_if True e0 (fb + 1) gb (ib + 1) counted G {}"
  have add: "valid (store_if True e0 fb' gb ib counted G H) (add_func_index i) ?Q (store_kept e0)"
    if "fb' \<le> fb + 1" for i H fb'
  proof (rule valid_weaken [OF add_func_index_store [OF assms, of True e0 fb' gb G H i "store_kept e0"]])
    fix s assume "store_if True e0 fb' gb (ib + 1) counted G H s"
    then show "store_if True e0 (fb + 1) gb (ib + 1) counted G {} s" using that by (auto elim: store_inv_mono)
  qed
  show ?thesis
    unfolding OnImportFunc_def
    by (intro import_module_store valid_then [OF add_func_store] valid_option valid_if valid_undef store_fail
        add store_bind store_then valid_prod keep append_host_store) simp_all
qed


lemma checks_only:
  assumes "\<And>s t. I s \<Longrightarrow> I (s\<lparr>rd_typechecker := t\<rparr>)"
  shows "preserves I (r_result r msgs)" "preserves I (CheckImportLimits l l')"
proof -
  have err: "preserves I (Reader_PrintError m)" for m
    unfolding Reader_PrintError_def by (rule preserves_mod) (simp_all add: assms)
  have "preserves I (r_fail m)" for m
    unfolding preserves_def by (rule validI) (auto simp: r_fail_def Reader_PrintError_def r_mod_def assms)
  then show "preserves I (CheckImportLimits l l')" unfolding CheckImportLimits_def by (intro keep)
  have "preserves I (\<lambda>s. (RError, s))" unfolding preserves_def by (rule validI) simp_all
  then show "preserves I (r_result r msgs)" unfolding r_result_def by (intro keep err)
qed

lemma BeginGlobal_store:
  assumes "length (env_globals e0) + gb < 2 ^ 32"
  shows "valid (store_if True e0 fb gb ib counted G {}) (BeginGlobal i t mut)
     (\<lambda>_. store_if True e0 fb (gb + 1) ib counted (insert i G) {}) (store_kept e0)"
proof -
  let ?I = "store_if True e0 fb gb ib counted G {}"
  let ?J = "\<lambda>gb. store_if True e0 fb gb ib counted (insert i G) {}"
  define T where "T v s \<longleftrightarrow> ?I s \<and> unat i < length (rd_global_index_mapping s) \<and>
    rd_global_index_mapping s ! unat i = v" for v s
  have 1: "valid ?I (TranslateGlobalIndexToEnv i) T (store_kept e0)"
    unfolding TranslateGlobalIndexToEnv_def
    by (rule valid_bind [OF valid_get [where Q = "\<lambda>m s. ?I s \<and> rd_global_index_mapping s = m"] valid_nth])
      (auto simp: T_def)
  have init: "preserves (?J gb) (set_init_expr h)" for gb h
    unfolding set_init_expr_def by (rule store_mod) simp_all
  have add: "valid (?J gb) (r_then (update_env (EmplaceBackGlobal x)) (set_init_expr h)) (\<lambda>_. ?J (gb + 1)) (store_kept e0)" for x h
    by (rule valid_then [OF add_global_store store_end [OF init]]) simp_all
  have ok: "?J gb s" if "T (of_nat (length (env_globals (rd_env s)))) s" for s
  proof -
    have "length (env_globals (rd_env s)) < 2 ^ 32" "length (env_globals e0) \<le> length (env_globals (rd_env s))"
      using that assms by (auto simp: T_def store_inv_def kept_def dest: prefix_length_le)
    then have "length (env_globals e0) \<le> unat (of_nat (length (env_globals (rd_env s))) :: Index)"
      by (simp add: unat_of_nat take_bit_nat_eq_self)
    then show ?thesis using that by (auto simp: T_def store_inv_def)
  qed
  have rest: "valid (\<lambda>s. T v s \<and> env_globals (rd_env s) = gs) (r_then (r_assert (v = of_nat (length gs)))
      (r_then (update_env (EmplaceBackGlobal x)) (set_init_expr h))) (\<lambda>_. ?J (gb + 1)) (store_kept e0)" for v gs x h
    by (rule valid_then [OF valid_assert add]) (use ok in auto)
  show ?thesis
    unfolding BeginGlobal_def
    by (rule valid_bind [OF 1 valid_bind [OF valid_get rest]]) simp
qed

lemma EndGlobalInitExpr_store:
  assumes "i \<in> G"
  shows "preserves (store_if True e0 fb gb ib counted G {}) (EndGlobalInitExpr i)"
proof -
  let ?I = "\<lambda>c. store_if c e0 fb gb ib counted G {}" and ?n = "length (env_globals e0)"
  have 1: "valid (?I True) (TranslateGlobalIndexToEnv i) (\<lambda>v. ?I (?n \<le> unat v)) (?I True)"
    unfolding TranslateGlobalIndexToEnv_def
    by (rule valid_bind [OF valid_get [where Q = "\<lambda>m s. ?I True s \<and> rd_global_index_mapping s = m"] valid_nth])
      (use assms in \<open>auto simp: store_inv_def\<close>)
  have set: "preserves (?I (?n \<le> unat v)) (update_env (\<lambda>e. e\<lparr>env_globals := (env_globals e)[unat v := x]\<rparr>))" for v x
    unfolding update_env_def
    by (rule preserves_grow) (auto simp: store_inv_def kept_def prefix_def list_update_append)
  have "valid (?I (?n \<le> unat v)) (r_bind (GetGlobal v) (\<lambda>global. r_bind (r_get rd_init_expr_value) (\<lambda>x.
       if tv_type x \<noteq> tv_type (global_typed_value global)
       then r_fail (''type mismatch in global, expected '' @ GetTypeName (tv_type (global_typed_value global)) @
              '' but got '' @ GetTypeName (tv_type x) @ ''.'')
       else update_env (\<lambda>e. e\<lparr>env_globals := (env_globals e)[unat v := global\<lparr>global_typed_value := x\<rparr>]\<rparr>))))
     (\<lambda>_. ?I True) (?I True)" for v
  proof (rule valid_weaken)
    show "valid (?I (?n \<le> unat v)) (r_bind (GetGlobal v) (\<lambda>global. r_bind (r_get rd_init_expr_value) (\<lambda>x.
       if tv_type x \<noteq> tv_type (global_typed_value global)
       then r_fail (''type mismatch in global, expected '' @ GetTypeName (tv_type (global_typed_value global)) @
              '' but got '' @ GetTypeName (tv_type x) @ ''.'')
       else update_env (\<lambda>e. e\<lparr>env_globals := (env_globals e)[unat v := global\<lparr>global_typed_value := x\<rparr>]\<rparr>))))
     (\<lambda>_. ?I (?n \<le> unat v)) (?I (?n \<le> unat v))"
      unfolding preserves_def [symmetric] by (intro keep set)
  qed simp_all
  then show ?thesis
    unfolding preserves_def EndGlobalInitExpr_def by (rule valid_bind [OF 1])
qed

lemma OnFunctionCount_store:
  assumes "length (env_funcs e0) + fb + unat n < 2 ^ 32"
  shows "valid (store_if True e0 fb gb ib counted G {}) (OnFunctionCount n)
     (\<lambda>_. store_if True e0 fb gb ib True G {}) (store_kept e0)"
  unfolding OnFunctionCount_def Let_def
proof (rule valid_mod)
  fix s assume s: "store_if True e0 fb gb ib counted G {} s"
  let ?k = "length (env_funcs (rd_env s))"
  have k: "length (env_funcs e0) \<le> ?k" "?k \<le> length (env_funcs e0) + fb"
    using s by (auto simp: store_inv_def kept_def dest: prefix_length_le)
  have "length (env_funcs e0) \<le> unat (of_nat ?k + of_nat i :: Index)" if "i < unat n" for i
  proof -
    have "?k + i < 2 ^ 32" using k(2) that assms by simp
    then have "unat (of_nat (?k + i) :: Index) = ?k + i" by (simp add: unat_of_nat take_bit_nat_eq_self del: of_nat_add)
    then show ?thesis using k(1) by simp
  qed
  then show "store_if True e0 fb gb ib True G {} (s\<lparr>rd_func_index_mapping := rd_func_index_mapping s @
       map (\<lambda>i. of_nat ?k + of_nat i) [0..<unat n],
      rd_func_fixups := take (unat n) (rd_func_fixups s) @ replicate (unat n - length (rd_func_fixups s)) []\<rparr>)"
    using s by (auto simp: store_inv_def nth_append)
qed simp

lemma OnGlobalCount_store: "preserves (store_if c e0 fb gb ib counted G H) (OnGlobalCount n)"
  unfolding OnGlobalCount_def Let_def by (rule preserves_grow) (auto simp: store_inv_def nth_append)


lemma OnImportMemory_store:
  "valid (store_if True e0 fb gb ib counted G {}) (OnImportMemory pick host m f limits)
     (\<lambda>_. store_if True e0 fb gb ib counted G {}) (store_kept e0)"
  unfolding OnImportMemory_def
  by (intro import_module_store valid_prod valid_if store_fail store_bind store_then
      add_memory_store keep append_host_store store_end) simp_all

lemma OnImportGlobal_store:
  "valid (store_if True e0 fb gb ib counted G {}) (OnImportGlobal pick host m f t mut)
     (\<lambda>_. store_if True e0 fb (gb + 1) ib counted G {}) (store_kept e0)"
  unfolding OnImportGlobal_def
  by (intro import_module_store valid_prod valid_then [OF add_global_store] store_bind store_then
      keep append_host_store store_end add_global_index_store) simp_all

abbreviation table_added :: "Environment \<Rightarrow> nat \<Rightarrow> nat \<Rightarrow> nat \<Rightarrow> bool \<Rightarrow> Index set \<Rightarrow> nat set \<Rightarrow> BinaryReaderInterp \<Rightarrow> bool" where
  "table_added e0 fb gb ib counted G H \<equiv> (\<lambda>s. store_inv e0 fb gb ib counted G H s \<and>
     length (env_tables e0) < length (env_tables (rd_env s)))"

lemma add_table_then:
  "valid (store_if True e0 fb gb ib counted G H) (update_env (EmplaceBackTable x))
     (\<lambda>_. table_added e0 fb gb ib counted G H) (store_kept e0)"
  unfolding update_env_def EmplaceBackTable_def
  by (rule valid_mod) (auto simp: store_inv_def kept_def dest: prefix_length_le)

lemma table_added_typechecker:
  "table_added e0 fb gb ib counted G H s \<Longrightarrow> table_added e0 fb gb ib counted G H (s\<lparr>rd_typechecker := t\<rparr>)"
  by (simp add: store_inv_def)

lemma table_checks:
  "valid (table_added e0 fb gb ib counted G H) (r_result r msgs) (\<lambda>_. table_added e0 fb gb ib counted G H) (store_kept e0)"
  "valid (table_added e0 fb gb ib counted G H) (CheckImportLimits l l') (\<lambda>_. table_added e0 fb gb ib counted G H) (store_kept e0)"
proof -
  note 1 = checks_only(1) [where I = "table_added e0 fb gb ib counted G H", OF table_added_typechecker, unfolded preserves_def]
  show "valid (table_added e0 fb gb ib counted G H) (r_result r msgs) (\<lambda>_. table_added e0 fb gb ib counted G H) (store_kept e0)"
    by (rule valid_weaken [OF 1]) (simp_all add: store_inv_def)
  note 2 = checks_only(2) [where I = "table_added e0 fb gb ib counted G H", OF table_added_typechecker, unfolded preserves_def]
  show "valid (table_added e0 fb gb ib counted G H) (CheckImportLimits l l') (\<lambda>_. table_added e0 fb gb ib counted G H) (store_kept e0)"
    by (rule valid_weaken [OF 2]) (simp_all add: store_inv_def)
qed

lemma kept_update_last:
  assumes "kept e0 e" "length (env_tables e0) < length (env_tables e)"
  shows "kept e0 (e\<lparr>env_tables := (env_tables e)[length (env_tables e) - Suc 0 := x]\<rparr>)"
proof -
  obtain ts where ts: "env_tables e = env_tables e0 @ ts" using assms(1) by (auto simp: kept_def prefix_def)
  then have "\<not> length (env_tables e) - 1 < length (env_tables e0)" using assms(2) by (cases ts) auto
  then have "Sublist.prefix (env_tables e0) ((env_tables e)[length (env_tables e) - 1 := x])"
    by (simp add: ts list_update_append)
  then show ?thesis using assms(1) by (simp add: kept_def)
qed

lemma update_last_table:
  "valid (table_added e0 fb gb ib counted G H) (update_env (\<lambda>e. e\<lparr>env_tables := update_last h (env_tables e)\<rparr>))
     (\<lambda>_. store_if True e0 fb gb ib counted G H) (store_kept e0)"
  unfolding update_env_def update_last_def
  by (rule valid_mod) (simp_all add: store_inv_def kept_update_last)

lemma OnImportTable_store:
  "valid (store_if True e0 fb gb ib counted G {}) (OnImportTable pick host m f limits)
     (\<lambda>_. store_if True e0 fb gb ib counted G {}) (store_kept e0)"
  unfolding OnImportTable_def
  by (intro import_module_store valid_prod valid_if store_fail valid_then [OF add_table_then]
      valid_then [OF table_checks(1)] valid_then [OF table_checks(2)] valid_then [OF update_last_table]
      store_bind store_then keep append_host_store store_end) simp_all

lemma OnFunction_store:
  "valid (store_if True e0 fb gb ib counted G {}) (OnFunction i)
     (\<lambda>_. store_if True e0 (fb + 1) gb ib counted G {}) (store_kept e0)"
  unfolding OnFunction_def by (intro store_bind keep add_func_store)

text \<open>A body of an import is undefined behaviour.\<close>

lemma BeginFunctionBody_import:
  "\<not> rd_num_func_imports s \<le> i \<Longrightarrow> fst (BeginFunctionBody i s) = RUndef"
  by (auto simp: BeginFunctionBody_def r_bind_def r_then_def TranslateFuncIndexToEnv_def GetFunc_def
      GetFuncSignature_def r_get_def r_nth_def r_assert_def r_mod_def update_func_def update_env_def
      TranslateModuleFuncIndexToDefined_def r_undef_def r_return_def Let_def)

lemma BeginFunctionBody_store:
  "valid (store_if True e0 fb gb ib counted G {}) (BeginFunctionBody i)
     (\<lambda>_. store_if True e0 fb gb ib counted G {}) (store_kept e0)"
proof -
  let ?I = "\<lambda>c. store_if c e0 fb gb ib counted G {}" and ?n = "length (env_funcs e0)"
  have 1: "valid (\<lambda>s. ?I True s \<and> rd_num_func_imports s \<le> i) (TranslateFuncIndexToEnv i) (\<lambda>j. ?I (?n \<le> unat j)) (?I True)"
    unfolding TranslateFuncIndexToEnv_def
    by (rule valid_bind [OF valid_get [where Q = "\<lambda>m s. ?I True s \<and> rd_func_index_mapping s = m \<and> rd_num_func_imports s \<le> i"] valid_nth])
      (auto simp: store_inv_def word_le_nat_alt)
  have own: "valid (\<lambda>s. ?I True s \<and> rd_num_func_imports s \<le> i) (r_bind (TranslateFuncIndexToEnv i) g) (\<lambda>_. ?I True) (?I True)"
    if g: "\<And>j. preserves (?I (?n \<le> unat j)) (g j)" for g :: "Index \<Rightarrow> unit rop"
  proof -
    have w: "valid (?I (?n \<le> unat j)) (g j) (\<lambda>_. ?I True) (?I True)" for j
      by (rule valid_weaken [OF g [of j, unfolded preserves_def]]) simp_all
    show ?thesis by (rule valid_bind [OF 1 w])
  qed
  have cur: "preserves (?I (?n \<le> unat j)) (r_mod (\<lambda>s. s\<lparr>rd_current_func := Some j, rd_depth_fixups := [], rd_label_stack := []\<rparr>))" for j
    by (rule preserves_grow) (auto simp: store_inv_def)
  have b: "valid (\<lambda>s. ?I True s \<and> rd_num_func_imports s \<le> i) (BeginFunctionBody i) (\<lambda>_. ?I True) (?I True)"
    unfolding BeginFunctionBody_def
    by (rule own) (intro keep cur update_func_store label_store emit_i32_store)
  show ?thesis
  proof (rule validI)
    fix s r s' assume run: "BeginFunctionBody i s = (r, s')"
    show "length (rd_istream s) \<le> length (rd_istream s')" by (rule validD(1) [OF b run])
    assume s: "?I True s" "length (rd_istream s') < 2 ^ 32"
    show "(\<forall>x. r = ROk x \<longrightarrow> ?I True s') \<and> (r = RError \<longrightarrow> store_kept e0 s')"
    proof (cases "rd_num_func_imports s \<le> i")
      case True
      then have "?I True s \<and> rd_num_func_imports s \<le> i" using s(1) by blast
      note v = validD(2,3) [OF b run this s(2)]
      show ?thesis using v by (simp add: store_inv_def)
    next
      case False
      then have "r = RUndef" using BeginFunctionBody_import [of s i] run by simp
      then show ?thesis by simp
    qed
  qed
qed


lemma init_expr_store [keep]: "preserves (store_if c e0 fb gb ib counted G H) (set_init_expr h)"
  unfolding set_init_expr_def by (rule store_mod) simp_all

lemma own_append_store [keep]:
  "preserves (store_if c e0 fb gb ib counted G H) (r_bind (r_get rd_module) (\<lambda>m. AppendExport pick m k i name))"
  by (intro own_module_store append_own_store)

lemma instruction_store:
  "preserves (store_if c e0 fb gb ib counted G H) (run_operator_callback d)"
  "(\<And>i. b \<noteq> CB_BeginFunctionBody i) \<Longrightarrow> preserves (store_if c e0 fb gb ib counted G H) (run_control_callback b)"
  by (rule store.operator) (rule store.control)

text \<open>The callbacks that keep every bound.\<close>

fun plain_callback :: "module_callback \<Rightarrow> bool" where
  "plain_callback (CB_OnImportFunc _ _ _) = False"
| "plain_callback (CB_OnImportTable _ _ _) = False"
| "plain_callback (CB_OnImportMemory _ _ _) = False"
| "plain_callback (CB_OnImportGlobal _ _ _ _) = False"
| "plain_callback (CB_OnFunctionCount _) = False"
| "plain_callback (CB_OnFunction _) = False"
| "plain_callback (CB_BeginGlobal _ _ _) = False"
| "plain_callback (CB_EndGlobalInitExpr _) = False"
| "plain_callback CB_EndModule = False"
| "plain_callback _ = True"

lemma plain_store:
  "plain_callback d \<Longrightarrow> preserves (store_if c e0 fb gb ib counted G H) (run_module_callback pick host d)"
  by (cases d; simp; (rule OnGlobalCount_store)?;
    (simp only: OnTypeCount_def OnType_def OnTable_def OnMemory_def OnInitExprF32ConstExpr_def
      OnInitExprF64ConstExpr_def OnInitExprV128ConstExpr_def OnInitExprI32ConstExpr_def
      OnInitExprI64ConstExpr_def OnInitExprGetGlobalExpr_def OnExport_def OnStartFunction_def
      EndElemSegmentInitExpr_def OnElemSegmentFunctionIndexCount_def OnElemSegmentFunctionIndex_def
      OnDataSegmentData_def Let_def)?;
    (intro own_append_store keep add_sig_store add_table_store add_memory_store store_mod; simp)?)

section \<open>A run of callbacks\<close>

text \<open>
  The order the binary format gives the callbacks: function imports come before the number of
  functions, a global's initializer ends after the global begins, and \<open>EndModule\<close> is last.
\<close>

fun globals_begun :: "loader_callback \<Rightarrow> Index list" where
  "globals_begun (CB_Module (CB_BeginGlobal i _ _)) = [i]"
| "globals_begun _ = []"

fun function_count :: "loader_callback \<Rightarrow> nat" where
  "function_count (CB_Module (CB_OnFunctionCount n)) = unat n"
| "function_count _ = 0"

definition is_function_count :: "loader_callback \<Rightarrow> bool" where
  "is_function_count cb = (case cb of CB_Module (CB_OnFunctionCount _) \<Rightarrow> True | _ \<Rightarrow> False)"

text \<open>A callback that adds a function or a global to the store, or an import.\<close>

definition adds :: "loader_callback \<Rightarrow> nat" where
  "adds cb = (case cb of CB_Module (CB_OnImportFunc _ _ _) \<Rightarrow> 1 | CB_Module (CB_OnImportGlobal _ _ _ _) \<Rightarrow> 1
     | CB_Module (CB_OnFunction _) \<Rightarrow> 1 | CB_Module (CB_BeginGlobal _ _ _) \<Rightarrow> 1 | _ \<Rightarrow> 0)"

definition added :: "loader_callback list \<Rightarrow> nat" where
  "added cbs = sum_list (map adds cbs)"

definition callback_in_order :: "bool \<Rightarrow> Index list \<Rightarrow> loader_callback \<Rightarrow> bool" where
  "callback_in_order counted begun cb =
     (case cb of
        CB_Module (CB_OnImportFunc _ _ _) \<Rightarrow> \<not> counted
      | CB_Module (CB_EndGlobalInitExpr i) \<Rightarrow> List.member begun i
      | CB_Module CB_EndModule \<Rightarrow> False
      | _ \<Rightarrow> True)"

fun in_order :: "bool \<Rightarrow> Index list \<Rightarrow> loader_callback list \<Rightarrow> bool" where
  "in_order counted begun [] \<longleftrightarrow> True"
| "in_order counted begun (cb # cbs) \<longleftrightarrow>
     cb = CB_Module CB_EndModule \<and> cbs = [] \<or>
     callback_in_order counted begun cb \<and>
     in_order (counted \<or> is_function_count cb) (globals_begun cb @ begun) cbs"

lemma callback_store:
  assumes "callback_in_order counted begun cb" "length (env_funcs e0) + n + function_count cb < 2 ^ 32"
    "length (env_globals e0) + n < 2 ^ 32" "n + 1 < 2 ^ 32"
  shows "valid (store_if True e0 n n n counted (set begun) {}) (run_callback pick host cb)
     (\<lambda>_. store_if True e0 (n + adds cb) (n + adds cb) (n + adds cb) (counted \<or> is_function_count cb)
        (set (globals_begun cb @ begun)) {}) (store_kept e0)"
proof -
  let ?S = "\<lambda>fb gb ib counted G. store_if True e0 fb gb ib counted G {}"
  have up: "valid (?S n n n counted (set begun)) f
      (\<lambda>_. ?S (n + adds cb) (n + adds cb) (n + adds cb) (counted \<or> is_function_count cb) (set (globals_begun cb @ begun))) (store_kept e0)"
    if "valid (?S n n n counted (set begun)) f (\<lambda>_. ?S fb gb ib cd G) (store_kept e0)"
      "fb \<le> n + adds cb" "gb \<le> n + adds cb" "ib \<le> n + adds cb" "cd \<longrightarrow> counted \<or> is_function_count cb"
      "set (globals_begun cb @ begun) \<subseteq> G" for f :: "unit rop" and fb gb ib cd G
    by (rule valid_weaken [OF that(1)]) (use that in \<open>auto elim!: store_inv_mono\<close>)
  have same: "valid (?S n n n counted (set begun)) f
      (\<lambda>_. ?S (n + adds cb) (n + adds cb) (n + adds cb) (counted \<or> is_function_count cb) (set (globals_begun cb @ begun))) (store_kept e0)"
    if "preserves (?S n n n counted (set begun)) f" "globals_begun cb = []" for f :: "unit rop"
    by (rule store_end [OF that(1)]) (use that(2) in auto)
  show ?thesis
  proof (cases cb)
    case (CB_Operator d)
    show ?thesis unfolding CB_Operator run_callback.simps
      by (rule same [unfolded CB_Operator]) (rule instruction_store, simp)
  next
    case (CB_Control d)
    show ?thesis
    proof (cases "\<exists>i. d = CB_BeginFunctionBody i")
      case True
      then obtain i where d: "d = CB_BeginFunctionBody i" by blast
      show ?thesis unfolding CB_Control d run_callback.simps run_control_callback.simps
        by (rule up [OF BeginFunctionBody_store, unfolded CB_Control d]) simp_all
    next
      case False
      then have "preserves (?S n n n counted (set begun)) (run_control_callback d)"
        by (intro instruction_store) blast
      then show ?thesis unfolding CB_Control run_callback.simps
        by (rule same [unfolded CB_Control]) simp
    qed
  next
    case (CB_Module d)
    show ?thesis
    proof (cases "plain_callback d")
      case True
      then have "globals_begun cb = []" unfolding CB_Module by (cases d) simp_all
      then show ?thesis unfolding CB_Module run_callback.simps
        using same [OF plain_store [OF True, where c = True]] CB_Module by simp
    next
      case False
      note s = CB_Module callback_in_order_def is_function_count_def adds_def
      show ?thesis
      proof (cases d)
        case (CB_OnImportFunc x y z)
        show ?thesis unfolding CB_Module CB_OnImportFunc run_callback.simps run_module_callback.simps
          by (rule up [OF OnImportFunc_store, unfolded CB_Module CB_OnImportFunc])
            (use assms in \<open>simp_all add: s CB_OnImportFunc\<close>)
      next
        case (CB_OnImportTable x y z)
        show ?thesis unfolding CB_Module CB_OnImportTable run_callback.simps run_module_callback.simps
          by (rule up [OF OnImportTable_store, unfolded CB_Module CB_OnImportTable])
            (use assms in \<open>simp_all add: s CB_OnImportTable\<close>)
      next
        case (CB_OnImportMemory x y z)
        show ?thesis unfolding CB_Module CB_OnImportMemory run_callback.simps run_module_callback.simps
          by (rule up [OF OnImportMemory_store, unfolded CB_Module CB_OnImportMemory])
            (use assms in \<open>simp_all add: s CB_OnImportMemory\<close>)
      next
        case (CB_OnImportGlobal x y z w)
        show ?thesis unfolding CB_Module CB_OnImportGlobal run_callback.simps run_module_callback.simps
          by (rule up [OF OnImportGlobal_store, unfolded CB_Module CB_OnImportGlobal])
            (use assms in \<open>simp_all add: s CB_OnImportGlobal\<close>)
      next
        case (CB_OnFunctionCount x)
        show ?thesis unfolding CB_Module CB_OnFunctionCount run_callback.simps run_module_callback.simps
          by (rule up [OF OnFunctionCount_store, unfolded CB_Module CB_OnFunctionCount])
            (use assms in \<open>simp_all add: s CB_OnFunctionCount\<close>)
      next
        case (CB_OnFunction x)
        show ?thesis unfolding CB_Module CB_OnFunction run_callback.simps run_module_callback.simps
          by (rule up [OF OnFunction_store, unfolded CB_Module CB_OnFunction])
            (use assms in \<open>simp_all add: s CB_OnFunction\<close>)
      next
        case (CB_BeginGlobal x y z)
        show ?thesis unfolding CB_Module CB_BeginGlobal run_callback.simps run_module_callback.simps
          by (rule up [OF BeginGlobal_store, unfolded CB_Module CB_BeginGlobal])
            (use assms in \<open>simp_all add: s CB_BeginGlobal\<close>)
      next
        case (CB_EndGlobalInitExpr x)
        have "x \<in> set begun" using assms(1) by (simp add: s CB_EndGlobalInitExpr)
        from EndGlobalInitExpr_store [OF this] show ?thesis
          unfolding CB_Module CB_EndGlobalInitExpr run_callback.simps run_module_callback.simps
          by (rule same [unfolded CB_Module CB_EndGlobalInitExpr]) simp
      qed (use False assms(1) in \<open>simp_all add: s\<close>)
    qed
  qed
qed


lemma callbacks_store:
  assumes "in_order counted begun cbs" "CB_Module CB_EndModule \<notin> set cbs"
    "\<And>cb. cb \<in> set cbs \<Longrightarrow> length (env_funcs e0) + n + added cbs + function_count cb < 2 ^ 32"
    "length (env_globals e0) + n + added cbs < 2 ^ 32" "n + added cbs + 1 < 2 ^ 32"
  shows "valid (store_if True e0 n n n counted (set begun) {}) (r_each (run_callback pick host) cbs)
     (\<lambda>_. store_kept e0) (store_kept e0)"
  using assms
proof (induction cbs arbitrary: counted begun n)
  case Nil
  show ?case by (auto simp: store_inv_def intro: valid_return)
next
  case (Cons cb cbs)
  let ?n = "n + adds cb"
  have o: "in_order (counted \<or> is_function_count cb) (globals_begun cb @ begun) cbs" "callback_in_order counted begun cb"
    using Cons.prems(1,2) by auto
  have 1: "length (env_funcs e0) + n + function_count cb < 2 ^ 32" using Cons.prems(3) [of cb] by simp
  have 2: "length (env_funcs e0) + ?n + added cbs + function_count c < 2 ^ 32" if "c \<in> set cbs" for c
    using Cons.prems(3) [of c] that by (simp add: added_def)
  have rest: "valid (store_if True e0 ?n ?n ?n (counted \<or> is_function_count cb)
      (set (globals_begun cb @ begun)) {}) (r_each (run_callback pick host) cbs) (\<lambda>_. store_kept e0) (store_kept e0)"
    by (rule Cons.IH [OF o(1)]) (use Cons.prems(2,4,5) 2 in \<open>auto simp: added_def\<close>)
  have "length (env_globals e0) + n < 2 ^ 32" "n + 1 < 2 ^ 32" using Cons.prems(4,5) by auto
  from valid_then [OF callback_store [OF o(2) 1 this] rest] show ?case by (simp only: r_each.simps)
qed

lemma r_each_append: "r_each f (xs @ ys) = r_then (r_each f xs) (r_each f ys)"
proof (induction xs)
  case Nil
  show ?case by (rule ext) (simp add: r_then_def r_bind_def r_return_def)
qed (simp add: r_then_assoc)

lemma in_order_append:
  assumes "in_order counted begun (xs @ ys)"
  shows "in_order counted begun xs"
  using assms by (induction xs arbitrary: counted begun) auto

lemma in_order_end:
  assumes "in_order counted begun cbs" "CB_Module CB_EndModule \<in> set cbs"
  shows "last cbs = CB_Module CB_EndModule \<and> CB_Module CB_EndModule \<notin> set (butlast cbs)"
  using assms
  by (induction cbs arbitrary: counted begun) (auto simp: callback_in_order_def split: if_splits)

lemma EndModule_never_fails: "fst (EndModule s) \<noteq> RError"
proof -
  have seg: "fst (apply_elem x s) \<noteq> RError" "fst (apply_data y s) \<noteq> RError" for x y s
    by (auto simp: apply_elem_def apply_data_def GetTable_def GetMemory_def r_bind_def r_then_def r_get_def
        r_nth_def r_assert_def r_return_def r_undef_def update_env_def r_mod_def split: prod.splits)
  have each: "fst (r_each f xs s) \<noteq> RError" if "\<And>x s. fst (f x s) \<noteq> RError" for f :: "'a \<Rightarrow> unit rop" and xs s
  proof (induction xs arbitrary: s)
    case (Cons x xs)
    show ?case using Cons.IH that [of x s] by (auto simp: r_then_def r_bind_def split: prod.splits rres.splits)
  qed (simp add: r_return_def)
  show ?thesis
    using each [of apply_elem, OF seg(1)] each [of apply_data, OF seg(2)]
    by (auto simp: EndModule_def r_bind_def r_then_def r_get_def split: prod.splits rres.splits)
      (metis fst_conv)
qed


section \<open>A failed load\<close>

lemma init_store:
  "store_inv env 0 0 0 False {} {} (Reader_init env)"
  by (auto simp: store_inv_def Reader_init_def kept_def EmplaceBackModule_def nth_append exports_grown_def DefinedModule_init_def)

lemma kept_reset:
  assumes "kept env e" "\<forall>b \<in> set (env_registered_module_bindings env). unat (snd b) < length (env_modules env)"
  shows "Environment_ResetToMarkPoint (Environment_Mark env) (e\<lparr>env_istream := code\<rparr>) =
    env\<lparr>env_modules := take (length (env_modules env)) (env_modules e),
      env_istream := bytes_resize (length (env_istream env)) code\<rparr>"
    and "list_all2 exports_grown (env_modules env) (take (length (env_modules env)) (env_modules e))"
proof -
  let ?n = "length (env_modules env)"
  have len: "length (env_modules e) = ?n + 1" using assms(1) by (simp add: kept_def)
  then have "drop ?n (env_modules e) = [last (env_modules e)]"
    by (cases "env_modules e" rule: rev_cases) auto
  moreover have "mod_name (last (env_modules e)) = []" using assms(1) by (simp add: kept_def)
  ultimately have names: "erase_module_names (drop ?n (env_modules e)) h = h" for h by simp
  have "filter (\<lambda>b. \<not> ?n \<le> unat (snd b)) (env_registered_module_bindings env) = env_registered_module_bindings env"
    using assms(2) by (auto intro!: filter_True simp: not_le)
  then show "Environment_ResetToMarkPoint (Environment_Mark env) (e\<lparr>env_istream := code\<rparr>) =
    env\<lparr>env_modules := take ?n (env_modules e), env_istream := bytes_resize (length (env_istream env)) code\<rparr>"
    using assms(1) names by (auto simp: Environment_ResetToMarkPoint_def Environment_Mark_def kept_def prefix_def)
  show "list_all2 exports_grown (env_modules env) (take ?n (env_modules e))"
    using assms(1) len by (auto simp: list_all2_conv_all_nth kept_def)
qed

lemma bytes_resize_prefix:
  assumes "stream_inv pre s"
  shows "bytes_resize (length pre) (rd_istream s) = pre"
  using assms by (auto simp: stream_inv_def bytes_resize_def)

text \<open>The sizes stay within 32 bits.\<close>

definition sizes_ok :: "Environment \<Rightarrow> loader_callback list \<Rightarrow> bool" where
  "sizes_ok env cbs \<longleftrightarrow> length (env_globals env) + added cbs + 1 < 2 ^ 32 \<and>
     (\<forall>cb \<in> set cbs. length (env_funcs env) + added cbs + function_count cb < 2 ^ 32)"

lemma sizes_ok_butlast:
  assumes "sizes_ok env cbs"
  shows "sizes_ok env (butlast cbs)"
proof (cases "cbs = []")
  case False
  then have "added cbs = added (butlast cbs) + adds (last cbs)"
    using append_butlast_last_id [OF False] by (metis added_def map_append sum_list_append list.map(1,2) sum_list.Cons sum_list.Nil add_0_right)
  then have le: "added (butlast cbs) \<le> added cbs" by simp
  have "length (env_funcs env) + added (butlast cbs) + function_count cb < 2 ^ 32" if "cb \<in> set (butlast cbs)" for cb
  proof -
    have "length (env_funcs env) + added cbs + function_count cb < 2 ^ 32"
      using assms in_set_butlastD [OF that] by (simp add: sizes_ok_def)
    then show ?thesis using le by simp
  qed
  moreover have "length (env_globals env) + added (butlast cbs) + 1 < 2 ^ 32" using assms le by (auto simp: sizes_ok_def)
  ultimately show ?thesis unfolding sizes_ok_def by blast
qed (use assms in simp)

lemma loaded_kept:
  assumes "r_each (run_callback pick host) cbs (Reader_init env) = (r, s)" "r \<noteq> RUndef"
    "length (rd_istream s) < 2 ^ 32" "in_order False [] cbs" "sizes_ok env cbs"
    "CB_Module CB_EndModule \<notin> set cbs"
  shows "kept env (rd_env s)"
proof -
  note v = callbacks_store [of False "[]" cbs env 0 pick host]
  have "valid (store_if True env 0 0 0 False (set []) {}) (r_each (run_callback pick host) cbs)
     (\<lambda>_. store_kept env) (store_kept env)"
    by (rule v) (use assms(4-6) in \<open>auto simp: sizes_ok_def\<close>)
  from validD(2,3) [OF this assms(1)] assms(2,3) init_store [of env] show ?thesis
    by (cases r) auto
qed

text \<open>
  When \<open>ReadBinaryInterp\<close> fails, because a callback fails or because the module is malformed, the
  store is the one it was before, except that host modules may have gained exports (for imports
  resolved before the failure).
\<close>

lemma failed_load_keeps_store:
  assumes "ReadBinaryInterp pick host cbs parse_result env = Some (Result_Error, env', m, msgs)"
    and "in_order False [] cbs" "CB_Module CB_EndModule \<in> set cbs \<longrightarrow> parse_result = Result_Ok"
    and "sizes_ok env cbs"
    and "\<forall>b \<in> set (env_registered_module_bindings env). unat (snd b) < length (env_modules env)"
    and "length (rd_istream (snd (r_each (run_callback pick host) cbs (Reader_init env)))) < 2 ^ 32"
  shows "m = None \<and> env' = env\<lparr>env_modules := env_modules env'\<rparr> \<and>
    list_all2 exports_grown (env_modules env) (env_modules env')"
proof -
  obtain r s where run: "r_each (run_callback pick host) cbs (Reader_init env) = (r, s)" by fastforce
  have r: "r \<noteq> RUndef" and fails: "(if r = RError then Result_Error else parse_result) = Result_Error"
    and m: "m = None"
    and env': "env' = Environment_ResetToMarkPoint (Environment_Mark env) ((rd_env s)\<lparr>env_istream := rd_istream s\<rparr>)"
    using assms(1) run by (cases r; auto simp: ReadBinaryInterp_def Let_def split: if_splits)+
  have small: "length (rd_istream s) < 2 ^ 32" using assms(6) run by simp
  have kept: "kept env (rd_env s)"
  proof (cases "CB_Module CB_EndModule \<in> set cbs")
    case False
    then show ?thesis using loaded_kept [OF run r small assms(2,4)] by simp
  next
    case True
    then have "r = RError" using assms(3) fails by (auto split: if_splits)
    have l: "last cbs = CB_Module CB_EndModule" "CB_Module CB_EndModule \<notin> set (butlast cbs)" "cbs \<noteq> []"
      using in_order_end [OF assms(2) True] True by auto
    then have cbs: "cbs = butlast cbs @ [CB_Module CB_EndModule]" using append_butlast_last_id [of cbs] by simp
    obtain r1 s1 where b: "r_each (run_callback pick host) (butlast cbs) (Reader_init env) = (r1, s1)" by fastforce
    have "r_then (r_each (run_callback pick host) (butlast cbs)) (r_each (run_callback pick host) [CB_Module CB_EndModule])
        (Reader_init env) = (RError, s)"
      using run cbs \<open>r = RError\<close> by (metis r_each_append)
    then have "r1 = RError" "s1 = s"
      using b EndModule_never_fails [of s1]
      by (cases r1; auto simp: r_then_def r_bind_def r_return_def split: prod.splits rres.splits)+
    moreover have "in_order False [] (butlast cbs)" using assms(2) cbs in_order_append by metis
    moreover have "sizes_ok env (butlast cbs)" using assms(4) by (rule sizes_ok_butlast)
    ultimately show ?thesis using loaded_kept [OF b _ _ _ _ l(2)] small by simp
  qed
  have "bytes_resize (length (env_istream env)) (rd_istream s) = env_istream env"
    using bytes_resize_prefix [OF loaded_stream [OF run r small]] .
  then have "env' = env\<lparr>env_modules := take (length (env_modules env)) (env_modules (rd_env s))\<rparr>"
    using kept_reset(1) [OF kept assms(5)] env' by simp
  then show ?thesis using kept_reset(2) [OF kept assms(5)] m by simp
qed


text \<open>A host module whose functions can be imported.\<close>

definition import_delegate :: HostImportDelegate where
  "import_delegate = no_imports\<lparr>ImportFunc := \<lambda>m f g s. (Result_Ok, [])\<rparr>"

definition host_env :: Environment where
  "host_env = AppendHostModule ''env'' Environment_init"

end
