(* ===== verification/BinaryReaderLoad.thy ===== *)
theory BinaryReaderLoad
  imports BinaryReaderEvents InterpLoadStore
begin

text \<open>
  The loader as the parser's delegate: \<open>ReadBinaryInterp\<close> on the bytes of a module. The callbacks the
  parser makes are those of \<open>reader_delegate\<close>; the loader and a delegate that records them are its
  instances, and what was proved of a run of callbacks holds for every file.
\<close>

section \<open>The delegate\<close>

text \<open>\<open>static_cast\<close> of a value of \<open>Type\<close>; the parser has checked that it is one.\<close>

definition Type_of :: "u32 \<Rightarrow> wtype option" where
  "Type_of t = List.find (\<lambda>type. Type_bits type = t) [Type_I32, Type_I64, Type_F32, Type_F64, Type_V128,
     Type_Anyfunc, Type_ExceptRef, Type_Func, Type_Void, Type_Any]"

definition SigType_of :: "u32 \<Rightarrow> SigType option" where
  "SigType_of t = (if sint t \<ge> 0 then Some (Sig_Index t) else map_option Sig_Type (Type_of t))"

definition Types_of :: "u32 list \<Rightarrow> TypeVector option" where
  "Types_of ts = those (map Type_of ts)"

definition string_of :: "bytes \<Rightarrow> string" where
  "string_of bs = map (\<lambda>b. char_of (unat b)) bs"

text \<open>
  The method of \<open>BinaryReaderInterp\<close> for a callback, with the arguments it uses; \<open>Some None\<close>: that of
  \<open>BinaryReaderNop\<close>, which does nothing; \<open>None\<close>: a value that is no type.
\<close>

fun module_callback_of :: "module_event \<Rightarrow> module_callback option option" where
  "module_callback_of Ev_EndModule = Some (Some CB_EndModule)"
| "module_callback_of (Ev_OnTypeCount n) = Some (Some (CB_OnTypeCount n))"
| "module_callback_of (Ev_OnType i ps rs) =
     (case (Types_of ps, Types_of rs) of (Some p, Some r) \<Rightarrow> Some (Some (CB_OnType i p r)) | _ \<Rightarrow> None)"
| "module_callback_of (Ev_OnImportFunc i m f j t) = Some (Some (CB_OnImportFunc (string_of m) (string_of f) t))"
| "module_callback_of (Ev_OnImportTable i m f j t l) = Some (Some (CB_OnImportTable (string_of m) (string_of f) l))"
| "module_callback_of (Ev_OnImportMemory i m f j l) = Some (Some (CB_OnImportMemory (string_of m) (string_of f) l))"
| "module_callback_of (Ev_OnImportGlobal i m f j t mutable) =
     map_option (\<lambda>type. Some (CB_OnImportGlobal (string_of m) (string_of f) type mutable)) (Type_of t)"
| "module_callback_of _ = Some None"

fun define_callback_of :: "define_event \<Rightarrow> module_callback option option" where
  "define_callback_of (Ev_OnFunctionCount n) = Some (Some (CB_OnFunctionCount n))"
| "define_callback_of (Ev_OnFunction i t) = Some (Some (CB_OnFunction t))"
| "define_callback_of (Ev_OnTable i t l) = Some (Some (CB_OnTable l))"
| "define_callback_of (Ev_OnMemory i l) = Some (Some (CB_OnMemory l))"
| "define_callback_of (Ev_OnGlobalCount n) = Some (Some (CB_OnGlobalCount n))"
| "define_callback_of (Ev_BeginGlobal i t mutable) =
     map_option (\<lambda>type. Some (CB_BeginGlobal i type mutable)) (Type_of t)"
| "define_callback_of (Ev_EndGlobalInitExpr i) = Some (Some (CB_EndGlobalInitExpr i))"
| "define_callback_of (Ev_OnExport i k j name) = Some (Some (CB_OnExport k j (string_of name)))"
| "define_callback_of (Ev_OnStartFunction i) = Some (Some (CB_OnStartFunction i))"
| "define_callback_of _ = Some None"

fun segment_callback_of :: "segment_event \<Rightarrow> module_callback option" where
  "segment_callback_of (Ev_OnInitExprF32ConstExpr i v) = Some (CB_OnInitExprF32ConstExpr v)"
| "segment_callback_of (Ev_OnInitExprF64ConstExpr i v) = Some (CB_OnInitExprF64ConstExpr v)"
| "segment_callback_of (Ev_OnInitExprV128ConstExpr i v) = Some (CB_OnInitExprV128ConstExpr v)"
| "segment_callback_of (Ev_OnInitExprGetGlobalExpr i j) = Some (CB_OnInitExprGetGlobalExpr j)"
| "segment_callback_of (Ev_OnInitExprI32ConstExpr i v) = Some (CB_OnInitExprI32ConstExpr v)"
| "segment_callback_of (Ev_OnInitExprI64ConstExpr i v) = Some (CB_OnInitExprI64ConstExpr v)"
| "segment_callback_of (Ev_EndElemSegmentInitExpr i) = Some CB_EndElemSegmentInitExpr"
| "segment_callback_of (Ev_OnElemSegmentFunctionIndexCount i n) = Some (CB_OnElemSegmentFunctionIndexCount n)"
| "segment_callback_of (Ev_OnElemSegmentFunctionIndex i j) = Some (CB_OnElemSegmentFunctionIndex j)"
| "segment_callback_of (Ev_OnDataSegmentData i bs) = Some (CB_OnDataSegmentData bs)"
| "segment_callback_of _ = None"

fun body_callback_of :: "body_event \<Rightarrow> control_callback option option" where
  "body_callback_of (Ev_BeginFunctionBody i) = Some (Some (CB_BeginFunctionBody i))"
| "body_callback_of (Ev_OnLocalDeclCount n) = Some (Some (CB_OnLocalDeclCount n))"
| "body_callback_of (Ev_OnLocalDecl k n t) = map_option (\<lambda>type. Some (CB_OnLocalDecl k n type)) (Type_of t)"
| "body_callback_of (Ev_EndFunctionBody i) = Some (Some CB_EndFunctionBody)"
| "body_callback_of _ = Some None"

fun operator_callback_of :: "operator_event \<Rightarrow> operator_callback" where
  "operator_callback_of (Ev_OnUnaryExpr a) = CB_OnUnaryExpr a"
| "operator_callback_of (Ev_OnTernaryExpr a) = CB_OnTernaryExpr a"
| "operator_callback_of (Ev_OnBinaryExpr a) = CB_OnBinaryExpr a"
| "operator_callback_of (Ev_OnCompareExpr a) = CB_OnCompareExpr a"
| "operator_callback_of (Ev_OnConvertExpr a) = CB_OnConvertExpr a"
| "operator_callback_of (Ev_OnSimdLaneOpExpr a b) = CB_OnSimdLaneOpExpr a b"
| "operator_callback_of (Ev_OnSimdShuffleOpExpr a b) = CB_OnSimdShuffleOpExpr a b"
| "operator_callback_of (Ev_OnAtomicLoadExpr a b c) = CB_OnAtomicLoadExpr a b c"
| "operator_callback_of (Ev_OnAtomicStoreExpr a b c) = CB_OnAtomicStoreExpr a b c"
| "operator_callback_of (Ev_OnAtomicRmwExpr a b c) = CB_OnAtomicRmwExpr a b c"
| "operator_callback_of (Ev_OnAtomicRmwCmpxchgExpr a b c) = CB_OnAtomicRmwCmpxchgExpr a b c"
| "operator_callback_of (Ev_OnAtomicWaitExpr a b c) = CB_OnAtomicWaitExpr a b c"
| "operator_callback_of (Ev_OnAtomicWakeExpr a b c) = CB_OnAtomicWakeExpr a b c"
| "operator_callback_of (Ev_OnLoadExpr a b c) = CB_OnLoadExpr a b c"
| "operator_callback_of (Ev_OnStoreExpr a b c) = CB_OnStoreExpr a b c"
| "operator_callback_of Ev_OnMemoryGrowExpr = CB_OnMemoryGrowExpr"
| "operator_callback_of Ev_OnMemorySizeExpr = CB_OnMemorySizeExpr"
| "operator_callback_of (Ev_OnI32ConstExpr a) = CB_OnI32ConstExpr a"
| "operator_callback_of (Ev_OnI64ConstExpr a) = CB_OnI64ConstExpr a"
| "operator_callback_of (Ev_OnF32ConstExpr a) = CB_OnF32ConstExpr a"
| "operator_callback_of (Ev_OnF64ConstExpr a) = CB_OnF64ConstExpr a"
| "operator_callback_of (Ev_OnV128ConstExpr a) = CB_OnV128ConstExpr a"
| "operator_callback_of (Ev_OnGetGlobalExpr a) = CB_OnGetGlobalExpr a"
| "operator_callback_of (Ev_OnSetGlobalExpr a) = CB_OnSetGlobalExpr a"
| "operator_callback_of (Ev_OnGetLocalExpr a) = CB_OnGetLocalExpr a"
| "operator_callback_of (Ev_OnSetLocalExpr a) = CB_OnSetLocalExpr a"
| "operator_callback_of (Ev_OnTeeLocalExpr a) = CB_OnTeeLocalExpr a"

text \<open>\<open>BinaryReaderInterp\<close> has no method for \<open>OnEndFunc\<close> and for the instructions of exceptions.\<close>

fun control_callback_of :: "control_event \<Rightarrow> control_callback option option" where
  "control_callback_of (Ev_OnBlockExpr t) = map_option (Some \<circ> CB_OnBlockExpr) (SigType_of t)"
| "control_callback_of (Ev_OnLoopExpr t) = map_option (Some \<circ> CB_OnLoopExpr) (SigType_of t)"
| "control_callback_of (Ev_OnIfExpr t) = map_option (Some \<circ> CB_OnIfExpr) (SigType_of t)"
| "control_callback_of Ev_OnElseExpr = Some (Some CB_OnElseExpr)"
| "control_callback_of Ev_OnEndExpr = Some (Some CB_OnEndExpr)"
| "control_callback_of (Ev_OnBrExpr d) = Some (Some (CB_OnBrExpr d))"
| "control_callback_of (Ev_OnBrIfExpr d) = Some (Some (CB_OnBrIfExpr d))"
| "control_callback_of (Ev_OnBrTableExpr ds d) = Some (Some (CB_OnBrTableExpr ds d))"
| "control_callback_of Ev_OnReturnExpr = Some (Some CB_OnReturnExpr)"
| "control_callback_of Ev_OnNopExpr = Some (Some CB_OnNopExpr)"
| "control_callback_of Ev_OnSelectExpr = Some (Some CB_OnSelectExpr)"
| "control_callback_of Ev_OnUnreachableExpr = Some (Some CB_OnUnreachableExpr)"
| "control_callback_of Ev_OnDropExpr = Some (Some CB_OnDropExpr)"
| "control_callback_of (Ev_OnCallExpr i) = Some (Some (CB_OnCallExpr i))"
| "control_callback_of (Ev_OnCallIndirectExpr i) = Some (Some (CB_OnCallIndirectExpr i))"
| "control_callback_of _ = Some None"

fun callback_of :: "event \<Rightarrow> loader_callback option option" where
  "callback_of (Module_Event e) = map_option (map_option CB_Module) (module_callback_of e)"
| "callback_of (Define_Event e) = map_option (map_option CB_Module) (define_callback_of e)"
| "callback_of (Segment_Event e) = Some (map_option CB_Module (segment_callback_of e))"
| "callback_of (Body_Event e) = map_option (map_option CB_Control) (body_callback_of e)"
| "callback_of (Operator_Event e) = Some (Some (CB_Operator (operator_callback_of e)))"
| "callback_of (Control_Event e) = map_option (map_option CB_Control) (control_callback_of e)"
| "callback_of _ = Some None"

text \<open>Errors of the parser go to the handler the loader reports to.\<close>

definition loader_deliver ::
    "(Index list \<Rightarrow> Index) \<Rightarrow> HostImportDelegate \<Rightarrow> event \<Rightarrow> BinaryReaderInterp \<Rightarrow> Result option \<times> BinaryReaderInterp" where
  "loader_deliver pick host e s =
     (case callback_of e of
        None \<Rightarrow> (None, s)
      | Some None \<Rightarrow> (Some Result_Ok, s)
      | Some (Some cb) \<Rightarrow> (case run_callback pick host cb s of
          (ROk _, s1) \<Rightarrow> (Some Result_Ok, s1)
        | (RError, s1) \<Rightarrow> (Some Result_Error, s1)
        | (RUndef, s1) \<Rightarrow> (None, s1)))"

definition loader_delegate ::
    "(Index list \<Rightarrow> Index) \<Rightarrow> HostImportDelegate \<Rightarrow> BinaryReaderInterp BinaryReaderDelegate" where
  "loader_delegate pick host =
     \<lparr>deliver = (\<lambda>offset. loader_deliver pick host),
      on_error = (\<lambda>offset level msg s. snd (Reader_PrintError msg s))\<rparr>"

text \<open>
  \<open>ReadBinaryInterp\<close> on the bytes of a file. \<open>None\<close>: undefined behaviour of the loader; the parser has
  none and ends.
\<close>

definition ReadBinaryInterp_data ::
    "(Index list \<Rightarrow> Index) \<Rightarrow> HostImportDelegate \<Rightarrow> bytes \<Rightarrow> ReadBinaryOptions \<Rightarrow> Environment \<Rightarrow>
     (Result \<times> Environment \<times> nat option \<times> string list) option" where
  "ReadBinaryInterp_data pick host data options env =
     (let mark = Environment_Mark env;
          istream_offset = of_nat (length (env_istream env)) :: u32;
          (r, s) = ReadBinary data (loader_delegate pick host) (Reader_init env) options;
          env1 = (rd_env s)\<lparr>env_istream := rd_istream s\<rparr>;
          msgs = errors (rd_typechecker s)
      in case r of
        BOk _ \<Rightarrow> Some (Result_Ok, env1\<lparr>env_modules := (env_modules env1)[rd_module s :=
            (env_modules env1 ! rd_module s)\<lparr>mod_istream_start := istream_offset,
              mod_istream_end := of_nat (length (env_istream env1))\<rparr>]\<rparr>,
          Some (rd_module s), msgs)
      | BError \<Rightarrow> Some (Result_Error, Environment_ResetToMarkPoint mark env1, None, msgs)
      | _ \<Rightarrow> None)"

section \<open>From the protocol to the order of the callbacks\<close>

text \<open>The callbacks of a run of events.\<close>

definition callbacks :: "event list \<Rightarrow> loader_callback list" where
  "callbacks es = List.map_filter (\<lambda>e. case callback_of e of Some (Some cb) \<Rightarrow> Some cb | _ \<Rightarrow> None) es"

lemma callbacks_Nil [simp]: "callbacks [] = []"
  by (simp add: callbacks_def map_filter_simps)

lemma callbacks_Cons:
  "callbacks (e # es) = (case callback_of e of Some (Some cb) \<Rightarrow> cb # callbacks es | _ \<Rightarrow> callbacks es)"
  by (simp add: callbacks_def map_filter_simps split: option.splits)

lemma callbacks_append: "callbacks (es @ fs) = callbacks es @ callbacks fs"
  by (induction es) (auto simp: callbacks_Cons split: option.splits)

text \<open>What one event means for the order of the callbacks.\<close>

definition fits :: "bool \<Rightarrow> Index list \<Rightarrow> protocol \<Rightarrow> bool" where
  "fits counted begun p \<longleftrightarrow> (counted \<longrightarrow> 3 \<le> pr_section p) \<and> set (pr_begun p) \<subseteq> set begun"

lemma step_module:
  assumes "protocol_step n p (Module_Event e) = Some p'" "module_callback_of e = Some c" "fits counted begun p"
  shows "case c of None \<Rightarrow> fits counted begun p' \<and> pr_added p \<le> pr_added p'
    | Some cb \<Rightarrow> cb = CB_EndModule \<and> pr_done p' \<and> pr_added p = pr_added p' \<or>
        callback_in_order counted begun (CB_Module cb) \<and>
        fits (counted \<or> is_function_count (CB_Module cb)) (globals_begun (CB_Module cb) @ begun) p' \<and>
        pr_added p + adds (CB_Module cb) \<le> pr_added p' \<and> function_count (CB_Module cb) \<le> n"
  using assms
  by (cases e)
    (auto simp: step_simps fits_def callback_in_order_def is_function_count_def adds_def split: if_splits option.splits)

lemma step_define:
  assumes "protocol_step n p (Define_Event e) = Some p'" "define_callback_of e = Some c" "fits counted begun p"
  shows "case c of None \<Rightarrow> fits counted begun p' \<and> pr_added p \<le> pr_added p'
    | Some cb \<Rightarrow> cb \<noteq> CB_EndModule \<and> callback_in_order counted begun (CB_Module cb) \<and>
        fits (counted \<or> is_function_count (CB_Module cb)) (globals_begun (CB_Module cb) @ begun) p' \<and>
        pr_added p + adds (CB_Module cb) \<le> pr_added p' \<and> function_count (CB_Module cb) \<le> n"
  using assms
  by (cases e)
    (auto simp: step_simps fits_def callback_in_order_def is_function_count_def adds_def split: if_splits option.splits list.splits)

lemma step_segment:
  assumes "protocol_step n p (Segment_Event e) = Some p'" "segment_callback_of e = Some cb" "fits counted begun p"
  shows "cb \<noteq> CB_EndModule \<and> callback_in_order counted begun (CB_Module cb) \<and>
        fits (counted \<or> is_function_count (CB_Module cb)) (globals_begun (CB_Module cb) @ begun) p' \<and>
        pr_added p + adds (CB_Module cb) \<le> pr_added p' \<and> function_count (CB_Module cb) \<le> n"
  using assms
  by (cases e)
    (auto simp: step_simps fits_def callback_in_order_def is_function_count_def adds_def split: if_splits)

text \<open>In order, with the numbers that bound the store.\<close>

definition counts_ok :: "nat \<Rightarrow> loader_callback list \<Rightarrow> bool" where
  "counts_ok n cbs \<longleftrightarrow> (\<forall>cb \<in> set cbs. function_count cb \<le> n)"

lemma step_order:
  assumes "protocol_step n p e = Some p'" "callback_of e = Some c" "fits counted begun p"
  shows "case c of None \<Rightarrow> fits counted begun p' \<and> pr_added p \<le> pr_added p'
    | Some cb \<Rightarrow> cb = CB_Module CB_EndModule \<and> pr_done p' \<and> pr_added p = pr_added p' \<or>
        callback_in_order counted begun cb \<and>
        fits (counted \<or> is_function_count cb) (globals_begun cb @ begun) p' \<and>
        pr_added p + adds cb \<le> pr_added p' \<and> function_count cb \<le> n"
proof (cases e)
  case (Module_Event m)
  then obtain d where d: "module_callback_of m = Some d" "c = map_option CB_Module d" using assms(2) by auto
  show ?thesis using step_module [OF assms(1) [unfolded Module_Event] d(1) assms(3)] d(2) by (auto split: option.splits)
next
  case (Define_Event m)
  then obtain d where d: "define_callback_of m = Some d" "c = map_option CB_Module d" using assms(2) by auto
  show ?thesis using step_define [OF assms(1) [unfolded Define_Event] d(1) assms(3)] d(2) by (auto split: option.splits)
next
  case (Segment_Event m)
  then have c: "c = map_option CB_Module (segment_callback_of m)" using assms(2) by simp
  show ?thesis
  proof (cases "segment_callback_of m")
    case None
    then show ?thesis using assms(1,3) c Segment_Event by (auto simp: step_simps split: if_splits)
  next
    case (Some cb)
    then show ?thesis using step_segment [OF assms(1) [unfolded Segment_Event] Some assms(3)] c by auto
  qed
qed (use assms in \<open>auto simp: step_simps fits_def callback_in_order_def is_function_count_def adds_def
    split: if_splits option.splits\<close>)

lemma protocol_in_order:
  assumes "protocol_run n p es = Some p'" "\<forall>e \<in> set es. callback_of e \<noteq> None" "fits counted begun p"
  shows "in_order counted begun (callbacks es) \<and> pr_added p + added (callbacks es) \<le> pr_added p' \<and>
    counts_ok n (callbacks es)"
  using assms
proof (induction es arbitrary: p counted begun)
  case Nil
  then show ?case by (simp add: added_def counts_ok_def)
next
  case (Cons e es)
  obtain p1 where p1: "protocol_step n p e = Some p1" "protocol_run n p1 es = Some p'"
    using Cons.prems(1) by (auto split: option.splits)
  obtain c where c: "callback_of e = Some c" using Cons.prems(2) by auto
  note step = step_order [OF p1(1) c Cons.prems(3)]
  show ?case
  proof (cases c)
    case None
    then have "callbacks (e # es) = callbacks es" using c by (simp add: callbacks_Cons)
    then show ?thesis using Cons.IH [OF p1(2), of counted begun] step None Cons.prems(2) by simp
  next
    case (Some cb)
    then have cbs: "callbacks (e # es) = cb # callbacks es" using c by (simp add: callbacks_Cons)
    show ?thesis
    proof (cases "cb = CB_Module CB_EndModule \<and> pr_done p1 \<and> pr_added p = pr_added p1")
      case True
      then have "es = []" using protocol_done_run p1(2) by blast
      then show ?thesis using True p1 cbs by (simp add: added_def adds_def counts_ok_def)
    next
      case False
      then have cb: "callback_in_order counted begun cb" "fits (counted \<or> is_function_count cb) (globals_begun cb @ begun) p1"
        "pr_added p + adds cb \<le> pr_added p1" "function_count cb \<le> n" using step Some by auto
      show ?thesis
        using Cons.IH [OF p1(2) _ cb(2)] Cons.prems(2) cb(1,3,4) unfolding cbs by (simp add: added_def counts_ok_def)
    qed
  qed
qed

lemma follows_in_order:
  assumes "follows_protocol n es" "\<forall>e \<in> set es. callback_of e \<noteq> None"
  shows "in_order False [] (callbacks es)" "added (callbacks es) \<le> n" "counts_ok n (callbacks es)"
proof -
  obtain p where "protocol_run n protocol_init es = Some p" "pr_added p \<le> n"
    using assms(1) by (auto simp: follows_protocol_def split: option.splits)
  moreover have "fits False [] protocol_init" by (simp add: fits_def protocol_init_def)
  ultimately show "in_order False [] (callbacks es)" "added (callbacks es) \<le> n" "counts_ok n (callbacks es)"
    using protocol_in_order [OF _ assms(2)] by fastforce+
qed

lemma callback_end: "callback_of e = Some (Some (CB_Module CB_EndModule)) \<Longrightarrow> e = Module_Event Ev_EndModule"
proof (cases e)
  fix m assume "callback_of e = Some (Some (CB_Module CB_EndModule))" "e = Module_Event m"
  then show ?thesis by (cases m) (auto split: option.splits)
next
  fix m assume "callback_of e = Some (Some (CB_Module CB_EndModule))" "e = Define_Event m"
  then show ?thesis by (cases m) (auto split: option.splits)
next
  fix m assume "callback_of e = Some (Some (CB_Module CB_EndModule))" "e = Segment_Event m"
  then show ?thesis by (cases m) (auto split: option.splits)
qed auto

lemma callbacks_end: "CB_Module CB_EndModule \<in> set (callbacks es) \<Longrightarrow> Module_Event Ev_EndModule \<in> set es"
  by (induction es) (auto simp: callbacks_Cons dest: callback_end split: option.splits)

section \<open>The loader keeps to the interface\<close>

definition loaded :: "(Index list \<Rightarrow> Index) \<Rightarrow> HostImportDelegate \<Rightarrow> Environment \<Rightarrow> event list \<Rightarrow> unit rres \<Rightarrow> BinaryReaderInterp \<Rightarrow> bool" where
  "loaded pick host env es r s \<longleftrightarrow> (\<forall>e \<in> set es. callback_of e \<noteq> None) \<and>
     r_each (run_callback pick host) (callbacks es) (Reader_init env) = (r, s)"

definition load_failed :: "(Index list \<Rightarrow> Index) \<Rightarrow> HostImportDelegate \<Rightarrow> Environment \<Rightarrow> event list \<Rightarrow> BinaryReaderInterp \<Rightarrow> bool" where
  "load_failed pick host env es s \<longleftrightarrow> (\<exists>r s0 msg. loaded pick host env es r s0 \<and> s = snd (Reader_PrintError msg s0) \<and>
     (r = RError \<or> r = ROk () \<and> Module_Event Ev_EndModule \<notin> set es))"

lemma loaded_step:
  assumes "loaded pick host env es (ROk ()) s" "loader_deliver pick host e s = (Some r, s')"
  shows "loaded pick host env (es @ [e]) (if r = Result_Ok then ROk () else RError) s'"
proof -
  have run: "r_each (run_callback pick host) (callbacks es) (Reader_init env) = (ROk (), s)"
    and known: "\<forall>e \<in> set es. callback_of e \<noteq> None" using assms(1) by (auto simp: loaded_def)
  obtain c where c: "callback_of e = Some c" using assms(2) by (cases "callback_of e") (auto simp: loader_deliver_def)
  show ?thesis
  proof (cases c)
    case None
    then show ?thesis using assms(2) run known c by (auto simp: loaded_def loader_deliver_def callbacks_append callbacks_Cons)
  next
    case (Some cb)
    obtain r1 s1 where cb: "run_callback pick host cb s = (r1, s1)" by fastforce
    then have "r_each (run_callback pick host) (callbacks es @ [cb]) (Reader_init env) = (r1, s1)"
      using run by (cases r1) (simp_all add: r_each_append r_then_def r_bind_def r_return_def)
    then show ?thesis
      using assms(2) known c Some cb
      by (cases r1) (auto simp: loaded_def loader_deliver_def callbacks_append callbacks_Cons)
  qed
qed

interpretation loader: reader_delegate "loader_delegate pick host" "\<lambda>es. loaded pick host env es (ROk ())"
  "load_failed pick host env"
proof unfold_locales
  fix es d offset e d'
  assume d: "loaded pick host env es (ROk ()) d"
  show "loaded pick host env (es @ [e]) (ROk ()) d'" if "deliver (loader_delegate pick host) offset e d = (Some Result_Ok, d')"
    using loaded_step [OF d] that by (fastforce simp: loader_delegate_def)
  show "load_failed pick host env (es @ [e]) (on_error (loader_delegate pick host) offset' level msg d')"
    if "deliver (loader_delegate pick host) offset e d = (Some Result_Error, d')" for offset' level msg
    using loaded_step [OF d] that by (fastforce simp: loader_delegate_def load_failed_def)
  show "load_failed pick host env es (on_error (loader_delegate pick host) offset' level msg d)"
    if "Module_Event Ev_EndModule \<notin> set es" for offset' level msg
    using d that by (fastforce simp: loader_delegate_def load_failed_def)
qed

section \<open>Loading a file\<close>

text \<open>A run on the bytes is a run on a list of callbacks, up to the message of the parser's error.\<close>

lemma ReadBinaryInterp_data_run:
  assumes "ReadBinaryInterp_data pick host data options env = Some (result, env', m, msgs)" "strict options"
  shows "\<exists>cbs parse_result msgs'. in_order False [] cbs \<and> added cbs \<le> length data \<and> counts_ok (length data) cbs \<and>
    ReadBinaryInterp pick host cbs parse_result env = Some (result, env', m, msgs') \<and>
    (CB_Module CB_EndModule \<in> set cbs \<longrightarrow> parse_result = Result_Ok) \<and>
    rd_istream (snd (r_each (run_callback pick host) cbs (Reader_init env))) =
      rd_istream (snd (ReadBinary data (loader_delegate pick host) (Reader_init env) options))"
proof -
  let ?n = "length data"
  obtain r s where read: "ReadBinary data (loader_delegate pick host) (Reader_init env) options = (r, s)" by fastforce
  have start: "loaded pick host env [] (ROk ()) (Reader_init env)" by (simp add: loaded_def r_return_def)
  note events = loader.ReadBinary_events [OF assms(2) start read]
  consider "r = BOk ()" | "r = BError" using assms(1) read by (cases r) (auto simp: ReadBinaryInterp_data_def Let_def)
  then show ?thesis
  proof cases
    case 1
    from events(1) [OF 1] obtain es where es: "loaded pick host env es (ROk ()) s" "follows_protocol ?n es" by blast
    then have known: "\<forall>e \<in> set es. callback_of e \<noteq> None"
      and run: "r_each (run_callback pick host) (callbacks es) (Reader_init env) = (ROk (), s)" by (auto simp: loaded_def)
    have "ReadBinaryInterp pick host (callbacks es) Result_Ok env = Some (result, env', m, msgs)"
      using assms(1) read 1 run by (simp add: ReadBinaryInterp_data_def ReadBinaryInterp_def Let_def)
    then show ?thesis using follows_in_order [OF es(2) known] run read by fastforce
  next
    case 2
    from events(2) [OF 2] obtain es where es: "load_failed pick host env es s" "follows_protocol ?n es" by blast
    then obtain r0 s0 msg where load: "loaded pick host env es r0 s0" and s: "s = snd (Reader_PrintError msg s0)"
      and r0: "r0 = RError \<or> r0 = ROk () \<and> Module_Event Ev_EndModule \<notin> set es" by (auto simp: load_failed_def)
    have known: "\<forall>e \<in> set es. callback_of e \<noteq> None"
      and run: "r_each (run_callback pick host) (callbacks es) (Reader_init env) = (r0, s0)"
      using load by (auto simp: loaded_def)
    let ?parse = "if r0 = RError then Result_Ok else Result_Error"
    have s0: "rd_env s = rd_env s0" "rd_istream s = rd_istream s0" using s by (simp_all add: Reader_PrintError_def r_mod_def)
    have "ReadBinaryInterp pick host (callbacks es) ?parse env = Some (result, env', m, errors (rd_typechecker s0))"
      using assms(1) read 2 run r0 s0 by (cases r0) (auto simp: ReadBinaryInterp_data_def ReadBinaryInterp_def Let_def)
    moreover have "CB_Module CB_EndModule \<in> set (callbacks es) \<longrightarrow> ?parse = Result_Ok"
      using r0 callbacks_end by auto
    ultimately show ?thesis using follows_in_order [OF es(2) known] run read s0(2) by fastforce
  qed
qed

text \<open>
  C36. Loading is atomic, from the bytes of the file to the store: for every file, when
  \<open>ReadBinaryInterp\<close> fails, because the file is malformed anywhere, a check fails or an import does not
  resolve, the store is the one it was before: every module, signature, function, table with its
  elements, memory with its contents, global with its value and the instruction stream, except that
  host modules may have gained exports (for imports resolved before the failure). The parser stops at
  the first error, as the interpreter asks it to; the store and the file together are small enough
  for 32-bit indices, and the registered names refer to modules.\<close>

theorem failed_read_keeps_store:
  assumes "ReadBinaryInterp_data pick host data options env = Some (Result_Error, env', m, msgs)" "strict options"
    and "length (env_funcs env) + 2 * length data < 2 ^ 32" "length (env_globals env) + length data + 1 < 2 ^ 32"
    and "\<forall>b \<in> set (env_registered_module_bindings env). unat (snd b) < length (env_modules env)"
    and "length (rd_istream (snd (ReadBinary data (loader_delegate pick host) (Reader_init env) options))) < 2 ^ 32"
  shows "m = None \<and> env' = env\<lparr>env_modules := env_modules env'\<rparr> \<and>
    list_all2 exports_grown (env_modules env) (env_modules env')"
proof -
  obtain cbs parse_result msgs' where run: "in_order False [] cbs" "added cbs \<le> length data" "counts_ok (length data) cbs"
    "ReadBinaryInterp pick host cbs parse_result env = Some (Result_Error, env', m, msgs')"
    "CB_Module CB_EndModule \<in> set cbs \<longrightarrow> parse_result = Result_Ok"
    "rd_istream (snd (r_each (run_callback pick host) cbs (Reader_init env))) =
      rd_istream (snd (ReadBinary data (loader_delegate pick host) (Reader_init env) options))"
    using ReadBinaryInterp_data_run [OF assms(1,2)] by blast
  have "length (env_funcs env) + added cbs + function_count cb < 2 ^ 32" if "cb \<in> set cbs" for cb
  proof -
    have "function_count cb \<le> length data" using run(3) that by (simp add: counts_ok_def)
    then show ?thesis using run(2) assms(3) by simp
  qed
  then have "sizes_ok env cbs" using run(2) assms(4) by (simp add: sizes_ok_def)
  from failed_load_keeps_store [OF run(4,1,5) this assms(5)] assms(6) run(6) show ?thesis by simp
qed

section \<open>A delegate that records\<close>

text \<open>It accepts some callbacks and keeps the list of those it got.\<close>

definition recorder :: "(event \<Rightarrow> bool) \<Rightarrow> event list BinaryReaderDelegate" where
  "recorder accepts =
     \<lparr>deliver = (\<lambda>offset e tr. (Some (if accepts e then Result_Ok else Result_Error), tr @ [e])),
      on_error = (\<lambda>offset level msg tr. tr)\<rparr>"

interpretation recorded: reader_delegate "recorder accepts" "\<lambda>es tr. tr = es \<and> list_all accepts es" "\<lambda>es tr. tr = es"
  by unfold_locales (auto simp: recorder_def split: if_splits)

lemma recorder_defined: "never_undefined (recorder accepts)"
  by (simp add: never_undefined_def recorder_def)


section \<open>A file\<close>

text \<open>
  The options of the interpreter without features, and a module with one type and two imported
  functions, the second from a module that does not exist.
\<close>

definition strict_options :: ReadBinaryOptions where
  "strict_options = \<lparr>opt_features = \<lparr>exceptions_enabled = False, mutable_globals_enabled = False,
     sat_float_to_int_enabled = False, sign_extension_enabled = False, simd_enabled = False,
     threads_enabled = False, multi_value_enabled = False\<rparr>, opt_read_debug_names = True,
     opt_stop_on_first_error = True, opt_fail_on_custom_section_error = True\<rparr>"

definition import_module :: bytes where
  "import_module = [0x00, 0x61, 0x73, 0x6d, 1, 0, 0, 0,  1, 4, 1, 0x60, 0, 0,
     2, 18, 2, 3, 0x65, 0x6e, 0x76, 1, 0x66, 0, 0,  4, 0x6e, 0x6f, 0x6e, 0x65, 1, 0x66, 0, 0]"

lemma length_import_module: "length import_module = 34"
  by (simp add: import_module_def)

lemma strict_strict_options: "strict strict_options"
  by (simp add: strict_def strict_options_def)

lemma recorded_import_module:
  "(case ReadBinary import_module (recorder (\<lambda>_. True)) [] strict_options of (r, tr) \<Rightarrow> (r, length tr)) = (BOk (), 15)"
  by code_simp


lemma loaded_import_module:
  "map_option (\<lambda>(r, e, m, msgs). (r, length (mod_exports (hd (env_modules e))), msgs))
     (ReadBinaryInterp_data hd import_delegate import_module strict_options host_env) =
   Some (Result_Error, 1, [''unknown import module \"none\"'', ''OnImportFunc callback failed''])"
  by code_simp

lemma import_module_stream:
  "rd_istream (snd (ReadBinary import_module (loader_delegate hd import_delegate) (Reader_init host_env) strict_options)) = []"
  by code_simp

theorem failed_read_keeps_store_witness:
  "\<exists>env'. ReadBinaryInterp_data hd import_delegate import_module strict_options host_env =
       Some (Result_Error, env', None, [''unknown import module \"none\"'', ''OnImportFunc callback failed'']) \<and>
     env' = host_env\<lparr>env_modules := env_modules env'\<rparr> \<and> env' \<noteq> host_env \<and>
     list_all2 exports_grown (env_modules host_env) (env_modules env')"
proof -
  obtain env' m where load: "ReadBinaryInterp_data hd import_delegate import_module strict_options host_env =
      Some (Result_Error, env', m, [''unknown import module \"none\"'', ''OnImportFunc callback failed''])"
    and grown: "length (mod_exports (hd (env_modules env'))) = 1"
    using loaded_import_module by auto
  have host: "env_funcs host_env = []" "env_globals host_env = []" "env_registered_module_bindings host_env = [(''env'', 0)]"
    "env_modules host_env = [HostModule_init ''env'']"
    by (simp_all add: host_env_def AppendHostModule_def EmplaceRegisteredModuleBinding_def EmplaceBackModule_def
        Environment_init_def)
  have "m = None \<and> env' = host_env\<lparr>env_modules := env_modules env'\<rparr> \<and>
      list_all2 exports_grown (env_modules host_env) (env_modules env')"
    by (rule failed_read_keeps_store [OF load strict_strict_options])
      (simp_all add: host import_module_stream length_import_module)
  moreover have "env' \<noteq> host_env" using grown host(4) by (auto simp: HostModule_init_def)
  ultimately show ?thesis using load by blast
qed

end
