(* ===== verification/Spec2Isabelle.thy ===== *)
theory Spec2Isabelle
  imports Leb128 Utf8 Opcodes TypeCheckerSpec SandboxSpec LiteralSpec InterpSpec InterpEffect BinaryReaderGates BinaryReaderLoad
begin

text \<open>
  A verification library for the WebAssembly Binary Toolkit and the sandbox built on it. The toolkit
  reads WebAssembly modules, checks them, runs them in an interpreter or turns them into C; the
  sandbox links that C with a runtime and lets a host program call it as an untrusted library. The
  library models, in executable definitions, the code both rest on: reading a module, checking its
  types, building code for the interpreter, running it, the memory and tables of generated code, and
  the host's side of the sandbox. File names are those of the directory \<^verbatim>\<open>src/\<close> of the repository, or of
  \<^verbatim>\<open>wasm2c/\<close>.

  \<^bold>\<open>The parts and how they interact.\<close> \<open>ReadBinary\<close> (\<^verbatim>\<open>binary-reader.cc\<close>) parses a module and calls a
  delegate for everything it finds, numbers by LEB128, names by UTF-8, instructions by the opcode
  table. One delegate is the loader of the interpreter: it checks each instruction with the type
  checker, appends it to one instruction stream, and adds functions, tables, memories and globals to
  a store shared by all modules. The executor runs functions of that store on a thread. Code
  generated by wasm2c has no interpreter: its loads and stores, its indirect calls and its \<open>sbrk\<close>
  are functions of the runtime, and the host calls it through \<open>WasmSandbox\<close>, which translates
  pointers, copies arguments and catches traps.

  \<^bold>\<open>Theories.\<close>
  \<^item> \<open>WabtPrelude\<close>: machine types, \<open>Result\<close>, outcomes of runtime calls, lemmas on words, and the
    interfaces \<open>byte_codec\<close> and \<open>step_system\<close>. \<open>WabtCommon\<close>: value types, features (\<^verbatim>\<open>common.h\<close>,
    \<^verbatim>\<open>feature.def\<close>).
  \<^item> \<open>Leb128\<close> (\<^verbatim>\<open>leb128.cc\<close>): the writers give the bytes they append, the readers take the bytes from
    the read position and give the value and the number of bytes read, 0 for a malformed number.
    Both are codecs: what is written is read back, in the space the code reserves, and the unsigned
    form is the shortest that is read.
  \<^item> \<open>Utf8\<close> (\<^verbatim>\<open>utf8.cc\<close>): the validator accepts exactly the encodings of sequences of Unicode scalar
    values.
  \<^item> \<open>OpcodeTable\<close>, \<open>Opcodes\<close> (\<^verbatim>\<open>opcode.def\<close>, \<^verbatim>\<open>opcode.h\<close>, \<^verbatim>\<open>opcode.cc\<close>): the 401 rows, the binary search by
    prefix and code, invalid opcodes, the features that gate them. The search finds every opcode by
    its encoding and confuses no two encodings; codes of more than eight bits are the exception.
  \<^item> \<open>TypeChecker\<close>, \<open>TypeCheckerFrames\<close>, \<open>TypeCheckerSpec\<close> (\<^verbatim>\<open>type-checker.cc\<close>): the state is the stack of
    types and the stack of labels, tops first, with the errors reported and a flag for the
    assertions; every method is a function to a \<open>Result\<close> and a state. Its calls are a step system
    with an invariant, the peek-then-drop checks implement the pops of the specification's
    validation algorithm, and a block leaves what lies below it alone.
  \<^item> \<open>WasmRt\<close>, \<open>WasmRtSpec\<close>, \<open>WasmRtTables\<close> (\<^verbatim>\<open>wasm-rt.h\<close>, \<^verbatim>\<open>wasm-rt-impl.cpp\<close>): the linear memory with
    checked accesses, the layout of the address space, the cookie at the end of the stack, \<open>sbrk\<close>,
    the numbers of function types and the callable table. Accesses are an instance of
    \<open>checked_memory\<close>, the two tables of \<open>interner\<close> and \<open>function_registry\<close>.
  \<^item> \<open>Sandbox\<close>, \<open>SandboxSpec\<close> (\<^verbatim>\<open>wasm_sandbox.h\<close>, \<^verbatim>\<open>wasm_sandbox.cpp\<close>): pointers across the boundary, calls
    into the module with their arguments, callbacks out of it, and the trap handler. The module's
    code is a parameter.
  \<^item> \<open>Literal\<close>, \<open>LiteralSpec\<close> (\<^verbatim>\<open>literal.cc\<close>): integer and floating-point literals of the text format;
    \<open>strtof\<close> and \<open>strtod\<close> are parameters.
  \<^item> \<open>Ieee754\<close>, \<open>Ieee754Spec\<close>: the floating-point operations C++ computes with, on bit patterns, with the
    order and the rounding of floats in the interface \<open>ieee_format\<close>. \<open>InterpNum\<close>, \<open>InterpNumSpec\<close>
    (\<^verbatim>\<open>interp.cc\<close>): the numeric templates of the interpreter, the conversions against the definitions
    of the WebAssembly specification.
  \<^item> \<open>InterpEnv\<close>: the store, with mark and reset. \<open>InterpMachine\<close>: the thread, its stacks, reading the
    instruction stream, memory accesses. \<open>InterpRun\<close>: the switch of \<open>Thread::Run\<close> as tables from
    opcodes to operations. \<open>InterpExec\<close>: the executor. \<open>InterpFrame\<close>, \<open>InterpSpec\<close>, \<open>InterpEffect\<close>: what
    an instruction and a call leave alone, tracing against plain running, and the effect of every
    instruction on the stacks against its signature.
  \<^item> \<open>InterpReader\<close>, \<open>InterpLoad\<close>, \<open>InterpLoadExpr\<close> (\<^verbatim>\<open>binary-reader-interp.cc\<close>): the loader. Its state is
    the record \<open>BinaryReaderInterp\<close>, pointers into the store are indices, a callback gives a value,
    fails, or has undefined behaviour. \<open>InterpLoadFrame\<close> holds a small Hoare logic for callbacks and
    the interface \<open>loader_contract\<close>: what an invariant owes the primitive operations, and that all
    instruction callbacks then keep it. \<open>InterpLoadSpec\<close> instantiates it for the instruction stream
    (branches are resolved, what is emitted is what is read), \<open>InterpLoadStore\<close> for the store (a
    load that fails adds nothing but exports of host modules).
  \<^item> \<open>BinaryReader\<close>, \<open>BinaryReaderBody\<close>, \<open>BinaryReaderSections\<close> (\<^verbatim>\<open>binary-reader.cc\<close>): the parser. An
    operation takes the record \<open>BinaryReader\<close> (the data, the offset, the end of what may be read, the
    counts, the delegate with its own state) to a value, \<open>Result::Error\<close>, or one of three outcomes
    that are never reached or only by the delegate; a callback is a value of \<open>event\<close> with its arguments, the
    delegate a record of two functions. \<open>BinaryReaderSpec\<close>: reads stay inside the data, loops end.
    \<open>BinaryReaderGates\<close>: instructions whose feature is off.
    \<open>BinaryReaderOrder\<close>, \<open>BinaryReaderEvents\<close>: the order of the callbacks as an automaton over events
    (\<open>follows_protocol\<close>) and the interface \<open>reader_delegate\<close>, which carries an invariant of the
    delegate through a whole file. \<open>BinaryReaderLoad\<close> (\<^verbatim>\<open>binary-reader-interp.cc\<close>): its two instances,
    the loader and a delegate that records, and \<open>ReadBinaryInterp\<close> on the bytes of a file, where a
    failed load leaves the store as it was.

  \<^bold>\<open>Effects, errors, undefined behaviour.\<close> Stateful code is a function to a result and the new state.
  \<open>Result::Error\<close>, traps, \<open>abort\<close> and \<open>longjmp\<close> are values of the result; what C++ leaves undefined
  (an index outside a vector, a failed assertion in a release build, a cast that does not fit) is a
  value of its own (\<open>IUndef\<close>, \<open>RUndef\<close>, \<open>NumUB\<close>) or, in the type checker, a flag of the state, so that a
  theorem that assumes a result also says that none of it happened. Machine integers are words of their width.

  \<^bold>\<open>Fuel and bounds.\<close> \<open>Run_loop\<close> runs as many instructions as \<open>Thread::Run\<close> is asked to; \<open>run_until\<close> takes
  the number of calls of it the executor may make, and gives \<open>None\<close> when they do not suffice: a
  theorem that assumes an answer is about runs that end, and \<open>tracing_transparent\<close> shows that more
  fuel does not change the answer. The loops of the parser up to an offset (\<open>b_until\<close>) have the bytes up
  to it as fuel, enough because each turn reads one (\<open>ReadBinary_terminates\<close>). All other loops are
  structural recursion or have a measure.
  Theorems on the loader bound the instruction stream, the functions and the globals by \<open>2 ^ 32\<close>,
  the range of the offsets and indices of the code.

  \<^bold>\<open>Not modelled.\<close> The text format (the lexer is generated by re2c; the parser and the writers work on
  the syntax tree of \<^verbatim>\<open>ir.h\<close>, which is not modelled), the passes over that tree, the validator that
  walks it (the type checker it calls is modelled), the binary and C writers, the printing delegates,
  the disassembler and the trace of the interpreter, which only print, the log stream of the parser (a printing delegate around the other) and its output
  of errors no delegate handles, and the command-line tools.
  Of the sandbox, the dynamic loader and the system calls are the operating system's; one thread and
  one sandbox are modelled.
\<close>

end
